(* ===== verification/Prelude.thy ===== *)
theory Prelude
  imports Main "HOL-Library.AList" "HOL-Library.Char_ord" "HOL-Library.List_Lexorder"
begin

text \<open>
  Shared vocabulary of the development: Go errors as values, Go's 64-bit integers, actions of
  the control plane as state-passing functions that may fail, the interface of a relation that
  every action respects, and generic lemmas on lists and association lists.
\<close>

named_theorems act_simps \<open>success equations of actions\<close>
named_theorems domain_simps \<open>definitions of the domain's predicates\<close>

section \<open>Errors\<close>

text \<open>
  A Go error is a value. The sentinel errors of the source (\<^verbatim>\<open>errors.New\<close> at package level,
  matched with \<^verbatim>\<open>errors.Is\<close>) are constructors; an anonymous \<^verbatim>\<open>errors.New(msg)\<close> or
  \<^verbatim>\<open>fmt.Errorf\<close> is \<open>Err msg\<close>. A sentinel wrapped by \<^verbatim>\<open>%w\<close> carries the text added to it.
\<close>

datatype err =
    Err string
  | ErrInvalidTransition string
  | ErrForbidden string
  | ErrApprovalMissing
  | ErrSourceUnavailable string
  | ErrNotFound
  | ErrVersionConflict string
  | ErrArtifactTooLarge
  | ErrArtifactPurged
  | ErrRetentionActive
  | ErrLogTooLarge

fun errText :: "err \<Rightarrow> string" where
  "errText (Err m) = m"
| "errText (ErrInvalidTransition m) = ''research: invalid campaign transition: '' @ m"
| "errText (ErrForbidden m) = ''research service: forbidden: '' @ m"
| "errText ErrApprovalMissing = ''research service: approved decision not found''"
| "errText (ErrSourceUnavailable m) = ''research service: source acquisition unavailable: '' @ m"
| "errText ErrNotFound = ''research store: object not found''"
| "errText (ErrVersionConflict m) = ''research store: version conflict'' @ m"
| "errText ErrArtifactTooLarge = ''research store: artifact exceeds size limit''"
| "errText ErrArtifactPurged = ''research store: artifact has been purged''"
| "errText ErrRetentionActive = ''research store: artifact retention period is active''"
| "errText ErrLogTooLarge = ''research triage: log exceeds parser limit''"

type_synonym 'a result = "err + 'a"

abbreviation ok :: "'a result \<Rightarrow> bool" where
  "ok r \<equiv> \<not> isl r"

definition rbind :: "'a result \<Rightarrow> ('a \<Rightarrow> 'b result) \<Rightarrow> 'b result" where
  "rbind r f = (case r of Inl e \<Rightarrow> Inl e | Inr x \<Rightarrow> f x)"

lemma rbind_simps [simp]:
  "rbind (Inl e) f = Inl e"
  "rbind (Inr x) f = f x"
  by (simp_all add: rbind_def)

lemma rbind_Inr_iff [simp]: "rbind r f = Inr y \<longleftrightarrow> (\<exists>x. r = Inr x \<and> f x = Inr y)"
  by (cases r) auto

definition check :: "bool \<Rightarrow> string \<Rightarrow> unit result" where
  "check b m = (if b then Inr () else Inl (Err m))"

lemma check_Inr_iff [simp]: "check b m = Inr u \<longleftrightarrow> b"
  by (simp add: check_def)

lemma check_simps [simp]:
  "check True m = Inr ()"
  "check False m = Inl (Err m)"
  by (simp_all add: check_def)

section \<open>64-bit integers\<close>

text \<open>Go's \<^verbatim>\<open>int64\<close> (and \<^verbatim>\<open>int\<close> on the supported 64-bit platforms): two's complement wrap-around.\<close>

definition wrap64 :: "int \<Rightarrow> int" where
  "wrap64 x = (x + 2 ^ 63) mod 2 ^ 64 - 2 ^ 63"

definition is_int64 :: "int \<Rightarrow> bool" where
  "is_int64 x \<longleftrightarrow> - (2 ^ 63) \<le> x \<and> x < 2 ^ 63"

lemma wrap64_id [simp]: "is_int64 x \<Longrightarrow> wrap64 x = x"
  by (simp add: wrap64_def is_int64_def)

lemma wrap64_range: "is_int64 (wrap64 x)"
proof -
  have "0 \<le> (x + 2 ^ 63) mod 2 ^ 64" "(x + 2 ^ 63) mod 2 ^ 64 < (2 ^ 64 :: int)"
    by simp_all
  then show ?thesis by (simp add: wrap64_def is_int64_def)
qed

lemma wrap64_neq_Suc: "wrap64 (x + 1) \<noteq> x"
proof
  assume "wrap64 (x + 1) = x"
  then have "(x + 1 + 2 ^ 63) mod 2 ^ 64 = x + (2 ^ 63 :: int)"
    by (simp add: wrap64_def)
  then have "(x + 1 + 2 ^ 63) mod 2 ^ 64 = (x + 2 ^ 63) mod (2 ^ 64 :: int)"
    by (metis mod_mod_trivial)
  then have "(2 ^ 64 :: int) dvd (x + 1 + 2 ^ 63) - (x + 2 ^ 63)"
    by (simp only: mod_eq_dvd_iff)
  then show False by simp
qed

lemma wrap64_add_left: "wrap64 (wrap64 x + y) = wrap64 (x + y)"
proof -
  have "(wrap64 x + y + 2 ^ 63) mod 2 ^ 64 = ((x + 2 ^ 63) mod 2 ^ 64 + y) mod (2 ^ 64 :: int)"
    by (simp add: wrap64_def)
  also have "\<dots> = (x + 2 ^ 63 + y) mod 2 ^ 64" by (rule mod_add_left_eq)
  also have "x + 2 ^ 63 + y = x + y + (2 ^ 63 :: int)" by simp
  finally show ?thesis by (simp only: wrap64_def)
qed

section \<open>Actions\<close>

text \<open>
  An action of the control plane takes the current state and returns its Go error or its value
  together with the new state; what an action wrote before it failed stays written, as in the
  code, which has no transaction around a request. \<open>act_bind\<close> is Go's
  \<^verbatim>\<open>x, err := m(); if err != nil { return err }\<close>.
\<close>

type_synonym ('s, 'a) act = "'s \<Rightarrow> 'a result \<times> 's"

definition act_return :: "'a \<Rightarrow> ('s, 'a) act" where
  "act_return x s = (Inr x, s)"

definition act_fail :: "err \<Rightarrow> ('s, 'a) act" where
  "act_fail e s = (Inl e, s)"

definition act_bind :: "('s, 'a) act \<Rightarrow> ('a \<Rightarrow> ('s, 'b) act) \<Rightarrow> ('s, 'b) act" where
  "act_bind m f s = (case m s of (Inl e, s') \<Rightarrow> (Inl e, s') | (Inr x, s') \<Rightarrow> f x s')"

text \<open>A pure result used inside an action (\<^verbatim>\<open>if err != nil { return err }\<close>).\<close>

definition act_lift :: "'a result \<Rightarrow> ('s, 'a) act" where
  "act_lift r s = (r, s)"

text \<open>A guard: \<^verbatim>\<open>if !b { return d }\<close>.\<close>

definition act_ensure :: "bool \<Rightarrow> ('s, unit) act \<Rightarrow> ('s, unit) act" where
  "act_ensure b d = (if b then act_return () else d)"

text \<open>A pure result whose error is handled by \<open>h\<close>: \<^verbatim>\<open>if err != nil { return h(err) }\<close>.\<close>

definition act_orElse :: "'a result \<Rightarrow> (err \<Rightarrow> ('s, 'a) act) \<Rightarrow> ('s, 'a) act" where
  "act_orElse r h = (case r of Inl e \<Rightarrow> h e | Inr x \<Rightarrow> act_return x)"

text \<open>An action whose error is handled by \<open>h\<close>.\<close>

definition act_catch :: "('s, 'a) act \<Rightarrow> (err \<Rightarrow> ('s, 'a) act) \<Rightarrow> ('s, 'a) act" where
  "act_catch m h s = (case m s of (Inl e, s') \<Rightarrow> h e s' | (Inr x, s') \<Rightarrow> (Inr x, s'))"

text \<open>An action whose result is discarded: \<^verbatim>\<open>_, _ = m()\<close>.\<close>

definition act_ignore :: "('s, 'a) act \<Rightarrow> ('s, unit) act" where
  "act_ignore m s = (Inr (), snd (m s))"

text \<open>Reading the state.\<close>

definition act_gets :: "('s \<Rightarrow> 'a result) \<Rightarrow> ('s, 'a) act" where
  "act_gets g s = (g s, s)"

fun act_each :: "('x \<Rightarrow> ('s, unit) act) \<Rightarrow> 'x list \<Rightarrow> ('s, unit) act" where
  "act_each f [] = act_return ()"
| "act_each f (x # xs) = act_bind (f x) (\<lambda>_. act_each f xs)"

lemma act_bind_Inr_iff [act_simps]:
  "act_bind m f s = (Inr y, s'') \<longleftrightarrow> (\<exists>x s'. m s = (Inr x, s') \<and> f x s' = (Inr y, s''))"
  by (auto simp: act_bind_def split: prod.splits sum.splits)

lemma act_bind_assoc: "act_bind (act_bind m f) g = act_bind m (\<lambda>x. act_bind (f x) g)"
  by (simp add: act_bind_def fun_eq_iff split: prod.splits sum.splits)

lemma act_return_bind: "act_bind (act_return x) f = f x"
  by (simp add: act_bind_def act_return_def fun_eq_iff)

lemma act_return_iff [act_simps]: "act_return x s = (r, s') \<longleftrightarrow> r = Inr x \<and> s' = s"
  by (auto simp: act_return_def)

lemma act_fail_iff [act_simps]: "act_fail e s = (r, s') \<longleftrightarrow> r = Inl e \<and> s' = s"
  by (auto simp: act_fail_def)

lemma act_lift_iff [act_simps]: "act_lift r s = (r', s') \<longleftrightarrow> r' = r \<and> s' = s"
  by (auto simp: act_lift_def)

lemma act_gets_iff [act_simps]: "act_gets g s = (r, s') \<longleftrightarrow> r = g s \<and> s' = s"
  by (auto simp: act_gets_def)

lemma act_ignore_iff [act_simps]: "act_ignore m s = (r, s') \<longleftrightarrow> r = Inr () \<and> s' = snd (m s)"
  by (auto simp: act_ignore_def)

text \<open>An action that never succeeds: a refusal.\<close>

definition refuses :: "('s, 'a) act \<Rightarrow> bool" where
  "refuses m \<longleftrightarrow> (\<forall>s. isl (fst (m s)))"

lemma refusesD: "refuses m \<Longrightarrow> m s \<noteq> (Inr x, s')"
  unfolding refuses_def by (metis fst_conv isl_def sum.distinct(1))

lemma act_ensure_Inr_iff [act_simps]:
  "refuses d \<Longrightarrow> act_ensure b d s = (Inr u, s') \<longleftrightarrow> b \<and> s' = s"
  by (auto simp: act_ensure_def act_return_def dest: refusesD)

lemma act_orElse_Inr_iff [act_simps]:
  "(\<And>e. refuses (h e)) \<Longrightarrow> act_orElse r h s = (Inr x, s') \<longleftrightarrow> r = Inr x \<and> s' = s"
  by (cases r) (auto simp: act_orElse_def act_return_def dest: refusesD)

lemma act_catch_Inr_iff [act_simps]:
  "(\<And>e. refuses (h e)) \<Longrightarrow> act_catch m h s = (Inr x, s') \<longleftrightarrow> m s = (Inr x, s')"
  by (auto simp: act_catch_def dest: refusesD split: prod.splits sum.splits)

section \<open>Relations that every action respects\<close>

text \<open>
  The contract of a store relation: a reflexive and transitive relation between the state before
  and the state after. An action \<open>evolves\<close> when its run stays inside the relation, whatever
  it returns; the closure laws below prove it for a whole handler from its steps.
\<close>

definition evolves :: "('s \<Rightarrow> 's \<Rightarrow> bool) \<Rightarrow> ('s, 'a) act \<Rightarrow> bool" where
  "evolves R m \<longleftrightarrow> (\<forall>s. R s (snd (m s)))"

lemma evolvesD: "evolves R m \<Longrightarrow> m s = (r, s') \<Longrightarrow> R s s'"
  unfolding evolves_def by (metis snd_conv)

locale store_relation =
  fixes R :: "'s \<Rightarrow> 's \<Rightarrow> bool"
  assumes rel_refl: "R s s"
    and rel_trans: "R s t \<Longrightarrow> R t u \<Longrightarrow> R s u"
begin

lemma evolves_return [intro!, simp]: "evolves R (act_return x)"
  by (simp add: evolves_def act_return_def rel_refl)

lemma evolves_fail [intro!, simp]: "evolves R (act_fail e)"
  by (simp add: evolves_def act_fail_def rel_refl)

lemma evolves_lift [intro!, simp]: "evolves R (act_lift r)"
  by (simp add: evolves_def act_lift_def rel_refl)

lemma evolves_gets [intro!, simp]: "evolves R (act_gets g)"
  by (simp add: evolves_def act_gets_def rel_refl)

lemma evolves_bind [intro!]:
  assumes "evolves R m" "\<And>x. evolves R (f x)"
  shows "evolves R (act_bind m f)"
  unfolding evolves_def
proof
  fix s
  obtain r s1 where m: "m s = (r, s1)" by fastforce
  with assms(1) have "R s s1" by (rule evolvesD)
  with assms(2) show "R s (snd (act_bind m f s))"
    by (auto simp: act_bind_def m evolves_def rel_trans split: sum.splits)
qed

lemma bind_at:
  assumes "R s (snd (m s))" "\<And>x s1. m s = (Inr x, s1) \<Longrightarrow> R s1 (snd (f x s1))"
  shows "R s (snd (act_bind m f s))"
proof (cases "m s")
  case (Pair r s1)
  with assms show ?thesis by (cases r) (auto simp: act_bind_def intro: rel_trans)
qed

lemma evolves_ensure [intro!]: "evolves R d \<Longrightarrow> evolves R (act_ensure b d)"
  by (simp add: act_ensure_def)

lemma evolves_orElse [intro!]: "(\<And>e. evolves R (h e)) \<Longrightarrow> evolves R (act_orElse r h)"
  by (simp add: act_orElse_def split: sum.splits)

lemma evolves_ignore [intro!]: "evolves R m \<Longrightarrow> evolves R (act_ignore m)"
  by (simp add: evolves_def act_ignore_def)

lemma evolves_catch [intro!]:
  assumes "evolves R m" "\<And>e. evolves R (h e)"
  shows "evolves R (act_catch m h)"
  unfolding evolves_def
proof
  fix s
  obtain r s1 where m: "m s = (r, s1)" by fastforce
  with assms(1) have "R s s1" by (rule evolvesD)
  with assms(2) show "R s (snd (act_catch m h s))"
    by (auto simp: act_catch_def m evolves_def rel_trans split: sum.splits)
qed

lemma evolves_each [intro!]: "(\<And>x. evolves R (f x)) \<Longrightarrow> evolves R (act_each f xs)"
  by (induction xs) auto

lemma evolves_if [intro!]: "evolves R m \<Longrightarrow> evolves R n \<Longrightarrow> evolves R (if b then m else n)"
  by simp

lemma evolves_option [intro!]:
  "evolves R m \<Longrightarrow> (\<And>x. evolves R (f x)) \<Longrightarrow> evolves R (case v of None \<Rightarrow> m | Some x \<Rightarrow> f x)"
  by (simp split: option.split)

lemma evolves_sum [intro!]:
  "(\<And>e. evolves R (g e)) \<Longrightarrow> (\<And>x. evolves R (f x)) \<Longrightarrow>
    evolves R (case v of Inl e \<Rightarrow> g e | Inr x \<Rightarrow> f x)"
  by (simp split: sum.split)

lemma evolves_prod [intro!]:
  "(\<And>x y. evolves R (f x y)) \<Longrightarrow> evolves R (case v of (x, y) \<Rightarrow> f x y)"
  by (simp split: prod.split)

end

section \<open>Lists\<close>

lemma sorted_insort_key_stable_set [simp]: "set (sort_key f xs) = set xs"
  by simp

lemma find_SomeD: "find P xs = Some x \<Longrightarrow> P x \<and> x \<in> set xs"
  by (auto simp: find_Some_iff)

lemma map_of_update_same [simp]: "map_of (AList.update k v al) k = Some v"
  by (simp add: update_Some_unfold)

lemma map_of_update_other [simp]: "k' \<noteq> k \<Longrightarrow> map_of (AList.update k v al) k' = map_of al k'"
  by (simp add: update_conv')

lemma map_of_snoc_fresh:
  "map_of al k = None \<Longrightarrow> map_of (al @ [(k, v)]) k' = (if k' = k then Some v else map_of al k')"
  by (auto simp: map_add_def split: option.splits)

end
