(* ===== verification/Go_Strings.thy ===== *)
theory Go_Strings
  imports Prelude
begin

text \<open>
  The functions of Go's \<^verbatim>\<open>strings\<close>, \<^verbatim>\<open>strconv\<close> and \<^verbatim>\<open>fmt\<close> packages that the research
  packages call, on byte strings: a Go string is a sequence of bytes, here a \<^typ>\<open>string\<close>,
  whose characters are bytes. Unicode white space is recognised by its UTF-8 encodings, which is
  what decoding the string rune by rune does, since no encoding of another rune contains one of
  their leading bytes. Case mapping of non-ASCII strings is a parameter \<open>uniLower\<close>.
\<close>

definition hasPrefix :: "string \<Rightarrow> string \<Rightarrow> bool" where
  "hasPrefix s p \<longleftrightarrow> take (length p) s = p"

definition hasSuffix :: "string \<Rightarrow> string \<Rightarrow> bool" where
  "hasSuffix s p \<longleftrightarrow> hasPrefix (rev s) (rev p)"

definition trimPrefix :: "string \<Rightarrow> string \<Rightarrow> string" where
  "trimPrefix s p = (if hasPrefix s p then drop (length p) s else s)"

definition trimSuffix :: "string \<Rightarrow> string \<Rightarrow> string" where
  "trimSuffix s p = (if hasSuffix s p then take (length s - length p) s else s)"

fun strContains :: "string \<Rightarrow> string \<Rightarrow> bool" where
  "strContains [] sub = (sub = [])"
| "strContains (c # cs) sub = (hasPrefix (c # cs) sub \<or> strContains cs sub)"

lemma hasPrefix_iff: "hasPrefix s p \<longleftrightarrow> (\<exists>t. s = p @ t)"
  unfolding hasPrefix_def by (metis append_take_drop_id append_eq_conv_conj)

lemma hasPrefix_append [simp]: "hasPrefix (p @ t) p"
  by (simp add: hasPrefix_def)

lemma hasPrefix_Nil [simp]: "hasPrefix s []"
  by (simp add: hasPrefix_def)

lemma hasSuffix_iff: "hasSuffix s p \<longleftrightarrow> (\<exists>t. s = t @ p)"
proof -
  have "hasSuffix s p \<longleftrightarrow> (\<exists>t. rev s = rev p @ t)"
    by (simp add: hasSuffix_def hasPrefix_iff)
  also have "\<dots> \<longleftrightarrow> (\<exists>t. s = t @ p)"
    by (metis rev_append rev_rev_ident)
  finally show ?thesis .
qed

lemma trimPrefix_append [simp]: "trimPrefix (p @ t) p = t"
  by (simp add: trimPrefix_def)

lemma hasPrefix_trimPrefix: "hasPrefix s p \<Longrightarrow> p @ trimPrefix s p = s"
  by (auto simp: hasPrefix_iff)

lemma strContains_iff: "strContains s sub \<longleftrightarrow> (\<exists>a b. s = a @ sub @ b)"
proof (induction s)
  case Nil
  then show ?case by auto
next
  case (Cons c cs)
  have "(\<exists>a b. c # cs = a @ sub @ b) \<longleftrightarrow>
      (\<exists>b. c # cs = sub @ b) \<or> (\<exists>a b. cs = a @ sub @ b)"
    by (metis append_Cons append_Nil list.sel(3) neq_Nil_conv)
  with Cons.IH show ?case by (simp add: hasPrefix_iff)
qed

section \<open>White space\<close>

text \<open>UTF-8 encodings of the runes for which \<^verbatim>\<open>unicode.IsSpace\<close> holds.\<close>

definition spaceRunes :: "string list" where
  "spaceRunes =
     [[CHR 0x09], [CHR 0x0A], [CHR 0x0B], [CHR 0x0C], [CHR 0x0D], [CHR 0x20],
      [CHR 0xC2, CHR 0x85], [CHR 0xC2, CHR 0xA0],
      [CHR 0xE1, CHR 0x9A, CHR 0x80],
      [CHR 0xE2, CHR 0x80, CHR 0x80], [CHR 0xE2, CHR 0x80, CHR 0x81], [CHR 0xE2, CHR 0x80, CHR 0x82],
      [CHR 0xE2, CHR 0x80, CHR 0x83], [CHR 0xE2, CHR 0x80, CHR 0x84], [CHR 0xE2, CHR 0x80, CHR 0x85],
      [CHR 0xE2, CHR 0x80, CHR 0x86], [CHR 0xE2, CHR 0x80, CHR 0x87], [CHR 0xE2, CHR 0x80, CHR 0x88],
      [CHR 0xE2, CHR 0x80, CHR 0x89], [CHR 0xE2, CHR 0x80, CHR 0x8A],
      [CHR 0xE2, CHR 0x80, CHR 0xA8], [CHR 0xE2, CHR 0x80, CHR 0xA9],
      [CHR 0xE2, CHR 0x80, CHR 0xAF], [CHR 0xE2, CHR 0x81, CHR 0x9F],
      [CHR 0xE3, CHR 0x80, CHR 0x80]]"

definition stripSeq :: "string list \<Rightarrow> string \<Rightarrow> string option" where
  "stripSeq seqs s =
     map_option (\<lambda>p. drop (length p) s) (find (\<lambda>p. p \<noteq> [] \<and> hasPrefix s p) seqs)"

lemma stripSeq_shorter: "stripSeq seqs s = Some r \<Longrightarrow> length r < length s"
  by (auto simp: stripSeq_def hasPrefix_iff dest!: find_SomeD)

function trimSeqs :: "string list \<Rightarrow> string \<Rightarrow> string" where
  "trimSeqs seqs s = (case stripSeq seqs s of None \<Rightarrow> s | Some r \<Rightarrow> trimSeqs seqs r)"
  by pat_completeness auto
termination
  by (relation "measure (\<lambda>(seqs, s). length s)") (auto dest: stripSeq_shorter)

declare trimSeqs.simps [simp del]

definition trimLeftSpace :: "string \<Rightarrow> string" where
  "trimLeftSpace s = trimSeqs spaceRunes s"

definition trimRightSpace :: "string \<Rightarrow> string" where
  "trimRightSpace s = rev (trimSeqs (map rev spaceRunes) (rev s))"

definition trimSpace :: "string \<Rightarrow> string" where
  "trimSpace s = trimRightSpace (trimLeftSpace s)"

lemma trimSeqs_None: "stripSeq seqs (trimSeqs seqs s) = None"
proof (induction seqs s rule: trimSeqs.induct)
  case (1 seqs s)
  then show ?case
    by (cases "stripSeq seqs s") (simp_all add: trimSeqs.simps [of seqs s])
qed

lemma trimSeqs_idem: "stripSeq seqs s = None \<Longrightarrow> trimSeqs seqs s = s"
  by (simp add: trimSeqs.simps)

lemma trimSeqs_Nil [simp]: "trimSeqs seqs [] = []"
proof -
  have "stripSeq seqs [] = None"
    by (cases "stripSeq seqs []") (auto dest: stripSeq_shorter)
  then show ?thesis by (rule trimSeqs_idem)
qed

lemma trimSpace_Nil [simp]: "trimSpace [] = []"
  by (simp add: trimSpace_def trimLeftSpace_def trimRightSpace_def)

lemma trimSeqs_length: "length (trimSeqs seqs s) \<le> length s"
proof (induction seqs s rule: trimSeqs.induct)
  case (1 seqs s)
  then show ?case
    by (cases "stripSeq seqs s")
      (auto simp: trimSeqs.simps [of seqs s] dest: stripSeq_shorter)
qed

lemma trimSpace_length: "length (trimSpace s) \<le> length s"
  unfolding trimSpace_def trimLeftSpace_def trimRightSpace_def
  by (metis length_rev order_trans trimSeqs_length)

text \<open>\<^verbatim>\<open>strings.Fields\<close>: the maximal runs of non-space.\<close>

function fieldsAux :: "string \<Rightarrow> string \<Rightarrow> string list" where
  "fieldsAux w s =
     (case s of
        [] \<Rightarrow> (if w = [] then [] else [rev w])
      | c # cs \<Rightarrow>
          (case stripSeq spaceRunes s of
             Some r \<Rightarrow> (if w = [] then [] else [rev w]) @ fieldsAux [] r
           | None \<Rightarrow> fieldsAux (c # w) cs))"
  by pat_completeness auto
termination
  by (relation "measure (\<lambda>(w, s). length s)") (auto dest: stripSeq_shorter)

declare fieldsAux.simps [simp del]

definition fields :: "string \<Rightarrow> string list" where
  "fields s = fieldsAux [] s"

section \<open>Case, splitting, joining, replacing\<close>

definition lowerChar :: "char \<Rightarrow> char" where
  "lowerChar c = (let n = (of_char c :: nat) in if 65 \<le> n \<and> n \<le> 90 then char_of (n + 32) else c)"

definition isASCII :: "string \<Rightarrow> bool" where
  "isASCII s \<longleftrightarrow> list_all (\<lambda>c. (of_char c :: nat) < 128) s"

definition toLower :: "(string \<Rightarrow> string) \<Rightarrow> string \<Rightarrow> string" where
  "toLower uniLower s = (if isASCII s then map lowerChar s else uniLower s)"

fun splitChar :: "char \<Rightarrow> string \<Rightarrow> string list" where
  "splitChar sep [] = [[]]"
| "splitChar sep (c # cs) =
     (if c = sep then [] # splitChar sep cs
      else (case splitChar sep cs of [] \<Rightarrow> [[c]] | w # ws \<Rightarrow> (c # w) # ws))"

fun strJoin :: "string \<Rightarrow> string list \<Rightarrow> string" where
  "strJoin sep [] = []"
| "strJoin sep [w] = w"
| "strJoin sep (w # w' # ws) = w @ sep @ strJoin sep (w' # ws)"

lemma splitChar_nonempty [simp]: "splitChar sep s \<noteq> []"
  by (cases s) (auto split: list.splits)

lemma strJoin_Cons_char: "strJoin sep ((c # w) # ws) = c # strJoin sep (w # ws)"
  by (cases ws) auto

lemma strJoin_splitChar: "strJoin [sep] (splitChar sep s) = s"
proof (induction s)
  case Nil
  then show ?case by simp
next
  case (Cons c cs)
  obtain w ws where w: "splitChar sep cs = w # ws"
    by (metis neq_Nil_conv splitChar_nonempty)
  with Cons show ?case by (auto simp: strJoin_Cons_char)
qed

lemma splitChar_no_sep: "w \<in> set (splitChar sep s) \<Longrightarrow> sep \<notin> set w"
  by (induction s arbitrary: w) (auto split: list.splits if_splits)

function replaceAll :: "string \<Rightarrow> string \<Rightarrow> string \<Rightarrow> string" where
  "replaceAll [] old new = []"
| "replaceAll (c # cs) old new =
     (if hasPrefix (c # cs) old then new @ replaceAll (drop (length old - 1) cs) old new
      else c # replaceAll cs old new)"
  by pat_completeness auto
termination
  by (relation "measure (\<lambda>(s, old, new). length s)") auto

text \<open>\<^verbatim>\<open>strconv.Itoa\<close>, \<^verbatim>\<open>fmt.Sprint\<close> and \<^verbatim>\<open>%d\<close> of an integer.\<close>

definition digitChar :: "int \<Rightarrow> char" where
  "digitChar d = ''0123456789'' ! nat d"

function showPos :: "int \<Rightarrow> string" where
  "showPos n = (if n < 10 then [digitChar n] else showPos (n div 10) @ [digitChar (n mod 10)])"
  by pat_completeness auto
termination
  by (relation "measure nat") auto

declare showPos.simps [simp del]

definition showInt :: "int \<Rightarrow> string" where
  "showInt i = (if i < 0 then CHR ''-'' # showPos (- i) else showPos i)"

definition showBool :: "bool \<Rightarrow> string" where
  "showBool b = (if b then ''true'' else ''false'')"

end
