(* ===== verification/Go_Time.thy ===== *)
theory Go_Time
  imports Go_Strings
begin

text \<open>
  Go's \<^verbatim>\<open>time.Time\<close> as an instant: nanoseconds since the zero time, 1 January of year 1 UTC. The
  location a \<^verbatim>\<open>time.Time\<close> carries is not part of the model. \<^verbatim>\<open>Sub\<close> saturates at the range of
  \<^verbatim>\<open>time.Duration\<close>. \<open>timestamp\<close> is the text the store writes into its time columns.
\<close>

type_synonym time = int
type_synonym duration = int

definition zeroTime :: time where
  "zeroTime = 0"

definition isZero :: "time \<Rightarrow> bool" where
  "isZero t \<longleftrightarrow> t = zeroTime"

definition timeBefore :: "time \<Rightarrow> time \<Rightarrow> bool" where
  "timeBefore t u \<longleftrightarrow> t < u"

definition timeAfter :: "time \<Rightarrow> time \<Rightarrow> bool" where
  "timeAfter t u \<longleftrightarrow> u < t"

definition timeSub :: "time \<Rightarrow> time \<Rightarrow> duration" where
  "timeSub t u = max (- (2 ^ 63)) (min (2 ^ 63 - 1) (t - u))"

definition nsecond :: int where "nsecond = 1000000000"
definition nminute :: int where "nminute = 60 * nsecond"
definition nhour :: int where "nhour = 60 * nminute"

lemmas time_defs = zeroTime_def isZero_def timeBefore_def timeAfter_def
lemmas duration_defs = timeSub_def nhour_def nminute_def nsecond_def

text \<open>\<^verbatim>\<open>time.Time.Date\<close>: year, month and day of the day number counted from 1 January of year 1.\<close>

definition monthStarts :: "(int \<times> int) list" where
  "monthStarts =
     [(12, 334), (11, 304), (10, 273), (9, 243), (8, 212), (7, 181), (6, 151), (5, 120), (4, 90),
      (3, 59), (2, 31)]"

fun monthOf :: "bool \<Rightarrow> int \<Rightarrow> (int \<times> int) list \<Rightarrow> int \<times> int" where
  "monthOf leap yday [] = (1, yday + 1)"
| "monthOf leap yday ((m, s) # ms) =
     (let start = s + (if leap \<and> 3 \<le> m then 1 else 0)
      in if start \<le> yday then (m, yday - start + 1) else monthOf leap yday ms)"

definition civil :: "int \<Rightarrow> int \<times> int \<times> int" where
  "civil d =
     (let n400 = d div 146097; d1 = d mod 146097;
          n100 = (let n = d1 div 36524 in n - n div 4); d2 = d1 - 36524 * n100;
          n4 = d2 div 1461; d3 = d2 mod 1461;
          n1 = (let n = d3 div 365 in n - n div 4); yday = d3 - 365 * n1;
          year = 400 * n400 + 100 * n100 + 4 * n4 + n1 + 1;
          leap = (n1 = 3 \<and> (n4 \<noteq> 24 \<or> n100 = 3));
          md = monthOf leap yday monthStarts
      in (year, fst md, snd md))"

definition padLeft :: "nat \<Rightarrow> string \<Rightarrow> string" where
  "padLeft n s = replicate (n - length s) (CHR ''0'') @ s"

definition pad :: "nat \<Rightarrow> int \<Rightarrow> string" where
  "pad n i = padLeft n (showPos i)"

text \<open>\<^verbatim>\<open>RFC3339Nano\<close> prints the fraction of a second without its trailing zeros.\<close>

definition fraction :: "int \<Rightarrow> string" where
  "fraction ns =
     (if ns = 0 then []
      else CHR ''.'' # rev (dropWhile (\<lambda>c. c = CHR ''0'') (rev (pad 9 ns))))"

definition timestamp :: "time \<Rightarrow> string" where
  "timestamp t =
     (let secs = t div nsecond; ns = t mod nsecond;
          day = secs div 86400; sod = secs mod 86400;
          ymd = civil day
      in pad 4 (fst ymd) @ ''-'' @ pad 2 (fst (snd ymd)) @ ''-'' @ pad 2 (snd (snd ymd)) @ ''T'' @
         pad 2 (sod div 3600) @ '':'' @ pad 2 (sod mod 3600 div 60) @ '':'' @ pad 2 (sod mod 60) @
         fraction ns @ ''Z'')"

text \<open>The Unix epoch is 62135596800 seconds after the zero time.\<close>

definition unixEpoch :: time where
  "unixEpoch = 62135596800 * nsecond"

lemma timestamp_examples:
  "timestamp zeroTime = ''0001-01-01T00:00:00Z''"
  "timestamp unixEpoch = ''1970-01-01T00:00:00Z''"
  "timestamp (unixEpoch + 951782400 * nsecond + 120000000) = ''2000-02-29T00:00:00.12Z''"
  by code_simp+

end
