(* ===== verification/Domain_Types.thy ===== *)
theory Domain_Types
  imports Go_Time "HOL-Library.Finite_Map"
begin

text \<open>
  The data model of \<^verbatim>\<open>internal/research/domain/types.go\<close>: one datatype per Go string
  enumeration, one record per struct. A Go string type is open, so every enumeration has a last
  constructor for a text outside the vocabulary; the text functions give the Go value back. A
  field is named after its struct, since Isabelle's field names are global. Pointers to times and
  structs are options, \<^verbatim>\<open>map[string]string\<close> is a finite map, \<^verbatim>\<open>json.RawMessage\<close> its bytes.
\<close>

type_synonym strmap = "(string, string) fmap"

definition strGet :: "strmap \<Rightarrow> string \<Rightarrow> string" where
  "strGet m k = (case fmlookup m k of None \<Rightarrow> [] | Some v \<Rightarrow> v)"

section \<open>Enumerations\<close>

datatype Operation =
    OperationInspect
  | OperationAcquire
  | OperationBuild
  | OperationListHarnesses
  | OperationSmokeTest
  | OperationSeed
  | OperationFuzz
  | OperationReproduce
  | OperationMinimize
  | OperationMergeCorpus
  | OperationCoverage
  | OperationSymbolize
  | OperationCompareBranch
  | OperationNoveltyLookup
  | OperationRegressionTest
  | OperationStaticAnalyze
  | OperationDraftReport
  | OperationDisclose
  | OperationPurgeArtifact
  | OtherOperation string

fun operationText :: "Operation \<Rightarrow> string" where
  "operationText OperationInspect = ''inspect''"
| "operationText OperationAcquire = ''acquire''"
| "operationText OperationBuild = ''build''"
| "operationText OperationListHarnesses = ''list_harnesses''"
| "operationText OperationSmokeTest = ''smoke_test''"
| "operationText OperationSeed = ''seed''"
| "operationText OperationFuzz = ''fuzz''"
| "operationText OperationReproduce = ''reproduce''"
| "operationText OperationMinimize = ''minimize''"
| "operationText OperationMergeCorpus = ''merge_corpus''"
| "operationText OperationCoverage = ''coverage''"
| "operationText OperationSymbolize = ''symbolize''"
| "operationText OperationCompareBranch = ''compare_revision''"
| "operationText OperationNoveltyLookup = ''novelty_lookup''"
| "operationText OperationRegressionTest = ''regression_test''"
| "operationText OperationStaticAnalyze = ''static_analyze''"
| "operationText OperationDraftReport = ''draft_report''"
| "operationText OperationDisclose = ''disclose''"
| "operationText OperationPurgeArtifact = ''purge_artifact''"
| "operationText (OtherOperation s) = s"

datatype Role =
    RoleViewer
  | RoleAnalyst
  | RoleOperator
  | RoleReviewer
  | RoleAdmin
  | OtherRole string

fun roleText :: "Role \<Rightarrow> string" where
  "roleText RoleViewer = ''viewer''"
| "roleText RoleAnalyst = ''analyst''"
| "roleText RoleOperator = ''operator''"
| "roleText RoleReviewer = ''reviewer''"
| "roleText RoleAdmin = ''admin''"
| "roleText (OtherRole s) = s"

datatype CampaignState =
    CampaignDraft
  | CampaignScoped
  | CampaignAcquired
  | CampaignBuildReady
  | CampaignFuzzing
  | CampaignCrashObserved
  | CampaignReproduced
  | CampaignMinimized
  | CampaignRootCaused
  | CampaignPrimitiveAssessed
  | CampaignBranchChecked
  | CampaignNoveltyReviewed
  | CampaignRemediated
  | CampaignReportReady
  | CampaignDisclosed
  | CampaignCompletedNoFinding
  | CampaignPaused
  | CampaignCancelled
  | CampaignFailed
  | OtherCampaignState string

fun campaignStateText :: "CampaignState \<Rightarrow> string" where
  "campaignStateText CampaignDraft = ''draft''"
| "campaignStateText CampaignScoped = ''scoped''"
| "campaignStateText CampaignAcquired = ''acquired''"
| "campaignStateText CampaignBuildReady = ''build_ready''"
| "campaignStateText CampaignFuzzing = ''fuzzing''"
| "campaignStateText CampaignCrashObserved = ''crash_observed''"
| "campaignStateText CampaignReproduced = ''reproduced''"
| "campaignStateText CampaignMinimized = ''minimized''"
| "campaignStateText CampaignRootCaused = ''root_caused''"
| "campaignStateText CampaignPrimitiveAssessed = ''primitive_assessed''"
| "campaignStateText CampaignBranchChecked = ''branch_checked''"
| "campaignStateText CampaignNoveltyReviewed = ''novelty_reviewed''"
| "campaignStateText CampaignRemediated = ''remediated''"
| "campaignStateText CampaignReportReady = ''report_ready''"
| "campaignStateText CampaignDisclosed = ''disclosed''"
| "campaignStateText CampaignCompletedNoFinding = ''completed_no_finding''"
| "campaignStateText CampaignPaused = ''paused''"
| "campaignStateText CampaignCancelled = ''cancelled''"
| "campaignStateText CampaignFailed = ''failed''"
| "campaignStateText (OtherCampaignState s) = s"

datatype RunStatus =
    RunQueued
  | RunRunning
  | RunCompleted
  | RunFailed
  | RunCancelled
  | RunTimedOut
  | OtherRunStatus string

fun runStatusText :: "RunStatus \<Rightarrow> string" where
  "runStatusText RunQueued = ''queued''"
| "runStatusText RunRunning = ''running''"
| "runStatusText RunCompleted = ''completed''"
| "runStatusText RunFailed = ''failed''"
| "runStatusText RunCancelled = ''cancelled''"
| "runStatusText RunTimedOut = ''timed_out''"
| "runStatusText (OtherRunStatus s) = s"

datatype ObservationClass =
    ObservationASanMemory
  | ObservationMSanMemory
  | ObservationUBSan
  | ObservationSignal
  | ObservationAssertion
  | ObservationTimeout
  | ObservationOOM
  | ObservationLeak
  | ObservationUnclassified
  | OtherObservation string

fun observationClassText :: "ObservationClass \<Rightarrow> string" where
  "observationClassText ObservationASanMemory = ''asan_memory''"
| "observationClassText ObservationMSanMemory = ''msan_memory''"
| "observationClassText ObservationUBSan = ''ubsan''"
| "observationClassText ObservationSignal = ''signal''"
| "observationClassText ObservationAssertion = ''assertion''"
| "observationClassText ObservationTimeout = ''timeout''"
| "observationClassText ObservationOOM = ''oom''"
| "observationClassText ObservationLeak = ''leak''"
| "observationClassText ObservationUnclassified = ''unclassified''"
| "observationClassText (OtherObservation s) = s"

datatype PrimitiveOperation =
    PrimitiveCrash
  | PrimitiveOOBRead
  | PrimitiveOOBWrite
  | PrimitiveUseAfterFree
  | PrimitiveTypeConfusion
  | PrimitiveInvalidFree
  | PrimitiveControlData
  | PrimitiveOther
  | OtherPrimitive string

fun primitiveText :: "PrimitiveOperation \<Rightarrow> string" where
  "primitiveText PrimitiveCrash = ''crash''"
| "primitiveText PrimitiveOOBRead = ''out_of_bounds_read''"
| "primitiveText PrimitiveOOBWrite = ''out_of_bounds_write''"
| "primitiveText PrimitiveUseAfterFree = ''use_after_free''"
| "primitiveText PrimitiveTypeConfusion = ''type_confusion''"
| "primitiveText PrimitiveInvalidFree = ''invalid_free''"
| "primitiveText PrimitiveControlData = ''control_data_influence''"
| "primitiveText PrimitiveOther = ''other''"
| "primitiveText (OtherPrimitive s) = s"

datatype FindingLabel =
    FindingHypothesis
  | FindingObservation
  | FindingCrashObserved
  | FindingReproducedMemoryIssue
  | FindingPrimitiveCandidate
  | FindingPrimitiveConfirmed
  | FindingCandidateVulnerability
  | OtherFinding string

fun findingText :: "FindingLabel \<Rightarrow> string" where
  "findingText FindingHypothesis = ''hypothesis''"
| "findingText FindingObservation = ''observation''"
| "findingText FindingCrashObserved = ''crash_observed''"
| "findingText FindingReproducedMemoryIssue = ''reproduced_memory_safety_issue''"
| "findingText FindingPrimitiveCandidate = ''primitive_candidate''"
| "findingText FindingPrimitiveConfirmed = ''primitive_confirmed''"
| "findingText FindingCandidateVulnerability = ''candidate_vulnerability''"
| "findingText (OtherFinding s) = s"

section \<open>Records\<close>

record Principal =
  Principal_ID :: string
  Principal_Name :: string
  Principal_Roles :: "Role list"

record ResourceBudget =
  MaxWallSeconds :: int
  MaxMemoryBytes :: int
  MaxCPUSeconds :: int
  MaxDiskBytes :: int
  MaxInodes :: int
  MaxPIDs :: int
  MaxConcurrent :: int

record AuthorizationScope =
  Scope_SchemaVersion :: int
  Scope_ID :: string
  Scope_OperatorID :: string
  Scope_MemberIDs :: "string list"
  Scope_Purpose :: string
  Scope_TargetRepository :: string
  Scope_AllowedRevisions :: "string list"
  Scope_WorkspaceRoots :: "string list"
  Scope_AllowedOperations :: "Operation list"
  Scope_AllowedApparatusIDs :: "string list"
  Scope_ApprovalOperations :: "Operation list"
  Scope_AllowedDomains :: "string list"
  Scope_Budget :: ResourceBudget
  Scope_DisclosureContact :: string
  Scope_CreatedAt :: time
  Scope_ExpiresAt :: time
  Scope_RevokedAt :: "time option"

record PlannedStep =
  Step_ID :: string
  Step_Operation :: Operation
  Step_Rationale :: string
  Step_Status :: string
  Step_EvidenceID :: "string list"

record Campaign =
  Campaign_SchemaVersion :: int
  Campaign_ID :: string
  Campaign_ScopeID :: string
  Campaign_Name :: string
  Campaign_Goal :: string
  Campaign_State :: CampaignState
  Campaign_TargetID :: string
  Campaign_Plan :: "PlannedStep list"
  Campaign_Budget :: ResourceBudget
  Campaign_Labels :: strmap
  Campaign_Version :: int
  Campaign_CreatedAt :: time
  Campaign_UpdatedAt :: time

record AcquisitionProvenance =
  Prov_Method :: string
  Prov_SourceName :: string
  Prov_SourceURL :: string
  Prov_BundleSHA256 :: string
  Prov_BundleBytes :: int
  Prov_ManifestKeyID :: string
  Prov_ManifestExpiresAt :: time
  Prov_FetchedAt :: time

record TargetRevision =
  Target_SchemaVersion :: int
  Target_ID :: string
  Target_CampaignID :: string
  Target_Repository :: string
  Target_RequestedRef :: string
  Target_Commit :: string
  Target_SourceSHA256 :: string
  Target_Language :: string
  Target_Architecture :: string
  Target_Acquisition :: AcquisitionProvenance
  Target_AcquiredAt :: time

record ApparatusSupplyChain =
  Supply_SchemaVersion :: int
  Supply_SBOMSHA256 :: string
  Supply_ProvenanceSHA256 :: string
  Supply_AdmissionKeyID :: string
  Supply_AdmissionExpiresAt :: time
  Supply_BuilderID :: string
  Supply_DependencyCount :: int
  Supply_SBOM :: string
  Supply_Provenance :: string

record HarnessManifest =
  Harness_Name :: string
  Harness_Binary :: string
  Harness_SeedCorpus :: string
  Harness_Dictionary :: string
  Harness_Options :: "string list"
  Harness_MaxInputLen :: int

record ApparatusManifest =
  Manifest_SchemaVersion :: int
  Manifest_ID :: string
  Manifest_Name :: string
  Manifest_Version :: string
  Manifest_ImageDigest :: string
  Manifest_Engine :: string
  Manifest_Sanitizers :: "string list"
  Manifest_Architectures :: "string list"
  Manifest_Harnesses :: "HarnessManifest list"
  Manifest_Operations :: "Operation list"
  Manifest_Environment :: strmap
  Manifest_Limits :: ResourceBudget
  Manifest_SupplyChain :: "ApparatusSupplyChain option"

record Build =
  Build_SchemaVersion :: int
  Build_ID :: string
  Build_CampaignID :: string
  Build_TargetID :: string
  Build_ManifestID :: string
  Build_ImageDigest :: string
  Build_Toolchain :: strmap
  Build_Sanitizer :: string
  Build_Architecture :: string
  Build_OutputArtifacts :: "string list"
  Build_LogArtifacts :: "string list"
  Build_Provenance :: strmap
  Build_Status :: string
  Build_CreatedAt :: time
  Build_CompletedAt :: "time option"

record ResourceUsage =
  Usage_WallMillis :: int
  Usage_CPUMillis :: int
  Usage_MaxRSSBytes :: int
  Usage_DiskWrittenBytes :: int
  Usage_InodesCreated :: int

record RunExit =
  Exit_Code :: int
  Exit_Signal :: string
  Exit_Reason :: string

record ExperimentRun =
  Run_SchemaVersion :: int
  Run_ID :: string
  Run_CampaignID :: string
  Run_ScopeID :: string
  Run_TargetID :: string
  Run_BuildID :: string
  Run_InputArtifactID :: string
  Run_PatchArtifactID :: string
  Run_Operation :: Operation
  Run_Arguments :: strmap
  Run_Environment :: strmap
  Run_Status :: RunStatus
  Run_WorkerID :: string
  Run_IsolationAssurance :: string
  Run_Exit :: RunExit
  Run_Usage :: ResourceUsage
  Run_ArtifactIDs :: "string list"
  Run_AuditCorrelationID :: string
  Run_CreatedAt :: time
  Run_StartedAt :: "time option"
  Run_CompletedAt :: "time option"

record JobMount =
  Mount_Name :: string
  Mount_HostPath :: string
  Mount_ContainerPath :: string
  Mount_ReadOnly :: bool

record ArtifactRule =
  Rule_Role :: string
  Rule_MediaType :: string
  Rule_Glob :: string
  Rule_MaxCount :: int
  Rule_MaxBytes :: int

record WorkerJob =
  Job_SchemaVersion :: int
  Job_ID :: string
  Job_RunID :: string
  Job_CampaignID :: string
  Job_ScopeID :: string
  Job_TargetID :: string
  Job_BuildID :: string
  Job_InputArtifactID :: string
  Job_PatchArtifactID :: string
  Job_Operation :: Operation
  Job_Arguments :: strmap
  Job_Environment :: strmap
  Job_ImageDigest :: string
  Job_Runtime :: string
  Job_Mounts :: "JobMount list"
  Job_ArtifactRules :: "ArtifactRule list"
  Job_Budget :: ResourceBudget
  Job_AuditCorrelationID :: string
  Job_Status :: RunStatus
  Job_CreatedAt :: time
  Job_UpdatedAt :: time

record CapturedOutput =
  Output_StdoutArtifactID :: string
  Output_StderrArtifactID :: string
  Output_StdoutTruncated :: bool
  Output_StderrTruncated :: bool
  Output_BytesDropped :: int

record ApparatusIdentity =
  Identity_ManifestID :: string
  Identity_ImageDigest :: string
  Identity_TargetRevision :: string
  Identity_Harness :: string
  Identity_Sanitizer :: string
  Identity_Runtime :: string

record RunResult =
  Result_SchemaVersion :: int
  Result_RunID :: string
  Result_Operation :: Operation
  Result_Status :: RunStatus
  Result_Exit :: RunExit
  Result_Output :: CapturedOutput
  Result_ArtifactIDs :: "string list"
  Result_ResourceUsage :: ResourceUsage
  Result_Apparatus :: ApparatusIdentity
  Result_IsolationAssurance :: string
  Result_AuditCorrelationID :: string

record Artifact =
  Artifact_SchemaVersion :: int
  Artifact_ID :: string
  Artifact_ContentID :: string
  Artifact_CampaignID :: string
  Artifact_RunID :: string
  Artifact_ParentIDs :: "string list"
  Artifact_Role :: string
  Artifact_MediaType :: string
  Artifact_Size :: int
  Artifact_Sensitivity :: string
  Artifact_StoragePath :: string
  Artifact_Encryption :: string
  Artifact_EncryptionKeyID :: string
  Artifact_RetainUntil :: time
  Artifact_PurgedAt :: "time option"
  Artifact_PurgeApprovalID :: string
  Artifact_PurgeReason :: string
  Artifact_BlobDeletedAt :: "time option"
  Artifact_CreatedAt :: time

record StackFrame =
  Frame_Index :: int
  Frame_Function :: string
  Frame_File :: string
  Frame_Line :: int
  Frame_Module :: string
  Frame_Address :: string

record CrashObservation =
  Crash_SchemaVersion :: int
  Crash_ID :: string
  Crash_CampaignID :: string
  Crash_RunID :: string
  Crash_BuildID :: string
  Crash_InputArtifactID :: string
  Crash_Class :: ObservationClass
  Crash_Sanitizer :: string
  Crash_BugType :: string
  Crash_Access :: string
  Crash_AccessSize :: int
  Crash_Signal :: string
  Crash_Summary :: string
  Crash_Frames :: "StackFrame list"
  Crash_Signature :: string
  Crash_Deterministic :: bool
  Crash_ReproCount :: int
  Crash_SecurityRelevant :: bool
  Crash_CreatedAt :: time

record CrashGroup =
  Group_SchemaVersion :: int
  Group_ID :: string
  Group_CampaignID :: string
  Group_Signature :: string
  Group_ObservationIDs :: "string list"
  Group_CanonicalInputID :: string
  Group_MinimizedArtifactID :: string
  Group_RootCause :: string
  Group_CreatedAt :: time
  Group_UpdatedAt :: time

record EvidenceValue =
  EV_Value :: string
  EV_Known :: bool
  EV_EvidenceIDs :: "string list"

record PrimitiveAssessment =
  Prim_SchemaVersion :: int
  Prim_ID :: string
  Prim_CampaignID :: string
  Prim_CrashGroupID :: string
  Prim_Operation :: PrimitiveOperation
  Prim_OperationEvidence :: "string list"
  Prim_AttackerControl :: EvidenceValue
  Prim_AccessWidth :: EvidenceValue
  Prim_ValueControl :: EvidenceValue
  Prim_TargetRelation :: EvidenceValue
  Prim_Repeatability :: EvidenceValue
  Prim_Reachability :: EvidenceValue
  Prim_Mitigations :: EvidenceValue
  Prim_ExploitabilityGap :: EvidenceValue
  Prim_CreatedAt :: time
  Prim_ReviewedAt :: "time option"

record GateCheck =
  Gate_Name :: string
  Gate_Status :: string
  Gate_Summary :: string
  Gate_EvidenceIDs :: "string list"
  Gate_CheckedAt :: time

record SourceEvidence =
  SourceEv_SchemaVersion :: int
  SourceEv_ID :: string
  SourceEv_CampaignID :: string
  SourceEv_FindingID :: string
  SourceEv_Kind :: string
  SourceEv_SourceName :: string
  SourceEv_Query :: string
  SourceEv_RequestURL :: string
  SourceEv_Status :: string
  SourceEv_Summary :: string
  SourceEv_ResponseHash :: string
  SourceEv_ArtifactID :: string
  SourceEv_Metadata :: strmap
  SourceEv_CheckedAt :: time

record SourceReview =
  Review_SchemaVersion :: int
  Review_ID :: string
  Review_CampaignID :: string
  Review_FindingID :: string
  Review_SourceEvidenceID :: string
  Review_Kind :: string
  Review_Status :: string
  Review_Summary :: string
  Review_ReviewedBy :: string
  Review_ReviewedAt :: time

record RevisionCheck =
  RevCheck_SchemaVersion :: int
  RevCheck_ID :: string
  RevCheck_CampaignID :: string
  RevCheck_FindingID :: string
  RevCheck_Revision :: string
  RevCheck_Status :: string
  RevCheck_Reason :: string
  RevCheck_BuildID :: string
  RevCheck_RunID :: string
  RevCheck_EvidenceIDs :: "string list"
  RevCheck_CheckedAt :: time

record RemediationValidation =
  Remed_SchemaVersion :: int
  Remed_ID :: string
  Remed_CampaignID :: string
  Remed_FindingID :: string
  Remed_PatchArtifactID :: string
  Remed_ApprovalID :: string
  Remed_FixBuildID :: string
  Remed_ReproducerRunID :: string
  Remed_RegressionRunID :: string
  Remed_NegativeControlRunID :: string
  Remed_OriginalSignalGone :: bool
  Remed_RegressionPassed :: bool
  Remed_NegativeControlClean :: bool
  Remed_EvidenceIDs :: "string list"
  Remed_ValidatedAt :: time

record Finding =
  Finding_SchemaVersion :: int
  Finding_ID :: string
  Finding_CampaignID :: string
  Finding_CrashGroupID :: string
  Finding_PrimitiveID :: string
  Finding_Title :: string
  Finding_Label :: FindingLabel
  Finding_CWE :: string
  Finding_RootCause :: string
  Finding_AffectedRevisions :: "string list"
  Finding_EvidenceIDs :: "string list"
  Finding_BranchChecks :: "GateCheck list"
  Finding_NoveltyChecks :: "GateCheck list"
  Finding_NoveltyStatus :: string
  Finding_FixArtifactID :: string
  Finding_RegressionRunID :: string
  Finding_ReportArtifactID :: string
  Finding_HumanReviewApproval :: string
  Finding_DisclosureApproval :: string
  Finding_DisclosureStatus :: string
  Finding_DisclosureReference :: string
  Finding_DisclosedAt :: "time option"
  Finding_CreatedAt :: time
  Finding_UpdatedAt :: time

record Approval =
  Approval_SchemaVersion :: int
  Approval_ID :: string
  Approval_ScopeID :: string
  Approval_CampaignID :: string
  Approval_CorrelationID :: string
  Approval_Operation :: Operation
  Approval_Status :: string
  Approval_RequestedBy :: string
  Approval_DecidedBy :: string
  Approval_Reason :: string
  Approval_CreatedAt :: time
  Approval_DecidedAt :: "time option"

record AuditEvent =
  Audit_SchemaVersion :: int
  Audit_ID :: string
  Audit_Sequence :: int
  Audit_PreviousHash :: string
  Audit_Hash :: string
  Audit_ActorID :: string
  Audit_Action :: string
  Audit_ResourceType :: string
  Audit_ResourceID :: string
  Audit_CorrelationID :: string
  Audit_Decision :: string
  Audit_Details :: strmap
  Audit_CreatedAt :: time

end
