(* ===== verification/Campaign_Machine.thy ===== *)
theory Campaign_Machine
  imports Domain_Types
begin

text \<open>
  \<^verbatim>\<open>internal/research/domain/state.go\<close>: the evidence facts, the campaign state machine
  \<^verbatim>\<open>StateMachine.Advance\<close> and the finding label ladder \<^verbatim>\<open>StateMachine.PromoteFinding\<close>. The
  step relation \<open>gate\<close> is the machine's specification, the list of evidence-backed edges;
  \<open>advance\<close> is proved to take exactly those edges, and the theorems about whole campaigns are
  proved on runs of \<open>advance\<close>.
\<close>

record EvidenceFacts =
  ScopeValid :: bool
  TargetID :: string
  SourceSHA256 :: string
  BuildID :: string
  HarnessCount :: int
  Instrumented :: bool
  FuzzRunID :: string
  BudgetExhausted :: bool
  CrashInputArtifactID :: string
  CrashSignature :: string
  CrashMachineParsed :: bool
  ReproductionCount :: int
  MinimizedArtifactID :: string
  MinimizedSameSignature :: bool
  SymbolizedFrameCount :: int
  RootCause :: string
  CrashGroupID :: string
  PrimitiveAssessmentID :: string
  PrimitiveEvidenceValid :: bool
  BranchChecksRecorded :: bool
  NoveltyChecksRecorded :: bool
  FixBuildID :: string
  RegressionRunID :: string
  FixEliminatesCrash :: bool
  HumanReviewApprovalID :: string
  DisclosureApprovalID :: string
  HumanPerformedDisclosure :: bool

text \<open>The zero value \<^verbatim>\<open>EvidenceFacts{}\<close>.\<close>

definition noFacts :: EvidenceFacts where
  "noFacts = \<lparr>ScopeValid = False, TargetID = [], SourceSHA256 = [], BuildID = [], HarnessCount = 0,
     Instrumented = False, FuzzRunID = [], BudgetExhausted = False, CrashInputArtifactID = [],
     CrashSignature = [], CrashMachineParsed = False, ReproductionCount = 0, MinimizedArtifactID = [],
     MinimizedSameSignature = False, SymbolizedFrameCount = 0, RootCause = [], CrashGroupID = [],
     PrimitiveAssessmentID = [], PrimitiveEvidenceValid = False, BranchChecksRecorded = False,
     NoveltyChecksRecorded = False, FixBuildID = [], RegressionRunID = [], FixEliminatesCrash = False,
     HumanReviewApprovalID = [], DisclosureApprovalID = [], HumanPerformedDisclosure = False\<rparr>"

record StateMachine =
  MinimumReproductions :: int

definition minimumReproductions :: "StateMachine \<Rightarrow> int" where
  "minimumReproductions m = (if MinimumReproductions m \<le> 0 then 3 else MinimumReproductions m)"

definition terminalCampaignState :: "CampaignState \<Rightarrow> bool" where
  "terminalCampaignState s \<longleftrightarrow>
     s = CampaignDisclosed \<or> s = CampaignCompletedNoFinding \<or> s = CampaignCancelled \<or> s = CampaignFailed"

text \<open>
  The switch of \<^verbatim>\<open>Advance\<close>: the verdict \<^verbatim>\<open>valid\<close> and the \<^verbatim>\<open>reason\<close> reported when it is false.
\<close>

definition evidenceSwitch ::
    "StateMachine \<Rightarrow> EvidenceFacts \<Rightarrow> CampaignState \<Rightarrow> CampaignState \<Rightarrow> bool \<times> string" where
  "evidenceSwitch m facts from to =
     (if from = CampaignDraft \<and> to = CampaignScoped then
        (ScopeValid facts, ''valid authorization scope required'')
      else if from = CampaignScoped \<and> to = CampaignAcquired then
        (TargetID facts \<noteq> [] \<and> SourceSHA256 facts \<noteq> [], ''immutable target id and source hash required'')
      else if from = CampaignAcquired \<and> to = CampaignBuildReady then
        (BuildID facts \<noteq> [] \<and> HarnessCount facts > 0 \<and> Instrumented facts,
         ''instrumented build and at least one harness required'')
      else if from = CampaignBuildReady \<and> to = CampaignFuzzing then
        (FuzzRunID facts \<noteq> [], ''durable fuzz run required'')
      else if from = CampaignFuzzing \<and> to = CampaignCrashObserved then
        (CrashInputArtifactID facts \<noteq> [] \<and> CrashSignature facts \<noteq> [] \<and> CrashMachineParsed facts,
         ''saved crash input and machine-parsed signature required'')
      else if from = CampaignFuzzing \<and> to = CampaignCompletedNoFinding then
        (BudgetExhausted facts \<and> FuzzRunID facts \<noteq> [], ''completed run and exhausted campaign budget required'')
      else if from = CampaignCrashObserved \<and> to = CampaignReproduced then
        (ReproductionCount facts \<ge> minimumReproductions m,
         ''at least '' @ showInt (minimumReproductions m) @ '' identical reproductions required'')
      else if from = CampaignReproduced \<and> to = CampaignMinimized then
        (MinimizedArtifactID facts \<noteq> [] \<and> MinimizedSameSignature facts,
         ''minimized input with identical crash signature required'')
      else if from = CampaignMinimized \<and> to = CampaignRootCaused then
        (SymbolizedFrameCount facts > 0 \<and> RootCause facts \<noteq> [] \<and> CrashGroupID facts \<noteq> [],
         ''symbolized trace, root cause, and crash group required'')
      else if from = CampaignRootCaused \<and> to = CampaignPrimitiveAssessed then
        (PrimitiveAssessmentID facts \<noteq> [] \<and> PrimitiveEvidenceValid facts,
         ''evidence-valid primitive assessment required'')
      else if from = CampaignPrimitiveAssessed \<and> to = CampaignBranchChecked then
        (BranchChecksRecorded facts, ''supported-branch checks required'')
      else if from = CampaignBranchChecked \<and> to = CampaignNoveltyReviewed then
        (NoveltyChecksRecorded facts, ''complete novelty records required'')
      else if from = CampaignNoveltyReviewed \<and> to = CampaignRemediated then
        (FixBuildID facts \<noteq> [] \<and> RegressionRunID facts \<noteq> [] \<and> FixEliminatesCrash facts,
         ''validated fix build and regression run required'')
      else if from = CampaignRemediated \<and> to = CampaignReportReady then
        (HumanReviewApprovalID facts \<noteq> [], ''human report review approval required'')
      else if from = CampaignReportReady \<and> to = CampaignDisclosed then
        (DisclosureApprovalID facts \<noteq> [] \<and> HumanPerformedDisclosure facts,
         ''human disclosure approval and action required'')
      else (False, ''required evidence is missing''))"

text \<open>
  \<^verbatim>\<open>Advance\<close>. \<open>clock\<close> is what \<^verbatim>\<open>time.Now().UTC()\<close> returns when the caller passes the zero time.
\<close>

definition advance ::
    "time \<Rightarrow> StateMachine \<Rightarrow> Campaign \<Rightarrow> CampaignState \<Rightarrow> EvidenceFacts \<Rightarrow> time \<Rightarrow> Campaign result" where
  "advance clock m c to facts now0 =
     (let now = (if isZero now0 then clock else now0) in
      if Campaign_ID c = [] then Inl (Err ''research: campaign id required'')
      else if Campaign_State c = to then Inr c
      else if to = CampaignPaused \<or> to = CampaignCancelled \<or> to = CampaignFailed then
        (if terminalCampaignState (Campaign_State c)
         then Inl (ErrInvalidTransition (''terminal state '' @ campaignStateText (Campaign_State c) @
                '' cannot become '' @ campaignStateText to))
         else Inr (c\<lparr>Campaign_State := to, Campaign_UpdatedAt := now,
                Campaign_Version := wrap64 (Campaign_Version c + 1)\<rparr>))
      else if Campaign_State c = CampaignPaused then
        Inl (ErrInvalidTransition ''paused campaign must be explicitly resumed to its prior state'')
      else
        (case evidenceSwitch m facts (Campaign_State c) to of
           (valid, reason) \<Rightarrow>
             if \<not> valid
             then Inl (ErrInvalidTransition (campaignStateText (Campaign_State c) @ '' -> '' @
                    campaignStateText to @ '': '' @ reason))
             else
               (let c' = c\<lparr>Campaign_State := to, Campaign_UpdatedAt := now,
                      Campaign_Version := wrap64 (Campaign_Version c + 1)\<rparr>
                in Inr (if to = CampaignAcquired then c'\<lparr>Campaign_TargetID := TargetID facts\<rparr> else c'))))"

section \<open>Finding labels\<close>

fun findingRank :: "FindingLabel \<Rightarrow> int option" where
  "findingRank FindingHypothesis = Some 0"
| "findingRank FindingObservation = Some 1"
| "findingRank FindingCrashObserved = Some 2"
| "findingRank FindingReproducedMemoryIssue = Some 3"
| "findingRank FindingPrimitiveCandidate = Some 4"
| "findingRank FindingPrimitiveConfirmed = Some 5"
| "findingRank FindingCandidateVulnerability = Some 6"
| "findingRank (OtherFinding _) = None"

text \<open>The switch of \<^verbatim>\<open>PromoteFinding\<close>; \<open>same\<close> is its initial verdict \<^verbatim>\<open>toRank == fromRank\<close>.\<close>

fun labelSwitch :: "StateMachine \<Rightarrow> EvidenceFacts \<Rightarrow> string list \<Rightarrow> bool \<Rightarrow> FindingLabel \<Rightarrow> bool" where
  "labelSwitch m facts ids same FindingObservation = (ids \<noteq> [])"
| "labelSwitch m facts ids same FindingCrashObserved = (CrashInputArtifactID facts \<noteq> [] \<and> CrashMachineParsed facts)"
| "labelSwitch m facts ids same FindingReproducedMemoryIssue = (ReproductionCount facts \<ge> minimumReproductions m)"
| "labelSwitch m facts ids same FindingPrimitiveCandidate = (PrimitiveAssessmentID facts \<noteq> [])"
| "labelSwitch m facts ids same FindingPrimitiveConfirmed = (PrimitiveAssessmentID facts \<noteq> [] \<and> PrimitiveEvidenceValid facts)"
| "labelSwitch m facts ids same FindingCandidateVulnerability =
     (BranchChecksRecorded facts \<and> NoveltyChecksRecorded facts \<and> HumanReviewApprovalID facts \<noteq> [])"
| "labelSwitch m facts ids same _ = same"

text \<open>\<^verbatim>\<open>%q\<close>, for text without characters that Go escapes.\<close>

definition quoted :: "string \<Rightarrow> string" where
  "quoted s = CHR 0x22 # s @ [CHR 0x22]"

definition promoteFinding ::
    "time \<Rightarrow> StateMachine \<Rightarrow> Finding \<Rightarrow> FindingLabel \<Rightarrow> EvidenceFacts \<Rightarrow> time \<Rightarrow> Finding result" where
  "promoteFinding clock m f to facts now0 =
     (case findingRank (Finding_Label f) of
        None \<Rightarrow> Inl (Err (''research: unknown finding label '' @ quoted (findingText (Finding_Label f))))
      | Some fromRank \<Rightarrow>
          (case findingRank to of
             None \<Rightarrow> Inl (Err (''research: invalid finding promotion '' @ findingText (Finding_Label f) @
                       '' -> '' @ findingText to))
           | Some toRank \<Rightarrow>
               if toRank < fromRank \<or> toRank > fromRank + 1
               then Inl (Err (''research: invalid finding promotion '' @ findingText (Finding_Label f) @
                      '' -> '' @ findingText to))
               else if \<not> labelSwitch m facts (Finding_EvidenceIDs f) (toRank = fromRank) to
               then Inl (Err (''research: evidence does not permit finding promotion '' @
                      findingText (Finding_Label f) @ '' -> '' @ findingText to))
               else Inr (f\<lparr>Finding_Label := to,
                      Finding_UpdatedAt := (if isZero now0 then clock else now0)\<rparr>)))"

text \<open>Labels are ordered by their rank.\<close>

instantiation FindingLabel :: order
begin

definition less_eq_FindingLabel :: "FindingLabel \<Rightarrow> FindingLabel \<Rightarrow> bool" where
  "a \<le> b \<longleftrightarrow> a = b \<or>
     (case (findingRank a, findingRank b) of (Some i, Some j) \<Rightarrow> i < j | _ \<Rightarrow> False)"

definition less_FindingLabel :: "FindingLabel \<Rightarrow> FindingLabel \<Rightarrow> bool" where
  "a < b \<longleftrightarrow> a \<le> b \<and> \<not> b \<le> (a :: FindingLabel)"

instance
proof
  fix x y z :: FindingLabel
  show "x < y \<longleftrightarrow> x \<le> y \<and> \<not> y \<le> x" by (simp add: less_FindingLabel_def)
  show "x \<le> x" by (simp add: less_eq_FindingLabel_def)
  show "x \<le> y \<Longrightarrow> y \<le> z \<Longrightarrow> x \<le> z"
    by (auto simp: less_eq_FindingLabel_def split: option.splits)
  show "x \<le> y \<Longrightarrow> y \<le> x \<Longrightarrow> x = y"
    by (auto simp: less_eq_FindingLabel_def split: option.splits)
qed

end

lemma findingRank_inj: "findingRank a = Some i \<Longrightarrow> findingRank b = Some i \<Longrightarrow> a = b"
  by (cases a; cases b) auto

lemma promoteFinding_Inr_iff:
  "promoteFinding clock m f to facts now = Inr f' \<longleftrightarrow>
     (\<exists>i j. findingRank (Finding_Label f) = Some i \<and> findingRank to = Some j \<and> i \<le> j \<and> j \<le> i + 1 \<and>
        labelSwitch m facts (Finding_EvidenceIDs f) (j = i) to \<and>
        f' = f\<lparr>Finding_Label := to, Finding_UpdatedAt := (if isZero now then clock else now)\<rparr>)"
  by (auto simp: promoteFinding_def split: option.splits)

section \<open>The machine's specification\<close>

text \<open>The evidence-backed edges of a campaign and the three ways to stop it.\<close>

inductive gate :: "StateMachine \<Rightarrow> EvidenceFacts \<Rightarrow> CampaignState \<Rightarrow> CampaignState \<Rightarrow> bool"
  for m :: StateMachine and facts :: EvidenceFacts where
  scope: "ScopeValid facts \<Longrightarrow> gate m facts CampaignDraft CampaignScoped"
| acquire: "TargetID facts \<noteq> [] \<Longrightarrow> SourceSHA256 facts \<noteq> [] \<Longrightarrow> gate m facts CampaignScoped CampaignAcquired"
| build: "BuildID facts \<noteq> [] \<Longrightarrow> HarnessCount facts > 0 \<Longrightarrow> Instrumented facts \<Longrightarrow>
    gate m facts CampaignAcquired CampaignBuildReady"
| fuzz: "FuzzRunID facts \<noteq> [] \<Longrightarrow> gate m facts CampaignBuildReady CampaignFuzzing"
| crash: "CrashInputArtifactID facts \<noteq> [] \<Longrightarrow> CrashSignature facts \<noteq> [] \<Longrightarrow> CrashMachineParsed facts \<Longrightarrow>
    gate m facts CampaignFuzzing CampaignCrashObserved"
| exhaust: "BudgetExhausted facts \<Longrightarrow> FuzzRunID facts \<noteq> [] \<Longrightarrow>
    gate m facts CampaignFuzzing CampaignCompletedNoFinding"
| reproduce: "ReproductionCount facts \<ge> minimumReproductions m \<Longrightarrow>
    gate m facts CampaignCrashObserved CampaignReproduced"
| minimize: "MinimizedArtifactID facts \<noteq> [] \<Longrightarrow> MinimizedSameSignature facts \<Longrightarrow>
    gate m facts CampaignReproduced CampaignMinimized"
| rootcause: "SymbolizedFrameCount facts > 0 \<Longrightarrow> RootCause facts \<noteq> [] \<Longrightarrow> CrashGroupID facts \<noteq> [] \<Longrightarrow>
    gate m facts CampaignMinimized CampaignRootCaused"
| primitive: "PrimitiveAssessmentID facts \<noteq> [] \<Longrightarrow> PrimitiveEvidenceValid facts \<Longrightarrow>
    gate m facts CampaignRootCaused CampaignPrimitiveAssessed"
| branch: "BranchChecksRecorded facts \<Longrightarrow> gate m facts CampaignPrimitiveAssessed CampaignBranchChecked"
| novelty: "NoveltyChecksRecorded facts \<Longrightarrow> gate m facts CampaignBranchChecked CampaignNoveltyReviewed"
| remediate: "FixBuildID facts \<noteq> [] \<Longrightarrow> RegressionRunID facts \<noteq> [] \<Longrightarrow> FixEliminatesCrash facts \<Longrightarrow>
    gate m facts CampaignNoveltyReviewed CampaignRemediated"
| report: "HumanReviewApprovalID facts \<noteq> [] \<Longrightarrow> gate m facts CampaignRemediated CampaignReportReady"
| disclose: "DisclosureApprovalID facts \<noteq> [] \<Longrightarrow> HumanPerformedDisclosure facts \<Longrightarrow>
    gate m facts CampaignReportReady CampaignDisclosed"
| stop: "\<not> terminalCampaignState s \<Longrightarrow> t \<in> {CampaignPaused, CampaignCancelled, CampaignFailed} \<Longrightarrow>
    s \<noteq> t \<Longrightarrow> gate m facts s t"

inductive_cases gate_from_paused: "gate m facts CampaignPaused t"

lemma gate_neq: "gate m facts s t \<Longrightarrow> s \<noteq> t"
  by (auto elim: gate.cases)

lemma evidenceSwitch_gate:
  "fst (evidenceSwitch m facts s t) \<Longrightarrow> gate m facts s t"
  by (auto simp: evidenceSwitch_def intro: gate.intros split: if_splits)

lemma evidenceSwitch_valid: "evidenceSwitch m facts s t = (True, r) \<Longrightarrow> gate m facts s t"
  using evidenceSwitch_gate [of m facts s t] by simp

lemma gate_terminal: "gate m facts s t \<Longrightarrow> \<not> terminalCampaignState s"
  by (cases rule: gate.cases) (auto simp: terminalCampaignState_def)

lemma gate_evidenceSwitch:
  "gate m facts s t \<Longrightarrow> t \<notin> {CampaignPaused, CampaignCancelled, CampaignFailed} \<Longrightarrow>
    fst (evidenceSwitch m facts s t) \<and> s \<noteq> CampaignPaused"
  by (erule gate.cases) (blast | simp add: evidenceSwitch_def)+

text \<open>What an effective step writes.\<close>

definition moved :: "time \<Rightarrow> Campaign \<Rightarrow> CampaignState \<Rightarrow> EvidenceFacts \<Rightarrow> time \<Rightarrow> Campaign" where
  "moved clock c to facts now =
     c\<lparr>Campaign_State := to, Campaign_UpdatedAt := (if isZero now then clock else now),
       Campaign_Version := wrap64 (Campaign_Version c + 1),
       Campaign_TargetID := (if to = CampaignAcquired then TargetID facts else Campaign_TargetID c)\<rparr>"

lemma advance_refines_gate:
  "advance clock m c to facts now = Inr c' \<longleftrightarrow>
     Campaign_ID c \<noteq> [] \<and>
     (Campaign_State c = to \<and> c' = c \<or>
      gate m facts (Campaign_State c) to \<and> c' = moved clock c to facts now)"
  (is "?L \<longleftrightarrow> ?R")
proof
  assume ?L
  then show ?R
    by (auto simp: advance_def Let_def moved_def intro: gate.stop
        dest: evidenceSwitch_valid split: if_splits prod.splits)
next
  assume R: ?R
  show ?L
  proof (cases "Campaign_State c = to")
    case True
    with R show ?thesis by (auto simp: advance_def Let_def dest: gate_neq)
  next
    case False
    with R have g: "gate m facts (Campaign_State c) to" and c': "c' = moved clock c to facts now"
      and i: "Campaign_ID c \<noteq> []" by auto
    show ?thesis
    proof (cases "to \<in> {CampaignPaused, CampaignCancelled, CampaignFailed}")
      case True
      with g c' i False show ?thesis
        by (auto simp: advance_def Let_def moved_def dest: gate_terminal)
    next
      case stop: False
      with gate_evidenceSwitch [OF g] i False c' show ?thesis
        by (cases "evidenceSwitch m facts (Campaign_State c) to")
          (auto simp: advance_def Let_def moved_def)
    qed
  qed
qed

section \<open>Runs of a campaign\<close>

text \<open>
  A run applies a list of requests; a refused request leaves the campaign as it was, since no
  caller stores the campaign of a failed \<^verbatim>\<open>Advance\<close>. \<open>history\<close> is the list of effective moves.
\<close>

type_synonym request = "CampaignState \<times> EvidenceFacts \<times> time"

definition attempt :: "time \<Rightarrow> StateMachine \<Rightarrow> Campaign \<Rightarrow> request \<Rightarrow> Campaign" where
  "attempt clock m c r =
     (case advance clock m c (fst r) (fst (snd r)) (snd (snd r)) of Inl e \<Rightarrow> c | Inr c' \<Rightarrow> c')"

definition runCampaign :: "time \<Rightarrow> StateMachine \<Rightarrow> Campaign \<Rightarrow> request list \<Rightarrow> Campaign" where
  "runCampaign clock m c rs = foldl (attempt clock m) c rs"

fun history :: "time \<Rightarrow> StateMachine \<Rightarrow> Campaign \<Rightarrow> request list \<Rightarrow>
    (CampaignState \<times> CampaignState \<times> EvidenceFacts) list" where
  "history clock m c [] = []"
| "history clock m c (r # rs) =
     (let c' = attempt clock m c r in
      (if Campaign_State c' = Campaign_State c then []
       else [(Campaign_State c, Campaign_State c', fst (snd r))]) @ history clock m c' rs)"

definition pipeline :: "CampaignState list" where
  "pipeline =
     [CampaignDraft, CampaignScoped, CampaignAcquired, CampaignBuildReady, CampaignFuzzing,
      CampaignCrashObserved, CampaignReproduced, CampaignMinimized, CampaignRootCaused,
      CampaignPrimitiveAssessed, CampaignBranchChecked, CampaignNoveltyReviewed, CampaignRemediated,
      CampaignReportReady, CampaignDisclosed]"

definition pipelineEdges :: "(CampaignState \<times> CampaignState) list" where
  "pipelineEdges = zip pipeline (tl pipeline)"

fun stage :: "CampaignState \<Rightarrow> nat option" where
  "stage CampaignDraft = Some 0"
| "stage CampaignScoped = Some 1"
| "stage CampaignAcquired = Some 2"
| "stage CampaignBuildReady = Some 3"
| "stage CampaignFuzzing = Some 4"
| "stage CampaignCrashObserved = Some 5"
| "stage CampaignReproduced = Some 6"
| "stage CampaignMinimized = Some 7"
| "stage CampaignRootCaused = Some 8"
| "stage CampaignPrimitiveAssessed = Some 9"
| "stage CampaignBranchChecked = Some 10"
| "stage CampaignNoveltyReviewed = Some 11"
| "stage CampaignRemediated = Some 12"
| "stage CampaignReportReady = Some 13"
| "stage CampaignDisclosed = Some 14"
| "stage _ = None"

lemma gate_stage:
  "gate m facts s t \<Longrightarrow> stage t = Some j \<Longrightarrow>
    \<exists>i. stage s = Some i \<and> j = Suc i \<and> i < length pipelineEdges \<and> pipelineEdges ! i = (s, t)"
  by (erule gate.cases) (auto simp: pipelineEdges_def pipeline_def)

lemma attempt_cases:
  obtains (stay) "attempt clock m c r = c"
  | (move) "gate m (fst (snd r)) (Campaign_State c) (fst r)"
      "attempt clock m c r = moved clock c (fst r) (fst (snd r)) (snd (snd r))"
proof (cases "advance clock m c (fst r) (fst (snd r)) (snd (snd r))")
  case (Inl e)
  then show ?thesis using stay by (simp add: attempt_def)
next
  case (Inr c')
  moreover from Inr have "attempt clock m c r = c'" by (simp add: attempt_def)
  ultimately show ?thesis using stay move by (auto simp: advance_refines_gate)
qed

lemma moved_simps [simp]:
  "Campaign_State (moved clock c to facts now) = to"
  "Campaign_Version (moved clock c to facts now) = wrap64 (Campaign_Version c + 1)"
  "Campaign_ID (moved clock c to facts now) = Campaign_ID c"
  "Campaign_ScopeID (moved clock c to facts now) = Campaign_ScopeID c"
  by (simp_all add: moved_def)

lemma history_append:
  "history clock m c (rs @ rs') = history clock m c rs @ history clock m (runCampaign clock m c rs) rs'"
  by (induction rs arbitrary: c) (simp_all add: runCampaign_def Let_def)

lemma runCampaign_snoc:
  "runCampaign clock m c (rs @ [r]) = attempt clock m (runCampaign clock m c rs) r"
  by (simp add: runCampaign_def)

lemma history_gate:
  "(s, t, f) \<in> set (history clock m c rs) \<Longrightarrow> gate m f s t"
proof (induction rs arbitrary: c)
  case Nil
  then show ?case by simp
next
  case (Cons r rs)
  show ?case
  proof (cases rule: attempt_cases [of clock m c r])
    case stay
    with Cons show ?thesis by simp
  next
    case move
    with Cons show ?thesis by (auto simp: Let_def split: if_splits)
  qed
qed

lemma history_prefix_of_pipeline:
  assumes "Campaign_State c = CampaignDraft"
  shows "stage (Campaign_State (runCampaign clock m c rs)) = Some i \<Longrightarrow>
    map (\<lambda>(s, t, f). (s, t)) (history clock m c rs) = take i pipelineEdges"
proof (induction rs arbitrary: i rule: rev_induct)
  case Nil
  with assms show ?case by (simp add: runCampaign_def)
next
  case (snoc r rs)
  let ?c = "runCampaign clock m c rs"
  show ?case
  proof (cases rule: attempt_cases [of clock m ?c r])
    case stay
    with snoc show ?thesis by (simp add: history_append runCampaign_snoc)
  next
    case move
    with snoc.prems have st: "stage (fst r) = Some i" by (simp add: runCampaign_snoc)
    from gate_stage [OF move(1) st] obtain k where k: "stage (Campaign_State ?c) = Some k"
      "i = Suc k" "k < length pipelineEdges" "pipelineEdges ! k = (Campaign_State ?c, fst r)"
      by blast
    from snoc.IH [OF k(1)] k move gate_neq [OF move(1)] show ?thesis
      by (auto simp: history_append take_Suc_conv_app_nth Let_def)
  qed
qed

section \<open>Properties of campaigns and findings\<close>

text \<open>
  C1. The only way to disclosure: whatever requests are made of a draft campaign, if it ends
  disclosed then its effective moves are exactly the fourteen edges of the pipeline, in order,
  and every one of them was made with the evidence its gate asks for.
\<close>

theorem disclosed_only_through_every_gate:
  assumes "Campaign_State c = CampaignDraft"
    and "Campaign_State (runCampaign clock m c rs) = CampaignDisclosed"
  shows "map (\<lambda>(s, t, f). (s, t)) (history clock m c rs) = pipelineEdges \<and>
    (\<forall>(s, t, f) \<in> set (history clock m c rs). gate m f s t)"
proof
  have "stage (Campaign_State (runCampaign clock m c rs)) = Some 14" using assms(2) by simp
  from history_prefix_of_pipeline [OF assms(1) this]
  show "map (\<lambda>(s, t, f). (s, t)) (history clock m c rs) = pipelineEdges"
    by (simp add: pipelineEdges_def pipeline_def)
  show "\<forall>(s, t, f) \<in> set (history clock m c rs). gate m f s t"
    by (auto dest: history_gate)
qed

definition sampleBudget :: ResourceBudget where
  "sampleBudget = \<lparr>MaxWallSeconds = 60, MaxMemoryBytes = 1024, MaxCPUSeconds = 60, MaxDiskBytes = 4096,
     MaxInodes = 16, MaxPIDs = 4, MaxConcurrent = 1\<rparr>"

definition sampleCampaign :: Campaign where
  "sampleCampaign = \<lparr>Campaign_SchemaVersion = 1, Campaign_ID = ''c1'', Campaign_ScopeID = ''s1'',
     Campaign_Name = ''n'', Campaign_Goal = ''g'', Campaign_State = CampaignDraft, Campaign_TargetID = [],
     Campaign_Plan = [], Campaign_Budget = sampleBudget, Campaign_Labels = fmempty, Campaign_Version = 1,
     Campaign_CreatedAt = 5, Campaign_UpdatedAt = 5\<rparr>"

definition sampleFacts :: EvidenceFacts where
  "sampleFacts = \<lparr>ScopeValid = True, TargetID = ''t'', SourceSHA256 = ''h'', BuildID = ''b'', HarnessCount = 1,
     Instrumented = True, FuzzRunID = ''r'', BudgetExhausted = False, CrashInputArtifactID = ''a'',
     CrashSignature = ''sig'', CrashMachineParsed = True, ReproductionCount = 3, MinimizedArtifactID = ''m'',
     MinimizedSameSignature = True, SymbolizedFrameCount = 2, RootCause = ''rc'', CrashGroupID = ''g'',
     PrimitiveAssessmentID = ''p'', PrimitiveEvidenceValid = True, BranchChecksRecorded = True,
     NoveltyChecksRecorded = True, FixBuildID = ''f'', RegressionRunID = ''rr'', FixEliminatesCrash = True,
     HumanReviewApprovalID = ''h1'', DisclosureApprovalID = ''h2'', HumanPerformedDisclosure = True\<rparr>"

definition sampleMachine :: StateMachine where
  "sampleMachine = \<lparr>MinimumReproductions = 0\<rparr>"

definition sampleRequests :: "request list" where
  "sampleRequests = map (\<lambda>s. (s, sampleFacts, 7)) (tl pipeline)"

lemma sampleRequests_disclose:
  "Campaign_State (runCampaign 9 sampleMachine sampleCampaign sampleRequests) = CampaignDisclosed"
  by code_simp

theorem disclosed_only_through_every_gate_witness:
  "Campaign_State sampleCampaign = CampaignDraft \<and>
   Campaign_State (runCampaign 9 sampleMachine sampleCampaign sampleRequests) = CampaignDisclosed \<and>
   map (\<lambda>(s, t, f). (s, t)) (history 9 sampleMachine sampleCampaign sampleRequests) = pipelineEdges"
proof -
  have d: "Campaign_State sampleCampaign = CampaignDraft" by (simp add: sampleCampaign_def)
  from disclosed_only_through_every_gate [OF d sampleRequests_disclose] d sampleRequests_disclose
  show ?thesis by blast
qed

lemma gate_paused: "gate m f CampaignPaused t \<Longrightarrow> t \<in> {CampaignCancelled, CampaignFailed}"
  by (auto elim!: gate_from_paused)

lemma runCampaign_Cons: "runCampaign clock m c (r # rs) = runCampaign clock m (attempt clock m c r) rs"
  by (simp add: runCampaign_def)

lemma runCampaign_terminal:
  "terminalCampaignState (Campaign_State c) \<Longrightarrow> runCampaign clock m c rs = c"
proof (induction rs)
  case Nil
  then show ?case by (simp add: runCampaign_def)
next
  case (Cons r rs)
  have "attempt clock m c r = c"
  proof (cases rule: attempt_cases [of clock m c r])
    case move
    with Cons.prems show ?thesis by (auto dest: gate_terminal)
  qed
  with Cons show ?case by (simp add: runCampaign_Cons)
qed

text \<open>
  A paused campaign never returns to the pipeline: every run from it ends paused, cancelled
  or failed. The machine's refusal speaks of an explicit resume to the prior state, and
  no request of any caller can make one.
\<close>

theorem paused_campaign_never_resumes:
  assumes "Campaign_State c = CampaignPaused"
  shows "Campaign_State (runCampaign clock m c rs) \<in> {CampaignPaused, CampaignCancelled, CampaignFailed}"
  using assms
proof (induction rs arbitrary: c)
  case Nil
  then show ?case by (simp add: runCampaign_def)
next
  case (Cons r rs)
  show ?case
  proof (cases rule: attempt_cases [of clock m c r])
    case stay
    with Cons show ?thesis by (simp add: runCampaign_Cons)
  next
    case move
    with Cons.prems have "fst r \<in> {CampaignCancelled, CampaignFailed}" by (auto dest: gate_paused)
    then have "terminalCampaignState (Campaign_State (attempt clock m c r))"
      using move by (auto simp: terminalCampaignState_def)
    then have "runCampaign clock m (attempt clock m c r) rs = attempt clock m c r"
      by (rule runCampaign_terminal)
    with \<open>fst r \<in> _\<close> move show ?thesis by (auto simp: runCampaign_Cons)
  qed
qed

text \<open>
  Terminal states absorb, and otherwise the version counts the effective moves: after any
  run the version is the initial one plus the number of moves, in 64-bit arithmetic, and
  a run from a terminal state changes nothing of the campaign.
\<close>

theorem version_counts_effective_moves:
  assumes "is_int64 (Campaign_Version c)"
  shows "Campaign_Version (runCampaign clock m c rs) =
      wrap64 (Campaign_Version c + int (length (history clock m c rs))) \<and>
    (terminalCampaignState (Campaign_State c) \<longrightarrow> runCampaign clock m c rs = c)"
  using assms
proof (induction rs arbitrary: c)
  case Nil
  then show ?case by (simp add: runCampaign_def)
next
  case (Cons r rs)
  have "Campaign_Version (runCampaign clock m c (r # rs)) =
      wrap64 (Campaign_Version c + int (length (history clock m c (r # rs))))"
  proof (cases rule: attempt_cases [of clock m c r])
    case stay
    with Cons show ?thesis by (simp add: runCampaign_Cons)
  next
    case move
    let ?c = "attempt clock m c r"
    have v: "Campaign_Version ?c = wrap64 (Campaign_Version c + 1)" using move by simp
    then have "is_int64 (Campaign_Version ?c)" by (simp add: wrap64_range)
    from Cons.IH [OF this] have "Campaign_Version (runCampaign clock m ?c rs) =
      wrap64 (wrap64 (Campaign_Version c + 1) + int (length (history clock m ?c rs)))"
      using v by simp
    also have "\<dots> = wrap64 (Campaign_Version c + 1 + int (length (history clock m ?c rs)))"
      by (rule wrap64_add_left)
    finally show ?thesis
      using move gate_neq [OF move(1)] by (simp add: runCampaign_Cons Let_def algebra_simps)
  qed
  then show ?case by (auto simp: runCampaign_terminal)
qed

end
