(* ===== verification/Go_Path.thy ===== *)
theory Go_Path
  imports Go_Strings "HOL-Library.Sublist"
begin

text \<open>
  Go's \<^verbatim>\<open>path/filepath\<close> on Unix: \<^verbatim>\<open>Clean\<close>, \<^verbatim>\<open>Join\<close>, \<^verbatim>\<open>Abs\<close>, \<^verbatim>\<open>Base\<close> and \<^verbatim>\<open>Rel\<close>, with
  the theorem the containment checks of the research packages rest on: on absolute paths the
  \<^verbatim>\<open>Rel\<close> test accepts exactly the paths whose cleaned components extend the root's.
\<close>

abbreviation slash :: char where
  "slash \<equiv> CHR ''/''"

definition isAbs :: "string \<Rightarrow> bool" where
  "isAbs p \<longleftrightarrow> hasPrefix p ''/''"

fun cleanStep :: "bool \<Rightarrow> string list \<Rightarrow> string \<Rightarrow> string list" where
  "cleanStep rooted st e =
     (if e = [] \<or> e = ''.'' then st
      else if e = ''..'' then
        (case st of
           [] \<Rightarrow> (if rooted then [] else [''..''])
         | x # xs \<Rightarrow> (if x = ''..'' then ''..'' # st else xs))
      else e # st)"

definition pathComps :: "string \<Rightarrow> string list" where
  "pathComps p = rev (foldl (cleanStep (isAbs p)) [] (splitChar slash p))"

definition clean :: "string \<Rightarrow> string" where
  "clean p =
     (let cs = pathComps p in
      if isAbs p then slash # strJoin [slash] cs
      else if cs = [] then ''.'' else strJoin [slash] cs)"

definition pathJoin :: "string list \<Rightarrow> string" where
  "pathJoin es = (let es' = filter (\<lambda>e. e \<noteq> []) es in if es' = [] then [] else clean (strJoin [slash] es'))"

text \<open>\<^verbatim>\<open>filepath.Abs\<close>; the working directory is the process's, \<open>None\<close> when it cannot be read.\<close>

definition absPath :: "string option \<Rightarrow> string \<Rightarrow> string option" where
  "absPath cwd p = (if isAbs p then Some (clean p) else map_option (\<lambda>wd. pathJoin [wd, p]) cwd)"

text \<open>\<^verbatim>\<open>filepath.Base\<close>: the last element after trailing slashes are removed.\<close>

definition baseName :: "string \<Rightarrow> string" where
  "baseName p =
     (if p = [] then ''.''
      else let q = rev (dropWhile (\<lambda>c. c = slash) (rev p))
           in if q = [] then ''/'' else last (splitChar slash q))"

text \<open>Elements of a cleaned path, as \<^verbatim>\<open>Rel\<close> walks them.\<close>

definition walkComps :: "string \<Rightarrow> string list" where
  "walkComps s =
     (if s = [] \<or> s = ''/'' then []
      else if isAbs s then splitChar slash (tl s) else splitChar slash s)"

fun stripCommon :: "string list \<Rightarrow> string list \<Rightarrow> string list \<times> string list" where
  "stripCommon (b # bs) (t # ts) = (if b = t then stripCommon bs ts else (b # bs, t # ts))"
| "stripCommon bs ts = (bs, ts)"

definition relPath :: "string \<Rightarrow> string \<Rightarrow> string option" where
  "relPath basepath targpath =
     (let base = clean basepath; targ = clean targpath in
      if targ = base then Some ''.''
      else
        (let base' = (if base = ''.'' then [] else base) in
         if isAbs base' \<noteq> isAbs targ then None
         else
           (case stripCommon (walkComps base') (walkComps targ) of
              (bs, ts) \<Rightarrow>
                if bs \<noteq> [] \<and> hd bs = ''..'' then None
                else if bs \<noteq> [] then Some (strJoin [slash] (replicate (length bs) ''..'' @ ts))
                else Some (strJoin [slash] ts))))"

text \<open>The containment test of the source: the relative path exists and does not climb.\<close>

definition relInside :: "string \<Rightarrow> string \<Rightarrow> bool" where
  "relInside root p =
     (case relPath root p of
        None \<Rightarrow> False
      | Some rel \<Rightarrow> rel \<noteq> ''..'' \<and> \<not> hasPrefix rel ''../'' \<and> \<not> isAbs rel)"

section \<open>Cleaned components\<close>

definition properComp :: "string \<Rightarrow> bool" where
  "properComp e \<longleftrightarrow> e \<noteq> [] \<and> e \<noteq> ''.'' \<and> e \<noteq> ''..'' \<and> slash \<notin> set e"

lemma cleanStep_proper:
  "\<forall>c \<in> set st. properComp c \<Longrightarrow> slash \<notin> set e \<Longrightarrow> \<forall>c \<in> set (cleanStep True st e). properComp c"
  by (cases st) (auto simp: properComp_def)

lemma foldl_cleanStep_proper:
  "\<forall>c \<in> set st. properComp c \<Longrightarrow> \<forall>e \<in> set es. slash \<notin> set e \<Longrightarrow>
    \<forall>c \<in> set (foldl (cleanStep True) st es). properComp c"
proof (induction es arbitrary: st)
  case Nil
  then show ?case by simp
next
  case (Cons e es)
  then have "\<forall>c \<in> set (cleanStep True st e). properComp c"
    by (intro cleanStep_proper) simp_all
  with Cons show ?case by (simp del: cleanStep.simps)
qed

lemma pathComps_proper: "isAbs p \<Longrightarrow> \<forall>c \<in> set (pathComps p). properComp c"
  using foldl_cleanStep_proper [of "[]" "splitChar slash p"] splitChar_no_sep
  by (simp add: pathComps_def)

lemma strJoin_nonempty: "cs \<noteq> [] \<Longrightarrow> hd cs \<noteq> [] \<Longrightarrow> strJoin sep cs \<noteq> []"
  by (cases cs; cases "tl cs") auto

lemma splitChar_append_char:
  "slash \<notin> set w \<Longrightarrow> splitChar slash (w @ slash # s) = w # splitChar slash s"
  by (induction w) auto

lemma splitChar_single: "slash \<notin> set w \<Longrightarrow> splitChar slash w = [w]"
  by (induction w) auto

lemma splitChar_strJoin:
  "cs \<noteq> [] \<Longrightarrow> \<forall>e \<in> set cs. slash \<notin> set e \<Longrightarrow> splitChar slash (strJoin [slash] cs) = cs"
proof (induction "[slash]" cs rule: strJoin.induct)
  case (3 w w' ws)
  then show ?case by (simp add: splitChar_append_char)
qed (simp_all add: splitChar_single)

lemma walkComps_clean:
  assumes "isAbs p"
  shows "walkComps (clean p) = pathComps p"
proof (cases "pathComps p = []")
  case True
  with assms show ?thesis by (simp add: clean_def walkComps_def)
next
  case False
  from pathComps_proper [OF assms] have ns: "\<forall>e \<in> set (pathComps p). slash \<notin> set e"
    and ne: "\<forall>e \<in> set (pathComps p). e \<noteq> []"
    by (auto simp: properComp_def)
  have "strJoin [slash] (pathComps p) \<noteq> []"
    using False ne by (intro strJoin_nonempty) auto
  with assms False ns show ?thesis
    by (simp add: clean_def walkComps_def isAbs_def hasPrefix_def splitChar_strJoin)
qed

lemma isAbs_clean [simp]: "isAbs p \<Longrightarrow> isAbs (clean p)"
  by (simp add: clean_def isAbs_def hasPrefix_def)

lemma clean_eq_iff:
  assumes "isAbs p" "isAbs q"
  shows "clean p = clean q \<longleftrightarrow> pathComps p = pathComps q"
proof
  assume "clean p = clean q"
  then have "walkComps (clean p) = walkComps (clean q)" by simp
  then show "pathComps p = pathComps q" using assms by (simp only: walkComps_clean)
next
  assume "pathComps p = pathComps q"
  then show "clean p = clean q" using assms by (simp only: clean_def simp_thms if_True Let_def)
qed

lemma clean_abs_neq_dot: "isAbs p \<Longrightarrow> clean p \<noteq> ''.''"
  by (simp add: clean_def)

lemma foldl_cleanStep_pushes:
  "\<forall>c \<in> set cs. properComp c \<Longrightarrow> foldl (cleanStep b) st cs = rev cs @ st"
  by (induction cs arbitrary: st) (simp_all add: properComp_def)

lemma pathComps_strJoin:
  assumes "cs \<noteq> []" "\<forall>c \<in> set cs. properComp c"
  shows "pathComps (strJoin [slash] cs) = cs"
proof -
  have "splitChar slash (strJoin [slash] cs) = cs"
    using assms by (intro splitChar_strJoin) (auto simp: properComp_def)
  with assms(2) show ?thesis by (simp add: pathComps_def foldl_cleanStep_pushes)
qed

section \<open>Containment\<close>

lemma stripCommon_Nil: "stripCommon bs ts = ([], ts') \<longleftrightarrow> ts = bs @ ts'"
  by (induction bs ts rule: stripCommon.induct) auto

lemma stripCommon_subset:
  "stripCommon bs ts = (bs', ts') \<Longrightarrow> set bs' \<subseteq> set bs \<and> set ts' \<subseteq> set ts"
  by (induction bs ts rule: stripCommon.induct) (auto split: if_splits)

lemma strJoin_climbs:
  "strJoin [slash] (replicate (Suc n) ''..'' @ ts) = ''..'' \<or>
   hasPrefix (strJoin [slash] (replicate (Suc n) ''..'' @ ts)) ''../''"
proof (cases "replicate n ''..'' @ ts")
  case Nil
  then show ?thesis by simp
next
  case (Cons w ws)
  have "strJoin [slash] (replicate (Suc n) ''..'' @ ts) = ''../'' @ strJoin [slash] (w # ws)"
    by (simp add: Cons)
  then show ?thesis by (metis hasPrefix_append)
qed

lemma strJoin_proper_stays:
  assumes "ts \<noteq> []" "\<forall>c \<in> set ts. properComp c"
  shows "strJoin [slash] ts \<noteq> ''..'' \<and> \<not> hasPrefix (strJoin [slash] ts) ''../''
    \<and> \<not> isAbs (strJoin [slash] ts)"
proof -
  obtain w ws where ts: "ts = w # ws" using assms(1) by (cases ts) auto
  with assms(2) have w: "properComp w" by simp
  have split: "splitChar slash (strJoin [slash] ts) = ts"
    using assms by (intro splitChar_strJoin) (auto simp: properComp_def)
  have "w = ''..''" if "strJoin [slash] ts = ''..'' \<or> hasPrefix (strJoin [slash] ts) ''../''"
  proof -
    from that have "hd (splitChar slash (strJoin [slash] ts)) = ''..''"
      by (auto simp: hasPrefix_iff)
    with split ts show ?thesis by simp
  qed
  moreover have "w = []" if "isAbs (strJoin [slash] ts)"
  proof -
    from that have "hd (splitChar slash (strJoin [slash] ts)) = []"
      by (auto simp: isAbs_def hasPrefix_iff)
    with split ts show ?thesis by simp
  qed
  ultimately show ?thesis using w by (auto simp: properComp_def)
qed

lemma clean_strJoin:
  assumes "cs \<noteq> []" "\<forall>c \<in> set cs. properComp c"
  shows "clean (strJoin [slash] cs) = strJoin [slash] cs"
  using assms strJoin_proper_stays [OF assms] by (simp add: clean_def Let_def pathComps_strJoin)

lemma pathJoin_proper:
  assumes "cs \<noteq> []" "\<forall>c \<in> set cs. properComp c"
  shows "pathJoin cs = strJoin [slash] cs"
proof -
  have "filter (\<lambda>e. e \<noteq> []) cs = cs" using assms(2) by (auto simp: filter_id_conv properComp_def)
  with assms show ?thesis by (simp add: pathJoin_def clean_strJoin)
qed

lemma strJoin_proper_inj:
  "cs \<noteq> [] \<Longrightarrow> ds \<noteq> [] \<Longrightarrow> \<forall>c \<in> set cs. properComp c \<Longrightarrow> \<forall>c \<in> set ds. properComp c \<Longrightarrow>
    strJoin [slash] cs = strJoin [slash] ds \<Longrightarrow> cs = ds"
  by (metis pathComps_strJoin)

lemma relInside_iff:
  assumes "isAbs root" "isAbs p"
  shows "relInside root p \<longleftrightarrow> prefix (pathComps root) (pathComps p)"
proof (cases "clean p = clean root")
  case True
  with assms show ?thesis
    by (simp add: relInside_def relPath_def clean_eq_iff isAbs_def hasPrefix_def)
next
  case False
  obtain bs ts where sc: "stripCommon (pathComps root) (pathComps p) = (bs, ts)" by fastforce
  note rel = assms False sc walkComps_clean clean_abs_neq_dot
  show ?thesis
  proof (cases bs)
    case Nil
    with sc have app: "pathComps p = pathComps root @ ts" by (simp add: stripCommon_Nil)
    with False assms have "ts \<noteq> []" by (auto simp: clean_eq_iff)
    moreover from pathComps_proper [OF assms(2)] app have "\<forall>c \<in> set ts. properComp c" by simp
    ultimately show ?thesis
      using rel Nil app strJoin_proper_stays [of ts] by (simp add: relInside_def relPath_def)
  next
    case (Cons b bs')
    have "b \<in> set (pathComps root)"
      using stripCommon_subset [OF sc] Cons by auto
    then have "b \<noteq> ''..''"
      using pathComps_proper [OF assms(1)] by (auto simp: properComp_def)
    then have "\<not> relInside root p"
      using rel Cons strJoin_climbs [of "length bs'" ts] by (auto simp: relInside_def relPath_def)
    moreover have "\<not> prefix (pathComps root) (pathComps p)"
    proof
      assume "prefix (pathComps root) (pathComps p)"
      then obtain zs where "pathComps p = pathComps root @ zs" by (auto simp: prefix_def)
      then have "stripCommon (pathComps root) (pathComps p) = ([], zs)"
        by (simp add: stripCommon_Nil)
      with sc Cons show False by simp
    qed
    ultimately show ?thesis by simp
  qed
qed

section \<open>Symbolic links\<close>

text \<open>
  \<^verbatim>\<open>resolveSymlinks\<close> walks up to the deepest ancestor that \<^verbatim>\<open>EvalSymlinks\<close> resolves and appends
  the rest. It is called on results of \<^verbatim>\<open>filepath.Abs\<close> only, which are absolute and clean, so
  the walk is over the components; \<open>es\<close> is \<^verbatim>\<open>filepath.EvalSymlinks\<close> on the host's file
  system, \<open>None\<close> for its error.
\<close>

fun resolveComps :: "(string \<Rightarrow> string option) \<Rightarrow> string list \<Rightarrow> string" where
  "resolveComps es [] = (case es ''/'' of Some r \<Rightarrow> r | None \<Rightarrow> ''/'')"
| "resolveComps es (x # up) =
     (case es (slash # strJoin [slash] (rev (x # up))) of
        Some r \<Rightarrow> r
      | None \<Rightarrow> pathJoin [resolveComps es up, x])"

definition resolveSymlinks :: "(string \<Rightarrow> string option) \<Rightarrow> string \<Rightarrow> string" where
  "resolveSymlinks es p = resolveComps es (rev (pathComps p))"

lemma isAbs_Cons: "isAbs s \<longleftrightarrow> (\<exists>t. s = slash # t)"
  by (auto simp: isAbs_def hasPrefix_iff)

lemma isAbs_pathJoin: "isAbs d \<Longrightarrow> isAbs (pathJoin (d # es))"
proof -
  assume "isAbs d"
  then have "d \<noteq> []" and "isAbs (strJoin [slash] (d # xs))" for xs
    by (cases xs; auto simp: isAbs_Cons)+
  then show ?thesis by (simp add: pathJoin_def)
qed

lemma isAbs_resolveComps:
  assumes "\<And>q r. es q = Some r \<Longrightarrow> isAbs r"
  shows "isAbs (resolveComps es cs)"
proof (induction cs)
  case Nil
  then show ?case using assms by (auto simp: isAbs_Cons split: option.splits)
next
  case (Cons x cs)
  then show ?case using assms by (auto simp: isAbs_pathJoin split: option.splits)
qed

lemma isAbs_resolveSymlinks:
  "(\<And>q r. es q = Some r \<Longrightarrow> isAbs r) \<Longrightarrow> isAbs (resolveSymlinks es p)"
  unfolding resolveSymlinks_def by (rule isAbs_resolveComps)

end
