(* ===== verification/Go_Net.thy ===== *)
theory Go_Net
  imports Go_Strings
begin

text \<open>
  \<^verbatim>\<open>net.SplitHostPort\<close> (its host, \<open>None\<close> for its error) and \<^verbatim>\<open>net.ParseIP\<close> (whether the
  text is an IP address), as the egress allowlist uses them.
\<close>

definition indexOf :: "char \<Rightarrow> string \<Rightarrow> nat option" where
  "indexOf c s = (let n = length (takeWhile (\<lambda>d. d \<noteq> c) s) in if n < length s then Some n else None)"

definition lastIndexOf :: "char \<Rightarrow> string \<Rightarrow> nat option" where
  "lastIndexOf c s = map_option (\<lambda>n. length s - 1 - n) (indexOf c (rev s))"

definition hasByte :: "char \<Rightarrow> string \<Rightarrow> bool" where
  "hasByte c s \<longleftrightarrow> c \<in> set s"

definition splitHostPort :: "string \<Rightarrow> string option" where
  "splitHostPort hp =
     (case lastIndexOf (CHR '':'') hp of
        None \<Rightarrow> None
      | Some i \<Rightarrow>
          if hasPrefix hp ''['' then
            (case indexOf (CHR '']'') hp of
               None \<Rightarrow> None
             | Some e \<Rightarrow>
                 if e + 1 = i then
                   (if hasByte (CHR ''['') (drop 1 hp) \<or> hasByte (CHR '']'') (drop (e + 1) hp) then None
                    else Some (take (e - 1) (drop 1 hp)))
                 else None)
          else
            (let host = take i hp in
             if hasByte (CHR '':'') host \<or> hasByte (CHR ''['') hp \<or> hasByte (CHR '']'') hp
             then None else Some host))"

definition isDigit :: "char \<Rightarrow> bool" where
  "isDigit c \<longleftrightarrow> (let n = (of_char c :: nat) in 48 \<le> n \<and> n \<le> 57)"

definition digitVal :: "char \<Rightarrow> nat" where
  "digitVal c = of_char c - 48"

definition decVal :: "string \<Rightarrow> nat" where
  "decVal s = foldl (\<lambda>v c. v * 10 + digitVal c) 0 s"

text \<open>An octet: digits, no leading zero, at most 255.\<close>

definition isOctet :: "string \<Rightarrow> bool" where
  "isOctet w \<longleftrightarrow> w \<noteq> [] \<and> list_all isDigit w \<and> (w = ''0'' \<or> hd w \<noteq> CHR ''0'') \<and> decVal w \<le> 255"

definition parseIPv4 :: "string \<Rightarrow> bool" where
  "parseIPv4 s \<longleftrightarrow> (let ws = splitChar (CHR ''.'') s in length ws = 4 \<and> list_all isOctet ws)"

definition isHexDigit :: "char \<Rightarrow> bool" where
  "isHexDigit c \<longleftrightarrow>
     (let n = (of_char c :: nat) in (48 \<le> n \<and> n \<le> 57) \<or> (97 \<le> n \<and> n \<le> 102) \<or> (65 \<le> n \<and> n \<le> 70))"

text \<open>
  The loop of \<^verbatim>\<open>parseIPv6\<close> over 16-bit groups: \<open>room\<close> is the number of groups that still fit,
  \<open>ell\<close> whether an ellipsis was seen. The result is the rest of the input, the room left and
  the ellipsis flag, \<open>None\<close> for a syntax error.
\<close>

fun parseGroups :: "nat \<Rightarrow> bool \<Rightarrow> string \<Rightarrow> (string \<times> nat \<times> bool) option" where
  "parseGroups 0 ell s = Some (s, 0, ell)"
| "parseGroups (Suc room) ell s =
     (let w = takeWhile isHexDigit s; r = dropWhile isHexDigit s in
      if w = [] \<or> length w > 4 then None
      else if hasPrefix r ''.'' then
        (if \<not> ell \<and> Suc room \<noteq> 2 then None
         else if Suc room < 2 then None
         else if parseIPv4 s then Some ([], Suc room - 2, ell) else None)
      else if r = [] then Some ([], room, ell)
      else if hd r \<noteq> CHR '':'' \<or> length r = 1 then None
      else
        (let r' = tl r in
         if hd r' = CHR '':'' then
           (if ell then None
            else if tl r' = [] then Some ([], room, True) else parseGroups room True (tl r'))
         else parseGroups room ell r'))"

definition parseIPv6 :: "string \<Rightarrow> bool" where
  "parseIPv6 s \<longleftrightarrow>
     (let ell = hasPrefix s ''::''; s' = (if ell then drop 2 s else s) in
      if ell \<and> s' = [] then True
      else
        (case parseGroups 8 ell s' of
           None \<Rightarrow> False
         | Some (rest, room, ell') \<Rightarrow> rest = [] \<and> (if room > 0 then ell' else \<not> ell')))"

text \<open>
  \<^verbatim>\<open>netip.ParseAddr\<close> dispatches on the first separator; \<^verbatim>\<open>net.ParseIP\<close> refuses a zone, so any
  \<^verbatim>\<open>%\<close> makes the text no IP address.
\<close>

definition parseIP :: "string \<Rightarrow> bool" where
  "parseIP s =
     (case find (\<lambda>c. c = CHR ''.'' \<or> c = CHR '':'' \<or> c = CHR ''%'') s of
        None \<Rightarrow> False
      | Some c \<Rightarrow>
          if c = CHR ''.'' then parseIPv4 s
          else if c = CHR '':'' then \<not> hasByte (CHR ''%'') s \<and> parseIPv6 s
          else False)"

lemma parseIP_examples:
  "parseIP ''127.0.0.1''" "parseIP ''::1''" "parseIP ''fe80::1:2''" "parseIP ''::ffff:10.0.0.1''"
  "\<not> parseIP ''127.0.0.01''" "\<not> parseIP ''1:2:3:4:5:6:7''" "\<not> parseIP ''1::2::3''"
  "\<not> parseIP ''fe80::1%en0''" "\<not> parseIP ''example.org''" "\<not> parseIP ''256.1.1.1''"
  by code_simp+

lemma splitHostPort_examples:
  "splitHostPort ''example.org:443'' = Some ''example.org''"
  "splitHostPort ''[::1]:80'' = Some ''::1''"
  "splitHostPort ''::1'' = None"
  "splitHostPort ''example.org'' = None"
  by code_simp+

end
