(* ===== verification/Policy.thy ===== *)
theory Policy
  imports Campaign_Machine Go_Path Go_Net
begin

text \<open>
  \<^verbatim>\<open>internal/research/domain/policy.go\<close>: scope validity, the fail-closed authorization of one
  concrete action, the containment and egress tests it uses, and the evidence rules of a
  primitive assessment. What the process's surroundings contribute (the working directory, the
  symbolic links, the clock, case mapping outside ASCII) is the record \<open>Host\<close>.
\<close>

record Host =
  host_cwd :: "string option"
  host_links :: "string \<Rightarrow> string option"
  host_lower :: "string \<Rightarrow> string"
  host_clock :: time

record Action =
  Action_Principal :: Principal
  Action_Operation :: Operation
  Action_Repository :: string
  Action_Revision :: string
  Action_WorkspacePath :: string
  Action_DestinationHost :: string
  Action_WallSeconds :: int
  Action_MemoryBytes :: int
  Action_CPUSeconds :: int
  Action_DiskBytes :: int
  Action_Inodes :: int
  Action_PIDs :: int
  Action_ApprovalID :: string

record PolicyDecision =
  Decision_Allowed :: bool
  Decision_ApprovalRequired :: bool
  Decision_Reason :: string

fun isKnownOperation :: "Operation \<Rightarrow> bool" where
  "isKnownOperation (OtherOperation _) = False"
| "isKnownOperation _ = True"

definition budgetValidate :: "ResourceBudget \<Rightarrow> unit result" where
  "budgetValidate b =
     (if MaxWallSeconds b \<le> 0 \<or> MaxMemoryBytes b \<le> 0 \<or> MaxCPUSeconds b \<le> 0 \<or> MaxDiskBytes b \<le> 0 \<or>
         MaxInodes b \<le> 0 \<or> MaxPIDs b \<le> 0 \<or> MaxConcurrent b \<le> 0
      then Inl (Err ''resource budget requires positive wall, memory, CPU, disk, inode, PID, and concurrency limits'')
      else Inr ())"

text \<open>The two loops of \<^verbatim>\<open>Validate\<close>; \<open>seen\<close> is the map \<^verbatim>\<open>allowed\<close> filled so far.\<close>

fun distinctKnown :: "Operation list \<Rightarrow> Operation list \<Rightarrow> bool" where
  "distinctKnown seen [] = True"
| "distinctKnown seen (op # ops) =
     (if \<not> isKnownOperation op \<or> op \<in> set seen then False else distinctKnown (op # seen) ops)"

definition scopeValidate :: "Host \<Rightarrow> AuthorizationScope \<Rightarrow> time \<Rightarrow> unit result" where
  "scopeValidate h s now0 =
     (if Scope_ID s = [] \<or> Scope_OperatorID s = [] \<or> trimSpace (Scope_Purpose s) = []
      then Inl (Err ''research: scope id, operator, and purpose are required'')
      else if Scope_TargetRepository s = [] \<or> Scope_AllowedRevisions s = [] \<or> Scope_WorkspaceRoots s = []
      then Inl (Err ''research: scope target, revisions, and workspace roots are required'')
      else if Scope_AllowedOperations s = []
      then Inl (Err ''research: scope must allow at least one operation'')
      else
        (case budgetValidate (Scope_Budget s) of
           Inl e \<Rightarrow> Inl (Err (''research: scope '' @ errText e))
         | Inr _ \<Rightarrow>
             if \<not> distinctKnown [] (Scope_AllowedOperations s)
             then Inl (Err ''research: scope contains an unknown or duplicate operation'')
             else if list_ex (\<lambda>op. \<not> isKnownOperation op \<or> op \<notin> set (Scope_AllowedOperations s))
                       (Scope_ApprovalOperations s)
             then Inl (Err ''research: approval operation must be a known allowed operation'')
             else if isZero (Scope_ExpiresAt s)
             then Inl (Err ''research: scope expiry is required'')
             else
               (let now = (if isZero now0 then host_clock h else now0) in
                if \<not> timeBefore now (Scope_ExpiresAt s)
                then Inl (Err ''research: authorization scope expired'')
                else
                  (case Scope_RevokedAt s of
                     Some r \<Rightarrow>
                       if \<not> timeBefore now r then Inl (Err ''research: authorization scope revoked'')
                       else Inr ()
                   | None \<Rightarrow> Inr ()))))"

fun roleMay :: "Role \<Rightarrow> Operation \<Rightarrow> bool" where
  "roleMay RoleAdmin op = True"
| "roleMay RoleReviewer op = (op = OperationNoveltyLookup \<or> op = OperationDraftReport \<or> op = OperationDisclose)"
| "roleMay RoleOperator op = (op \<noteq> OperationDisclose \<and> op \<noteq> OperationPurgeArtifact)"
| "roleMay RoleAnalyst op =
     (op = OperationInspect \<or> op = OperationStaticAnalyze \<or> op = OperationCoverage \<or> op = OperationDraftReport)"
| "roleMay RoleViewer op = (op = OperationInspect)"
| "roleMay (OtherRole _) op = False"

definition principalMay :: "Principal \<Rightarrow> Operation \<Rightarrow> bool" where
  "principalMay p op = list_ex (\<lambda>r. roleMay r op) (Principal_Roles p)"

definition containsOperation :: "Operation list \<Rightarrow> Operation \<Rightarrow> bool" where
  "containsOperation xs want = list_ex (\<lambda>x. x = want) xs"

definition containsString :: "string list \<Rightarrow> string \<Rightarrow> bool" where
  "containsString xs want = list_ex (\<lambda>x. x = want) xs"

definition insideAnyRoot :: "Host \<Rightarrow> string \<Rightarrow> string list \<Rightarrow> bool" where
  "insideAnyRoot h path roots =
     (case absPath (host_cwd h) path of
        None \<Rightarrow> False
      | Some path' \<Rightarrow>
          list_ex (\<lambda>root.
            (case absPath (host_cwd h) root of
               None \<Rightarrow> False
             | Some r \<Rightarrow> relInside (resolveSymlinks (host_links h) r) (resolveSymlinks (host_links h) path')))
            roots)"

definition normalHost :: "Host \<Rightarrow> string \<Rightarrow> string" where
  "normalHost h s = trimSuffix (toLower (host_lower h) (trimSpace s)) ''.''"

definition effectiveHost :: "Host \<Rightarrow> string \<Rightarrow> string" where
  "effectiveHost h hst = normalHost h (case splitHostPort hst of Some x \<Rightarrow> x | None \<Rightarrow> hst)"

definition hostAllowed :: "Host \<Rightarrow> string \<Rightarrow> string list \<Rightarrow> bool" where
  "hostAllowed h hst allowed =
     (let host = effectiveHost h hst in
      if host = [] \<or> parseIP host then False
      else list_ex (\<lambda>raw.
             (let a = normalHost h raw in
              a = host \<or> (hasPrefix a ''*.'' \<and> hasSuffix host (drop 1 a) \<and> host \<noteq> drop 2 a))) allowed)"

definition exceeds :: "int \<Rightarrow> int \<Rightarrow> bool" where
  "exceeds requested maximum \<longleftrightarrow> requested < 0 \<or> (maximum > 0 \<and> requested > maximum)"

definition deny :: "string \<Rightarrow> PolicyDecision" where
  "deny reason = \<lparr>Decision_Allowed = False, Decision_ApprovalRequired = False, Decision_Reason = reason\<rparr>"

definition overBudget :: "Action \<Rightarrow> ResourceBudget \<Rightarrow> bool" where
  "overBudget a b \<longleftrightarrow>
     exceeds (Action_WallSeconds a) (MaxWallSeconds b) \<or> exceeds (Action_MemoryBytes a) (MaxMemoryBytes b) \<or>
     exceeds (Action_CPUSeconds a) (MaxCPUSeconds b) \<or> exceeds (Action_DiskBytes a) (MaxDiskBytes b) \<or>
     exceeds (Action_Inodes a) (MaxInodes b) \<or> exceeds (Action_PIDs a) (MaxPIDs b)"

definition authorize :: "Host \<Rightarrow> AuthorizationScope \<Rightarrow> Action \<Rightarrow> time \<Rightarrow> PolicyDecision" where
  "authorize h s a now =
     (case scopeValidate h s now of
        Inl e \<Rightarrow> deny (errText e)
      | Inr _ \<Rightarrow>
          if Principal_ID (Action_Principal a) = [] then deny ''research: authenticated principal required''
          else if \<not> isKnownOperation (Action_Operation a) then deny ''research: unknown operation''
          else if \<not> principalMay (Action_Principal a) (Action_Operation a)
          then deny ''research: principal role does not permit operation''
          else if Action_Repository a \<noteq> Scope_TargetRepository s
          then deny ''research: repository is outside authorization scope''
          else if \<not> containsString (Scope_AllowedRevisions s) (Action_Revision a)
          then deny ''research: revision is outside authorization scope''
          else if \<not> containsOperation (Scope_AllowedOperations s) (Action_Operation a)
          then deny ''research: operation is outside authorization scope''
          else if Action_WorkspacePath a \<noteq> [] \<and> \<not> insideAnyRoot h (Action_WorkspacePath a) (Scope_WorkspaceRoots s)
          then deny ''research: workspace path is outside authorized roots''
          else if Action_DestinationHost a \<noteq> [] \<and> \<not> hostAllowed h (Action_DestinationHost a) (Scope_AllowedDomains s)
          then deny ''research: destination host is outside egress allowlist''
          else if overBudget a (Scope_Budget s)
          then deny ''research: requested resources exceed authorization budget''
          else if containsOperation (Scope_ApprovalOperations s) (Action_Operation a) \<and> Action_ApprovalID a = []
          then \<lparr>Decision_Allowed = False, Decision_ApprovalRequired = True,
                 Decision_Reason = ''research: human approval required''\<rparr>
          else \<lparr>Decision_Allowed = True, Decision_ApprovalRequired = False, Decision_Reason = ''authorized''\<rparr>)"

section \<open>Primitive assessments\<close>

fun distinctNonBlank :: "string list \<Rightarrow> string list \<Rightarrow> bool" where
  "distinctNonBlank seen [] = True"
| "distinctNonBlank seen (i # ids) =
     (if trimSpace i = [] \<or> i \<in> set seen then False else distinctNonBlank (i # seen) ids)"

definition validEvidenceIDs :: "string list \<Rightarrow> bool" where
  "validEvidenceIDs ids \<longleftrightarrow> (if ids = [] then False else distinctNonBlank [] ids)"

text \<open>
  The loop over the map \<^verbatim>\<open>fields\<close>. Go visits the entries of a map in an order of its own; the
  order only chooses which of several errors is reported, so it is an argument here.
\<close>

definition fieldCheck :: "string \<Rightarrow> EvidenceValue \<Rightarrow> unit result" where
  "fieldCheck name f =
     (if EV_Known f \<and> (trimSpace (EV_Value f) = [] \<or> \<not> validEvidenceIDs (EV_EvidenceIDs f))
      then Inl (Err (''research: primitive field '' @ name @ '' is known without evidence''))
      else if \<not> EV_Known f \<and> (EV_Value f \<noteq> [] \<or> EV_EvidenceIDs f \<noteq> [])
      then Inl (Err (''research: primitive field '' @ name @ '' is unknown but carries a claim''))
      else Inr ())"

fun fieldLoop :: "(string \<times> EvidenceValue) list \<Rightarrow> unit result" where
  "fieldLoop [] = Inr ()"
| "fieldLoop ((n, f) # fs) = rbind (fieldCheck n f) (\<lambda>_. fieldLoop fs)"

definition primitiveFields :: "PrimitiveAssessment \<Rightarrow> (string \<times> EvidenceValue) list" where
  "primitiveFields p =
     [(''attacker_control'', Prim_AttackerControl p), (''access_width'', Prim_AccessWidth p),
      (''value_control'', Prim_ValueControl p), (''target_relation'', Prim_TargetRelation p),
      (''repeatability'', Prim_Repeatability p), (''reachability'', Prim_Reachability p),
      (''mitigations'', Prim_Mitigations p), (''exploitability_gap'', Prim_ExploitabilityGap p)]"

fun isKnownPrimitive :: "PrimitiveOperation \<Rightarrow> bool" where
  "isKnownPrimitive (OtherPrimitive _) = False"
| "isKnownPrimitive _ = True"

definition validatePrimitiveIn :: "(string \<times> EvidenceValue) list \<Rightarrow> PrimitiveAssessment \<Rightarrow> unit result" where
  "validatePrimitiveIn order p =
     (if Prim_ID p = [] \<or> Prim_CampaignID p = [] \<or> Prim_CrashGroupID p = [] \<or>
         primitiveText (Prim_Operation p) = [] \<or> Prim_OperationEvidence p = []
      then Inl (Err ''research: primitive identity, crash group, operation, and operation evidence required'')
      else if \<not> isKnownPrimitive (Prim_Operation p)
      then Inl (Err ''research: unknown primitive operation'')
      else if \<not> validEvidenceIDs (Prim_OperationEvidence p)
      then Inl (Err ''research: primitive operation evidence contains an empty or duplicate id'')
      else fieldLoop order)"

definition validatePrimitive :: "PrimitiveAssessment \<Rightarrow> unit result" where
  "validatePrimitive p = validatePrimitiveIn (primitiveFields p) p"

section \<open>Specification of an authorization\<close>

text \<open>
  What a live scope is and what an action has to satisfy, without the order of the checks, the
  loops and the maps of the code.
\<close>

definition liveScope :: "Host \<Rightarrow> AuthorizationScope \<Rightarrow> time \<Rightarrow> bool" where
  "liveScope h s now0 \<longleftrightarrow>
     (let now = (if now0 = zeroTime then host_clock h else now0) in
      Scope_ID s \<noteq> [] \<and> Scope_OperatorID s \<noteq> [] \<and> trimSpace (Scope_Purpose s) \<noteq> [] \<and>
      Scope_TargetRepository s \<noteq> [] \<and> Scope_AllowedRevisions s \<noteq> [] \<and> Scope_WorkspaceRoots s \<noteq> [] \<and>
      Scope_AllowedOperations s \<noteq> [] \<and> ok (budgetValidate (Scope_Budget s)) \<and>
      distinct (Scope_AllowedOperations s) \<and> (\<forall>op \<in> set (Scope_AllowedOperations s). isKnownOperation op) \<and>
      set (Scope_ApprovalOperations s) \<subseteq> set (Scope_AllowedOperations s) \<and>
      Scope_ExpiresAt s \<noteq> zeroTime \<and> now < Scope_ExpiresAt s \<and>
      (\<forall>r. Scope_RevokedAt s = Some r \<longrightarrow> now < r))"

definition withinBudget :: "Action \<Rightarrow> ResourceBudget \<Rightarrow> bool" where
  "withinBudget a b \<longleftrightarrow>
     Action_WallSeconds a \<in> {0 .. MaxWallSeconds b} \<and> Action_MemoryBytes a \<in> {0 .. MaxMemoryBytes b} \<and>
     Action_CPUSeconds a \<in> {0 .. MaxCPUSeconds b} \<and> Action_DiskBytes a \<in> {0 .. MaxDiskBytes b} \<and>
     Action_Inodes a \<in> {0 .. MaxInodes b} \<and> Action_PIDs a \<in> {0 .. MaxPIDs b}"

lemma ok_iff: "ok r \<longleftrightarrow> (\<exists>x. r = Inr x)"
  by (cases r) auto

lemma budgetValidate_Inr_iff [domain_simps]:
  "budgetValidate b = Inr u \<longleftrightarrow>
     0 < MaxWallSeconds b \<and> 0 < MaxMemoryBytes b \<and> 0 < MaxCPUSeconds b \<and> 0 < MaxDiskBytes b \<and>
     0 < MaxInodes b \<and> 0 < MaxPIDs b \<and> 0 < MaxConcurrent b"
  by (auto simp: budgetValidate_def)

lemma distinctKnown_iff:
  "distinctKnown seen ops \<longleftrightarrow>
     distinct ops \<and> (\<forall>op \<in> set ops. isKnownOperation op) \<and> set ops \<inter> set seen = {}"
  by (induction ops arbitrary: seen) auto

lemma containsOperation_iff [simp]: "containsOperation xs op \<longleftrightarrow> op \<in> set xs"
  by (auto simp: containsOperation_def list_ex_iff)

lemma containsString_iff [simp]: "containsString xs s \<longleftrightarrow> s \<in> set xs"
  by (auto simp: containsString_def list_ex_iff)

lemma scopeValidate_Inr_iff: "scopeValidate h s now = Inr u \<longleftrightarrow> liveScope h s now"
proof (cases "budgetValidate (Scope_Budget s)")
  case (Inl e)
  then show ?thesis by (simp add: scopeValidate_def liveScope_def Let_def)
next
  case (Inr x)
  then show ?thesis
    by (cases "Scope_RevokedAt s")
      (auto simp: scopeValidate_def liveScope_def Let_def distinctKnown_iff list_ex_iff time_defs)
qed

lemma overBudget_iff:
  assumes "budgetValidate b = Inr u"
  shows "overBudget a b \<longleftrightarrow> \<not> withinBudget a b"
  using assms by (auto simp: overBudget_def exceeds_def withinBudget_def domain_simps)

lemma liveScope_budget: "liveScope h s now \<Longrightarrow> budgetValidate (Scope_Budget s) = Inr ()"
  by (auto simp: liveScope_def Let_def ok_iff)

lemma deny_not_allowed [simp]:
  "\<not> Decision_Allowed (deny r)" "\<not> Decision_ApprovalRequired (deny r)"
  by (simp_all add: deny_def)

lemma authorize_allowed_unfold:
  "Decision_Allowed (authorize h s a now) \<longleftrightarrow>
     liveScope h s now \<and> Principal_ID (Action_Principal a) \<noteq> [] \<and>
     isKnownOperation (Action_Operation a) \<and> principalMay (Action_Principal a) (Action_Operation a) \<and>
     Action_Repository a = Scope_TargetRepository s \<and> Action_Revision a \<in> set (Scope_AllowedRevisions s) \<and>
     Action_Operation a \<in> set (Scope_AllowedOperations s) \<and>
     (Action_WorkspacePath a = [] \<or> insideAnyRoot h (Action_WorkspacePath a) (Scope_WorkspaceRoots s)) \<and>
     (Action_DestinationHost a = [] \<or> hostAllowed h (Action_DestinationHost a) (Scope_AllowedDomains s)) \<and>
     \<not> overBudget a (Scope_Budget s) \<and>
     (Action_Operation a \<notin> set (Scope_ApprovalOperations s) \<or> Action_ApprovalID a \<noteq> [])"
proof (cases "scopeValidate h s now")
  case (Inl e)
  with scopeValidate_Inr_iff [of h s now "()"] show ?thesis by (simp add: authorize_def)
next
  case (Inr x)
  with scopeValidate_Inr_iff [of h s now x] show ?thesis by (simp add: authorize_def)
qed

section \<open>Properties\<close>

text \<open>
  C2. Authorization is exactly the conjunction of the scope's constraints: an action is allowed if
  and only if the scope is live, a role of an identified principal permits the operation, the
  repository, revision and operation are those of the scope, the workspace path and the
  destination host are inside its roots and its allowlist, every requested resource is between
  zero and the scope's limit, and an approval is named when the operation asks for one.
\<close>

theorem authorize_allowed_iff:
  "Decision_Allowed (authorize h s a now) \<longleftrightarrow>
     liveScope h s now \<and> Principal_ID (Action_Principal a) \<noteq> [] \<and>
     (\<exists>r \<in> set (Principal_Roles (Action_Principal a)). roleMay r (Action_Operation a)) \<and>
     Action_Repository a = Scope_TargetRepository s \<and> Action_Revision a \<in> set (Scope_AllowedRevisions s) \<and>
     Action_Operation a \<in> set (Scope_AllowedOperations s) \<and>
     (Action_WorkspacePath a = [] \<or> insideAnyRoot h (Action_WorkspacePath a) (Scope_WorkspaceRoots s)) \<and>
     (Action_DestinationHost a = [] \<or> hostAllowed h (Action_DestinationHost a) (Scope_AllowedDomains s)) \<and>
     withinBudget a (Scope_Budget s) \<and>
     (Action_ApprovalID a = [] \<longrightarrow> Action_Operation a \<notin> set (Scope_ApprovalOperations s))"
proof (cases "liveScope h s now")
  case True
  then have "overBudget a (Scope_Budget s) \<longleftrightarrow> \<not> withinBudget a (Scope_Budget s)"
    using overBudget_iff liveScope_budget by blast
  moreover have "Action_Operation a \<in> set (Scope_AllowedOperations s) \<Longrightarrow> isKnownOperation (Action_Operation a)"
    using True by (auto simp: liveScope_def Let_def)
  ultimately show ?thesis
    unfolding authorize_allowed_unfold principalMay_def list_ex_iff by blast
next
  case False
  then show ?thesis by (simp add: authorize_allowed_unfold)
qed

text \<open>A scope, an action it allows and the surroundings of a process, for the concrete instances.\<close>

definition sampleHost :: Host where
  "sampleHost = \<lparr>host_cwd = Some ''/'', host_links = (\<lambda>p. Some p), host_lower = (\<lambda>s. s), host_clock = 100\<rparr>"

definition sampleScope :: AuthorizationScope where
  "sampleScope = \<lparr>Scope_SchemaVersion = 1, Scope_ID = ''s1'', Scope_OperatorID = ''ana'',
     Scope_MemberIDs = [''bob'', ''eve''], Scope_Purpose = ''fuzzing'', Scope_TargetRepository = ''repo'',
     Scope_AllowedRevisions = [''main''], Scope_WorkspaceRoots = [''/work''],
     Scope_AllowedOperations = [OperationFuzz, OperationAcquire, OperationPurgeArtifact, OperationDisclose],
     Scope_AllowedApparatusIDs = [], Scope_ApprovalOperations = [OperationAcquire],
     Scope_AllowedDomains = [''*.example.org''], Scope_Budget = sampleBudget, Scope_DisclosureContact = [],
     Scope_CreatedAt = 1, Scope_ExpiresAt = 1000, Scope_RevokedAt = None\<rparr>"

definition samplePrincipal :: Principal where
  "samplePrincipal = \<lparr>Principal_ID = ''ana'', Principal_Name = ''Ana'', Principal_Roles = [RoleOperator]\<rparr>"

definition sampleAction :: Action where
  "sampleAction = \<lparr>Action_Principal = samplePrincipal, Action_Operation = OperationAcquire,
     Action_Repository = ''repo'', Action_Revision = ''main'', Action_WorkspacePath = ''/work/a/../b'',
     Action_DestinationHost = ''Git.example.org:443'', Action_WallSeconds = 10, Action_MemoryBytes = 10,
     Action_CPUSeconds = 10, Action_DiskBytes = 10, Action_Inodes = 10, Action_PIDs = 1,
     Action_ApprovalID = ''ap1''\<rparr>"

lemma sampleAction_allowed: "Decision_Allowed (authorize sampleHost sampleScope sampleAction 7)"
  by code_simp

theorem authorize_allowed_iff_witness:
  "Decision_Allowed (authorize sampleHost sampleScope sampleAction 7) \<and>
   liveScope sampleHost sampleScope 7 \<and> withinBudget sampleAction (Scope_Budget sampleScope)"
  using authorize_allowed_iff [of sampleHost sampleScope sampleAction 7] sampleAction_allowed by blast

text \<open>
  Authorization is never gained by waiting: what a scope allows at some instant it allows at
  every earlier one, so an expired or revoked scope stays refused, for every action.
\<close>

theorem authorize_antitone_in_time:
  assumes "Decision_Allowed (authorize h s a later)"
    and "now \<le> later" "now \<noteq> zeroTime" "later \<noteq> zeroTime"
  shows "Decision_Allowed (authorize h s a now) \<and> now < Scope_ExpiresAt s \<and>
    (\<forall>r. Scope_RevokedAt s = Some r \<longrightarrow> later < r)"
proof -
  have later: "liveScope h s later" using assms(1) by (simp add: authorize_allowed_unfold)
  then have "liveScope h s now" using assms by (auto simp: liveScope_def Let_def)
  with assms(1) have "Decision_Allowed (authorize h s a now)" by (simp add: authorize_allowed_unfold)
  with later assms show ?thesis by (auto simp: liveScope_def Let_def)
qed

text \<open>
  The egress allowlist: a destination is allowed exactly when its normalised host is not
  empty, is not an IP address, and equals an entry or lies under the domain of a wildcard entry.
  No entry admits an IP literal, and a wildcard never admits its own bare domain.
\<close>

theorem hostAllowed_iff:
  "hostAllowed h hst allowed \<longleftrightarrow>
    effectiveHost h hst \<noteq> [] \<and> \<not> parseIP (effectiveHost h hst) \<and>
    (\<exists>raw \<in> set allowed. normalHost h raw = effectiveHost h hst \<or>
       (\<exists>d t. normalHost h raw = ''*.'' @ d \<and> effectiveHost h hst = t @ ''.'' @ d))"
proof -
  let ?host = "effectiveHost h hst"
  have "(hasPrefix a ''*.'' \<and> hasSuffix ?host (drop 1 a) \<and> ?host \<noteq> drop 2 a) \<longleftrightarrow>
      (\<exists>d t. a = ''*.'' @ d \<and> ?host = t @ ''.'' @ d)" for a
    by (auto simp: hasPrefix_iff hasSuffix_iff)
  then show ?thesis
    unfolding hostAllowed_def Let_def list_ex_iff by auto
qed


definition rootedLinks :: "string \<Rightarrow> string option" where
  "rootedLinks p = (if isAbs p then Some p else None)"


lemma distinctNonBlank_iff:
  "distinctNonBlank seen ids \<longleftrightarrow>
     distinct ids \<and> (\<forall>i \<in> set ids. trimSpace i \<noteq> []) \<and> set ids \<inter> set seen = {}"
  by (induction ids arbitrary: seen) auto

lemma validEvidenceIDs_iff:
  "validEvidenceIDs ids \<longleftrightarrow> ids \<noteq> [] \<and> distinct ids \<and> (\<forall>i \<in> set ids. trimSpace i \<noteq> [])"
  by (auto simp: validEvidenceIDs_def distinctNonBlank_iff)

text \<open>A dimension is either a claim with evidence or nothing at all.\<close>

definition backedField :: "EvidenceValue \<Rightarrow> bool" where
  "backedField f \<longleftrightarrow>
     (if EV_Known f then trimSpace (EV_Value f) \<noteq> [] \<and> validEvidenceIDs (EV_EvidenceIDs f)
      else EV_Value f = [] \<and> EV_EvidenceIDs f = [])"

lemma fieldCheck_Inr_iff: "fieldCheck n f = Inr u \<longleftrightarrow> backedField f"
  by (auto simp: fieldCheck_def backedField_def)

lemma fieldLoop_Inr_iff: "fieldLoop fs = Inr u \<longleftrightarrow> (\<forall>(n, f) \<in> set fs. backedField f)"
  by (induction fs rule: fieldLoop.induct) (auto simp: fieldCheck_Inr_iff)

lemma validatePrimitiveIn_Inr_iff:
  "validatePrimitiveIn order p = Inr u \<longleftrightarrow>
     Prim_ID p \<noteq> [] \<and> Prim_CampaignID p \<noteq> [] \<and> Prim_CrashGroupID p \<noteq> [] \<and>
     isKnownPrimitive (Prim_Operation p) \<and> validEvidenceIDs (Prim_OperationEvidence p) \<and>
     (\<forall>(n, f) \<in> set order. backedField f)"
  by (cases "Prim_Operation p") (simp_all add: validatePrimitiveIn_def fieldLoop_Inr_iff validEvidenceIDs_iff)

text \<open>
  A primitive assessment is accepted exactly when it is identified, its operation is a known
  one backed by distinct non-blank evidence, and each of its eight dimensions is either a claim
  with evidence or empty; the order in which Go visits the map of dimensions does not matter.
\<close>

theorem validatePrimitive_iff_any_order:
  assumes "set order = set (primitiveFields p)"
  shows "ok (validatePrimitiveIn order p) = ok (validatePrimitive p) \<and>
    (ok (validatePrimitive p) \<longleftrightarrow>
      Prim_ID p \<noteq> [] \<and> Prim_CampaignID p \<noteq> [] \<and> Prim_CrashGroupID p \<noteq> [] \<and>
      isKnownPrimitive (Prim_Operation p) \<and> Prim_OperationEvidence p \<noteq> [] \<and>
      distinct (Prim_OperationEvidence p) \<and> (\<forall>i \<in> set (Prim_OperationEvidence p). trimSpace i \<noteq> []) \<and>
      list_all backedField
        [Prim_AttackerControl p, Prim_AccessWidth p, Prim_ValueControl p, Prim_TargetRelation p,
         Prim_Repeatability p, Prim_Reachability p, Prim_Mitigations p, Prim_ExploitabilityGap p])"
  unfolding ok_iff validatePrimitive_def validatePrimitiveIn_Inr_iff assms validEvidenceIDs_iff
  by (auto simp: primitiveFields_def)

definition noEvidence :: EvidenceValue where
  "noEvidence = \<lparr>EV_Value = [], EV_Known = False, EV_EvidenceIDs = []\<rparr>"

definition samplePrimitive :: PrimitiveAssessment where
  "samplePrimitive = \<lparr>Prim_SchemaVersion = 1, Prim_ID = ''p1'', Prim_CampaignID = ''c1'',
     Prim_CrashGroupID = ''g1'', Prim_Operation = PrimitiveOOBRead, Prim_OperationEvidence = [''o1''],
     Prim_AttackerControl = \<lparr>EV_Value = ''offset'', EV_Known = True, EV_EvidenceIDs = [''o1'', ''o2'']\<rparr>,
     Prim_AccessWidth = noEvidence, Prim_ValueControl = noEvidence, Prim_TargetRelation = noEvidence,
     Prim_Repeatability = noEvidence, Prim_Reachability = noEvidence, Prim_Mitigations = noEvidence,
     Prim_ExploitabilityGap = noEvidence, Prim_CreatedAt = 5, Prim_ReviewedAt = None\<rparr>"

end
