(* ===== verification/Triage.thy ===== *)
theory Triage
  imports Policy
begin

text \<open>
  \<^verbatim>\<open>internal/research/triage/group.go\<close>: crash groups and the facts that reproduction and
  minimisation contribute to the campaign machine.
\<close>

text \<open>The zero value \<^verbatim>\<open>domain.CrashGroup{}\<close>.\<close>

definition noGroup :: CrashGroup where
  "noGroup = \<lparr>Group_SchemaVersion = 0, Group_ID = [], Group_CampaignID = [], Group_Signature = [],
     Group_ObservationIDs = [], Group_CanonicalInputID = [], Group_MinimizedArtifactID = [],
     Group_RootCause = [], Group_CreatedAt = zeroTime, Group_UpdatedAt = zeroTime\<rparr>"

definition addToGroup ::
    "time \<Rightarrow> CrashGroup \<Rightarrow> CrashObservation \<Rightarrow> string \<Rightarrow> time \<Rightarrow> CrashGroup result" where
  "addToGroup clock g ob groupID now0 =
     (if Crash_Signature ob = [] \<or> Crash_ID ob = [] \<or> Crash_CampaignID ob = []
      then Inl (Err ''research triage: signed observation required'')
      else
        (let now = (if isZero now0 then clock else now0) in
         if Group_ID g = [] then
           (if groupID = [] then Inl (Err ''research triage: group id required'')
            else Inr (noGroup\<lparr>Group_SchemaVersion := 1, Group_ID := groupID,
                   Group_CampaignID := Crash_CampaignID ob, Group_Signature := Crash_Signature ob,
                   Group_ObservationIDs := [Crash_ID ob], Group_CanonicalInputID := Crash_InputArtifactID ob,
                   Group_CreatedAt := now, Group_UpdatedAt := now\<rparr>))
         else if Group_CampaignID g \<noteq> Crash_CampaignID ob \<or> Group_Signature g \<noteq> Crash_Signature ob
         then Inl (Err ''research triage: observation does not match crash group'')
         else if list_ex (\<lambda>i. i = Crash_ID ob) (Group_ObservationIDs g) then Inr g
         else Inr (g\<lparr>Group_ObservationIDs := Group_ObservationIDs g @ [Crash_ID ob], Group_UpdatedAt := now,
                Group_CanonicalInputID :=
                  (if Group_CanonicalInputID g = [] then Crash_InputArtifactID ob
                   else Group_CanonicalInputID g)\<rparr>)))"

text \<open>The counting loop of \<^verbatim>\<open>ReproductionFacts\<close>; \<open>None\<close> is the return from inside it.\<close>

fun countAttempts :: "string \<Rightarrow> int \<Rightarrow> CrashObservation list \<Rightarrow> int option" where
  "countAttempts sig n [] = Some n"
| "countAttempts sig n (a # as) =
     (if Crash_Signature a \<noteq> sig \<or> Crash_InputArtifactID a = [] then None
      else countAttempts sig (n + 1) as)"

definition reproductionFacts :: "CrashObservation list \<Rightarrow> int \<Rightarrow> EvidenceFacts" where
  "reproductionFacts attempts minimum0 =
     (let minimum = (if minimum0 \<le> 0 then 3 else minimum0) in
      case attempts of
        [] \<Rightarrow> noFacts
      | a # _ \<Rightarrow>
          if Crash_Signature a = [] then noFacts
          else
            (case countAttempts (Crash_Signature a) 0 attempts of
               None \<Rightarrow> noFacts
             | Some n \<Rightarrow>
                 if n < minimum then noFacts\<lparr>ReproductionCount := n\<rparr>
                 else noFacts\<lparr>ReproductionCount := n, CrashSignature := Crash_Signature a,
                        CrashInputArtifactID := Crash_InputArtifactID a, CrashMachineParsed := True\<rparr>))"

definition minimizationFacts ::
    "Artifact \<Rightarrow> Artifact \<Rightarrow> CrashObservation \<Rightarrow> CrashObservation \<Rightarrow> EvidenceFacts" where
  "minimizationFacts original minimized originalObs minimizedObs =
     noFacts\<lparr>MinimizedArtifactID := Artifact_ID minimized,
       MinimizedSameSignature :=
         Artifact_ID original \<noteq> [] \<and> Artifact_ID minimized \<noteq> [] \<and>
         Artifact_Size minimized \<le> Artifact_Size original \<and>
         Crash_Signature originalObs \<noteq> [] \<and> Crash_Signature originalObs = Crash_Signature minimizedObs\<rparr>"

section \<open>Groups of observations\<close>

text \<open>Grouping a sequence of observations, as repeated ingestion does; an error ends it.\<close>

fun groupAll :: "time \<Rightarrow> CrashGroup \<Rightarrow> string \<Rightarrow> (CrashObservation \<times> time) list \<Rightarrow> CrashGroup result" where
  "groupAll clock g gid [] = Inr g"
| "groupAll clock g gid ((ob, now) # obs) =
     rbind (addToGroup clock g ob gid now) (\<lambda>g'. groupAll clock g' gid obs)"

text \<open>First occurrences of a list.\<close>

fun firstSeen :: "string list \<Rightarrow> string list \<Rightarrow> string list" where
  "firstSeen seen [] = seen"
| "firstSeen seen (x # xs) = firstSeen (if x \<in> set seen then seen else seen @ [x]) xs"

lemma firstSeen_set: "set (firstSeen seen xs) = set seen \<union> set xs"
  by (induction xs arbitrary: seen) auto

lemma firstSeen_distinct: "distinct seen \<Longrightarrow> distinct (firstSeen seen xs)"
  by (induction xs arbitrary: seen) auto

definition signed :: "CrashObservation \<Rightarrow> bool" where
  "signed ob \<longleftrightarrow> Crash_Signature ob \<noteq> [] \<and> Crash_ID ob \<noteq> [] \<and> Crash_CampaignID ob \<noteq> []"

definition inGroup :: "CrashGroup \<Rightarrow> CrashObservation \<Rightarrow> bool" where
  "inGroup g ob \<longleftrightarrow> Group_CampaignID g = Crash_CampaignID ob \<and> Group_Signature g = Crash_Signature ob"

lemma addToGroup_existing:
  assumes "Group_ID g \<noteq> []"
  shows "addToGroup clock g ob gid now = Inr g' \<longleftrightarrow> signed ob \<and> inGroup g ob \<and>
    g' = (if Crash_ID ob \<in> set (Group_ObservationIDs g) then g
          else g\<lparr>Group_ObservationIDs := Group_ObservationIDs g @ [Crash_ID ob],
                 Group_UpdatedAt := (if isZero now then clock else now),
                 Group_CanonicalInputID :=
                   (if Group_CanonicalInputID g = [] then Crash_InputArtifactID ob
                    else Group_CanonicalInputID g)\<rparr>)"
  using assms by (auto simp: addToGroup_def signed_def inGroup_def Let_def list_ex_iff)

lemma groupAll_existing:
  assumes "Group_ID g \<noteq> []"
  shows "(\<exists>g'. groupAll clock g gid obs = Inr g') \<longleftrightarrow> (\<forall>(ob, t) \<in> set obs. signed ob \<and> inGroup g ob)"
    and "groupAll clock g gid obs = Inr g' \<Longrightarrow>
      Group_ID g' = Group_ID g \<and> Group_CampaignID g' = Group_CampaignID g \<and>
      Group_Signature g' = Group_Signature g \<and>
      Group_ObservationIDs g' = firstSeen (Group_ObservationIDs g) (map (Crash_ID \<circ> fst) obs)"
proof -
  show "(\<exists>g'. groupAll clock g gid obs = Inr g') \<longleftrightarrow> (\<forall>(ob, t) \<in> set obs. signed ob \<and> inGroup g ob)"
    using assms
  proof (induction obs arbitrary: g)
    case Nil
    then show ?case by simp
  next
    case (Cons a obs)
    obtain ob t where a: "a = (ob, t)" by fastforce
    show ?case
    proof (cases "addToGroup clock g ob gid t")
      case (Inl e)
      with addToGroup_existing [OF Cons.prems, of clock ob gid t] have "\<not> (signed ob \<and> inGroup g ob)" by auto
      with Inl show ?thesis by (auto simp: a)
    next
      case (Inr g1)
      with addToGroup_existing [OF Cons.prems] have
        g1: "signed ob" "inGroup g ob" "Group_ID g1 = Group_ID g" "inGroup g1 = inGroup g"
        by (auto simp: inGroup_def fun_eq_iff split: if_splits)
      with Cons.prems have "Group_ID g1 \<noteq> []" by simp
      from Cons.IH [OF this] g1 Inr show ?thesis by (simp add: a)
    qed
  qed
  show "groupAll clock g gid obs = Inr g' \<Longrightarrow>
      Group_ID g' = Group_ID g \<and> Group_CampaignID g' = Group_CampaignID g \<and>
      Group_Signature g' = Group_Signature g \<and>
      Group_ObservationIDs g' = firstSeen (Group_ObservationIDs g) (map (Crash_ID \<circ> fst) obs)"
    using assms
  proof (induction obs arbitrary: g)
    case Nil
    then show ?case by simp
  next
    case (Cons a obs)
    obtain ob t where a: "a = (ob, t)" by fastforce
    from Cons.prems(1) obtain g1 where add: "addToGroup clock g ob gid t = Inr g1"
      and rest: "groupAll clock g1 gid obs = Inr g'" by (auto simp: a)
    from add addToGroup_existing [OF Cons.prems(2)] have g1: "Group_ID g1 = Group_ID g"
      "Group_CampaignID g1 = Group_CampaignID g" "Group_Signature g1 = Group_Signature g"
      "Group_ObservationIDs g1 = (if Crash_ID ob \<in> set (Group_ObservationIDs g) then Group_ObservationIDs g
         else Group_ObservationIDs g @ [Crash_ID ob])"
      by auto
    with Cons.prems(2) have "Group_ID g1 \<noteq> []" by simp
    from Cons.IH [OF rest this] g1 show ?case by (simp add: a)
  qed
qed

text \<open>
  A crash group is one signature: grouping a non-empty sequence of observations from nothing
  succeeds exactly when every observation is signed and shares the first one's campaign and
  signature, and then the group holds each observation id once, in order of first appearance,
  so that ingesting the same observation again changes nothing.
\<close>

theorem groupAll_from_nothing:
  assumes "gid \<noteq> []"
  shows "((\<exists>g. groupAll clock noGroup gid ((ob, t) # obs) = Inr g) \<longleftrightarrow>
      (\<forall>(o', t') \<in> set ((ob, t) # obs). signed o' \<and> Crash_CampaignID o' = Crash_CampaignID ob \<and>
         Crash_Signature o' = Crash_Signature ob)) \<and>
    (\<forall>g. groupAll clock noGroup gid ((ob, t) # obs) = Inr g \<longrightarrow>
      Group_ID g = gid \<and> Group_Signature g = Crash_Signature ob \<and> distinct (Group_ObservationIDs g) \<and>
      Group_ObservationIDs g = firstSeen [] (map (Crash_ID \<circ> fst) ((ob, t) # obs)) \<and>
      (\<forall>o' \<in> set (map fst ((ob, t) # obs)). \<forall>now. addToGroup clock g o' gid now = Inr g))"
proof (cases "addToGroup clock noGroup ob gid t")
  case (Inl e)
  with assms have "\<not> signed ob" by (auto simp: addToGroup_def signed_def Let_def noGroup_def split: if_splits)
  with Inl show ?thesis by simp
next
  case (Inr g1)
  with assms have g1: "signed ob" "Group_ID g1 = gid" "Group_CampaignID g1 = Crash_CampaignID ob"
    "Group_Signature g1 = Crash_Signature ob" "Group_ObservationIDs g1 = [Crash_ID ob]"
    by (auto simp: addToGroup_def signed_def Let_def noGroup_def split: if_splits)
  with assms have ne: "Group_ID g1 \<noteq> []" by simp
  have ex: "(\<exists>g. groupAll clock noGroup gid ((ob, t) # obs) = Inr g) \<longleftrightarrow>
      (\<forall>(o', t') \<in> set ((ob, t) # obs). signed o' \<and> Crash_CampaignID o' = Crash_CampaignID ob \<and>
         Crash_Signature o' = Crash_Signature ob)"
    using groupAll_existing(1) [OF ne, of clock gid obs] Inr g1 by (auto simp: inGroup_def)
  have "Group_ID g = gid \<and> Group_Signature g = Crash_Signature ob \<and> distinct (Group_ObservationIDs g) \<and>
      Group_ObservationIDs g = firstSeen [] (map (Crash_ID \<circ> fst) ((ob, t) # obs)) \<and>
      (\<forall>o' \<in> set (map fst ((ob, t) # obs)). \<forall>now. addToGroup clock g o' gid now = Inr g)"
    if run: "groupAll clock noGroup gid ((ob, t) # obs) = Inr g" for g
  proof -
    from run Inr have rest: "groupAll clock g1 gid obs = Inr g" by simp
    note g = groupAll_existing(2) [OF ne rest]
    have ids: "Group_ObservationIDs g = firstSeen [] (map (Crash_ID \<circ> fst) ((ob, t) # obs))"
      using g g1 by simp
    have "addToGroup clock g o' gid now = Inr g" if "o' \<in> set (map fst ((ob, t) # obs))" for o' now
    proof -
      have "signed o' \<and> Crash_CampaignID o' = Crash_CampaignID ob \<and> Crash_Signature o' = Crash_Signature ob"
        using ex run that by fastforce
      moreover have "Crash_ID o' \<in> set (Group_ObservationIDs g)"
        using that by (auto simp: ids firstSeen_set)
      ultimately show ?thesis
        using g g1 ne by (simp add: addToGroup_existing inGroup_def)
    qed
    with g g1 ids show ?thesis by (simp add: firstSeen_distinct)
  qed
  with ex show ?thesis by blast
qed

definition sampleObservation :: "string \<Rightarrow> CrashObservation" where
  "sampleObservation i = \<lparr>Crash_SchemaVersion = 1, Crash_ID = i, Crash_CampaignID = ''c1'', Crash_RunID = ''r1'',
     Crash_BuildID = ''b1'', Crash_InputArtifactID = ''a1'', Crash_Class = ObservationASanMemory,
     Crash_Sanitizer = ''address'', Crash_BugType = ''heap-use-after-free'', Crash_Access = ''read'',
     Crash_AccessSize = 8, Crash_Signal = [], Crash_Summary = [], Crash_Frames = [], Crash_Signature = ''sig'',
     Crash_Deterministic = True, Crash_ReproCount = 1, Crash_SecurityRelevant = True, Crash_CreatedAt = 5\<rparr>"

section \<open>Facts for the machine\<close>

lemma countAttempts_iff:
  "countAttempts sig n as = Some k \<longleftrightarrow>
     (\<forall>a \<in> set as. Crash_Signature a = sig \<and> Crash_InputArtifactID a \<noteq> []) \<and> k = n + int (length as)"
  by (induction sig n as rule: countAttempts.induct) auto

lemma noFacts_counts [simp]:
  "ReproductionCount noFacts = 0" "MinimizedArtifactID noFacts = []" "\<not> MinimizedSameSignature noFacts"
  by (simp_all add: noFacts_def)

inductive_cases gate_to_reproduced: "gate m facts CampaignCrashObserved CampaignReproduced"
inductive_cases gate_to_minimized: "gate m facts CampaignReproduced CampaignMinimized"

lemma gate_reproduced_iff:
  "gate m facts CampaignCrashObserved CampaignReproduced \<longleftrightarrow> ReproductionCount facts \<ge> minimumReproductions m"
  by (auto elim: gate_to_reproduced intro: gate.reproduce)

lemma gate_minimized_iff:
  "gate m facts CampaignReproduced CampaignMinimized \<longleftrightarrow>
     MinimizedArtifactID facts \<noteq> [] \<and> MinimizedSameSignature facts"
  by (auto elim: gate_to_minimized intro: gate.minimize)

lemma minimumReproductions_pos: "minimumReproductions m > 0"
  by (simp add: minimumReproductions_def)

text \<open>
  Reproduction evidence opens the machine's gate exactly when it should: the facts computed
  from a list of attempts let a crash-observed campaign become reproduced if and only if there
  are at least as many attempts as the machine asks for, all with one non-empty signature and
  each with a retained input. The threshold passed to the computation does not weaken the gate.
\<close>

theorem reproduction_opens_gate_iff:
  "gate m (reproductionFacts attempts minimum) CampaignCrashObserved CampaignReproduced \<longleftrightarrow>
     int (length attempts) \<ge> minimumReproductions m \<and>
     (\<exists>sig. sig \<noteq> [] \<and> list_all (\<lambda>a. Crash_Signature a = sig \<and> Crash_InputArtifactID a \<noteq> []) attempts)"
proof (cases attempts)
  case Nil
  then show ?thesis
    using minimumReproductions_pos [of m] by (simp add: gate_reproduced_iff reproductionFacts_def)
next
  case (Cons a as)
  show ?thesis
  proof (cases "Crash_Signature a \<noteq> [] \<and> (\<forall>x \<in> set attempts. Crash_Signature x = Crash_Signature a \<and> Crash_InputArtifactID x \<noteq> [])")
    case True
    then have "countAttempts (Crash_Signature a) 0 attempts = Some (int (length attempts))"
      by (simp add: countAttempts_iff)
    with True Cons show ?thesis
      by (auto simp: gate_reproduced_iff reproductionFacts_def Let_def list_all_iff)
  next
    case False
    then have "ReproductionCount (reproductionFacts attempts minimum) = 0"
      using Cons countAttempts_iff [of "Crash_Signature a" 0 attempts]
      by (auto simp: reproductionFacts_def Let_def simp del: countAttempts.simps split: option.splits)
    with False Cons minimumReproductions_pos [of m] show ?thesis
      by (auto simp: gate_reproduced_iff list_all_iff)
  qed
qed

text \<open>
  Minimisation evidence opens the next gate exactly when both inputs are identified, the
  minimised one is no larger and both observations carry the same non-empty signature.
\<close>

theorem minimization_opens_gate_iff:
  "gate m (minimizationFacts original minimized ob ob') CampaignReproduced CampaignMinimized \<longleftrightarrow>
     Artifact_ID original \<noteq> [] \<and> Artifact_ID minimized \<noteq> [] \<and>
     Artifact_Size minimized \<le> Artifact_Size original \<and>
     Crash_Signature ob \<noteq> [] \<and> Crash_Signature ob' = Crash_Signature ob"
  by (auto simp: gate_minimized_iff minimizationFacts_def)

end
