(* ===== verification/Audit_Log.thy ===== *)
theory Audit_Log
  imports Domain_Types "HOL-Library.Multiset"
begin

text \<open>
  The tamper-evident event chain of \<^verbatim>\<open>internal/research/store/sqlite.go\<close>: \<^verbatim>\<open>AppendAudit\<close> after its
  identifier is drawn, \<^verbatim>\<open>ListAudit\<close>, \<^verbatim>\<open>VerifyAuditChain\<close> with its paging loop and \<^verbatim>\<open>auditHash\<close>.
  The table \<^verbatim>\<open>audit_events\<close> is the list of its rows in insertion order; it has no column for the
  schema version, so a row's is zero and reading it back gives one. \<open>dg\<close> stands for the
  hexadecimal SHA-256 of an event's JSON text. The reading of a row is the identity on the other
  columns: the JSON of the details and the RFC 3339 text of a UTC time are read back as written.
\<close>

type_synonym digest = "AuditEvent \<Rightarrow> string"

definition auditHash :: "digest \<Rightarrow> AuditEvent \<Rightarrow> string" where
  "auditHash dg e = ''sha256:'' @ dg (e\<lparr>Audit_Hash := []\<rparr>)"

text \<open>\<^verbatim>\<open>SELECT sequence, hash ... ORDER BY sequence DESC LIMIT 1\<close>; nothing leaves the zero values.\<close>

definition auditHead :: "AuditEvent list \<Rightarrow> int \<times> string" where
  "auditHead rows =
     (if rows = [] then (0, [])
      else let r = last (sort_key Audit_Sequence rows) in (Audit_Sequence r, Audit_Hash r))"

definition auditFill :: "time \<Rightarrow> AuditEvent \<Rightarrow> AuditEvent" where
  "auditFill clock e =
     e\<lparr>Audit_CreatedAt := (if isZero (Audit_CreatedAt e) then clock else Audit_CreatedAt e),
       Audit_SchemaVersion := (if Audit_SchemaVersion e = 0 then 1 else Audit_SchemaVersion e)\<rparr>"

definition auditLink :: "digest \<Rightarrow> AuditEvent list \<Rightarrow> AuditEvent \<Rightarrow> AuditEvent" where
  "auditLink dg rows e =
     (let e' = e\<lparr>Audit_Sequence := wrap64 (fst (auditHead rows) + 1), Audit_PreviousHash := snd (auditHead rows)\<rparr>
      in e'\<lparr>Audit_Hash := auditHash dg e'\<rparr>)"

definition auditInsert :: "digest \<Rightarrow> time \<Rightarrow> AuditEvent \<Rightarrow> (AuditEvent list, AuditEvent) act" where
  "auditInsert dg clock e rows =
     (if Audit_ActorID e = [] \<or> Audit_Action e = [] \<or> Audit_ResourceType e = [] \<or> Audit_ResourceID e = []
      then (Inl (Err ''research store: audit actor, action, resource type, and resource id required''), rows)
      else
        (let e' = auditLink dg rows (auditFill clock e) in
         if Audit_Sequence e' \<in> set (map Audit_Sequence rows)
         then (Inl (Err ''UNIQUE constraint failed: audit_events.sequence''), rows)
         else if Audit_ID e' \<in> set (map Audit_ID rows)
         then (Inl (Err ''UNIQUE constraint failed: audit_events.id''), rows)
         else if Audit_Hash e' \<in> set (map Audit_Hash rows)
         then (Inl (Err ''UNIQUE constraint failed: audit_events.hash''), rows)
         else (Inr e', rows @ [e'\<lparr>Audit_SchemaVersion := 0\<rparr>])))"

text \<open>The rows after a sequence number, in order, as \<^verbatim>\<open>ListAudit\<close> decodes them.\<close>

definition auditAfter :: "AuditEvent list \<Rightarrow> int \<Rightarrow> AuditEvent list" where
  "auditAfter rows after =
     map (\<lambda>r. r\<lparr>Audit_SchemaVersion := 1\<rparr>)
       (filter (\<lambda>r. after < Audit_Sequence r) (sort_key Audit_Sequence rows))"

definition listAudit :: "AuditEvent list \<Rightarrow> int \<Rightarrow> int \<Rightarrow> AuditEvent list" where
  "listAudit rows after limit =
     take (nat (if limit \<le> 0 \<or> limit > 10000 then 1000 else limit)) (auditAfter rows after)"

text \<open>The inner loop of \<^verbatim>\<open>VerifyAuditChain\<close>; it returns the loop's three variables.\<close>

fun verifyEvents :: "digest \<Rightarrow> int \<times> int \<times> string \<Rightarrow> AuditEvent list \<Rightarrow> (int \<times> int \<times> string) result" where
  "verifyEvents dg st [] = Inr st"
| "verifyEvents dg (after, expected, previous) (e # es) =
     (if Audit_Sequence e \<noteq> expected \<or> Audit_PreviousHash e \<noteq> previous
      then Inl (Err (''research store: audit chain broken at sequence '' @ showInt (Audit_Sequence e)))
      else if Audit_Hash e \<noteq> auditHash dg e
      then Inl (Err (''research store: audit hash mismatch at sequence '' @ showInt (Audit_Sequence e)))
      else verifyEvents dg (Audit_Sequence e, expected + 1, Audit_Hash e) es)"

definition pageSize :: int where
  "pageSize = 100"

lemma verifyEvents_after:
  "verifyEvents dg (a, x, p) es = Inr (a', x', p') \<Longrightarrow>
    a' = (if es = [] then a else Audit_Sequence (last es)) \<and>
    x' = x + int (length es) \<and> p' = (if es = [] then p else Audit_Hash (last es))"
  by (induction dg "(a, x, p)" es arbitrary: a x p rule: verifyEvents.induct) (auto split: if_splits)

lemma listAudit_page:
  "listAudit rows after pageSize = take 100 (auditAfter rows after)"
  "listAudit rows after 100 = take 100 (auditAfter rows after)"
  by (simp_all add: listAudit_def pageSize_def)

lemma auditAfter_greater: "e \<in> set (auditAfter rows after) \<Longrightarrow> after < Audit_Sequence e"
  by (auto simp: auditAfter_def)

text \<open>
  The paging loop. It ends because a full page whose events all pass moves \<^verbatim>\<open>after\<close> to the last
  sequence number of the page, so that fewer rows are left.
\<close>

function verifyPages :: "digest \<Rightarrow> AuditEvent list \<Rightarrow> int \<times> int \<times> string \<Rightarrow> unit result" where
  "verifyPages dg rows st =
     (let events = listAudit rows (fst st) pageSize in
      case verifyEvents dg st events of
        Inl e \<Rightarrow> Inl e
      | Inr st' \<Rightarrow> if int (length events) < pageSize then Inr () else verifyPages dg rows st')"
  by pat_completeness auto
termination
proof (relation "measure (\<lambda>(dg, rows, st). length (auditAfter rows (fst st)))")
  fix dg rows and st st' :: "int \<times> int \<times> string" and events
  assume ev: "events = listAudit rows (fst st) pageSize" and v: "verifyEvents dg st events = Inr st'"
    and full: "\<not> int (length events) < pageSize"
  obtain a x p where st: "st = (a, x, p)" by (cases st)
  obtain a' x' p' where st': "st' = (a', x', p')" by (cases st')
  from full have ne: "events \<noteq> []" by (auto simp: pageSize_def)
  from verifyEvents_after [OF v [unfolded st st']] ne have a': "a' = Audit_Sequence (last events)" by simp
  have mem: "last events \<in> set (auditAfter rows a)"
    using last_in_set [OF ne] in_set_takeD by (simp add: ev st listAudit_page) fast
  then have less: "a < a'" using auditAfter_greater a' by simp
  have "length (filter (\<lambda>r. a' < Audit_Sequence r) rows) < length (filter (\<lambda>r. a < Audit_Sequence r) rows)"
  proof -
    from mem obtain r where r: "r \<in> set rows" "Audit_Sequence r = a'"
      by (auto simp: auditAfter_def a')
    have "filter (\<lambda>r. a' < Audit_Sequence r) rows = filter (\<lambda>r. a' < Audit_Sequence r) (filter (\<lambda>r. a < Audit_Sequence r) rows)"
      using less by (auto intro: filter_cong)
    also have "length \<dots> < length (filter (\<lambda>r. a < Audit_Sequence r) rows)"
      using r less by (intro length_filter_less [of r]) auto
    finally show ?thesis .
  qed
  then have "length (auditAfter rows a') < length (auditAfter rows a)"
    by (simp add: auditAfter_def filter_sort)
  then show "((dg, rows, st'), dg, rows, st) \<in> measure (\<lambda>(dg, rows, st). length (auditAfter rows (fst st)))"
    by (simp add: st st')
qed simp

declare verifyPages.simps [simp del]

definition verifyAuditChain :: "digest \<Rightarrow> AuditEvent list \<Rightarrow> unit result" where
  "verifyAuditChain dg rows = verifyPages dg rows (0, 1, [])"

section \<open>Paging\<close>

lemma verifyEvents_append:
  "verifyEvents dg st (xs @ ys) = rbind (verifyEvents dg st xs) (\<lambda>st'. verifyEvents dg st' ys)"
  by (induction dg st xs rule: verifyEvents.induct) auto

lemma sorted_auditAfter: "sorted (map Audit_Sequence (auditAfter rows a))"
  by (simp add: auditAfter_def comp_def filter_sort)

lemma distinct_auditAfter:
  assumes "distinct (map Audit_Sequence rows)"
  shows "distinct (map Audit_Sequence (auditAfter rows a))"
proof -
  have "mset (map Audit_Sequence (sort_key Audit_Sequence rows)) = mset (map Audit_Sequence rows)" by simp
  with assms have "distinct (map Audit_Sequence (sort_key Audit_Sequence rows))"
    using mset_eq_imp_distinct_iff by blast
  then show ?thesis by (simp add: auditAfter_def comp_def distinct_map_filter)
qed

lemma filter_after_last:
  fixes f :: "'a \<Rightarrow> int"
  assumes "sorted (map f (xs @ ys))" "distinct (map f (xs @ ys))" "xs \<noteq> []"
  shows "filter (\<lambda>r. f (last xs) < f r) (xs @ ys) = ys"
proof -
  have "f r \<le> f (last xs)" if "r \<in> set xs" for r
    using assms(1,3) that by (cases xs rule: rev_cases) (auto simp: sorted_append)
  moreover have "f (last xs) < f r" if "r \<in> set ys" for r
  proof -
    have "f (last xs) \<le> f r" using assms(1,3) that by (auto simp: sorted_append)
    moreover have "f (last xs) \<noteq> f r"
      using assms(2) last_in_set [OF assms(3)] that by (metis IntI distinct_append empty_iff imageI map_append set_map)
    ultimately show ?thesis by simp
  qed
  ultimately show ?thesis by (auto simp: filter_id_conv filter_empty_conv not_less)
qed

lemma auditAfter_filter:
  "a < s \<Longrightarrow> auditAfter rows s = filter (\<lambda>r. s < Audit_Sequence r) (auditAfter rows a)"
  by (auto simp: auditAfter_def filter_map comp_def intro!: arg_cong [of _ _ "map _"] filter_cong)

lemma auditAfter_page:
  assumes "distinct (map Audit_Sequence rows)" "100 \<le> length (auditAfter rows a)"
  shows "auditAfter rows (Audit_Sequence (last (take 100 (auditAfter rows a)))) = drop 100 (auditAfter rows a)"
proof -
  let ?xs = "auditAfter rows a" and ?s = "Audit_Sequence (last (take 100 (auditAfter rows a)))"
  have ne: "take 100 ?xs \<noteq> []" using assms(2) by auto
  have "a < ?s"
    using last_in_set [OF ne] by (intro auditAfter_greater [of _ rows]) (rule in_set_takeD)
  then have "auditAfter rows ?s = filter (\<lambda>r. ?s < Audit_Sequence r) ?xs"
    by (rule auditAfter_filter)
  also have "\<dots> = drop 100 ?xs"
    using filter_after_last [of Audit_Sequence "take 100 ?xs" "drop 100 ?xs"] ne
      sorted_auditAfter [of rows a] distinct_auditAfter [OF assms(1), of a] by simp
  finally show ?thesis .
qed

lemma verifyPages_whole:
  assumes "distinct (map Audit_Sequence rows)"
  shows "verifyPages dg rows st = rbind (verifyEvents dg st (auditAfter rows (fst st))) (\<lambda>_. Inr ())"
  using assms
proof (induction dg rows st rule: verifyPages.induct)
  case (1 dg rows st)
  let ?xs = "auditAfter rows (fst st)"
  have split: "verifyEvents dg st ?xs =
      rbind (verifyEvents dg st (take 100 ?xs)) (\<lambda>st'. verifyEvents dg st' (drop 100 ?xs))"
    by (metis append_take_drop_id verifyEvents_append)
  note unfold = verifyPages.simps [of dg rows st] Let_def listAudit_page
  show ?case
  proof (cases "verifyEvents dg st (take 100 ?xs)")
    case (Inl e)
    with split show ?thesis by (simp add: unfold)
  next
    case (Inr st')
    show ?thesis
    proof (cases "length ?xs < 100")
      case True
      with Inr show ?thesis by (simp add: unfold pageSize_def)
    next
      case False
      obtain a x p where st: "st = (a, x, p)" by (metis prod_cases3)
      obtain a' x' p' where st': "st' = (a', x', p')" by (metis prod_cases3)
      have "take 100 ?xs \<noteq> []" using False by auto
      with verifyEvents_after [OF Inr [unfolded st st']]
      have "fst st' = Audit_Sequence (last (take 100 ?xs))" by (simp add: st st')
      with auditAfter_page [OF 1(2)] False have rest: "auditAfter rows (fst st') = drop 100 ?xs" by simp
      have "verifyPages dg rows st = verifyPages dg rows st'" using False Inr by (simp add: unfold pageSize_def)
      also have "\<dots> = rbind (verifyEvents dg st' (auditAfter rows (fst st'))) (\<lambda>_. Inr ())"
        using 1 False Inr by (simp add: listAudit_page pageSize_def)
      finally show ?thesis by (simp add: split Inr rest)
    qed
  qed
qed

section \<open>The contract of a hash chain\<close>

text \<open>
  A log is valid when each entry carries its position, the hash of its predecessor and a hash that
  seals its own content. Two laws suffice for a client: the hash of the newest entry pins
  down the whole log, and every initial segment of a valid log is valid.
\<close>

locale hash_chain =
  fixes valid :: "'e list \<Rightarrow> bool" and pos :: "'e \<Rightarrow> int" and prev :: "'e \<Rightarrow> string"
    and hash :: "'e \<Rightarrow> string" and sealed :: "'e \<Rightarrow> bool"
  assumes valid_Nil: "valid []"
    and valid_snoc: "valid (es @ [e]) \<longleftrightarrow>
      valid es \<and> pos e = int (length es) + 1 \<and> prev e = (if es = [] then [] else hash (last es)) \<and> sealed e"
begin

lemma valid_prefix: "valid (xs @ ys) \<Longrightarrow> valid xs"
proof (induction ys rule: rev_induct)
  case (snoc y ys)
  then have "valid ((xs @ ys) @ [y])" by simp
  then show ?case unfolding valid_snoc using snoc.IH by blast
qed simp

lemma valid_sealed: "valid es \<Longrightarrow> e \<in> set es \<Longrightarrow> sealed e"
  by (induction es rule: rev_induct) (auto simp: valid_snoc)

lemma valid_pos: "valid es \<Longrightarrow> map pos es = map (\<lambda>i. int i + 1) [0 ..< length es]"
  by (induction es rule: rev_induct) (simp_all add: valid_snoc)

lemma head_commits:
  assumes "valid (as @ [a])" "valid (bs @ [b])" "hash a = hash b"
    and inj: "\<forall>x \<in> set (as @ [a]). \<forall>y \<in> set (bs @ [b]). hash x = hash y \<longrightarrow> x = y"
  shows "as @ [a] = bs @ [b]"
  using assms
proof (induction as arbitrary: a bs b rule: rev_induct)
  case Nil
  then have "a = b" by simp
  moreover have "pos a = 1" using Nil.prems(1) valid_snoc [of "[]" a] by simp
  moreover have "pos b = int (length bs) + 1" using Nil.prems(2) by (simp add: valid_snoc)
  ultimately have "bs = []" by simp
  with \<open>a = b\<close> show ?case by simp
next
  case (snoc a' as)
  have ab: "a = b" using snoc.prems by simp
  from snoc.prems(1) have a: "valid (as @ [a'])" "pos a = int (length as) + 2" "prev a = hash a'"
    unfolding valid_snoc [of "as @ [a']"] by auto
  from snoc.prems(2) have b: "valid bs" "pos b = int (length bs) + 1" "prev b = (if bs = [] then [] else hash (last bs))"
    unfolding valid_snoc by auto
  from a(2) b(2) ab have len: "length bs = Suc (length as)" by simp
  then obtain bs' b' where bs: "bs = bs' @ [b']" by (cases bs rule: rev_cases) auto
  with a(3) b(3) ab have h: "hash a' = hash b'" by simp
  have "as @ [a'] = bs' @ [b']"
  proof (rule snoc.IH [OF a(1) _ h])
    show "valid (bs' @ [b'])" using b(1) bs by simp
    show "\<forall>x \<in> set (as @ [a']). \<forall>y \<in> set (bs' @ [b']). hash x = hash y \<longrightarrow> x = y"
      using snoc.prems(4) unfolding bs set_append by blast
  qed
  with ab bs show ?case by simp
qed

end

definition chainValid :: "digest \<Rightarrow> AuditEvent list \<Rightarrow> bool" where
  "chainValid dg es \<longleftrightarrow> ok (verifyEvents dg (0, 1, []) es)"

lemma chainValid_iff: "chainValid dg es \<longleftrightarrow> (\<exists>st. verifyEvents dg (0, 1, []) es = Inr st)"
  unfolding chainValid_def by (cases "verifyEvents dg (0, 1, []) es") auto

interpretation audit_chain: hash_chain "chainValid dg" Audit_Sequence Audit_PreviousHash Audit_Hash
  "\<lambda>e. Audit_Hash e = auditHash dg e" for dg
proof unfold_locales
  show "chainValid dg []" by (simp add: chainValid_iff)
  fix es e
  show "chainValid dg (es @ [e]) \<longleftrightarrow> chainValid dg es \<and> Audit_Sequence e = int (length es) + 1 \<and>
      Audit_PreviousHash e = (if es = [] then [] else Audit_Hash (last es)) \<and> Audit_Hash e = auditHash dg e"
  proof (cases "verifyEvents dg (0, 1, []) es")
    case (Inl x)
    then show ?thesis by (simp add: chainValid_iff verifyEvents_append)
  next
    case (Inr st)
    obtain a x p where st: "st = (a, x, p)" by (metis prod_cases3)
    from verifyEvents_after [OF Inr [unfolded st]]
    have "x = int (length es) + 1" "p = (if es = [] then [] else Audit_Hash (last es))" by auto
    with Inr st show ?thesis by (auto simp: chainValid_iff verifyEvents_append)
  qed
qed

lemma verifyAuditChain_iff:
  "distinct (map Audit_Sequence rows) \<Longrightarrow> verifyAuditChain dg rows = Inr u \<longleftrightarrow> chainValid dg (auditAfter rows 0)"
  by (simp add: verifyAuditChain_def verifyPages_whole chainValid_iff)

section \<open>Logs built by appending\<close>

definition readBack :: "AuditEvent \<Rightarrow> AuditEvent" where
  "readBack r = r\<lparr>Audit_SchemaVersion := 1\<rparr>"

definition numbered :: "AuditEvent list \<Rightarrow> bool" where
  "numbered rows \<longleftrightarrow> map Audit_Sequence rows = map (\<lambda>i. int i + 1) [0 ..< length rows]"

lemma numbered_snoc:
  "numbered (rows @ [r]) \<longleftrightarrow> numbered rows \<and> Audit_Sequence r = int (length rows) + 1"
  by (auto simp: numbered_def)

lemma numbered_facts:
  assumes "numbered rows"
  shows "sort_key Audit_Sequence rows = rows" "distinct (map Audit_Sequence rows)"
    "auditAfter rows 0 = map readBack rows"
    "auditHead rows = (int (length rows), if rows = [] then [] else Audit_Hash (last rows))"
proof -
  have "sorted (map (\<lambda>i. int i + 1) [0 ..< length rows])" by (simp add: sorted_iff_nth_mono)
  then show s: "sort_key Audit_Sequence rows = rows"
    using assms unfolding numbered_def by (metis sorted_sort_id sort_key_id_if_sorted)
  show "distinct (map Audit_Sequence rows)"
    using assms by (simp add: numbered_def distinct_map inj_on_def)
  have "\<forall>r \<in> set rows. 0 < Audit_Sequence r"
  proof
    fix r assume "r \<in> set rows"
    then have "Audit_Sequence r \<in> set (map Audit_Sequence rows)" by simp
    then show "0 < Audit_Sequence r" unfolding assms [unfolded numbered_def] by auto
  qed
  then show "auditAfter rows 0 = map readBack rows"
    by (simp add: auditAfter_def s readBack_def filter_id_conv)
  show "auditHead rows = (int (length rows), if rows = [] then [] else Audit_Hash (last rows))"
  proof (cases rows rule: rev_cases)
    case (snoc rs r)
    with assms s show ?thesis by (simp add: auditHead_def numbered_snoc)
  qed (simp add: auditHead_def)
qed

inductive auditTrail :: "digest \<Rightarrow> AuditEvent list \<Rightarrow> bool" for dg :: digest where
  empty: "auditTrail dg []"
| append: "auditTrail dg rows \<Longrightarrow> Audit_SchemaVersion e \<in> {0, 1} \<Longrightarrow> int (length rows) < 2 ^ 63 - 1 \<Longrightarrow>
    auditTrail dg (snd (auditInsert dg clock e rows))"

lemma auditInsert_cases:
  obtains (refused) err where "auditInsert dg clock e rows = (Inl err, rows)"
  | (added) "auditInsert dg clock e rows =
      (Inr (auditLink dg rows (auditFill clock e)),
       rows @ [(auditLink dg rows (auditFill clock e))\<lparr>Audit_SchemaVersion := 0\<rparr>])"
  unfolding auditInsert_def Let_def by (metis (no_types, lifting))

lemma readBack_fields [simp]:
  "Audit_Hash (readBack r) = Audit_Hash r" "Audit_PreviousHash (readBack r) = Audit_PreviousHash r"
  "Audit_Sequence (readBack r) = Audit_Sequence r"
  by (simp_all add: readBack_def)

lemma auditLink_numbered:
  fixes dg clock e rows
  defines "e' \<equiv> auditLink dg rows (auditFill clock e)"
  assumes "numbered rows" "int (length rows) < 2 ^ 63 - 1"
  shows "Audit_Sequence e' = int (length rows) + 1"
    and "Audit_PreviousHash e' = (if rows = [] then [] else Audit_Hash (last rows))"
    and "Audit_Hash e' = auditHash dg e'"
    and "Audit_SchemaVersion e' = (if Audit_SchemaVersion e = 0 then 1 else Audit_SchemaVersion e)"
proof -
  have "is_int64 (int (length rows) + 1)" using assms(3) by (simp add: is_int64_def)
  then show "Audit_Sequence e' = int (length rows) + 1"
    by (simp add: e'_def auditLink_def Let_def numbered_facts(4) [OF assms(2)])
qed (simp_all add: e'_def auditLink_def auditFill_def auditHash_def Let_def numbered_facts(4) [OF assms(2)])

lemma auditTrail_valid: "auditTrail dg rows \<Longrightarrow> numbered rows \<and> chainValid dg (map readBack rows)"
proof (induction rule: auditTrail.induct)
  case empty
  then show ?case by (simp add: numbered_def audit_chain.valid_Nil)
next
  case (append rows e clock)
  let ?e = "auditLink dg rows (auditFill clock e)"
  from append have num: "numbered rows" and bound: "int (length rows) < 2 ^ 63 - 1" by auto
  note link = auditLink_numbered [OF num bound, of dg clock e]
  show ?case
  proof (cases rule: auditInsert_cases [of dg clock e rows])
    case (refused err)
    with append show ?thesis by simp
  next
    case added
    have rb: "readBack (?e\<lparr>Audit_SchemaVersion := 0\<rparr>) = ?e"
      using link(4) append.hyps(2) by (cases ?e) (auto simp: readBack_def)
    have "chainValid dg (map readBack rows @ [?e])"
      using append.IH link by (auto simp: audit_chain.valid_snoc last_map)
    with added append.IH link show ?thesis by (simp add: numbered_snoc rb)
  qed
qed

section \<open>Properties\<close>


definition sampleDigest :: digest where
  "sampleDigest e = showInt (Audit_SchemaVersion e) @ ''/'' @ showInt (Audit_Sequence e) @ ''/'' @ Audit_ID e @ ''/'' @ Audit_PreviousHash e"

definition sampleEvent :: "string \<Rightarrow> AuditEvent" where
  "sampleEvent i = \<lparr>Audit_SchemaVersion = 0, Audit_ID = i, Audit_Sequence = 0, Audit_PreviousHash = [],
     Audit_Hash = [], Audit_ActorID = ''ana'', Audit_Action = ''scope.create'',
     Audit_ResourceType = ''authorization_scope'', Audit_ResourceID = ''s1'', Audit_CorrelationID = [],
     Audit_Decision = ''allowed'', Audit_Details = fmempty, Audit_CreatedAt = zeroTime\<rparr>"

definition sampleLog :: "AuditEvent list" where
  "sampleLog = snd (auditInsert sampleDigest 7 (sampleEvent ''b'') (snd (auditInsert sampleDigest 7 (sampleEvent ''a'') [])))"

lemma sampleLog_trail: "auditTrail sampleDigest sampleLog" "length sampleLog = 2"
proof -
  have "auditTrail sampleDigest (snd (auditInsert sampleDigest 7 (sampleEvent ''a'') []))"
    by (intro auditTrail.intros) (simp_all add: sampleEvent_def)
  moreover have "length (snd (auditInsert sampleDigest 7 (sampleEvent ''a'') [])) = 1" by code_simp
  ultimately show "auditTrail sampleDigest sampleLog"
    unfolding sampleLog_def by (intro auditTrail.intros) (simp_all add: sampleEvent_def)
  show "length sampleLog = 2" by code_simp
qed


lemma auditEvent_eqI:
  "x\<lparr>Audit_Hash := []\<rparr> = y\<lparr>Audit_Hash := []\<rparr> \<Longrightarrow> Audit_Hash x = Audit_Hash y \<Longrightarrow> x = (y :: AuditEvent)"
  by (cases x; cases y) simp

text \<open>
  C8. The newest hash commits to the whole history: two tables that both verify and whose newest
  events carry the same hash hold the same events, unless the digest collides on two of them. So
  whoever keeps the newest hash detects any change, removal, insertion or reordering below it.
\<close>

theorem head_hash_commits_to_history:
  assumes "distinct (map Audit_Sequence rows)" "distinct (map Audit_Sequence rows')"
    and "verifyAuditChain dg rows = Inr ()" "verifyAuditChain dg rows' = Inr ()"
    and "auditAfter rows 0 \<noteq> []" "auditAfter rows' 0 \<noteq> []"
    and "Audit_Hash (last (auditAfter rows 0)) = Audit_Hash (last (auditAfter rows' 0))"
    and "\<And>x y. x \<in> set (auditAfter rows 0) \<Longrightarrow> y \<in> set (auditAfter rows' 0) \<Longrightarrow>
      dg (x\<lparr>Audit_Hash := []\<rparr>) = dg (y\<lparr>Audit_Hash := []\<rparr>) \<Longrightarrow> x\<lparr>Audit_Hash := []\<rparr> = y\<lparr>Audit_Hash := []\<rparr>"
  shows "auditAfter rows 0 = auditAfter rows' 0"
proof -
  obtain as a where A: "auditAfter rows 0 = as @ [a]" using assms(5) by (metis rev_exhaust)
  obtain bs b where B: "auditAfter rows' 0 = bs @ [b]" using assms(6) by (metis rev_exhaust)
  from assms(1-4) have v: "chainValid dg (as @ [a])" "chainValid dg (bs @ [b])"
    by (simp_all add: verifyAuditChain_iff A B)
  have "x = y" if "x \<in> set (as @ [a])" "y \<in> set (bs @ [b])" "Audit_Hash x = Audit_Hash y" for x y
  proof -
    have "Audit_Hash x = auditHash dg x" "Audit_Hash y = auditHash dg y"
      using audit_chain.valid_sealed [OF v(1) that(1)] audit_chain.valid_sealed [OF v(2) that(2)] by auto
    with that(3) have "dg (x\<lparr>Audit_Hash := []\<rparr>) = dg (y\<lparr>Audit_Hash := []\<rparr>)" by (simp add: auditHash_def)
    then have eq: "x\<lparr>Audit_Hash := []\<rparr> = y\<lparr>Audit_Hash := []\<rparr>" using assms(8) that(1,2) A B by simp
    from auditEvent_eqI [OF eq that(3)] show ?thesis .
  qed
  with audit_chain.head_commits [OF v] assms(7) show ?thesis unfolding A B by simp
qed

theorem head_hash_commits_to_history_witness:
  "verifyAuditChain sampleDigest sampleLog = Inr () \<and>
   auditAfter sampleLog 0 = auditAfter (rev sampleLog) 0"
proof (intro conjI head_hash_commits_to_history [where dg = sampleDigest])
  show v: "verifyAuditChain sampleDigest sampleLog = Inr ()" by code_simp
  show "verifyAuditChain sampleDigest sampleLog = Inr ()" by (rule v)
  show "verifyAuditChain sampleDigest (rev sampleLog) = Inr ()" by code_simp
  show "distinct (map Audit_Sequence sampleLog)" "distinct (map Audit_Sequence (rev sampleLog))" by code_simp+
  show "auditAfter sampleLog 0 \<noteq> []" "auditAfter (rev sampleLog) 0 \<noteq> []" by code_simp+
  show "Audit_Hash (last (auditAfter sampleLog 0)) = Audit_Hash (last (auditAfter (rev sampleLog) 0))" by code_simp
  have same: "auditAfter (rev sampleLog) 0 = auditAfter sampleLog 0" by code_simp
  have inj: "list_all (\<lambda>x. list_all (\<lambda>y. sampleDigest (x\<lparr>Audit_Hash := []\<rparr>) = sampleDigest (y\<lparr>Audit_Hash := []\<rparr>) \<longrightarrow>
      x\<lparr>Audit_Hash := []\<rparr> = y\<lparr>Audit_Hash := []\<rparr>) (auditAfter sampleLog 0)) (auditAfter sampleLog 0)"
    by code_simp
  fix x y
  assume "x \<in> set (auditAfter sampleLog 0)" "y \<in> set (auditAfter (rev sampleLog) 0)"
    "sampleDigest (x\<lparr>Audit_Hash := []\<rparr>) = sampleDigest (y\<lparr>Audit_Hash := []\<rparr>)"
  with inj same show "x\<lparr>Audit_Hash := []\<rparr> = y\<lparr>Audit_Hash := []\<rparr>" by (simp add: list_all_iff)
qed

text \<open>
  C9. The paging loop of \<^verbatim>\<open>VerifyAuditChain\<close> terminates and is the unpaged check: over any table
  with distinct sequence numbers it returns what one pass over all events returns, the same
  error at the same event included.
\<close>

theorem verifyAuditChain_is_one_pass:
  assumes "distinct (map Audit_Sequence rows)"
  shows "verifyAuditChain dg rows =
    (case verifyEvents dg (0, 1, []) (auditAfter rows 0) of Inl e \<Rightarrow> Inl e | Inr _ \<Rightarrow> Inr ())"
  by (simp add: verifyAuditChain_def verifyPages_whole [OF assms] rbind_def)

theorem verifyAuditChain_is_one_pass_witness:
  "distinct (map Audit_Sequence sampleLog) \<and>
   verifyAuditChain sampleDigest (tl sampleLog) = Inl (Err ''research store: audit chain broken at sequence 2'')"
proof -
  have d: "distinct (map Audit_Sequence sampleLog)" by code_simp
  then have "distinct (map Audit_Sequence (tl sampleLog))" by (simp add: map_tl distinct_tl)
  from verifyAuditChain_is_one_pass [OF this, of sampleDigest]
  have "verifyAuditChain sampleDigest (tl sampleLog) =
    (case verifyEvents sampleDigest (0, 1, []) (auditAfter (tl sampleLog) 0) of Inl e \<Rightarrow> Inl e | Inr _ \<Rightarrow> Inr ())" .
  also have "\<dots> = Inl (Err ''research store: audit chain broken at sequence 2'')" by code_simp
  finally show ?thesis using d by blast
qed

text \<open>
  The schema version is part of the hash but not of the table: appending an event whose schema
  version is neither absent nor one succeeds, and from then on \<^verbatim>\<open>VerifyAuditChain\<close> rejects the
  log at that event, unless the digest ignores the version.
\<close>

theorem newer_schema_breaks_chain:
  assumes "auditTrail dg rows" "int (length rows) < 2 ^ 63 - 1"
    and "auditInsert dg clock e rows = (Inr e', rows')"
    and "Audit_SchemaVersion e \<notin> {0, 1}"
    and "dg (e'\<lparr>Audit_Hash := []\<rparr>) \<noteq> dg (e'\<lparr>Audit_SchemaVersion := 1, Audit_Hash := []\<rparr>)"
  shows "verifyAuditChain dg rows' \<noteq> Inr ()"
proof
  assume ok: "verifyAuditChain dg rows' = Inr ()"
  from auditTrail_valid [OF assms(1)] have num: "numbered rows" by simp
  note link = auditLink_numbered [OF num assms(2), of dg clock e]
  from assms(3) have e': "e' = auditLink dg rows (auditFill clock e)" and
    rows': "rows' = rows @ [e'\<lparr>Audit_SchemaVersion := 0\<rparr>]"
    by (cases rule: auditInsert_cases [of dg clock e rows]; simp)+
  have num': "numbered rows'" unfolding rows' numbered_snoc using num link(1) e' by simp
  have "chainValid dg (map readBack rows')"
    using ok num' numbered_facts(2,3) by (simp add: verifyAuditChain_iff)
  then have "Audit_Hash (readBack (last rows')) = auditHash dg (readBack (last rows'))"
    using rows' by (intro audit_chain.valid_sealed) auto
  then have "auditHash dg e' = auditHash dg (e'\<lparr>Audit_SchemaVersion := 1\<rparr>)"
    using link(3) e' by (simp add: rows' readBack_def)
  with assms(5) show False by (simp add: auditHash_def)
qed

end
