(* ===== verification/Artifact_Crypto.thy ===== *)
theory Artifact_Crypto
  imports Go_Time "HOL-Library.Word"
begin

text \<open>
  \<^verbatim>\<open>internal/research/store/artifact_crypto.go\<close> and the verification of a stored file in
  \<^verbatim>\<open>artifact_migration.go\<close>: the chunked authenticated encryption of evidence. A file is its byte
  string, a source is the bytes it delivers. AES-256-GCM is a record of functions and SHA-256 a
  function \<open>sha\<close> to raw digests; what the code relies on about them is stated where it is
  used. The random base nonce is an argument. The chunk loops take the chunk size as an argument
  and are called with the code's constant.
\<close>

unbundle bit_operations_syntax

record Aead =
  aead_Seal :: "string \<Rightarrow> string \<Rightarrow> string \<Rightarrow> string \<Rightarrow> string"
  aead_Open :: "string \<Rightarrow> string \<Rightarrow> string \<Rightarrow> string \<Rightarrow> string option"
  aead_Overhead :: nat

section \<open>Hexadecimal and big-endian encodings\<close>

definition hexDigits :: string where
  "hexDigits = ''0123456789abcdef''"

definition hexByte :: "char \<Rightarrow> string" where
  "hexByte c = (let n = (of_char c :: nat) in [hexDigits ! (n div 16), hexDigits ! (n mod 16)])"

definition hexEncode :: "string \<Rightarrow> string" where
  "hexEncode bs = concat (map hexByte bs)"

definition hexVal :: "char \<Rightarrow> nat option" where
  "hexVal c =
     (let n = (of_char c :: nat) in
      if 48 \<le> n \<and> n \<le> 57 then Some (n - 48)
      else if 97 \<le> n \<and> n \<le> 102 then Some (n - 87)
      else if 65 \<le> n \<and> n \<le> 70 then Some (n - 55) else None)"

fun hexDecode :: "string \<Rightarrow> string option" where
  "hexDecode [] = Some []"
| "hexDecode [c] = None"
| "hexDecode (a # b # cs) =
     (case (hexVal a, hexVal b, hexDecode cs) of
        (Some x, Some y, Some bs) \<Rightarrow> Some (char_of (16 * x + y) # bs)
      | _ \<Rightarrow> None)"

definition putUint32 :: "32 word \<Rightarrow> string" where
  "putUint32 w =
     (let n = unat w in
      [char_of (n div 2 ^ 24), char_of (n div 2 ^ 16), char_of (n div 2 ^ 8), char_of n])"

definition getUint32 :: "string \<Rightarrow> 32 word" where
  "getUint32 bs = of_nat (foldl (\<lambda>n c. n * 256 + of_char c) 0 bs)"

lemma putUint32_length [simp]: "length (putUint32 w) = 4"
  by (simp add: putUint32_def Let_def)

lemma bytes4: "n < 2 ^ 32 \<Longrightarrow>
    ((n div 2 ^ 24 mod 256 * 256 + n div 2 ^ 16 mod 256) * 256 + n div 2 ^ 8 mod 256) * 256 + n mod 256 = (n :: nat)"
proof -
  assume "n < 2 ^ 32"
  have "n div 2 ^ 8 = n div 2 ^ 16 * 256 + n div 2 ^ 8 mod 256"
    using div_mult_mod_eq [of "n div 2 ^ 8" 256] by (simp add: div_mult2_eq [symmetric])
  moreover have "n div 2 ^ 16 = n div 2 ^ 24 * 256 + n div 2 ^ 16 mod 256"
    using div_mult_mod_eq [of "n div 2 ^ 16" 256] by (simp add: div_mult2_eq [symmetric])
  moreover have "n div 2 ^ 24 mod 256 = n div 2 ^ 24"
    using \<open>n < 2 ^ 32\<close> by (intro mod_less) (simp add: less_mult_imp_div_less)
  moreover have "n = n div 2 ^ 8 * 256 + n mod 256"
    using div_mult_mod_eq [of n 256] by simp
  ultimately show ?thesis by simp
qed

lemma getUint32_putUint32 [simp]: "getUint32 (putUint32 w) = w"
proof -
  have "unat w < 2 ^ 32" using unsigned_less [of w] by simp
  from bytes4 [OF this] have "foldl (\<lambda>n c. n * 256 + of_char c) 0 (putUint32 w) = unat w"
    unfolding putUint32_def Let_def foldl_Cons foldl_Nil of_char_of mult_zero_left add_0 .
  then show ?thesis by (simp add: getUint32_def)
qed

lemma putUint32_inj: "putUint32 v = putUint32 w \<longleftrightarrow> v = w"
  by (metis getUint32_putUint32)

lemma hexVal_digit: "n < 16 \<Longrightarrow> hexVal (hexDigits ! n) = Some n"
proof -
  assume "n < 16"
  then have "n \<in> set [0 ..< 16]" by simp
  moreover have "\<forall>n \<in> set [0 ..< 16]. hexVal (hexDigits ! n) = Some n" by code_simp
  ultimately show ?thesis by blast
qed

lemma hexDecode_hexByte: "hexDecode (hexByte c @ s) = map_option (Cons c) (hexDecode s)"
proof -
  let ?n = "of_char c :: nat"
  have "?n < 256" by (metis mod_less_divisor of_char_mod_256 zero_less_numeral)
  then have "?n div 16 < 16" by (intro less_mult_imp_div_less) simp
  then have "hexVal (hexDigits ! (?n div 16)) = Some (?n div 16)" "hexVal (hexDigits ! (?n mod 16)) = Some (?n mod 16)"
    by (simp_all add: hexVal_digit)
  moreover have "char_of (16 * (?n div 16) + ?n mod 16) = c" by simp
  ultimately show ?thesis by (simp add: hexByte_def Let_def split: option.splits)
qed

lemma hexDecode_hexEncode [simp]: "hexDecode (hexEncode bs) = Some bs"
proof (induction bs)
  case (Cons c bs)
  have "hexEncode (c # bs) = hexByte c @ hexEncode bs" by (simp add: hexEncode_def)
  with Cons show ?case by (simp add: hexDecode_hexByte)
qed (simp add: hexEncode_def)

lemma hexEncode_inj: "hexEncode a = hexEncode b \<longleftrightarrow> a = b"
  by (metis hexDecode_hexEncode option.inject)

lemma hexEncode_length [simp]: "length (hexEncode bs) = 2 * length bs"
  by (induction bs) (simp_all add: hexEncode_def hexByte_def Let_def)

section \<open>Byte counts\<close>

text \<open>Taking and dropping an \<^verbatim>\<open>int\<close> number of bytes.\<close>

fun takeI :: "int \<Rightarrow> 'a list \<Rightarrow> 'a list" where
  "takeI n [] = []"
| "takeI n (x # xs) = (if n \<le> 0 then [] else x # takeI (n - 1) xs)"

fun dropI :: "int \<Rightarrow> 'a list \<Rightarrow> 'a list" where
  "dropI n [] = []"
| "dropI n (x # xs) = (if n \<le> 0 then x # xs else dropI (n - 1) xs)"

lemma takeI_take [simp]: "takeI n xs = take (nat n) xs"
proof (induction n xs rule: takeI.induct)
  case (2 n x xs)
  then show ?case by (cases "nat n") (auto simp: nat_diff_distrib')
qed simp

lemma dropI_drop [simp]: "dropI n xs = drop (nat n) xs"
proof (induction n xs rule: dropI.induct)
  case (2 n x xs)
  then show ?case by (cases "nat n") (auto simp: nat_diff_distrib')
qed simp

text \<open>Go's integer division truncates towards zero.\<close>

definition goQuot :: "int \<Rightarrow> int \<Rightarrow> int" where
  "goQuot a b = (if a \<ge> 0 then a div b else - ((- a) div b))"

section \<open>Writing\<close>

definition artifactEncryptionScheme :: string where
  "artifactEncryptionScheme = ''aes-256-gcm-chunked-v1''"

definition artifactChunkSize :: int where
  "artifactChunkSize = 65536"

definition artifactHeaderSize :: int where
  "artifactHeaderSize = 8 + 32 + 12"

definition artifactRecordHeaderSize :: int where
  "artifactRecordHeaderSize = 5"

definition artifactMagic :: string where
  "artifactMagic = ''ASART01'' @ [CHR 0x0A]"

definition contentID :: "(string \<Rightarrow> string) \<Rightarrow> string \<Rightarrow> string" where
  "contentID sha bs = ''sha256:'' @ hexEncode (sha bs)"

fun prepareKeys :: "(string \<Rightarrow> string) \<Rightarrow> (string \<times> string) list \<Rightarrow> string list \<Rightarrow> (string \<times> string) list result" where
  "prepareKeys sha ks [] = Inr ks"
| "prepareKeys sha ks (v # vs) =
     (if length v \<noteq> 32 then Inl (Err ''research store: artifact encryption keys must contain 32 bytes'')
      else if map_of ks (contentID sha v) \<noteq> None
      then Inl (Err ''research store: duplicate artifact encryption key'')
      else prepareKeys sha (ks @ [(contentID sha v, v)]) vs)"

definition prepareArtifactKeys :: "(string \<Rightarrow> string) \<Rightarrow> string list \<Rightarrow> ((string \<times> string) list \<times> string) result" where
  "prepareArtifactKeys sha vs =
     (if vs = [] then Inr ([], [])
      else if length vs > 16 then Inl (Err ''research store: artifact keyring exceeds 16 keys'')
      else rbind (prepareKeys sha [] vs) (\<lambda>ks. Inr (ks, contentID sha (hd vs))))"

definition decodeArtifactKeyID :: "string \<Rightarrow> string result" where
  "decodeArtifactKeyID keyID =
     (if \<not> hasPrefix keyID ''sha256:'' then Inl (Err ''research store: invalid artifact key identity'')
      else
        (case hexDecode (trimPrefix keyID ''sha256:'') of
           None \<Rightarrow> Inl (Err ''research store: invalid artifact key identity'')
         | Some d \<Rightarrow>
             if length d \<noteq> 32 then Inl (Err ''research store: invalid artifact key identity'') else Inr d))"

definition artifactNonce :: "string \<Rightarrow> 32 word \<Rightarrow> string" where
  "artifactNonce base index =
     (let k = length base - 4 in take k base @ putUint32 (getUint32 (drop k base) XOR index))"

definition artifactAAD :: "string \<Rightarrow> 32 word \<Rightarrow> string \<Rightarrow> string" where
  "artifactAAD header index recordHeader = header @ putUint32 index @ recordHeader"

definition recordHeader :: "int \<Rightarrow> bool \<Rightarrow> string" where
  "recordHeader len final = putUint32 (word_of_int len) @ [if final then CHR 0x01 else CHR 0x00]"

definition newCipher :: "string \<Rightarrow> unit result" where
  "newCipher key =
     (if length key \<in> {16, 24, 32} then Inr ()
      else Inl (Err (''crypto/aes: invalid key size '' @ showInt (int (length key)))))"

lemma unat_next: "index \<noteq> - 1 \<Longrightarrow> 4294967296 - unat (index + 1) < 4294967296 - unat (index :: 32 word)"
proof -
  assume "index \<noteq> - 1"
  then have "1 + index \<noteq> 0" by (metis add_eq_0_iff2 add.commute)
  then have "unat (index + 1) = Suc (unat index)" by (simp add: unatSuc add.commute)
  moreover have "unat index < 2 ^ 32" using unsigned_less [of index] by simp
  ultimately show ?thesis by simp
qed

text \<open>
  The loop of \<^verbatim>\<open>encryptArtifact\<close> over the source's remaining bytes; it returns what it writes, the
  plaintext it hashed and the number of plaintext bytes. It ends since the chunk index grows.
\<close>

function encryptLoop :: "Aead \<Rightarrow> int \<Rightarrow> string \<Rightarrow> string \<Rightarrow> string \<Rightarrow> int \<Rightarrow> 32 word \<Rightarrow> int \<Rightarrow> string \<Rightarrow>
    (string \<times> string \<times> int) result" where
  "encryptLoop A chunk key header base limit index sofar rest =
     (let peeked = takeI (chunk + 1) rest;
          final = (int (length peeked) < chunk + 1 \<and> int (length peeked) \<le> chunk);
          len = min (int (length peeked)) chunk
      in
      if sofar + len > limit then Inl ErrArtifactTooLarge
      else
        (let plaintext = takeI len peeked;
             rh = recordHeader len final;
             out = rh @ aead_Seal A key (artifactNonce base index) plaintext (artifactAAD header index rh)
         in
         if final then Inr (out, plaintext, sofar + len)
         else if index = - 1 then Inl (Err ''research store: artifact contains too many encryption chunks'')
         else rbind (encryptLoop A chunk key header base limit (index + 1) (sofar + len) (dropI len rest))
                (\<lambda>r. Inr (out @ fst r, plaintext @ fst (snd r), snd (snd r)))))"
  by pat_completeness auto
termination
  by (relation "measure (\<lambda>(A, chunk, key, header, base, limit, index, sofar, rest). 4294967296 - unat index)")
    (auto simp: unat_next)

declare encryptLoop.simps [simp del]

definition encryptArtifact :: "Aead \<Rightarrow> (string \<Rightarrow> string) \<Rightarrow> string \<Rightarrow> string \<Rightarrow> int \<Rightarrow> string \<Rightarrow> string \<Rightarrow>
    (string \<times> int \<times> string) result" where
  "encryptArtifact A sha base source limit key keyID =
     rbind (newCipher key) (\<lambda>_.
     rbind (decodeArtifactKeyID keyID) (\<lambda>keyDigest.
     (let header = artifactMagic @ keyDigest @ base in
      rbind (encryptLoop A artifactChunkSize key header base limit 0 0 (takeI (wrap64 (limit + 1)) source))
        (\<lambda>r. Inr (header @ fst r, snd (snd r), contentID sha (fst (snd r)))))))"

section \<open>Reading\<close>

definition encryptedArtifactSize :: "int \<Rightarrow> nat \<Rightarrow> int result" where
  "encryptedArtifactSize plaintextSize overhead =
     (if plaintextSize < 0 then Inl (Err ''research store: negative artifact size'')
      else
        (let chunks = (if plaintextSize > 0
               then plaintextSize div artifactChunkSize + (if plaintextSize mod artifactChunkSize \<noteq> 0 then 1 else 0)
               else 1);
             perChunk = artifactRecordHeaderSize + int overhead
         in if chunks > goQuot (2 ^ 63 - 1 - artifactHeaderSize - plaintextSize) perChunk
            then Inl (Err ''research store: encrypted artifact size overflow'')
            else Inr (artifactHeaderSize + plaintextSize + chunks * perChunk)))"

text \<open>
  \<^verbatim>\<open>readChunk\<close> repeated until the final record, as a reader that drains the stream does: \<open>acc\<close> is
  the plaintext delivered and hashed so far.
\<close>

function readLoop :: "Aead \<Rightarrow> (string \<Rightarrow> string) \<Rightarrow> int \<Rightarrow> string \<Rightarrow> string \<Rightarrow> string \<Rightarrow> int \<Rightarrow> string \<Rightarrow>
    32 word \<Rightarrow> int \<Rightarrow> string \<Rightarrow> string \<Rightarrow> string result" where
  "readLoop A sha chunk key header base esize cid index sofar acc rest =
     (if length rest < 5 then Inl (Err ''research store: truncated encrypted artifact'')
      else
        (let rh = take 5 rest; body = drop 5 rest;
             len = uint (getUint32 (take 4 rh)); flag = (of_char (rh ! 4) :: nat); final = (flag = 1)
         in
         if flag > 1 \<or> len > chunk \<or> (\<not> final \<and> len \<noteq> chunk) \<or> sofar + len > esize
         then Inl (Err ''research store: invalid encrypted artifact record'')
         else if int (length body) < len + int (aead_Overhead A)
         then Inl (Err ''research store: truncated encrypted artifact record'')
         else
           (case aead_Open A key (artifactNonce base index) (takeI (len + int (aead_Overhead A)) body)
                   (artifactAAD header index rh) of
              None \<Rightarrow> Inl (Err ''research store: artifact authentication failed'')
            | Some plaintext \<Rightarrow>
                (let sofar' = sofar + int (length plaintext); acc' = acc @ plaintext in
                 if final then
                   (if sofar' \<noteq> esize
                    then Inl (Err ''research store: encrypted artifact plaintext size mismatch'')
                    else if contentID sha acc' \<noteq> cid
                    then Inl (Err ''research store: artifact content hash mismatch'')
                    else Inr acc')
                 else if sofar' \<ge> esize \<or> index = - 1
                 then Inl (Err ''research store: invalid encrypted artifact final record'')
                 else readLoop A sha chunk key header base esize cid (index + 1) sofar' acc'
                        (dropI (len + int (aead_Overhead A)) body)))))"
  by pat_completeness auto
termination
  by (relation "measure (\<lambda>(A, sha, chunk, key, header, base, esize, cid, index, sofar, acc, rest). 4294967296 - unat index)")
    (auto simp: unat_next)

declare readLoop.simps [simp del]

text \<open>
  \<^verbatim>\<open>newEncryptedArtifactReader\<close> followed by draining the reader: the plaintext and the identity of
  the key the header names.
\<close>

definition readEncrypted :: "Aead \<Rightarrow> (string \<Rightarrow> string) \<Rightarrow> (string \<times> string) list \<Rightarrow> string \<Rightarrow> int \<Rightarrow> string \<Rightarrow>
    (string \<times> string) result" where
  "readEncrypted A sha keys file esize cid =
     (if length file < 52 \<or> \<not> hasPrefix file artifactMagic
      then Inl (Err ''research store: malformed encrypted artifact header'')
      else
        (let header = take 52 file; keyID = ''sha256:'' @ hexEncode (take 32 (drop 8 header)) in
         case map_of keys keyID of
           None \<Rightarrow> Inl (Err ''research store: artifact encryption key unavailable'')
         | Some key \<Rightarrow>
             rbind (newCipher key) (\<lambda>_.
             (case encryptedArtifactSize esize (aead_Overhead A) of
                Inl _ \<Rightarrow> Inl (Err ''research store: encrypted artifact size mismatch'')
              | Inr expected \<Rightarrow>
                  if int (length file) \<noteq> expected
                  then Inl (Err ''research store: encrypted artifact size mismatch'')
                  else rbind (readLoop A sha artifactChunkSize key header (drop 40 header) esize cid 0 0 [] (drop 52 file))
                         (\<lambda>p. Inr (p, keyID))))))"

text \<open>\<^verbatim>\<open>verifyArtifactFile\<close> on a regular file: the scheme and key identity it reports.\<close>

definition verifyArtifactFile :: "Aead \<Rightarrow> (string \<Rightarrow> string) \<Rightarrow> (string \<times> string) list \<Rightarrow> string \<Rightarrow> int \<Rightarrow> string \<Rightarrow>
    (string \<times> string) result" where
  "verifyArtifactFile A sha keys file esize cid =
     (if hasPrefix file artifactMagic
      then rbind (readEncrypted A sha keys file esize cid) (\<lambda>r. Inr (artifactEncryptionScheme, snd r))
      else if int (length file) \<noteq> esize then Inl (Err ''research store: artifact metadata mismatch'')
      else if contentID sha file \<noteq> cid then Inl (Err ''research store: artifact content hash mismatch'')
      else Inr ([], []))"

section \<open>One step of each loop\<close>

text \<open>What the code relies on about AES-GCM: sealing is undone by opening and adds sixteen bytes.\<close>

definition aeadLaws :: "Aead \<Rightarrow> bool" where
  "aeadLaws A \<longleftrightarrow> aead_Overhead A = 16 \<and>
     (\<forall>k n p a. aead_Open A k n (aead_Seal A k n p a) a = Some p \<and>
        length (aead_Seal A k n p a) = length p + aead_Overhead A)"

definition sealRecord :: "Aead \<Rightarrow> string \<Rightarrow> string \<Rightarrow> string \<Rightarrow> 32 word \<Rightarrow> bool \<Rightarrow> string \<Rightarrow> string" where
  "sealRecord A key header base index final plaintext =
     (let rh = recordHeader (int (length plaintext)) final
      in rh @ aead_Seal A key (artifactNonce base index) plaintext (artifactAAD header index rh))"

lemma encryptLoop_last:
  assumes "int (length rest) \<le> chunk"
  shows "encryptLoop A chunk key header base limit index sofar rest =
    (if sofar + int (length rest) > limit then Inl ErrArtifactTooLarge
     else Inr (sealRecord A key header base index True rest, rest, sofar + int (length rest)))"
  using assms by (simp add: encryptLoop.simps [of A chunk key header base limit index sofar rest] Let_def sealRecord_def min_def)

lemma encryptLoop_more:
  assumes "0 < chunk" "chunk < int (length rest)"
  shows "encryptLoop A chunk key header base limit index sofar rest =
    (if sofar + chunk > limit then Inl ErrArtifactTooLarge
     else if index = - 1 then Inl (Err ''research store: artifact contains too many encryption chunks'')
     else rbind (encryptLoop A chunk key header base limit (index + 1) (sofar + chunk) (drop (nat chunk) rest))
            (\<lambda>r. Inr (sealRecord A key header base index False (take (nat chunk) rest) @ fst r,
                      take (nat chunk) rest @ fst (snd r), snd (snd r))))"
proof -
  let ?pk = "take (nat (chunk + 1)) rest"
  have len: "int (length ?pk) = chunk + 1" using assms by simp
  have pt: "take (nat chunk) ?pk = take (nat chunk) rest" using assms by (simp add: min_def)
  have "int (length (take (nat chunk) rest)) = chunk" using assms by simp
  then have rec: "sealRecord A key header base index False (take (nat chunk) rest) =
      recordHeader chunk False @ aead_Seal A key (artifactNonce base index) (take (nat chunk) rest)
        (artifactAAD header index (recordHeader chunk False))"
    by (simp only: sealRecord_def Let_def)
  have mn: "min (chunk + 1) chunk = chunk" by simp
  show ?thesis
    unfolding encryptLoop.simps [of A chunk key header base limit index sofar rest] Let_def takeI_take dropI_drop
      len mn pt rec by simp
qed

lemma recordHeader_read:
  assumes "0 \<le> len" "len < 2 ^ 32"
  shows "length (recordHeader len final) = 5"
    and "uint (getUint32 (take 4 (recordHeader len final))) = len"
    and "(of_char (recordHeader len final ! 4) :: nat) = (if final then 1 else 0)"
proof -
  have "uint (word_of_int len :: 32 word) = len" using assms by (simp add: uint_word_of_int)
  then show "uint (getUint32 (take 4 (recordHeader len final))) = len" by (simp add: recordHeader_def)
qed (simp_all add: recordHeader_def nth_append)

lemma readLoop_sealed:
  assumes "aeadLaws A" "int (length p) \<le> chunk" "chunk < 2 ^ 32" "final \<or> int (length p) = chunk"
    and "sofar + int (length p) \<le> esize"
  shows "readLoop A sha chunk key header base esize cid index sofar acc
      (sealRecord A key header base index final p @ rest) =
    (if final then
       (if sofar + int (length p) \<noteq> esize
        then Inl (Err ''research store: encrypted artifact plaintext size mismatch'')
        else if contentID sha (acc @ p) \<noteq> cid
        then Inl (Err ''research store: artifact content hash mismatch'')
        else Inr (acc @ p))
     else if sofar + int (length p) \<ge> esize \<or> index = - 1
     then Inl (Err ''research store: invalid encrypted artifact final record'')
     else readLoop A sha chunk key header base esize cid (index + 1) (sofar + int (length p)) (acc @ p) rest)"
proof -
  let ?rh = "recordHeader (int (length p)) final"
  let ?ct = "aead_Seal A key (artifactNonce base index) p (artifactAAD header index ?rh)"
  have rec: "sealRecord A key header base index final p @ rest = ?rh @ ?ct @ rest"
    by (simp add: sealRecord_def Let_def)
  have len: "int (length p) < 2 ^ 32" using assms by simp
  note rh = recordHeader_read [OF _ len, of final]
  have ct: "length ?ct = length p + aead_Overhead A" "aead_Open A key (artifactNonce base index) ?ct (artifactAAD header index ?rh) = Some p"
    using assms(1) by (auto simp: aeadLaws_def)
  have whole: "take 5 (?rh @ ?ct @ rest) = ?rh" "drop 5 (?rh @ ?ct @ rest) = ?ct @ rest" "\<not> length (?rh @ ?ct @ rest) < 5"
    using rh(1) by simp_all
  have n: "nat (int (length p) + int (aead_Overhead A)) = length ?ct" using ct(1) by simp
  have body: "take (nat (int (length p) + int (aead_Overhead A))) (?ct @ rest) = ?ct"
    "drop (nat (int (length p) + int (aead_Overhead A))) (?ct @ rest) = rest"
    "\<not> int (length (?ct @ rest)) < int (length p) + int (aead_Overhead A)"
    unfolding n using ct(1) by simp_all
  have u: "uint (getUint32 (take 4 ?rh)) = int (length p)" "(of_char (?rh ! 4) :: nat) = (if final then 1 else 0)"
    using rh(2,3) by simp_all
  have guard: "\<not> ((if final then 1 else 0 :: nat) > 1 \<or> int (length p) > chunk \<or>
      (\<not> (if final then 1 else 0 :: nat) = 1 \<and> int (length p) \<noteq> chunk) \<or> sofar + int (length p) > esize)"
    using assms by auto
  show ?thesis
    unfolding rec readLoop.simps [of A sha chunk key header base esize cid index sofar acc "?rh @ ?ct @ rest"]
      Let_def whole if_not_P [OF whole(3)] u if_not_P [OF guard] takeI_take dropI_drop body if_not_P [OF body(3)] ct(2) option.case
    by simp
qed

section \<open>Round trip\<close>

lemma encryptLoop_plaintext:
  assumes "0 < chunk"
  shows "encryptLoop A chunk key header base limit index sofar rest = Inr (out, p, n) \<Longrightarrow>
    p = rest \<and> n = sofar + int (length rest) \<and> n \<le> limit"
proof (induction rest arbitrary: index sofar out p n rule: length_induct)
  case (1 rest)
  show ?case
  proof (cases "int (length rest) \<le> chunk")
    case True
    with 1(2) show ?thesis by (auto simp: encryptLoop_last split: if_splits)
  next
    case False
    let ?rest = "drop (nat chunk) rest"
    have more: "chunk < int (length rest)" using False by simp
    from 1(2) [unfolded encryptLoop_more [OF assms more]] obtain out' p' n' where
      r: "encryptLoop A chunk key header base limit (index + 1) (sofar + chunk) ?rest = Inr (out', p', n')"
      "p = take (nat chunk) rest @ p'" "n = n'"
      by (auto split: if_splits)
    have len: "int (length ?rest) = int (length rest) - chunk" using False assms by simp
    then have "length ?rest < length rest" using assms by simp
    with 1(1) r(1) have "p' = ?rest \<and> n' = sofar + chunk + int (length ?rest) \<and> n' \<le> limit" by blast
    with r len show ?thesis by simp
  qed
qed

lemma readLoop_encryptLoop:
  assumes "aeadLaws A" "0 < chunk" "chunk < 2 ^ 32"
  shows "encryptLoop A chunk key header base limit index sofar rest = Inr (out, p, n) \<Longrightarrow>
    readLoop A sha chunk key header base (sofar + int (length rest)) (contentID sha (acc @ rest)) index sofar acc out =
      Inr (acc @ rest)"
proof (induction rest arbitrary: index sofar out p n acc rule: length_induct)
  case (1 rest)
  show ?case
  proof (cases "int (length rest) \<le> chunk")
    case True
    with 1(2) have "out = sealRecord A key header base index True rest"
      by (auto simp: encryptLoop_last split: if_splits)
    with True readLoop_sealed [OF assms(1) True assms(3), of True sofar "sofar + int (length rest)" sha key header base
        "contentID sha (acc @ rest)" index acc "[]"]
    show ?thesis by simp
  next
    case False
    let ?p = "take (nat chunk) rest" and ?rest = "drop (nat chunk) rest"
    have more: "chunk < int (length rest)" using False by simp
    from 1(2) [unfolded encryptLoop_more [OF assms(2) more]] obtain out' p' n' where
      r: "encryptLoop A chunk key header base limit (index + 1) (sofar + chunk) ?rest = Inr (out', p', n')"
      "index \<noteq> - 1" "out = sealRecord A key header base index False ?p @ out'"
      by (auto split: if_splits)
    have len: "int (length ?rest) = int (length rest) - chunk" "int (length ?p) = chunk" using False assms by simp_all
    then have "length ?rest < length rest" using assms by simp
    with 1(1) r(1) have "readLoop A sha chunk key header base (sofar + chunk + int (length ?rest))
        (contentID sha ((acc @ ?p) @ ?rest)) (index + 1) (sofar + chunk) (acc @ ?p) out' = Inr ((acc @ ?p) @ ?rest)"
      by blast
    then have IH: "readLoop A sha chunk key header base (sofar + int (length rest))
        (contentID sha (acc @ rest)) (index + 1) (sofar + chunk) (acc @ ?p) out' = Inr (acc @ rest)"
      unfolding len(1) by simp
    have le: "int (length ?p) \<le> chunk" "sofar + int (length ?p) \<le> sofar + int (length rest)"
      "\<not> sofar + int (length ?p) \<ge> sofar + int (length rest)"
      using len False by simp_all
    show ?thesis
      unfolding r(3) readLoop_sealed [OF assms(1) le(1) assms(3) disjI2 [OF len(2)] le(2)]
      using le(3) r(2) IH len(2) by simp
  qed
qed

section \<open>Sizes\<close>

definition chunkCount :: "int \<Rightarrow> int \<Rightarrow> int" where
  "chunkCount chunk m = (if m > 0 then m div chunk + (if m mod chunk \<noteq> 0 then 1 else 0) else 1)"

lemma chunkCount_one: "0 < chunk \<Longrightarrow> 0 \<le> m \<Longrightarrow> m \<le> chunk \<Longrightarrow> chunkCount chunk m = 1"
  by (cases "m = chunk") (auto simp: chunkCount_def div_pos_pos_trivial mod_pos_pos_trivial)

lemma chunkCount_more: "0 < chunk \<Longrightarrow> chunk < m \<Longrightarrow> chunkCount chunk m = 1 + chunkCount chunk (m - chunk)"
  using div_pos_geq [of chunk m] mod_pos_geq [of chunk m] by (simp add: chunkCount_def)

lemma chunkCount_pos: "0 < chunk \<Longrightarrow> 0 < chunkCount chunk m"
proof (cases "m > 0 \<and> m mod chunk = 0")
  case True
  assume "0 < chunk"
  from True have "0 < chunk * (m div chunk)" by (metis add.right_neutral mult_div_mod_eq)
  with \<open>0 < chunk\<close> True show ?thesis by (simp add: chunkCount_def zero_less_mult_iff)
next
  case False
  assume "0 < chunk"
  with False show ?thesis by (auto simp: chunkCount_def pos_imp_zdiv_nonneg_iff)
qed

lemma sealRecord_length:
  "aeadLaws A \<Longrightarrow> length (sealRecord A key header base index final p) = 5 + length p + aead_Overhead A"
  by (simp add: sealRecord_def Let_def recordHeader_def aeadLaws_def)

lemma unat_succ: "index \<noteq> - 1 \<Longrightarrow> unat (index + 1) = Suc (unat (index :: 32 word))"
  by (metis add.commute add_eq_0_iff2 unatSuc)

lemma index_room:
  assumes "0 < chunk" "chunk < m" "int (unat index) + chunkCount chunk m \<le> 2 ^ 32"
  shows "(index :: 32 word) \<noteq> - 1" "int (unat (index + 1)) + chunkCount chunk (m - chunk) \<le> 2 ^ 32"
proof -
  have cc: "chunkCount chunk m = 1 + chunkCount chunk (m - chunk)" using assms(1,2) by (rule chunkCount_more)
  have "0 < chunkCount chunk (m - chunk)" using assms(1) by (rule chunkCount_pos)
  then have "int (unat index) < 2 ^ 32 - 1" using assms(3) cc by simp
  then show idx: "index \<noteq> - 1" by (auto simp: unsigned_minus_1_eq_mask mask_eq_exp_minus_1)
  show "int (unat (index + 1)) + chunkCount chunk (m - chunk) \<le> 2 ^ 32"
    using assms(3) cc unat_succ [OF idx] by simp
qed

lemma encryptLoop_succeeds:
  assumes "aeadLaws A" "0 < chunk"
  shows "sofar + int (length rest) \<le> limit \<Longrightarrow> int (unat index) + chunkCount chunk (int (length rest)) \<le> 2 ^ 32 \<Longrightarrow>
    \<exists>out. encryptLoop A chunk key header base limit index sofar rest = Inr (out, rest, sofar + int (length rest)) \<and>
      int (length out) = int (length rest) + chunkCount chunk (int (length rest)) * (5 + int (aead_Overhead A))"
proof (induction rest arbitrary: index sofar rule: length_induct)
  case (1 rest)
  show ?case
  proof (cases "int (length rest) \<le> chunk")
    case True
    with 1(2) assms show ?thesis
      by (simp add: encryptLoop_last chunkCount_one sealRecord_length)
  next
    case False
    let ?p = "take (nat chunk) rest" and ?rest = "drop (nat chunk) rest"
    have more: "chunk < int (length rest)" using False by simp
    have len: "int (length ?rest) = int (length rest) - chunk" "int (length ?p) = chunk" using False assms by simp_all
    have shorter: "length ?rest < length rest" using len(1) assms by simp
    have cc: "chunkCount chunk (int (length rest)) = 1 + chunkCount chunk (int (length ?rest))"
      using chunkCount_more [OF assms(2) more] len by simp
    note idx = index_room [OF assms(2) more 1(3)]
    have "sofar + chunk + int (length ?rest) \<le> limit" using 1(2) len by simp
    moreover have "int (unat (index + 1)) + chunkCount chunk (int (length ?rest)) \<le> 2 ^ 32"
      using idx(2) len by simp
    ultimately obtain out where out:
      "encryptLoop A chunk key header base limit (index + 1) (sofar + chunk) ?rest = Inr (out, ?rest, sofar + chunk + int (length ?rest))"
      "int (length out) = int (length ?rest) + chunkCount chunk (int (length ?rest)) * (5 + int (aead_Overhead A))"
      using 1(1) shorter by blast
    have "\<not> sofar + chunk > limit" using 1(2) more by simp
    then have "encryptLoop A chunk key header base limit index sofar rest =
        Inr (sealRecord A key header base index False ?p @ out, rest, sofar + int (length rest))"
      unfolding encryptLoop_more [OF assms(2) more] using idx(1) out(1) len by simp
    moreover have "int (length (sealRecord A key header base index False ?p @ out)) =
        int (length rest) + chunkCount chunk (int (length rest)) * (5 + int (aead_Overhead A))"
      using out(2) sealRecord_length [OF assms(1)] len cc by (simp add: algebra_simps)
    ultimately show ?thesis by blast
  qed
qed

lemma chunkCount_bound: "0 \<le> m \<Longrightarrow> m \<le> 2 ^ 48 \<Longrightarrow> chunkCount artifactChunkSize m \<le> 2 ^ 32"
proof (cases "m = 2 ^ 48")
  case True
  then show ?thesis by (simp add: chunkCount_def artifactChunkSize_def)
next
  case False
  assume m: "0 \<le> m" "m \<le> 2 ^ 48"
  with False have "m div 65536 < 2 ^ 32" by (simp add: div_less_iff_less_mult)
  then show ?thesis by (auto simp: chunkCount_def artifactChunkSize_def)
qed

lemma encryptLoop_too_large:
  assumes "0 < chunk"
  shows "limit < sofar + int (length rest) \<Longrightarrow> int (unat index) + chunkCount chunk (int (length rest)) \<le> 2 ^ 32 \<Longrightarrow>
    encryptLoop A chunk key header base limit index sofar rest = Inl ErrArtifactTooLarge"
proof (induction rest arbitrary: index sofar rule: length_induct)
  case (1 rest)
  show ?case
  proof (cases "int (length rest) \<le> chunk")
    case True
    with 1(2) show ?thesis by (simp add: encryptLoop_last)
  next
    case False
    let ?rest = "drop (nat chunk) rest"
    have more: "chunk < int (length rest)" using False by simp
    have len: "int (length ?rest) = int (length rest) - chunk" using False assms by simp
    then have "length ?rest < length rest" using assms by simp
    moreover have idx: "index \<noteq> - 1" "int (unat (index + 1)) + chunkCount chunk (int (length ?rest)) \<le> 2 ^ 32"
      using index_room [OF assms more 1(3)] len by simp_all
    ultimately have "encryptLoop A chunk key header base limit (index + 1) (sofar + chunk) ?rest = Inl ErrArtifactTooLarge"
      using 1 len by auto
    then show ?thesis unfolding encryptLoop_more [OF assms more] using idx by simp
  qed
qed

lemma encryptedArtifactSize_value:
  assumes "0 \<le> m" "m < 2 ^ 48"
  shows "encryptedArtifactSize m 16 = Inr (52 + m + chunkCount artifactChunkSize m * 21)"
proof -
  have cc: "chunkCount artifactChunkSize m \<le> 2 ^ 32" using assms chunkCount_bound [of m] by simp
  have "2 ^ 32 * 21 \<le> 2 ^ 63 - 1 - 52 - m" using assms by simp
  then have "2 ^ 32 * 21 div 21 \<le> (2 ^ 63 - 1 - 52 - m) div 21" by (rule zdiv_mono1) simp
  with cc have "\<not> chunkCount artifactChunkSize m > goQuot (2 ^ 63 - 1 - 52 - m) 21"
    using assms by (simp add: goQuot_def)
  then show ?thesis
    using assms by (simp add: encryptedArtifactSize_def chunkCount_def artifactHeaderSize_def
        artifactRecordHeaderSize_def Let_def)
qed

section \<open>Properties\<close>

lemma decodeArtifactKeyID_contentID:
  "length (sha key) = 32 \<Longrightarrow> decodeArtifactKeyID (contentID sha key) = Inr (sha key)"
  by (simp add: decodeArtifactKeyID_def contentID_def hasPrefix_def trimPrefix_def)

lemma encryptArtifact_fits:
  assumes "aeadLaws A" "length base = 12" "length key = 32" "length (sha key) = 32"
    and "map_of keys (contentID sha key) = Some key"
    and "0 \<le> limit" "limit < 2 ^ 48" "int (length source) \<le> limit"
  shows "\<exists>stored. encryptArtifact A sha base source limit key (contentID sha key) =
      Inr (stored, int (length source), contentID sha source) \<and>
    readEncrypted A sha keys stored (int (length source)) (contentID sha source) =
      Inr (source, contentID sha key) \<and>
    verifyArtifactFile A sha keys stored (int (length source)) (contentID sha source) =
      Inr (artifactEncryptionScheme, contentID sha key) \<and>
    encryptedArtifactSize (int (length source)) (aead_Overhead A) = Inr (int (length stored))"
proof -
  let ?header = "artifactMagic @ sha key @ base" and ?n = "int (length source)"
  have w: "wrap64 (limit + 1) = limit + 1" using assms by (simp add: is_int64_def)
  have kd: "decodeArtifactKeyID (contentID sha key) = Inr (sha key)"
    using assms(4) by (rule decodeArtifactKeyID_contentID)
  have nc: "newCipher key = Inr ()" using assms(3) by (simp add: newCipher_def)
  have hl: "length ?header = 52" using assms by (simp add: artifactMagic_def)
  have ov: "aead_Overhead A = 16" using assms(1) by (simp add: aeadLaws_def)
  have cs: "0 < artifactChunkSize" "artifactChunkSize < 2 ^ 32" by (simp_all add: artifactChunkSize_def)
  have small: "?n < 2 ^ 48" using assms(7,8) by simp
  have src: "take (nat (limit + 1)) source = source" using assms(8) by simp
  have "int (unat (0 :: 32 word)) + chunkCount artifactChunkSize ?n \<le> 2 ^ 32"
    using chunkCount_bound [of ?n] small by simp
  with encryptLoop_succeeds [OF assms(1) cs(1), of 0 source limit 0 key ?header base] assms(8) obtain out where
    out: "encryptLoop A artifactChunkSize key ?header base limit 0 0 source = Inr (out, source, ?n)"
    "int (length out) = ?n + chunkCount artifactChunkSize ?n * 21" by (auto simp: ov)
  let ?stored = "?header @ out"
  have enc: "encryptArtifact A sha base source limit key (contentID sha key) = Inr (?stored, ?n, contentID sha source)"
    by (simp add: encryptArtifact_def kd nc w src out(1) Let_def)
  have sz: "encryptedArtifactSize ?n (aead_Overhead A) = Inr (int (length ?stored))"
    unfolding ov using encryptedArtifactSize_value [OF _ small] out(2) hl by simp
  have head: "take 52 ?stored = ?header" "drop 52 ?stored = out" "drop 40 ?header = base" "take 32 (drop 8 ?header) = sha key"
    using hl assms by (simp_all add: artifactMagic_def)
  have magic: "hasPrefix ?stored artifactMagic" unfolding append_assoc by (rule hasPrefix_append)
  have "readLoop A sha artifactChunkSize key ?header base ?n (contentID sha source) 0 0 [] out = Inr source"
    using readLoop_encryptLoop [OF assms(1) cs out(1), of sha "[]"] by simp
  then have rd: "readEncrypted A sha keys ?stored ?n (contentID sha source) = Inr (source, contentID sha key)"
    unfolding readEncrypted_def Let_def head sz
    using hl magic assms(5) nc by (simp add: contentID_def)
  with magic have "verifyArtifactFile A sha keys ?stored ?n (contentID sha source) = Inr (artifactEncryptionScheme, contentID sha key)"
    by (simp add: verifyArtifactFile_def)
  with enc rd sz show ?thesis by blast
qed

lemma encryptArtifact_oversized:
  assumes "length key = 32" "length (sha key) = 32" "0 \<le> limit" "limit < 2 ^ 48" "limit < int (length source)"
  shows "encryptArtifact A sha base source limit key (contentID sha key) = Inl ErrArtifactTooLarge"
proof -
  have w: "wrap64 (limit + 1) = limit + 1" using assms by (simp add: is_int64_def)
  have cs: "0 < artifactChunkSize" by (simp add: artifactChunkSize_def)
  have len: "int (length (take (nat (limit + 1)) source)) = limit + 1" using assms by simp
  have "encryptLoop A artifactChunkSize key (artifactMagic @ sha key @ base) base limit 0 0
      (take (nat (limit + 1)) source) = Inl ErrArtifactTooLarge"
    by (rule encryptLoop_too_large [OF cs]) (use len chunkCount_bound [of "limit + 1"] assms in simp_all)
  then show ?thesis
    using assms(1,2) by (auto simp: encryptArtifact_def decodeArtifactKeyID_contentID newCipher_def w Let_def)
qed

text \<open>
  C10. Encryption round trip. Evidence that fits the limit is encrypted, and the file it becomes is
  accepted by the verification of stored files under its size, content id and key, has exactly the
  size the reader computes for it, and decrypts to the evidence byte for byte; evidence above the
  limit is refused.
\<close>

theorem encrypt_then_read_back:
  assumes "aeadLaws A" "length base = 12" "length key = 32" "length (sha key) = 32"
    and "map_of keys (contentID sha key) = Some key"
    and "0 \<le> limit" "limit < 2 ^ 48"
  shows "(int (length source) \<le> limit \<longrightarrow>
      (\<exists>stored. encryptArtifact A sha base source limit key (contentID sha key) =
           Inr (stored, int (length source), contentID sha source) \<and>
         readEncrypted A sha keys stored (int (length source)) (contentID sha source) =
           Inr (source, contentID sha key) \<and>
         verifyArtifactFile A sha keys stored (int (length source)) (contentID sha source) =
           Inr (artifactEncryptionScheme, contentID sha key) \<and>
         encryptedArtifactSize (int (length source)) (aead_Overhead A) = Inr (int (length stored)))) \<and>
    (limit < int (length source) \<longrightarrow>
      encryptArtifact A sha base source limit key (contentID sha key) = Inl ErrArtifactTooLarge)"
  using encryptArtifact_fits [OF assms] encryptArtifact_oversized [of key sha limit source A base] assms(3,4,6,7) by blast

text \<open>A sealing that satisfies the laws and a 32-byte digest, for the concrete instances.\<close>

definition sampleAead :: Aead where
  "sampleAead = \<lparr>aead_Seal = (\<lambda>k n p a. p @ replicate 16 (CHR 0x2A)),
     aead_Open = (\<lambda>k n c a. Some (take (length c - 16) c)), aead_Overhead = 16\<rparr>"

definition sampleSha :: "string \<Rightarrow> string" where
  "sampleSha s = take 32 (s @ replicate 32 (CHR 0x00))"

definition sampleKey :: string where
  "sampleKey = replicate 32 (CHR 0x6B)"

lemma sampleAead_laws: "aeadLaws sampleAead"
  by (simp add: aeadLaws_def sampleAead_def)

theorem encrypt_then_read_back_witness:
  "\<exists>stored. encryptArtifact sampleAead sampleSha (replicate 12 (CHR 0x07)) ''evidence'' 100 sampleKey
       (contentID sampleSha sampleKey) = Inr (stored, 8, contentID sampleSha ''evidence'') \<and>
     readEncrypted sampleAead sampleSha [(contentID sampleSha sampleKey, sampleKey)] stored 8
       (contentID sampleSha ''evidence'') = Inr (''evidence'', contentID sampleSha sampleKey)"
proof -
  have "length sampleKey = 32" "length (sampleSha sampleKey) = 32"
    by (simp_all add: sampleKey_def sampleSha_def)
  with encrypt_then_read_back [OF sampleAead_laws, of "replicate 12 (CHR 0x07)" sampleKey sampleSha
      "[(contentID sampleSha sampleKey, sampleKey)]" 100 "''evidence''"]
  show ?thesis by auto
qed

lemma readLoop_verified:
  "readLoop A sha chunk key header base esize cid index sofar acc rest = Inr p \<Longrightarrow> sofar = int (length acc) \<Longrightarrow>
    int (length p) = esize \<and> contentID sha p = cid"
proof (induction A sha chunk key header base esize cid index sofar acc rest rule: readLoop.induct)
  case (1 A sha chunk key header base esize cid index sofar acc rest)
  from 1(2) show ?case
    unfolding readLoop.simps [of A sha chunk key header base esize cid index sofar acc rest] Let_def
    using 1(1) [OF _ refl refl refl refl refl] 1(3)
    by (auto simp: Let_def split: if_splits option.splits)
qed

lemma verifyArtifactFile_content:
  assumes "verifyArtifactFile A sha keys stored esize cid = Inr (scheme, keyID)"
  shows "scheme = [] \<and> keyID = [] \<and> int (length stored) = esize \<and> contentID sha stored = cid \<or>
    scheme = artifactEncryptionScheme \<and> map_of keys keyID \<noteq> None \<and>
    encryptedArtifactSize esize (aead_Overhead A) = Inr (int (length stored)) \<and>
    (\<exists>p. readEncrypted A sha keys stored esize cid = Inr (p, keyID) \<and> int (length p) = esize \<and> contentID sha p = cid)"
proof (cases "hasPrefix stored artifactMagic")
  case False
  with assms show ?thesis by (auto simp: verifyArtifactFile_def split: if_splits)
next
  case True
  with assms obtain p where r: "readEncrypted A sha keys stored esize cid = Inr (p, keyID)" "scheme = artifactEncryptionScheme"
    by (auto simp: verifyArtifactFile_def)
  then obtain key header base where "map_of keys keyID = Some key"
    "encryptedArtifactSize esize (aead_Overhead A) = Inr (int (length stored))"
    "readLoop A sha artifactChunkSize key header base esize cid 0 0 [] (drop 52 stored) = Inr p"
    by (auto simp: readEncrypted_def Let_def split: if_splits option.splits sum.splits)
  with r readLoop_verified [of A sha artifactChunkSize key header base esize cid 0 0 "[]" "drop 52 stored" p]
  show ?thesis by simp
qed

text \<open>
  Nothing unverified is delivered: whatever bytes a file holds and whatever the cipher does,
  when a stored file passes verification the evidence read from it has the recorded size and the
  recorded content id; an encrypted file has in addition exactly the computed size on disk and
  was opened with a key of the keyring.
\<close>

theorem verified_file_has_content:
  assumes "verifyArtifactFile A sha keys stored esize cid = Inr (scheme, keyID)"
  shows "scheme = [] \<and> keyID = [] \<and> int (length stored) = esize \<and> contentID sha stored = cid \<or>
    scheme = artifactEncryptionScheme \<and> map_of keys keyID \<noteq> None \<and>
    encryptedArtifactSize esize (aead_Overhead A) = Inr (int (length stored)) \<and>
    (\<exists>p. readEncrypted A sha keys stored esize cid = Inr (p, keyID) \<and> int (length p) = esize \<and> contentID sha p = cid)"
  using assms by (rule verifyArtifactFile_content)

text \<open>
  No nonce is used twice in a file: with a base nonce of at least four bytes, different chunk
  indices give different nonces, and every nonce has the length of the base.
\<close>

theorem artifactNonce_unique:
  assumes "4 \<le> length base"
  shows "length (artifactNonce base i) = length base \<and> (artifactNonce base i = artifactNonce base j \<longleftrightarrow> i = j)"
proof -
  have "(w XOR i = w XOR j) = (i = j)" for w :: "32 word"
    by (metis xor.left_commute xor_self_eq xor.right_neutral)
  then show ?thesis using assms by (auto simp: artifactNonce_def Let_def putUint32_inj)
qed

end
