(* ===== verification/Store.thy ===== *)
theory Store
  imports Policy Audit_Log Artifact_Crypto
begin

text \<open>
  \<^verbatim>\<open>internal/research/store/sqlite.go\<close>: the tables of the metadata database and the operations on
  scopes, campaigns, records, jobs and the audit log. A table is the list of its rows keyed by
  its primary key; a statement that violates a constraint (primary key, foreign key, check)
  returns its error and changes nothing, and a transaction that fails leaves the tables as they
  were. JSON columns hold the values themselves. A time column holds the \<^verbatim>\<open>timestamp\<close> text of a
  time, which is what \<^verbatim>\<open>ORDER BY\<close> compares. Failures of the database engine and of the random
  source are not modelled. \<open>Env\<close> collects what the process takes from outside: the host, the
  audit digest, SHA-256, the cipher, the random draws and which paths are directories.
\<close>

record Env =
  env_host :: Host
  env_digest :: digest
  env_sha :: "string \<Rightarrow> string"
  env_aead :: Aead
  env_random :: "nat \<Rightarrow> string"
  env_nonce :: "nat \<Rightarrow> string"
  env_isDir :: "string \<Rightarrow> bool"

abbreviation env_now :: "Env \<Rightarrow> time" where
  "env_now e \<equiv> host_clock (env_host e)"

datatype recordKind =
    recordTarget | recordApparatus | recordBuild | recordRun | recordCrash | recordCrashGroup
  | recordPrimitive | recordFinding | recordApproval | recordWorkerJob | recordSourceEvidence
  | recordSourceReview | recordRevisionCheck | recordRemediation

fun kindText :: "recordKind \<Rightarrow> string" where
  "kindText recordTarget = ''target_revision''"
| "kindText recordApparatus = ''apparatus_manifest''"
| "kindText recordBuild = ''build''"
| "kindText recordRun = ''experiment_run''"
| "kindText recordCrash = ''crash_observation''"
| "kindText recordCrashGroup = ''crash_group''"
| "kindText recordPrimitive = ''primitive_assessment''"
| "kindText recordFinding = ''finding''"
| "kindText recordApproval = ''approval''"
| "kindText recordWorkerJob = ''worker_job''"
| "kindText recordSourceEvidence = ''source_evidence''"
| "kindText recordSourceReview = ''source_review''"
| "kindText recordRevisionCheck = ''revision_check''"
| "kindText recordRemediation = ''remediation_validation''"

text \<open>The data column of \<^verbatim>\<open>research_records\<close>, by kind, and its decoding into a Go type.\<close>

datatype recordData =
    DataTarget (asTarget: TargetRevision) | DataApparatus (asApparatus: ApparatusManifest)
  | DataBuild (asBuild: Build) | DataRun (asRun: ExperimentRun) | DataCrash (asCrash: CrashObservation)
  | DataCrashGroup (asCrashGroup: CrashGroup) | DataPrimitive (asPrimitive: PrimitiveAssessment)
  | DataFinding (asFinding: Finding) | DataApproval (asApproval: Approval) | DataWorkerJob (asWorkerJob: WorkerJob)
  | DataSourceEvidence (asSourceEvidence: SourceEvidence) | DataSourceReview (asSourceReview: SourceReview)
  | DataRevisionCheck (asRevisionCheck: RevisionCheck) | DataRemediation (asRemediation: RemediationValidation)

fun dataKind :: "recordData \<Rightarrow> recordKind" where
  "dataKind (DataTarget _) = recordTarget"
| "dataKind (DataApparatus _) = recordApparatus"
| "dataKind (DataBuild _) = recordBuild"
| "dataKind (DataRun _) = recordRun"
| "dataKind (DataCrash _) = recordCrash"
| "dataKind (DataCrashGroup _) = recordCrashGroup"
| "dataKind (DataPrimitive _) = recordPrimitive"
| "dataKind (DataFinding _) = recordFinding"
| "dataKind (DataApproval _) = recordApproval"
| "dataKind (DataWorkerJob _) = recordWorkerJob"
| "dataKind (DataSourceEvidence _) = recordSourceEvidence"
| "dataKind (DataSourceReview _) = recordSourceReview"
| "dataKind (DataRevisionCheck _) = recordRevisionCheck"
| "dataKind (DataRemediation _) = recordRemediation"

record RecordRow =
  Row_CampaignID :: "string option"
  Row_CreatedAt :: time
  Row_UpdatedAt :: time
  Row_Data :: recordData

record CampaignRow =
  CRow_ScopeID :: string
  CRow_State :: CampaignState
  CRow_Version :: int
  CRow_CreatedAt :: time
  CRow_UpdatedAt :: time
  CRow_Data :: Campaign

record Store =
  st_scopes :: "(string \<times> AuthorizationScope) list"
  st_campaigns :: "(string \<times> CampaignRow) list"
  st_records :: "((recordKind \<times> string) \<times> RecordRow) list"
  st_artifacts :: "(string \<times> Artifact) list"
  st_audit :: "AuditEvent list"
  st_blobs :: "(string \<times> string) list"
  st_draws :: nat

definition emptyStore :: Store where
  "emptyStore = \<lparr>st_scopes = [], st_campaigns = [], st_records = [], st_artifacts = [], st_audit = [],
     st_blobs = [], st_draws = 0\<rparr>"

definition translateConstraint :: "string \<Rightarrow> string \<Rightarrow> err" where
  "translateConstraint action e = Err (''research store: '' @ action @ '': '' @ e)"

text \<open>\<^verbatim>\<open>newID\<close>: each call takes the next random value.\<close>

definition newID :: "Env \<Rightarrow> string \<Rightarrow> (Store, string) act" where
  "newID env pfx s = (Inr (pfx @ ''_'' @ env_random env (st_draws s)), s\<lparr>st_draws := st_draws s + 1\<rparr>)"

section \<open>Scopes\<close>

definition createScope :: "Env \<Rightarrow> AuthorizationScope \<Rightarrow> (Store, unit) act" where
  "createScope env scope =
     act_bind (act_lift (scopeValidate (env_host env) scope
        (if isZero (Scope_CreatedAt scope) then env_now env else Scope_CreatedAt scope))) (\<lambda>_ s.
     if map_of (st_scopes s) (Scope_ID scope) \<noteq> None
     then (Inl (translateConstraint ''create scope'' ''UNIQUE constraint failed: authorization_scopes.id''), s)
     else (Inr (), s\<lparr>st_scopes := st_scopes s @ [(Scope_ID scope, scope)]\<rparr>))"

definition lookup :: "('k \<times> 'v) list \<Rightarrow> 'k \<Rightarrow> 'v result" where
  "lookup rows k = (case map_of rows k of None \<Rightarrow> Inl ErrNotFound | Some v \<Rightarrow> Inr v)"

definition getScope :: "string \<Rightarrow> (Store, AuthorizationScope) act" where
  "getScope i = act_gets (\<lambda>s. lookup (st_scopes s) i)"

definition revokeAt :: "time \<Rightarrow> AuthorizationScope \<Rightarrow> AuthorizationScope" where
  "revokeAt at scope =
     (case Scope_RevokedAt scope of
        None \<Rightarrow> scope\<lparr>Scope_RevokedAt := Some at\<rparr>
      | Some r \<Rightarrow> if timeBefore at r then scope\<lparr>Scope_RevokedAt := Some at\<rparr> else scope)"

definition storeRevokeScope :: "Env \<Rightarrow> string \<Rightarrow> time \<Rightarrow> (Store, unit) act" where
  "storeRevokeScope env i at0 =
     (let at = (if isZero at0 then env_now env else at0) in
      act_bind (getScope i) (\<lambda>scope s.
        (Inr (), s\<lparr>st_scopes := AList.update i (revokeAt at scope) (st_scopes s)\<rparr>)))"

section \<open>Campaigns\<close>

definition campaignRow :: "Campaign \<Rightarrow> CampaignRow" where
  "campaignRow c = \<lparr>CRow_ScopeID = Campaign_ScopeID c, CRow_State = Campaign_State c,
     CRow_Version = Campaign_Version c, CRow_CreatedAt = Campaign_CreatedAt c,
     CRow_UpdatedAt = Campaign_UpdatedAt c, CRow_Data = c\<rparr>"

definition fillCampaign :: "time \<Rightarrow> Campaign \<Rightarrow> Campaign" where
  "fillCampaign now c =
     (let c1 = (if campaignStateText (Campaign_State c) = [] then c\<lparr>Campaign_State := CampaignDraft\<rparr> else c);
          c2 = (if Campaign_Version c1 = 0 then c1\<lparr>Campaign_Version := 1\<rparr> else c1);
          c3 = (if isZero (Campaign_CreatedAt c2) then c2\<lparr>Campaign_CreatedAt := now\<rparr> else c2)
      in if isZero (Campaign_UpdatedAt c3) then c3\<lparr>Campaign_UpdatedAt := Campaign_CreatedAt c3\<rparr> else c3)"

definition storeCreateCampaign :: "Env \<Rightarrow> Campaign \<Rightarrow> (Store, Campaign) act" where
  "storeCreateCampaign env c0 s =
     (if Campaign_ID c0 = [] \<or> Campaign_ScopeID c0 = [] \<or> Campaign_Name c0 = []
      then (Inl (Err ''research store: campaign id, scope, and name required''), s)
      else
        (let c = fillCampaign (env_now env) c0 in
         if Campaign_Version c \<noteq> 1
         then (Inl (Err ''research store: new campaign must be version one''), s)
         else if map_of (st_campaigns s) (Campaign_ID c) \<noteq> None
         then (Inl (translateConstraint ''create campaign'' ''UNIQUE constraint failed: campaigns.id''), s)
         else if map_of (st_scopes s) (Campaign_ScopeID c) = None
         then (Inl (translateConstraint ''create campaign'' ''FOREIGN KEY constraint failed''), s)
         else (Inr c, s\<lparr>st_campaigns := st_campaigns s @ [(Campaign_ID c, campaignRow c)]\<rparr>)))"

definition getCampaign :: "string \<Rightarrow> (Store, Campaign) act" where
  "getCampaign i = act_gets (\<lambda>s. rbind (lookup (st_campaigns s) i) (\<lambda>row. Inr (CRow_Data row)))"

definition stampCampaign :: "time \<Rightarrow> Campaign \<Rightarrow> Campaign" where
  "stampCampaign now c = (if isZero (Campaign_UpdatedAt c) then c\<lparr>Campaign_UpdatedAt := now\<rparr> else c)"

definition updateCampaign :: "Env \<Rightarrow> Campaign \<Rightarrow> int \<Rightarrow> (Store, unit) act" where
  "updateCampaign env c0 expectedVersion s =
     (if Campaign_Version c0 \<noteq> wrap64 (expectedVersion + 1)
      then (Inl (ErrVersionConflict ('': expected next version '' @ showInt (wrap64 (expectedVersion + 1)) @
              '', got '' @ showInt (Campaign_Version c0))), s)
      else
        (let c = stampCampaign (env_now env) c0 in
         case map_of (st_campaigns s) (Campaign_ID c) of
           None \<Rightarrow> (Inl (ErrVersionConflict []), s)
         | Some row \<Rightarrow>
             if CRow_Version row \<noteq> expectedVersion then (Inl (ErrVersionConflict []), s)
             else if Campaign_Version c \<le> 0
             then (Inl (Err ''CHECK constraint failed: version > 0''), s)
             else (Inr (), s\<lparr>st_campaigns := AList.update (Campaign_ID c)
                    (row\<lparr>CRow_State := Campaign_State c, CRow_Version := Campaign_Version c,
                         CRow_UpdatedAt := Campaign_UpdatedAt c, CRow_Data := c\<rparr>) (st_campaigns s)\<rparr>)))"

text \<open>\<^verbatim>\<open>ORDER BY created DESC, id LIMIT n\<close> on time texts.\<close>

definition createdText :: "('r \<Rightarrow> time) \<Rightarrow> 'r \<Rightarrow> string" where
  "createdText created r = timestamp (created r)"

definition newestFirst :: "('r \<Rightarrow> time) \<Rightarrow> ('r \<Rightarrow> string) \<Rightarrow> 'r list \<Rightarrow> 'r list" where
  "newestFirst created ident rows = rev (sort_key (createdText created) (rev (sort_key ident rows)))"

definition listLimit :: "int \<Rightarrow> int \<Rightarrow> int \<Rightarrow> int" where
  "listLimit most fallback limit = (if limit \<le> 0 \<or> limit > most then fallback else limit)"

definition listCampaigns :: "int \<Rightarrow> (Store, Campaign list) act" where
  "listCampaigns limit = act_gets (\<lambda>s.
     Inr (map (CRow_Data \<circ> snd) (takeI (listLimit 1000 100 limit)
       (newestFirst (CRow_CreatedAt \<circ> snd) fst (st_campaigns s)))))"

definition listScopes :: "int \<Rightarrow> (Store, AuthorizationScope list) act" where
  "listScopes limit = act_gets (\<lambda>s.
     Inr (map snd (takeI (listLimit 1000 100 limit)
       (newestFirst (Scope_ExpiresAt \<circ> snd) fst (st_scopes s)))))"

section \<open>Records\<close>

text \<open>\<^verbatim>\<open>NULLIF(campaign, '')\<close> and its foreign key.\<close>

definition nullIfEmpty :: "string \<Rightarrow> string option" where
  "nullIfEmpty c = (if c = [] then None else Some c)"

definition campaignKnown :: "Store \<Rightarrow> string \<Rightarrow> bool" where
  "campaignKnown s c \<longleftrightarrow> c = [] \<or> map_of (st_campaigns s) c \<noteq> None"

definition recordRow :: "string \<Rightarrow> time \<Rightarrow> time \<Rightarrow> recordData \<Rightarrow> RecordRow" where
  "recordRow campaign created updated v =
     \<lparr>Row_CampaignID = nullIfEmpty campaign, Row_CreatedAt = created, Row_UpdatedAt = updated, Row_Data = v\<rparr>"

text \<open>\<^verbatim>\<open>INSERT ... ON CONFLICT(kind, id) DO UPDATE\<close>: the row keeps its creation time.\<close>

definition upsertRecord :: "string \<Rightarrow> recordKind \<Rightarrow> string \<Rightarrow> string \<Rightarrow> time \<Rightarrow> time \<Rightarrow> recordData \<Rightarrow> (Store, unit) act" where
  "upsertRecord action kind i campaign created updated v s =
     (if \<not> campaignKnown s campaign
      then (Inl (translateConstraint (action @ kindText kind) ''FOREIGN KEY constraint failed''), s)
      else
        (let row = (case map_of (st_records s) (kind, i) of
               None \<Rightarrow> recordRow campaign created updated v
             | Some old \<Rightarrow> old\<lparr>Row_CampaignID := nullIfEmpty campaign, Row_UpdatedAt := updated, Row_Data := v\<rparr>)
         in (Inr (), s\<lparr>st_records := AList.update (kind, i) row (st_records s)\<rparr>)))"

definition insertRecord :: "string \<Rightarrow> recordKind \<Rightarrow> string \<Rightarrow> string \<Rightarrow> time \<Rightarrow> time \<Rightarrow> recordData \<Rightarrow> (Store, unit) act" where
  "insertRecord action kind i campaign created updated v s =
     (if map_of (st_records s) (kind, i) \<noteq> None
      then (Inl (translateConstraint (action @ kindText kind)
              ''UNIQUE constraint failed: research_records.kind, research_records.id''), s)
      else if \<not> campaignKnown s campaign
      then (Inl (translateConstraint (action @ kindText kind) ''FOREIGN KEY constraint failed''), s)
      else (Inr (), s\<lparr>st_records := st_records s @ [((kind, i), recordRow campaign created updated v)]\<rparr>))"

definition putRecord :: "Env \<Rightarrow> recordKind \<Rightarrow> string \<Rightarrow> string \<Rightarrow> time \<Rightarrow> time \<Rightarrow> recordData \<Rightarrow> (Store, unit) act" where
  "putRecord env kind i campaign created0 updated0 v =
     (if i = [] then act_fail (Err ''research store: record id required'')
      else
        (let created = (if isZero created0 then env_now env else created0);
             updated = (if isZero updated0 then created else updated0)
         in upsertRecord ''save '' kind i campaign created updated v))"

definition putImmutableRecord :: "Env \<Rightarrow> recordKind \<Rightarrow> string \<Rightarrow> string \<Rightarrow> time \<Rightarrow> recordData \<Rightarrow> (Store, unit) act" where
  "putImmutableRecord env kind i campaign created0 v =
     (if i = [] then act_fail (Err ''research store: record id required'')
      else
        (let created = (if isZero created0 then env_now env else created0)
         in insertRecord ''save immutable '' kind i campaign created created v))"

definition getRecord :: "recordKind \<Rightarrow> (recordData \<Rightarrow> 'a) \<Rightarrow> string \<Rightarrow> (Store, 'a) act" where
  "getRecord kind as i = act_gets (\<lambda>s.
     rbind (lookup (st_records s) (kind, i)) (\<lambda>row.
       if dataKind (Row_Data row) = kind then Inr (as (Row_Data row))
       else Inl (Err ''research store: decode object: mismatched record'')))"

definition listRecords :: "recordKind \<Rightarrow> (recordData \<Rightarrow> 'a) \<Rightarrow> string \<Rightarrow> int \<Rightarrow> (Store, 'a list) act" where
  "listRecords kind as campaign limit = act_gets (\<lambda>s.
     Inr (map (as \<circ> Row_Data \<circ> snd) (takeI (listLimit 10000 1000 limit)
       (newestFirst (Row_CreatedAt \<circ> snd) (snd \<circ> fst)
         (filter (\<lambda>(k, row). fst k = kind \<and> Row_CampaignID row = Some campaign) (st_records s))))))"

definition orTime :: "time option \<Rightarrow> time \<Rightarrow> time" where
  "orTime t fallback = (case t of None \<Rightarrow> fallback | Some u \<Rightarrow> u)"

definition runUpdated :: "ExperimentRun \<Rightarrow> time" where
  "runUpdated r = orTime (Run_CompletedAt r) (orTime (Run_StartedAt r) (Run_CreatedAt r))"

definition saveTarget :: "Env \<Rightarrow> TargetRevision \<Rightarrow> (Store, unit) act" where
  "saveTarget env v =
     putImmutableRecord env recordTarget (Target_ID v) (Target_CampaignID v) (Target_AcquiredAt v) (DataTarget v)"

definition getTarget :: "string \<Rightarrow> (Store, TargetRevision) act" where
  "getTarget = getRecord recordTarget asTarget"

definition saveApparatus :: "Env \<Rightarrow> ApparatusManifest \<Rightarrow> (Store, unit) act" where
  "saveApparatus env v =
     putImmutableRecord env recordApparatus (Manifest_ID v) [] (env_now env) (DataApparatus v)"

definition getApparatus :: "string \<Rightarrow> (Store, ApparatusManifest) act" where
  "getApparatus = getRecord recordApparatus asApparatus"

definition saveBuild :: "Env \<Rightarrow> Build \<Rightarrow> (Store, unit) act" where
  "saveBuild env v =
     putRecord env recordBuild (Build_ID v) (Build_CampaignID v) (Build_CreatedAt v)
       (orTime (Build_CompletedAt v) (Build_CreatedAt v)) (DataBuild v)"

definition getBuild :: "string \<Rightarrow> (Store, Build) act" where
  "getBuild = getRecord recordBuild asBuild"

definition saveRun :: "Env \<Rightarrow> ExperimentRun \<Rightarrow> (Store, unit) act" where
  "saveRun env v =
     putRecord env recordRun (Run_ID v) (Run_CampaignID v) (Run_CreatedAt v) (runUpdated v) (DataRun v)"

definition getRun :: "string \<Rightarrow> (Store, ExperimentRun) act" where
  "getRun = getRecord recordRun asRun"

definition saveCrash :: "Env \<Rightarrow> CrashObservation \<Rightarrow> (Store, unit) act" where
  "saveCrash env v =
     putRecord env recordCrash (Crash_ID v) (Crash_CampaignID v) (Crash_CreatedAt v) (Crash_CreatedAt v) (DataCrash v)"

definition getCrash :: "string \<Rightarrow> (Store, CrashObservation) act" where
  "getCrash = getRecord recordCrash asCrash"

definition saveCrashGroup :: "Env \<Rightarrow> CrashGroup \<Rightarrow> (Store, unit) act" where
  "saveCrashGroup env v =
     putRecord env recordCrashGroup (Group_ID v) (Group_CampaignID v) (Group_CreatedAt v) (Group_UpdatedAt v) (DataCrashGroup v)"

definition getCrashGroup :: "string \<Rightarrow> (Store, CrashGroup) act" where
  "getCrashGroup = getRecord recordCrashGroup asCrashGroup"

definition savePrimitive :: "Env \<Rightarrow> PrimitiveAssessment \<Rightarrow> (Store, unit) act" where
  "savePrimitive env v =
     act_bind (act_lift (validatePrimitive v)) (\<lambda>_.
     putRecord env recordPrimitive (Prim_ID v) (Prim_CampaignID v) (Prim_CreatedAt v)
       (orTime (Prim_ReviewedAt v) (Prim_CreatedAt v)) (DataPrimitive v))"

definition getPrimitive :: "string \<Rightarrow> (Store, PrimitiveAssessment) act" where
  "getPrimitive = getRecord recordPrimitive asPrimitive"

definition saveFinding :: "Env \<Rightarrow> Finding \<Rightarrow> (Store, unit) act" where
  "saveFinding env v =
     putRecord env recordFinding (Finding_ID v) (Finding_CampaignID v) (Finding_CreatedAt v) (Finding_UpdatedAt v) (DataFinding v)"

definition getFinding :: "string \<Rightarrow> (Store, Finding) act" where
  "getFinding = getRecord recordFinding asFinding"

definition saveApproval :: "Env \<Rightarrow> Approval \<Rightarrow> (Store, unit) act" where
  "saveApproval env v =
     putRecord env recordApproval (Approval_ID v) (Approval_CampaignID v) (Approval_CreatedAt v)
       (orTime (Approval_DecidedAt v) (Approval_CreatedAt v)) (DataApproval v)"

definition getApproval :: "string \<Rightarrow> (Store, Approval) act" where
  "getApproval = getRecord recordApproval asApproval"

definition saveWorkerJob :: "Env \<Rightarrow> WorkerJob \<Rightarrow> (Store, unit) act" where
  "saveWorkerJob env v =
     putRecord env recordWorkerJob (Job_ID v) (Job_CampaignID v) (Job_CreatedAt v) (Job_UpdatedAt v) (DataWorkerJob v)"

definition getWorkerJob :: "string \<Rightarrow> (Store, WorkerJob) act" where
  "getWorkerJob = getRecord recordWorkerJob asWorkerJob"

definition saveSourceEvidence :: "Env \<Rightarrow> SourceEvidence \<Rightarrow> (Store, unit) act" where
  "saveSourceEvidence env v =
     putImmutableRecord env recordSourceEvidence (SourceEv_ID v) (SourceEv_CampaignID v) (SourceEv_CheckedAt v) (DataSourceEvidence v)"

definition getSourceEvidence :: "string \<Rightarrow> (Store, SourceEvidence) act" where
  "getSourceEvidence = getRecord recordSourceEvidence asSourceEvidence"

definition saveSourceReview :: "Env \<Rightarrow> SourceReview \<Rightarrow> (Store, unit) act" where
  "saveSourceReview env v =
     putImmutableRecord env recordSourceReview (Review_ID v) (Review_CampaignID v) (Review_ReviewedAt v) (DataSourceReview v)"

definition getSourceReview :: "string \<Rightarrow> (Store, SourceReview) act" where
  "getSourceReview = getRecord recordSourceReview asSourceReview"

definition saveRevisionCheck :: "Env \<Rightarrow> RevisionCheck \<Rightarrow> (Store, unit) act" where
  "saveRevisionCheck env v =
     putImmutableRecord env recordRevisionCheck (RevCheck_ID v) (RevCheck_CampaignID v) (RevCheck_CheckedAt v) (DataRevisionCheck v)"

definition getRevisionCheck :: "string \<Rightarrow> (Store, RevisionCheck) act" where
  "getRevisionCheck = getRecord recordRevisionCheck asRevisionCheck"

definition saveRemediation :: "Env \<Rightarrow> RemediationValidation \<Rightarrow> (Store, unit) act" where
  "saveRemediation env v =
     putImmutableRecord env recordRemediation (Remed_ID v) (Remed_CampaignID v) (Remed_ValidatedAt v) (DataRemediation v)"

definition getRemediation :: "string \<Rightarrow> (Store, RemediationValidation) act" where
  "getRemediation = getRecord recordRemediation asRemediation"

definition listRuns :: "string \<Rightarrow> int \<Rightarrow> (Store, ExperimentRun list) act" where
  "listRuns = listRecords recordRun asRun"

definition listTargets :: "string \<Rightarrow> int \<Rightarrow> (Store, TargetRevision list) act" where
  "listTargets = listRecords recordTarget asTarget"

definition listApprovals :: "string \<Rightarrow> int \<Rightarrow> (Store, Approval list) act" where
  "listApprovals = listRecords recordApproval asApproval"

definition listBuilds :: "string \<Rightarrow> int \<Rightarrow> (Store, Build list) act" where
  "listBuilds = listRecords recordBuild asBuild"

definition listCrashes :: "string \<Rightarrow> int \<Rightarrow> (Store, CrashObservation list) act" where
  "listCrashes = listRecords recordCrash asCrash"

definition listPrimitives :: "string \<Rightarrow> int \<Rightarrow> (Store, PrimitiveAssessment list) act" where
  "listPrimitives = listRecords recordPrimitive asPrimitive"

definition listCrashGroups :: "string \<Rightarrow> int \<Rightarrow> (Store, CrashGroup list) act" where
  "listCrashGroups = listRecords recordCrashGroup asCrashGroup"

definition listFindings :: "string \<Rightarrow> int \<Rightarrow> (Store, Finding list) act" where
  "listFindings = listRecords recordFinding asFinding"

definition listSourceEvidence :: "string \<Rightarrow> int \<Rightarrow> (Store, SourceEvidence list) act" where
  "listSourceEvidence = listRecords recordSourceEvidence asSourceEvidence"

definition listSourceReviews :: "string \<Rightarrow> int \<Rightarrow> (Store, SourceReview list) act" where
  "listSourceReviews = listRecords recordSourceReview asSourceReview"

definition listRevisionChecks :: "string \<Rightarrow> int \<Rightarrow> (Store, RevisionCheck list) act" where
  "listRevisionChecks = listRecords recordRevisionCheck asRevisionCheck"

definition listRemediations :: "string \<Rightarrow> int \<Rightarrow> (Store, RemediationValidation list) act" where
  "listRemediations = listRecords recordRemediation asRemediation"

definition listApparatus :: "int \<Rightarrow> (Store, ApparatusManifest list) act" where
  "listApparatus limit = act_gets (\<lambda>s.
     Inr (map (asApparatus \<circ> Row_Data \<circ> snd) (takeI (listLimit 1000 100 limit)
       (newestFirst (Row_CreatedAt \<circ> snd) (snd \<circ> fst)
         (filter (\<lambda>(k, row). fst k = recordApparatus) (st_records s))))))"

section \<open>Jobs\<close>

text \<open>
  \<^verbatim>\<open>LIMIT 1\<close> without an order: the first row of the table; a run has at most one job in the
  tables the queue writes.
\<close>

definition getWorkerJobByRunID :: "string \<Rightarrow> (Store, WorkerJob) act" where
  "getWorkerJobByRunID runID = act_gets (\<lambda>s.
     case filter (\<lambda>(k, row). fst k = recordWorkerJob \<and> Job_RunID (asWorkerJob (Row_Data row)) = runID) (st_records s) of
       [] \<Rightarrow> Inl ErrNotFound
     | (k, row) # _ \<Rightarrow> Inr (asWorkerJob (Row_Data row)))"

text \<open>A transaction: a failure inside it restores the tables.\<close>

definition atomically :: "('s, 'a) act \<Rightarrow> ('s, 'a) act" where
  "atomically m s = (case m s of (Inl e, _) \<Rightarrow> (Inl e, s) | (Inr x, s') \<Rightarrow> (Inr x, s'))"

definition createJobAndRun :: "WorkerJob \<Rightarrow> ExperimentRun \<Rightarrow> (Store, unit) act" where
  "createJobAndRun job run = atomically
     (act_bind (insertRecord ''create '' recordRun (Run_ID run) (Run_CampaignID run) (Run_CreatedAt run)
                  (Run_CreatedAt run) (DataRun run)) (\<lambda>_.
      insertRecord ''create '' recordWorkerJob (Job_ID job) (Job_CampaignID job) (Job_CreatedAt job)
        (Job_UpdatedAt job) (DataWorkerJob job)))"

definition saveJobAndRun :: "WorkerJob \<Rightarrow> ExperimentRun \<Rightarrow> (Store, unit) act" where
  "saveJobAndRun job run = atomically
     (act_bind (upsertRecord ''checkpoint '' recordRun (Run_ID run) (Run_CampaignID run) (Run_CreatedAt run)
                  (runUpdated run) (DataRun run)) (\<lambda>_.
      upsertRecord ''checkpoint '' recordWorkerJob (Job_ID job) (Job_CampaignID job) (Job_CreatedAt job)
        (Job_UpdatedAt job) (DataWorkerJob job)))"

definition listWorkerJobsByStatus :: "RunStatus list \<Rightarrow> (Store, WorkerJob list) act" where
  "listWorkerJobsByStatus statuses = act_gets (\<lambda>s.
     Inr (if statuses = [] then []
          else map (asWorkerJob \<circ> Row_Data \<circ> snd)
            (sort_key (createdText (Row_CreatedAt \<circ> snd)) (sort_key (snd \<circ> fst)
              (filter (\<lambda>(k, row). fst k = recordWorkerJob \<and>
                 runStatusText (Job_Status (asWorkerJob (Row_Data row))) \<in> set (map runStatusText statuses))
                 (st_records s))))))"

section \<open>Audit\<close>

definition appendAudit :: "Env \<Rightarrow> AuditEvent \<Rightarrow> (Store, AuditEvent) act" where
  "appendAudit env event =
     act_bind (if Audit_ID event = [] then newID env ''audit'' else act_return (Audit_ID event)) (\<lambda>i s.
       (case auditInsert (env_digest env) (env_now env) (event\<lparr>Audit_ID := i\<rparr>) (st_audit s) of
          (r, rows) \<Rightarrow> (r, s\<lparr>st_audit := rows\<rparr>)))"

definition storeListAudit :: "int \<Rightarrow> int \<Rightarrow> (Store, AuditEvent list) act" where
  "storeListAudit after limit = act_gets (\<lambda>s. Inr (listAudit (st_audit s) after limit))"

definition storeVerifyAuditChain :: "Env \<Rightarrow> (Store, unit) act" where
  "storeVerifyAuditChain env = act_gets (\<lambda>s. verifyAuditChain (env_digest env) (st_audit s))"

section \<open>Resource budgets of old records\<close>

definition orPositive :: "int \<Rightarrow> int \<Rightarrow> int \<Rightarrow> int" where
  "orPositive v fallback preset = (if v \<le> 0 then (if fallback \<le> 0 then preset else fallback) else v)"

definition fillFiniteBudget :: "ResourceBudget \<Rightarrow> ResourceBudget \<Rightarrow> ResourceBudget" where
  "fillFiniteBudget b fb =
     (let wall = orPositive (MaxWallSeconds b) (MaxWallSeconds fb) 300;
          memory = orPositive (MaxMemoryBytes b) (MaxMemoryBytes fb) (256 * 2 ^ 20);
          cpu = orPositive (MaxCPUSeconds b) (MaxCPUSeconds fb) wall;
          disk = orPositive (MaxDiskBytes b) (MaxDiskBytes fb) (256 * 2 ^ 20);
          inodes = orPositive (MaxInodes b) (MaxInodes fb)
            (let i = disk div 4096; i1 = (if i < 1024 then 1024 else i) in if i1 > 2 ^ 20 then 2 ^ 20 else i1);
          pids = orPositive (MaxPIDs b) (MaxPIDs fb) 32;
          concurrent = orPositive (MaxConcurrent b) (MaxConcurrent fb) 1
      in \<lparr>MaxWallSeconds = wall, MaxMemoryBytes = memory, MaxCPUSeconds = cpu, MaxDiskBytes = disk,
          MaxInodes = inodes, MaxPIDs = pids, MaxConcurrent = concurrent\<rparr>)"

definition zeroBudget :: ResourceBudget where
  "zeroBudget = \<lparr>MaxWallSeconds = 0, MaxMemoryBytes = 0, MaxCPUSeconds = 0, MaxDiskBytes = 0, MaxInodes = 0,
     MaxPIDs = 0, MaxConcurrent = 0\<rparr>"

definition fillScope :: "AuthorizationScope \<Rightarrow> AuthorizationScope" where
  "fillScope scope = scope\<lparr>Scope_Budget := fillFiniteBudget (Scope_Budget scope) zeroBudget\<rparr>"

definition fillRecordData :: "recordData \<Rightarrow> recordData" where
  "fillRecordData d =
     (case d of
        DataApparatus m \<Rightarrow> DataApparatus (m\<lparr>Manifest_Limits := fillFiniteBudget (Manifest_Limits m) zeroBudget\<rparr>)
      | DataWorkerJob j \<Rightarrow> DataWorkerJob (j\<lparr>Job_Budget := fillFiniteBudget (Job_Budget j) zeroBudget\<rparr>)
      | _ \<Rightarrow> d)"

text \<open>
  \<^verbatim>\<open>migrateFiniteResourceBudgets\<close>; the budget a campaign falls back to is the migrated one of the
  scope it names, the zero budget when there is none.
\<close>

definition migrateFiniteResourceBudgets :: "(Store, unit) act" where
  "migrateFiniteResourceBudgets s =
     (let scopes = map (\<lambda>(i, scope). (i, fillScope scope)) (st_scopes s);
          budgets = map (\<lambda>(i, scope). (Scope_ID scope, Scope_Budget scope)) (rev scopes);
          fallback = (\<lambda>i. case map_of budgets i of None \<Rightarrow> zeroBudget | Some b \<Rightarrow> b)
      in (Inr (), s\<lparr>st_scopes := scopes,
            st_campaigns := map (\<lambda>(i, row). (i, row\<lparr>CRow_Data := (CRow_Data row)\<lparr>Campaign_Budget :=
              fillFiniteBudget (Campaign_Budget (CRow_Data row)) (fallback (Campaign_ScopeID (CRow_Data row)))\<rparr>\<rparr>))
              (st_campaigns s),
            st_records := map (\<lambda>(k, row). (k, row\<lparr>Row_Data := fillRecordData (Row_Data row)\<rparr>)) (st_records s)\<rparr>))"

end
