(* ===== verification/Store_Laws.thy ===== *)
theory Store_Laws
  imports Store
begin

text \<open>
  Laws of the store: what a lookup returns after a write, as locales interpreted on every record
  kind of the database; what no operation ever undoes (the history relation); the invariant of the
  tables; optimistic concurrency of campaigns; and the migration of resource budgets.
\<close>

section \<open>The contract of a record kind\<close>

lemma find_append: "find P (xs @ ys) = (case find P xs of None \<Rightarrow> find P ys | Some x \<Rightarrow> Some x)"
  by (induction xs) auto

locale record_store =
  fixes save :: "'v \<Rightarrow> ('s, unit) act" and get :: "string \<Rightarrow> ('s, 'v) act" and ident :: "'v \<Rightarrow> string"
  assumes get_saved: "save v s = (Inr u, s') \<Longrightarrow> get (ident v) s' = (Inr v, s')"
    and get_other: "save v s = (r, s') \<Longrightarrow> i \<noteq> ident v \<Longrightarrow> fst (get i s') = fst (get i s)"
    and save_failed: "save v s = (Inl e, s') \<Longrightarrow> s' = s"
    and get_reads: "snd (get i s) = s"
begin

lemma get_after_saves:
  "act_each save vs s = (Inr u, s') \<Longrightarrow>
    fst (get i s') = (case find (\<lambda>v. ident v = i) (rev vs) of None \<Rightarrow> fst (get i s) | Some v \<Rightarrow> Inr v)"
proof (induction vs arbitrary: s)
  case Nil
  then show ?case by (simp add: act_return_def)
next
  case (Cons v vs)
  then obtain u1 s1 where s1: "save v s = (Inr u1, s1)" "act_each save vs s1 = (Inr u, s')"
    by (auto simp: act_simps)
  have "fst (get i s1) = (if ident v = i then Inr v else fst (get i s))"
    using get_saved [OF s1(1)] get_other [OF s1(1)] by auto
  with Cons.IH [OF s1(2)] show ?case
    by (auto simp: find_append split: option.splits)
qed

end

locale write_once_store = record_store +
  assumes save_twice: "fst (get (ident v) s) = Inr w \<Longrightarrow> isl (fst (save v s))"
begin

lemma get_kept: "fst (get i s) = Inr w \<Longrightarrow> fst (get i (snd (save v s))) = Inr w"
proof (cases "save v s")
  case (Pair r s')
  assume w: "fst (get i s) = Inr w"
  show ?thesis
  proof (cases "i = ident v")
    case True
    with w Pair have "isl r" using save_twice by fastforce
    then obtain e where "r = Inl e" by (auto simp: isl_def)
    with Pair w show ?thesis using save_failed by fastforce
  next
    case False
    with Pair w show ?thesis using get_other by fastforce
  qed
qed

lemma get_kept_by_saves: "fst (get i s) = Inr w \<Longrightarrow> fst (get i (snd (act_each save vs s))) = Inr w"
proof (induction vs arbitrary: s)
  case Nil
  then show ?case by (simp add: act_return_def)
next
  case (Cons v vs)
  obtain r s1 where s1: "save v s = (r, s1)" by fastforce
  with get_kept [OF Cons.prems, of v] have "fst (get i s1) = Inr w" by simp
  with s1 Cons.IH show ?case by (cases r) (auto simp: act_bind_def)
qed

end

section \<open>Writes and reads of one record\<close>

lemma lookup_Inr_iff [simp]: "lookup rows k = Inr v \<longleftrightarrow> map_of rows k = Some v"
  by (simp add: lookup_def split: option.splits)

lemma getRecord_snd [simp]: "snd (getRecord kind as i s) = s"
  by (simp add: getRecord_def act_gets_def)

lemma getRecord_fst:
  "fst (getRecord kind as i s) =
    (case map_of (st_records s) (kind, i) of
       None \<Rightarrow> Inl ErrNotFound
     | Some row \<Rightarrow> if dataKind (Row_Data row) = kind then Inr (as (Row_Data row))
         else Inl (Err ''research store: decode object: mismatched record''))"
  by (simp add: getRecord_def act_gets_def lookup_def rbind_def split: option.splits)

lemma upsertRecord_cases:
  obtains (refused) e where "upsertRecord action kind i campaign created updated v s = (Inl e, s)"
  | (written) row where "upsertRecord action kind i campaign created updated v s =
      (Inr (), s\<lparr>st_records := AList.update (kind, i) row (st_records s)\<rparr>)"
      "Row_Data row = v" "Row_CampaignID row = nullIfEmpty campaign" "campaignKnown s campaign"
  by (cases "campaignKnown s campaign"; cases "map_of (st_records s) (kind, i)")
    (auto simp: upsertRecord_def Let_def recordRow_def)

lemma insertRecord_cases:
  obtains (refused) e where "insertRecord action kind i campaign created updated v s = (Inl e, s)"
  | (written) "insertRecord action kind i campaign created updated v s =
      (Inr (), s\<lparr>st_records := st_records s @ [((kind, i), recordRow campaign created updated v)]\<rparr>)"
      "map_of (st_records s) (kind, i) = None" "campaignKnown s campaign"
  by (cases "campaignKnown s campaign"; cases "map_of (st_records s) (kind, i)")
    (auto simp: insertRecord_def)

lemma putRecord_cases:
  obtains (refused) e where "putRecord env kind i campaign created updated v s = (Inl e, s)"
  | (written) row where "putRecord env kind i campaign created updated v s =
      (Inr (), s\<lparr>st_records := AList.update (kind, i) row (st_records s)\<rparr>)"
      "Row_Data row = v" "Row_CampaignID row = nullIfEmpty campaign" "campaignKnown s campaign"
proof (cases "i = []")
  case True
  then show ?thesis using refused by (simp add: putRecord_def act_fail_def)
next
  case False
  show ?thesis
    by (rule upsertRecord_cases [of "''save ''" kind i campaign "if isZero created then env_now env else created"
          "if isZero updated then if isZero created then env_now env else created else updated" v s])
      (use False refused written in \<open>simp_all add: putRecord_def Let_def\<close>)
qed

lemma putImmutableRecord_cases:
  obtains (refused) e where "putImmutableRecord env kind i campaign created v s = (Inl e, s)"
  | (written) row where "putImmutableRecord env kind i campaign created v s =
      (Inr (), s\<lparr>st_records := st_records s @ [((kind, i), row)]\<rparr>)"
      "Row_Data row = v" "Row_CampaignID row = nullIfEmpty campaign" "campaignKnown s campaign"
      "map_of (st_records s) (kind, i) = None"
proof (cases "i = []")
  case True
  then show ?thesis using refused by (simp add: putImmutableRecord_def act_fail_def)
next
  case False
  show ?thesis
    by (rule insertRecord_cases [of "''save immutable ''" kind i campaign "if isZero created then env_now env else created"
          "if isZero created then env_now env else created" v s])
      (use False refused written in \<open>simp_all add: putImmutableRecord_def Let_def recordRow_def\<close>)
qed

lemma put_get:
  assumes "putRecord env kind i campaign created updated v s = (Inr u, s')" "dataKind v = kind" "as v = x"
  shows "getRecord kind as i s' = (Inr x, s')"
  by (rule putRecord_cases [of env kind i campaign created updated v s])
    (use assms in \<open>auto simp: prod_eq_iff getRecord_fst\<close>)

lemma put_get_other:
  assumes "putRecord env kind i campaign created updated v s = (r, s')" "j \<noteq> i"
  shows "fst (getRecord kind as j s') = fst (getRecord kind as j s)"
  by (rule putRecord_cases [of env kind i campaign created updated v s])
    (use assms in \<open>auto simp: getRecord_fst\<close>)

lemma put_failed:
  "putRecord env kind i campaign created updated v s = (Inl e, s') \<Longrightarrow> s' = s"
  by (rule putRecord_cases [of env kind i campaign created updated v s]) auto

lemma putImmutable_get:
  assumes "putImmutableRecord env kind i campaign created v s = (Inr u, s')" "dataKind v = kind" "as v = x"
  shows "getRecord kind as i s' = (Inr x, s')"
  by (rule putImmutableRecord_cases [of env kind i campaign created v s])
    (use assms in \<open>auto simp: prod_eq_iff getRecord_fst map_add_def split: option.splits\<close>)

lemma putImmutable_get_other:
  assumes "putImmutableRecord env kind i campaign created v s = (r, s')" "j \<noteq> i"
  shows "fst (getRecord kind as j s') = fst (getRecord kind as j s)"
  by (rule putImmutableRecord_cases [of env kind i campaign created v s])
    (use assms in \<open>auto simp: getRecord_fst map_add_def split: option.splits\<close>)

lemma putImmutable_failed:
  "putImmutableRecord env kind i campaign created v s = (Inl e, s') \<Longrightarrow> s' = s"
  by (rule putImmutableRecord_cases [of env kind i campaign created v s]) auto

lemma putImmutable_twice:
  assumes "fst (getRecord kind as i s) = Inr w"
  shows "isl (fst (putImmutableRecord env kind i campaign created v s))"
  by (rule putImmutableRecord_cases [of env kind i campaign created v s])
    (use assms in \<open>auto simp: getRecord_fst\<close>)

lemmas put_laws = put_get_other put_failed
lemmas putImmutable_laws = putImmutable_get_other putImmutable_failed putImmutable_twice

interpretation targets: write_once_store "saveTarget env" getTarget Target_ID for env
  by unfold_locales (auto simp: saveTarget_def getTarget_def intro: putImmutable_get dest: putImmutable_laws)

interpretation apparatuses: write_once_store "saveApparatus env" getApparatus Manifest_ID for env
  by unfold_locales (auto simp: saveApparatus_def getApparatus_def intro: putImmutable_get dest: putImmutable_laws)

interpretation evidences: write_once_store "saveSourceEvidence env" getSourceEvidence SourceEv_ID for env
  by unfold_locales (auto simp: saveSourceEvidence_def getSourceEvidence_def intro: putImmutable_get dest: putImmutable_laws)

interpretation reviews: write_once_store "saveSourceReview env" getSourceReview Review_ID for env
  by unfold_locales (auto simp: saveSourceReview_def getSourceReview_def intro: putImmutable_get dest: putImmutable_laws)

interpretation checks: write_once_store "saveRevisionCheck env" getRevisionCheck RevCheck_ID for env
  by unfold_locales (auto simp: saveRevisionCheck_def getRevisionCheck_def intro: putImmutable_get dest: putImmutable_laws)

interpretation remediations: write_once_store "saveRemediation env" getRemediation Remed_ID for env
  by unfold_locales (auto simp: saveRemediation_def getRemediation_def intro: putImmutable_get dest: putImmutable_laws)

interpretation builds: record_store "saveBuild env" getBuild Build_ID for env
  by unfold_locales (auto simp: saveBuild_def getBuild_def intro: put_get dest: put_laws)

interpretation runs: record_store "saveRun env" getRun Run_ID for env
  by unfold_locales (auto simp: saveRun_def getRun_def intro: put_get dest: put_laws)

interpretation crashes: record_store "saveCrash env" getCrash Crash_ID for env
  by unfold_locales (auto simp: saveCrash_def getCrash_def intro: put_get dest: put_laws)

interpretation groups: record_store "saveCrashGroup env" getCrashGroup Group_ID for env
  by unfold_locales (auto simp: saveCrashGroup_def getCrashGroup_def intro: put_get dest: put_laws)

interpretation findings: record_store "saveFinding env" getFinding Finding_ID for env
  by unfold_locales (auto simp: saveFinding_def getFinding_def intro: put_get dest: put_laws)

interpretation approvals: record_store "saveApproval env" getApproval Approval_ID for env
  by unfold_locales (auto simp: saveApproval_def getApproval_def intro: put_get dest: put_laws)

interpretation jobs: record_store "saveWorkerJob env" getWorkerJob Job_ID for env
  by unfold_locales (auto simp: saveWorkerJob_def getWorkerJob_def intro: put_get dest: put_laws)

lemma savePrimitive_cases:
  obtains (refused) e where "savePrimitive env v s = (Inl e, s)"
  | (written) "validatePrimitive v = Inr ()"
      "savePrimitive env v s = putRecord env recordPrimitive (Prim_ID v) (Prim_CampaignID v) (Prim_CreatedAt v)
         (orTime (Prim_ReviewedAt v) (Prim_CreatedAt v)) (DataPrimitive v) s"
  by (cases "validatePrimitive v") (auto simp: savePrimitive_def act_bind_def act_lift_def)

interpretation primitives: record_store "savePrimitive env" getPrimitive Prim_ID for env
proof unfold_locales
  fix v s s' i e
  show "savePrimitive env v s = (Inr u, s') \<Longrightarrow> getPrimitive (Prim_ID v) s' = (Inr v, s')" for u
    by (rule savePrimitive_cases [of env v s]) (auto simp: getPrimitive_def intro: put_get dest: put_laws)
  show "savePrimitive env v s = (r, s') \<Longrightarrow> i \<noteq> Prim_ID v \<Longrightarrow> fst (getPrimitive i s') = fst (getPrimitive i s)" for r
    by (rule savePrimitive_cases [of env v s]) (auto simp: getPrimitive_def intro: put_get dest: put_laws)
  show "savePrimitive env v s = (Inl e, s') \<Longrightarrow> s' = s"
    by (rule savePrimitive_cases [of env v s]) (auto intro: put_get dest: put_laws)
qed (simp add: getPrimitive_def)

section \<open>What is never undone\<close>

text \<open>Every row of a table has a successor in a later state of the table.\<close>

definition tableKept :: "('k \<Rightarrow> 'v \<Rightarrow> 'v \<Rightarrow> bool) \<Rightarrow> ('k \<times> 'v) list \<Rightarrow> ('k \<times> 'v) list \<Rightarrow> bool" where
  "tableKept R t t' \<longleftrightarrow> (\<forall>k v. map_of t k = Some v \<longrightarrow> (\<exists>v'. map_of t' k = Some v' \<and> R k v v'))"

lemma tableKept_refl: "(\<And>k v. R k v v) \<Longrightarrow> tableKept R t t"
  by (auto simp: tableKept_def)

lemma tableKept_trans:
  "(\<And>k u v w. R k u v \<Longrightarrow> R k v w \<Longrightarrow> R k u w) \<Longrightarrow> tableKept R t t' \<Longrightarrow> tableKept R t' t'' \<Longrightarrow> tableKept R t t''"
  unfolding tableKept_def by metis

lemma tableKept_snoc: "(\<And>k v. R k v v) \<Longrightarrow> tableKept R t (t @ [kv])"
  by (auto simp: tableKept_def map_add_def)

lemma tableKept_update:
  "(\<And>k v. R k v v) \<Longrightarrow> (\<And>v. map_of t k = Some v \<Longrightarrow> R k v v') \<Longrightarrow> tableKept R t (AList.update k v' t)"
  unfolding tableKept_def by (metis map_of_update_other map_of_update_same)

definition immutableKind :: "recordKind \<Rightarrow> bool" where
  "immutableKind k \<longleftrightarrow>
     k \<in> {recordTarget, recordApparatus, recordSourceEvidence, recordSourceReview, recordRevisionCheck, recordRemediation}"

definition recordLater :: "recordKind \<times> string \<Rightarrow> RecordRow \<Rightarrow> RecordRow \<Rightarrow> bool" where
  "recordLater k row row' \<longleftrightarrow> Row_CreatedAt row' = Row_CreatedAt row \<and> (immutableKind (fst k) \<longrightarrow> row' = row)"

definition campaignLater :: "string \<Rightarrow> CampaignRow \<Rightarrow> CampaignRow \<Rightarrow> bool" where
  "campaignLater i row row' \<longleftrightarrow>
     CRow_ScopeID row' = CRow_ScopeID row \<and> CRow_CreatedAt row' = CRow_CreatedAt row \<and>
     (row' = row \<or> is_int64 (CRow_Version row') \<and> (is_int64 (CRow_Version row) \<longrightarrow> CRow_Version row < CRow_Version row'))"

definition scopeLater :: "string \<Rightarrow> AuthorizationScope \<Rightarrow> AuthorizationScope \<Rightarrow> bool" where
  "scopeLater i sc sc' \<longleftrightarrow>
     (\<exists>r. sc' = sc\<lparr>Scope_RevokedAt := r\<rparr> \<and> (\<forall>t. Scope_RevokedAt sc = Some t \<longrightarrow> (\<exists>t'. r = Some t' \<and> t' \<le> t)))"

text \<open>
  A tombstone is written once; identity, size and provenance never change, and neither does a
  retention deadline once it is set. The encryption fields follow the stored file.
\<close>

definition artifactLater :: "string \<Rightarrow> Artifact \<Rightarrow> Artifact \<Rightarrow> bool" where
  "artifactLater i a a' \<longleftrightarrow>
     a' = a\<lparr>Artifact_Encryption := Artifact_Encryption a', Artifact_EncryptionKeyID := Artifact_EncryptionKeyID a',
            Artifact_RetainUntil := Artifact_RetainUntil a',
            Artifact_PurgedAt := Artifact_PurgedAt a', Artifact_PurgeApprovalID := Artifact_PurgeApprovalID a',
            Artifact_PurgeReason := Artifact_PurgeReason a', Artifact_BlobDeletedAt := Artifact_BlobDeletedAt a'\<rparr> \<and>
     (\<not> isZero (Artifact_RetainUntil a) \<longrightarrow> Artifact_RetainUntil a' = Artifact_RetainUntil a) \<and>
     (Artifact_PurgedAt a \<noteq> None \<longrightarrow>
        Artifact_PurgedAt a' = Artifact_PurgedAt a \<and> Artifact_PurgeApprovalID a' = Artifact_PurgeApprovalID a \<and>
        Artifact_PurgeReason a' = Artifact_PurgeReason a) \<and>
     (Artifact_BlobDeletedAt a \<noteq> None \<longrightarrow> Artifact_BlobDeletedAt a' = Artifact_BlobDeletedAt a)"

definition historyKept :: "Store \<Rightarrow> Store \<Rightarrow> bool" where
  "historyKept s s' \<longleftrightarrow>
     prefix (st_audit s) (st_audit s') \<and> tableKept recordLater (st_records s) (st_records s') \<and>
     tableKept campaignLater (st_campaigns s) (st_campaigns s') \<and>
     tableKept scopeLater (st_scopes s) (st_scopes s') \<and>
     tableKept artifactLater (st_artifacts s) (st_artifacts s')"

lemma recordLater_refl: "recordLater k v v" by (simp add: recordLater_def)
lemma campaignLater_refl: "campaignLater k v v" by (simp add: campaignLater_def)
lemma scopeLater_refl: "scopeLater k v v"
  by (auto simp: scopeLater_def intro!: exI [of _ "Scope_RevokedAt v"])
lemma artifactLater_refl: "artifactLater k v v" by (simp add: artifactLater_def)

lemma recordLater_trans: "recordLater k u v \<Longrightarrow> recordLater k v w \<Longrightarrow> recordLater k u w"
  by (auto simp: recordLater_def)

lemma campaignLater_trans: "campaignLater k u v \<Longrightarrow> campaignLater k v w \<Longrightarrow> campaignLater k u w"
  by (auto simp: campaignLater_def)

lemma scopeLater_trans: "scopeLater k u v \<Longrightarrow> scopeLater k v w \<Longrightarrow> scopeLater k u w"
  unfolding scopeLater_def by (elim exE conjE) (force intro: order_trans)

lemma artifactLater_trans: "artifactLater k u v \<Longrightarrow> artifactLater k v w \<Longrightarrow> artifactLater k u w"
  by (cases u; cases v; cases w) (auto simp: artifactLater_def)

lemmas later_refl = recordLater_refl campaignLater_refl scopeLater_refl artifactLater_refl

interpretation history: store_relation historyKept
proof unfold_locales
  show "historyKept s s" for s
    by (simp add: historyKept_def tableKept_refl later_refl)
  show "historyKept s t \<Longrightarrow> historyKept t u \<Longrightarrow> historyKept s u" for s t u
    unfolding historyKept_def
    by (meson prefix_order.trans recordLater_trans campaignLater_trans scopeLater_trans artifactLater_trans tableKept_trans)
qed

lemma historyKept_records:
  "tableKept recordLater (st_records s) rs \<Longrightarrow> historyKept s (s\<lparr>st_records := rs\<rparr>)"
  by (simp add: historyKept_def tableKept_refl later_refl)

lemma auditInsert_prefix: "prefix rows (snd (auditInsert dg clock e rows))"
  by (rule auditInsert_cases [of dg clock e rows]) simp_all

lemma evolves_direct: "(\<And>s. R s (snd (m s))) \<Longrightarrow> evolves R m"
  by (simp add: evolves_def)

lemma historyKept_draw [simp]: "historyKept s (s\<lparr>st_draws := n\<rparr>)"
  by (simp add: historyKept_def tableKept_refl later_refl)

lemma history_newID [intro!]: "evolves historyKept (newID env pfx)"
  by (rule evolves_direct) (simp add: newID_def)

lemma history_getScope [intro!]: "evolves historyKept (getScope i)"
  unfolding getScope_def by blast

lemma history_getCampaign [intro!]: "evolves historyKept (getCampaign i)"
  unfolding getCampaign_def by blast

lemma history_getRecord [intro!]: "evolves historyKept (getRecord kind as i)"
  unfolding getRecord_def by blast

lemma history_listRecords [intro!]: "evolves historyKept (listRecords kind as c n)"
  unfolding listRecords_def by blast

lemma history_upsertRecord [intro!]:
  assumes "\<not> immutableKind kind"
  shows "evolves historyKept (upsertRecord action kind i campaign created updated v)"
proof (rule evolves_direct)
  fix s
  show "historyKept s (snd (upsertRecord action kind i campaign created updated v s))"
  proof (cases "campaignKnown s campaign")
    case False
    then show ?thesis by (simp add: upsertRecord_def history.rel_refl)
  next
    case True
    with assms show ?thesis
      by (auto simp: upsertRecord_def Let_def recordLater_def split: option.splits
          intro!: historyKept_records tableKept_update)
  qed
qed

lemma history_insertRecord [intro!]:
  "evolves historyKept (insertRecord action kind i campaign created updated v)"
proof (rule evolves_direct)
  fix s
  show "historyKept s (snd (insertRecord action kind i campaign created updated v s))"
    by (rule insertRecord_cases [of action kind i campaign created updated v s])
      (auto simp: history.rel_refl intro!: historyKept_records tableKept_snoc later_refl)
qed

lemma history_putRecord [intro!]:
  "\<not> immutableKind kind \<Longrightarrow> evolves historyKept (putRecord env kind i campaign created updated v)"
  unfolding putRecord_def Let_def by blast

lemma history_putImmutableRecord [intro!]:
  "evolves historyKept (putImmutableRecord env kind i campaign created v)"
  unfolding putImmutableRecord_def Let_def by blast

lemma history_createScope [intro!]: "evolves historyKept (createScope env scope)"
proof -
  have "evolves historyKept (\<lambda>s. if map_of (st_scopes s) (Scope_ID scope) \<noteq> None
     then (Inl (translateConstraint ''create scope'' ''UNIQUE constraint failed: authorization_scopes.id''), s)
     else (Inr (), s\<lparr>st_scopes := st_scopes s @ [(Scope_ID scope, scope)]\<rparr>))"
    by (rule evolves_direct) (auto simp: historyKept_def tableKept_refl later_refl intro!: tableKept_snoc)
  then show ?thesis unfolding createScope_def by blast
qed

lemma revokeAt_later: "scopeLater i sc (revokeAt t sc)"
  by (auto simp: revokeAt_def scopeLater_def timeBefore_def split: option.splits intro: exI [of _ "Scope_RevokedAt sc"])

lemma lookup_gets_cases:
  obtains (missing) e where "act_gets (\<lambda>s. lookup (f s) i) s = (Inl e, s)" "map_of (f s) i = None"
  | (found) v where "act_gets (\<lambda>s. lookup (f s) i) s = (Inr v, s)" "map_of (f s) i = Some v"
  by (cases "map_of (f s) i") (auto simp: act_gets_def lookup_def)

lemma history_storeRevokeScope [intro!]: "evolves historyKept (storeRevokeScope env i t)"
proof (rule evolves_direct)
  fix s
  show "historyKept s (snd (storeRevokeScope env i t s))"
    by (rule lookup_gets_cases [of st_scopes i s])
      (auto simp: storeRevokeScope_def getScope_def act_bind_def historyKept_def tableKept_refl later_refl
        intro!: tableKept_update revokeAt_later)
qed

lemma history_storeCreateCampaign [intro!]: "evolves historyKept (storeCreateCampaign env c)"
  by (rule evolves_direct)
    (auto simp: storeCreateCampaign_def Let_def history.rel_refl historyKept_def tableKept_refl later_refl
      intro!: tableKept_snoc)

lemma stampCampaign_fields [simp]:
  "Campaign_ID (stampCampaign now c) = Campaign_ID c" "Campaign_Version (stampCampaign now c) = Campaign_Version c"
  "Campaign_State (stampCampaign now c) = Campaign_State c" "Campaign_ScopeID (stampCampaign now c) = Campaign_ScopeID c"
  by (simp_all add: stampCampaign_def)

definition updatedRow :: "time \<Rightarrow> Campaign \<Rightarrow> CampaignRow \<Rightarrow> CampaignRow" where
  "updatedRow now c row =
     row\<lparr>CRow_State := Campaign_State c, CRow_Version := Campaign_Version c,
         CRow_UpdatedAt := Campaign_UpdatedAt (stampCampaign now c), CRow_Data := stampCampaign now c\<rparr>"

lemma updateCampaign_cases:
  obtains (refused) e where "updateCampaign env c v s = (Inl e, s)"
  | (written) row where "map_of (st_campaigns s) (Campaign_ID c) = Some row" "CRow_Version row = v"
      "Campaign_Version c = wrap64 (v + 1)" "0 < Campaign_Version c"
      "updateCampaign env c v s =
         (Inr (), s\<lparr>st_campaigns := AList.update (Campaign_ID c) (updatedRow (env_now env) c row) (st_campaigns s)\<rparr>)"
proof (cases "map_of (st_campaigns s) (Campaign_ID c)")
  case None
  then have "\<exists>e. updateCampaign env c v s = (Inl e, s)" by (simp add: updateCampaign_def Let_def)
  then show ?thesis using refused by blast
next
  case (Some row)
  show ?thesis
  proof (cases "Campaign_Version c = wrap64 (v + 1) \<and> CRow_Version row = v \<and> 0 < Campaign_Version c")
    case True
    with Some have "updateCampaign env c v s =
        (Inr (), s\<lparr>st_campaigns := AList.update (Campaign_ID c) (updatedRow (env_now env) c row) (st_campaigns s)\<rparr>)"
      by (simp add: updateCampaign_def updatedRow_def Let_def)
    with Some True show ?thesis using written by blast
  next
    case False
    with Some have "\<exists>e. updateCampaign env c v s = (Inl e, s)" by (auto simp: updateCampaign_def Let_def)
    then show ?thesis using refused by blast
  qed
qed

lemma wrap64_grows: "is_int64 v \<Longrightarrow> 0 < wrap64 (v + 1) \<Longrightarrow> wrap64 (v + 1) = v + 1"
proof (cases "v = 2 ^ 63 - 1")
  case True
  assume "0 < wrap64 (v + 1)"
  with True show ?thesis by (simp add: wrap64_def)
next
  case False
  assume "is_int64 v"
  with False show ?thesis by (simp add: is_int64_def)
qed

lemma history_updateCampaign [intro!]: "evolves historyKept (updateCampaign env c v)"
proof (rule evolves_direct)
  fix s
  show "historyKept s (snd (updateCampaign env c v s))"
  proof (cases rule: updateCampaign_cases [of env c v s])
    case (refused e)
    then show ?thesis by (simp add: history.rel_refl)
  next
    case (written row)
    have "campaignLater i row (updatedRow (env_now env) c row)" for i
      using written(2-4) wrap64_grows [of v] by (auto simp: campaignLater_def updatedRow_def wrap64_range)
    with written show ?thesis
      by (auto simp: historyKept_def tableKept_refl later_refl intro!: tableKept_update)
  qed
qed

lemma history_appendAudit [intro!]: "evolves historyKept (appendAudit env e)"
proof -
  have "historyKept s (s\<lparr>st_audit := snd (auditInsert dg now e' (st_audit s))\<rparr>)" for s dg now e'
    by (simp add: historyKept_def tableKept_refl later_refl auditInsert_prefix)
  then have "evolves historyKept (\<lambda>s. case auditInsert (env_digest env) (env_now env) (e\<lparr>Audit_ID := i\<rparr>) (st_audit s) of
      (r, rows) \<Rightarrow> (r, s\<lparr>st_audit := rows\<rparr>))" for i
    by (intro evolves_direct) (simp add: case_prod_beta)
  then show ?thesis unfolding appendAudit_def by blast
qed

section \<open>The invariant of the tables\<close>

definition tableOK :: "('k \<Rightarrow> 'v \<Rightarrow> bool) \<Rightarrow> ('k \<times> 'v) list \<Rightarrow> bool" where
  "tableOK P t \<longleftrightarrow> distinct (map fst t) \<and> (\<forall>k v. map_of t k = Some v \<longrightarrow> P k v)"

lemma tableOK_Nil [simp]: "tableOK P []"
  by (simp add: tableOK_def)

lemma tableOK_snoc: "tableOK P t \<Longrightarrow> map_of t k = None \<Longrightarrow> P k v \<Longrightarrow> tableOK P (t @ [(k, v)])"
  by (auto simp: tableOK_def map_of_eq_None_iff map_add_def split: option.splits if_splits)

lemma tableOK_update: "tableOK P t \<Longrightarrow> P k v \<Longrightarrow> tableOK P (AList.update k v t)"
  unfolding tableOK_def by (metis distinct_update map_of_update_other map_of_update_same option.inject)

lemma tableOK_mono: "tableOK P t \<Longrightarrow> (\<And>k v. P k v \<Longrightarrow> Q k v) \<Longrightarrow> tableOK Q t"
  by (simp add: tableOK_def)

fun dataID :: "recordData \<Rightarrow> string" where
  "dataID (DataTarget v) = Target_ID v"
| "dataID (DataApparatus v) = Manifest_ID v"
| "dataID (DataBuild v) = Build_ID v"
| "dataID (DataRun v) = Run_ID v"
| "dataID (DataCrash v) = Crash_ID v"
| "dataID (DataCrashGroup v) = Group_ID v"
| "dataID (DataPrimitive v) = Prim_ID v"
| "dataID (DataFinding v) = Finding_ID v"
| "dataID (DataApproval v) = Approval_ID v"
| "dataID (DataWorkerJob v) = Job_ID v"
| "dataID (DataSourceEvidence v) = SourceEv_ID v"
| "dataID (DataSourceReview v) = Review_ID v"
| "dataID (DataRevisionCheck v) = RevCheck_ID v"
| "dataID (DataRemediation v) = Remed_ID v"

definition campaignRowOK :: "(string \<times> AuthorizationScope) list \<Rightarrow> string \<Rightarrow> CampaignRow \<Rightarrow> bool" where
  "campaignRowOK scopes i row \<longleftrightarrow>
     Campaign_ID (CRow_Data row) = i \<and> CRow_Version row = Campaign_Version (CRow_Data row) \<and>
     CRow_State row = Campaign_State (CRow_Data row) \<and> 0 < CRow_Version row \<and> is_int64 (CRow_Version row) \<and>
     map_of scopes (CRow_ScopeID row) \<noteq> None"

definition recordRowOK :: "(string \<times> CampaignRow) list \<Rightarrow> recordKind \<times> string \<Rightarrow> RecordRow \<Rightarrow> bool" where
  "recordRowOK campaigns k row \<longleftrightarrow>
     dataKind (Row_Data row) = fst k \<and> dataID (Row_Data row) = snd k \<and>
     (\<forall>c. Row_CampaignID row = Some c \<longrightarrow> c \<noteq> [] \<and> map_of campaigns c \<noteq> None)"

definition artifactOK :: "(string \<times> CampaignRow) list \<Rightarrow> string \<Rightarrow> Artifact \<Rightarrow> bool" where
  "artifactOK campaigns i a \<longleftrightarrow>
     Artifact_ID a = i \<and> 0 \<le> Artifact_Size a \<and> map_of campaigns (Artifact_CampaignID a) \<noteq> None \<and>
     (Artifact_BlobDeletedAt a \<noteq> None \<longrightarrow> Artifact_PurgedAt a \<noteq> None)"

text \<open>
  Keys are unique and agree with the data, foreign keys point to rows, every row decodes as its
  kind, campaign versions are positive 64-bit numbers and the audit log was only appended to.
\<close>

definition storeOK :: "Env \<Rightarrow> Store \<Rightarrow> bool" where
  "storeOK env s \<longleftrightarrow>
     tableOK (\<lambda>i sc. Scope_ID sc = i) (st_scopes s) \<and>
     tableOK (campaignRowOK (st_scopes s)) (st_campaigns s) \<and>
     tableOK (recordRowOK (st_campaigns s)) (st_records s) \<and>
     tableOK (artifactOK (st_campaigns s)) (st_artifacts s) \<and>
     (int (length (st_audit s)) \<le> 2 ^ 63 - 1 \<longrightarrow> auditTrail (env_digest env) (st_audit s))"

definition keepsOK :: "Env \<Rightarrow> Store \<Rightarrow> Store \<Rightarrow> bool" where
  "keepsOK env s s' \<longleftrightarrow> (storeOK env s \<longrightarrow> storeOK env s')"

interpretation invariant: store_relation "keepsOK env" for env
  by unfold_locales (auto simp: keepsOK_def)

lemma storeOK_empty: "storeOK env emptyStore"
  by (simp add: storeOK_def emptyStore_def auditTrail.empty)

lemma storeOK_records:
  "storeOK env s \<Longrightarrow> tableOK (recordRowOK (st_campaigns s)) rs \<Longrightarrow> storeOK env (s\<lparr>st_records := rs\<rparr>)"
  by (simp add: storeOK_def)

lemma storeOK_draw [simp]: "storeOK env (s\<lparr>st_draws := n\<rparr>) = storeOK env s"
  by (simp add: storeOK_def)

lemma invariant_newID [intro!]: "evolves (keepsOK env) (newID env' pfx)"
  by (rule evolves_direct) (simp add: newID_def keepsOK_def)

lemma invariant_getScope [intro!]: "evolves (keepsOK env) (getScope i)"
  unfolding getScope_def by blast

lemma invariant_getCampaign [intro!]: "evolves (keepsOK env) (getCampaign i)"
  unfolding getCampaign_def by blast

lemma invariant_getRecord [intro!]: "evolves (keepsOK env) (getRecord kind as i)"
  unfolding getRecord_def by blast

lemma invariant_listRecords [intro!]: "evolves (keepsOK env) (listRecords kind as c n)"
  unfolding listRecords_def by blast

lemma recordRowOK_new:
  "dataKind v = kind \<Longrightarrow> dataID v = i \<Longrightarrow> campaignKnown s campaign \<Longrightarrow> Row_Data row = v \<Longrightarrow>
    Row_CampaignID row = nullIfEmpty campaign \<Longrightarrow> recordRowOK (st_campaigns s) (kind, i) row"
  by (auto simp: recordRowOK_def campaignKnown_def nullIfEmpty_def split: if_splits)

lemma invariant_upsertRecord [intro!]:
  assumes "dataKind v = kind" "dataID v = i"
  shows "evolves (keepsOK env) (upsertRecord action kind i campaign created updated v)"
proof (rule evolves_direct)
  fix s
  show "keepsOK env s (snd (upsertRecord action kind i campaign created updated v s))"
    by (rule upsertRecord_cases [of action kind i campaign created updated v s])
      (use assms in \<open>auto simp: keepsOK_def storeOK_def intro!: tableOK_update recordRowOK_new\<close>)
qed

lemma invariant_insertRecord [intro!]:
  assumes "dataKind v = kind" "dataID v = i"
  shows "evolves (keepsOK env) (insertRecord action kind i campaign created updated v)"
proof (rule evolves_direct)
  fix s
  show "keepsOK env s (snd (insertRecord action kind i campaign created updated v s))"
    by (rule insertRecord_cases [of action kind i campaign created updated v s])
      (use assms in \<open>auto simp: keepsOK_def storeOK_def recordRow_def intro!: tableOK_snoc recordRowOK_new\<close>)
qed

lemma invariant_putRecord [intro!]:
  "dataKind v = kind \<Longrightarrow> dataID v = i \<Longrightarrow> evolves (keepsOK env) (putRecord env' kind i campaign created updated v)"
  unfolding putRecord_def Let_def by blast

lemma invariant_putImmutableRecord [intro!]:
  "dataKind v = kind \<Longrightarrow> dataID v = i \<Longrightarrow> evolves (keepsOK env) (putImmutableRecord env' kind i campaign created v)"
  unfolding putImmutableRecord_def Let_def by blast

lemma campaignRowOK_scopes:
  "campaignRowOK scopes i row \<Longrightarrow> (\<And>k. map_of scopes k \<noteq> None \<Longrightarrow> map_of scopes' k \<noteq> None) \<Longrightarrow> campaignRowOK scopes' i row"
  by (auto simp: campaignRowOK_def)

lemma map_of_snoc_known: "map_of t k \<noteq> None \<Longrightarrow> map_of (t @ [kv]) k \<noteq> None"
  by (auto simp: map_add_def)

lemma map_of_update_known: "map_of t k \<noteq> None \<Longrightarrow> map_of (AList.update k' v t) k \<noteq> None"
  by (cases "k = k'") auto

lemma storeOK_add_scope:
  assumes "storeOK env s" "map_of (st_scopes s) (Scope_ID scope) = None"
  shows "storeOK env (s\<lparr>st_scopes := st_scopes s @ [(Scope_ID scope, scope)]\<rparr>)"
proof -
  have "tableOK (campaignRowOK (st_scopes s @ [(Scope_ID scope, scope)])) (st_campaigns s)"
    using assms(1) unfolding storeOK_def
    by (elim conjE tableOK_mono campaignRowOK_scopes) (rule map_of_snoc_known)
  with assms show ?thesis by (simp add: storeOK_def tableOK_snoc)
qed

lemma storeOK_set_scope:
  assumes "storeOK env s" "Scope_ID scope = i"
  shows "storeOK env (s\<lparr>st_scopes := AList.update i scope (st_scopes s)\<rparr>)"
proof -
  have "tableOK (campaignRowOK (AList.update i scope (st_scopes s))) (st_campaigns s)"
    using assms(1) unfolding storeOK_def
    by (elim conjE tableOK_mono campaignRowOK_scopes) (rule map_of_update_known)
  with assms show ?thesis by (simp add: storeOK_def tableOK_update)
qed

lemma storeOK_campaign_refs:
  assumes "storeOK env s" "tableOK (campaignRowOK (st_scopes s)) cs"
    and "\<And>k. map_of (st_campaigns s) k \<noteq> None \<Longrightarrow> map_of cs k \<noteq> None"
  shows "storeOK env (s\<lparr>st_campaigns := cs\<rparr>)"
proof -
  have "tableOK (recordRowOK cs) (st_records s)"
    using assms unfolding storeOK_def by (elim conjE tableOK_mono) (auto simp: recordRowOK_def)
  moreover have "tableOK (artifactOK cs) (st_artifacts s)"
    using assms unfolding storeOK_def by (elim conjE tableOK_mono [of "artifactOK _"]) (auto simp: artifactOK_def)
  ultimately show ?thesis using assms by (simp add: storeOK_def)
qed

lemma invariant_createScope [intro!]: "evolves (keepsOK env) (createScope env' scope)"
proof -
  have "evolves (keepsOK env) (\<lambda>s. if map_of (st_scopes s) (Scope_ID scope) \<noteq> None
     then (Inl (translateConstraint ''create scope'' ''UNIQUE constraint failed: authorization_scopes.id''), s)
     else (Inr (), s\<lparr>st_scopes := st_scopes s @ [(Scope_ID scope, scope)]\<rparr>))"
    by (rule evolves_direct) (auto simp: keepsOK_def storeOK_add_scope)
  then show ?thesis unfolding createScope_def by blast
qed

lemma revokeAt_id [simp]: "Scope_ID (revokeAt t sc) = Scope_ID sc"
  by (simp add: revokeAt_def split: option.splits)

lemma storeOK_scope_id: "storeOK env s \<Longrightarrow> map_of (st_scopes s) i = Some sc \<Longrightarrow> Scope_ID sc = i"
  by (simp add: storeOK_def tableOK_def)

lemma invariant_storeRevokeScope [intro!]: "evolves (keepsOK env) (storeRevokeScope env' i t)"
proof (rule evolves_direct)
  fix s
  show "keepsOK env s (snd (storeRevokeScope env' i t s))"
    by (rule lookup_gets_cases [of st_scopes i s])
      (auto simp: storeRevokeScope_def getScope_def act_bind_def keepsOK_def storeOK_scope_id
        intro!: storeOK_set_scope)
qed

lemma fillCampaign_fields [simp]:
  "Campaign_ID (fillCampaign now c) = Campaign_ID c" "Campaign_ScopeID (fillCampaign now c) = Campaign_ScopeID c"
  by (simp_all add: fillCampaign_def Let_def)

lemma storeCreateCampaign_cases:
  obtains (refused) e where "storeCreateCampaign env c s = (Inl e, s)"
  | (written) c' where "c' = fillCampaign (env_now env) c" "Campaign_Version c' = 1" "Campaign_ID c \<noteq> []"
      "map_of (st_campaigns s) (Campaign_ID c) = None" "map_of (st_scopes s) (Campaign_ScopeID c) \<noteq> None"
      "storeCreateCampaign env c s =
         (Inr c', s\<lparr>st_campaigns := st_campaigns s @ [(Campaign_ID c', campaignRow c')]\<rparr>)"
proof (cases "Campaign_ID c = [] \<or> Campaign_ScopeID c = [] \<or> Campaign_Name c = [] \<or>
    Campaign_Version (fillCampaign (env_now env) c) \<noteq> 1 \<or> map_of (st_campaigns s) (Campaign_ID c) \<noteq> None \<or>
    map_of (st_scopes s) (Campaign_ScopeID c) = None")
  case True
  then have "\<exists>e. storeCreateCampaign env c s = (Inl e, s)" by (auto simp: storeCreateCampaign_def Let_def)
  then show ?thesis using refused by blast
next
  case False
  then show ?thesis using written [OF refl] by (simp add: storeCreateCampaign_def Let_def)
qed

lemma invariant_storeCreateCampaign [intro!]: "evolves (keepsOK env) (storeCreateCampaign env' c)"
proof (rule evolves_direct)
  fix s
  show "keepsOK env s (snd (storeCreateCampaign env' c s))"
  proof (cases rule: storeCreateCampaign_cases [of env' c s])
    case (refused e)
    then show ?thesis by (simp add: invariant.rel_refl)
  next
    case (written c')
    have "tableOK (campaignRowOK (st_scopes s)) (st_campaigns s) \<Longrightarrow>
        tableOK (campaignRowOK (st_scopes s)) (st_campaigns s @ [(Campaign_ID c', campaignRow c')])"
      using written by (intro tableOK_snoc) (auto simp: campaignRowOK_def campaignRow_def is_int64_def)
    then show ?thesis
      using written by (auto simp: keepsOK_def storeOK_def [of _ s] intro!: storeOK_campaign_refs map_of_snoc_known
          simp del: map_of_append)
  qed
qed

lemma invariant_updateCampaign [intro!]: "evolves (keepsOK env) (updateCampaign env' c v)"
proof (rule evolves_direct)
  fix s
  show "keepsOK env s (snd (updateCampaign env' c v s))"
  proof (cases rule: updateCampaign_cases [of env' c v s])
    case (refused e)
    then show ?thesis by (simp add: invariant.rel_refl)
  next
    case (written row)
    have "storeOK env (s\<lparr>st_campaigns := AList.update (Campaign_ID c) (updatedRow (env_now env') c row) (st_campaigns s)\<rparr>)"
      if ok: "storeOK env s"
    proof (rule storeOK_campaign_refs [OF ok])
      from ok written(1) have "campaignRowOK (st_scopes s) (Campaign_ID c) row"
        by (simp add: storeOK_def tableOK_def)
      with written have "campaignRowOK (st_scopes s) (Campaign_ID c) (updatedRow (env_now env') c row)"
        by (auto simp: campaignRowOK_def updatedRow_def wrap64_range)
      with ok show "tableOK (campaignRowOK (st_scopes s)) (AList.update (Campaign_ID c) (updatedRow (env_now env') c row) (st_campaigns s))"
        by (simp add: storeOK_def tableOK_update)
    qed (rule map_of_update_known)
    with written(5) show ?thesis by (simp add: keepsOK_def)
  qed
qed

lemma auditInsert_grows:
  "length rows \<le> length (snd (auditInsert dg clock e rows))"
  "snd (auditInsert dg clock e rows) = rows \<or> length (snd (auditInsert dg clock e rows)) = Suc (length rows)"
  by (rule auditInsert_cases [of dg clock e rows]; simp)+

lemma storeOK_audit:
  assumes "storeOK env s" "Audit_SchemaVersion e \<in> {0, 1}"
  shows "storeOK env (s\<lparr>st_audit := snd (auditInsert (env_digest env) clock e (st_audit s))\<rparr>)"
proof -
  let ?rows = "snd (auditInsert (env_digest env) clock e (st_audit s))"
  have "auditTrail (env_digest env) ?rows" if "int (length ?rows) \<le> 2 ^ 63 - 1"
  proof (cases "?rows = st_audit s")
    case True
    with assms(1) that show ?thesis by (simp add: storeOK_def)
  next
    case False
    then have "length ?rows = Suc (length (st_audit s))" using auditInsert_grows(2) by blast
    with that have "int (length (st_audit s)) < 2 ^ 63 - 1" by simp
    with assms show ?thesis by (intro auditTrail.append) (simp_all add: storeOK_def)
  qed
  with assms(1) show ?thesis by (simp add: storeOK_def)
qed

lemma invariant_appendAudit [intro!]:
  assumes "Audit_SchemaVersion e \<in> {0, 1}"
  shows "evolves (keepsOK env) (appendAudit env e)"
proof -
  have "evolves (keepsOK env) (\<lambda>s. case auditInsert (env_digest env) (env_now env) (e\<lparr>Audit_ID := i\<rparr>) (st_audit s) of
      (r, rows) \<Rightarrow> (r, s\<lparr>st_audit := rows\<rparr>))" for i
    using assms by (intro evolves_direct) (auto simp: case_prod_beta keepsOK_def storeOK_audit)
  then show ?thesis unfolding appendAudit_def by blast
qed

section \<open>Properties\<close>

definition sampleEnv :: Env where
  "sampleEnv = \<lparr>env_host = sampleHost, env_digest = sampleDigest, env_sha = sampleSha, env_aead = sampleAead,
     env_random = (\<lambda>n. showInt (int n)), env_nonce = (\<lambda>n. replicate 12 (CHR 0x07)), env_isDir = (\<lambda>p. True)\<rparr>"

definition sampleStore :: Store where
  "sampleStore = snd (storeCreateCampaign sampleEnv sampleCampaign (snd (createScope sampleEnv sampleScope emptyStore)))"

lemma sampleStore_OK: "storeOK sampleEnv sampleStore"
proof -
  have "storeOK sampleEnv (snd (createScope sampleEnv sampleScope emptyStore))"
    using invariant_createScope storeOK_empty unfolding evolves_def keepsOK_def by blast
  then show ?thesis
    using invariant_storeCreateCampaign unfolding sampleStore_def evolves_def keepsOK_def by blast
qed

lemma sampleStore_campaign: "getCampaign ''c1'' sampleStore = (Inr sampleCampaign, sampleStore)"
proof -
  have "getCampaign ''c1'' sampleStore = (fst (getCampaign ''c1'' sampleStore), sampleStore)"
    by (simp add: getCampaign_def act_gets_def)
  moreover have "fst (getCampaign ''c1'' sampleStore) = Inr sampleCampaign" by code_simp
  ultimately show ?thesis by simp
qed

lemma getCampaign_iff:
  "getCampaign i s = (Inr c, s') \<longleftrightarrow> s' = s \<and> (\<exists>row. map_of (st_campaigns s) i = Some row \<and> CRow_Data row = c)"
  by (auto simp: getCampaign_def act_gets_def)

text \<open>
  C11. Optimistic concurrency: of two writers that read the same version of a campaign and each
  write the next one, the first is stored and the second gets a version conflict and changes
  nothing, whatever either of them wanted to write.
\<close>

theorem stale_writer_loses:
  assumes "storeOK env s" "getCampaign i s = (Inr c, s)" "Campaign_Version c < 2 ^ 63 - 1"
    and "Campaign_ID w = i" "Campaign_Version w = Campaign_Version c + 1"
    and "Campaign_ID w' = i" "Campaign_Version w' = Campaign_Version c + 1"
  shows "\<exists>s1. updateCampaign env w (Campaign_Version c) s = (Inr (), s1) \<and>
    updateCampaign env w' (Campaign_Version c) s1 = (Inl (ErrVersionConflict []), s1) \<and>
    getCampaign i s1 = (Inr (stampCampaign (env_now env) w), s1)"
proof -
  from assms(2) obtain row where row: "map_of (st_campaigns s) i = Some row" "CRow_Data row = c"
    by (auto simp: getCampaign_iff)
  with assms(1) have "campaignRowOK (st_scopes s) i row" by (simp add: storeOK_def tableOK_def)
  with row have v: "CRow_Version row = Campaign_Version c" "0 < Campaign_Version c" "is_int64 (Campaign_Version c)"
    by (auto simp: campaignRowOK_def)
  then have w: "wrap64 (Campaign_Version c + 1) = Campaign_Version c + 1"
    using assms(3) by (simp add: is_int64_def)
  let ?s = "s\<lparr>st_campaigns := AList.update i (updatedRow (env_now env) w row) (st_campaigns s)\<rparr>"
  have "updateCampaign env w (Campaign_Version c) s = (Inr (), ?s)"
    using assms row v w by (simp add: updateCampaign_def updatedRow_def Let_def)
  moreover have "updateCampaign env w' (Campaign_Version c) ?s = (Inl (ErrVersionConflict []), ?s)"
    using assms w by (simp add: updateCampaign_def updatedRow_def Let_def)
  moreover have "getCampaign i ?s = (Inr (stampCampaign (env_now env) w), ?s)"
    by (simp add: getCampaign_iff updatedRow_def)
  ultimately show ?thesis by blast
qed

theorem stale_writer_loses_witness:
  "\<exists>s1. updateCampaign sampleEnv (sampleCampaign\<lparr>Campaign_Version := 2\<rparr>) 1 sampleStore = (Inr (), s1) \<and>
    updateCampaign sampleEnv (sampleCampaign\<lparr>Campaign_Version := 2, Campaign_Name := ''other''\<rparr>) 1 s1 =
      (Inl (ErrVersionConflict []), s1)"
proof -
  have "Campaign_Version sampleCampaign = 1" "Campaign_ID sampleCampaign = ''c1''"
    by (simp_all add: sampleCampaign_def)
  with stale_writer_loses [OF sampleStore_OK sampleStore_campaign,
      of "sampleCampaign\<lparr>Campaign_Version := 2\<rparr>" "sampleCampaign\<lparr>Campaign_Version := 2, Campaign_Name := ''other''\<rparr>"]
  show ?thesis by auto
qed

lemma orPositive_pos: "0 < preset \<Longrightarrow> 0 < orPositive v fallback preset"
  by (simp add: orPositive_def)

lemma fillFiniteBudget_valid: "budgetValidate (fillFiniteBudget b fb) = Inr ()"
  by (simp add: budgetValidate_Inr_iff fillFiniteBudget_def Let_def orPositive_def)

lemma fillFiniteBudget_id: "budgetValidate b = Inr u \<Longrightarrow> fillFiniteBudget b fb = b"
  by (simp add: budgetValidate_Inr_iff fillFiniteBudget_def Let_def orPositive_def)

definition rowBudget :: "recordData \<Rightarrow> ResourceBudget option" where
  "rowBudget d = (case d of DataApparatus m \<Rightarrow> Some (Manifest_Limits m) | DataWorkerJob j \<Rightarrow> Some (Job_Budget j) | _ \<Rightarrow> None)"

definition budgetsValid :: "Store \<Rightarrow> bool" where
  "budgetsValid s \<longleftrightarrow>
     list_all (\<lambda>(i, sc). ok (budgetValidate (Scope_Budget sc))) (st_scopes s) \<and>
     list_all (\<lambda>(i, row). ok (budgetValidate (Campaign_Budget (CRow_Data row)))) (st_campaigns s) \<and>
     list_all (\<lambda>(k, row). case rowBudget (Row_Data row) of None \<Rightarrow> True | Some b \<Rightarrow> ok (budgetValidate b)) (st_records s)"

lemma fillScope_id: "ok (budgetValidate (Scope_Budget sc)) \<Longrightarrow> fillScope sc = sc"
  by (auto simp: fillScope_def ok_iff fillFiniteBudget_id)

lemma fillRecordData_id:
  "(case rowBudget d of None \<Rightarrow> True | Some b \<Rightarrow> ok (budgetValidate b)) \<Longrightarrow> fillRecordData d = d"
  by (cases d) (auto simp: fillRecordData_def rowBudget_def ok_iff fillFiniteBudget_id)

lemma migrate_valid_id: "budgetsValid s \<Longrightarrow> migrateFiniteResourceBudgets s = (Inr (), s)"
proof -
  assume v: "budgetsValid s"
  have "map (\<lambda>(i, scope). (i, fillScope scope)) (st_scopes s) = st_scopes s"
    using v by (intro map_idI) (auto simp: budgetsValid_def list_all_iff fillScope_id)
  moreover have "map (\<lambda>(i, row). (i, row\<lparr>CRow_Data := (CRow_Data row)\<lparr>Campaign_Budget :=
      fillFiniteBudget (Campaign_Budget (CRow_Data row)) (f row)\<rparr>\<rparr>)) (st_campaigns s) = st_campaigns s" for f
    using v by (intro map_idI) (auto simp: budgetsValid_def list_all_iff ok_iff fillFiniteBudget_id)
  moreover have "map (\<lambda>(k, row). (k, row\<lparr>Row_Data := fillRecordData (Row_Data row)\<rparr>)) (st_records s) = st_records s"
    using v by (intro map_idI) (auto simp: budgetsValid_def list_all_iff fillRecordData_id)
  ultimately show ?thesis by (simp add: migrateFiniteResourceBudgets_def Let_def)
qed

text \<open>
  The budget migration leaves no unbounded envelope: after it every scope, campaign, apparatus
  and queued job has seven positive limits, budgets that were already complete are unchanged, and
  running it again changes nothing.
\<close>

theorem migration_makes_budgets_finite:
  "budgetsValid (snd (migrateFiniteResourceBudgets s)) \<and>
   migrateFiniteResourceBudgets (snd (migrateFiniteResourceBudgets s)) =
     (Inr (), snd (migrateFiniteResourceBudgets s)) \<and>
   (budgetsValid s \<longrightarrow> snd (migrateFiniteResourceBudgets s) = s)"
proof -
  have "rowBudget (fillRecordData d) = map_option (\<lambda>b. fillFiniteBudget b zeroBudget) (rowBudget d)" for d
    by (cases d) (simp_all add: fillRecordData_def rowBudget_def)
  then have "budgetsValid (snd (migrateFiniteResourceBudgets s))"
    by (auto simp: budgetsValid_def migrateFiniteResourceBudgets_def Let_def list_all_iff fillScope_def
        fillFiniteBudget_valid split: option.splits)
  then show ?thesis using migrate_valid_id by auto
qed

lemma newestFirst_mset: "mset (newestFirst f g rows) = mset rows"
  by (simp add: newestFirst_def)

lemma newestFirst_sorted: "sorted (rev (map (\<lambda>r. timestamp (f r)) (newestFirst f g rows)))"
proof -
  have "(\<lambda>r. timestamp (f r)) = createdText f" by (simp add: createdText_def fun_eq_iff)
  then show ?thesis by (simp add: newestFirst_def rev_map)
qed

definition halfSecond :: Campaign where
  "halfSecond = sampleCampaign\<lparr>Campaign_ID := ''newer'', Campaign_CreatedAt := unixEpoch + 500000000\<rparr>"

definition wholeSecond :: Campaign where
  "wholeSecond = sampleCampaign\<lparr>Campaign_ID := ''older'', Campaign_CreatedAt := unixEpoch\<rparr>"

definition twoCampaigns :: Store where
  "twoCampaigns =
     snd (storeCreateCampaign sampleEnv halfSecond (snd (storeCreateCampaign sampleEnv wholeSecond
       (snd (createScope sampleEnv sampleScope emptyStore)))))"

text \<open>
  Newest first is by text, not by time: a listing holds the stored rows ordered by the text of
  their creation times, and since that text drops trailing zeros of the fraction, a campaign
  created half a second after another one is listed behind it.
\<close>

theorem newest_first_is_by_text:
  "mset (newestFirst created ident rows) = mset rows \<and>
   sorted (rev (map (\<lambda>r. timestamp (created r)) (newestFirst created ident rows))) \<and>
   Campaign_CreatedAt wholeSecond < Campaign_CreatedAt halfSecond \<and>
   fst (listCampaigns 10 twoCampaigns) = Inr [wholeSecond, halfSecond]"
proof (intro conjI newestFirst_mset newestFirst_sorted)
  show "Campaign_CreatedAt wholeSecond < Campaign_CreatedAt halfSecond"
    by (simp add: wholeSecond_def halfSecond_def)
  show "fst (listCampaigns 10 twoCampaigns) = Inr [wholeSecond, halfSecond]" by code_simp
qed

end
