(* ===== verification/Custody.thy ===== *)
theory Custody
  imports Store_Laws
begin

text \<open>
  Evidence custody: \<^verbatim>\<open>PutArtifact\<close>, \<^verbatim>\<open>GetArtifact\<close>, \<^verbatim>\<open>OpenArtifact\<close> and \<^verbatim>\<open>ListArtifacts\<close> of
  \<^verbatim>\<open>store/sqlite.go\<close> and the retention and purge operations of \<^verbatim>\<open>store/artifact_lifecycle.go\<close>.
  The blob directory is a table from relative paths to file contents; it holds regular files
  only, which the private directories and the custody lock of the store are there to ensure, and
  its read and write errors are not modelled. Every operation runs under the store's mutex, so it
  is one step.
\<close>

record StoreConfig =
  cfg_maxArtifactBytes :: int
  cfg_keys :: "(string \<times> string) list"
  cfg_activeKeyID :: string
  cfg_retention :: duration

definition DefaultArtifactRetention :: duration where
  "DefaultArtifactRetention = 90 * 24 * nhour"
definition MinimumArtifactRetention :: duration where
  "MinimumArtifactRetention = 24 * nhour"
definition MaximumArtifactRetention :: duration where
  "MaximumArtifactRetention = 10 * 365 * 24 * nhour"
definition defaultArtifactLimit :: int where
  "defaultArtifactLimit = 256 * 2 ^ 20"

text \<open>The part of \<^verbatim>\<open>openStore\<close> that turns the operator's configuration into the store's limits.\<close>

definition openConfig :: "(string \<Rightarrow> string) \<Rightarrow> int \<Rightarrow> string list \<Rightarrow> duration \<Rightarrow> StoreConfig result" where
  "openConfig sha maxBytes keys retention =
     rbind (prepareArtifactKeys sha keys) (\<lambda>r.
       if retention < 0 then Inl (Err ''research store: artifact retention cannot be negative'')
       else
         (let ret = (if retention = 0 then DefaultArtifactRetention else retention) in
          if ret < MinimumArtifactRetention \<or> ret > MaximumArtifactRetention
          then Inl (Err ''research store: artifact retention must be between 24 hours and 10 years'')
          else Inr \<lparr>cfg_maxArtifactBytes = (if maxBytes \<le> 0 then defaultArtifactLimit else maxBytes),
                    cfg_keys = fst r, cfg_activeKeyID = snd r, cfg_retention = ret\<rparr>))"

abbreviation verifyBlob :: "Env \<Rightarrow> StoreConfig \<Rightarrow> string \<Rightarrow> int \<Rightarrow> string \<Rightarrow> (string \<times> string) result" where
  "verifyBlob env cfg \<equiv> verifyArtifactFile (env_aead env) (env_sha env) (cfg_keys cfg)"

definition blobRelative :: "string \<Rightarrow> string" where
  "blobRelative hexDigest = pathJoin [''blobs'', take 2 hexDigest, hexDigest]"

section \<open>Ingestion\<close>

definition copyBounded :: "Env \<Rightarrow> string \<Rightarrow> int \<Rightarrow> (string \<times> int \<times> string) result" where
  "copyBounded env source limit =
     (let copied = takeI (wrap64 (limit + 1)) source; written = int (length copied) in
      if written > limit then Inl ErrArtifactTooLarge
      else Inr (copied, written, contentID (env_sha env) copied))"

text \<open>The file content, size and content id that ingestion produces.\<close>

definition ingest :: "Env \<Rightarrow> StoreConfig \<Rightarrow> string \<Rightarrow> (Store, string \<times> int \<times> string) act" where
  "ingest env cfg source s =
     (if cfg_activeKeyID cfg \<noteq> []
      then (encryptArtifact (env_aead env) (env_sha env) (env_nonce env (st_draws s)) source (cfg_maxArtifactBytes cfg)
              (case map_of (cfg_keys cfg) (cfg_activeKeyID cfg) of None \<Rightarrow> [] | Some k \<Rightarrow> k) (cfg_activeKeyID cfg),
            s\<lparr>st_draws := st_draws s + 1\<rparr>)
      else (copyBounded env source (cfg_maxArtifactBytes cfg), s))"

definition freshMetadata :: "Env \<Rightarrow> StoreConfig \<Rightarrow> string \<Rightarrow> Artifact \<Rightarrow> Artifact" where
  "freshMetadata env cfg i m =
     m\<lparr>Artifact_ID := i,
       Artifact_CreatedAt := (if isZero (Artifact_CreatedAt m) then env_now env else Artifact_CreatedAt m),
       Artifact_RetainUntil := env_now env + cfg_retention cfg, Artifact_PurgedAt := None,
       Artifact_PurgeApprovalID := [], Artifact_PurgeReason := [], Artifact_BlobDeletedAt := None\<rparr>"

text \<open>
  Installing the blob: a new file is renamed into place, an existing one is verified and kept. The
  result is the metadata with the scheme and key of the file that is in place.
\<close>

definition placeBlob :: "Env \<Rightarrow> StoreConfig \<Rightarrow> string \<Rightarrow> string \<Rightarrow> Artifact \<Rightarrow> (Store, Artifact) act" where
  "placeBlob env cfg path content m s =
     (case map_of (st_blobs s) path of
        None \<Rightarrow> (Inr m, s\<lparr>st_blobs := st_blobs s @ [(path, content)]\<rparr>)
      | Some existing \<Rightarrow>
          (case verifyBlob env cfg existing (Artifact_Size m) (Artifact_ContentID m) of
             Inl e \<Rightarrow> (Inl e, s)
           | Inr (scheme, keyID) \<Rightarrow>
               if cfg_activeKeyID cfg \<noteq> [] \<and> scheme = []
               then (Inl (Err ''research store: existing artifact is not encrypted''), s)
               else (Inr (m\<lparr>Artifact_Encryption := scheme, Artifact_EncryptionKeyID := keyID\<rparr>), s)))"

definition insertArtifact :: "Artifact \<Rightarrow> (Store, unit) act" where
  "insertArtifact m s =
     (if map_of (st_artifacts s) (Artifact_ID m) \<noteq> None
      then (Inl (translateConstraint ''save artifact'' ''UNIQUE constraint failed: artifacts.id''), s)
      else if Artifact_Size m < 0
      then (Inl (translateConstraint ''save artifact'' ''CHECK constraint failed: size >= 0''), s)
      else if map_of (st_campaigns s) (Artifact_CampaignID m) = None
      then (Inl (translateConstraint ''save artifact'' ''FOREIGN KEY constraint failed''), s)
      else (Inr (), s\<lparr>st_artifacts := st_artifacts s @ [(Artifact_ID m, m)]\<rparr>))"

definition putArtifact :: "Env \<Rightarrow> StoreConfig \<Rightarrow> Artifact \<Rightarrow> string \<Rightarrow> (Store, Artifact) act" where
  "putArtifact env cfg metadata source =
     act_bind (if Artifact_ID metadata = [] then newID env ''artifact'' else act_return (Artifact_ID metadata)) (\<lambda>i.
     if Artifact_CampaignID metadata = [] \<or> Artifact_Role metadata = [] \<or> Artifact_MediaType metadata = []
     then act_fail (Err ''research store: artifact campaign, role, and media type required'')
     else
       act_bind (ingest env cfg source) (\<lambda>(content, written, cid).
       (let m = freshMetadata env cfg i metadata;
            m1 = (if cfg_activeKeyID cfg \<noteq> []
                  then m\<lparr>Artifact_Encryption := artifactEncryptionScheme, Artifact_EncryptionKeyID := cfg_activeKeyID cfg\<rparr>
                  else m);
            m2 = m1\<lparr>Artifact_ContentID := cid, Artifact_Size := written\<rparr>;
            path = blobRelative (trimPrefix cid ''sha256:'')
        in act_bind (placeBlob env cfg path content m2) (\<lambda>m3.
           (let m4 = m3\<lparr>Artifact_StoragePath := path\<rparr> in
            act_bind (insertArtifact m4) (\<lambda>_. act_return m4))))))"

definition getArtifact :: "string \<Rightarrow> (Store, Artifact) act" where
  "getArtifact i = act_gets (\<lambda>s. lookup (st_artifacts s) i)"

definition listArtifacts :: "string \<Rightarrow> int \<Rightarrow> (Store, Artifact list) act" where
  "listArtifacts campaign limit = act_gets (\<lambda>s.
     Inr (map snd (takeI (listLimit 10000 1000 limit)
       (newestFirst (Artifact_CreatedAt \<circ> snd) fst
         (filter (\<lambda>(i, a). Artifact_CampaignID a = campaign) (st_artifacts s))))))"

section \<open>Reading\<close>

definition validContentID :: "string \<Rightarrow> bool" where
  "validContentID cid \<longleftrightarrow>
     hasPrefix cid ''sha256:'' \<and> length cid = 7 + 64 \<and>
     (case hexDecode (trimPrefix cid ''sha256:'') of None \<Rightarrow> False | Some d \<Rightarrow> length d = 32)"

text \<open>
  \<^verbatim>\<open>OpenArtifact\<close>: the metadata and the evidence the returned stream delivers. The blob directory
  has no symbolic links, so the escape check after \<^verbatim>\<open>EvalSymlinks\<close> always passes for a file that
  exists.
\<close>

definition openArtifact :: "Env \<Rightarrow> StoreConfig \<Rightarrow> string \<Rightarrow> (Store, Artifact \<times> string) act" where
  "openArtifact env cfg i =
     act_bind (getArtifact i) (\<lambda>m.
     if Artifact_PurgedAt m \<noteq> None then act_fail ErrArtifactPurged
     else if \<not> validContentID (Artifact_ContentID m)
     then act_fail (Err ''research store: invalid artifact content id'')
     else
       (let expected = blobRelative (trimPrefix (Artifact_ContentID m) ''sha256:'') in
        if clean (Artifact_StoragePath m) \<noteq> expected
        then act_fail (Err ''research store: artifact path does not match content id'')
        else
          act_gets (\<lambda>s.
            case map_of (st_blobs s) expected of
              None \<Rightarrow> Inl (Err ''no such file or directory'')
            | Some content \<Rightarrow>
                rbind (verifyBlob env cfg content (Artifact_Size m) (Artifact_ContentID m)) (\<lambda>(scheme, keyID).
                (let m' = m\<lparr>Artifact_Encryption := scheme, Artifact_EncryptionKeyID := keyID\<rparr> in
                 if scheme = [] then Inr (m', content)
                 else rbind (readEncrypted (env_aead env) (env_sha env) (cfg_keys cfg) content (Artifact_Size m) (Artifact_ContentID m))
                        (\<lambda>r. Inr (m', fst r)))))))"

section \<open>Retention and purge\<close>

definition maxPurgeReasonBytes :: nat where
  "maxPurgeReasonBytes = 1024"

definition validatedArtifactBlobPath :: "string \<Rightarrow> string \<Rightarrow> int \<Rightarrow> string result" where
  "validatedArtifactBlobPath cid storagePath bsize =
     (if \<not> hasPrefix cid ''sha256:'' \<or> length cid \<noteq> 7 + 64 \<or> bsize < 0
      then Inl (Err ''research store: invalid stored artifact identity'')
      else if (case hexDecode (trimPrefix cid ''sha256:'') of None \<Rightarrow> True | Some d \<Rightarrow> length d \<noteq> 32)
      then Inl (Err ''research store: invalid stored artifact identity'')
      else if clean storagePath \<noteq> blobRelative (trimPrefix cid ''sha256:'')
      then Inl (Err ''research store: stored artifact path mismatch'')
      else Inr (blobRelative (trimPrefix cid ''sha256:'')))"

definition wrapErr :: "string \<Rightarrow> err \<Rightarrow> err" where
  "wrapErr text e = Err (text @ errText e)"

definition activeReferences :: "Store \<Rightarrow> string \<Rightarrow> int" where
  "activeReferences s cid =
     int (length (filter (\<lambda>(i, a). Artifact_ContentID a = cid \<and> Artifact_PurgedAt a = None) (st_artifacts s)))"

text \<open>Marking the deletion on the tombstones of a content id; an active row is an error.\<close>

definition markDeleted :: "string \<Rightarrow> time \<Rightarrow> (Store, unit) act" where
  "markDeleted cid deletedAt s =
     (if list_ex (\<lambda>(i, a). Artifact_ContentID a = cid \<and> Artifact_PurgedAt a = None) (st_artifacts s)
      then (Inl (Err ''research store: active artifact reference appeared during purge''), s)
      else (Inr (), s\<lparr>st_artifacts := map (\<lambda>(i, a). (i,
             if Artifact_ContentID a = cid \<and> Artifact_BlobDeletedAt a = None
             then a\<lparr>Artifact_BlobDeletedAt := Some deletedAt\<rparr> else a)) (st_artifacts s)\<rparr>))"

definition removeBlob :: "Env \<Rightarrow> StoreConfig \<Rightarrow> string \<Rightarrow> int \<Rightarrow> string \<Rightarrow> (Store, unit) act" where
  "removeBlob env cfg path bsize cid s =
     (case map_of (st_blobs s) path of
        None \<Rightarrow> (Inr (), s)
      | Some content \<Rightarrow>
          (case verifyBlob env cfg content bsize cid of
             Inl e \<Rightarrow> (Inl (wrapErr ''research store: verify artifact before purge: '' e), s)
           | Inr _ \<Rightarrow> (Inr (), s\<lparr>st_blobs := AList.delete path (st_blobs s)\<rparr>)))"

definition finishArtifactBlobPurge :: "Env \<Rightarrow> StoreConfig \<Rightarrow> string \<Rightarrow> string \<Rightarrow> int \<Rightarrow> time \<Rightarrow> (Store, unit) act" where
  "finishArtifactBlobPurge env cfg cid storagePath bsize deletedAt =
     act_bind (act_lift (validatedArtifactBlobPath cid storagePath bsize)) (\<lambda>path.
     act_bind (removeBlob env cfg path bsize cid) (\<lambda>_. markDeleted cid deletedAt))"

text \<open>
  The tombstone. The conditional \<^verbatim>\<open>UPDATE\<close> finds the row as the operation has just read it, since
  the mutex is held.
\<close>

definition tombstone :: "Env \<Rightarrow> StoreConfig \<Rightarrow> Artifact \<Rightarrow> string \<Rightarrow> string \<Rightarrow> time \<Rightarrow> (Store, Artifact) act" where
  "tombstone env cfg a approvalID reason now =
     act_bind (act_lift (validatedArtifactBlobPath (Artifact_ContentID a) (Artifact_StoragePath a) (Artifact_Size a))) (\<lambda>path s.
       (case (case map_of (st_blobs s) path of
                None \<Rightarrow> Inl (Err ''research store: artifact is not a regular stored object'')
              | Some content \<Rightarrow> verifyBlob env cfg content (Artifact_Size a) (Artifact_ContentID a)) of
          Inl e \<Rightarrow> (Inl (wrapErr ''research store: verify artifact before tombstone: '' e), s)
        | Inr _ \<Rightarrow>
            (let a' = a\<lparr>Artifact_PurgedAt := Some now, Artifact_PurgeApprovalID := approvalID, Artifact_PurgeReason := reason\<rparr>
             in (Inr a', s\<lparr>st_artifacts := AList.update (Artifact_ID a) a' (st_artifacts s)\<rparr>))))"

text \<open>The second half of \<^verbatim>\<open>PurgeArtifact\<close>: the row carries a tombstone, the blob goes with its last reference.\<close>

definition settlePurge :: "Env \<Rightarrow> StoreConfig \<Rightarrow> string \<Rightarrow> string \<Rightarrow> time \<Rightarrow> Artifact \<Rightarrow> (Store, Artifact) act" where
  "settlePurge env cfg approvalID reason now a =
     (if Artifact_PurgeApprovalID a \<noteq> approvalID \<or> Artifact_PurgeReason a \<noteq> reason
      then act_fail (Err ''research store: artifact already has a different immutable purge decision'')
      else
        act_bind (act_gets (\<lambda>s. Inr (activeReferences s (Artifact_ContentID a)))) (\<lambda>n.
        act_bind (if n = 0
                  then finishArtifactBlobPurge env cfg (Artifact_ContentID a) (Artifact_StoragePath a) (Artifact_Size a) now
                  else act_return ()) (\<lambda>_.
        getArtifact (Artifact_ID a))))"

definition purgeFound :: "Env \<Rightarrow> StoreConfig \<Rightarrow> string \<Rightarrow> string \<Rightarrow> time \<Rightarrow> Artifact \<Rightarrow> (Store, Artifact) act" where
  "purgeFound env cfg approvalID reason now a =
     (if approvalID = [] \<or> reason = [] \<or> length reason > maxPurgeReasonBytes
      then act_fail (Err ''research store: purge approval and a bounded reason are required'')
      else if isZero (Artifact_RetainUntil a) \<or> timeBefore now (Artifact_RetainUntil a)
      then act_fail ErrRetentionActive
      else
        act_bind (if Artifact_PurgedAt a = None then tombstone env cfg a approvalID reason now else act_return a)
          (settlePurge env cfg approvalID reason now))"

definition storePurgeArtifact :: "Env \<Rightarrow> StoreConfig \<Rightarrow> string \<Rightarrow> string \<Rightarrow> string \<Rightarrow> time \<Rightarrow> (Store, Artifact) act" where
  "storePurgeArtifact env cfg i approvalID reason now =
     act_bind (getArtifact i)
       (purgeFound env cfg approvalID (trimSpace reason) (if isZero now then env_now env else now))"

definition migrateArtifactRetention :: "Env \<Rightarrow> StoreConfig \<Rightarrow> (Store, unit) act" where
  "migrateArtifactRetention env cfg s =
     (Inr (), s\<lparr>st_artifacts := map (\<lambda>(i, a). (i,
        if isZero (Artifact_RetainUntil a)
        then a\<lparr>Artifact_RetainUntil :=
               (case Artifact_PurgedAt a of Some t \<Rightarrow> t | None \<Rightarrow> env_now env + cfg_retention cfg)\<rparr>
        else a)) (st_artifacts s)\<rparr>)"

definition blobOf :: "Artifact \<Rightarrow> string \<times> string \<times> int" where
  "blobOf a = (Artifact_ContentID a, Artifact_StoragePath a, Artifact_Size a)"

definition purgedBlobs :: "Store \<Rightarrow> (string \<times> string \<times> int) list" where
  "purgedBlobs s =
     sort_key fst (filter (\<lambda>b. \<not> list_ex (\<lambda>(i, a). blobOf a = b \<and> Artifact_PurgedAt a = None) (st_artifacts s))
       (remdups (map (blobOf \<circ> snd) (st_artifacts s))))"

definition completeApprovedArtifactPurges :: "Env \<Rightarrow> StoreConfig \<Rightarrow> (Store, unit) act" where
  "completeApprovedArtifactPurges env cfg =
     act_bind (act_gets (\<lambda>s. Inr (purgedBlobs s))) (\<lambda>blobs.
     act_each (\<lambda>(cid, path, bsize).
       act_catch (finishArtifactBlobPurge env cfg cid path bsize (env_now env))
         (\<lambda>e. act_fail (wrapErr ''research store: complete approved artifact purge: '' e))) blobs)"

section \<open>Start-up migration of encryption\<close>

definition listArtifactBlobs :: "Store \<Rightarrow> (string \<times> string \<times> int) list" where
  "listArtifactBlobs s =
     sort_key fst (remdups (map (blobOf \<circ> snd) (filter (\<lambda>(i, a). Artifact_PurgedAt a = None) (st_artifacts s))))"

definition resolveStoredBlob :: "string \<Rightarrow> string \<Rightarrow> int \<Rightarrow> (Store, string \<times> string) act" where
  "resolveStoredBlob cid storagePath bsize =
     act_bind (act_lift (validatedArtifactBlobPath cid storagePath bsize)) (\<lambda>path.
       act_gets (\<lambda>s. case map_of (st_blobs s) path of
           None \<Rightarrow> Inl (Err ''no such file or directory'') | Some content \<Rightarrow> Inr (path, content)))"

text \<open>
  Re-encryption of one blob in place. The file has just been verified, so opening it for reading
  cannot fail here with anything but the same result.
\<close>

definition rotateArtifactBlob :: "Env \<Rightarrow> StoreConfig \<Rightarrow> string \<Rightarrow> string \<Rightarrow> string \<Rightarrow> int \<Rightarrow> string \<Rightarrow> (Store, unit) act" where
  "rotateArtifactBlob env cfg path content cid bsize currentScheme s =
     (case (if currentScheme = artifactEncryptionScheme
            then rbind (readEncrypted (env_aead env) (env_sha env) (cfg_keys cfg) content bsize cid) (\<lambda>r. Inr (fst r))
            else Inr content) of
        Inl e \<Rightarrow> (Inl e, s)
      | Inr source \<Rightarrow>
          (let s1 = s\<lparr>st_draws := st_draws s + 1\<rparr> in
           case encryptArtifact (env_aead env) (env_sha env) (env_nonce env (st_draws s)) source bsize
                  (case map_of (cfg_keys cfg) (cfg_activeKeyID cfg) of None \<Rightarrow> [] | Some k \<Rightarrow> k) (cfg_activeKeyID cfg) of
             Inl _ \<Rightarrow> (Inl (Err ''research store: artifact encryption migration failed integrity checks''), s1)
           | Inr (stored, written, cid') \<Rightarrow>
               if written \<noteq> bsize \<or> cid' \<noteq> cid
               then (Inl (Err ''research store: artifact encryption migration failed integrity checks''), s1)
               else
                 (let s2 = s1\<lparr>st_blobs := AList.update path stored (st_blobs s1)\<rparr> in
                  if verifyBlob env cfg stored bsize cid = Inr (artifactEncryptionScheme, cfg_activeKeyID cfg)
                  then (Inr (), s2)
                  else (Inl (Err ''research store: migrated artifact verification failed''), s2))))"

definition recordEncryption :: "StoreConfig \<Rightarrow> string \<Rightarrow> (Store, unit) act" where
  "recordEncryption cfg cid s =
     (Inr (), s\<lparr>st_artifacts := map (\<lambda>(i, a). (i,
        if Artifact_ContentID a = cid
        then a\<lparr>Artifact_Encryption := artifactEncryptionScheme, Artifact_EncryptionKeyID := cfg_activeKeyID cfg\<rparr>
        else a)) (st_artifacts s)\<rparr>)"

definition requirePlain :: "string \<times> string \<times> int \<Rightarrow> (Store, unit) act" where
  "requirePlain = (\<lambda>(cid, storagePath, bsize).
     act_bind (resolveStoredBlob cid storagePath bsize) (\<lambda>(path, content).
       if hasPrefix content artifactMagic
       then act_fail (Err ''research store: artifact encryption keys required for existing custody'')
       else act_return ()))"

definition encryptBlob :: "Env \<Rightarrow> StoreConfig \<Rightarrow> string \<times> string \<times> int \<Rightarrow> (Store, unit) act" where
  "encryptBlob env cfg = (\<lambda>(cid, storagePath, bsize).
     act_bind (resolveStoredBlob cid storagePath bsize) (\<lambda>(path, content).
     (case verifyBlob env cfg content bsize cid of
        Inl e \<Rightarrow> act_fail (wrapErr ''research store: verify artifact before encryption migration: '' e)
      | Inr (scheme, keyID) \<Rightarrow>
          act_bind (if scheme \<noteq> artifactEncryptionScheme \<or> keyID \<noteq> cfg_activeKeyID cfg
                    then rotateArtifactBlob env cfg path content cid bsize scheme else act_return ()) (\<lambda>_.
          recordEncryption cfg cid))))"

definition migrateArtifactEncryption :: "Env \<Rightarrow> StoreConfig \<Rightarrow> (Store, unit) act" where
  "migrateArtifactEncryption env cfg =
     act_bind (act_gets (\<lambda>s. Inr (listArtifactBlobs s))) (\<lambda>blobs.
       act_each (if cfg_activeKeyID cfg = [] then requirePlain else encryptBlob env cfg) blobs)"

text \<open>The start-up sequence of \<^verbatim>\<open>openStore\<close> on a store whose schema is current.\<close>

definition startStore :: "Env \<Rightarrow> StoreConfig \<Rightarrow> (Store, unit) act" where
  "startStore env cfg =
     act_bind (migrateArtifactEncryption env cfg) (\<lambda>_.
     act_bind (migrateArtifactRetention env cfg) (\<lambda>_.
     completeApprovedArtifactPurges env cfg))"

section \<open>History and invariant\<close>

lemma tableKept_map:
  "(\<And>k v. map_of t k = Some v \<Longrightarrow> R k v (f k v)) \<Longrightarrow> tableKept R t (map (\<lambda>(k, v). (k, f k v)) t)"
proof -
  assume R: "\<And>k v. map_of t k = Some v \<Longrightarrow> R k v (f k v)"
  have "map_of (map (\<lambda>(k, v). (k, f k v)) t) k = map_option (f k) (map_of t k)" for k
    by (induction t) auto
  with R show ?thesis by (simp add: tableKept_def)
qed

lemma map_of_mapped: "map_of (map (\<lambda>(k, v). (k, f k v)) t) k = map_option (f k) (map_of t k)"
  by (induction t) auto

lemma tableOK_map: "tableOK P t \<Longrightarrow> (\<And>k v. map_of t k = Some v \<Longrightarrow> P k v \<Longrightarrow> P k (f k v)) \<Longrightarrow>
    tableOK P (map (\<lambda>(k, v). (k, f k v)) t)"
  by (auto simp: tableOK_def map_of_mapped case_prod_beta comp_def)

definition deletedAs :: "string \<Rightarrow> time \<Rightarrow> Artifact \<Rightarrow> Artifact" where
  "deletedAs cid deletedAt a =
     (if Artifact_ContentID a = cid \<and> Artifact_BlobDeletedAt a = None
      then a\<lparr>Artifact_BlobDeletedAt := Some deletedAt\<rparr> else a)"

lemma markDeleted_cases:
  obtains (refused) e where "markDeleted cid t s = (Inl e, s)"
      "\<exists>i a. (i, a) \<in> set (st_artifacts s) \<and> Artifact_ContentID a = cid \<and> Artifact_PurgedAt a = None"
  | (marked) "markDeleted cid t s = (Inr (), s\<lparr>st_artifacts := map (\<lambda>(i, a). (i, deletedAs cid t a)) (st_artifacts s)\<rparr>)"
      "\<And>i a. (i, a) \<in> set (st_artifacts s) \<Longrightarrow> Artifact_ContentID a = cid \<Longrightarrow> Artifact_PurgedAt a \<noteq> None"
proof (cases "list_ex (\<lambda>(i, a). Artifact_ContentID a = cid \<and> Artifact_PurgedAt a = None) (st_artifacts s)")
  case True
  then show ?thesis using refused by (auto simp: markDeleted_def list_ex_iff)
next
  case False
  have purged: "Artifact_PurgedAt a \<noteq> None" if "(i, a) \<in> set (st_artifacts s)" "Artifact_ContentID a = cid" for i a
    using False that by (auto simp: list_ex_iff)
  have "markDeleted cid t s = (Inr (), s\<lparr>st_artifacts := map (\<lambda>(i, a). (i, deletedAs cid t a)) (st_artifacts s)\<rparr>)"
    by (simp only: markDeleted_def False if_False deletedAs_def)
  then show ?thesis using marked purged by blast
qed

lemma historyKept_artifacts:
  "tableKept artifactLater (st_artifacts s) as \<Longrightarrow> historyKept s (s\<lparr>st_artifacts := as\<rparr>)"
  by (simp add: historyKept_def tableKept_refl later_refl)

lemma historyKept_blobs [simp]: "historyKept s (s\<lparr>st_blobs := bs\<rparr>)"
  by (simp add: historyKept_def tableKept_refl later_refl)

lemma history_getArtifact [intro!]: "evolves historyKept (getArtifact i)"
  unfolding getArtifact_def by blast

lemma history_markDeleted [intro!]: "evolves historyKept (markDeleted cid t)"
proof (rule evolves_direct)
  fix s
  show "historyKept s (snd (markDeleted cid t s))"
    by (rule markDeleted_cases [of cid t s])
      (auto simp: history.rel_refl deletedAs_def artifactLater_def intro!: historyKept_artifacts tableKept_map)
qed

lemma history_removeBlob [intro!]: "evolves historyKept (removeBlob env cfg path n cid)"
  by (rule evolves_direct) (simp add: removeBlob_def history.rel_refl split: option.splits sum.splits)

lemma history_finish [intro!]: "evolves historyKept (finishArtifactBlobPurge env cfg cid p n t)"
  unfolding finishArtifactBlobPurge_def by blast

lemma history_ingest [intro!]: "evolves historyKept (ingest env cfg source)"
  by (rule evolves_direct) (simp add: ingest_def history.rel_refl)

lemma history_placeBlob [intro!]: "evolves historyKept (placeBlob env cfg path content m)"
  by (rule evolves_direct) (simp add: placeBlob_def history.rel_refl split: option.splits sum.splits)

lemma history_insertArtifact [intro!]: "evolves historyKept (insertArtifact m)"
  by (rule evolves_direct)
    (auto simp: insertArtifact_def history.rel_refl intro!: historyKept_artifacts tableKept_snoc later_refl)

lemma history_putArtifact [intro!]: "evolves historyKept (putArtifact env cfg m source)"
  unfolding putArtifact_def Let_def by (intro history.evolves_bind history.evolves_if history.evolves_prod; blast)

end
