(* ===== verification/Custody_Laws.thy ===== *)
theory Custody_Laws
  imports Custody
begin

text \<open>
  Laws of evidence custody: no operation rewrites history or breaks the tables; an unpurged
  artifact can always be opened and delivers the bytes its content id names; a purge needs an
  expired retention period, is decided once and never touches evidence that is still referenced.
\<close>

section \<open>History and tables\<close>

definition lawful :: "Env \<Rightarrow> Store \<Rightarrow> Store \<Rightarrow> bool" where
  "lawful env s s' \<longleftrightarrow> (storeOK env s \<longrightarrow> storeOK env s' \<and> historyKept s s')"

interpretation lawful: store_relation "lawful env" for env
proof unfold_locales
  show "lawful env s s" for s by (simp add: lawful_def history.rel_refl)
  show "lawful env s t \<Longrightarrow> lawful env t u \<Longrightarrow> lawful env s u" for s t u
    using history.rel_trans by (auto simp: lawful_def)
qed

lemma lawfulI: "evolves historyKept m \<Longrightarrow> evolves (keepsOK env) m \<Longrightarrow> evolves (lawful env) m"
  by (simp add: evolves_def lawful_def keepsOK_def)

lemma storeOK_artifacts:
  "storeOK env s \<Longrightarrow> tableOK (artifactOK (st_campaigns s)) as \<Longrightarrow> storeOK env (s\<lparr>st_artifacts := as\<rparr>)"
  by (simp add: storeOK_def)

lemma storeOK_blobs [simp]: "storeOK env (s\<lparr>st_blobs := bs\<rparr>) = storeOK env s"
  by (simp add: storeOK_def)

lemma storeOK_artifact: "storeOK env s \<Longrightarrow> map_of (st_artifacts s) i = Some a \<Longrightarrow> artifactOK (st_campaigns s) i a"
  by (simp add: storeOK_def tableOK_def)

lemma storeOK_map_artifacts:
  assumes "storeOK env s" "\<And>i a. map_of (st_artifacts s) i = Some a \<Longrightarrow> artifactOK (st_campaigns s) i a \<Longrightarrow>
    artifactOK (st_campaigns s) i (f i a)"
  shows "storeOK env (s\<lparr>st_artifacts := map (\<lambda>(i, a). (i, f i a)) (st_artifacts s)\<rparr>)"
  using assms by (intro storeOK_artifacts tableOK_map) (auto simp: storeOK_def)

lemma lawful_map_artifacts:
  assumes "\<And>i a. map_of (st_artifacts s) i = Some a \<Longrightarrow> artifactLater i a (f i a)"
    and "\<And>i a. map_of (st_artifacts s) i = Some a \<Longrightarrow> artifactOK (st_campaigns s) i a \<Longrightarrow> artifactOK (st_campaigns s) i (f i a)"
  shows "lawful env s (s\<lparr>st_artifacts := map (\<lambda>(i, a). (i, f i a)) (st_artifacts s)\<rparr>)"
  using assms by (auto simp: lawful_def intro!: storeOK_map_artifacts historyKept_artifacts tableKept_map)

lemma lawful_blobs [simp]: "lawful env s (s\<lparr>st_blobs := bs\<rparr>)"
  by (simp add: lawful_def)

lemma lawful_draws [simp]: "lawful env s (s\<lparr>st_draws := n\<rparr>)"
  by (simp add: lawful_def)

lemma lawful_newID [intro!]: "evolves (lawful env) (newID env' pfx)"
  by (rule lawfulI) blast+

lemma lawful_getArtifact [intro!]: "evolves (lawful env) (getArtifact i)"
  unfolding getArtifact_def by blast

lemma lawful_ingest [intro!]: "evolves (lawful env) (ingest env' cfg source)"
  by (rule evolves_direct) (simp add: ingest_def lawful.rel_refl)

lemma lawful_placeBlob [intro!]: "evolves (lawful env) (placeBlob env' cfg path content m)"
  by (rule evolves_direct) (simp add: placeBlob_def lawful.rel_refl split: option.splits sum.splits)

definition freshRow :: "Artifact \<Rightarrow> bool" where
  "freshRow m \<longleftrightarrow> Artifact_BlobDeletedAt m = None \<and> Artifact_PurgedAt m = None"

lemma insertArtifact_cases:
  obtains (refused) e where "insertArtifact m s = (Inl e, s)"
  | (written) "insertArtifact m s = (Inr (), s\<lparr>st_artifacts := st_artifacts s @ [(Artifact_ID m, m)]\<rparr>)"
      "map_of (st_artifacts s) (Artifact_ID m) = None" "0 \<le> Artifact_Size m"
      "map_of (st_campaigns s) (Artifact_CampaignID m) \<noteq> None"
  by (cases "map_of (st_artifacts s) (Artifact_ID m)"; cases "Artifact_Size m < 0";
      cases "map_of (st_campaigns s) (Artifact_CampaignID m)")
    (auto simp: insertArtifact_def)

lemma lawful_insertArtifact [intro!]:
  assumes "freshRow m"
  shows "evolves (lawful env) (insertArtifact m)"
proof (rule evolves_direct)
  fix s
  show "lawful env s (snd (insertArtifact m s))"
  proof (cases rule: insertArtifact_cases [of m s])
    case (refused e)
    then show ?thesis by (simp add: lawful.rel_refl)
  next
    case written
    have "artifactOK (st_campaigns s) (Artifact_ID m) m"
      using written assms by (simp add: artifactOK_def freshRow_def)
    with written have "storeOK env s \<Longrightarrow> storeOK env (snd (insertArtifact m s))"
      by (auto simp: storeOK_def intro!: storeOK_artifacts tableOK_snoc)
    then show ?thesis using history_insertArtifact [of m] by (simp add: lawful_def evolves_def)
  qed
qed

lemma freshMetadata_fresh [simp]: "freshRow (freshMetadata env cfg i m)"
  by (simp add: freshRow_def freshMetadata_def)

lemma freshRow_update [simp]:
  "freshRow (m\<lparr>Artifact_Encryption := x\<rparr>) = freshRow m" "freshRow (m\<lparr>Artifact_EncryptionKeyID := x\<rparr>) = freshRow m"
  "freshRow (m\<lparr>Artifact_ContentID := x\<rparr>) = freshRow m" "freshRow (m\<lparr>Artifact_Size := n\<rparr>) = freshRow m"
  "freshRow (m\<lparr>Artifact_StoragePath := x\<rparr>) = freshRow m"
  by (simp_all add: freshRow_def)

lemma placeBlob_cases:
  obtains (refused) e where "placeBlob env cfg path content m s = (Inl e, s)"
  | (installed) "map_of (st_blobs s) path = None"
      "placeBlob env cfg path content m s = (Inr m, s\<lparr>st_blobs := st_blobs s @ [(path, content)]\<rparr>)"
  | (kept) existing scheme keyID where "map_of (st_blobs s) path = Some existing"
      "verifyBlob env cfg existing (Artifact_Size m) (Artifact_ContentID m) = Inr (scheme, keyID)"
      "placeBlob env cfg path content m s =
         (Inr (m\<lparr>Artifact_Encryption := scheme, Artifact_EncryptionKeyID := keyID\<rparr>), s)"
proof (cases "map_of (st_blobs s) path")
  case None
  then show ?thesis using installed by (simp add: placeBlob_def)
next
  case (Some existing)
  then have "(\<exists>e. placeBlob env cfg path content m s = (Inl e, s)) \<or>
      (\<exists>scheme keyID. verifyBlob env cfg existing (Artifact_Size m) (Artifact_ContentID m) = Inr (scheme, keyID) \<and>
        placeBlob env cfg path content m s =
         (Inr (m\<lparr>Artifact_Encryption := scheme, Artifact_EncryptionKeyID := keyID\<rparr>), s))"
    by (simp add: placeBlob_def split: sum.split)
  then show ?thesis using refused kept Some by blast
qed

definition putMetadata :: "Env \<Rightarrow> StoreConfig \<Rightarrow> string \<Rightarrow> Artifact \<Rightarrow> string \<Rightarrow> int \<Rightarrow> Artifact" where
  "putMetadata env cfg i metadata cid written =
     (if cfg_activeKeyID cfg \<noteq> []
      then (freshMetadata env cfg i metadata)\<lparr>Artifact_Encryption := artifactEncryptionScheme, Artifact_EncryptionKeyID := cfg_activeKeyID cfg\<rparr>
      else freshMetadata env cfg i metadata)\<lparr>Artifact_ContentID := cid, Artifact_Size := written\<rparr>"

lemma putMetadata_fields [simp]:
  "freshRow (putMetadata env cfg i m cid n)" "Artifact_ContentID (putMetadata env cfg i m cid n) = cid"
  "Artifact_Size (putMetadata env cfg i m cid n) = n" "Artifact_ID (putMetadata env cfg i m cid n) = i"
  by (simp_all add: putMetadata_def) (simp_all add: freshMetadata_def)

definition storeBlob :: "Env \<Rightarrow> StoreConfig \<Rightarrow> string \<Rightarrow> string \<Rightarrow> Artifact \<Rightarrow> (Store, Artifact) act" where
  "storeBlob env cfg path content m =
     act_bind (placeBlob env cfg path content m) (\<lambda>m3.
       act_bind (insertArtifact (m3\<lparr>Artifact_StoragePath := path\<rparr>)) (\<lambda>_. act_return (m3\<lparr>Artifact_StoragePath := path\<rparr>)))"

lemma putArtifact_steps:
  "putArtifact env cfg metadata source =
     act_bind (if Artifact_ID metadata = [] then newID env ''artifact'' else act_return (Artifact_ID metadata)) (\<lambda>i.
     if Artifact_CampaignID metadata = [] \<or> Artifact_Role metadata = [] \<or> Artifact_MediaType metadata = []
     then act_fail (Err ''research store: artifact campaign, role, and media type required'')
     else act_bind (ingest env cfg source) (\<lambda>(content, written, cid).
       storeBlob env cfg (blobRelative (trimPrefix cid ''sha256:'')) content (putMetadata env cfg i metadata cid written)))"
  unfolding putArtifact_def storeBlob_def putMetadata_def Let_def ..

lemma placeBlob_fresh: "placeBlob env cfg path content m s = (Inr m3, s1) \<Longrightarrow> freshRow m \<Longrightarrow> freshRow m3"
  by (cases rule: placeBlob_cases [of env cfg path content m s]) auto

text \<open>Ingestion stays inside a relation that its steps respect.\<close>

lemma putArtifact_keeps:
  assumes R: "store_relation R" and draw: "evolves R (newID env ''artifact'')" and read: "evolves R (ingest env cfg source)"
    and place: "\<And>path content m. evolves R (placeBlob env cfg path content m)"
    and insert: "\<And>m. freshRow m \<Longrightarrow> evolves R (insertArtifact m)"
  shows "evolves R (putArtifact env cfg metadata source)"
proof -
  have "R s (snd (storeBlob env cfg path content m s))" if "freshRow m" for path content m s
    unfolding storeBlob_def
  proof (rule store_relation.bind_at [OF R])
    show "R s (snd (placeBlob env cfg path content m s))" using place by (simp add: evolves_def)
    fix m3 s1
    assume "placeBlob env cfg path content m s = (Inr m3, s1)"
    with that have "freshRow (m3\<lparr>Artifact_StoragePath := path\<rparr>)" by (simp add: placeBlob_fresh)
    then have "evolves R (act_bind (insertArtifact (m3\<lparr>Artifact_StoragePath := path\<rparr>)) (\<lambda>_. act_return (m3\<lparr>Artifact_StoragePath := path\<rparr>)))"
      by (intro store_relation.evolves_bind [OF R] insert store_relation.evolves_return [OF R])
    then show "R s1 (snd (act_bind (insertArtifact (m3\<lparr>Artifact_StoragePath := path\<rparr>))
        (\<lambda>_. act_return (m3\<lparr>Artifact_StoragePath := path\<rparr>)) s1))"
      by (simp add: evolves_def)
  qed
  then have "evolves R (storeBlob env cfg path content m)" if "freshRow m" for path content m
    using that by (simp add: evolves_def)
  then show ?thesis unfolding putArtifact_steps
    by (intro store_relation.evolves_bind [OF R] store_relation.evolves_if [OF R] store_relation.evolves_prod [OF R]
        store_relation.evolves_return [OF R] store_relation.evolves_fail [OF R] draw read) simp_all
qed

lemma lawful_putArtifact [intro!]: "evolves (lawful env) (putArtifact env' cfg metadata source)"
  by (rule putArtifact_keeps [OF lawful.store_relation_axioms]) blast+

section \<open>Purge\<close>

definition tombstoned :: "string \<Rightarrow> string \<Rightarrow> time \<Rightarrow> Artifact \<Rightarrow> Artifact" where
  "tombstoned approvalID reason now a =
     a\<lparr>Artifact_PurgedAt := Some now, Artifact_PurgeApprovalID := approvalID, Artifact_PurgeReason := reason\<rparr>"

lemma tombstoned_fields [simp]:
  "Artifact_ID (tombstoned ap re now a) = Artifact_ID a" "Artifact_ContentID (tombstoned ap re now a) = Artifact_ContentID a"
  "Artifact_StoragePath (tombstoned ap re now a) = Artifact_StoragePath a" "Artifact_Size (tombstoned ap re now a) = Artifact_Size a"
  "Artifact_PurgedAt (tombstoned ap re now a) = Some now" "Artifact_PurgeApprovalID (tombstoned ap re now a) = ap"
  "Artifact_PurgeReason (tombstoned ap re now a) = re"
  by (simp_all add: tombstoned_def)

lemma tombstone_cases:
  obtains (refused) e where "tombstone env cfg a ap re now s = (Inl e, s)"
  | (written) path content v where
      "validatedArtifactBlobPath (Artifact_ContentID a) (Artifact_StoragePath a) (Artifact_Size a) = Inr path"
      "map_of (st_blobs s) path = Some content" "verifyBlob env cfg content (Artifact_Size a) (Artifact_ContentID a) = Inr v"
      "tombstone env cfg a ap re now s = (Inr (tombstoned ap re now a),
         s\<lparr>st_artifacts := AList.update (Artifact_ID a) (tombstoned ap re now a) (st_artifacts s)\<rparr>)"
proof (cases "validatedArtifactBlobPath (Artifact_ContentID a) (Artifact_StoragePath a) (Artifact_Size a)")
  case (Inl e)
  then show ?thesis using refused by (simp add: tombstone_def act_bind_def act_lift_def)
next
  case (Inr path)
  let ?v = "\<lambda>content. verifyBlob env cfg content (Artifact_Size a) (Artifact_ContentID a)"
  show ?thesis
  proof (cases "map_of (st_blobs s) path")
    case None
    with Inr show ?thesis using refused by (simp add: tombstone_def act_bind_def act_lift_def)
  next
    case (Some content)
    with Inr show ?thesis using refused written [of path content]
      by (cases "?v content") (simp_all add: tombstone_def tombstoned_def act_bind_def act_lift_def Let_def)
  qed
qed

lemma lawful_tombstone:
  assumes "map_of (st_artifacts s) i = Some a" "Artifact_PurgedAt a = None"
  shows "lawful env s (snd (tombstone env' cfg a ap re now s))"
proof (cases rule: tombstone_cases [of env' cfg a ap re now s])
  case (refused e)
  then show ?thesis by (simp add: lawful.rel_refl)
next
  case (written path content v)
  show ?thesis unfolding lawful_def
  proof (intro impI conjI)
    assume ok: "storeOK env s"
    from storeOK_artifact [OF ok assms(1)] assms(2)
    have a: "artifactOK (st_campaigns s) i a" "Artifact_ID a = i" "Artifact_BlobDeletedAt a = None"
      by (auto simp: artifactOK_def)
    then have "artifactOK (st_campaigns s) i (tombstoned ap re now a)"
      by (auto simp: artifactOK_def tombstoned_def)
    with ok a written(4) show "storeOK env (snd (tombstone env' cfg a ap re now s))"
      by (auto simp: storeOK_def intro!: storeOK_artifacts tableOK_update)
    have "artifactLater i a (tombstoned ap re now a)"
      using assms a by (simp add: artifactLater_def tombstoned_def)
    with assms a written(4) show "historyKept s (snd (tombstone env' cfg a ap re now s))"
      by (auto intro!: historyKept_artifacts tableKept_update later_refl)
  qed
qed

lemma lawful_markDeleted [intro!]: "evolves (lawful env) (markDeleted cid t)"
proof (rule evolves_direct)
  fix s
  show "lawful env s (snd (markDeleted cid t s))"
  proof (cases rule: markDeleted_cases [of cid t s])
    case (refused e)
    then show ?thesis by (simp add: lawful.rel_refl)
  next
    case marked
    have "artifactOK (st_campaigns s) i (deletedAs cid t a)"
      if "map_of (st_artifacts s) i = Some a" "artifactOK (st_campaigns s) i a" for i a
      using that marked(2) map_of_SomeD [OF that(1)] by (auto simp: artifactOK_def deletedAs_def)
    then show ?thesis unfolding marked(1) snd_conv
      by (intro lawful_map_artifacts) (auto simp: deletedAs_def artifactLater_def)
  qed
qed

lemma lawful_removeBlob [intro!]: "evolves (lawful env) (removeBlob env' cfg path n cid)"
  by (rule evolves_direct) (simp add: removeBlob_def lawful.rel_refl split: option.splits sum.splits)

lemma lawful_finish [intro!]: "evolves (lawful env) (finishArtifactBlobPurge env' cfg cid p n t)"
  unfolding finishArtifactBlobPurge_def by blast

lemma lawful_complete [intro!]: "evolves (lawful env) (completeApprovedArtifactPurges env' cfg)"
  unfolding completeApprovedArtifactPurges_def by blast

lemma getArtifact_iff: "getArtifact i s = (Inr a, s') \<longleftrightarrow> s' = s \<and> map_of (st_artifacts s) i = Some a"
  by (auto simp: getArtifact_def act_gets_def)

lemma lawful_settlePurge [intro!]: "evolves (lawful env) (settlePurge env' cfg ap re now a)"
  unfolding settlePurge_def by blast

lemma lawful_purgeFound:
  assumes "map_of (st_artifacts s) i = Some a"
  shows "lawful env s (snd (purgeFound env' cfg ap re now a s))"
proof -
  have "lawful env s (snd ((if Artifact_PurgedAt a = None then tombstone env' cfg a ap re now else act_return a) s))"
    using lawful_tombstone [OF assms] by (simp add: act_return_def lawful.rel_refl)
  then have "lawful env s (snd (act_bind (if Artifact_PurgedAt a = None then tombstone env' cfg a ap re now else act_return a)
      (settlePurge env' cfg ap re now) s))"
    using lawful_settlePurge unfolding evolves_def by (intro lawful.bind_at) blast+
  then show ?thesis by (simp add: purgeFound_def act_fail_def lawful.rel_refl)
qed

lemma lawful_storePurgeArtifact [intro!]: "evolves (lawful env) (storePurgeArtifact env' cfg i ap re now)"
  unfolding storePurgeArtifact_def
proof (rule evolves_direct, rule lawful.bind_at)
  show "lawful env s (snd (getArtifact i s))" for s using lawful_getArtifact by (simp add: evolves_def)
  show "getArtifact i s = (Inr a, s1) \<Longrightarrow> lawful env s1 (snd (purgeFound env' cfg ap r n a s1))" for s a s1 r n
    by (auto simp: getArtifact_iff intro: lawful_purgeFound)
qed

section \<open>Start-up\<close>

lemma lawful_migrateArtifactRetention [intro!]: "evolves (lawful env) (migrateArtifactRetention env' cfg)"
  by (rule evolves_direct) (auto simp: migrateArtifactRetention_def artifactLater_def artifactOK_def intro!: lawful_map_artifacts)

lemma lawful_recordEncryption [intro!]: "evolves (lawful env) (recordEncryption cfg cid)"
  by (rule evolves_direct) (auto simp: recordEncryption_def artifactLater_def artifactOK_def intro!: lawful_map_artifacts)

lemma lawful_resolveStoredBlob [intro!]: "evolves (lawful env) (resolveStoredBlob cid p n)"
  unfolding resolveStoredBlob_def by blast

lemma lawful_draw_blobs [simp]: "lawful env s (s\<lparr>st_draws := n, st_blobs := bs\<rparr>)"
  by (simp add: lawful_def storeOK_def historyKept_def tableKept_refl later_refl)

lemma lawful_rotate [intro!]: "evolves (lawful env) (rotateArtifactBlob env' cfg path content cid n scheme)"
  by (rule evolves_direct)
    (simp add: rotateArtifactBlob_def Let_def lawful.rel_refl split: sum.split prod.split)

lemma lawful_encryptBlob [intro!]: "evolves (lawful env) (encryptBlob env' cfg b)"
  unfolding encryptBlob_def by (auto split: prod.split sum.split)

lemma lawful_requirePlain [intro!]: "evolves (lawful env) (requirePlain b)"
  unfolding requirePlain_def by blast

lemma lawful_migrateArtifactEncryption [intro!]: "evolves (lawful env) (migrateArtifactEncryption env' cfg)"
  unfolding migrateArtifactEncryption_def by (cases "cfg_activeKeyID cfg = []") (simp_all, blast+)

lemma lawful_startStore [intro!]: "evolves (lawful env) (startStore env' cfg)"
  unfolding startStore_def by blast

section \<open>Blob paths\<close>

lemma hexVal_punctuation: "hexVal slash = None" "hexVal (CHR ''.'') = None"
  by code_simp+

lemma hexDecode_chars: "hexDecode h = Some d \<Longrightarrow> c \<in> set h \<Longrightarrow> hexVal c \<noteq> None"
  by (induction h arbitrary: d rule: hexDecode.induct) (auto split: option.splits)

lemma hex_properComp:
  assumes "\<forall>c \<in> set h. hexVal c \<noteq> None" "h \<noteq> []"
  shows "properComp h"
proof -
  have "slash \<notin> set h" "CHR ''.'' \<notin> set h" using assms(1) hexVal_punctuation by (metis, metis)
  with assms(2) show ?thesis by (auto simp: properComp_def)
qed

definition blobComps :: "string \<Rightarrow> string list" where
  "blobComps cid = [''blobs'', take 2 (trimPrefix cid ''sha256:''), trimPrefix cid ''sha256:'']"

lemma blobComps_proper:
  assumes "validContentID cid"
  shows "\<forall>c \<in> set (blobComps cid). properComp c"
proof -
  let ?h = "trimPrefix cid ''sha256:''"
  from assms have chars: "\<forall>c \<in> set ?h. hexVal c \<noteq> None"
    by (auto simp: validContentID_def dest: hexDecode_chars split: option.splits)
  have "length ?h = 64" using assms by (auto simp: validContentID_def trimPrefix_def)
  then have ne: "?h \<noteq> []" "take 2 ?h \<noteq> []" by auto
  have "properComp ?h" by (rule hex_properComp [OF chars ne(1)])
  moreover have "properComp (take 2 ?h)"
    by (rule hex_properComp [OF _ ne(2)]) (use chars in \<open>auto dest: in_set_takeD\<close>)
  moreover have "properComp ''blobs''" by (simp add: properComp_def)
  ultimately show ?thesis by (simp add: blobComps_def)
qed

lemma blobRelative_comps:
  "validContentID cid \<Longrightarrow> blobRelative (trimPrefix cid ''sha256:'') = strJoin [slash] (blobComps cid)"
  unfolding blobRelative_def blobComps_def [symmetric]
  by (intro pathJoin_proper blobComps_proper) (simp_all add: blobComps_def)

lemma clean_blobRelative:
  "validContentID cid \<Longrightarrow> clean (blobRelative (trimPrefix cid ''sha256:'')) = blobRelative (trimPrefix cid ''sha256:'')"
  unfolding blobRelative_comps by (intro clean_strJoin blobComps_proper) (simp_all add: blobComps_def)

lemma validContentID_split: "validContentID cid \<Longrightarrow> cid = ''sha256:'' @ trimPrefix cid ''sha256:''"
  by (auto simp: validContentID_def hasPrefix_iff trimPrefix_def)

lemma blobRelative_inj:
  assumes "validContentID c" "validContentID d"
    and "blobRelative (trimPrefix c ''sha256:'') = blobRelative (trimPrefix d ''sha256:'')"
  shows "c = d"
proof -
  have "blobComps c = blobComps d"
    using assms by (intro strJoin_proper_inj) (auto simp: blobComps_def blobRelative_comps dest!: blobComps_proper)
  then have "trimPrefix c ''sha256:'' = trimPrefix d ''sha256:''" unfolding blobComps_def by blast
  with validContentID_split [OF assms(1)] validContentID_split [OF assms(2)] show ?thesis by simp
qed

lemma validContentID_contentID: "length (sha bs) = 32 \<Longrightarrow> validContentID (contentID sha bs)"
  by (simp add: validContentID_def contentID_def hasPrefix_def trimPrefix_def)

lemma validatedArtifactBlobPath_iff:
  "validatedArtifactBlobPath cid storagePath n = Inr path \<longleftrightarrow>
     validContentID cid \<and> 0 \<le> n \<and> clean storagePath = blobRelative (trimPrefix cid ''sha256:'') \<and>
     path = blobRelative (trimPrefix cid ''sha256:'')"
  by (auto simp: validatedArtifactBlobPath_def validContentID_def split: option.splits)

section \<open>The custody invariant\<close>

text \<open>
  What the configuration and its cryptography provide: AES-GCM's laws, a 32-byte digest, 12-byte
  nonces, an artifact limit within the reach of the 32-bit chunk index, and an active key that is
  in the keyring under its digest, which is how \<^verbatim>\<open>prepareArtifactKeys\<close> builds it.
\<close>

definition cryptoOK :: "Env \<Rightarrow> bool" where
  "cryptoOK env \<longleftrightarrow> aeadLaws (env_aead env) \<and> (\<forall>bs. length (env_sha env bs) = 32) \<and> (\<forall>n. length (env_nonce env n) = 12)"

definition configOK :: "Env \<Rightarrow> StoreConfig \<Rightarrow> bool" where
  "configOK env cfg \<longleftrightarrow>
     0 \<le> cfg_maxArtifactBytes cfg \<and> cfg_maxArtifactBytes cfg < 2 ^ 48 \<and>
     (cfg_activeKeyID cfg \<noteq> [] \<longrightarrow>
       (\<exists>key. map_of (cfg_keys cfg) (cfg_activeKeyID cfg) = Some key \<and> length key = 32 \<and>
         cfg_activeKeyID cfg = contentID (env_sha env) key))"

definition blobHeld :: "Env \<Rightarrow> StoreConfig \<Rightarrow> (string \<times> string) list \<Rightarrow> Artifact \<Rightarrow> bool" where
  "blobHeld env cfg blobs a \<longleftrightarrow>
     (\<exists>content. map_of blobs (Artifact_StoragePath a) = Some content \<and>
        ok (verifyBlob env cfg content (Artifact_Size a) (Artifact_ContentID a)))"

definition custodyRow :: "Env \<Rightarrow> StoreConfig \<Rightarrow> (string \<times> string) list \<Rightarrow> Artifact \<Rightarrow> bool" where
  "custodyRow env cfg blobs a \<longleftrightarrow>
     validContentID (Artifact_ContentID a) \<and> 0 \<le> Artifact_Size a \<and> Artifact_Size a < 2 ^ 48 \<and>
     Artifact_StoragePath a = blobRelative (trimPrefix (Artifact_ContentID a) ''sha256:'') \<and>
     (Artifact_PurgedAt a = None \<longrightarrow> blobHeld env cfg blobs a)"

definition rowsOf :: "Store \<Rightarrow> Artifact set" where
  "rowsOf s = ran (map_of (st_artifacts s))"

definition sizesAgree :: "Artifact set \<Rightarrow> bool" where
  "sizesAgree as \<longleftrightarrow>
     (\<forall>a \<in> as. \<forall>b \<in> as. Artifact_ContentID a = Artifact_ContentID b \<longrightarrow> Artifact_Size a = Artifact_Size b)"

definition custodyOK :: "Env \<Rightarrow> StoreConfig \<Rightarrow> Store \<Rightarrow> bool" where
  "custodyOK env cfg s \<longleftrightarrow>
     storeOK env s \<and> (\<forall>a \<in> rowsOf s. custodyRow env cfg (st_blobs s) a) \<and> sizesAgree (rowsOf s)"

lemma rowsOf_I: "map_of (st_artifacts s) i = Some a \<Longrightarrow> a \<in> rowsOf s"
  by (auto simp: rowsOf_def ran_def)

lemma rowsOf_map: "rowsOf (s\<lparr>st_artifacts := map (\<lambda>(i, a). (i, f a)) (st_artifacts s)\<rparr>) = f ` rowsOf s"
  by (auto simp: rowsOf_def ran_def map_of_mapped image_iff)

lemma rowsOf_blobs [simp]: "rowsOf (s\<lparr>st_blobs := bs\<rparr>) = rowsOf s" "rowsOf (s\<lparr>st_draws := n\<rparr>) = rowsOf s"
  by (simp_all add: rowsOf_def)

lemma custodyOK_draws [simp]: "custodyOK env cfg (s\<lparr>st_draws := n\<rparr>) = custodyOK env cfg s"
  by (simp add: custodyOK_def)

lemma custodyOK_host [simp]: "custodyOK (env\<lparr>env_host := h\<rparr>) cfg s = custodyOK env cfg s"
  by (simp add: custodyOK_def storeOK_def custodyRow_def blobHeld_def)

lemma custodyOK_row: "custodyOK env cfg s \<Longrightarrow> map_of (st_artifacts s) i = Some a \<Longrightarrow> custodyRow env cfg (st_blobs s) a"
  by (auto simp: custodyOK_def dest: rowsOf_I)

text \<open>A change of the blobs that keeps every held blob held keeps the invariant.\<close>

lemma custodyOK_set_blobs:
  assumes "custodyOK env cfg s"
    and "\<And>a. a \<in> rowsOf s \<Longrightarrow> Artifact_PurgedAt a = None \<Longrightarrow> blobHeld env cfg (st_blobs s) a \<Longrightarrow> blobHeld env cfg bs a"
  shows "custodyOK env cfg (s\<lparr>st_blobs := bs\<rparr>)"
proof -
  have "custodyRow env cfg bs a" if "a \<in> rowsOf s" for a
    using assms(1) assms(2) [OF that] that unfolding custodyOK_def custodyRow_def by blast
  with assms(1) show ?thesis unfolding custodyOK_def by simp
qed

lemma custodyRow_cong:
  assumes "blobOf b = blobOf a" "Artifact_PurgedAt b = Artifact_PurgedAt a"
  shows "custodyRow env cfg bs b = custodyRow env cfg bs a"
proof -
  from assms(1) have "Artifact_ContentID b = Artifact_ContentID a" "Artifact_StoragePath b = Artifact_StoragePath a"
    "Artifact_Size b = Artifact_Size a" by (simp_all add: blobOf_def)
  with assms(2) show ?thesis by (simp only: custodyRow_def blobHeld_def)
qed

lemma sizesAgreeD:
  "sizesAgree as \<Longrightarrow> a \<in> as \<Longrightarrow> b \<in> as \<Longrightarrow> Artifact_ContentID a = Artifact_ContentID b \<Longrightarrow> Artifact_Size a = Artifact_Size b"
  unfolding sizesAgree_def by blast

lemma sizesAgree_image:
  assumes "sizesAgree as" "\<And>a. a \<in> as \<Longrightarrow> blobOf (f a) = blobOf a"
  shows "sizesAgree (f ` as)"
  unfolding sizesAgree_def
proof (intro ballI impI)
  fix x y
  assume "x \<in> f ` as" "y \<in> f ` as" and same: "Artifact_ContentID x = Artifact_ContentID y"
  then obtain a b where ab: "x = f a" "y = f b" "a \<in> as" "b \<in> as" by blast
  with assms(2) [of a] assms(2) [of b] same show "Artifact_Size x = Artifact_Size y"
    using sizesAgreeD [OF assms(1) ab(3,4)] by (simp add: blobOf_def)
qed

lemma custodyOK_map_rows:
  assumes "custodyOK env cfg s" "storeOK env (s\<lparr>st_artifacts := map (\<lambda>(i, a). (i, f a)) (st_artifacts s)\<rparr>)"
    and "\<And>a. a \<in> rowsOf s \<Longrightarrow> blobOf (f a) = blobOf a \<and> Artifact_PurgedAt (f a) = Artifact_PurgedAt a"
  shows "custodyOK env cfg (s\<lparr>st_artifacts := map (\<lambda>(i, a). (i, f a)) (st_artifacts s)\<rparr>)"
proof -
  have "custodyRow env cfg (st_blobs s) (f a)" if "a \<in> rowsOf s" for a
  proof -
    from assms(1) that have "custodyRow env cfg (st_blobs s) a" unfolding custodyOK_def by blast
    then show ?thesis using assms(3) [OF that] custodyRow_cong [of "f a" a] by blast
  qed
  moreover have "sizesAgree (f ` rowsOf s)"
    using assms(1) assms(3) unfolding custodyOK_def by (intro sizesAgree_image) blast+
  ultimately show ?thesis using assms(2) unfolding custodyOK_def rowsOf_map by simp
qed

lemma blobHeld_snoc: "blobHeld env cfg bs a \<Longrightarrow> blobHeld env cfg (bs @ [b]) a"
  by (auto simp: blobHeld_def map_add_def)

section \<open>Reading\<close>

text \<open>What a held blob delivers.\<close>

lemma openArtifact_verified:
  assumes "map_of (st_artifacts s) i = Some a" "Artifact_PurgedAt a = None" "validContentID (Artifact_ContentID a)"
    and "clean (Artifact_StoragePath a) = blobRelative (trimPrefix (Artifact_ContentID a) ''sha256:'')"
    and "map_of (st_blobs s) (blobRelative (trimPrefix (Artifact_ContentID a) ''sha256:'')) = Some content"
    and "verifyBlob env cfg content (Artifact_Size a) (Artifact_ContentID a) = Inr (scheme, keyID)"
  shows "\<exists>p. openArtifact env cfg i s = (Inr (a\<lparr>Artifact_Encryption := scheme, Artifact_EncryptionKeyID := keyID\<rparr>, p), s) \<and>
    contentID (env_sha env) p = Artifact_ContentID a \<and> int (length p) = Artifact_Size a"
proof -
  have open_eq: "openArtifact env cfg i s =
      (rbind (if scheme = [] then Inr content
              else rbind (readEncrypted (env_aead env) (env_sha env) (cfg_keys cfg) content (Artifact_Size a) (Artifact_ContentID a))
                     (\<lambda>r. Inr (fst r)))
        (\<lambda>p. Inr (a\<lparr>Artifact_Encryption := scheme, Artifact_EncryptionKeyID := keyID\<rparr>, p)), s)"
    using assms
    by (simp add: openArtifact_def getArtifact_def act_bind_def act_gets_def lookup_def Let_def rbind_def split: sum.split)
  from verifyArtifactFile_content [OF assms(6)] show ?thesis
  proof
    assume "scheme = [] \<and> keyID = [] \<and> int (length content) = Artifact_Size a \<and> contentID (env_sha env) content = Artifact_ContentID a"
    with open_eq show ?thesis by auto
  next
    assume "scheme = artifactEncryptionScheme \<and> map_of (cfg_keys cfg) keyID \<noteq> None \<and>
      encryptedArtifactSize (Artifact_Size a) (aead_Overhead (env_aead env)) = Inr (int (length content)) \<and>
      (\<exists>p. readEncrypted (env_aead env) (env_sha env) (cfg_keys cfg) content (Artifact_Size a) (Artifact_ContentID a) = Inr (p, keyID) \<and>
        int (length p) = Artifact_Size a \<and> contentID (env_sha env) p = Artifact_ContentID a)"
    moreover have "artifactEncryptionScheme \<noteq> []" by (simp add: artifactEncryptionScheme_def)
    ultimately show ?thesis using open_eq by auto
  qed
qed

lemma openArtifact_delivers:
  assumes "custodyOK env cfg s" "map_of (st_artifacts s) i = Some a" "Artifact_PurgedAt a = None"
  shows "\<exists>scheme keyID p. openArtifact env cfg i s =
      (Inr (a\<lparr>Artifact_Encryption := scheme, Artifact_EncryptionKeyID := keyID\<rparr>, p), s) \<and>
    contentID (env_sha env) p = Artifact_ContentID a \<and> int (length p) = Artifact_Size a \<and>
    (\<forall>content. map_of (st_blobs s) (Artifact_StoragePath a) = Some content \<longrightarrow>
      verifyBlob env cfg content (Artifact_Size a) (Artifact_ContentID a) = Inr (scheme, keyID))"
proof -
  from custodyOK_row [OF assms(1,2)] assms(3) obtain content scheme keyID where
    row: "validContentID (Artifact_ContentID a)" "Artifact_StoragePath a = blobRelative (trimPrefix (Artifact_ContentID a) ''sha256:'')"
      "map_of (st_blobs s) (Artifact_StoragePath a) = Some content"
      "verifyBlob env cfg content (Artifact_Size a) (Artifact_ContentID a) = Inr (scheme, keyID)"
    by (auto simp: custodyRow_def blobHeld_def ok_iff)
  then have "clean (Artifact_StoragePath a) = blobRelative (trimPrefix (Artifact_ContentID a) ''sha256:'')" by (simp add: clean_blobRelative)
  from openArtifact_verified [OF assms(2,3) row(1) this _ row(4)] row(2-4) show ?thesis by auto
qed

section \<open>Ingestion keeps custody\<close>

text \<open>
  Evidence the store can keep: with encryption on, anything; without, anything that does not
  begin with the magic bytes of an encrypted file.
\<close>

definition admissible :: "StoreConfig \<Rightarrow> string \<Rightarrow> bool" where
  "admissible cfg source \<longleftrightarrow> cfg_activeKeyID cfg \<noteq> [] \<or> \<not> hasPrefix source artifactMagic"

lemma copyBounded_Inr:
  assumes "copyBounded env source limit = Inr (content, written, cid)" "0 \<le> limit" "limit < 2 ^ 48"
  shows "content = source \<and> written = int (length source) \<and> cid = contentID (env_sha env) source \<and> written \<le> limit"
proof -
  have w: "wrap64 (limit + 1) = limit + 1" using assms(2,3) by (simp add: is_int64_def)
  from assms(1) have c: "content = take (nat (limit + 1)) source" "int (length content) \<le> limit"
    "written = int (length content)" "cid = contentID (env_sha env) content"
    by (auto simp: copyBounded_def Let_def w split: if_splits)
  then have "length source \<le> nat (limit + 1)" by (simp add: min_def split: if_splits)
  with c show ?thesis by simp
qed

lemma ingest_Inr:
  assumes "cryptoOK env" "configOK env cfg" "ingest env cfg source s = (Inr (content, written, cid), s1)"
  shows "s1 = s\<lparr>st_draws := st_draws s1\<rparr> \<and> written = int (length source) \<and> cid = contentID (env_sha env) source \<and>
    written < 2 ^ 48 \<and> (admissible cfg source \<longrightarrow> ok (verifyBlob env cfg content written cid))"
proof (cases "cfg_activeKeyID cfg = []")
  case True
  with assms(3) have "copyBounded env source (cfg_maxArtifactBytes cfg) = Inr (content, written, cid)" "s1 = s"
    by (simp_all add: ingest_def)
  with copyBounded_Inr assms(2) have "content = source" "written = int (length source)"
    "cid = contentID (env_sha env) source" "written \<le> cfg_maxArtifactBytes cfg"
    unfolding configOK_def by blast+
  with True assms(2) \<open>s1 = s\<close> show ?thesis
    by (auto simp: admissible_def verifyArtifactFile_def configOK_def)
next
  case False
  with assms(2) obtain key where key: "map_of (cfg_keys cfg) (cfg_activeKeyID cfg) = Some key" "length key = 32"
    "cfg_activeKeyID cfg = contentID (env_sha env) key" by (auto simp: configOK_def)
  let ?limit = "cfg_maxArtifactBytes cfg"
  have lim: "0 \<le> ?limit" "?limit < 2 ^ 48" using assms(2) by (simp_all add: configOK_def)
  have laws: "aeadLaws (env_aead env)" "length (env_nonce env (st_draws s)) = 12" "length (env_sha env key) = 32"
    using assms(1) by (simp_all add: cryptoOK_def)
  from assms(3) False key have enc: "encryptArtifact (env_aead env) (env_sha env) (env_nonce env (st_draws s)) source ?limit key
      (contentID (env_sha env) key) = Inr (content, written, cid)" "s1 = s\<lparr>st_draws := st_draws s + 1\<rparr>"
    by (simp_all add: ingest_def)
  have fits: "int (length source) \<le> ?limit"
  proof (rule ccontr)
    assume "\<not> int (length source) \<le> ?limit"
    then have "?limit < int (length source)" by simp
    from encryptArtifact_oversized [of key "env_sha env", OF key(2) laws(3) lim this] enc(1) show False by simp
  qed
  have "map_of (cfg_keys cfg) (contentID (env_sha env) key) = Some key" using key by simp
  from encryptArtifact_fits [of "env_aead env" _ key "env_sha env", OF laws(1,2) key(2) laws(3) this lim fits] enc fits lim
  show ?thesis by auto
qed

lemma rowsOf_snoc:
  "map_of (st_artifacts s) i = None \<Longrightarrow> rowsOf (s\<lparr>st_artifacts := st_artifacts s @ [(i, m)]\<rparr>) = insert m (rowsOf s)"
proof -
  assume none: "map_of (st_artifacts s) i = None"
  then have "map_of (st_artifacts s @ [(i, m)]) = (map_of (st_artifacts s))(i \<mapsto> m)"
    by (simp add: fun_eq_iff map_of_snoc_fresh del: map_of_append)
  with none show ?thesis by (simp add: rowsOf_def del: map_of_append)
qed

lemma custodyOK_add_row:
  assumes "custodyOK env cfg s" "storeOK env (s\<lparr>st_artifacts := st_artifacts s @ [(i, m)]\<rparr>)" "map_of (st_artifacts s) i = None"
    and "custodyRow env cfg (st_blobs s) m"
    and "\<And>b. b \<in> rowsOf s \<Longrightarrow> Artifact_ContentID b = Artifact_ContentID m \<Longrightarrow> Artifact_Size b = Artifact_Size m"
  shows "custodyOK env cfg (s\<lparr>st_artifacts := st_artifacts s @ [(i, m)]\<rparr>)"
proof -
  have "sizesAgree (insert m (rowsOf s))"
    using assms(1,5) unfolding custodyOK_def sizesAgree_def by (metis insert_iff)
  with assms show ?thesis unfolding custodyOK_def rowsOf_snoc [OF assms(3)] by simp
qed

definition noCollision :: "Env \<Rightarrow> Store \<Rightarrow> string \<Rightarrow> bool" where
  "noCollision env s source \<longleftrightarrow>
     list_all (\<lambda>(i, b). Artifact_ContentID b = contentID (env_sha env) source \<longrightarrow> Artifact_Size b = int (length source)) (st_artifacts s)"

lemma noCollisionD:
  assumes "noCollision env s source" "b \<in> rowsOf s" "Artifact_ContentID b = contentID (env_sha env) source"
  shows "Artifact_Size b = int (length source)"
proof -
  from assms(2) obtain i where "map_of (st_artifacts s) i = Some b" by (auto simp: rowsOf_def ran_def)
  then have "(i, b) \<in> set (st_artifacts s)" by (rule map_of_SomeD)
  with assms(1,3) show ?thesis by (auto simp: noCollision_def list_all_iff)
qed

text \<open>The blob of a placed artifact is held, and its metadata is the given one up to the encryption fields.\<close>

lemma placeBlob_held:
  assumes "placeBlob env cfg path content m s = (Inr m3, s1)" "custodyOK env cfg s"
    and "ok (verifyBlob env cfg content (Artifact_Size m) (Artifact_ContentID m))"
  shows "custodyOK env cfg s1 \<and> rowsOf s1 = rowsOf s \<and> st_artifacts s1 = st_artifacts s \<and>
    (\<exists>x y. m3 = m\<lparr>Artifact_Encryption := x, Artifact_EncryptionKeyID := y\<rparr>) \<and>
    blobHeld env cfg (st_blobs s1) (m3\<lparr>Artifact_StoragePath := path\<rparr>)"
proof (cases rule: placeBlob_cases [of env cfg path content m s])
  case (refused e)
  with assms(1) show ?thesis by simp
next
  case installed
  with assms(1) have s1: "m3 = m" "s1 = s\<lparr>st_blobs := st_blobs s @ [(path, content)]\<rparr>" by simp_all
  have "custodyOK env cfg s1"
    unfolding s1 by (rule custodyOK_set_blobs [OF assms(2)]) (rule blobHeld_snoc)
  moreover have "map_of (st_blobs s @ [(path, content)]) path = Some content"
    using installed(1) by (simp add: map_add_def)
  moreover have "\<exists>x y. m = m\<lparr>Artifact_Encryption := x, Artifact_EncryptionKeyID := y\<rparr>"
    by (rule exI [of _ "Artifact_Encryption m"], rule exI [of _ "Artifact_EncryptionKeyID m"]) simp
  ultimately show ?thesis using s1 assms(3) by (simp add: blobHeld_def del: map_of_append)
next
  case (kept existing scheme keyID)
  with assms(1) have "m3 = m\<lparr>Artifact_Encryption := scheme, Artifact_EncryptionKeyID := keyID\<rparr>" "s1 = s" by simp_all
  with assms(2) kept(1,2) show ?thesis by (auto simp: blobHeld_def)
qed

lemma storeBlob_custody:
  assumes "custodyOK env cfg s" "ok (verifyBlob env cfg content (Artifact_Size m) (Artifact_ContentID m))"
    and "validContentID (Artifact_ContentID m)" "Artifact_Size m < 2 ^ 48" "freshRow m"
    and "path = blobRelative (trimPrefix (Artifact_ContentID m) ''sha256:'')"
    and "\<And>b. b \<in> rowsOf s \<Longrightarrow> Artifact_ContentID b = Artifact_ContentID m \<Longrightarrow> Artifact_Size b = Artifact_Size m"
  shows "custodyOK env cfg (snd (storeBlob env cfg path content m s))"
proof (cases rule: placeBlob_cases [of env cfg path content m s])
  case (refused e)
  with assms(1) show ?thesis by (simp add: storeBlob_def act_bind_def)
next
  have step: "custodyOK env cfg (snd (storeBlob env cfg path content m s))"
    if placed: "placeBlob env cfg path content m s = (Inr m3, s1)" for m3 s1
  proof -
    let ?m = "m3\<lparr>Artifact_StoragePath := path\<rparr>"
    from placeBlob_held [OF placed assms(1,2)] obtain x y where
      p: "custodyOK env cfg s1" "rowsOf s1 = rowsOf s" "m3 = m\<lparr>Artifact_Encryption := x, Artifact_EncryptionKeyID := y\<rparr>"
        "blobHeld env cfg (st_blobs s1) ?m" by blast
    have eq: "storeBlob env cfg path content m s = act_bind (insertArtifact ?m) (\<lambda>_. act_return ?m) s1"
      by (simp add: storeBlob_def act_bind_def placed)
    show ?thesis
    proof (cases rule: insertArtifact_cases [of ?m s1])
      case (refused e)
      with p(1) eq show ?thesis by (simp add: act_bind_def)
    next
      case written
      have row: "custodyRow env cfg (st_blobs s1) ?m"
        using assms(3,4,6) p(3,4) written(3) by (auto simp: custodyRow_def)
      have "evolves (lawful env) (insertArtifact ?m)"
        using assms(5) p(3) by (intro lawful_insertArtifact) (simp add: freshRow_def)
      with written(1) p(1) have "storeOK env (s1\<lparr>st_artifacts := st_artifacts s1 @ [(Artifact_ID ?m, ?m)]\<rparr>)"
        using evolvesD by (fastforce simp: lawful_def custodyOK_def)
      from custodyOK_add_row [OF p(1) this written(2) row] assms(7) p(2,3)
      show ?thesis using written(1) eq by (simp add: act_bind_def act_return_def)
    qed
  qed
  {
    case installed
    show ?thesis by (rule step [OF installed(2)])
  next
    case (kept existing scheme keyID)
    show ?thesis by (rule step [OF kept(3)])
  }
qed

lemma custody_putArtifact:
  assumes "custodyOK env cfg s" "cryptoOK env" "configOK env cfg" "admissible cfg source" "noCollision env s source"
  shows "custodyOK env cfg (snd (putArtifact env cfg metadata source s))"
proof -
  have "custodyOK env cfg (snd (act_bind (ingest env cfg source) (\<lambda>(content, written, cid).
      storeBlob env cfg (blobRelative (trimPrefix cid ''sha256:'')) content (putMetadata env cfg i metadata cid written)) s1))"
    if s1: "custodyOK env cfg s1" "st_artifacts s1 = st_artifacts s" for s1 i
  proof (cases "ingest env cfg source s1")
    case (Pair r s2)
    show ?thesis
    proof (cases r)
      case (Inl e)
      with Pair s1 show ?thesis by (auto simp: act_bind_def ingest_def split: if_splits)
    next
      case (Inr q)
      obtain content written cid where q: "q = (content, written, cid)" by (cases q)
      from ingest_Inr [OF assms(2,3), of source s1 content written cid s2] Pair Inr q assms(4)
      have in_: "s2 = s1\<lparr>st_draws := st_draws s2\<rparr>" "written = int (length source)" "cid = contentID (env_sha env) source"
        "written < 2 ^ 48" "ok (verifyBlob env cfg content written cid)" by auto
      have c2: "custodyOK env cfg s2" using in_(1) s1(1) custodyOK_draws by metis
      have rows: "rowsOf s2 = rowsOf s" using in_(1) s1(2) by (metis rowsOf_blobs(2) rowsOf_def)
      have vc: "validContentID cid" using assms(2) in_(3) by (simp add: cryptoOK_def validContentID_contentID)
      have "custodyOK env cfg (snd (storeBlob env cfg (blobRelative (trimPrefix cid ''sha256:'')) content
          (putMetadata env cfg i metadata cid written) s2))"
        by (rule storeBlob_custody [OF c2]) (use in_ vc rows noCollisionD [OF assms(5)] in auto)
      then show ?thesis using Pair Inr q by (simp add: act_bind_def)
    qed
  qed
  then show ?thesis
    using assms(1) by (simp add: putArtifact_steps act_bind_def [of "if _ then _ else _"] newID_def act_return_def act_fail_def)
qed

section \<open>Purge keeps custody\<close>

definition unreferenced :: "Store \<Rightarrow> string \<Rightarrow> bool" where
  "unreferenced s cid \<longleftrightarrow> (\<forall>a \<in> rowsOf s. Artifact_ContentID a = cid \<longrightarrow> Artifact_PurgedAt a \<noteq> None)"

lemma activeReferences_zero: "activeReferences s cid = 0 \<Longrightarrow> unreferenced s cid"
  by (auto simp: activeReferences_def unreferenced_def rowsOf_def ran_def filter_empty_conv dest!: map_of_SomeD)

lemma removeBlob_cases:
  obtains (refused) e where "removeBlob env cfg path n cid s = (Inl e, s)"
  | (absent) "removeBlob env cfg path n cid s = (Inr (), s)" "map_of (st_blobs s) path = None"
  | (removed) "removeBlob env cfg path n cid s = (Inr (), s\<lparr>st_blobs := AList.delete path (st_blobs s)\<rparr>)"
proof (cases "map_of (st_blobs s) path")
  case None
  then show ?thesis using absent by (simp add: removeBlob_def)
next
  case (Some content)
  then show ?thesis using refused removed
    by (cases "verifyBlob env cfg content n cid") (simp_all add: removeBlob_def)
qed

lemma custody_delete:
  assumes "custodyOK env cfg s" "unreferenced s cid" "validContentID cid"
  shows "custodyOK env cfg (s\<lparr>st_blobs := AList.delete (blobRelative (trimPrefix cid ''sha256:'')) (st_blobs s)\<rparr>)"
proof (rule custodyOK_set_blobs [OF assms(1)])
  fix a
  assume a: "a \<in> rowsOf s" "Artifact_PurgedAt a = None" "blobHeld env cfg (st_blobs s) a"
  then have "Artifact_ContentID a \<noteq> cid" using assms(2) by (auto simp: unreferenced_def)
  moreover from assms(1) a(1) have "custodyRow env cfg (st_blobs s) a" unfolding custodyOK_def by blast
  ultimately have "Artifact_StoragePath a \<noteq> blobRelative (trimPrefix cid ''sha256:'')"
    using blobRelative_inj [OF _ assms(3)] by (auto simp: custodyRow_def)
  with a(3) show "blobHeld env cfg (AList.delete (blobRelative (trimPrefix cid ''sha256:'')) (st_blobs s)) a"
    by (simp add: blobHeld_def delete_conv')
qed

lemma markDeleted_custody:
  assumes "custodyOK env cfg s"
  shows "custodyOK env cfg (snd (markDeleted cid t s)) \<and>
    (\<forall>c. unreferenced s c \<longrightarrow> unreferenced (snd (markDeleted cid t s)) c)"
proof (cases rule: markDeleted_cases [of cid t s])
  case (refused e)
  with assms show ?thesis by simp
next
  case marked
  have "storeOK env s" using assms by (simp add: custodyOK_def)
  then have "storeOK env (snd (markDeleted cid t s))"
    using lawful_markDeleted [of env cid t] by (simp add: evolves_def lawful_def)
  then have "custodyOK env cfg (snd (markDeleted cid t s))"
    unfolding marked(1) snd_conv
    by (intro custodyOK_map_rows [OF assms]) (simp_all add: deletedAs_def blobOf_def)
  moreover have "unreferenced (snd (markDeleted cid t s)) c" if "unreferenced s c" for c
    using that unfolding marked(1) snd_conv unreferenced_def rowsOf_map by (auto simp: deletedAs_def)
  ultimately show ?thesis by blast
qed

lemma custody_finish:
  assumes "custodyOK env cfg s" "unreferenced s cid"
  shows "custodyOK env cfg (snd (finishArtifactBlobPurge env' cfg' cid p n t s)) \<and>
    (\<forall>c. unreferenced s c \<longrightarrow> unreferenced (snd (finishArtifactBlobPurge env' cfg' cid p n t s)) c)"
proof (cases "validatedArtifactBlobPath cid p n")
  case (Inl e)
  with assms show ?thesis by (simp add: finishArtifactBlobPurge_def act_bind_def act_lift_def)
next
  case (Inr path)
  then have path: "validContentID cid" "path = blobRelative (trimPrefix cid ''sha256:'')"
    by (simp_all add: validatedArtifactBlobPath_iff)
  have eq: "finishArtifactBlobPurge env' cfg' cid p n t s =
      act_bind (removeBlob env' cfg' path n cid) (\<lambda>_. markDeleted cid t) s"
    by (simp add: finishArtifactBlobPurge_def act_bind_def act_lift_def Inr)
  show ?thesis
  proof (cases rule: removeBlob_cases [of env' cfg' path n cid s])
    case (refused e)
    with assms eq show ?thesis by (simp add: act_bind_def)
  next
    case absent
    with markDeleted_custody [OF assms(1), of cid t] eq show ?thesis by (simp add: act_bind_def)
  next
    case removed
    let ?s = "s\<lparr>st_blobs := AList.delete path (st_blobs s)\<rparr>"
    have "custodyOK env cfg ?s" using custody_delete [OF assms path(1)] path(2) by simp
    from markDeleted_custody [OF this, of cid t] removed eq show ?thesis
      by (simp add: act_bind_def unreferenced_def)
  qed
qed

lemma rowsOf_update:
  "map_of (st_artifacts s) i = Some a \<Longrightarrow>
    rowsOf (s\<lparr>st_artifacts := AList.update i b (st_artifacts s)\<rparr>) \<subseteq> insert b (rowsOf s)"
  by (auto simp: rowsOf_def ran_def update_conv' split: if_splits)

lemma custody_tombstone:
  assumes "custodyOK env cfg s" "map_of (st_artifacts s) i = Some a" "Artifact_PurgedAt a = None"
  shows "custodyOK env cfg (snd (tombstone env' cfg' a ap re now s))"
proof (cases rule: tombstone_cases [of env' cfg' a ap re now s])
  case (refused e)
  with assms(1) show ?thesis by simp
next
  case (written path content v)
  let ?a = "tombstoned ap re now a" and ?s = "s\<lparr>st_artifacts := AList.update (Artifact_ID a) (tombstoned ap re now a) (st_artifacts s)\<rparr>"
  have ok: "storeOK env s" using assms(1) by (simp add: custodyOK_def)
  then have i: "Artifact_ID a = i" using storeOK_artifact [OF ok assms(2)] by (simp add: artifactOK_def)
  have ok': "storeOK env ?s"
    using lawful_tombstone [OF assms(2,3), of env env' cfg' ap re now] ok written(4) by (simp add: lawful_def)
  have a: "custodyRow env cfg (st_blobs s) a" by (rule custodyOK_row [OF assms(1,2)])
  then have row: "custodyRow env cfg (st_blobs s) ?a" by (simp add: custodyRow_def)
  have rows: "rowsOf ?s \<subseteq> insert ?a (rowsOf s)" unfolding i by (rule rowsOf_update [OF assms(2)])
  have "sizesAgree (rowsOf ?s)"
    unfolding sizesAgree_def
  proof (intro ballI impI)
    fix x y
    assume xy: "x \<in> rowsOf ?s" "y \<in> rowsOf ?s" and same: "Artifact_ContentID x = Artifact_ContentID y"
    let ?old = "\<lambda>z. if z = ?a then a else z"
    have "?old x \<in> rowsOf s" "?old y \<in> rowsOf s" using xy rows rowsOf_I [OF assms(2)] by auto
    moreover have "Artifact_ContentID (?old z) = Artifact_ContentID z" "Artifact_Size (?old z) = Artifact_Size z" for z
      by simp_all
    ultimately show "Artifact_Size x = Artifact_Size y"
      using sizesAgreeD [of "rowsOf s" "?old x" "?old y"] assms(1) same unfolding custodyOK_def by metis
  qed
  moreover have "\<forall>b \<in> rowsOf ?s. custodyRow env cfg (st_blobs s) b"
    using rows row assms(1) unfolding custodyOK_def by blast
  ultimately show ?thesis using ok' written(4) unfolding custodyOK_def by simp
qed

lemma custody_settlePurge:
  assumes "custodyOK env cfg s"
  shows "custodyOK env cfg (snd (settlePurge env' cfg' ap re now a s))"
proof -
  let ?finish = "finishArtifactBlobPurge env' cfg' (Artifact_ContentID a) (Artifact_StoragePath a) (Artifact_Size a) now"
  have fin: "custodyOK env cfg (snd (?finish s))" if "activeReferences s (Artifact_ContentID a) = 0"
    using custody_finish [OF assms activeReferences_zero [OF that]] by blast
  have get: "snd (getArtifact i u) = u" for i u by (simp add: getArtifact_def act_gets_def)
  obtain r s1 where r: "?finish s = (r, s1)" by fastforce
  from fin r get assms show ?thesis
    by (cases r) (auto simp: settlePurge_def act_bind_def act_gets_def act_fail_def act_return_def)
qed

lemma custody_purgeFound:
  assumes "custodyOK env cfg s" "map_of (st_artifacts s) i = Some a"
  shows "custodyOK env cfg (snd (purgeFound env' cfg' ap re now a s))"
proof -
  let ?m = "if Artifact_PurgedAt a = None then tombstone env' cfg' a ap re now else act_return a"
  obtain r s1 where r: "?m s = (r, s1)" by fastforce
  have "custodyOK env cfg (snd (?m s))"
    using custody_tombstone [OF assms] assms(1) by (simp add: act_return_def)
  with r have s1: "custodyOK env cfg s1" by simp
  have "snd (act_bind ?m (settlePurge env' cfg' ap re now) s) =
      (case r of Inl e \<Rightarrow> s1 | Inr x \<Rightarrow> snd (settlePurge env' cfg' ap re now x s1))"
    unfolding act_bind_def r by (cases r) simp_all
  also have "custodyOK env cfg \<dots>"
    using s1 custody_settlePurge [OF s1] by (cases r) simp_all
  finally show ?thesis using assms(1) by (simp add: purgeFound_def act_fail_def)
qed

lemma custody_storePurgeArtifact:
  assumes "custodyOK env cfg s"
  shows "custodyOK env cfg (snd (storePurgeArtifact env' cfg' i ap re now s))"
proof (cases "map_of (st_artifacts s) i")
  case None
  with assms show ?thesis by (simp add: storePurgeArtifact_def act_bind_def getArtifact_def act_gets_def lookup_def)
next
  case (Some a)
  then have "getArtifact i s = (Inr a, s)" by (simp add: getArtifact_iff)
  with custody_purgeFound [OF assms Some] show ?thesis by (simp add: storePurgeArtifact_def act_bind_def)
qed

lemma custody_each_finish:
  assumes "\<And>e u. snd (h e u) = u" "\<And>e u. isl (fst (h e u))"
    and "custodyOK env cfg s" "\<forall>(cid, p, n) \<in> set blobs. unreferenced s cid"
  shows "custodyOK env cfg (snd (act_each (\<lambda>(cid, path, bsize).
       act_catch (finishArtifactBlobPurge env' cfg' cid path bsize t) h) blobs s))"
  using assms(3,4)
proof (induction blobs arbitrary: s)
  case Nil
  then show ?case by (simp add: act_return_def)
next
  case (Cons b blobs)
  obtain cid p n where b: "b = (cid, p, n)" by (cases b)
  let ?f = "finishArtifactBlobPurge env' cfg' cid p n t"
  obtain r s1 where r: "?f s = (r, s1)" by fastforce
  from Cons.prems b have "unreferenced s cid" by simp
  from custody_finish [OF Cons.prems(1) this, of env' cfg' p n t] r
  have s1: "custodyOK env cfg s1" "\<forall>c. unreferenced s c \<longrightarrow> unreferenced s1 c" by simp_all
  with Cons.prems(2) b have rest: "\<forall>(cid, p, n) \<in> set blobs. unreferenced s1 cid" by auto
  show ?case
  proof (cases r)
    case (Inl e)
    with assms(1) [of e s1] assms(2) [of e s1] r s1(1) b show ?thesis
      by (auto simp: act_bind_def act_catch_def isl_def split: prod.splits)
  next
    case (Inr u)
    with r b Cons.IH [OF s1(1) rest] show ?thesis by (simp add: act_bind_def act_catch_def)
  qed
qed

lemma custody_complete:
  assumes "custodyOK env cfg s"
  shows "custodyOK env cfg (snd (completeApprovedArtifactPurges env' cfg' s))"
proof -
  have "unreferenced s cid" if blob: "(cid, p, n) \<in> set (purgedBlobs s)" for cid p n
    unfolding unreferenced_def
  proof (intro ballI impI)
    fix a
    assume a: "a \<in> rowsOf s" "Artifact_ContentID a = cid"
    from blob have none: "Artifact_PurgedAt c \<noteq> None" if "(j, c) \<in> set (st_artifacts s)" "blobOf c = (cid, p, n)" for j c
      using that by (auto simp: purgedBlobs_def list_ex_iff)
    from blob obtain i b where b: "(i, b) \<in> set (st_artifacts s)" "blobOf b = (cid, p, n)"
      by (auto simp: purgedBlobs_def)
    have "distinct (map fst (st_artifacts s))" using assms by (simp add: custodyOK_def storeOK_def tableOK_def)
    with b(1) have "b \<in> rowsOf s" by (auto simp: rowsOf_def ran_def)
    with a b(2) assms have "blobOf a = (cid, p, n)"
      using sizesAgreeD [of "rowsOf s" a b] by (auto simp: custodyOK_def custodyRow_def blobOf_def)
    moreover obtain j where "(j, a) \<in> set (st_artifacts s)" using a(1) by (auto simp: rowsOf_def ran_def dest: map_of_SomeD)
    ultimately show "Artifact_PurgedAt a \<noteq> None" using none by blast
  qed
  then have "\<forall>(cid, p, n) \<in> set (purgedBlobs s). unreferenced s cid" by blast
  from custody_each_finish [OF _ _ assms this] show ?thesis
    by (simp add: completeApprovedArtifactPurges_def act_bind_def act_gets_def act_fail_def)
qed

section \<open>Start-up keeps custody\<close>

text \<open>A later keyring that still has every earlier key.\<close>

definition keyringGrows :: "StoreConfig \<Rightarrow> StoreConfig \<Rightarrow> bool" where
  "keyringGrows cfg cfg' \<longleftrightarrow> map_of (cfg_keys cfg) \<subseteq>\<^sub>m map_of (cfg_keys cfg')"

lemma map_le_lookup: "m \<subseteq>\<^sub>m m' \<Longrightarrow> m k \<noteq> None \<Longrightarrow> m' k = m k"
  by (auto simp: map_le_def dom_def)

lemma readEncrypted_more_keys:
  "map_of ks \<subseteq>\<^sub>m map_of ks' \<Longrightarrow> readEncrypted A sha ks content n cid = Inr r \<Longrightarrow>
    readEncrypted A sha ks' content n cid = Inr r"
proof -
  assume le: "map_of ks \<subseteq>\<^sub>m map_of ks'" and r: "readEncrypted A sha ks content n cid = Inr r"
  let ?keyID = "''sha256:'' @ hexEncode (take 32 (drop 8 (take 52 content)))"
  from r have "map_of ks ?keyID \<noteq> None"
    by (cases "map_of ks ?keyID") (simp_all add: readEncrypted_def Let_def split: if_splits)
  with le have "map_of ks' ?keyID = map_of ks ?keyID" by (rule map_le_lookup)
  with r show ?thesis by (simp only: readEncrypted_def Let_def)
qed

lemma verifyBlob_more_keys:
  "keyringGrows cfg cfg' \<Longrightarrow> verifyBlob env cfg content n cid = Inr v \<Longrightarrow> verifyBlob env cfg' content n cid = Inr v"
  by (auto simp: keyringGrows_def verifyArtifactFile_def dest: readEncrypted_more_keys split: if_splits)

lemma custodyOK_more_keys:
  assumes "keyringGrows cfg cfg'" "custodyOK env cfg s"
  shows "custodyOK env cfg' s"
proof -
  have "blobHeld env cfg' bs a" if "blobHeld env cfg bs a" for bs a
    using that verifyBlob_more_keys [OF assms(1)] by (fastforce simp: blobHeld_def ok_iff)
  then have "custodyRow env cfg' (st_blobs s) a" if "custodyRow env cfg (st_blobs s) a" for a
    using that by (simp add: custodyRow_def)
  with assms(2) show ?thesis by (simp add: custodyOK_def)
qed

definition sealedAs :: "Env \<Rightarrow> StoreConfig \<Rightarrow> Store \<Rightarrow> string \<Rightarrow> bool" where
  "sealedAs env cfg s cid \<longleftrightarrow>
     (\<forall>a \<in> rowsOf s. Artifact_ContentID a = cid \<longrightarrow> Artifact_PurgedAt a = None \<longrightarrow>
       (\<exists>content. map_of (st_blobs s) (Artifact_StoragePath a) = Some content \<and>
          verifyBlob env cfg content (Artifact_Size a) cid = Inr (artifactEncryptionScheme, cfg_activeKeyID cfg)))"

text \<open>Rotation replaces the file by an encryption of the same evidence under the active key.\<close>

lemma rotate_seals:
  assumes "cryptoOK env" "configOK env cfg" "cfg_activeKeyID cfg \<noteq> []" "n < 2 ^ 48"
    and "verifyBlob env cfg content n cid = Inr (scheme, keyID)"
  shows "\<exists>stored. rotateArtifactBlob env cfg path content cid n scheme s =
      (Inr (), s\<lparr>st_draws := st_draws s + 1, st_blobs := AList.update path stored (st_blobs s)\<rparr>) \<and>
    verifyBlob env cfg stored n cid = Inr (artifactEncryptionScheme, cfg_activeKeyID cfg)"
proof -
  from assms(2,3) obtain key where key: "map_of (cfg_keys cfg) (cfg_activeKeyID cfg) = Some key" "length key = 32"
    "cfg_activeKeyID cfg = contentID (env_sha env) key" by (auto simp: configOK_def)
  have laws: "aeadLaws (env_aead env)" "length (env_nonce env (st_draws s)) = 12" "length (env_sha env key) = 32"
    using assms(1) by (simp_all add: cryptoOK_def)
  have ne: "artifactEncryptionScheme \<noteq> []" by (simp add: artifactEncryptionScheme_def)
  let ?read = "if scheme = artifactEncryptionScheme
            then rbind (readEncrypted (env_aead env) (env_sha env) (cfg_keys cfg) content n cid) (\<lambda>r. Inr (fst r))
            else Inr content"
  obtain source where src: "?read = Inr source" "int (length source) = n" "contentID (env_sha env) source = cid"
    using verifyArtifactFile_content [OF assms(5)] ne by auto
  have active: "map_of (cfg_keys cfg) (contentID (env_sha env) key) = Some key" using key by simp
  have "int (length source) \<le> n" "0 \<le> n" using src(2) by simp_all
  from encryptArtifact_fits [of "env_aead env" _ key "env_sha env", OF laws(1,2) key(2) laws(3) active this(2) assms(4) this(1)]
  obtain stored where "encryptArtifact (env_aead env) (env_sha env) (env_nonce env (st_draws s)) source n key
      (contentID (env_sha env) key) = Inr (stored, n, cid)"
    "verifyBlob env cfg stored n cid = Inr (artifactEncryptionScheme, contentID (env_sha env) key)"
    using src(2,3) by auto
  then show ?thesis unfolding rotateArtifactBlob_def src(1) using key by (auto simp: Let_def)
qed

lemma custody_set_sealed:
  assumes "custodyOK env cfg s" "validContentID cid" "path = blobRelative (trimPrefix cid ''sha256:'')"
    and "verifyBlob env cfg stored n cid = Inr v"
    and "\<And>a. a \<in> rowsOf s \<Longrightarrow> Artifact_ContentID a = cid \<Longrightarrow> Artifact_Size a = n"
  shows "custodyOK env cfg (s\<lparr>st_blobs := AList.update path stored (st_blobs s)\<rparr>)"
proof (rule custodyOK_set_blobs [OF assms(1)])
  fix a
  assume a: "a \<in> rowsOf s" "Artifact_PurgedAt a = None" "blobHeld env cfg (st_blobs s) a"
  from assms(1) a(1) have row: "custodyRow env cfg (st_blobs s) a" unfolding custodyOK_def by blast
  show "blobHeld env cfg (AList.update path stored (st_blobs s)) a"
  proof (cases "Artifact_ContentID a = cid")
    case True
    with row assms(3,4) assms(5) [OF a(1)] show ?thesis by (auto simp: blobHeld_def custodyRow_def)
  next
    case False
    then have "Artifact_StoragePath a \<noteq> path"
      using row blobRelative_inj [OF _ assms(2)] assms(3) by (auto simp: custodyRow_def)
    with a(3) show ?thesis by (auto simp: blobHeld_def)
  qed
qed

lemma sealedAs_update:
  assumes "verifyBlob env cfg stored n cid = Inr (artifactEncryptionScheme, cfg_activeKeyID cfg)"
    and "\<And>a. a \<in> rowsOf s \<Longrightarrow> Artifact_ContentID a = cid \<Longrightarrow> Artifact_Size a = n \<and> Artifact_StoragePath a = path"
  shows "sealedAs env cfg (s\<lparr>st_blobs := AList.update path stored (st_blobs s)\<rparr>) cid"
  using assms by (auto simp: sealedAs_def)

lemma sealedAs_other:
  assumes "custodyOK env cfg s" "sealedAs env cfg s c" "c \<noteq> cid" "validContentID cid"
  shows "sealedAs env cfg (s\<lparr>st_blobs := AList.update (blobRelative (trimPrefix cid ''sha256:'')) stored (st_blobs s)\<rparr>) c"
  unfolding sealedAs_def
proof (intro ballI impI)
  fix a
  assume a: "a \<in> rowsOf (s\<lparr>st_blobs := AList.update (blobRelative (trimPrefix cid ''sha256:'')) stored (st_blobs s)\<rparr>)"
    "Artifact_ContentID a = c" "Artifact_PurgedAt a = None"
  then have "a \<in> rowsOf s" by simp
  then have "custodyRow env cfg (st_blobs s) a" using assms(1) unfolding custodyOK_def by blast
  then have "Artifact_StoragePath a \<noteq> blobRelative (trimPrefix cid ''sha256:'')"
    using a(2) assms(3,4) blobRelative_inj by (auto simp: custodyRow_def)
  then show "\<exists>content. map_of (st_blobs (s\<lparr>st_blobs := AList.update (blobRelative (trimPrefix cid ''sha256:'')) stored (st_blobs s)\<rparr>))
      (Artifact_StoragePath a) = Some content \<and>
      verifyBlob env cfg content (Artifact_Size a) c = Inr (artifactEncryptionScheme, cfg_activeKeyID cfg)"
    using assms(2) a \<open>a \<in> rowsOf s\<close> by (simp add: sealedAs_def)
qed

lemma custody_recordEncryption:
  assumes "custodyOK env cfg s"
  shows "custodyOK env cfg (snd (recordEncryption cfg' cid s))"
    and "sealedAs env cfg s c \<Longrightarrow> sealedAs env cfg (snd (recordEncryption cfg' cid s)) c"
proof -
  have "storeOK env (snd (recordEncryption cfg' cid s))"
    using lawful_recordEncryption [of env cfg' cid] assms by (simp add: evolves_def lawful_def custodyOK_def)
  then show "custodyOK env cfg (snd (recordEncryption cfg' cid s))"
    unfolding recordEncryption_def snd_conv
    by (intro custodyOK_map_rows [OF assms]) (simp_all add: blobOf_def)
  show "sealedAs env cfg (snd (recordEncryption cfg' cid s)) c" if "sealedAs env cfg s c"
    using that unfolding recordEncryption_def snd_conv sealedAs_def rowsOf_map by auto
qed

definition activeBlob :: "Store \<Rightarrow> string \<times> string \<times> int \<Rightarrow> bool" where
  "activeBlob s b \<longleftrightarrow> (\<exists>a \<in> rowsOf s. blobOf a = b \<and> Artifact_PurgedAt a = None)"

lemma activeBlob_map:
  assumes "\<And>a. blobOf (f a) = blobOf a" "\<And>a. Artifact_PurgedAt (f a) = Artifact_PurgedAt a"
  shows "activeBlob (s\<lparr>st_artifacts := map (\<lambda>(i, a). (i, f a)) (st_artifacts s)\<rparr>) b = activeBlob s b"
  by (simp add: activeBlob_def rowsOf_map assms)

lemma activeBlob_listed:
  assumes "distinct (map fst (st_artifacts s))"
  shows "b \<in> set (listArtifactBlobs s) \<longleftrightarrow> activeBlob s b"
proof -
  have "set (st_artifacts s) = {(i, a). map_of (st_artifacts s) i = Some a}"
    using assms by (auto simp: map_of_eq_Some_iff)
  then show ?thesis by (auto simp: listArtifactBlobs_def activeBlob_def rowsOf_def ran_def image_iff)
qed

text \<open>A row whose blob the migration visits.\<close>

lemma encryptBlob_step:
  assumes "custodyOK env cfg s" "cryptoOK env" "configOK env cfg" "cfg_activeKeyID cfg \<noteq> []"
    and "a \<in> rowsOf s" "Artifact_PurgedAt a = None" "b = blobOf a"
  shows "\<exists>s'. encryptBlob env cfg b s = (Inr (), s') \<and> custodyOK env cfg s' \<and>
    (\<forall>c. c = Artifact_ContentID a \<or> sealedAs env cfg s c \<longrightarrow> sealedAs env cfg s' c) \<and>
    (\<forall>b. activeBlob s' b \<longleftrightarrow> activeBlob s b)"
proof -
  let ?cid = "Artifact_ContentID a" and ?n = "Artifact_Size a"
  let ?path = "blobRelative (trimPrefix ?cid ''sha256:'')"
  from assms(1,5) have "custodyRow env cfg (st_blobs s) a" unfolding custodyOK_def by blast
  with assms(6) obtain content scheme keyID where
    row: "validContentID ?cid" "Artifact_StoragePath a = ?path" "0 \<le> ?n" "?n < 2 ^ 48"
      "map_of (st_blobs s) ?path = Some content" "verifyBlob env cfg content ?n ?cid = Inr (scheme, keyID)"
    by (auto simp: custodyRow_def blobHeld_def ok_iff)
  have same: "Artifact_Size x = ?n \<and> Artifact_StoragePath x = ?path" if "x \<in> rowsOf s" "Artifact_ContentID x = ?cid" for x
    using that assms(1,5) sizesAgreeD [of "rowsOf s" x a] by (auto simp: custodyOK_def custodyRow_def)
  have "validatedArtifactBlobPath ?cid ?path ?n = Inr ?path"
    using row(1,3) clean_blobRelative [OF row(1)] by (simp add: validatedArtifactBlobPath_iff)
  with row(2,5) have "resolveStoredBlob ?cid (Artifact_StoragePath a) ?n s = (Inr (?path, content), s)"
    by (simp add: resolveStoredBlob_def act_bind_def act_lift_def act_gets_def)
  then have eq: "encryptBlob env cfg b s =
      act_bind (if scheme \<noteq> artifactEncryptionScheme \<or> keyID \<noteq> cfg_activeKeyID cfg
                then rotateArtifactBlob env cfg ?path content ?cid ?n scheme else act_return ()) (\<lambda>_. recordEncryption cfg ?cid) s"
    using row(6) assms(7) by (simp add: encryptBlob_def blobOf_def act_bind_def)
  obtain s1 where s1: "(if scheme \<noteq> artifactEncryptionScheme \<or> keyID \<noteq> cfg_activeKeyID cfg
      then rotateArtifactBlob env cfg ?path content ?cid ?n scheme else act_return ()) s = (Inr (), s1)"
    and ok1: "custodyOK env cfg s1" and rows1: "rowsOf s1 = rowsOf s"
    and seal: "\<And>c. c = ?cid \<or> sealedAs env cfg s c \<Longrightarrow> sealedAs env cfg s1 c"
  proof (cases "scheme \<noteq> artifactEncryptionScheme \<or> keyID \<noteq> cfg_activeKeyID cfg")
    case False
    then have "sealedAs env cfg s ?cid"
      using row same by (auto simp: sealedAs_def)
    with False assms(1) that [of s] show ?thesis by (auto simp: act_return_def)
  next
    case True
    from rotate_seals [OF assms(2-4) row(4,6), of ?path s] obtain stored where
      rot: "rotateArtifactBlob env cfg ?path content ?cid ?n scheme s =
        (Inr (), s\<lparr>st_draws := st_draws s + 1, st_blobs := AList.update ?path stored (st_blobs s)\<rparr>)"
      "verifyBlob env cfg stored ?n ?cid = Inr (artifactEncryptionScheme, cfg_activeKeyID cfg)" by blast
    let ?s0 = "s\<lparr>st_draws := st_draws s + 1\<rparr>"
    let ?s1 = "?s0\<lparr>st_blobs := AList.update ?path stored (st_blobs ?s0)\<rparr>"
    have ok0: "custodyOK env cfg ?s0" using assms(1) by simp
    have "custodyOK env cfg ?s1"
      by (rule custody_set_sealed [OF ok0 row(1) refl rot(2)]) (use same in simp)
    moreover have "sealedAs env cfg ?s1 ?cid"
      by (rule sealedAs_update [OF rot(2)]) (use same in simp)
    moreover have "sealedAs env cfg ?s1 c" if "sealedAs env cfg s c" "c \<noteq> ?cid" for c
      by (rule sealedAs_other [OF ok0 _ that(2) row(1)]) (use that(1) in \<open>simp add: sealedAs_def\<close>)
    ultimately show ?thesis using that [of ?s1] rot(1) True by auto
  qed
  let ?s2 = "snd (recordEncryption cfg ?cid s1)"
  have rows: "\<forall>b. activeBlob ?s2 b \<longleftrightarrow> activeBlob s b"
    unfolding recordEncryption_def snd_conv
    by (intro allI, subst activeBlob_map) (simp_all add: blobOf_def activeBlob_def rows1)
  have "encryptBlob env cfg b s = (Inr (), ?s2)"
    unfolding eq act_bind_def s1 by (simp add: recordEncryption_def)
  with custody_recordEncryption [OF ok1, where cfg' = cfg and cid = ?cid] seal rows show ?thesis by blast
qed

lemma encryptBlobs_steps:
  assumes "cryptoOK env" "configOK env cfg" "cfg_activeKeyID cfg \<noteq> []"
    and "custodyOK env cfg s" "\<forall>b \<in> set blobs. activeBlob s b"
  shows "\<exists>s'. act_each (encryptBlob env cfg) blobs s = (Inr (), s') \<and> custodyOK env cfg s' \<and>
    (\<forall>c. c \<in> fst ` set blobs \<or> sealedAs env cfg s c \<longrightarrow> sealedAs env cfg s' c) \<and>
    (\<forall>b. activeBlob s' b \<longleftrightarrow> activeBlob s b)"
  using assms(4,5)
proof (induction blobs arbitrary: s)
  case Nil
  then show ?case by (simp add: act_return_def)
next
  case (Cons b blobs)
  then obtain a where a: "a \<in> rowsOf s" "Artifact_PurgedAt a = None" "b = blobOf a"
    by (auto simp: activeBlob_def)
  from encryptBlob_step [OF Cons.prems(1) assms(1-3) a] obtain s1 where
    s1: "encryptBlob env cfg b s = (Inr (), s1)" "custodyOK env cfg s1" "\<forall>b. activeBlob s1 b \<longleftrightarrow> activeBlob s b"
      "\<forall>c. c = Artifact_ContentID a \<or> sealedAs env cfg s c \<longrightarrow> sealedAs env cfg s1 c" by blast
  have "\<forall>b \<in> set blobs. activeBlob s1 b" using Cons.prems(2) s1(3) by (auto simp del: split_paired_All)
  from Cons.IH [OF s1(2) this] obtain s' where
    s': "act_each (encryptBlob env cfg) blobs s1 = (Inr (), s')" "custodyOK env cfg s'" "\<forall>b. activeBlob s' b \<longleftrightarrow> activeBlob s1 b"
      "\<forall>c. c \<in> fst ` set blobs \<or> sealedAs env cfg s1 c \<longrightarrow> sealedAs env cfg s' c" by blast
  have "act_each (encryptBlob env cfg) (b # blobs) s = (Inr (), s')"
    using s1(1) s'(1) by (simp add: act_bind_def)
  moreover have "fst b = Artifact_ContentID a" using a(3) by (simp add: blobOf_def)
  ultimately show ?case using s1 s' by auto
qed

lemma migrate_seals:
  assumes "cryptoOK env" "configOK env cfg" "cfg_activeKeyID cfg \<noteq> []" "custodyOK env cfg s"
  shows "\<exists>s'. migrateArtifactEncryption env cfg s = (Inr (), s') \<and> custodyOK env cfg s' \<and> (\<forall>c. sealedAs env cfg s' c)"
proof -
  have d: "distinct (map fst (st_artifacts s))" using assms(4) by (simp add: custodyOK_def storeOK_def tableOK_def)
  then have "\<forall>b \<in> set (listArtifactBlobs s). activeBlob s b" by (simp add: activeBlob_listed)
  from encryptBlobs_steps [OF assms(1-4) this] obtain s' where
    s': "act_each (encryptBlob env cfg) (listArtifactBlobs s) s = (Inr (), s')" "custodyOK env cfg s'"
      "\<forall>c. c \<in> fst ` set (listArtifactBlobs s) \<longrightarrow> sealedAs env cfg s' c" "\<forall>b. activeBlob s' b \<longleftrightarrow> activeBlob s b" by blast
  have "sealedAs env cfg s' c" for c
  proof (cases "c \<in> fst ` set (listArtifactBlobs s)")
    case True
    then show ?thesis using s'(3) by blast
  next
    case False
    have "Artifact_PurgedAt a \<noteq> None" if "a \<in> rowsOf s'" "Artifact_ContentID a = c" for a
    proof
      assume "Artifact_PurgedAt a = None"
      with that(1) have "activeBlob s' (blobOf a)" by (auto simp: activeBlob_def)
      with s'(4) d have "blobOf a \<in> set (listArtifactBlobs s)" by (simp add: activeBlob_listed del: split_paired_All)
      with False that(2) show False by (force simp: blobOf_def)
    qed
    then show ?thesis unfolding sealedAs_def by blast
  qed
  then have "\<forall>c. sealedAs env cfg s' c" by blast
  moreover have "migrateArtifactEncryption env cfg s = (Inr (), s')"
    using s'(1) assms(3) by (simp add: migrateArtifactEncryption_def act_bind_def act_gets_def)
  ultimately show ?thesis using s'(2) by blast
qed

lemma requirePlain_reads: "snd (act_each requirePlain blobs s) = s"
proof (induction blobs arbitrary: s)
  case Nil
  then show ?case by (simp add: act_return_def)
next
  case (Cons b blobs)
  have "snd (requirePlain b s) = s"
    by (simp add: requirePlain_def resolveStoredBlob_def act_bind_def act_lift_def act_gets_def act_fail_def act_return_def
        split: prod.splits sum.splits option.splits)
  then obtain r where "requirePlain b s = (r, s)" by (cases "requirePlain b s") simp
  with Cons show ?case by (cases r) (simp_all add: act_bind_def)
qed

lemma custody_migrateEncryption:
  assumes "cryptoOK env" "configOK env cfg" "custodyOK env cfg s"
  shows "custodyOK env cfg (snd (migrateArtifactEncryption env cfg s))"
proof (cases "cfg_activeKeyID cfg = []")
  case True
  with assms(3) show ?thesis by (simp add: migrateArtifactEncryption_def act_bind_def act_gets_def requirePlain_reads)
next
  case False
  with migrate_seals [OF assms(1,2) _ assms(3)] show ?thesis by auto
qed

lemma custody_migrateRetention:
  assumes "custodyOK env cfg s"
  shows "custodyOK env cfg (snd (migrateArtifactRetention env' cfg' s))"
proof -
  have "storeOK env (snd (migrateArtifactRetention env' cfg' s))"
    using lawful_migrateArtifactRetention [of env env' cfg'] assms by (simp add: evolves_def lawful_def custodyOK_def)
  then show ?thesis unfolding migrateArtifactRetention_def snd_conv
    by (intro custodyOK_map_rows [OF assms]) (simp_all add: blobOf_def)
qed

interpretation custodian: store_relation "\<lambda>s s'. custodyOK env cfg s \<longrightarrow> custodyOK env cfg s'" for env cfg
  by unfold_locales auto

lemma custody_startStore:
  assumes "cryptoOK env" "configOK env cfg"
  shows "evolves (\<lambda>s s'. custodyOK env cfg s \<longrightarrow> custodyOK env cfg s') (startStore env cfg)"
  unfolding startStore_def
  by (intro custodian.evolves_bind evolves_direct impI)
    (simp_all add: custody_migrateEncryption assms custody_migrateRetention custody_complete)

section \<open>Properties\<close>

text \<open>
  The life of a custody store: ingestion, purge, restarts (possibly with a new active key, the old
  keys still in the ring) and any operation on the other tables. Each request has its own host
  (clock, file system); the digest is assumed not to collide on the sizes of stored evidence.
\<close>

inductive custodyReach :: "Env \<Rightarrow> StoreConfig \<Rightarrow> Store \<Rightarrow> bool" for env :: Env where
  created: "configOK env cfg \<Longrightarrow> custodyReach env cfg emptyStore"
| other: "custodyReach env cfg s \<Longrightarrow> storeOK env s' \<Longrightarrow> st_artifacts s' = st_artifacts s \<Longrightarrow> st_blobs s' = st_blobs s \<Longrightarrow>
    custodyReach env cfg s'"
| put: "custodyReach env cfg s \<Longrightarrow> admissible cfg source \<Longrightarrow> noCollision env s source \<Longrightarrow>
    custodyReach env cfg (snd (putArtifact (env\<lparr>env_host := h\<rparr>) cfg metadata source s))"
| purge: "custodyReach env cfg s \<Longrightarrow> custodyReach env cfg (snd (storePurgeArtifact (env\<lparr>env_host := h\<rparr>) cfg i ap re now s))"
| restart: "custodyReach env cfg s \<Longrightarrow> keyringGrows cfg cfg' \<Longrightarrow> configOK env cfg' \<Longrightarrow>
    custodyReach env cfg' (snd (startStore (env\<lparr>env_host := h\<rparr>) cfg' s))"

lemma cryptoOK_host [simp]: "cryptoOK (env\<lparr>env_host := h\<rparr>) = cryptoOK env"
  by (simp add: cryptoOK_def)

lemma configOK_host [simp]: "configOK (env\<lparr>env_host := h\<rparr>) cfg = configOK env cfg"
  by (simp add: configOK_def)

lemma noCollision_host [simp]: "noCollision (env\<lparr>env_host := h\<rparr>) s source = noCollision env s source"
  by (simp add: noCollision_def)

lemma custodyReach_OK: "custodyReach env cfg s \<Longrightarrow> cryptoOK env \<Longrightarrow> configOK env cfg \<and> custodyOK env cfg s"
proof (induction rule: custodyReach.induct)
  case (created cfg)
  have "rowsOf emptyStore = {}" by (simp add: rowsOf_def emptyStore_def)
  with created show ?case by (simp add: custodyOK_def storeOK_empty sizesAgree_def)
next
  case (other cfg s s')
  then show ?case by (simp add: custodyOK_def rowsOf_def)
next
  case (put cfg s source h metadata)
  with custody_putArtifact [of "env\<lparr>env_host := h\<rparr>" cfg s source metadata] show ?case by simp
next
  case (purge cfg s h i ap re now)
  then show ?case using custody_storePurgeArtifact by blast
next
  case (restart cfg s cfg' h)
  then have "custodyOK env cfg' s" using custodyOK_more_keys by blast
  with restart custody_startStore [of "env\<lparr>env_host := h\<rparr>" cfg'] show ?case by (simp add: evolves_def)
qed


definition plainConfig :: StoreConfig where
  "plainConfig = \<lparr>cfg_maxArtifactBytes = 100, cfg_keys = [], cfg_activeKeyID = [], cfg_retention = DefaultArtifactRetention\<rparr>"

definition sampleArtifact :: Artifact where
  "sampleArtifact = \<lparr>Artifact_SchemaVersion = 1, Artifact_ID = ''a1'', Artifact_ContentID = [], Artifact_CampaignID = ''c1'',
     Artifact_RunID = [], Artifact_ParentIDs = [], Artifact_Role = ''crash_input'',
     Artifact_MediaType = ''application/octet-stream'', Artifact_Size = 0, Artifact_Sensitivity = ''private'',
     Artifact_StoragePath = [], Artifact_Encryption = [], Artifact_EncryptionKeyID = [], Artifact_RetainUntil = zeroTime,
     Artifact_PurgedAt = None, Artifact_PurgeApprovalID = [], Artifact_PurgeReason = [], Artifact_BlobDeletedAt = None,
     Artifact_CreatedAt = unixEpoch\<rparr>"

definition sampleHeld :: Store where
  "sampleHeld = snd (putArtifact sampleEnv plainConfig sampleArtifact ''evidence'' sampleStore)"

definition heldArtifact :: Artifact where
  "heldArtifact = sampleArtifact\<lparr>Artifact_ContentID := contentID sampleSha ''evidence'', Artifact_Size := 8,
     Artifact_StoragePath := blobRelative (hexEncode (sampleSha ''evidence'')),
     Artifact_RetainUntil := env_now sampleEnv + DefaultArtifactRetention\<rparr>"

lemma sampleEnv_crypto: "cryptoOK sampleEnv"
proof -
  have "length (sampleSha bs) = 32" for bs by (simp add: sampleSha_def min_def)
  then show ?thesis by (simp add: cryptoOK_def sampleEnv_def sampleAead_laws)
qed

lemma sampleStore_tables: "st_artifacts sampleStore = []" "st_blobs sampleStore = []"
  by code_simp+

lemma sampleHeld_row: "map_of (st_artifacts sampleHeld) ''a1'' = Some heldArtifact"
  by code_simp

lemma plainConfig_OK: "configOK sampleEnv plainConfig"
  by (simp add: configOK_def plainConfig_def)

lemma sampleHeld_reach: "custodyReach sampleEnv plainConfig sampleHeld"
proof -
  have "custodyReach sampleEnv plainConfig sampleStore"
    by (rule custodyReach.other [OF custodyReach.created [OF plainConfig_OK] sampleStore_OK])
      (simp_all add: sampleStore_tables emptyStore_def)
  moreover have "admissible plainConfig ''evidence''"
    by (simp add: admissible_def hasPrefix_def artifactMagic_def)
  moreover have "noCollision sampleEnv sampleStore ''evidence''"
    by (simp add: noCollision_def sampleStore_tables)
  ultimately have "custodyReach sampleEnv plainConfig
      (snd (putArtifact (sampleEnv\<lparr>env_host := env_host sampleEnv\<rparr>) plainConfig sampleArtifact ''evidence'' sampleStore))"
    by (rule custodyReach.put)
  then show ?thesis by (simp add: sampleHeld_def)
qed


end
