(* ===== verification/Custody_Theorems.thy ===== *)
theory Custody_Theorems
  imports Custody_Laws
begin

text \<open>
  Consequences of the custody laws: key rotation at start-up, what a purge may touch, and what
  happens to evidence that looks like an encrypted file in a store without keys.
\<close>

section \<open>Key rotation\<close>

definition onlyActive :: "StoreConfig \<Rightarrow> StoreConfig" where
  "onlyActive cfg = cfg\<lparr>cfg_keys := filter (\<lambda>(k, v). k = cfg_activeKeyID cfg) (cfg_keys cfg)\<rparr>"

lemma map_of_filter_key: "map_of (filter (\<lambda>(k, v). k = i) ks) i = map_of ks i"
  by (induction ks) auto

lemma readEncrypted_keyID:
  "readEncrypted A sha ks content n cid = Inr (p, k) \<Longrightarrow> k = ''sha256:'' @ hexEncode (take 32 (drop 8 (take 52 content)))"
  by (auto simp: readEncrypted_def Let_def split: if_splits option.splits sum.splits)

lemma readEncrypted_same_key:
  assumes "readEncrypted A sha ks content n cid = Inr (p, k)" "map_of ks' k = map_of ks k"
  shows "readEncrypted A sha ks' content n cid = Inr (p, k)"
proof -
  let ?keyID = "''sha256:'' @ hexEncode (take 32 (drop 8 (take 52 content)))"
  have "map_of ks' ?keyID = map_of ks ?keyID" using assms readEncrypted_keyID by blast
  with assms(1) show ?thesis by (simp only: readEncrypted_def Let_def)
qed

lemma sealed_onlyActive:
  assumes "verifyBlob env cfg content n cid = Inr (artifactEncryptionScheme, cfg_activeKeyID cfg)"
  shows "verifyBlob env (onlyActive cfg) content n cid = Inr (artifactEncryptionScheme, cfg_activeKeyID cfg)"
proof -
  have ne: "artifactEncryptionScheme \<noteq> []" by (simp add: artifactEncryptionScheme_def)
  with assms have magic: "hasPrefix content artifactMagic" by (auto simp: verifyArtifactFile_def split: if_splits)
  with assms obtain p where
    "readEncrypted (env_aead env) (env_sha env) (cfg_keys cfg) content n cid = Inr (p, cfg_activeKeyID cfg)"
    by (auto simp: verifyArtifactFile_def)
  moreover have "map_of (cfg_keys (onlyActive cfg)) (cfg_activeKeyID cfg) = map_of (cfg_keys cfg) (cfg_activeKeyID cfg)"
    by (simp add: onlyActive_def map_of_filter_key)
  ultimately have "readEncrypted (env_aead env) (env_sha env) (cfg_keys (onlyActive cfg)) content n cid = Inr (p, cfg_activeKeyID cfg)"
    by (rule readEncrypted_same_key)
  with magic show ?thesis by (simp add: verifyArtifactFile_def)
qed

lemma sealed_custody:
  assumes "custodyOK env cfg s" "\<And>c. sealedAs env cfg s c"
  shows "custodyOK env (onlyActive cfg) s"
proof -
  have "custodyRow env (onlyActive cfg) (st_blobs s) a" if a: "a \<in> rowsOf s" for a
  proof -
    have "blobHeld env (onlyActive cfg) (st_blobs s) a" if "Artifact_PurgedAt a = None"
      using assms(2) [of "Artifact_ContentID a"] a that sealed_onlyActive
      by (fastforce simp: sealedAs_def blobHeld_def)
    moreover from assms(1) a have "custodyRow env cfg (st_blobs s) a" unfolding custodyOK_def by blast
    ultimately show ?thesis by (simp add: custodyRow_def)
  qed
  with assms(1) show ?thesis unfolding custodyOK_def by blast
qed


definition keyedConfig :: StoreConfig where
  "keyedConfig = plainConfig\<lparr>cfg_keys := [(contentID sampleSha sampleKey, sampleKey)], cfg_activeKeyID := contentID sampleSha sampleKey\<rparr>"


section \<open>What a purge touches\<close>

text \<open>
  Row \<open>j\<close> as a reader sees it: absent in both states, purged in both, or the same row with the
  same stored file.
\<close>

definition sameEvidence :: "Store \<Rightarrow> Store \<Rightarrow> string \<Rightarrow> bool" where
  "sameEvidence s s' j \<longleftrightarrow>
     (case (map_of (st_artifacts s) j, map_of (st_artifacts s') j) of
        (None, None) \<Rightarrow> True
      | (Some a, Some a') \<Rightarrow>
          (Artifact_PurgedAt a \<noteq> None \<and> Artifact_PurgedAt a' \<noteq> None) \<or>
          a' = a \<and> map_of (st_blobs s') (Artifact_StoragePath a) = map_of (st_blobs s) (Artifact_StoragePath a)
      | _ \<Rightarrow> False)"

lemma sameEvidence_refl: "sameEvidence s s j"
  by (simp add: sameEvidence_def split: option.split)

lemma sameEvidence_trans: "sameEvidence s t j \<Longrightarrow> sameEvidence t u j \<Longrightarrow> sameEvidence s u j"
  by (auto simp: sameEvidence_def split: option.splits)

lemma sameEvidence_open:
  assumes "sameEvidence s s' j" "custodyOK env cfg s"
  shows "fst (openArtifact env cfg j s') = fst (openArtifact env cfg j s)"
proof (cases "map_of (st_artifacts s) j")
  case None
  with assms(1) have "map_of (st_artifacts s') j = None" by (simp add: sameEvidence_def split: option.splits)
  with None show ?thesis by (simp add: openArtifact_def getArtifact_def act_bind_def act_gets_def lookup_def)
next
  case (Some a)
  with assms(1) obtain a' where a': "map_of (st_artifacts s') j = Some a'"
    "(Artifact_PurgedAt a \<noteq> None \<and> Artifact_PurgedAt a' \<noteq> None) \<or>
      a' = a \<and> map_of (st_blobs s') (Artifact_StoragePath a) = map_of (st_blobs s) (Artifact_StoragePath a)"
    by (auto simp: sameEvidence_def split: option.splits)
  have path: "Artifact_StoragePath a = blobRelative (trimPrefix (Artifact_ContentID a) ''sha256:'')"
    using custodyOK_row [OF assms(2) Some] by (simp add: custodyRow_def)
  from a'(2) show ?thesis
  proof (elim disjE conjE)
    assume "Artifact_PurgedAt a \<noteq> None" "Artifact_PurgedAt a' \<noteq> None"
    with Some a'(1) show ?thesis
      by (simp add: openArtifact_def getArtifact_def act_bind_def act_gets_def lookup_def act_fail_def)
  next
    assume "a' = a" "map_of (st_blobs s') (Artifact_StoragePath a) = map_of (st_blobs s) (Artifact_StoragePath a)"
    with Some a'(1) path show ?thesis
      by (simp add: openArtifact_def getArtifact_def act_bind_def act_gets_def lookup_def act_fail_def Let_def)
  qed
qed

lemma sameEvidence_markDeleted: "sameEvidence s (snd (markDeleted cid t s)) j"
proof (cases rule: markDeleted_cases [of cid t s])
  case (refused e)
  then show ?thesis by (simp add: sameEvidence_refl)
next
  case marked
  have "Artifact_PurgedAt a \<noteq> None" if "map_of (st_artifacts s) j = Some a" "Artifact_ContentID a = cid" for a
    using marked(2) map_of_SomeD [OF that(1)] that(2) by blast
  then show ?thesis unfolding marked(1) snd_conv
    by (auto simp: sameEvidence_def map_of_mapped deletedAs_def split: option.splits)
qed

lemma sameEvidence_delete:
  assumes "custodyOK env cfg s" "unreferenced s cid" "validContentID cid"
  shows "sameEvidence s (s\<lparr>st_blobs := AList.delete (blobRelative (trimPrefix cid ''sha256:'')) (st_blobs s)\<rparr>) j"
proof (cases "map_of (st_artifacts s) j")
  case (Some a)
  have "Artifact_PurgedAt a \<noteq> None \<or> Artifact_StoragePath a \<noteq> blobRelative (trimPrefix cid ''sha256:'')"
    using custodyOK_row [OF assms(1) Some] assms(2,3) rowsOf_I [OF Some] blobRelative_inj
    by (auto simp: unreferenced_def custodyRow_def)
  with Some show ?thesis by (auto simp: sameEvidence_def delete_conv')
qed (simp add: sameEvidence_def)

lemma sameEvidence_finish:
  assumes "custodyOK env cfg s" "unreferenced s cid"
  shows "sameEvidence s (snd (finishArtifactBlobPurge env' cfg' cid p n t s)) j"
proof (cases "validatedArtifactBlobPath cid p n")
  case (Inl e)
  then show ?thesis by (simp add: finishArtifactBlobPurge_def act_bind_def act_lift_def sameEvidence_refl)
next
  case (Inr path)
  then have path: "validContentID cid" "path = blobRelative (trimPrefix cid ''sha256:'')"
    by (simp_all add: validatedArtifactBlobPath_iff)
  have eq: "finishArtifactBlobPurge env' cfg' cid p n t s = act_bind (removeBlob env' cfg' path n cid) (\<lambda>_. markDeleted cid t) s"
    by (simp add: finishArtifactBlobPurge_def act_bind_def act_lift_def Inr)
  show ?thesis
  proof (cases rule: removeBlob_cases [of env' cfg' path n cid s])
    case (refused e)
    with eq show ?thesis by (simp add: act_bind_def sameEvidence_refl)
  next
    case absent
    with eq show ?thesis by (simp add: act_bind_def sameEvidence_markDeleted)
  next
    case removed
    with eq show ?thesis
      using sameEvidence_trans [OF sameEvidence_delete [OF assms path(1)] sameEvidence_markDeleted] path(2)
      by (simp add: act_bind_def)
  qed
qed

lemma sameEvidence_settle:
  assumes "custodyOK env cfg s"
  shows "sameEvidence s (snd (settlePurge env' cfg' ap re now a s)) j"
proof -
  let ?finish = "finishArtifactBlobPurge env' cfg' (Artifact_ContentID a) (Artifact_StoragePath a) (Artifact_Size a) now"
  have fin: "sameEvidence s (snd (?finish s)) j" if "activeReferences s (Artifact_ContentID a) = 0"
    by (rule sameEvidence_finish [OF assms activeReferences_zero [OF that]])
  have get: "snd (getArtifact i u) = u" for i u by (simp add: getArtifact_def act_gets_def)
  obtain r s1 where "?finish s = (r, s1)" by fastforce
  with fin get show ?thesis
    by (cases r) (auto simp: settlePurge_def act_bind_def act_gets_def act_fail_def act_return_def sameEvidence_refl)
qed

lemma settle_Inr:
  assumes "settlePurge env cfg ap re now a s = (Inr a', s')"
  shows "Artifact_PurgeApprovalID a = ap \<and> Artifact_PurgeReason a = re \<and> map_of (st_artifacts s') (Artifact_ID a) = Some a'"
  using assms by (auto simp: settlePurge_def act_simps getArtifact_iff split: if_splits)

text \<open>The first half of a purge: the row carries the tombstone, every other row is as it was.\<close>

lemma tombstone_step:
  assumes "custodyOK env cfg s" "map_of (st_artifacts s) i = Some a"
    and "(if Artifact_PurgedAt a = None then tombstone env' cfg' a ap re now else act_return a) s = (Inr a1, s1)"
  shows "custodyOK env cfg s1 \<and> map_of (st_artifacts s1) i = Some a1 \<and> Artifact_ID a1 = i \<and> Artifact_PurgedAt a1 \<noteq> None \<and>
    (Artifact_PurgedAt a \<noteq> None \<longrightarrow> a1 = a) \<and> (\<forall>j. j \<noteq> i \<longrightarrow> sameEvidence s s1 j)"
proof -
  have i: "Artifact_ID a = i"
    using assms(1,2) storeOK_artifact by (fastforce simp: custodyOK_def artifactOK_def)
  show ?thesis
  proof (cases "Artifact_PurgedAt a = None")
    case False
    with assms i show ?thesis by (auto simp: act_return_def sameEvidence_refl)
  next
    case True
    with assms(3) have eq: "tombstone env' cfg' a ap re now s = (Inr a1, s1)" by simp
    then have s1: "a1 = tombstoned ap re now a" "s1 = s\<lparr>st_artifacts := AList.update i a1 (st_artifacts s)\<rparr>"
      using i by (cases rule: tombstone_cases [of env' cfg' a ap re now s]; simp)+
    moreover have "custodyOK env cfg s1"
      using custody_tombstone [OF assms(1,2) True, of env' cfg' ap re now] eq by simp
    moreover have "sameEvidence s s1 j" if "j \<noteq> i" for j
      using that unfolding s1(2) by (simp add: sameEvidence_def split: option.split)
    ultimately show ?thesis using True i by simp
  qed
qed



section \<open>Evidence that looks encrypted\<close>

lemma each_fails:
  assumes "b \<in> set bs" "\<And>x. x \<in> set bs \<Longrightarrow> snd (f x s) = s" "isl (fst (f b s))"
  shows "isl (fst (act_each f bs s))"
  using assms
proof (induction bs)
  case (Cons x bs)
  obtain r where r: "f x s = (r, s)" using Cons.prems(2) [of x] by (cases "f x s") simp
  show ?case
  proof (cases r)
    case (Inl e)
    with r show ?thesis by (simp add: act_bind_def)
  next
    case (Inr u)
    with r Cons.prems have "b \<in> set bs" by auto
    with Cons r Inr show ?thesis by (simp add: act_bind_def)
  qed
qed simp

lemma putArtifact_Inr:
  assumes "putArtifact env cfg metadata source s = (Inr m, s')"
  shows "\<exists>i n content written cid s2. ingest env cfg source (s\<lparr>st_draws := n\<rparr>) = (Inr (content, written, cid), s2) \<and>
    storeBlob env cfg (blobRelative (trimPrefix cid ''sha256:'')) content (putMetadata env cfg i metadata cid written) s2 = (Inr m, s')"
proof -
  let ?rest = "\<lambda>i. act_bind (ingest env cfg source) (\<lambda>(content, written, cid).
       storeBlob env cfg (blobRelative (trimPrefix cid ''sha256:'')) content (putMetadata env cfg i metadata cid written))"
  from assms obtain i s1 where s1: "(if Artifact_ID metadata = [] then newID env ''artifact'' else act_return (Artifact_ID metadata)) s = (Inr i, s1)"
    "?rest i s1 = (Inr m, s')"
    unfolding putArtifact_steps act_bind_Inr_iff [of "if Artifact_ID metadata = [] then _ else _"]
    by (auto simp: act_fail_def split: if_splits)
  have "\<exists>n. s1 = s\<lparr>st_draws := n\<rparr>"
  proof (cases "Artifact_ID metadata = []")
    case True
    with s1(1) have "s1 = s\<lparr>st_draws := Suc (st_draws s)\<rparr>" by (auto simp: newID_def)
    then show ?thesis by blast
  next
    case False
    with s1(1) have "s1 = s\<lparr>st_draws := st_draws s\<rparr>" by (simp add: act_return_def)
    then show ?thesis by blast
  qed
  then obtain n where n: "s1 = s\<lparr>st_draws := n\<rparr>" by blast
  from s1(2) obtain q s2 where "ingest env cfg source s1 = (Inr q, s2)"
    "(case q of (content, written, cid) \<Rightarrow> storeBlob env cfg (blobRelative (trimPrefix cid ''sha256:'')) content
       (putMetadata env cfg i metadata cid written)) s2 = (Inr m, s')" by (auto simp: act_bind_Inr_iff)
  with n show ?thesis by (cases q) fastforce
qed

lemma rbind_isl: "isl r \<Longrightarrow> isl (rbind r f)"
  by (cases r) simp_all

lemma no_keys_no_read: "isl (readEncrypted A sha [] content n cid)"
  by (simp add: readEncrypted_def Let_def)

text \<open>
  C15. A store without keys can lock itself. Evidence that starts with the eight magic bytes of an
  encrypted file is ingested like any other evidence, but from then on it cannot be opened, and
  the next start of the store is refused.
\<close>

theorem magic_evidence_locks_store:
  assumes "cfg_keys cfg = []" "cfg_activeKeyID cfg = []" "0 \<le> cfg_maxArtifactBytes cfg" "cfg_maxArtifactBytes cfg < 2 ^ 48"
    and "hasPrefix source artifactMagic"
    and "map_of (st_blobs s) (blobRelative (hexEncode (env_sha env source))) = None"
    and "putArtifact env cfg metadata source s = (Inr m, s')"
  shows "isl (fst (openArtifact env cfg (Artifact_ID m) s')) \<and> isl (fst (startStore env cfg s'))"
proof -
  let ?cid = "contentID (env_sha env) source" and ?path = "blobRelative (hexEncode (env_sha env source))"
  have hex: "trimPrefix ?cid ''sha256:'' = hexEncode (env_sha env source)"
    by (simp only: contentID_def trimPrefix_append)
  from putArtifact_Inr [OF assms(7)] obtain i n content written cid s0 where
    "ingest env cfg source (s\<lparr>st_draws := n\<rparr>) = (Inr (content, written, cid), s0)"
    and put: "storeBlob env cfg (blobRelative (trimPrefix cid ''sha256:'')) content (putMetadata env cfg i metadata cid written) s0 = (Inr m, s')"
    by blast
  with assms(2) have cb: "copyBounded env source (cfg_maxArtifactBytes cfg) = Inr (content, written, cid)"
    and s0: "st_blobs s0 = st_blobs s" by (auto simp: ingest_def)
  from copyBounded_Inr [OF cb assms(3,4)] have c: "content = source" "cid = ?cid" by simp_all
  from put obtain m3 s2 where
    place: "placeBlob env cfg ?path source (putMetadata env cfg i metadata cid written) s0 = (Inr m3, s2)"
    and ins: "insertArtifact (m3\<lparr>Artifact_StoragePath := ?path\<rparr>) s2 = (Inr (), s')" "m = m3\<lparr>Artifact_StoragePath := ?path\<rparr>"
    unfolding storeBlob_def c hex by (auto simp: act_simps)
  have s2: "m3 = putMetadata env cfg i metadata cid written" "s2 = s0\<lparr>st_blobs := st_blobs s0 @ [(?path, source)]\<rparr>"
    using place assms(6) s0 by (simp_all add: placeBlob_def)
  have s': "s' = s2\<lparr>st_artifacts := st_artifacts s2 @ [(Artifact_ID m, m)]\<rparr>" "map_of (st_artifacts s2) (Artifact_ID m) = None"
    using ins by (cases rule: insertArtifact_cases [of m s2]; simp)+
  have row: "map_of (st_artifacts s') (Artifact_ID m) = Some m"
    using s' by (simp add: map_of_snoc_fresh del: map_of_append)
  have blob: "map_of (st_blobs s') ?path = Some source"
    using s'(1) s2(2) assms(6) s0 by (simp add: map_of_snoc_fresh del: map_of_append)
  have m: "Artifact_ContentID m = ?cid" "Artifact_PurgedAt m = None"
    using ins(2) s2(1) c(2) putMetadata_fields(1) [of env cfg i metadata cid written] by (simp_all add: freshRow_def)
  have bad: "isl (verifyBlob env cfg source n k)" for n k
    using assms(1,5) no_keys_no_read [of "env_aead env" "env_sha env" source n k]
    by (cases "readEncrypted (env_aead env) (env_sha env) [] source n k") (simp_all add: verifyArtifactFile_def)
  have "isl (fst (openArtifact env cfg (Artifact_ID m) s'))"
    using row blob m hex
    by (simp add: openArtifact_def getArtifact_def act_bind_def act_gets_def lookup_def act_fail_def Let_def rbind_isl bad)
  moreover have "isl (fst (startStore env cfg s'))"
  proof -
    let ?b = "blobOf m"
    have "?b \<in> set (listArtifactBlobs s')"
      using s'(1) m(2) by (auto simp: listArtifactBlobs_def)
    moreover have "isl (fst (requirePlain ?b s'))"
      using assms(5) blob m(1) hex
      by (auto simp: requirePlain_def blobOf_def resolveStoredBlob_def act_bind_def act_lift_def act_gets_def act_fail_def
          validatedArtifactBlobPath_iff split: sum.split)
    moreover have "snd (requirePlain x s') = s'" for x using requirePlain_reads [of "[x]" s']
      by (simp add: act_bind_def act_return_def split: prod.splits sum.splits)
    ultimately have "isl (fst (act_each requirePlain (listArtifactBlobs s') s'))" by (intro each_fails)
    then have "isl (fst (migrateArtifactEncryption env cfg s'))"
      using assms(2) by (simp add: migrateArtifactEncryption_def act_bind_def act_gets_def)
    then show ?thesis by (auto simp: startStore_def act_bind_def isl_def split: prod.splits)
  qed
  ultimately show ?thesis by blast
qed

theorem magic_evidence_locks_store_witness:
  "\<exists>m s'. putArtifact sampleEnv plainConfig sampleArtifact (artifactMagic @ ''x'') sampleStore = (Inr m, s') \<and>
     isl (fst (openArtifact sampleEnv plainConfig (Artifact_ID m) s')) \<and> isl (fst (startStore sampleEnv plainConfig s'))"
proof -
  let ?put = "putArtifact sampleEnv plainConfig sampleArtifact (artifactMagic @ ''x'') sampleStore"
  have "isl (fst ?put) = False" by code_simp
  then obtain m s' where eq: "?put = (Inr m, s')" by (cases ?put; cases "fst ?put") auto
  have "cfg_keys plainConfig = []" "cfg_activeKeyID plainConfig = []" "0 \<le> cfg_maxArtifactBytes plainConfig"
    "cfg_maxArtifactBytes plainConfig < 2 ^ 48" by (simp_all add: plainConfig_def)
  from magic_evidence_locks_store [OF this hasPrefix_append _ eq] eq show ?thesis
    by (simp add: sampleStore_tables)
qed

end
