(* ===== verification/Apparatus.thy ===== *)
theory Apparatus
  imports Policy Artifact_Crypto
begin

text \<open>
  \<^verbatim>\<open>internal/research/apparatus/manifest.go\<close>: validation of apparatus manifests and the typed job
  envelope built from a request. \<^verbatim>\<open>json.Compact\<close> on the supply-chain documents is a parameter
  (\<open>None\<close> for a syntax error), and so is SHA-256. Reading a manifest file is not modelled.
\<close>

section \<open>Names and digests\<close>

definition lowerHexChar :: "char \<Rightarrow> bool" where
  "lowerHexChar c \<longleftrightarrow> (CHR ''0'' \<le> c \<and> c \<le> CHR ''9'') \<or> (CHR ''a'' \<le> c \<and> c \<le> CHR ''f'')"

text \<open>\<^verbatim>\<open>digestPattern\<close>: \<^verbatim>\<open>^sha256:[a-f0-9]{64}$\<close>.\<close>

definition digestPattern :: "string \<Rightarrow> bool" where
  "digestPattern s \<longleftrightarrow> hasPrefix s ''sha256:'' \<and> length s = 7 + 64 \<and> list_all lowerHexChar (drop 7 s)"

definition safeNameChar :: "char \<Rightarrow> bool" where
  "safeNameChar c \<longleftrightarrow>
     (CHR ''a'' \<le> c \<and> c \<le> CHR ''z'') \<or> (CHR ''A'' \<le> c \<and> c \<le> CHR ''Z'') \<or> (CHR ''0'' \<le> c \<and> c \<le> CHR ''9'') \<or>
     c = CHR ''-'' \<or> c = CHR ''_''"

definition safeName :: "string \<Rightarrow> bool" where
  "safeName value \<longleftrightarrow>
     \<not> (value = [] \<or> length value > 64 \<or> baseName value \<noteq> value) \<and> list_all safeNameChar value"

definition allowedEnvironment :: "string \<Rightarrow> bool" where
  "allowedEnvironment key \<longleftrightarrow> key = ''ASAN_OPTIONS'' \<or> key = ''UBSAN_OPTIONS'' \<or> key = ''MSAN_OPTIONS''"

section \<open>Manifests\<close>

fun harnessLoop :: "string list \<Rightarrow> HarnessManifest list \<Rightarrow> bool" where
  "harnessLoop seen [] = True"
| "harnessLoop seen (h # hs) =
     (if \<not> safeName (Harness_Name h) \<or> \<not> hasPrefix (Harness_Binary h) ''/build/'' \<or> Harness_Name h \<in> set seen
      then False else harnessLoop (Harness_Name h # seen) hs)"

definition validateSupply :: "(string \<Rightarrow> string) \<Rightarrow> (string \<Rightarrow> string option) \<Rightarrow> ApparatusSupplyChain \<Rightarrow> unit result" where
  "validateSupply sha compact supply =
     (if Supply_SchemaVersion supply \<noteq> 1 \<or> \<not> digestPattern (Supply_SBOMSHA256 supply) \<or>
         \<not> digestPattern (Supply_ProvenanceSHA256 supply) \<or> \<not> digestPattern (Supply_AdmissionKeyID supply) \<or>
         isZero (Supply_AdmissionExpiresAt supply) \<or> trimSpace (Supply_BuilderID supply) = [] \<or>
         Supply_DependencyCount supply \<le> 0 \<or> Supply_DependencyCount supply > 10000 \<or>
         Supply_SBOM supply = [] \<or> length (Supply_SBOM supply) > 4 * 2 ^ 20 \<or>
         Supply_Provenance supply = [] \<or> length (Supply_Provenance supply) > 4 * 2 ^ 20
      then Inl (Err ''apparatus: invalid verified supply-chain admission metadata'')
      else
        (case compact (Supply_SBOM supply) of
           None \<Rightarrow> Inl (Err ''apparatus: invalid signed JSON document'')
         | Some sbom \<Rightarrow>
             (case compact (Supply_Provenance supply) of
                None \<Rightarrow> Inl (Err ''apparatus: invalid signed JSON document'')
              | Some provenance \<Rightarrow>
                  if Supply_SBOMSHA256 supply \<noteq> contentID sha sbom \<or> Supply_ProvenanceSHA256 supply \<noteq> contentID sha provenance
                  then Inl (Err ''apparatus: persisted supply-chain evidence hash mismatch'')
                  else Inr ())))"

definition validateManifest :: "(string \<Rightarrow> string) \<Rightarrow> (string \<Rightarrow> string option) \<Rightarrow> ApparatusManifest \<Rightarrow> unit result" where
  "validateManifest sha compact m =
     (if Manifest_SchemaVersion m \<noteq> 1 \<or> Manifest_ID m = [] \<or> Manifest_Name m = [] \<or> Manifest_Version m = [] \<or> Manifest_Engine m = []
      then Inl (Err ''apparatus: version-one identity and engine required'')
      else if \<not> digestPattern (Manifest_ImageDigest m)
      then Inl (Err ''apparatus: exact sha256 image digest required'')
      else if Manifest_Harnesses m = [] \<or> Manifest_Operations m = [] \<or> Manifest_Architectures m = [] \<or> Manifest_Sanitizers m = []
      then Inl (Err ''apparatus: harnesses, operations, architectures, and sanitizers required'')
      else if \<not> harnessLoop [] (Manifest_Harnesses m)
      then Inl (Err ''apparatus: unique safe harness name and /build binary required'')
      else if \<not> distinctKnown [] (Manifest_Operations m)
      then Inl (Err ''apparatus: unknown or duplicate operation'')
      else if \<not> fmpred (\<lambda>key value. allowedEnvironment key \<and> CHR 0x00 \<notin> set value) (Manifest_Environment m)
      then Inl (Err ''apparatus: invalid environment allowlist'')
      else
        (case budgetValidate (Manifest_Limits m) of
           Inl e \<Rightarrow> Inl (Err (''apparatus: '' @ errText e))
         | Inr _ \<Rightarrow>
             (case Manifest_SupplyChain m of
                None \<Rightarrow> Inr ()
              | Some supply \<Rightarrow> validateSupply sha compact supply)))"

section \<open>Jobs\<close>

record JobRequest =
  Req_ID :: string
  Req_RunID :: string
  Req_CampaignID :: string
  Req_ScopeID :: string
  Req_TargetID :: string
  Req_BuildID :: string
  Req_InputArtifactID :: string
  Req_PatchArtifactID :: string
  Req_Operation :: Operation
  Req_Harness :: string
  Req_Revision :: string
  Req_Sanitizer :: string
  Req_SourceDir :: string
  Req_BuildDir :: string
  Req_CorpusDir :: string
  Req_EvidenceDir :: string
  Req_PatchDir :: string
  Req_Arguments :: strmap
  Req_Budget :: ResourceBudget
  Req_CorrelationID :: string

definition overLimit :: "int \<Rightarrow> int \<Rightarrow> bool" where
  "overLimit request limit \<longleftrightarrow> request < 0 \<or> (limit > 0 \<and> request > limit)"

definition exceedsBudget :: "ResourceBudget \<Rightarrow> ResourceBudget \<Rightarrow> bool" where
  "exceedsBudget request limit \<longleftrightarrow>
     overLimit (MaxWallSeconds request) (MaxWallSeconds limit) \<or> overLimit (MaxMemoryBytes request) (MaxMemoryBytes limit) \<or>
     overLimit (MaxCPUSeconds request) (MaxCPUSeconds limit) \<or> overLimit (MaxDiskBytes request) (MaxDiskBytes limit) \<or>
     overLimit (MaxInodes request) (MaxInodes limit) \<or> overLimit (MaxPIDs request) (MaxPIDs limit) \<or>
     MaxConcurrent request < 0 \<or> (MaxConcurrent limit > 0 \<and> MaxConcurrent request > MaxConcurrent limit)"

fun operationNeedsEvidence :: "Operation \<Rightarrow> bool" where
  "operationNeedsEvidence OperationReproduce = True"
| "operationNeedsEvidence OperationMinimize = True"
| "operationNeedsEvidence OperationSymbolize = True"
| "operationNeedsEvidence OperationCompareBranch = True"
| "operationNeedsEvidence _ = False"

definition requestNeedsEvidence :: "Operation \<Rightarrow> strmap \<Rightarrow> bool" where
  "requestNeedsEvidence op arguments =
     (if op = OperationRegressionTest
      then strGet arguments ''validation-kind'' = ''reproducer'' \<or> strGet arguments ''validation-kind'' = ''negative_control''
      else operationNeedsEvidence op)"

definition rule :: "string \<Rightarrow> string \<Rightarrow> string \<Rightarrow> int \<Rightarrow> int \<Rightarrow> ArtifactRule" where
  "rule role media glob count bytes =
     \<lparr>Rule_Role = role, Rule_MediaType = media, Rule_Glob = glob, Rule_MaxCount = count, Rule_MaxBytes = bytes\<rparr>"

fun artifactRules :: "Operation \<Rightarrow> ArtifactRule list" where
  "artifactRules OperationInspect =
     [rule ''apparatus_inspection'' ''application/json'' ''apparatus-inspection.json'' 1 (2 ^ 20)]"
| "artifactRules OperationBuild =
     [rule ''harness_binary'' ''application/x-executable'' ''fuzz_target'' 1 (128 * 2 ^ 20),
      rule ''build_provenance'' ''application/json'' ''build-provenance.json'' 1 (2 ^ 20)]"
| "artifactRules OperationFuzz = [rule ''crashing_input'' ''application/octet-stream'' ''crash-*'' 100 (256 * 2 ^ 20)]"
| "artifactRules OperationReproduce = [rule ''crashing_input'' ''application/octet-stream'' ''crash-*'' 100 (256 * 2 ^ 20)]"
| "artifactRules OperationMinimize = [rule ''minimized_input'' ''application/octet-stream'' ''minimized'' 1 (16 * 2 ^ 20)]"
| "artifactRules OperationCoverage = [rule ''coverage'' ''application/json'' ''coverage.json'' 1 (16 * 2 ^ 20)]"
| "artifactRules OperationSymbolize =
     [rule ''symbolized_stack'' ''text/plain; charset=utf-8'' ''symbolized.txt'' 1 (4 * 2 ^ 20)]"
| "artifactRules OperationCompareBranch =
     [rule ''revision_comparison'' ''application/json'' ''comparison.json'' 1 (2 ^ 20),
      rule ''revision_comparison_log'' ''text/plain; charset=utf-8'' ''comparison.log'' 1 (4 * 2 ^ 20)]"
| "artifactRules OperationRegressionTest =
     [rule ''regression_result'' ''application/json'' ''regression.json'' 1 (2 ^ 20),
      rule ''regression_log'' ''text/plain; charset=utf-8'' ''regression.log'' 1 (4 * 2 ^ 20)]"
| "artifactRules OperationSeed = [rule ''corpus_seed'' ''application/octet-stream'' ''seed-*'' 100 (16 * 2 ^ 20)]"
| "artifactRules OperationMergeCorpus = [rule ''corpus_entry'' ''application/octet-stream'' ''merged/*'' 10000 (2 ^ 30)]"
| "artifactRules _ = []"

text \<open>
  The loop over the request's arguments. Go visits the map in an order of its own, so the order is
  an argument; it decides only which unsupported key the error names.
\<close>

fun argumentLoop :: "Operation \<Rightarrow> strmap \<Rightarrow> (string \<times> string) list \<Rightarrow> strmap result" where
  "argumentLoop op arguments [] = Inr arguments"
| "argumentLoop op arguments ((key, value) # rest) =
     (if key = ''max-total-time'' \<and> op = OperationFuzz
      then argumentLoop op (fmupd key value arguments) rest
      else if key = ''validation-kind'' \<and> op = OperationRegressionTest \<and>
              (value = ''reproducer'' \<or> value = ''regression'' \<or> value = ''negative_control'')
      then argumentLoop op (fmupd key value arguments) rest
      else Inl (Err (''apparatus: unsupported job argument '' @ quoted key)))"

definition mountAt :: "string \<Rightarrow> string \<Rightarrow> string \<Rightarrow> bool \<Rightarrow> JobMount" where
  "mountAt name hostPath containerPath readOnly =
     \<lparr>Mount_Name = name, Mount_HostPath = hostPath, Mount_ContainerPath = containerPath, Mount_ReadOnly = readOnly\<rparr>"

definition jobMounts :: "JobRequest \<Rightarrow> JobMount list" where
  "jobMounts r =
     [mountAt ''source'' (Req_SourceDir r) ''/source'' True] @
     (if Req_BuildDir r \<noteq> [] then [mountAt ''build'' (Req_BuildDir r) ''/build'' True] else []) @
     (if Req_CorpusDir r \<noteq> [] then [mountAt ''corpus'' (Req_CorpusDir r) ''/corpus'' False] else []) @
     (if Req_EvidenceDir r \<noteq> [] then [mountAt ''evidence'' (Req_EvidenceDir r) ''/evidence'' True] else []) @
     (if Req_PatchDir r \<noteq> [] then [mountAt ''patch'' (Req_PatchDir r) ''/patch'' True] else [])"

definition zeroLimits :: ResourceBudget where
  "zeroLimits = \<lparr>MaxWallSeconds = 0, MaxMemoryBytes = 0, MaxCPUSeconds = 0, MaxDiskBytes = 0, MaxInodes = 0, MaxPIDs = 0, MaxConcurrent = 0\<rparr>"

definition jobBudget :: "ApparatusManifest \<Rightarrow> JobRequest \<Rightarrow> ResourceBudget" where
  "jobBudget m r = (if Req_Budget r = zeroLimits then Manifest_Limits m else Req_Budget r)"

definition jobSanitizer :: "ApparatusManifest \<Rightarrow> JobRequest \<Rightarrow> string" where
  "jobSanitizer m r =
     (if Req_Sanitizer r = [] \<and> Manifest_Sanitizers m \<noteq> [] then hd (Manifest_Sanitizers m) else Req_Sanitizer r)"

definition newJobIn :: "(string \<Rightarrow> string) \<Rightarrow> (string \<Rightarrow> string option) \<Rightarrow> (string \<times> string) list \<Rightarrow> ApparatusManifest \<Rightarrow> JobRequest \<Rightarrow> WorkerJob result" where
  "newJobIn sha compact order m r =
     rbind (validateManifest sha compact m) (\<lambda>_.
     rbind (check (containsOperation (Manifest_Operations m) (Req_Operation r)) ''apparatus: operation not supported by manifest'') (\<lambda>_.
     (case find (\<lambda>h. Harness_Name h = Req_Harness r) (Manifest_Harnesses m) of
        None \<Rightarrow> Inl (Err ''apparatus: unknown harness'')
      | Some harness \<Rightarrow>
          if Harness_Name harness = [] then Inl (Err ''apparatus: unknown harness'')
          else
            (case budgetValidate (jobBudget m r) of
               Inl e \<Rightarrow> Inl (Err (''apparatus: '' @ errText e))
             | Inr _ \<Rightarrow>
                 if exceedsBudget (jobBudget m r) (Manifest_Limits m)
                 then Inl (Err ''apparatus: requested budget exceeds manifest limits'')
                 else if requestNeedsEvidence (Req_Operation r) (Req_Arguments r) \<and> (Req_InputArtifactID r = [] \<or> Req_EvidenceDir r = [])
                 then Inl (Err ''apparatus: operation requires a verified evidence artifact'')
                 else if \<not> requestNeedsEvidence (Req_Operation r) (Req_Arguments r) \<and> (Req_InputArtifactID r \<noteq> [] \<or> Req_EvidenceDir r \<noteq> [])
                 then Inl (Err ''apparatus: operation does not accept an evidence artifact'')
                 else if Req_Operation r = OperationBuild \<and> Req_PatchArtifactID r \<noteq> [] \<and> Req_PatchDir r = []
                 then Inl (Err ''apparatus: patched build requires verified patch evidence'')
                 else if \<not> (Req_Operation r = OperationBuild \<and> Req_PatchArtifactID r \<noteq> []) \<and> (Req_PatchArtifactID r \<noteq> [] \<or> Req_PatchDir r \<noteq> [])
                 then Inl (Err ''apparatus: operation does not accept a patch artifact'')
                 else if jobSanitizer m r = [] \<or> \<not> containsString (Manifest_Sanitizers m) (jobSanitizer m r)
                 then Inl (Err ''apparatus: unsupported sanitizer'')
                 else
                   rbind (argumentLoop (Req_Operation r)
                     (fmap_of_list [(''manifest'', Manifest_ID m), (''harness'', Harness_Name harness), (''revision'', Req_Revision r),
                        (''sanitizer'', jobSanitizer m r)]) order) (\<lambda>arguments.
                   if Req_Operation r = OperationRegressionTest \<and> strGet arguments ''validation-kind'' = []
                   then Inl (Err ''apparatus: regression validation kind required'')
                   else Inr \<lparr>Job_SchemaVersion = 0, Job_ID = Req_ID r, Job_RunID = Req_RunID r, Job_CampaignID = Req_CampaignID r,
                     Job_ScopeID = Req_ScopeID r, Job_TargetID = Req_TargetID r, Job_BuildID = Req_BuildID r,
                     Job_InputArtifactID = Req_InputArtifactID r, Job_PatchArtifactID = Req_PatchArtifactID r,
                     Job_Operation = Req_Operation r, Job_Arguments = arguments, Job_Environment = Manifest_Environment m,
                     Job_ImageDigest = Manifest_ImageDigest m, Job_Runtime = ''rootless-docker'', Job_Mounts = jobMounts r,
                     Job_ArtifactRules = artifactRules (Req_Operation r), Job_Budget = jobBudget m r,
                     Job_AuditCorrelationID = Req_CorrelationID r, Job_Status = OtherRunStatus [],
                     Job_CreatedAt = zeroTime, Job_UpdatedAt = zeroTime\<rparr>)))))"

definition newJob :: "(string \<Rightarrow> string) \<Rightarrow> (string \<Rightarrow> string option) \<Rightarrow> ApparatusManifest \<Rightarrow> JobRequest \<Rightarrow> WorkerJob result" where
  "newJob sha compact m r = newJobIn sha compact (sorted_list_of_fmap (Req_Arguments r)) m r"

end
