(* ===== verification/Admission.thy ===== *)
theory Admission
  imports Apparatus
begin

text \<open>
  \<^verbatim>\<open>internal/research/apparatus/admission.go\<close>: the signed catalog of apparatus manifests with their
  SBOM and provenance. The JSON decoders of the two document formats, Ed25519, base64 and the
  canonical signing payload are parameters (records \<open>Documents\<close> and \<open>Signing\<close>); manifests are
  compared as values, where the code compares their JSON.
\<close>

section \<open>Data\<close>

record SPDXPackage =
  Pkg_Name :: string
  Pkg_SPDXID :: string
  Pkg_VersionInfo :: string
  Pkg_Checksums :: "(string \<times> string) list"

record SPDXDocument =
  Spdx_Version :: string
  Spdx_SPDXID :: string
  Spdx_DataLicense :: string
  Spdx_Namespace :: string
  Spdx_Packages :: "SPDXPackage list"

record SLSAStatement =
  Slsa_Type :: string
  Slsa_PredicateType :: string
  Slsa_Subjects :: "strmap list"
  Slsa_BuildType :: string
  Slsa_Dependencies :: "(string \<times> strmap) list"
  Slsa_BuilderID :: string

record Documents =
  doc_Compact :: "string \<Rightarrow> string option"
  doc_SPDX :: "string \<Rightarrow> SPDXDocument option"
  doc_SLSA :: "string \<Rightarrow> SLSAStatement option"

record AdmissionEntry =
  Entry_Manifest :: ApparatusManifest
  Entry_SBOM :: string
  Entry_Provenance :: string

record AdmissionCatalog =
  Catalog_SchemaVersion :: int
  Catalog_IssuedAt :: time
  Catalog_ExpiresAt :: time
  Catalog_Entries :: "AdmissionEntry list"

record SignedAdmissionCatalog =
  Signed_SchemaVersion :: int
  Signed_KeyID :: string
  Signed_Catalog :: AdmissionCatalog
  Signed_Signature :: string

record AdmittedApparatus =
  Admitted_Manifest :: ApparatusManifest
  Admitted_SBOMSHA256 :: string
  Admitted_ProvenanceSHA256 :: string
  Admitted_BuilderID :: string
  Admitted_DependencyCount :: int
  Admitted_SBOM :: string
  Admitted_Provenance :: string

record VerifiedAdmissionCatalog =
  Verified_KeyID :: string
  Verified_ExpiresAt :: time
  Verified_Entries :: "(string \<times> AdmittedApparatus) list"

record Signing =
  ed_Public :: "string \<Rightarrow> string"
  ed_Sign :: "string \<Rightarrow> string \<Rightarrow> string"
  ed_Verify :: "string \<Rightarrow> string \<Rightarrow> string \<Rightarrow> bool"
  b64_Encode :: "string \<Rightarrow> string"
  b64_Decode :: "string \<Rightarrow> string option"
  signingPayload :: "int \<Rightarrow> string \<Rightarrow> AdmissionCatalog \<Rightarrow> string"

definition MaxAdmissionLifetime :: duration where
  "MaxAdmissionLifetime = 90 * 24 * nhour"

definition admissionClockSkew :: duration where
  "admissionClockSkew = 5 * nminute"

definition maxAdmissionEntries :: nat where
  "maxAdmissionEntries = 64"

section \<open>Documents\<close>

definition isLowerHexDigest :: "string \<Rightarrow> bool" where
  "isLowerHexDigest v \<longleftrightarrow> length v = 64 \<and> list_all lowerHexChar v"

definition isPinnedSPDXValue :: "string \<Rightarrow> bool" where
  "isPinnedSPDXValue v \<longleftrightarrow> trimSpace v \<noteq> [] \<and> trimSpace v = v \<and> trimSpace v \<noteq> ''NOASSERTION'' \<and> trimSpace v \<noteq> ''NONE''"

fun packageLoop :: "string list \<Rightarrow> SPDXPackage list \<Rightarrow> unit result" where
  "packageLoop seen [] = Inr ()"
| "packageLoop seen (p # ps) =
     (if Pkg_Name p = [] \<or> length (Pkg_Name p) > 1024 \<or> Pkg_SPDXID p = [] \<or> length (Pkg_SPDXID p) > 1024 \<or>
         \<not> isPinnedSPDXValue (Pkg_VersionInfo p) \<or> length (Pkg_VersionInfo p) > 1024 \<or> Pkg_SPDXID p \<in> set seen
      then Inl (Err ''apparatus: SBOM packages require unique identity and pinned version'')
      else if \<not> list_ex (\<lambda>(alg, v). alg = ''SHA256'' \<and> isLowerHexDigest v) (Pkg_Checksums p)
      then Inl (Err ''apparatus: every SBOM package requires a SHA-256 checksum'')
      else packageLoop (Pkg_SPDXID p # seen) ps)"

definition validateSPDX :: "Documents \<Rightarrow> string \<Rightarrow> int result" where
  "validateSPDX docs raw =
     (case doc_SPDX docs raw of
        None \<Rightarrow> Inl (Err ''apparatus: invalid SPDX JSON SBOM'')
      | Some d \<Rightarrow>
          if \<not> hasPrefix (Spdx_Version d) ''SPDX-2.'' \<or> Spdx_SPDXID d \<noteq> ''SPDXRef-DOCUMENT'' \<or> Spdx_DataLicense d = [] \<or>
             Spdx_Namespace d = [] \<or> length (Spdx_Namespace d) > 2048 \<or> Spdx_Packages d = [] \<or> length (Spdx_Packages d) > 10000
          then Inl (Err ''apparatus: incomplete SPDX JSON SBOM'')
          else rbind (packageLoop [] (Spdx_Packages d)) (\<lambda>_. Inr (int (length (Spdx_Packages d)))))"

definition validateSLSAProvenance :: "Documents \<Rightarrow> string \<Rightarrow> string \<Rightarrow> string result" where
  "validateSLSAProvenance docs raw imageDigest =
     (case doc_SLSA docs raw of
        None \<Rightarrow> Inl (Err ''apparatus: invalid SLSA provenance JSON'')
      | Some st \<Rightarrow>
          if Slsa_Type st \<noteq> ''https://in-toto.io/Statement/v1'' \<or> Slsa_PredicateType st \<noteq> ''https://slsa.dev/provenance/v1'' \<or>
             Slsa_BuildType st = [] \<or> length (Slsa_BuildType st) > 2048 \<or> Slsa_BuilderID st = [] \<or> length (Slsa_BuilderID st) > 2048
          then Inl (Err ''apparatus: incomplete SLSA provenance statement'')
          else if \<not> list_ex (\<lambda>dg. strGet dg ''sha256'' = trimPrefix imageDigest ''sha256:'') (Slsa_Subjects st) \<or>
             Slsa_Dependencies st = [] \<or> length (Slsa_Dependencies st) > 4096
          then Inl (Err ''apparatus: provenance must bind the image and resolved dependencies'')
          else if list_ex (\<lambda>(uri, dg). uri = [] \<or> length uri > 4096 \<or> \<not> isLowerHexDigest (strGet dg ''sha256'')) (Slsa_Dependencies st)
          then Inl (Err ''apparatus: provenance dependencies require URI and SHA-256'')
          else Inr (Slsa_BuilderID st))"

definition canonicalJSON :: "Documents \<Rightarrow> string \<Rightarrow> string result" where
  "canonicalJSON docs raw =
     (case doc_Compact docs raw of None \<Rightarrow> Inl (Err ''apparatus: invalid signed JSON document'') | Some c \<Rightarrow> Inr c)"

section \<open>Catalogs\<close>

definition admitEntry :: "(string \<Rightarrow> string) \<Rightarrow> Documents \<Rightarrow> (string \<times> AdmittedApparatus) list \<Rightarrow> AdmissionEntry \<Rightarrow> AdmittedApparatus result" where
  "admitEntry sha docs entries e =
     (let m = Entry_Manifest e in
      if Entry_SBOM e = [] \<or> length (Entry_SBOM e) > 4 * 2 ^ 20 \<or> Entry_Provenance e = [] \<or> length (Entry_Provenance e) > 4 * 2 ^ 20
      then Inl (Err ''apparatus: signed SBOM or provenance exceeds bounds'')
      else if Manifest_SupplyChain m \<noteq> None
      then Inl (Err ''apparatus: unsigned manifest cannot contain admission metadata'')
      else
        rbind (validateManifest sha (doc_Compact docs) m) (\<lambda>_.
        if map_of entries (Manifest_ID m) \<noteq> None
        then Inl (Err ''apparatus: duplicate admission manifest id'')
        else
          rbind (validateSPDX docs (Entry_SBOM e)) (\<lambda>count.
          rbind (validateSLSAProvenance docs (Entry_Provenance e) (Manifest_ImageDigest m)) (\<lambda>builder.
          rbind (canonicalJSON docs (Entry_SBOM e)) (\<lambda>sbom.
          rbind (canonicalJSON docs (Entry_Provenance e)) (\<lambda>provenance.
            Inr \<lparr>Admitted_Manifest = m, Admitted_SBOMSHA256 = contentID sha sbom, Admitted_ProvenanceSHA256 = contentID sha provenance,
                 Admitted_BuilderID = builder, Admitted_DependencyCount = count, Admitted_SBOM = sbom, Admitted_Provenance = provenance\<rparr>))))))"

fun admitEntries :: "(string \<Rightarrow> string) \<Rightarrow> Documents \<Rightarrow> (string \<times> AdmittedApparatus) list \<Rightarrow> AdmissionEntry list \<Rightarrow> (string \<times> AdmittedApparatus) list result" where
  "admitEntries sha docs entries [] = Inr entries"
| "admitEntries sha docs entries (e # es) =
     rbind (admitEntry sha docs entries e) (\<lambda>a. admitEntries sha docs (entries @ [(Manifest_ID (Entry_Manifest e), a)]) es)"

definition validateAdmissionCatalog :: "(string \<Rightarrow> string) \<Rightarrow> Documents \<Rightarrow> AdmissionCatalog \<Rightarrow> time \<Rightarrow> (string \<times> AdmittedApparatus) list result" where
  "validateAdmissionCatalog sha docs catalog now =
     (if Catalog_SchemaVersion catalog \<noteq> 1 \<or> isZero (Catalog_IssuedAt catalog) \<or> isZero (Catalog_ExpiresAt catalog) \<or>
         Catalog_Entries catalog = [] \<or> length (Catalog_Entries catalog) > maxAdmissionEntries
      then Inl (Err ''apparatus: invalid admission catalog identity or entry count'')
      else
        (let lifetime = timeSub (Catalog_ExpiresAt catalog) (Catalog_IssuedAt catalog) in
         if lifetime \<le> 0 \<or> lifetime > MaxAdmissionLifetime \<or> timeBefore now (Catalog_IssuedAt catalog - admissionClockSkew) \<or>
            \<not> timeBefore now (Catalog_ExpiresAt catalog)
         then Inl (Err ''apparatus: admission catalog expired or outside time policy'')
         else admitEntries sha docs [] (Catalog_Entries catalog)))"

definition admissionKeyID :: "(string \<Rightarrow> string) \<Rightarrow> string \<Rightarrow> string result" where
  "admissionKeyID sha publicKey =
     (if length publicKey \<noteq> 32 then Inl (Err ''apparatus: invalid Ed25519 public key'') else Inr (contentID sha publicKey))"

definition signAdmissionCatalog :: "(string \<Rightarrow> string) \<Rightarrow> Documents \<Rightarrow> Signing \<Rightarrow> AdmissionCatalog \<Rightarrow> string \<Rightarrow> SignedAdmissionCatalog result" where
  "signAdmissionCatalog sha docs sg catalog privateKey =
     (if length privateKey \<noteq> 64 then Inl (Err ''apparatus: invalid Ed25519 private key'')
      else
        rbind (admissionKeyID sha (ed_Public sg privateKey)) (\<lambda>keyID.
        rbind (validateAdmissionCatalog sha docs catalog (Catalog_IssuedAt catalog)) (\<lambda>_.
          Inr \<lparr>Signed_SchemaVersion = 1, Signed_KeyID = keyID, Signed_Catalog = catalog,
               Signed_Signature = b64_Encode sg (ed_Sign sg privateKey (signingPayload sg 1 keyID catalog))\<rparr>)))"

definition verifyAdmissionCatalog :: "(string \<Rightarrow> string) \<Rightarrow> Documents \<Rightarrow> Signing \<Rightarrow> Host \<Rightarrow> SignedAdmissionCatalog \<Rightarrow> string \<Rightarrow> time \<Rightarrow> VerifiedAdmissionCatalog result" where
  "verifyAdmissionCatalog sha docs sg h envelope publicKey now =
     rbind (admissionKeyID sha publicKey) (\<lambda>keyID.
     if Signed_SchemaVersion envelope \<noteq> 1 \<or> Signed_KeyID envelope \<noteq> keyID
     then Inl (Err ''apparatus: admission envelope identity mismatch'')
     else
       rbind (validateAdmissionCatalog sha docs (Signed_Catalog envelope) (if isZero now then host_clock h else now)) (\<lambda>entries.
       (case b64_Decode sg (Signed_Signature envelope) of
          None \<Rightarrow> Inl (Err ''apparatus: invalid admission signature encoding'')
        | Some signature \<Rightarrow>
            if length signature \<noteq> 64 \<or> b64_Encode sg signature \<noteq> Signed_Signature envelope
            then Inl (Err ''apparatus: invalid admission signature encoding'')
            else if \<not> ed_Verify sg publicKey
                (signingPayload sg (Signed_SchemaVersion envelope) (Signed_KeyID envelope) (Signed_Catalog envelope)) signature
            then Inl (Err ''apparatus: admission signature mismatch'')
            else Inr \<lparr>Verified_KeyID = keyID, Verified_ExpiresAt = Catalog_ExpiresAt (Signed_Catalog envelope), Verified_Entries = entries\<rparr>)))"

section \<open>Admission\<close>

definition supplyOf :: "VerifiedAdmissionCatalog \<Rightarrow> AdmittedApparatus \<Rightarrow> ApparatusSupplyChain" where
  "supplyOf catalog e =
     \<lparr>Supply_SchemaVersion = 1, Supply_SBOMSHA256 = Admitted_SBOMSHA256 e, Supply_ProvenanceSHA256 = Admitted_ProvenanceSHA256 e,
      Supply_AdmissionKeyID = Verified_KeyID catalog, Supply_AdmissionExpiresAt = Verified_ExpiresAt catalog,
      Supply_BuilderID = Admitted_BuilderID e, Supply_DependencyCount = Admitted_DependencyCount e,
      Supply_SBOM = Admitted_SBOM e, Supply_Provenance = Admitted_Provenance e\<rparr>"

text \<open>The method has a nil receiver when no catalog is attached.\<close>

definition admit :: "Host \<Rightarrow> VerifiedAdmissionCatalog option \<Rightarrow> ApparatusManifest \<Rightarrow> time \<Rightarrow> ApparatusManifest result" where
  "admit h catalog manifest now0 =
     (case catalog of
        None \<Rightarrow> Inl (Err ''apparatus: verified supply-chain admission required'')
      | Some c \<Rightarrow>
          (let now = (if isZero now0 then host_clock h else now0) in
           if \<not> timeBefore now (Verified_ExpiresAt c) then Inl (Err ''apparatus: supply-chain admission expired'')
           else if Manifest_SupplyChain manifest \<noteq> None then Inl (Err ''apparatus: caller cannot supply admission metadata'')
           else
             (case map_of (Verified_Entries c) (Manifest_ID manifest) of
                None \<Rightarrow> Inl (Err ''apparatus: manifest is not present in the signed admission catalog'')
              | Some e \<Rightarrow>
                  if Admitted_Manifest e \<noteq> manifest
                  then Inl (Err ''apparatus: manifest is not present in the signed admission catalog'')
                  else Inr (manifest\<lparr>Manifest_SupplyChain := Some (supplyOf c e)\<rparr>))))"

definition validateAdmitted :: "Host \<Rightarrow> VerifiedAdmissionCatalog option \<Rightarrow> ApparatusManifest \<Rightarrow> time \<Rightarrow> unit result" where
  "validateAdmitted h catalog manifest now =
     (case Manifest_SupplyChain manifest of
        None \<Rightarrow> Inl (Err ''apparatus: persisted manifest lacks supply-chain admission'')
      | Some existing \<Rightarrow>
          rbind (admit h catalog (manifest\<lparr>Manifest_SupplyChain := None\<rparr>) now) (\<lambda>admitted.
          if Manifest_SupplyChain admitted \<noteq> Some existing
          then Inl (Err ''apparatus: persisted admission does not match the trusted catalog'')
          else Inr ()))"

end
