(* ===== verification/Service.thy ===== *)
theory Service
  imports Custody Admission
begin

text \<open>
  \<^verbatim>\<open>internal/research/service/service.go\<close>: the control plane. Every handler is an action on the
  store, one \<open>act_bind\<close> per call of the code, so what a handler wrote before it failed stays
  written. The job broker, source acquisition (Git, HTTPS bundles, the hash of a captured tree) and
  the document decoders are fields of the record \<open>Service\<close>, since they are attached to the
  service or reach outside the process. A request reads the clock once.
\<close>

section \<open>The service and its collaborators\<close>

record SourceDescriptor =
  Src_SourceName :: string
  Src_Repository :: string
  Src_Host :: string
  Src_URL :: string
  Src_Commit :: string
  Src_SHA256 :: string
  Src_ManifestKeyID :: string
  Src_ManifestExpiresAt :: time

record FetchResult =
  Fetch_Descriptor :: SourceDescriptor
  Fetch_SourceSHA256 :: string
  Fetch_BundleBytes :: int
  Fetch_FetchedAt :: time

record SourceBroker =
  src_Describe :: "string \<Rightarrow> string \<Rightarrow> SourceDescriptor result"
  src_Fetch :: "string \<Rightarrow> string \<Rightarrow> string \<Rightarrow> int \<times> int \<Rightarrow> FetchResult result"

text \<open>Acquisition: limits are files and bytes; a checkout gives the requested ref, the commit and the tree hash.\<close>

record Acquisition =
  acq_CaptureDirectory :: "string \<Rightarrow> string \<Rightarrow> string \<Rightarrow> string result"
  acq_CaptureGitCheckout :: "string \<Rightarrow> string \<Rightarrow> string \<Rightarrow> int \<times> int \<Rightarrow> (string \<times> string \<times> string) result"
  acq_VerifiedCapture :: "string \<Rightarrow> string \<Rightarrow> string \<Rightarrow> string \<Rightarrow> int \<times> int \<Rightarrow> string result"

record Service =
  svc_machine :: StateMachine
  svc_broker :: "(WorkerJob \<Rightarrow> (Store, ExperimentRun) act) option"
  svc_sourceBroker :: "SourceBroker option"
  svc_apparatusAdmission :: "VerifiedAdmissionCatalog option"
  svc_workspaceRoots :: "string list"
  svc_internalRoot :: string
  svc_store :: StoreConfig
  svc_documents :: Documents
  svc_acquisition :: Acquisition

record TargetRequest =
  TReq_Repository :: string
  TReq_Revision :: string
  TReq_SourceDir :: string
  TReq_SourceName :: string
  TReq_Language :: string
  TReq_Architecture :: string
  TReq_ApprovalID :: string
  TReq_CorrelationID :: string

section \<open>Audit\<close>

definition auditEvent :: "string \<Rightarrow> string \<Rightarrow> string \<Rightarrow> string \<Rightarrow> string \<Rightarrow> string \<Rightarrow> strmap \<Rightarrow> AuditEvent" where
  "auditEvent actor action resourceType resourceID correlation decision details =
     \<lparr>Audit_SchemaVersion = 0, Audit_ID = [], Audit_Sequence = 0, Audit_PreviousHash = [], Audit_Hash = [],
      Audit_ActorID = actor, Audit_Action = action, Audit_ResourceType = resourceType, Audit_ResourceID = resourceID,
      Audit_CorrelationID = correlation, Audit_Decision = decision, Audit_Details = details, Audit_CreatedAt = zeroTime\<rparr>"

text \<open>A refusal is recorded, the outcome of recording it is ignored, and the caller gets \<^verbatim>\<open>ErrForbidden\<close>.\<close>

definition denied :: "Env \<Rightarrow> Principal \<Rightarrow> string \<Rightarrow> string \<Rightarrow> string \<Rightarrow> string \<Rightarrow> (Store, 'a) act" where
  "denied env actor action resourceType resourceID reason =
     act_bind (act_ignore (appendAudit env (auditEvent (Principal_ID actor) action resourceType resourceID [] ''denied''
       (fmap_of_list [(''reason'', reason)])))) (\<lambda>_. act_fail (ErrForbidden reason))"

definition allowedWithDetails :: "Env \<Rightarrow> Principal \<Rightarrow> string \<Rightarrow> string \<Rightarrow> string \<Rightarrow> string \<Rightarrow> strmap \<Rightarrow> (Store, unit) act" where
  "allowedWithDetails env actor action resourceType resourceID correlation details =
     act_bind (appendAudit env (auditEvent (Principal_ID actor) action resourceType resourceID correlation ''allowed'' details))
       (\<lambda>_. act_return ())"

definition allowed :: "Env \<Rightarrow> Principal \<Rightarrow> string \<Rightarrow> string \<Rightarrow> string \<Rightarrow> string \<Rightarrow> (Store, unit) act" where
  "allowed env actor action resourceType resourceID correlation =
     allowedWithDetails env actor action resourceType resourceID correlation fmempty"

section \<open>Predicates\<close>

definition hasRole :: "Principal \<Rightarrow> Role \<Rightarrow> bool" where
  "hasRole p role \<longleftrightarrow> list_ex (\<lambda>r. r = role) (Principal_Roles p) \<and> Principal_ID p \<noteq> []"

definition hasAnyRole :: "Principal \<Rightarrow> Role list \<Rightarrow> bool" where
  "hasAnyRole p roles = list_ex (hasRole p) roles"

definition scopeMember :: "AuthorizationScope \<Rightarrow> Principal \<Rightarrow> bool" where
  "scopeMember scope p =
     (if Principal_ID p = [] then False
      else if hasRole p RoleAdmin \<or> Scope_OperatorID scope = Principal_ID p then True
      else list_ex (\<lambda>m. m = Principal_ID p) (Scope_MemberIDs scope))"

definition budgetExceeds :: "ResourceBudget \<Rightarrow> ResourceBudget \<Rightarrow> bool" where
  "budgetExceeds request limit \<longleftrightarrow>
     overLimit (MaxWallSeconds request) (MaxWallSeconds limit) \<or> overLimit (MaxMemoryBytes request) (MaxMemoryBytes limit) \<or>
     overLimit (MaxCPUSeconds request) (MaxCPUSeconds limit) \<or> overLimit (MaxDiskBytes request) (MaxDiskBytes limit) \<or>
     overLimit (MaxInodes request) (MaxInodes limit) \<or> overLimit (MaxPIDs request) (MaxPIDs limit) \<or>
     (MaxConcurrent limit > 0 \<and> MaxConcurrent request > MaxConcurrent limit)"

definition canonicalDirectory :: "Env \<Rightarrow> string \<Rightarrow> string result" where
  "canonicalDirectory env path =
     (case absPath (host_cwd (env_host env)) (trimSpace path) of
        None \<Rightarrow> Inl (Err ''getwd'')
      | Some p \<Rightarrow>
          (case host_links (env_host env) p of
             None \<Rightarrow> Inl (Err ''no such file or directory'')
           | Some real \<Rightarrow> if env_isDir env real then Inr (clean real) else Inl (Err ''not a directory'')))"

definition dirInsideAnyRoot :: "Env \<Rightarrow> string \<Rightarrow> string list \<Rightarrow> bool" where
  "dirInsideAnyRoot env path roots =
     (case canonicalDirectory env path of
        Inl _ \<Rightarrow> False
      | Inr candidate \<Rightarrow> list_ex (\<lambda>root. relInside root candidate) roots)"

definition deterministicID :: "Env \<Rightarrow> string \<Rightarrow> string list \<Rightarrow> string" where
  "deterministicID env pfx values =
     pfx @ ''_'' @ hexEncode (take 16 (env_sha env (concat (map (\<lambda>v. v @ [CHR 0x00]) values))))"

section \<open>Configuration\<close>

definition configureInternalRoot :: "Env \<Rightarrow> string \<Rightarrow> Service \<Rightarrow> Service result" where
  "configureInternalRoot env root svc =
     (case canonicalDirectory env root of
        Inl e \<Rightarrow> Inl (Err (''research service: invalid internal worker root: '' @ errText e))
      | Inr c \<Rightarrow> Inr (svc\<lparr>svc_internalRoot := c\<rparr>))"

fun canonicalRoots :: "Env \<Rightarrow> string list \<Rightarrow> string list result" where
  "canonicalRoots env [] = Inr []"
| "canonicalRoots env (root # roots) =
     (case canonicalDirectory env root of
        Inl e \<Rightarrow> Inl (Err (''research service: invalid fixed workspace root: '' @ errText e))
      | Inr c \<Rightarrow> rbind (canonicalRoots env roots) (\<lambda>cs. Inr (c # cs)))"

definition configureWorkspaceRoots :: "Env \<Rightarrow> string list \<Rightarrow> Service \<Rightarrow> Service result" where
  "configureWorkspaceRoots env roots svc =
     (if roots = [] then Inl (Err ''research service: at least one fixed workspace root required'')
      else rbind (canonicalRoots env roots) (\<lambda>cs. Inr (svc\<lparr>svc_workspaceRoots := cs\<rparr>)))"

section \<open>Scopes and apparatus\<close>

text \<open>The loop over the requested roots of a scope: its error is the reason of the denial.\<close>

fun scopeRoots :: "Env \<Rightarrow> Service \<Rightarrow> string list \<Rightarrow> string list result" where
  "scopeRoots env svc [] = Inr []"
| "scopeRoots env svc (root # roots) =
     (case canonicalDirectory env root of
        Inl _ \<Rightarrow> Inl (Err ''workspace root must be an existing directory'')
      | Inr c \<Rightarrow>
          if svc_workspaceRoots svc \<noteq> [] \<and> \<not> dirInsideAnyRoot env c (svc_workspaceRoots svc)
          then Inl (Err ''workspace root exceeds the server operator allowlist'')
          else rbind (scopeRoots env svc roots) (\<lambda>cs. Inr (c # cs)))"

definition serviceCreateScope :: "Env \<Rightarrow> Service \<Rightarrow> Principal \<Rightarrow> AuthorizationScope \<Rightarrow> (Store, AuthorizationScope) act" where
  "serviceCreateScope env svc actor scope =
     act_bind (act_ensure (hasRole actor RoleAdmin \<or> hasRole actor RoleOperator)
       (denied env actor ''scope.create'' ''authorization_scope'' (Scope_ID scope) ''operator or admin role required'')) (\<lambda>_.
     (let scope1 = (if Scope_OperatorID scope = [] then scope\<lparr>Scope_OperatorID := Principal_ID actor\<rparr> else scope) in
     act_bind (act_ensure (Scope_OperatorID scope1 = Principal_ID actor \<or> hasRole actor RoleAdmin)
       (denied env actor ''scope.create'' ''authorization_scope'' (Scope_ID scope1) ''only an admin may create another operator's scope'')) (\<lambda>_.
     act_bind (if Scope_ID scope1 = [] then newID env ''scope'' else act_return (Scope_ID scope1)) (\<lambda>i.
     (let scope2 = scope1\<lparr>Scope_ID := i,
            Scope_SchemaVersion := (if Scope_SchemaVersion scope1 = 0 then 1 else Scope_SchemaVersion scope1),
            Scope_CreatedAt := (if isZero (Scope_CreatedAt scope1) then env_now env else Scope_CreatedAt scope1)\<rparr>;
          refuse = denied env actor ''scope.create'' ''authorization_scope'' i in
     act_bind (act_orElse (scopeRoots env svc (Scope_WorkspaceRoots scope2)) (\<lambda>e. refuse (errText e))) (\<lambda>roots.
     (let scope3 = scope2\<lparr>Scope_WorkspaceRoots := roots\<rparr> in
     act_bind (act_orElse (scopeValidate (env_host env) scope3 (env_now env))
       (\<lambda>e. denied env actor ''scope.create'' ''authorization_scope'' i (errText e))) (\<lambda>_.
     act_bind (act_each (\<lambda>manifestID. act_catch (act_bind (getApparatus manifestID) (\<lambda>_. act_return ()))
         (\<lambda>e. denied env actor ''scope.create'' ''authorization_scope'' i (''allowed apparatus is not registered: '' @ manifestID)))
       (Scope_AllowedApparatusIDs scope3)) (\<lambda>_.
     act_bind (createScope env scope3) (\<lambda>_.
     act_bind (allowed env actor ''scope.create'' ''authorization_scope'' i []) (\<lambda>_.
     act_return scope3)))))))))))"

definition registerApparatus :: "Env \<Rightarrow> Service \<Rightarrow> Principal \<Rightarrow> ApparatusManifest \<Rightarrow> (Store, ApparatusManifest) act" where
  "registerApparatus env svc actor manifest =
     (let i = Manifest_ID manifest in
     act_bind (act_ensure (hasRole actor RoleAdmin)
       (denied env actor ''apparatus.register'' ''apparatus_manifest'' i ''admin role required'')) (\<lambda>_.
     act_bind (act_ensure (svc_apparatusAdmission svc \<noteq> None)
       (denied env actor ''apparatus.register'' ''apparatus_manifest'' i ''verified apparatus supply-chain admission required'')) (\<lambda>_.
     act_bind (act_orElse (admit (env_host env) (svc_apparatusAdmission svc) manifest (env_now env))
       (\<lambda>e. denied env actor ''apparatus.register'' ''apparatus_manifest'' i (errText e))) (\<lambda>admitted.
     act_bind (act_orElse (validateManifest (env_sha env) (doc_Compact (svc_documents svc)) admitted)
       (\<lambda>e. denied env actor ''apparatus.register'' ''apparatus_manifest'' i (errText e))) (\<lambda>_.
     act_bind (saveApparatus env admitted) (\<lambda>_.
     act_bind (allowedWithDetails env actor ''apparatus.register'' ''apparatus_manifest'' (Manifest_ID admitted) []
       (case Manifest_SupplyChain admitted of
          None \<Rightarrow> fmempty
        | Some supply \<Rightarrow> fmap_of_list
            [(''image_digest'', Manifest_ImageDigest admitted), (''sbom_sha256'', Supply_SBOMSHA256 supply),
             (''provenance_sha256'', Supply_ProvenanceSHA256 supply), (''admission_key_id'', Supply_AdmissionKeyID supply),
             (''admission_expires_at'', timestamp (Supply_AdmissionExpiresAt supply))])) (\<lambda>_.
     act_return admitted)))))))"

definition revokeScope :: "Env \<Rightarrow> Principal \<Rightarrow> string \<Rightarrow> string \<Rightarrow> (Store, unit) act" where
  "revokeScope env actor scopeID reason =
     act_bind (getScope scopeID) (\<lambda>scope.
     act_bind (act_ensure (Principal_ID actor = Scope_OperatorID scope \<or> hasRole actor RoleAdmin)
       (denied env actor ''scope.revoke'' ''authorization_scope'' scopeID ''scope owner or admin required'')) (\<lambda>_.
     act_bind (storeRevokeScope env scopeID (env_now env)) (\<lambda>_.
     allowedWithDetails env actor ''scope.revoke'' ''authorization_scope'' scopeID [] (fmap_of_list [(''reason'', reason)]))))"

section \<open>Campaigns\<close>

definition serviceCreateCampaign :: "Env \<Rightarrow> Principal \<Rightarrow> Campaign \<Rightarrow> (Store, Campaign) act" where
  "serviceCreateCampaign env actor campaign =
     act_bind (act_ensure (hasAnyRole actor [RoleOperator, RoleAdmin])
       (denied env actor ''campaign.create'' ''campaign'' (Campaign_ID campaign) ''operator or admin role required'')) (\<lambda>_.
     act_bind (getScope (Campaign_ScopeID campaign)) (\<lambda>scope.
     act_bind (act_orElse (scopeValidate (env_host env) scope (env_now env))
       (\<lambda>e. denied env actor ''campaign.create'' ''campaign'' (Campaign_ID campaign) (errText e))) (\<lambda>_.
     act_bind (act_ensure (Principal_ID actor = Scope_OperatorID scope \<or> hasRole actor RoleAdmin)
       (denied env actor ''campaign.create'' ''campaign'' (Campaign_ID campaign) ''scope owner or admin required'')) (\<lambda>_.
     act_bind (act_ensure (\<not> budgetExceeds (Campaign_Budget campaign) (Scope_Budget scope))
       (denied env actor ''campaign.create'' ''campaign'' (Campaign_ID campaign) ''campaign budget exceeds authorization scope'')) (\<lambda>_.
     act_bind (if Campaign_ID campaign = [] then newID env ''campaign'' else act_return (Campaign_ID campaign)) (\<lambda>i.
     (let campaign1 = campaign\<lparr>Campaign_ID := i,
            Campaign_SchemaVersion := (if Campaign_SchemaVersion campaign = 0 then 1 else Campaign_SchemaVersion campaign),
            Campaign_Budget := (if Campaign_Budget campaign = zeroLimits then Scope_Budget scope else Campaign_Budget campaign)\<rparr> in
     act_bind (act_orElse (budgetValidate (Campaign_Budget campaign1))
       (\<lambda>e. denied env actor ''campaign.create'' ''campaign'' i (errText e))) (\<lambda>_.
     act_bind (storeCreateCampaign env (campaign1\<lparr>Campaign_State := CampaignDraft, Campaign_Version := 1,
         Campaign_CreatedAt := env_now env, Campaign_UpdatedAt := env_now env\<rparr>)) (\<lambda>created.
     act_bind (allowed env actor ''campaign.create'' ''campaign'' (Campaign_ID created) []) (\<lambda>_.
     act_return created))))))))))"

text \<open>\<^verbatim>\<open>Transition\<close>: a request that changes nothing returns without a write and without an audit event.\<close>

definition transition :: "Env \<Rightarrow> Service \<Rightarrow> Principal \<Rightarrow> string \<Rightarrow> CampaignState \<Rightarrow> EvidenceFacts \<Rightarrow> (Store, Campaign) act" where
  "transition env svc actor campaignID to facts =
     act_bind (act_ensure (hasAnyRole actor [RoleOperator, RoleAdmin])
       (denied env actor ''campaign.transition'' ''campaign'' campaignID ''operator or admin role required'')) (\<lambda>_.
     act_bind (getCampaign campaignID) (\<lambda>campaign.
     act_bind (getScope (Campaign_ScopeID campaign)) (\<lambda>scope.
     act_bind (act_orElse (scopeValidate (env_host env) scope (env_now env))
       (\<lambda>e. denied env actor ''campaign.transition'' ''campaign'' campaignID (errText e))) (\<lambda>_.
     act_bind (act_ensure (Principal_ID actor = Scope_OperatorID scope \<or> hasRole actor RoleAdmin)
       (denied env actor ''campaign.transition'' ''campaign'' campaignID ''scope owner or admin required'')) (\<lambda>_.
     act_bind (act_orElse (advance (env_now env) (svc_machine svc) campaign to facts (env_now env))
       (\<lambda>e. denied env actor ''campaign.transition'' ''campaign'' campaignID (errText e))) (\<lambda>updated.
     if Campaign_Version updated = Campaign_Version campaign then act_return campaign
     else
       act_bind (updateCampaign env updated (Campaign_Version campaign)) (\<lambda>_.
       act_bind (allowedWithDetails env actor ''campaign.transition'' ''campaign'' campaignID []
         (fmap_of_list [(''from'', campaignStateText (Campaign_State campaign)), (''to'', campaignStateText to)])) (\<lambda>_.
       act_return updated))))))))"

definition servicePromoteFinding :: "Env \<Rightarrow> Service \<Rightarrow> Principal \<Rightarrow> string \<Rightarrow> FindingLabel \<Rightarrow> EvidenceFacts \<Rightarrow> (Store, Finding) act" where
  "servicePromoteFinding env svc actor findingID to facts =
     act_bind (act_ensure (hasAnyRole actor [RoleOperator, RoleReviewer, RoleAdmin])
       (denied env actor ''finding.promote'' ''finding'' findingID ''operator, reviewer, or admin role required'')) (\<lambda>_.
     act_bind (getFinding findingID) (\<lambda>finding.
     act_bind (getCampaign (Finding_CampaignID finding)) (\<lambda>campaign.
     act_bind (getScope (Campaign_ScopeID campaign)) (\<lambda>scope.
     act_bind (act_ensure (scopeMember scope actor)
       (denied env actor ''finding.promote'' ''finding'' findingID ''principal is not a campaign member'')) (\<lambda>_.
     act_bind (act_orElse (promoteFinding (env_now env) (svc_machine svc) finding to facts (env_now env))
       (\<lambda>e. denied env actor ''finding.promote'' ''finding'' findingID (errText e))) (\<lambda>promoted.
     act_bind (saveFinding env promoted) (\<lambda>_.
     act_bind (allowedWithDetails env actor ''finding.promote'' ''finding'' findingID []
       (fmap_of_list [(''from'', findingText (Finding_Label finding)), (''to'', findingText to)])) (\<lambda>_.
     act_return promoted))))))))"

section \<open>Approvals\<close>

definition artifactPurgeCorrelation :: "string \<Rightarrow> string" where
  "artifactPurgeCorrelation artifactID = ''artifact-purge:'' @ artifactID"

definition artifactIDFromPurgeCorrelation :: "string \<Rightarrow> string option" where
  "artifactIDFromPurgeCorrelation correlation =
     (let artifactID = trimPrefix correlation ''artifact-purge:'' in
      if hasPrefix correlation ''artifact-purge:'' \<and> artifactID \<noteq> [] \<and> artifactPurgeCorrelation artifactID = correlation
      then Some artifactID else None)"

definition purgeScope :: "AuthorizationScope \<Rightarrow> bool" where
  "purgeScope scope \<longleftrightarrow>
     containsOperation (Scope_AllowedOperations scope) OperationPurgeArtifact \<and>
     containsOperation (Scope_ApprovalOperations scope) OperationPurgeArtifact"

text \<open>The extra checks of \<^verbatim>\<open>RequestApproval\<close> for a purge.\<close>

definition requestPurgeChecks :: "Env \<Rightarrow> Principal \<Rightarrow> Approval \<Rightarrow> Campaign \<Rightarrow> AuthorizationScope \<Rightarrow> (Store, unit) act" where
  "requestPurgeChecks env actor approval campaign scope =
     (let i = Approval_ID approval in
     act_bind (act_ensure (purgeScope scope)
       (denied env actor ''approval.request'' ''approval'' i ''artifact purge must be an approval-gated scope operation'')) (\<lambda>_.
     (case artifactIDFromPurgeCorrelation (Approval_CorrelationID approval) of
        None \<Rightarrow> denied env actor ''approval.request'' ''approval'' i ''artifact purge correlation must bind one artifact''
      | Some artifactID \<Rightarrow>
          act_bind (act_catch (getArtifact artifactID)
            (\<lambda>e. denied env actor ''approval.request'' ''approval'' i ''artifact purge requires the matching terminal campaign'')) (\<lambda>artifact.
          act_bind (act_ensure (Artifact_CampaignID artifact = Campaign_ID campaign \<and> terminalCampaignState (Campaign_State campaign))
            (denied env actor ''approval.request'' ''approval'' i ''artifact purge requires the matching terminal campaign'')) (\<lambda>_.
          act_bind (act_ensure (Artifact_PurgedAt artifact = None)
            (denied env actor ''approval.request'' ''approval'' i ''artifact already has an immutable purge tombstone'')) (\<lambda>_.
          act_ensure (\<not> (isZero (Artifact_RetainUntil artifact) \<or> timeBefore (env_now env) (Artifact_RetainUntil artifact)))
            (denied env actor ''approval.request'' ''approval'' i (errText ErrRetentionActive))))))))"

definition freshApprovalID :: "Env \<Rightarrow> Principal \<Rightarrow> string \<Rightarrow> (Store, string) act" where
  "freshApprovalID env actor i =
     (if i = [] then newID env ''approval''
      else (\<lambda>s. case getApproval i s of
         (Inl ErrNotFound, s') \<Rightarrow> (Inr i, s')
       | (Inl e, s') \<Rightarrow> (Inl e, s')
       | (Inr _, s') \<Rightarrow> denied env actor ''approval.request'' ''approval'' i ''approval id already exists'' s'))"

definition requestApproval :: "Env \<Rightarrow> Principal \<Rightarrow> Approval \<Rightarrow> (Store, Approval) act" where
  "requestApproval env actor approval =
     act_bind (act_ensure (hasAnyRole actor [RoleOperator, RoleAdmin])
       (denied env actor ''approval.request'' ''approval'' (Approval_ID approval) ''operator or admin role required'')) (\<lambda>_.
     act_bind (getCampaign (Approval_CampaignID approval)) (\<lambda>campaign.
     act_bind (act_ensure (Campaign_ScopeID campaign = Approval_ScopeID approval)
       (denied env actor ''approval.request'' ''approval'' (Approval_ID approval) ''campaign does not belong to scope'')) (\<lambda>_.
     act_bind (getScope (Campaign_ScopeID campaign)) (\<lambda>scope.
     act_bind (act_ensure (scopeMember scope actor)
       (denied env actor ''approval.request'' ''approval'' (Approval_ID approval) ''principal is not a scope member'')) (\<lambda>_.
     act_bind (act_ensure (isKnownOperation (Approval_Operation approval))
       (denied env actor ''approval.request'' ''approval'' (Approval_ID approval) ''approval operation is unknown'')) (\<lambda>_.
     act_bind (if Approval_Operation approval = OperationPurgeArtifact then requestPurgeChecks env actor approval campaign scope
               else act_return ()) (\<lambda>_.
     act_bind (freshApprovalID env actor (Approval_ID approval)) (\<lambda>i.
     (let reason = trimSpace (Approval_Reason approval) in
     act_bind (act_ensure (\<not> (Approval_CorrelationID approval = [] \<or> operationText (Approval_Operation approval) = [] \<or>
         reason = [] \<or> length reason > 4096))
       (denied env actor ''approval.request'' ''approval'' i ''correlation, operation, and reason required'')) (\<lambda>_.
     (let pending = approval\<lparr>Approval_ID := i, Approval_Reason := reason, Approval_SchemaVersion := 1, Approval_Status := ''pending'',
            Approval_RequestedBy := Principal_ID actor, Approval_CreatedAt := env_now env, Approval_DecidedBy := [],
            Approval_DecidedAt := None\<rparr> in
     act_bind (saveApproval env pending) (\<lambda>_.
     act_bind (allowed env actor ''approval.request'' ''approval'' i (Approval_CorrelationID pending)) (\<lambda>_.
     act_return pending)))))))))))))"

definition decideApproval :: "Env \<Rightarrow> Principal \<Rightarrow> string \<Rightarrow> bool \<Rightarrow> string \<Rightarrow> (Store, Approval) act" where
  "decideApproval env actor approvalID approved reason0 =
     act_bind (act_ensure (hasAnyRole actor [RoleReviewer, RoleAdmin])
       (denied env actor ''approval.decide'' ''approval'' approvalID ''reviewer or admin role required'')) (\<lambda>_.
     act_bind (getApproval approvalID) (\<lambda>approval.
     act_bind (getScope (Approval_ScopeID approval)) (\<lambda>scope.
     act_bind (act_ensure (scopeMember scope actor)
       (denied env actor ''approval.decide'' ''approval'' approvalID ''reviewer is not a scope member'')) (\<lambda>_.
     act_bind (act_ensure (Approval_Status approval = ''pending'')
       (denied env actor ''approval.decide'' ''approval'' approvalID ''approval is no longer pending'')) (\<lambda>_.
     act_bind (act_ensure (\<not> (Approval_RequestedBy approval = Principal_ID actor \<and>
         (Approval_Operation approval = OperationPurgeArtifact \<or> \<not> hasRole actor RoleAdmin)))
       (denied env actor ''approval.decide'' ''approval'' approvalID ''requester cannot review their own approval'')) (\<lambda>_.
     (let reason = trimSpace reason0 in
     act_bind (act_ensure (\<not> (reason = [] \<or> length reason > 4096))
       (denied env actor ''approval.decide'' ''approval'' approvalID ''decision reason required'')) (\<lambda>_.
     (let decided = approval\<lparr>Approval_Status := (if approved then ''approved'' else ''denied''), Approval_DecidedBy := Principal_ID actor,
            Approval_DecidedAt := Some (env_now env), Approval_Reason := reason\<rparr> in
     act_bind (saveApproval env decided) (\<lambda>_.
     act_bind (allowedWithDetails env actor ''approval.decide'' ''approval'' approvalID (Approval_CorrelationID decided)
       (fmap_of_list [(''status'', Approval_Status decided), (''reason'', reason)])) (\<lambda>_.
     act_return decided)))))))))))"

section \<open>Purge\<close>

definition artifactPurgeApprovalLifetime :: duration where
  "artifactPurgeApprovalLifetime = 24 * nhour"

definition purgeApproved :: "time \<Rightarrow> Campaign \<Rightarrow> string \<Rightarrow> Approval \<Rightarrow> bool" where
  "purgeApproved now campaign artifactID approval \<longleftrightarrow>
     \<not> (Approval_Status approval \<noteq> ''approved'' \<or> Approval_ScopeID approval \<noteq> Campaign_ScopeID campaign \<or>
        Approval_CampaignID approval \<noteq> Campaign_ID campaign \<or> Approval_Operation approval \<noteq> OperationPurgeArtifact \<or>
        Approval_CorrelationID approval \<noteq> artifactPurgeCorrelation artifactID \<or>
        (case Approval_DecidedAt approval of
           None \<Rightarrow> True
         | Some decided \<Rightarrow>
             Approval_DecidedBy approval = [] \<or> Approval_RequestedBy approval = Approval_DecidedBy approval \<or>
             timeBefore now decided \<or> timeSub now decided > artifactPurgeApprovalLifetime))"

definition servicePurgeArtifact :: "Env \<Rightarrow> Service \<Rightarrow> Principal \<Rightarrow> string \<Rightarrow> string \<Rightarrow> string \<Rightarrow> (Store, Artifact) act" where
  "servicePurgeArtifact env svc actor artifactID approvalID reason0 =
     act_bind (act_ensure (hasRole actor RoleAdmin)
       (denied env actor ''artifact.purge'' ''artifact'' artifactID ''admin role required'')) (\<lambda>_.
     act_bind (getArtifact artifactID) (\<lambda>artifact.
     act_bind (getCampaign (Artifact_CampaignID artifact)) (\<lambda>campaign.
     act_bind (act_ensure (terminalCampaignState (Campaign_State campaign))
       (denied env actor ''artifact.purge'' ''artifact'' artifactID ''campaign must be terminal before evidence purge'')) (\<lambda>_.
     act_bind (getScope (Campaign_ScopeID campaign)) (\<lambda>scope.
     act_bind (act_ensure (purgeScope scope)
       (denied env actor ''artifact.purge'' ''artifact'' artifactID ''artifact purge is outside the approval-gated scope'')) (\<lambda>_.
     act_bind (act_ensure (\<not> (isZero (Artifact_RetainUntil artifact) \<or> timeBefore (env_now env) (Artifact_RetainUntil artifact)))
       (denied env actor ''artifact.purge'' ''artifact'' artifactID (errText ErrRetentionActive))) (\<lambda>_.
     act_bind (act_catch (getApproval approvalID)
       (\<lambda>e. denied env actor ''artifact.purge'' ''artifact'' artifactID (errText ErrApprovalMissing))) (\<lambda>approval.
     act_bind (act_ensure (purgeApproved (env_now env) campaign artifactID approval)
       (denied env actor ''artifact.purge'' ''artifact'' artifactID (errText ErrApprovalMissing))) (\<lambda>_.
     (let reason = trimSpace reason0; correlation = artifactPurgeCorrelation artifactID;
          details = fmap_of_list [(''campaign_id'', Campaign_ID campaign), (''content_id'', Artifact_ContentID artifact),
            (''approval_id'', Approval_ID approval), (''retain_until'', timestamp (Artifact_RetainUntil artifact)), (''reason'', reason)] in
     act_bind (act_ensure (\<not> (reason = [] \<or> length reason > 1024))
       (denied env actor ''artifact.purge'' ''artifact'' artifactID ''bounded purge reason required'')) (\<lambda>_.
     act_bind (allowedWithDetails env actor ''artifact.purge.authorize'' ''artifact'' artifactID correlation details) (\<lambda>_.
     act_bind (act_catch (storePurgeArtifact env (svc_store svc) artifactID (Approval_ID approval) reason (env_now env))
       (\<lambda>e. act_bind (act_ignore (appendAudit env (auditEvent (Principal_ID actor) ''artifact.purge.failed'' ''artifact'' artifactID correlation
           ''failed'' (fmap_of_list [(''reason'', errText e)])))) (\<lambda>_. act_fail e))) (\<lambda>purged.
     act_bind (allowedWithDetails env actor ''artifact.purge.complete'' ''artifact'' artifactID correlation
       (fmupd ''blob_deleted'' (if Artifact_BlobDeletedAt purged \<noteq> None then ''true'' else ''false'') details)) (\<lambda>_.
     act_return purged))))))))))))))"

section \<open>Authorization of actions\<close>

definition missingApproval :: PolicyDecision where
  "missingApproval = deny (errText ErrApprovalMissing)"

definition approvalMatches :: "AuthorizationScope \<Rightarrow> string \<Rightarrow> Action \<Rightarrow> string \<Rightarrow> Approval \<Rightarrow> bool" where
  "approvalMatches scope campaignID action correlation approval \<longleftrightarrow>
     \<not> (Approval_Status approval \<noteq> ''approved'' \<or> Approval_ScopeID approval \<noteq> Scope_ID scope \<or> Approval_CampaignID approval \<noteq> campaignID \<or>
        Approval_Operation approval \<noteq> Action_Operation action \<or> Approval_CorrelationID approval \<noteq> correlation)"

text \<open>A refused action is a decision, not an error.\<close>

definition authorizeAction :: "Env \<Rightarrow> string \<Rightarrow> Action \<Rightarrow> string \<Rightarrow> (Store, PolicyDecision) act" where
  "authorizeAction env campaignID action correlation =
     act_bind (getCampaign campaignID) (\<lambda>campaign.
     act_bind (getScope (Campaign_ScopeID campaign)) (\<lambda>scope.
     (let actor = Action_Principal action;
          record_denial = (\<lambda>reason. act_ignore (denied env actor ''action.authorize'' ''campaign'' campaignID reason :: (Store, unit) act));
          record_grant = act_ignore (allowed env actor ''action.authorize'' ''campaign'' campaignID correlation) in
      if \<not> scopeMember scope actor
      then act_bind (record_denial ''research: principal is not a scope member'')
             (\<lambda>_. act_return (deny ''research: principal is not a scope member''))
      else
        (let decision = authorize (env_host env) scope action (env_now env) in
         if Decision_ApprovalRequired decision then act_return decision
         else if \<not> Decision_Allowed decision
         then act_bind (record_denial (Decision_Reason decision)) (\<lambda>_. act_return decision)
         else if Action_ApprovalID action = [] then act_bind record_grant (\<lambda>_. act_return decision)
         else
           (\<lambda>s. case getApproval (Action_ApprovalID action) s of
              (Inl _, s') \<Rightarrow> (Inr missingApproval, s')
            | (Inr approval, s') \<Rightarrow>
                if \<not> approvalMatches scope campaignID action correlation approval then (Inr missingApproval, s')
                else act_bind record_grant (\<lambda>_. act_return decision) s')))))"

definition canReadCampaign :: "Principal \<Rightarrow> string \<Rightarrow> (Store, bool) act" where
  "canReadCampaign actor campaignID =
     act_bind (getCampaign campaignID) (\<lambda>campaign.
     act_bind (getScope (Campaign_ScopeID campaign)) (\<lambda>scope. act_return (scopeMember scope actor)))"

section \<open>Jobs\<close>

fun campaignAllowsOperation :: "CampaignState \<Rightarrow> Operation \<Rightarrow> bool" where
  "campaignAllowsOperation st OperationInspect =
     (st \<noteq> CampaignDraft \<and> st \<noteq> CampaignScoped \<and> st \<noteq> CampaignPaused \<and> st \<noteq> CampaignCancelled \<and> st \<noteq> CampaignFailed)"
| "campaignAllowsOperation st OperationListHarnesses =
     (st \<noteq> CampaignDraft \<and> st \<noteq> CampaignScoped \<and> st \<noteq> CampaignPaused \<and> st \<noteq> CampaignCancelled \<and> st \<noteq> CampaignFailed)"
| "campaignAllowsOperation st OperationBuild =
     (st = CampaignAcquired \<or> st = CampaignPrimitiveAssessed \<or> st = CampaignBranchChecked \<or> st = CampaignNoveltyReviewed)"
| "campaignAllowsOperation st OperationSmokeTest = (st = CampaignBuildReady)"
| "campaignAllowsOperation st OperationSeed = (st = CampaignBuildReady)"
| "campaignAllowsOperation st OperationFuzz = (st = CampaignBuildReady \<or> st = CampaignFuzzing)"
| "campaignAllowsOperation st OperationReproduce = (st = CampaignCrashObserved \<or> st = CampaignReproduced)"
| "campaignAllowsOperation st OperationMinimize = (st = CampaignReproduced)"
| "campaignAllowsOperation st OperationMergeCorpus = (st = CampaignFuzzing \<or> st = CampaignCrashObserved \<or> st = CampaignReproduced)"
| "campaignAllowsOperation st OperationCoverage = (st = CampaignFuzzing \<or> st = CampaignCrashObserved \<or> st = CampaignReproduced)"
| "campaignAllowsOperation st OperationSymbolize = (st = CampaignMinimized \<or> st = CampaignRootCaused)"
| "campaignAllowsOperation st OperationCompareBranch = (st = CampaignPrimitiveAssessed \<or> st = CampaignBranchChecked)"
| "campaignAllowsOperation st OperationRegressionTest = (st = CampaignNoveltyReviewed \<or> st = CampaignRemediated)"
| "campaignAllowsOperation st _ = False"

fun requiresBuild :: "Operation \<Rightarrow> bool" where
  "requiresBuild OperationSmokeTest = True"
| "requiresBuild OperationFuzz = True"
| "requiresBuild OperationReproduce = True"
| "requiresBuild OperationMinimize = True"
| "requiresBuild OperationMergeCorpus = True"
| "requiresBuild OperationCoverage = True"
| "requiresBuild OperationSymbolize = True"
| "requiresBuild OperationCompareBranch = True"
| "requiresBuild OperationRegressionTest = True"
| "requiresBuild _ = False"

fun requiresCorpus :: "Operation \<Rightarrow> bool" where
  "requiresCorpus OperationSeed = True"
| "requiresCorpus OperationFuzz = True"
| "requiresCorpus OperationMergeCorpus = True"
| "requiresCorpus OperationCoverage = True"
| "requiresCorpus OperationRegressionTest = True"
| "requiresCorpus _ = False"

definition jobNeedsCorpus :: "WorkerJob \<Rightarrow> bool" where
  "jobNeedsCorpus job =
     (if Job_Operation job = OperationRegressionTest then strGet (Job_Arguments job) ''validation-kind'' = ''regression''
      else requiresCorpus (Job_Operation job))"

definition jobNeedsEvidence :: "WorkerJob \<Rightarrow> bool" where
  "jobNeedsEvidence job =
     (if Job_Operation job = OperationRegressionTest
      then strGet (Job_Arguments job) ''validation-kind'' = ''reproducer'' \<or> strGet (Job_Arguments job) ''validation-kind'' = ''negative_control''
      else operationNeedsEvidence (Job_Operation job))"

definition evidenceRoleAllowed :: "WorkerJob \<Rightarrow> string \<Rightarrow> bool" where
  "evidenceRoleAllowed job role =
     (if Job_Operation job = OperationSymbolize
      then role = ''stderr_log'' \<or> role = ''revision_comparison_log'' \<or> role = ''regression_log''
      else if Job_Operation job = OperationRegressionTest \<and> strGet (Job_Arguments job) ''validation-kind'' = ''negative_control''
      then role = ''corpus_seed'' \<or> role = ''corpus_entry''
      else role = ''crashing_input'' \<or> role = ''minimized_input'')"

definition manifestHasHarness :: "ApparatusManifest \<Rightarrow> string \<Rightarrow> bool" where
  "manifestHasHarness manifest wanted = list_ex (\<lambda>h. Harness_Name h = wanted) (Manifest_Harnesses manifest)"

definition validArgument :: "WorkerJob \<Rightarrow> string \<Rightarrow> string \<Rightarrow> bool" where
  "validArgument job key value \<longleftrightarrow>
     value \<noteq> [] \<and>
     (if key = ''manifest'' \<or> key = ''harness'' \<or> key = ''revision'' \<or> key = ''sanitizer'' then True
      else if key = ''max-total-time'' then Job_Operation job = OperationFuzz
      else if key = ''validation-kind''
      then Job_Operation job = OperationRegressionTest \<and> (value = ''reproducer'' \<or> value = ''regression'' \<or> value = ''negative_control'')
      else False)"

definition validApparatusArguments :: "WorkerJob \<Rightarrow> bool" where
  "validApparatusArguments job \<longleftrightarrow>
     fmpred (validArgument job) (Job_Arguments job) \<and>
     \<not> (Job_Operation job = OperationRegressionTest \<and> strGet (Job_Arguments job) ''validation-kind'' = []) \<and>
     strGet (Job_Arguments job) ''manifest'' \<noteq> [] \<and> strGet (Job_Arguments job) ''harness'' \<noteq> [] \<and>
     strGet (Job_Arguments job) ''revision'' \<noteq> [] \<and> strGet (Job_Arguments job) ''sanitizer'' \<noteq> []"

definition validMount :: "JobMount \<Rightarrow> bool" where
  "validMount m =
     (if Mount_Name m = ''source'' then Mount_ContainerPath m = ''/source'' \<and> Mount_ReadOnly m
      else if Mount_Name m = ''build'' then Mount_ContainerPath m = ''/build'' \<and> Mount_ReadOnly m
      else if Mount_Name m = ''corpus'' then Mount_ContainerPath m = ''/corpus'' \<and> \<not> Mount_ReadOnly m
      else if Mount_Name m = ''evidence'' then Mount_ContainerPath m = ''/evidence'' \<and> Mount_ReadOnly m
      else if Mount_Name m = ''patch'' then Mount_ContainerPath m = ''/patch'' \<and> Mount_ReadOnly m
      else False)"

fun mountLoop :: "string list \<Rightarrow> JobMount list \<Rightarrow> string list option" where
  "mountLoop seen [] = Some seen"
| "mountLoop seen (m # ms) =
     (if Mount_Name m \<in> set seen then None
      else if \<not> validMount m then None
      else mountLoop (Mount_Name m # seen) ms)"

definition validApparatusMounts :: "WorkerJob \<Rightarrow> bool" where
  "validApparatusMounts job =
     (case mountLoop [] (Job_Mounts job) of
        None \<Rightarrow> False
      | Some seen \<Rightarrow>
          if ''source'' \<notin> set seen \<or> (requiresBuild (Job_Operation job) \<and> ''build'' \<notin> set seen) \<or>
             (jobNeedsCorpus job \<and> ''corpus'' \<notin> set seen) \<or> (jobNeedsEvidence job \<and> ''evidence'' \<notin> set seen) \<or>
             (Job_PatchArtifactID job \<noteq> [] \<and> ''patch'' \<notin> set seen)
          then False
          else \<not> (''patch'' \<in> set seen \<and> (Job_Operation job \<noteq> OperationBuild \<or> Job_PatchArtifactID job = [])))"

definition jobAction :: "Principal \<Rightarrow> Operation \<Rightarrow> string \<Rightarrow> string \<Rightarrow> string \<Rightarrow> ResourceBudget \<Rightarrow> string \<Rightarrow> Action" where
  "jobAction actor op repository revision path budget approvalID =
     \<lparr>Action_Principal = actor, Action_Operation = op, Action_Repository = repository, Action_Revision = revision,
      Action_WorkspacePath = path, Action_DestinationHost = [], Action_WallSeconds = MaxWallSeconds budget,
      Action_MemoryBytes = MaxMemoryBytes budget, Action_CPUSeconds = MaxCPUSeconds budget, Action_DiskBytes = MaxDiskBytes budget,
      Action_Inodes = MaxInodes budget, Action_PIDs = MaxPIDs budget, Action_ApprovalID = approvalID\<rparr>"

definition preauthorizeEnqueue :: "Env \<Rightarrow> Principal \<Rightarrow> string \<Rightarrow> Operation \<Rightarrow> string \<Rightarrow> ResourceBudget \<Rightarrow> string \<Rightarrow> string \<Rightarrow> (Store, unit) act" where
  "preauthorizeEnqueue env actor campaignID op revision budget approvalID correlation =
     act_bind (act_ensure (correlation \<noteq> [])
       (denied env actor ''job.preauthorize'' ''campaign'' campaignID ''audit correlation id is required'')) (\<lambda>_.
     act_bind (act_orElse (budgetValidate budget) (\<lambda>e. denied env actor ''job.preauthorize'' ''campaign'' campaignID (errText e))) (\<lambda>_.
     act_bind (getCampaign campaignID) (\<lambda>campaign.
     act_bind (act_ensure (campaignAllowsOperation (Campaign_State campaign) op)
       (denied env actor ''job.preauthorize'' ''campaign'' campaignID ''operation is not permitted in the current evidence state'')) (\<lambda>_.
     act_bind (getScope (Campaign_ScopeID campaign)) (\<lambda>scope.
     act_bind (authorizeAction env campaignID (jobAction actor op (Scope_TargetRepository scope) revision [] budget approvalID) correlation) (\<lambda>decision.
     act_ensure (Decision_Allowed decision)
       (denied env actor ''job.preauthorize'' ''campaign'' campaignID (Decision_Reason decision))))))))"

text \<open>The parts of \<^verbatim>\<open>Enqueue\<close>, in its order: the captured target, evidence, patch, build and mounts.\<close>

definition mountMatches :: "Env \<Rightarrow> string \<Rightarrow> JobMount \<Rightarrow> bool" where
  "mountMatches env expected m = (canonicalDirectory env (Mount_HostPath m) = Inr expected)"

definition refuseJob :: "Env \<Rightarrow> Principal \<Rightarrow> string \<Rightarrow> string \<Rightarrow> (Store, 'a) act" where
  "refuseJob env actor campaignID reason = denied env actor ''job.enqueue'' ''campaign'' campaignID reason"

definition enqueueTarget :: "Env \<Rightarrow> Service \<Rightarrow> Principal \<Rightarrow> string \<Rightarrow> Campaign \<Rightarrow> AuthorizationScope \<Rightarrow> WorkerJob \<Rightarrow> (Store, TargetRevision option) act" where
  "enqueueTarget env svc actor campaignID campaign scope job =
     (let selected = (if Job_TargetID job = [] then Campaign_TargetID campaign else Job_TargetID job) in
      if selected = [] then act_return None
      else
        act_bind (getTarget selected) (\<lambda>target.
        act_bind (act_ensure (Target_CampaignID target = campaignID \<and> Target_Repository target = Scope_TargetRepository scope)
          (denied env actor ''job.enqueue'' ''target_revision'' (Target_ID target) ''target does not belong to this campaign and scope'')) (\<lambda>_.
        act_bind (act_lift (acq_VerifiedCapture (svc_acquisition svc) (svc_internalRoot svc) (Campaign_ID campaign) (Target_ID target)
            (Target_SourceSHA256 target) (MaxInodes (Scope_Budget scope), MaxDiskBytes (Scope_Budget scope)))) (\<lambda>verifiedSource.
        act_bind (act_ensure (list_all (\<lambda>m. Mount_Name m = ''source'' \<longrightarrow> mountMatches env verifiedSource m) (Job_Mounts job))
          (refuseJob env actor campaignID ''source mount does not match the captured target'')) (\<lambda>_.
        act_return (Some target))))))"

definition evidencePath :: "Service \<Rightarrow> string \<Rightarrow> Operation \<Rightarrow> string \<Rightarrow> string" where
  "evidencePath svc campaignID op artifactID =
     pathJoin [svc_internalRoot svc, campaignID, ''evidence'', operationText op @ ''-'' @ artifactID]"

definition enqueueEvidence :: "Env \<Rightarrow> Service \<Rightarrow> Principal \<Rightarrow> string \<Rightarrow> WorkerJob \<Rightarrow> (Store, unit) act" where
  "enqueueEvidence env svc actor campaignID job =
     (if jobNeedsEvidence job then
        act_bind (act_ensure (Job_InputArtifactID job \<noteq> []) (refuseJob env actor campaignID ''operation requires an evidence artifact'')) (\<lambda>_.
        act_bind (getArtifact (Job_InputArtifactID job)) (\<lambda>artifact.
        act_bind (act_ensure (Artifact_CampaignID artifact = campaignID \<and> evidenceRoleAllowed job (Artifact_Role artifact))
          (refuseJob env actor campaignID ''evidence artifact does not match the campaign operation'')) (\<lambda>_.
        act_ensure (list_all (\<lambda>m. Mount_Name m = ''evidence'' \<longrightarrow>
            mountMatches env (evidencePath svc campaignID (Job_Operation job) (Job_InputArtifactID job)) m) (Job_Mounts job))
          (refuseJob env actor campaignID ''evidence mount does not match the verified artifact''))))
      else act_ensure (Job_InputArtifactID job = []) (refuseJob env actor campaignID ''operation does not accept an evidence artifact''))"

text \<open>The last mount named \<^verbatim>\<open>patch\<close> decides; the envelope check has made the names distinct.\<close>

definition patchMatched :: "Env \<Rightarrow> string \<Rightarrow> JobMount list \<Rightarrow> bool" where
  "patchMatched env expected mounts =
     foldl (\<lambda>matched m. if Mount_Name m = ''patch'' then mountMatches env expected m else matched) False mounts"

definition enqueuePatch :: "Env \<Rightarrow> Service \<Rightarrow> Principal \<Rightarrow> string \<Rightarrow> Campaign \<Rightarrow> TargetRevision option \<Rightarrow> WorkerJob \<Rightarrow> (Store, unit) act" where
  "enqueuePatch env svc actor campaignID campaign target job =
     (if Job_PatchArtifactID job \<noteq> [] then
        act_bind (act_ensure (Job_Operation job = OperationBuild \<and> Campaign_State campaign = CampaignNoveltyReviewed \<and>
            (case target of None \<Rightarrow> [] | Some t \<Rightarrow> Target_ID t) = Campaign_TargetID campaign)
          (refuseJob env actor campaignID ''patch evidence is accepted only for a novelty-reviewed fix build'')) (\<lambda>_.
        act_bind (getArtifact (Job_PatchArtifactID job)) (\<lambda>patch.
        act_bind (act_ensure (Artifact_CampaignID patch = campaignID \<and> Artifact_Role patch = ''candidate_patch'')
          (denied env actor ''job.enqueue'' ''artifact'' (Artifact_ID patch) ''campaign-owned candidate patch required'')) (\<lambda>_.
        act_ensure (patchMatched env (evidencePath svc campaignID OperationBuild (Artifact_ID patch)) (Job_Mounts job))
          (denied env actor ''job.enqueue'' ''artifact'' (Artifact_ID patch) ''patch mount does not match verified evidence''))))
      else act_ensure (\<not> (Job_Operation job = OperationBuild \<and> Campaign_State campaign = CampaignNoveltyReviewed))
        (refuseJob env actor campaignID ''novelty-reviewed build requires a candidate patch''))"

definition enqueueBuild :: "Env \<Rightarrow> Principal \<Rightarrow> string \<Rightarrow> ApparatusManifest \<Rightarrow> TargetRevision option \<Rightarrow> WorkerJob \<Rightarrow> (Store, unit) act" where
  "enqueueBuild env actor campaignID manifest target job =
     (if requiresBuild (Job_Operation job) then
        act_bind (act_ensure (Job_BuildID job \<noteq> []) (refuseJob env actor campaignID ''operation requires an evidence-backed build'')) (\<lambda>_.
        act_bind (getBuild (Job_BuildID job)) (\<lambda>build.
        act_ensure (Build_CampaignID build = campaignID \<and> Build_Status build = runStatusText RunCompleted \<and>
            Build_ManifestID build = Manifest_ID manifest \<and> Build_TargetID build = (case target of None \<Rightarrow> [] | Some t \<Rightarrow> Target_ID t) \<and>
            Build_ImageDigest build = Manifest_ImageDigest manifest \<and> Build_Sanitizer build = strGet (Job_Arguments job) ''sanitizer'' \<and>
            strGet (Build_Provenance build) ''harness'' = strGet (Job_Arguments job) ''harness'')
          (refuseJob env actor campaignID ''build provenance does not match the requested experiment'')))
      else act_ensure (Job_BuildID job = []) (refuseJob env actor campaignID ''operation does not accept a build id''))"

definition internalMount :: "Campaign \<Rightarrow> JobMount \<Rightarrow> bool" where
  "internalMount campaign m \<longleftrightarrow>
     Mount_Name m = ''build'' \<or> Mount_Name m = ''corpus'' \<or> Mount_Name m = ''evidence'' \<or> Mount_Name m = ''patch'' \<or>
     (Mount_Name m = ''source'' \<and> Campaign_TargetID campaign \<noteq> [])"

definition authorizePath :: "Env \<Rightarrow> Principal \<Rightarrow> string \<Rightarrow> WorkerJob \<Rightarrow> string \<Rightarrow> string \<Rightarrow> string \<Rightarrow> string \<Rightarrow> (Store, unit) act" where
  "authorizePath env actor campaignID job approvalID repository revision path =
     act_bind (authorizeAction env campaignID (jobAction actor (Job_Operation job) repository revision path (Job_Budget job) approvalID)
       (Job_AuditCorrelationID job)) (\<lambda>decision.
     act_ensure (Decision_Allowed decision) (refuseJob env actor campaignID (Decision_Reason decision)))"

definition authorizeMount :: "Env \<Rightarrow> Service \<Rightarrow> Principal \<Rightarrow> string \<Rightarrow> Campaign \<Rightarrow> WorkerJob \<Rightarrow> string \<Rightarrow> string \<Rightarrow> string \<Rightarrow> JobMount \<Rightarrow> (Store, unit) act" where
  "authorizeMount env svc actor campaignID campaign job approvalID repository revision m =
     (let path = Mount_HostPath m in
      if internalMount campaign m then
        act_bind (act_ensure (svc_internalRoot svc \<noteq> [] \<and> dirInsideAnyRoot env path [pathJoin [svc_internalRoot svc, campaignID]])
          (refuseJob env actor campaignID ''internal mount is outside the campaign-owned worker root'')) (\<lambda>_.
        authorizePath env actor campaignID job approvalID repository revision [])
      else
        act_bind (act_ensure (\<not> (path \<noteq> [] \<and> svc_workspaceRoots svc \<noteq> [] \<and> \<not> dirInsideAnyRoot env path (svc_workspaceRoots svc)))
          (refuseJob env actor campaignID ''mount exceeds the server operator workspace allowlist'')) (\<lambda>_.
        authorizePath env actor campaignID job approvalID repository revision path))"

text \<open>The envelope check against the registered manifest.\<close>

definition jobMatchesManifest :: "ApparatusManifest \<Rightarrow> WorkerJob \<Rightarrow> bool" where
  "jobMatchesManifest manifest job \<longleftrightarrow>
     Manifest_ImageDigest manifest = Job_ImageDigest job \<and> containsOperation (Manifest_Operations manifest) (Job_Operation job) \<and>
     manifestHasHarness manifest (strGet (Job_Arguments job) ''harness'')"

definition jobFitsSchema :: "ApparatusManifest \<Rightarrow> WorkerJob \<Rightarrow> bool" where
  "jobFitsSchema manifest job \<longleftrightarrow>
     containsString (Manifest_Sanitizers manifest) (strGet (Job_Arguments job) ''sanitizer'') \<and>
     Job_Environment job = Manifest_Environment manifest \<and> Job_ArtifactRules job = artifactRules (Job_Operation job) \<and>
     \<not> budgetExceeds (Job_Budget job) (Manifest_Limits manifest) \<and> validApparatusArguments job \<and> validApparatusMounts job"

definition jobRevision :: "AuthorizationScope \<Rightarrow> TargetRevision option \<Rightarrow> string" where
  "jobRevision scope target =
     (let revision = (case target of None \<Rightarrow> [] | Some t \<Rightarrow> Target_Commit t) in
      if revision = [] \<and> length (Scope_AllowedRevisions scope) = 1 then hd (Scope_AllowedRevisions scope) else revision)"

definition jobRepository :: "AuthorizationScope \<Rightarrow> TargetRevision option \<Rightarrow> string" where
  "jobRepository scope target = (case target of None \<Rightarrow> Scope_TargetRepository scope | Some t \<Rightarrow> Target_Repository t)"

definition enqueue :: "Env \<Rightarrow> Service \<Rightarrow> Principal \<Rightarrow> string \<Rightarrow> WorkerJob \<Rightarrow> string \<Rightarrow> (Store, ExperimentRun) act" where
  "enqueue env svc actor campaignID job approvalID =
     (case svc_broker svc of
        None \<Rightarrow> act_fail (Err ''research service: verified runner unavailable'')
      | Some submit \<Rightarrow>
     act_bind (getCampaign campaignID) (\<lambda>campaign.
     act_bind (act_ensure (campaignAllowsOperation (Campaign_State campaign) (Job_Operation job))
       (refuseJob env actor campaignID ''operation is not permitted in the current evidence state'')) (\<lambda>_.
     act_bind (act_ensure (Job_CampaignID job = Campaign_ID campaign \<and> Job_ScopeID job = Campaign_ScopeID campaign \<and> Job_AuditCorrelationID job \<noteq> [])
       (refuseJob env actor campaignID ''job identity does not match campaign'')) (\<lambda>_.
     act_bind (preauthorizeEnqueue env actor campaignID (Job_Operation job) (strGet (Job_Arguments job) ''revision'') (Job_Budget job) approvalID
       (Job_AuditCorrelationID job)) (\<lambda>_.
     act_bind (getScope (Campaign_ScopeID campaign)) (\<lambda>scope.
     (let manifestID = strGet (Job_Arguments job) ''manifest'' in
     act_bind (act_ensure (manifestID \<noteq> [] \<and> containsString (Scope_AllowedApparatusIDs scope) manifestID)
       (refuseJob env actor campaignID ''apparatus is outside authorization scope'')) (\<lambda>_.
     act_bind (getApparatus manifestID) (\<lambda>manifest.
     act_bind (act_ensure (svc_apparatusAdmission svc \<noteq> None \<and>
         ok (validateAdmitted (env_host env) (svc_apparatusAdmission svc) manifest (env_now env)))
       (refuseJob env actor campaignID ''apparatus supply-chain admission is missing, expired, or no longer trusted'')) (\<lambda>_.
     act_bind (act_ensure (jobMatchesManifest manifest job)
       (refuseJob env actor campaignID ''job does not match registered apparatus manifest'')) (\<lambda>_.
     act_bind (act_ensure (jobFitsSchema manifest job)
       (refuseJob env actor campaignID ''job envelope differs from the registered apparatus schema'')) (\<lambda>_.
     act_bind (enqueueTarget env svc actor campaignID campaign scope job) (\<lambda>target.
     act_bind (act_ensure (strGet (Job_Arguments job) ''revision'' = jobRevision scope target)
       (refuseJob env actor campaignID ''job revision does not match its immutable captured target'')) (\<lambda>_.
     act_bind (enqueueEvidence env svc actor campaignID job) (\<lambda>_.
     act_bind (enqueuePatch env svc actor campaignID campaign target job) (\<lambda>_.
     act_bind (enqueueBuild env actor campaignID manifest target job) (\<lambda>_.
     act_bind (if Job_Mounts job = []
               then authorizePath env actor campaignID job approvalID (jobRepository scope target) (jobRevision scope target) []
               else act_each (authorizeMount env svc actor campaignID campaign job approvalID (jobRepository scope target) (jobRevision scope target))
                      (Job_Mounts job)) (\<lambda>_.
     act_bind (submit job) (\<lambda>run.
     act_bind (allowedWithDetails env actor ''job.enqueue'' ''experiment_run'' (Run_ID run) (Job_AuditCorrelationID job)
       (fmap_of_list [(''operation'', operationText (Job_Operation job)), (''campaign_id'', campaignID)])) (\<lambda>_.
     act_return run))))))))))))))))))))"

section \<open>Targets\<close>

definition targetAcquisitionPolicy :: "Service \<Rightarrow> TargetRequest \<Rightarrow> string result" where
  "targetAcquisitionPolicy svc request =
     (if TReq_SourceName request = []
      then (if trimSpace (TReq_SourceDir request) = [] then Inl (Err ''local source directory or fixed source name required'') else Inr [])
      else if TReq_SourceName request \<noteq> trimSpace (TReq_SourceName request) \<or> trimSpace (TReq_SourceDir request) \<noteq> []
      then Inl (Err ''fixed source name and local source directory are mutually exclusive'')
      else
        (case svc_sourceBroker svc of
           None \<Rightarrow> Inl (ErrSourceUnavailable ''fixed source acquisition is not configured'')
         | Some broker \<Rightarrow>
             rbind (src_Describe broker (TReq_SourceName request) (TReq_Revision request)) (\<lambda>descriptor.
             if Src_Repository descriptor \<noteq> TReq_Repository request
             then Inl (Err ''fixed source repository does not match request'')
             else Inr (Src_Host descriptor))))"

text \<open>
  The result of a capture: the requested ref, the commit, the hash of the tree and the provenance.
  Without a source broker a named source never gets here, since the policy check has refused it;
  the code would dereference a nil pointer.
\<close>

definition localProvenance :: AcquisitionProvenance where
  "localProvenance =
     \<lparr>Prov_Method = ''local_git_object_export'', Prov_SourceName = [], Prov_SourceURL = [], Prov_BundleSHA256 = [], Prov_BundleBytes = 0,
      Prov_ManifestKeyID = [], Prov_ManifestExpiresAt = zeroTime, Prov_FetchedAt = zeroTime\<rparr>"

definition captureTarget :: "Service \<Rightarrow> TargetRequest \<Rightarrow> string \<Rightarrow> int \<times> int \<Rightarrow> (string \<times> string \<times> string \<times> AcquisitionProvenance) result" where
  "captureTarget svc request destination limits =
     (if TReq_SourceName request = []
      then rbind (acq_CaptureGitCheckout (svc_acquisition svc) (TReq_SourceDir request) (TReq_Revision request) destination limits)
             (\<lambda>(ref, commit, tree). Inr (ref, commit, tree, localProvenance))
      else
        (case svc_sourceBroker svc of
           None \<Rightarrow> Inl (Err ''invalid memory address or nil pointer dereference'')
         | Some broker \<Rightarrow>
             rbind (src_Fetch broker (TReq_SourceName request) (TReq_Revision request) destination limits) (\<lambda>fetched.
             (let d = Fetch_Descriptor fetched in
              Inr (Src_Commit d, Src_Commit d, Fetch_SourceSHA256 fetched,
                \<lparr>Prov_Method = ''https_pinned_tar'', Prov_SourceName = Src_SourceName d, Prov_SourceURL = Src_URL d,
                 Prov_BundleSHA256 = Src_SHA256 d, Prov_BundleBytes = Fetch_BundleBytes fetched, Prov_ManifestKeyID = Src_ManifestKeyID d,
                 Prov_ManifestExpiresAt = Src_ManifestExpiresAt d, Prov_FetchedAt = Fetch_FetchedAt fetched\<rparr>)))))"

definition sameTargetIdentity :: "TargetRevision \<Rightarrow> TargetRevision \<Rightarrow> bool" where
  "sameTargetIdentity left right \<longleftrightarrow>
     Target_CampaignID left = Target_CampaignID right \<and> Target_Repository left = Target_Repository right \<and>
     Target_RequestedRef left = Target_RequestedRef right \<and> Target_Commit left = Target_Commit right \<and>
     Target_SourceSHA256 left = Target_SourceSHA256 right \<and> Target_Language left = Target_Language right \<and>
     Target_Architecture left = Target_Architecture right \<and>
     (let l = Target_Acquisition left; r = Target_Acquisition right in
        Prov_Method l = Prov_Method r \<and> Prov_SourceName l = Prov_SourceName r \<and> Prov_SourceURL l = Prov_SourceURL r \<and>
        Prov_BundleSHA256 l = Prov_BundleSHA256 r \<and> Prov_BundleBytes l = Prov_BundleBytes r \<and> Prov_ManifestKeyID l = Prov_ManifestKeyID r \<and>
        Prov_ManifestExpiresAt l = Prov_ManifestExpiresAt r)"

definition targetAcquisitionDetails :: "string \<Rightarrow> string \<Rightarrow> TargetRevision \<Rightarrow> strmap" where
  "targetAcquisitionDetails campaignID findingID target =
     (let a = Target_Acquisition target;
          details = fmap_of_list [(''campaign_id'', campaignID), (''requested_ref'', Target_RequestedRef target), (''commit'', Target_Commit target),
            (''source_sha256'', Target_SourceSHA256 target), (''acquisition_method'', Prov_Method a)];
          details1 = (if findingID \<noteq> [] then fmupd ''finding_id'' findingID details else details) in
      if Prov_SourceName a \<noteq> []
      then fmupd ''manifest_key_id'' (Prov_ManifestKeyID a) (fmupd ''bundle_sha256'' (Prov_BundleSHA256 a) (fmupd ''source_name'' (Prov_SourceName a) details1))
      else details1)"

text \<open>
  The steps \<^verbatim>\<open>AcquireTarget\<close> and \<^verbatim>\<open>AcquireComparisonTarget\<close> share: the policy of the source, the
  authorization, and the capture with the reuse of an identical stored target.
\<close>

definition acquireAuthorized :: "Env \<Rightarrow> Service \<Rightarrow> Principal \<Rightarrow> string \<Rightarrow> string \<Rightarrow> AuthorizationScope \<Rightarrow> TargetRequest \<Rightarrow> (Store, unit) act" where
  "acquireAuthorized env svc actor action campaignID scope request =
     act_bind (act_orElse (targetAcquisitionPolicy svc request)
       (\<lambda>e. case e of ErrSourceUnavailable m \<Rightarrow> act_fail e | _ \<Rightarrow> denied env actor action ''campaign'' campaignID (errText e))) (\<lambda>destinationHost.
     act_bind (authorizeAction env campaignID
       \<lparr>Action_Principal = actor, Action_Operation = OperationAcquire, Action_Repository = TReq_Repository request,
        Action_Revision = TReq_Revision request, Action_WorkspacePath = TReq_SourceDir request, Action_DestinationHost = destinationHost,
        Action_WallSeconds = MaxWallSeconds (Scope_Budget scope), Action_MemoryBytes = 0, Action_CPUSeconds = 0,
        Action_DiskBytes = MaxDiskBytes (Scope_Budget scope), Action_Inodes = MaxInodes (Scope_Budget scope), Action_PIDs = 0,
        Action_ApprovalID = TReq_ApprovalID request\<rparr> (TReq_CorrelationID request)) (\<lambda>decision.
     act_ensure (Decision_Allowed decision) (denied env actor action ''campaign'' campaignID (Decision_Reason decision))))"

definition reuseTarget :: "Env \<Rightarrow> TargetRevision \<Rightarrow> (Store, TargetRevision) act" where
  "reuseTarget env target =
     (\<lambda>s. case getTarget (Target_ID target) s of
        (Inr existing, s') \<Rightarrow>
          if \<not> sameTargetIdentity existing target then (Inl (Err ''research service: target identity collision''), s') else (Inr existing, s')
      | (Inl ErrNotFound, s') \<Rightarrow> act_bind (saveTarget env target) (\<lambda>_. act_return target) s'
      | (Inl e, s') \<Rightarrow> (Inl e, s'))"

definition captureAndSave :: "Env \<Rightarrow> Service \<Rightarrow> string \<Rightarrow> AuthorizationScope \<Rightarrow> TargetRequest \<Rightarrow> (Store, TargetRevision) act" where
  "captureAndSave env svc campaignID scope request =
     (let limits = (MaxInodes (Scope_Budget scope), MaxDiskBytes (Scope_Budget scope));
          targetID = deterministicID env ''target'' [campaignID, TReq_Repository request, TReq_Revision request] in
     act_bind (act_lift (acq_CaptureDirectory (svc_acquisition svc) (svc_internalRoot svc) campaignID targetID)) (\<lambda>destination.
     act_bind (act_lift (captureTarget svc request destination limits)) (\<lambda>(ref, commit, tree, provenance).
     reuseTarget env
       \<lparr>Target_SchemaVersion = 1, Target_ID = targetID, Target_CampaignID = campaignID, Target_Repository = TReq_Repository request,
        Target_RequestedRef = ref, Target_Commit = commit, Target_SourceSHA256 = tree, Target_Language = TReq_Language request,
        Target_Architecture = TReq_Architecture request, Target_Acquisition = provenance, Target_AcquiredAt = env_now env\<rparr>)))"

definition acquireTarget :: "Env \<Rightarrow> Service \<Rightarrow> Principal \<Rightarrow> string \<Rightarrow> TargetRequest \<Rightarrow> (Store, TargetRevision) act" where
  "acquireTarget env svc actor campaignID request =
     act_bind (act_ensure (hasAnyRole actor [RoleOperator, RoleAdmin])
       (denied env actor ''target.acquire'' ''campaign'' campaignID ''operator or admin role required'')) (\<lambda>_.
     act_bind (getCampaign campaignID) (\<lambda>campaign.
     act_bind (act_ensure (Campaign_State campaign = CampaignScoped)
       (denied env actor ''target.acquire'' ''campaign'' campaignID ''campaign must be scoped before acquisition'')) (\<lambda>_.
     act_bind (getScope (Campaign_ScopeID campaign)) (\<lambda>scope.
     act_bind (acquireAuthorized env svc actor ''target.acquire'' campaignID scope request) (\<lambda>_.
     act_bind (act_ensure (\<not> (TReq_CorrelationID request = [] \<or> TReq_Language request = [] \<or> TReq_Architecture request = [] \<or> svc_internalRoot svc = []))
       (denied env actor ''target.acquire'' ''campaign'' campaignID ''correlation, language, architecture, and internal storage are required'')) (\<lambda>_.
     act_bind (captureAndSave env svc campaignID scope request) (\<lambda>target.
     act_bind (act_lift (advance (env_now env) (svc_machine svc) campaign CampaignAcquired
       (noFacts\<lparr>TargetID := Target_ID target, SourceSHA256 := Target_SourceSHA256 target\<rparr>) (env_now env))) (\<lambda>updated.
     act_bind (updateCampaign env updated (Campaign_Version campaign)) (\<lambda>_.
     act_bind (allowedWithDetails env actor ''target.acquire'' ''target_revision'' (Target_ID target) (TReq_CorrelationID request)
       (targetAcquisitionDetails campaignID [] target)) (\<lambda>_.
     act_return target))))))))))"

definition acquireComparisonTarget :: "Env \<Rightarrow> Service \<Rightarrow> Principal \<Rightarrow> string \<Rightarrow> string \<Rightarrow> TargetRequest \<Rightarrow> (Store, TargetRevision) act" where
  "acquireComparisonTarget env svc actor campaignID findingID request =
     act_bind (act_ensure (hasAnyRole actor [RoleOperator, RoleAdmin])
       (denied env actor ''target.acquire_comparison'' ''campaign'' campaignID ''operator or admin role required'')) (\<lambda>_.
     act_bind (getCampaign campaignID) (\<lambda>campaign.
     act_bind (act_ensure (Campaign_State campaign = CampaignPrimitiveAssessed \<or> Campaign_State campaign = CampaignBranchChecked)
       (denied env actor ''target.acquire_comparison'' ''campaign'' campaignID ''primitive assessment must complete before comparison acquisition'')) (\<lambda>_.
     act_bind (getFinding findingID) (\<lambda>finding.
     act_bind (act_ensure (Finding_CampaignID finding = campaignID \<and> Finding_Label finding = FindingPrimitiveConfirmed)
       (denied env actor ''target.acquire_comparison'' ''finding'' findingID ''campaign-owned primitive-confirmed finding required'')) (\<lambda>_.
     act_bind (getScope (Campaign_ScopeID campaign)) (\<lambda>scope.
     act_bind (act_ensure (TReq_CorrelationID request = ''target:'' @ findingID @ '':'' @ trimSpace (TReq_Revision request))
       (denied env actor ''target.acquire_comparison'' ''finding'' findingID ''comparison target correlation does not match finding and revision'')) (\<lambda>_.
     act_bind (acquireAuthorized env svc actor ''target.acquire_comparison'' campaignID scope request) (\<lambda>_.
     act_bind (act_ensure (\<not> (TReq_Language request = [] \<or> TReq_Architecture request = [] \<or> svc_internalRoot svc = []))
       (denied env actor ''target.acquire_comparison'' ''campaign'' campaignID ''language, architecture, and internal storage are required'')) (\<lambda>_.
     act_bind (captureAndSave env svc campaignID scope request) (\<lambda>target.
     act_bind (allowedWithDetails env actor ''target.acquire_comparison'' ''target_revision'' (Target_ID target) (TReq_CorrelationID request)
       (targetAcquisitionDetails campaignID findingID target)) (\<lambda>_.
     act_return target)))))))))))"

end
