(* ===== verification/Pipeline.thy ===== *)
theory Pipeline
  imports Service
begin

text \<open>
  The evidence pipeline (\<^verbatim>\<open>pipeline/coordinator.go\<close>): what the coordinator writes into the store when
  a worker has finished, and the calls of the store that workers make.
\<close>

section \<open>Helpers of the coordinator\<close>

fun cweForPrimitive :: "PrimitiveOperation \<Rightarrow> string" where
  "cweForPrimitive PrimitiveOOBWrite = ''CWE-787''"
| "cweForPrimitive PrimitiveOOBRead = ''CWE-125''"
| "cweForPrimitive PrimitiveUseAfterFree = ''CWE-416''"
| "cweForPrimitive PrimitiveInvalidFree = ''CWE-415''"
| "cweForPrimitive _ = []"

definition groupID :: "Env \<Rightarrow> string \<Rightarrow> string \<Rightarrow> string" where
  "groupID env campaignID signature =
     ''group_'' @ hexEncode (take 16 (env_sha env (campaignID @ [CHR 0x00] @ signature)))"

text \<open>An audit event of the coordinator.\<close>

definition pipelineEvent :: "string \<Rightarrow> string \<Rightarrow> string \<Rightarrow> string \<Rightarrow> string \<Rightarrow> (string, string) fmap \<Rightarrow> AuditEvent" where
  "pipelineEvent action kind i correlation decision details =
     auditEvent ''evidence-pipeline'' action kind i correlation decision details"

definition advanceCampaign ::
    "Env \<Rightarrow> StateMachine \<Rightarrow> string \<Rightarrow> CampaignState \<Rightarrow> CampaignState \<Rightarrow> EvidenceFacts \<Rightarrow> string \<Rightarrow> (Store, unit) act" where
  "advanceCampaign env m campaignID from to facts correlation =
     act_bind (getCampaign campaignID) (\<lambda>campaign.
     if Campaign_State campaign \<noteq> from then act_return ()
     else
       act_bind (act_lift (advance (env_now env) m campaign to facts (env_now env))) (\<lambda>updated.
       (\<lambda>s. case updateCampaign env updated (Campaign_Version campaign) s of
          (Inl e, s') \<Rightarrow>
            (case e of
               ErrVersionConflict _ \<Rightarrow>
                 act_bind (getCampaign campaignID) (\<lambda>current.
                   if Campaign_State current \<noteq> to then act_fail e else act_return ()) s'
             | _ \<Rightarrow> (Inl e, s'))
        | (Inr _, s') \<Rightarrow>
            act_bind (appendAudit env (pipelineEvent ''campaign.transition'' ''campaign'' campaignID correlation ''deterministic''
              (fmap_of_list [(''from'', campaignStateText from), (''to'', campaignStateText to)]))) (\<lambda>_. act_return ()) s')))"

section \<open>The calls of workers\<close>

text \<open>
  Runner, collector, coordinator and novelty broker write into the store through these calls. A worker
  may make any of them with any argument at any time; its own checks only narrow that down.
\<close>

datatype workerCall =
    KeepArtifact Artifact string
  | KeepBuild Build
  | KeepRun ExperimentRun
  | KeepJobAndRun WorkerJob ExperimentRun
  | KeepCrash CrashObservation
  | KeepCrashGroup CrashGroup
  | KeepPrimitive PrimitiveAssessment
  | KeepFinding Finding
  | KeepRevisionCheck RevisionCheck
  | KeepSourceEvidence SourceEvidence
  | KeepEvent string string string string string "(string, string) fmap"
  | AdvanceCampaign string CampaignState CampaignState EvidenceFacts string

fun workerWrite :: "Env \<Rightarrow> StoreConfig \<Rightarrow> StateMachine \<Rightarrow> workerCall \<Rightarrow> (Store, unit) act" where
  "workerWrite env cfg m (KeepArtifact a bytes) = act_ignore (putArtifact env cfg a bytes)"
| "workerWrite env cfg m (KeepBuild b) = saveBuild env b"
| "workerWrite env cfg m (KeepRun r) = saveRun env r"
| "workerWrite env cfg m (KeepJobAndRun job r) = saveJobAndRun job r"
| "workerWrite env cfg m (KeepCrash c) = saveCrash env c"
| "workerWrite env cfg m (KeepCrashGroup g) = saveCrashGroup env g"
| "workerWrite env cfg m (KeepPrimitive p) = savePrimitive env p"
| "workerWrite env cfg m (KeepFinding f) = saveFinding env f"
| "workerWrite env cfg m (KeepRevisionCheck c) = saveRevisionCheck env c"
| "workerWrite env cfg m (KeepSourceEvidence e) = saveSourceEvidence env e"
| "workerWrite env cfg m (KeepEvent action kind i cor decision details) =
     act_ignore (appendAudit env (pipelineEvent action kind i cor decision details))"
| "workerWrite env cfg m (AdvanceCampaign c from to facts cor) = advanceCampaign env m c from to facts cor"

end
