(* ===== verification/Novelty.thy ===== *)
theory Novelty
  imports Triage "HOL-Library.Multiset"
begin

text \<open>
  \<^verbatim>\<open>internal/research/novelty/gates.go\<close>: the conservative novelty decision over reviewed source
  lookups and the branch matrix. The two loops that keep the latest record per key are one
  \<open>latest\<close> fold; its contract is a locale, interpreted on both of the code's uses.
\<close>

definition RequiredKinds :: "string list" where
  "RequiredKinds =
     [''nvd'', ''vendor_advisory'', ''upstream_history'', ''issue_tracker'', ''changelog'',
      ''regression_corpus'', ''duplicate_root_cause'']"

record Decision =
  Novelty_Status :: string
  Novelty_Complete :: bool
  Novelty_Known :: bool
  Novelty_Checks :: "GateCheck list"

definition isRequiredKind :: "string \<Rightarrow> bool" where
  "isRequiredKind kind = list_ex (\<lambda>k. k = kind) RequiredKinds"

definition reviewStatus :: "string \<Rightarrow> bool" where
  "reviewStatus s \<longleftrightarrow> s = ''match'' \<or> s = ''no_match'' \<or> s = ''unavailable'' \<or> s = ''error''"

definition evidenceByID :: "SourceEvidence list \<Rightarrow> string \<rightharpoonup> SourceEvidence" where
  "evidenceByID evidence = foldl (\<lambda>m item. m(SourceEv_ID item \<mapsto> item)) Map.empty evidence"

definition reviewApplies :: "(string \<rightharpoonup> SourceEvidence) \<Rightarrow> SourceReview \<Rightarrow> bool" where
  "reviewApplies byID review =
     (case byID (Review_SourceEvidenceID review) of
        None \<Rightarrow> False
      | Some item \<Rightarrow>
          SourceEv_CampaignID item = Review_CampaignID review \<and>
          SourceEv_FindingID item = Review_FindingID review \<and> SourceEv_Kind item = Review_Kind review \<and>
          isRequiredKind (Review_Kind review))"

definition keepLaterReview :: "(string \<rightharpoonup> SourceReview) \<Rightarrow> SourceReview \<Rightarrow> (string \<rightharpoonup> SourceReview)" where
  "keepLaterReview m review =
     (case m (Review_Kind review) of
        None \<Rightarrow> m(Review_Kind review \<mapsto> review)
      | Some current \<Rightarrow>
          if timeAfter (Review_ReviewedAt review) (Review_ReviewedAt current)
          then m(Review_Kind review \<mapsto> review) else m)"

definition reviewsByKind :: "(string \<rightharpoonup> SourceEvidence) \<Rightarrow> SourceReview list \<Rightarrow> string \<rightharpoonup> SourceReview" where
  "reviewsByKind byID reviews =
     foldl (\<lambda>m r. if reviewApplies byID r then keepLaterReview m r else m) Map.empty reviews"

text \<open>The check of one required kind, and whether it is complete.\<close>

definition missingKind :: "string \<Rightarrow> GateCheck" where
  "missingKind kind = \<lparr>Gate_Name = kind, Gate_Status = ''missing'',
     Gate_Summary = ''required lookup has not been reviewed'', Gate_EvidenceIDs = [], Gate_CheckedAt = zeroTime\<rparr>"

definition artifactOf :: "(string \<rightharpoonup> SourceEvidence) \<Rightarrow> string \<Rightarrow> string list" where
  "artifactOf byID i =
     (case byID i of
        None \<Rightarrow> []
      | Some item \<Rightarrow> if SourceEv_ArtifactID item \<noteq> [] then [SourceEv_ArtifactID item] else [])"

definition evaluateKind ::
    "(string \<rightharpoonup> SourceEvidence) \<Rightarrow> (string \<rightharpoonup> SourceReview) \<Rightarrow> Decision \<Rightarrow> string \<Rightarrow> Decision" where
  "evaluateKind byID byKind d kind =
     (case byKind kind of
        None \<Rightarrow> d\<lparr>Novelty_Complete := False, Novelty_Checks := Novelty_Checks d @ [missingKind kind]\<rparr>
      | Some review \<Rightarrow>
          if \<not> reviewStatus (Review_Status review)
          then d\<lparr>Novelty_Complete := False, Novelty_Checks := Novelty_Checks d @ [missingKind kind]\<rparr>
          else
            (let item_id = (case byID (Review_SourceEvidenceID review) of None \<Rightarrow> [] | Some item \<Rightarrow> SourceEv_ID item);
                 gc = \<lparr>Gate_Name = kind, Gate_Status = Review_Status review, Gate_Summary = Review_Summary review,
                        Gate_EvidenceIDs = [item_id, Review_ID review] @
                          artifactOf byID (Review_SourceEvidenceID review),
                        Gate_CheckedAt = Review_ReviewedAt review\<rparr>;
                 d' = d\<lparr>Novelty_Checks := Novelty_Checks d @ [gc]\<rparr>
             in if Review_Status review = ''match''
                then d'\<lparr>Novelty_Known := True, Novelty_Status := ''known_or_duplicate''\<rparr> else d'))"

definition evaluate :: "SourceEvidence list \<Rightarrow> SourceReview list \<Rightarrow> Decision" where
  "evaluate evidence reviews =
     (let byID = evidenceByID evidence; byKind = reviewsByKind byID reviews;
          d = foldl (evaluateKind byID byKind)
                \<lparr>Novelty_Status = ''novelty_unverified'', Novelty_Complete = True, Novelty_Known = False,
                 Novelty_Checks = []\<rparr> RequiredKinds
      in if Novelty_Complete d \<and> \<not> Novelty_Known d then d\<lparr>Novelty_Status := ''novelty_unverified''\<rparr> else d)"

definition keepLaterCheck :: "(string \<rightharpoonup> RevisionCheck) \<Rightarrow> RevisionCheck \<Rightarrow> (string \<rightharpoonup> RevisionCheck)" where
  "keepLaterCheck m rc =
     (case m (RevCheck_Revision rc) of
        None \<Rightarrow> m(RevCheck_Revision rc \<mapsto> rc)
      | Some current \<Rightarrow>
          if timeAfter (RevCheck_CheckedAt rc) (RevCheck_CheckedAt current)
          then m(RevCheck_Revision rc \<mapsto> rc) else m)"

definition checksByRevision :: "RevisionCheck list \<Rightarrow> string \<rightharpoonup> RevisionCheck" where
  "checksByRevision checks = foldl keepLaterCheck Map.empty checks"

definition validCheck :: "RevisionCheck \<Rightarrow> bool" where
  "validCheck rc =
     (let valid = RevCheck_Status rc = ''affected'' \<or> RevCheck_Status rc = ''unaffected'' \<or>
                  RevCheck_Status rc = ''untested'';
          valid' = (if valid \<and> RevCheck_Status rc = ''untested'' \<and> RevCheck_Reason rc = [] then False else valid)
      in if valid' \<and> RevCheck_Status rc \<noteq> ''untested'' \<and>
            (RevCheck_BuildID rc = [] \<or> RevCheck_RunID rc = [] \<or> RevCheck_EvidenceIDs rc = [])
         then False else valid')"

definition branchGate :: "(string \<rightharpoonup> RevisionCheck) \<Rightarrow> string \<Rightarrow> bool \<times> GateCheck" where
  "branchGate byRevision revision =
     (let missing = (False, \<lparr>Gate_Name = revision, Gate_Status = ''missing'',
            Gate_Summary = ''revision result or explicit untested reason required'',
            Gate_EvidenceIDs = [], Gate_CheckedAt = zeroTime\<rparr>)
      in case byRevision revision of
           None \<Rightarrow> missing
         | Some rc \<Rightarrow>
             if \<not> validCheck rc then missing
             else (True, \<lparr>Gate_Name = revision, Gate_Status = RevCheck_Status rc,
                    Gate_Summary = RevCheck_Reason rc, Gate_EvidenceIDs = RevCheck_EvidenceIDs rc,
                    Gate_CheckedAt = RevCheck_CheckedAt rc\<rparr>))"

text \<open>
  \<^verbatim>\<open>sort.Slice\<close> is not stable; two gates with one name come from one revision and are equal, so
  the order among them cannot be seen and the sorted list is unique.
\<close>

definition branchFacts :: "string list \<Rightarrow> RevisionCheck list \<Rightarrow> EvidenceFacts \<times> GateCheck list" where
  "branchFacts required checks =
     (let byRevision = checksByRevision checks;
          outcomes = map (branchGate byRevision) required;
          complete = (required \<noteq> [] \<and> list_all fst outcomes)
      in (noFacts\<lparr>BranchChecksRecorded := complete\<rparr>, sort_key Gate_Name (map snd outcomes)))"

definition noveltyFacts :: "Decision \<Rightarrow> EvidenceFacts" where
  "noveltyFacts d = noFacts\<lparr>NoveltyChecksRecorded := Novelty_Complete d\<rparr>"

section \<open>The latest record per key\<close>

text \<open>
  The contract of a fold that keeps, per key, the record with the greatest time: an update writes
  only its record's key, and replaces a record only by a strictly later one.
\<close>

locale latest =
  fixes key :: "'r \<Rightarrow> string" and at :: "'r \<Rightarrow> time"
    and upd :: "(string \<rightharpoonup> 'r) \<Rightarrow> 'r \<Rightarrow> (string \<rightharpoonup> 'r)"
  assumes upd_other: "k \<noteq> key r \<Longrightarrow> upd m r k = m k"
    and upd_fresh: "m (key r) = None \<Longrightarrow> upd m r (key r) = Some r"
    and upd_later: "m (key r) = Some c \<Longrightarrow> upd m r (key r) = Some (if at c < at r then r else c)"
begin

lemma fold_None_iff:
  "foldl upd m rs k = None \<longleftrightarrow> m k = None \<and> (\<forall>r \<in> set rs. key r \<noteq> k)"
proof (induction rs arbitrary: m)
  case Nil
  then show ?case by simp
next
  case (Cons r rs)
  have "upd m r k = None \<longleftrightarrow> m k = None \<and> key r \<noteq> k"
    by (cases "k = key r"; cases "m k") (auto simp: upd_other upd_fresh upd_later)
  with Cons show ?case by auto
qed

lemma fold_SomeD:
  "foldl upd m rs k = Some r \<Longrightarrow>
    (m k = Some r \<or> r \<in> set rs \<and> key r = k) \<and>
    (\<forall>c. m k = Some c \<longrightarrow> at c \<le> at r) \<and> (\<forall>r' \<in> set rs. key r' = k \<longrightarrow> at r' \<le> at r)"
proof (induction rs arbitrary: m)
  case Nil
  then show ?case by simp
next
  case (Cons x rs)
  from Cons.prems have "foldl upd (upd m x) rs k = Some r" by simp
  note IH = Cons.IH [OF this]
  show ?case
  proof (cases "key x = k")
    case False
    with IH show ?thesis by (auto simp: upd_other)
  next
    case True
    with IH show ?thesis
      by (cases "m k") (auto simp: upd_fresh upd_later split: if_splits)
  qed
qed

end

interpretation review_latest: latest Review_Kind Review_ReviewedAt keepLaterReview
  by unfold_locales (auto simp: keepLaterReview_def timeAfter_def split: option.splits)

interpretation check_latest: latest RevCheck_Revision RevCheck_CheckedAt keepLaterCheck
  by unfold_locales (auto simp: keepLaterCheck_def timeAfter_def split: option.splits)

lemma foldl_guard: "foldl (\<lambda>m r. if P r then f m r else m) m rs = foldl f m (filter P rs)"
  by (induction rs arbitrary: m) auto

lemma reviewsByKind_None:
  "reviewsByKind byID reviews k = None \<longleftrightarrow> (\<forall>r \<in> set reviews. reviewApplies byID r \<longrightarrow> Review_Kind r \<noteq> k)"
  unfolding reviewsByKind_def foldl_guard review_latest.fold_None_iff by auto

lemma reviewsByKind_Some:
  "reviewsByKind byID reviews k = Some r \<Longrightarrow>
    r \<in> set reviews \<and> reviewApplies byID r \<and> Review_Kind r = k \<and>
    (\<forall>r' \<in> set reviews. reviewApplies byID r' \<and> Review_Kind r' = k \<longrightarrow> Review_ReviewedAt r' \<le> Review_ReviewedAt r)"
  unfolding reviewsByKind_def foldl_guard by (drule review_latest.fold_SomeD) auto

lemma checksByRevision_None:
  "checksByRevision checks v = None \<longleftrightarrow> (\<forall>c \<in> set checks. RevCheck_Revision c \<noteq> v)"
  unfolding checksByRevision_def check_latest.fold_None_iff by auto

lemma checksByRevision_Some:
  "checksByRevision checks v = Some c \<Longrightarrow>
    c \<in> set checks \<and> RevCheck_Revision c = v \<and>
    (\<forall>c' \<in> set checks. RevCheck_Revision c' = v \<longrightarrow> RevCheck_CheckedAt c' \<le> RevCheck_CheckedAt c)"
  unfolding checksByRevision_def by (drule check_latest.fold_SomeD) auto

section \<open>The novelty decision\<close>

definition settledKind :: "(string \<rightharpoonup> SourceReview) \<Rightarrow> string \<Rightarrow> bool" where
  "settledKind byKind k = (case byKind k of None \<Rightarrow> False | Some r \<Rightarrow> reviewStatus (Review_Status r))"

definition matchedKind :: "(string \<rightharpoonup> SourceReview) \<Rightarrow> string \<Rightarrow> bool" where
  "matchedKind byKind k = (case byKind k of None \<Rightarrow> False | Some r \<Rightarrow> Review_Status r = ''match'')"

lemma evaluateKind_effect:
  "Novelty_Complete (evaluateKind byID byKind d k) \<longleftrightarrow> Novelty_Complete d \<and> settledKind byKind k"
  "Novelty_Known (evaluateKind byID byKind d k) \<longleftrightarrow> Novelty_Known d \<or> matchedKind byKind k"
  "Novelty_Status (evaluateKind byID byKind d k) =
     (if matchedKind byKind k then ''known_or_duplicate'' else Novelty_Status d)"
  "map Gate_Name (Novelty_Checks (evaluateKind byID byKind d k)) = map Gate_Name (Novelty_Checks d) @ [k]"
  by (auto simp: evaluateKind_def settledKind_def matchedKind_def missingKind_def reviewStatus_def Let_def
      split: option.splits)

lemma foldl_evaluateKind:
  "Novelty_Complete (foldl (evaluateKind byID byKind) d ks) \<longleftrightarrow>
     Novelty_Complete d \<and> (\<forall>k \<in> set ks. settledKind byKind k)"
  "Novelty_Known (foldl (evaluateKind byID byKind) d ks) \<longleftrightarrow>
     Novelty_Known d \<or> (\<exists>k \<in> set ks. matchedKind byKind k)"
  "Novelty_Status (foldl (evaluateKind byID byKind) d ks) =
     (if \<exists>k \<in> set ks. matchedKind byKind k then ''known_or_duplicate'' else Novelty_Status d)"
  "map Gate_Name (Novelty_Checks (foldl (evaluateKind byID byKind) d ks)) =
     map Gate_Name (Novelty_Checks d) @ ks"
  by (induction ks arbitrary: d) (auto simp: evaluateKind_effect)

text \<open>A review that counts for a kind and that no other such review postdates.\<close>

definition latestReview :: "SourceEvidence list \<Rightarrow> SourceReview list \<Rightarrow> string \<Rightarrow> SourceReview \<Rightarrow> bool" where
  "latestReview evidence reviews k r \<longleftrightarrow>
     r \<in> set reviews \<and> Review_Kind r = k \<and> reviewApplies (evidenceByID evidence) r \<and>
     list_all (\<lambda>r'. reviewApplies (evidenceByID evidence) r' \<and> Review_Kind r' = k \<longrightarrow>
       Review_ReviewedAt r' \<le> Review_ReviewedAt r) reviews"

lemma reviewsByKind_latest:
  "reviewsByKind (evidenceByID evidence) reviews k = Some r \<Longrightarrow> latestReview evidence reviews k r"
  by (drule reviewsByKind_Some) (auto simp: latestReview_def list_all_iff)

lemma evaluate_fields:
  fixes evidence reviews
  defines "byKind \<equiv> reviewsByKind (evidenceByID evidence) reviews"
  shows "Novelty_Complete (evaluate evidence reviews) \<longleftrightarrow> (\<forall>k \<in> set RequiredKinds. settledKind byKind k)"
    and "Novelty_Known (evaluate evidence reviews) \<longleftrightarrow> (\<exists>k \<in> set RequiredKinds. matchedKind byKind k)"
    and "Novelty_Status (evaluate evidence reviews) =
      (if Novelty_Known (evaluate evidence reviews) then ''known_or_duplicate'' else ''novelty_unverified'')"
    and "map Gate_Name (Novelty_Checks (evaluate evidence reviews)) = RequiredKinds"
  unfolding evaluate_def Let_def byKind_def by (simp_all add: foldl_evaluateKind)

text \<open>
  C4. The novelty decision is conservative: its status is never anything but unverified or known,
  it is known exactly when the decision found a match, it reports one check per required kind in
  order, it is complete only if the latest review of every required kind has a recognised status,
  it is known only if the latest review of some kind is a match, and it is complete whenever every
  kind has a review and no latest review is of an unrecognised status.
\<close>

theorem evaluate_conservative:
  "Novelty_Status (evaluate evidence reviews) =
     (if Novelty_Known (evaluate evidence reviews) then ''known_or_duplicate'' else ''novelty_unverified'') \<and>
   map Gate_Name (Novelty_Checks (evaluate evidence reviews)) = RequiredKinds \<and>
   (Novelty_Complete (evaluate evidence reviews) \<longrightarrow>
     list_all (\<lambda>k. \<exists>r. latestReview evidence reviews k r \<and> reviewStatus (Review_Status r)) RequiredKinds) \<and>
   (Novelty_Known (evaluate evidence reviews) \<longrightarrow>
     (\<exists>k r. latestReview evidence reviews k r \<and> Review_Status r = ''match'')) \<and>
   (list_all (\<lambda>k. (\<exists>r. latestReview evidence reviews k r) \<and>
       (\<forall>r. latestReview evidence reviews k r \<longrightarrow> reviewStatus (Review_Status r))) RequiredKinds \<longrightarrow>
     Novelty_Complete (evaluate evidence reviews))"
proof -
  let ?m = "reviewsByKind (evidenceByID evidence) reviews"
  have settled: "settledKind ?m k \<Longrightarrow> \<exists>r. latestReview evidence reviews k r \<and> reviewStatus (Review_Status r)" for k
    by (auto simp: settledKind_def dest!: reviewsByKind_latest split: option.splits)
  have matched: "matchedKind ?m k \<Longrightarrow> \<exists>r. latestReview evidence reviews k r \<and> Review_Status r = ''match''" for k
    by (auto simp: matchedKind_def dest!: reviewsByKind_latest split: option.splits)
  have enough: "settledKind ?m k" if "\<exists>r. latestReview evidence reviews k r"
    "\<forall>r. latestReview evidence reviews k r \<longrightarrow> reviewStatus (Review_Status r)" for k
  proof (cases "?m k")
    case None
    with that(1) show ?thesis by (auto simp: reviewsByKind_None latestReview_def)
  next
    case (Some r)
    with that(2) reviewsByKind_latest show ?thesis by (simp add: settledKind_def)
  qed
  show ?thesis
    unfolding evaluate_fields(1,2) list_all_iff
    using evaluate_fields(3,4) [of evidence reviews] settled matched enough
    unfolding evaluate_fields(2) by blast
qed

definition sampleEvidence :: "string \<Rightarrow> SourceEvidence" where
  "sampleEvidence k = \<lparr>SourceEv_SchemaVersion = 1, SourceEv_ID = ''e_'' @ k, SourceEv_CampaignID = ''c1'',
     SourceEv_FindingID = ''f1'', SourceEv_Kind = k, SourceEv_SourceName = ''src'', SourceEv_Query = ''q'',
     SourceEv_RequestURL = [], SourceEv_Status = ''captured'', SourceEv_Summary = [], SourceEv_ResponseHash = [],
     SourceEv_ArtifactID = ''art'', SourceEv_Metadata = fmempty, SourceEv_CheckedAt = 5\<rparr>"

definition sampleReview :: "string \<Rightarrow> SourceReview" where
  "sampleReview k = \<lparr>Review_SchemaVersion = 1, Review_ID = ''r_'' @ k, Review_CampaignID = ''c1'',
     Review_FindingID = ''f1'', Review_SourceEvidenceID = ''e_'' @ k, Review_Kind = k,
     Review_Status = (if k = ''nvd'' then ''match'' else ''no_match''), Review_Summary = [],
     Review_ReviewedBy = ''bob'', Review_ReviewedAt = 6\<rparr>"

theorem evaluate_conservative_witness:
  "Novelty_Complete (evaluate (map sampleEvidence RequiredKinds) (map sampleReview RequiredKinds)) \<and>
   Novelty_Status (evaluate (map sampleEvidence RequiredKinds) (map sampleReview RequiredKinds)) = ''known_or_duplicate'' \<and>
   (\<exists>r. latestReview (map sampleEvidence RequiredKinds) (map sampleReview RequiredKinds) ''changelog'' r)"
proof -
  let ?e = "map sampleEvidence RequiredKinds" and ?r = "map sampleReview RequiredKinds"
  have c: "Novelty_Complete (evaluate ?e ?r)" by code_simp
  have k: "Novelty_Known (evaluate ?e ?r)" by code_simp
  have "''changelog'' \<in> set RequiredKinds" by code_simp
  with evaluate_conservative [of ?e ?r] c k show ?thesis by (auto simp: list_all_iff)
qed

section \<open>Branch checks\<close>

inductive_cases gate_to_branch: "gate m facts CampaignPrimitiveAssessed CampaignBranchChecked"

lemma gate_branch_iff:
  "gate m facts CampaignPrimitiveAssessed CampaignBranchChecked \<longleftrightarrow> BranchChecksRecorded facts"
  by (auto elim: gate_to_branch intro: gate.branch)

lemma validCheck_iff:
  "validCheck c \<longleftrightarrow>
     RevCheck_Status c = ''untested'' \<and> RevCheck_Reason c \<noteq> [] \<or>
     RevCheck_Status c \<in> {''affected'', ''unaffected''} \<and> RevCheck_BuildID c \<noteq> [] \<and>
       RevCheck_RunID c \<noteq> [] \<and> RevCheck_EvidenceIDs c \<noteq> []"
  by (auto simp: validCheck_def Let_def)

lemma branchGate_fst:
  "fst (branchGate byRevision v) \<longleftrightarrow> (\<exists>c. byRevision v = Some c \<and> validCheck c)"
  by (auto simp: branchGate_def Let_def split: option.splits)

lemma branchGate_name [simp]: "Gate_Name (snd (branchGate byRevision v)) = v"
  by (simp add: branchGate_def Let_def split: option.splits)

text \<open>
  C5. The branch gate opens exactly when at least one revision is required and for each required
  revision the latest recorded check either explains why it is untested, or reports an outcome
  with its build, its run and evidence; the gates reported are one per required revision, sorted
  by name.
\<close>

theorem branchFacts_opens_gate_iff:
  "(gate m (fst (branchFacts required checks)) CampaignPrimitiveAssessed CampaignBranchChecked \<longleftrightarrow>
      required \<noteq> [] \<and>
      list_all (\<lambda>v. \<exists>c. checksByRevision checks v = Some c \<and> c \<in> set checks \<and> RevCheck_Revision c = v \<and>
        list_all (\<lambda>c'. RevCheck_CheckedAt c' \<le> RevCheck_CheckedAt c)
          (filter (\<lambda>c'. RevCheck_Revision c' = v) checks) \<and>
        (RevCheck_Status c = ''untested'' \<and> RevCheck_Reason c \<noteq> [] \<or>
         RevCheck_Status c \<in> {''affected'', ''unaffected''} \<and> RevCheck_BuildID c \<noteq> [] \<and>
           RevCheck_RunID c \<noteq> [] \<and> RevCheck_EvidenceIDs c \<noteq> [])) required) \<and>
   map Gate_Name (snd (branchFacts required checks)) = sort required"
proof -
  have latest: "c \<in> set checks \<and> RevCheck_Revision c = v \<and>
      list_all (\<lambda>c'. RevCheck_CheckedAt c' \<le> RevCheck_CheckedAt c)
          (filter (\<lambda>c'. RevCheck_Revision c' = v) checks)"
    if "checksByRevision checks v = Some c" for v c
    using checksByRevision_Some [OF that] by (auto simp: list_all_iff)
  have "gate m (fst (branchFacts required checks)) CampaignPrimitiveAssessed CampaignBranchChecked \<longleftrightarrow>
      required \<noteq> [] \<and> (\<forall>v \<in> set required. \<exists>c. checksByRevision checks v = Some c \<and> validCheck c)"
    by (auto simp: gate_branch_iff branchFacts_def Let_def list_all_iff branchGate_fst)
  moreover have "map Gate_Name (snd (branchFacts required checks)) = sort required"
  proof (rule sym, rule properties_for_sort)
    show "mset (map Gate_Name (snd (branchFacts required checks))) = mset required"
      by (simp add: branchFacts_def Let_def comp_def multiset.map_comp)
    show "sorted (map Gate_Name (snd (branchFacts required checks)))"
      by (simp add: branchFacts_def Let_def)
  qed
  ultimately show ?thesis
    unfolding list_all_iff [of _ required] validCheck_iff using latest by blast
qed

end
