(* ===== verification/Remediation.thy ===== *)
theory Remediation
  imports Policy
begin

text \<open>
  \<^verbatim>\<open>internal/research/remediation/gates.go\<close>: validation of a candidate fix from deterministic
  build and run outcomes.
\<close>

record RemediationInputs =
  In_ID :: string
  In_CampaignID :: string
  In_FindingID :: string
  In_PatchArtifactID :: string
  In_Approval :: Approval
  In_FixBuild :: Build
  In_ReproducerRun :: ExperimentRun
  In_RegressionRun :: ExperimentRun
  In_NegativeControlRun :: ExperimentRun
  In_OriginalSignatureSeen :: bool
  In_EvidenceIDs :: "string list"
  In_Now :: time

definition completedClean :: "ExperimentRun \<Rightarrow> bool" where
  "completedClean r \<longleftrightarrow>
     Run_ID r \<noteq> [] \<and> Run_Status r = RunCompleted \<and> Exit_Code (Run_Exit r) = 0 \<and> Exit_Signal (Run_Exit r) = []"

definition remediationValidate :: "time \<Rightarrow> RemediationInputs \<Rightarrow> (RemediationValidation \<times> EvidenceFacts) result" where
  "remediationValidate clock i =
     (let v = \<lparr>Remed_SchemaVersion = 1, Remed_ID = In_ID i, Remed_CampaignID = In_CampaignID i,
            Remed_FindingID = In_FindingID i, Remed_PatchArtifactID = In_PatchArtifactID i,
            Remed_ApprovalID = Approval_ID (In_Approval i), Remed_FixBuildID = Build_ID (In_FixBuild i),
            Remed_ReproducerRunID = Run_ID (In_ReproducerRun i), Remed_RegressionRunID = Run_ID (In_RegressionRun i),
            Remed_NegativeControlRunID = Run_ID (In_NegativeControlRun i), Remed_OriginalSignalGone = False,
            Remed_RegressionPassed = False, Remed_NegativeControlClean = False,
            Remed_EvidenceIDs = In_EvidenceIDs i,
            Remed_ValidatedAt = (if isZero (In_Now i) then clock else In_Now i)\<rparr>
      in
      if Remed_ID v = [] \<or> Remed_CampaignID v = [] \<or> Remed_FindingID v = [] \<or> Remed_PatchArtifactID v = []
      then Inl (Err ''remediation: validation, campaign, finding, and patch identities required'')
      else if Approval_Status (In_Approval i) \<noteq> ''approved'' \<or>
              Approval_Operation (In_Approval i) \<noteq> OperationRegressionTest \<or>
              Approval_CampaignID (In_Approval i) \<noteq> In_CampaignID i
      then Inl (Err ''remediation: matching human approval required'')
      else if Build_ID (In_FixBuild i) = [] \<or> Build_CampaignID (In_FixBuild i) \<noteq> In_CampaignID i \<or>
              Build_Status (In_FixBuild i) \<noteq> ''completed''
      then Inl (Err ''remediation: successful fix build required'')
      else if \<not> completedClean (In_ReproducerRun i) \<or> \<not> completedClean (In_RegressionRun i) \<or>
              \<not> completedClean (In_NegativeControlRun i)
      then Inl (Err ''remediation: completed clean reproducer, regression, and negative-control runs required'')
      else if In_OriginalSignatureSeen i
      then Inl (Err ''remediation: original crash signature remains'')
      else if length (In_EvidenceIDs i) < 4
      then Inl (Err ''remediation: retained build and run evidence required'')
      else Inr (v\<lparr>Remed_OriginalSignalGone := True, Remed_RegressionPassed := True,
                  Remed_NegativeControlClean := True\<rparr>,
                noFacts\<lparr>FixBuildID := Build_ID (In_FixBuild i), RegressionRunID := Run_ID (In_RegressionRun i),
                  FixEliminatesCrash := True\<rparr>))"

section \<open>Properties\<close>

definition fixEvidence :: "RemediationInputs \<Rightarrow> bool" where
  "fixEvidence i \<longleftrightarrow>
     In_ID i \<noteq> [] \<and> In_CampaignID i \<noteq> [] \<and> In_FindingID i \<noteq> [] \<and> In_PatchArtifactID i \<noteq> [] \<and>
     Approval_Status (In_Approval i) = ''approved'' \<and> Approval_Operation (In_Approval i) = OperationRegressionTest \<and>
     Approval_CampaignID (In_Approval i) = In_CampaignID i \<and>
     Build_ID (In_FixBuild i) \<noteq> [] \<and> Build_CampaignID (In_FixBuild i) = In_CampaignID i \<and>
     Build_Status (In_FixBuild i) = ''completed'' \<and>
     list_all completedClean [In_ReproducerRun i, In_RegressionRun i, In_NegativeControlRun i] \<and>
     \<not> In_OriginalSignatureSeen i \<and> 4 \<le> length (In_EvidenceIDs i)"

lemma remediationValidate_Inr_iff:
  "(\<exists>r. remediationValidate clock i = Inr r) \<longleftrightarrow> fixEvidence i"
  by (auto simp: remediationValidate_def fixEvidence_def Let_def)

inductive_cases gate_to_remediated: "gate m facts CampaignNoveltyReviewed CampaignRemediated"

lemma gate_remediated_iff:
  "gate m facts CampaignNoveltyReviewed CampaignRemediated \<longleftrightarrow>
     FixBuildID facts \<noteq> [] \<and> RegressionRunID facts \<noteq> [] \<and> FixEliminatesCrash facts"
  by (auto elim: gate_to_remediated intro: gate.remediate)

text \<open>
  C6. A fix is validated exactly on its full evidence: an approved regression test of the same
  campaign, a completed fix build of it, three clean completed runs, the crash signature gone and
  four retained pieces of evidence; and the facts of a validated fix always open the machine's
  remediation gate, with the record naming the approval, build and runs it rests on.
\<close>

theorem remediation_validated_iff_opens_gate:
  "((\<exists>r. remediationValidate clock i = Inr r) \<longleftrightarrow> fixEvidence i) \<and>
   (\<forall>v facts. remediationValidate clock i = Inr (v, facts) \<longrightarrow>
     gate m facts CampaignNoveltyReviewed CampaignRemediated \<and>
     Remed_ApprovalID v = Approval_ID (In_Approval i) \<and> Remed_FixBuildID v = FixBuildID facts \<and>
     Remed_RegressionRunID v = RegressionRunID facts \<and> Remed_EvidenceIDs v = In_EvidenceIDs i \<and>
     Remed_OriginalSignalGone v \<and> Remed_RegressionPassed v \<and> Remed_NegativeControlClean v)"
proof (intro conjI allI impI)
  show "(\<exists>r. remediationValidate clock i = Inr r) \<longleftrightarrow> fixEvidence i"
    by (rule remediationValidate_Inr_iff)
  fix v facts
  assume r: "remediationValidate clock i = Inr (v, facts)"
  then have "fixEvidence i" using remediationValidate_Inr_iff by blast
  with r show "gate m facts CampaignNoveltyReviewed CampaignRemediated"
    by (auto simp: gate_remediated_iff remediationValidate_def fixEvidence_def completedClean_def Let_def)
qed (auto simp: remediationValidate_def Let_def split: if_splits)

definition sampleRun :: "string \<Rightarrow> ExperimentRun" where
  "sampleRun i = \<lparr>Run_SchemaVersion = 1, Run_ID = i, Run_CampaignID = ''c1'', Run_ScopeID = ''s1'',
     Run_TargetID = ''t1'', Run_BuildID = ''b1'', Run_InputArtifactID = ''a1'', Run_PatchArtifactID = ''pa1'',
     Run_Operation = OperationRegressionTest, Run_Arguments = fmempty, Run_Environment = fmempty,
     Run_Status = RunCompleted, Run_WorkerID = ''w1'', Run_IsolationAssurance = ''microvm'',
     Run_Exit = \<lparr>Exit_Code = 0, Exit_Signal = [], Exit_Reason = []\<rparr>,
     Run_Usage = \<lparr>Usage_WallMillis = 1, Usage_CPUMillis = 1, Usage_MaxRSSBytes = 1, Usage_DiskWrittenBytes = 1,
       Usage_InodesCreated = 1\<rparr>, Run_ArtifactIDs = [], Run_AuditCorrelationID = ''k'', Run_CreatedAt = 5,
     Run_StartedAt = None, Run_CompletedAt = None\<rparr>"

definition sampleApproval :: "Operation \<Rightarrow> Approval" where
  "sampleApproval op = \<lparr>Approval_SchemaVersion = 1, Approval_ID = ''ap1'', Approval_ScopeID = ''s1'',
     Approval_CampaignID = ''c1'', Approval_CorrelationID = ''k'', Approval_Operation = op,
     Approval_Status = ''approved'', Approval_RequestedBy = ''ana'', Approval_DecidedBy = ''bob'',
     Approval_Reason = [], Approval_CreatedAt = 5, Approval_DecidedAt = Some 6\<rparr>"

definition sampleBuild :: Build where
  "sampleBuild = \<lparr>Build_SchemaVersion = 1, Build_ID = ''b2'', Build_CampaignID = ''c1'', Build_TargetID = ''t1'',
     Build_ManifestID = ''m1'', Build_ImageDigest = [], Build_Toolchain = fmempty, Build_Sanitizer = ''address'',
     Build_Architecture = ''amd64'', Build_OutputArtifacts = [], Build_LogArtifacts = [],
     Build_Provenance = fmempty, Build_Status = ''completed'', Build_CreatedAt = 5, Build_CompletedAt = None\<rparr>"

definition sampleFix :: RemediationInputs where
  "sampleFix = \<lparr>In_ID = ''v1'', In_CampaignID = ''c1'', In_FindingID = ''f1'', In_PatchArtifactID = ''pa1'',
     In_Approval = sampleApproval OperationRegressionTest, In_FixBuild = sampleBuild,
     In_ReproducerRun = sampleRun ''r1'', In_RegressionRun = sampleRun ''r2'',
     In_NegativeControlRun = sampleRun ''r3'', In_OriginalSignatureSeen = False,
     In_EvidenceIDs = [''b2'', ''r1'', ''r2'', ''r3''], In_Now = 7\<rparr>"

theorem remediation_validated_iff_opens_gate_witness:
  "fixEvidence sampleFix \<and>
   (\<exists>v facts. remediationValidate 9 sampleFix = Inr (v, facts) \<and>
      gate sampleMachine facts CampaignNoveltyReviewed CampaignRemediated)"
proof -
  have e: "fixEvidence sampleFix" by code_simp
  from remediation_validated_iff_opens_gate [of 9 sampleFix sampleMachine] e
  obtain r where "remediationValidate 9 sampleFix = Inr r" by blast
  with remediation_validated_iff_opens_gate [of 9 sampleFix sampleMachine] e
  show ?thesis by (cases r) blast
qed

end
