(* ===== verification/Report.thy ===== *)
theory Report
  imports Policy
begin

text \<open>
  \<^verbatim>\<open>internal/research/report/report.go\<close>: rendering of a private finding draft. The text of the
  report is built here byte by byte as the code builds it.
\<close>

record DraftInputs =
  Draft_Campaign :: Campaign
  Draft_Target :: TargetRevision
  Draft_Finding :: Finding
  Draft_Group :: CrashGroup
  Draft_Primitive :: PrimitiveAssessment
  Draft_Artifacts :: "Artifact list"
  Draft_Reviewer :: Approval
  Draft_NoveltyStatus :: string

definition newline :: string where
  "newline = [CHR 0x0A]"

text \<open>The bytes of a spaced em dash.\<close>

definition emDash :: string where
  "emDash = [CHR 0x20, CHR 0xE2, CHR 0x80, CHR 0x94, CHR 0x20]"

definition backtick :: "string \<Rightarrow> string" where
  "backtick s = CHR 0x60 # s @ [CHR 0x60]"

definition cleanText :: "string \<Rightarrow> string" where
  "cleanText v = trimSpace (replaceAll (replaceAll v [CHR 0x00] []) [CHR 0x0D] [])"

definition writeChecks :: "GateCheck list \<Rightarrow> string" where
  "writeChecks checks =
     concat (map (\<lambda>c. ''- '' @ cleanText (Gate_Name c) @ '': '' @ backtick (Gate_Status c) @ emDash @
       cleanText (Gate_Summary c) @
       (if Gate_EvidenceIDs c \<noteq> [] then '' (evidence: '' @ strJoin '', '' (Gate_EvidenceIDs c) @ '')'' else []) @
       newline) checks)"

definition fieldLine :: "string \<times> EvidenceValue \<Rightarrow> string" where
  "fieldLine nf =
     ''- '' @ fst nf @ '': '' @
     (if EV_Known (snd nf)
      then cleanText (EV_Value (snd nf)) @ '' (evidence: '' @ strJoin '', '' (EV_EvidenceIDs (snd nf)) @ '')''
      else ''unknown'') @ newline"

definition artifactLine :: "Artifact \<Rightarrow> string" where
  "artifactLine a =
     ''- '' @ backtick (Artifact_ID a) @ emDash @ cleanText (Artifact_Role a) @ '', '' @
     backtick (Artifact_ContentID a) @ '', '' @ showInt (Artifact_Size a) @ '' bytes'' @ newline"

definition draftNovelty :: "string \<Rightarrow> string" where
  "draftNovelty status = (if status = [] \<or> status = ''novel'' then ''novelty_unverified'' else status)"

definition draftHead :: "DraftInputs \<Rightarrow> string" where
  "draftHead i =
     ''# Private vulnerability research draft: '' @ cleanText (Finding_Title (Draft_Finding i)) @ newline @ newline @
     ''- Campaign: '' @ backtick (Campaign_ID (Draft_Campaign i)) @ newline @
     ''- Target commit: '' @ backtick (Target_Commit (Draft_Target i)) @ newline @
     ''- Evidence label: '' @ backtick (findingText (Finding_Label (Draft_Finding i))) @ newline @ ''- Novelty: ''"

definition draftTail :: "DraftInputs \<Rightarrow> string" where
  "draftTail i =
     newline @ ''- Disclosure: not performed'' @ newline @ newline @
     ''## Summary'' @ newline @ newline @ cleanText (Finding_Title (Draft_Finding i)) @ newline @ newline @
     ''## Root cause'' @ newline @ newline @ cleanText (Finding_RootCause (Draft_Finding i)) @ newline @ newline @
     ''## Demonstrated primitive'' @ newline @ newline @
     ''- Operation: '' @ backtick (primitiveText (Prim_Operation (Draft_Primitive i))) @ '' (evidence: '' @
       strJoin '', '' (Prim_OperationEvidence (Draft_Primitive i)) @ '')'' @ newline @
     concat (map fieldLine
       [(''Attacker control'', Prim_AttackerControl (Draft_Primitive i)),
        (''Access width'', Prim_AccessWidth (Draft_Primitive i)),
        (''Value control'', Prim_ValueControl (Draft_Primitive i)),
        (''Target relation'', Prim_TargetRelation (Draft_Primitive i)),
        (''Repeatability'', Prim_Repeatability (Draft_Primitive i)),
        (''Reachability'', Prim_Reachability (Draft_Primitive i)),
        (''Mitigations'', Prim_Mitigations (Draft_Primitive i)),
        (''Exploitability gap'', Prim_ExploitabilityGap (Draft_Primitive i))]) @
     newline @ ''## Affected-revision checks'' @ newline @ newline @
     writeChecks (Finding_BranchChecks (Draft_Finding i)) @
     newline @ ''## Novelty checks'' @ newline @ newline @
     writeChecks (Finding_NoveltyChecks (Draft_Finding i)) @
     newline @ ''## Evidence inventory'' @ newline @ newline @
     concat (map artifactLine (sort_key Artifact_ID (Draft_Artifacts i))) @
     newline @ ''## Disclosure control'' @ newline @ newline @
     ''This is a private draft. Agent Smith does not transmit or publish it; an authorized human must make and record any external disclosure decision.'' @ newline"

text \<open>
  \<^verbatim>\<open>sort.Slice\<close> on the artifacts is modelled by the stable sort; artifact ids are unique in the
  store, so the order is determined.
\<close>

definition renderPrivateDraft :: "DraftInputs \<Rightarrow> string result" where
  "renderPrivateDraft i =
     (if Campaign_ID (Draft_Campaign i) = [] \<or> Target_ID (Draft_Target i) = [] \<or>
         Finding_ID (Draft_Finding i) = [] \<or> Group_ID (Draft_Group i) = []
      then Inl (Err ''report: campaign, target, finding, and crash group required'')
      else if Finding_Label (Draft_Finding i) \<noteq> FindingCandidateVulnerability
      then Inl (Err ''report: candidate-vulnerability evidence label required'')
      else
        rbind (validatePrimitive (Draft_Primitive i)) (\<lambda>_.
        if Approval_Status (Draft_Reviewer i) \<noteq> ''approved'' \<or>
           Approval_Operation (Draft_Reviewer i) \<noteq> OperationDraftReport \<or>
           Approval_CampaignID (Draft_Reviewer i) \<noteq> Campaign_ID (Draft_Campaign i)
        then Inl (Err ''report: matching human report approval required'')
        else if Finding_BranchChecks (Draft_Finding i) = [] \<or> Finding_NoveltyChecks (Draft_Finding i) = [] \<or>
                Finding_EvidenceIDs (Draft_Finding i) = []
        then Inl (Err ''report: branch, novelty, and finding evidence required'')
        else Inr (draftHead i @ backtick (draftNovelty (Draft_NoveltyStatus i)) @ draftTail i)))"

section \<open>Properties\<close>

lemma replacement_choice:
  "u \<notin> {[], v} \<Longrightarrow> s = [] \<or> s = v \<Longrightarrow>
    (\<exists>n. n \<notin> {[], v} \<and> s \<in> {n, [], v} \<and> n \<in> {s, u} \<and> P n) \<longleftrightarrow> P u"
  by auto

lemma kept_choice:
  "\<not> (s = [] \<or> s = v) \<Longrightarrow> (\<exists>n. n \<notin> {[], v} \<and> s \<in> {n, [], v} \<and> n \<in> {s, u} \<and> P n) \<longleftrightarrow> P s"
  by auto

lemma draftNovelty_choice:
  "(\<exists>n. n \<notin> {[], ''novel''} \<and> s \<in> {n, [], ''novel''} \<and> n \<in> {s, ''novelty_unverified''} \<and> P n) \<longleftrightarrow>
     P (draftNovelty s)"
proof (cases "s = [] \<or> s = ''novel''")
  case True
  then have d: "draftNovelty s = ''novelty_unverified''" by (simp add: draftNovelty_def)
  have "''novelty_unverified'' \<notin> {[], ''novel''}" by simp
  from replacement_choice [OF this True] show ?thesis unfolding d .
next
  case False
  then have d: "draftNovelty s = s" by (simp add: draftNovelty_def)
  from kept_choice [OF False] show ?thesis unfolding d .
qed

text \<open>
  A draft is rendered exactly for an approved candidate vulnerability: the campaign, target,
  finding and group are identified, the finding carries the top label with branch, novelty and
  finding evidence, the primitive assessment is accepted and the report approval is of the same
  campaign. The rendered novelty line never holds the bare word for novelty and is never empty,
  and the draft ends with its disclosure notice.
\<close>

theorem renderPrivateDraft_iff:
  "renderPrivateDraft i = Inr text \<longleftrightarrow>
     Campaign_ID (Draft_Campaign i) \<noteq> [] \<and> Target_ID (Draft_Target i) \<noteq> [] \<and>
     Finding_ID (Draft_Finding i) \<noteq> [] \<and> Group_ID (Draft_Group i) \<noteq> [] \<and>
     Finding_Label (Draft_Finding i) = FindingCandidateVulnerability \<and>
     ok (validatePrimitive (Draft_Primitive i)) \<and>
     Approval_Status (Draft_Reviewer i) = ''approved'' \<and>
     Approval_Operation (Draft_Reviewer i) = OperationDraftReport \<and>
     Approval_CampaignID (Draft_Reviewer i) = Campaign_ID (Draft_Campaign i) \<and>
     Finding_BranchChecks (Draft_Finding i) \<noteq> [] \<and> Finding_NoveltyChecks (Draft_Finding i) \<noteq> [] \<and>
     Finding_EvidenceIDs (Draft_Finding i) \<noteq> [] \<and>
     (\<exists>n. n \<notin> {[], ''novel''} \<and> (Draft_NoveltyStatus i \<in> {n, [], ''novel''}) \<and>
        n \<in> {Draft_NoveltyStatus i, ''novelty_unverified''} \<and>
        text = draftHead i @ backtick n @ draftTail i)"
  unfolding draftNovelty_choice renderPrivateDraft_def
  by (cases "validatePrimitive (Draft_Primitive i)") auto

end
