(* ===== verification/Workflow.thy ===== *)
theory Workflow
  imports Service Novelty Remediation Report
begin

text \<open>
  \<^verbatim>\<open>internal/research/service/workflow.go\<close>: the reviewer-facing half of the control plane, from
  branch checks to the disclosure record. Handlers are actions on the store as in \<open>Service\<close>.
  The store the service is built with implements \<^verbatim>\<open>WorkflowEvidence\<close>, so \<^verbatim>\<open>workflowStore\<close> succeeds.
  The JSON decoder of a regression result is a parameter.
\<close>

definition workflowQueryLimit :: int where
  "workflowQueryLimit = 10000"

record SourceReviewRequest =
  SRReq_FindingID :: string
  SRReq_SourceEvidenceID :: string
  SRReq_Status :: string
  SRReq_Summary :: string

record RemediationRequest =
  RReq_FindingID :: string
  RReq_PatchArtifactID :: string
  RReq_ApprovalID :: string
  RReq_FixBuildID :: string
  RReq_ReproducerRunID :: string
  RReq_RegressionRunID :: string
  RReq_NegativeControlRunID :: string

record CandidatePatchRequest =
  PReq_FindingID :: string
  PReq_ApprovalID :: string
  PReq_Diff :: string

record ReportDraftRequest =
  DReq_FindingID :: string
  DReq_ApprovalID :: string

record DisclosureRecordRequest =
  LReq_FindingID :: string
  LReq_ApprovalID :: string
  LReq_Reference :: string

section \<open>Helpers\<close>

definition matchingApproval :: "Approval \<Rightarrow> string \<Rightarrow> Operation \<Rightarrow> string \<Rightarrow> unit result" where
  "matchingApproval approval campaignID op correlation =
     (if Approval_ID approval = [] \<or> Approval_Status approval \<noteq> ''approved'' \<or> Approval_CampaignID approval \<noteq> campaignID \<or>
         Approval_Operation approval \<noteq> op \<or> Approval_CorrelationID approval \<noteq> correlation \<or>
         Approval_DecidedAt approval = None \<or> Approval_DecidedBy approval = []
      then Inl (Err ''matching approved human decision required'') else Inr ())"

definition validReviewStatus :: "string \<Rightarrow> bool" where
  "validReviewStatus status \<longleftrightarrow> status = ''match'' \<or> status = ''no_match'' \<or> status = ''unavailable'' \<or> status = ''error''"

definition validFixRun :: "ExperimentRun \<Rightarrow> string \<Rightarrow> string \<Rightarrow> string \<Rightarrow> bool" where
  "validFixRun run campaignID buildID kind \<longleftrightarrow>
     Run_CampaignID run = campaignID \<and> Run_BuildID run = buildID \<and> Run_Operation run = OperationRegressionTest \<and>
     strGet (Run_Arguments run) ''validation-kind'' = kind"

definition affectedRevisions :: "GateCheck list \<Rightarrow> string list" where
  "affectedRevisions gates = sort (map Gate_Name (filter (\<lambda>g. Gate_Status g = ''affected'') gates))"

definition distinctStrings :: "string list \<Rightarrow> bool" where
  "distinctStrings values \<longleftrightarrow> [] \<notin> set values \<and> distinct values"

definition uniqueStrings :: "string list \<Rightarrow> string list" where
  "uniqueStrings values = sort (remdups (filter (\<lambda>v. v \<noteq> []) values))"

definition wantedArtifacts :: "Finding \<Rightarrow> CrashGroup \<Rightarrow> PrimitiveAssessment \<Rightarrow> string list" where
  "wantedArtifacts finding crashGroup primitive =
     [Group_CanonicalInputID crashGroup, Group_MinimizedArtifactID crashGroup, Finding_FixArtifactID finding] @
     Finding_EvidenceIDs finding @ Prim_OperationEvidence primitive @
     concat (map Gate_EvidenceIDs (Finding_BranchChecks finding @ Finding_NoveltyChecks finding))"

definition relevantArtifacts :: "Artifact list \<Rightarrow> Finding \<Rightarrow> CrashGroup \<Rightarrow> PrimitiveAssessment \<Rightarrow> Artifact list" where
  "relevantArtifacts artifacts finding crashGroup primitive =
     map (\<lambda>a. a\<lparr>Artifact_StoragePath := []\<rparr>)
       (filter (\<lambda>a. Artifact_ID a \<in> set (wantedArtifacts finding crashGroup primitive)) artifacts)"

section \<open>Unified diffs\<close>

definition safeDiffPath :: "string \<Rightarrow> string \<Rightarrow> bool" where
  "safeDiffPath value0 pfx =
     (if \<not> hasPrefix value0 pfx then False
      else
        (let value = trimPrefix value0 pfx in
         value \<noteq> [] \<and> value \<noteq> ''.'' \<and> \<not> hasPrefix value ''/'' \<and> clean value = value \<and> value \<noteq> ''..'' \<and> \<not> hasPrefix value ''../''))"

definition safeHeaderPath :: "string \<Rightarrow> string \<Rightarrow> bool" where
  "safeHeaderPath rest pfx =
     (case Go_Strings.fields rest of
        [] \<Rightarrow> False
      | value # _ \<Rightarrow> value = ''/dev/null'' \<or> safeDiffPath value pfx)"

text \<open>The loop over the lines; the flags say which headers were seen.\<close>

fun diffLoop :: "bool \<Rightarrow> bool \<Rightarrow> bool \<Rightarrow> string list \<Rightarrow> (bool \<times> bool \<times> bool) result" where
  "diffLoop hasOld hasNew hasHunk [] = Inr (hasOld, hasNew, hasHunk)"
| "diffLoop hasOld hasNew hasHunk (line # rest) =
     (if hasPrefix line ''diff --git '' then
        (let fs = Go_Strings.fields line in
         if length fs \<noteq> 4 \<or> \<not> safeDiffPath (fs ! 2) ''a/'' \<or> \<not> safeDiffPath (fs ! 3) ''b/''
         then Inl (Err ''diff contains an unsafe git path'')
         else diffLoop hasOld hasNew hasHunk rest)
      else if hasPrefix line ''--- '' then
        (if \<not> safeHeaderPath (trimPrefix line ''--- '') ''a/'' then Inl (Err ''diff contains an unsafe old path'')
         else diffLoop True hasNew hasHunk rest)
      else if hasPrefix line ''+++ '' then
        (if \<not> safeHeaderPath (trimPrefix line ''+++ '') ''b/'' then Inl (Err ''diff contains an unsafe new path'')
         else diffLoop hasOld True hasHunk rest)
      else if hasPrefix line ''@@ '' then diffLoop hasOld hasNew True rest
      else diffLoop hasOld hasNew hasHunk rest)"

definition validateUnifiedDiff :: "string \<Rightarrow> unit result" where
  "validateUnifiedDiff diff =
     (if diff = [] \<or> length diff > 2 ^ 20 \<or> CHR 0x00 \<in> set diff \<or> strContains diff ''GIT binary patch'' \<or> strContains diff ''Binary files ''
      then Inl (Err ''bounded textual unified diff required'')
      else
        rbind (diffLoop False False False (splitChar (CHR 0x0A) diff)) (\<lambda>(hasOld, hasNew, hasHunk).
        check (hasOld \<and> hasNew \<and> hasHunk) ''unified diff headers and at least one hunk required''))"

section \<open>Findings and lookups\<close>

definition workflowFinding :: "Env \<Rightarrow> Principal \<Rightarrow> string \<Rightarrow> string \<Rightarrow> string \<Rightarrow> Role list \<Rightarrow> (Store, Campaign \<times> AuthorizationScope \<times> Finding) act" where
  "workflowFinding env actor campaignID findingID action roles =
     act_bind (act_ensure (hasAnyRole actor roles) (denied env actor action ''finding'' findingID ''required research role missing'')) (\<lambda>_.
     act_bind (getCampaign campaignID) (\<lambda>campaign.
     act_bind (getScope (Campaign_ScopeID campaign)) (\<lambda>scope.
     act_bind (act_orElse (scopeValidate (env_host env) scope (env_now env))
       (\<lambda>e. denied env actor action ''campaign'' campaignID (errText e))) (\<lambda>_.
     act_bind (act_ensure (scopeMember scope actor)
       (denied env actor action ''campaign'' campaignID ''principal is not a campaign member'')) (\<lambda>_.
     act_bind (getFinding findingID) (\<lambda>finding.
     act_bind (act_ensure (Finding_CampaignID finding = campaignID)
       (denied env actor action ''finding'' findingID ''finding belongs to another campaign'')) (\<lambda>_.
     act_return (campaign, scope, finding))))))))"

definition lookupAction :: "Principal \<Rightarrow> Operation \<Rightarrow> string \<Rightarrow> string \<Rightarrow> string \<Rightarrow> string \<Rightarrow> Action" where
  "lookupAction actor op repository revision destinationHost approvalID =
     \<lparr>Action_Principal = actor, Action_Operation = op, Action_Repository = repository, Action_Revision = revision,
      Action_WorkspacePath = [], Action_DestinationHost = destinationHost, Action_WallSeconds = 0, Action_MemoryBytes = 0,
      Action_CPUSeconds = 0, Action_DiskBytes = 0, Action_Inodes = 0, Action_PIDs = 0, Action_ApprovalID = approvalID\<rparr>"

definition authorizeNoveltyLookup :: "Env \<Rightarrow> Principal \<Rightarrow> string \<Rightarrow> string \<Rightarrow> string \<Rightarrow> string \<Rightarrow> string \<Rightarrow> (Store, string) act" where
  "authorizeNoveltyLookup env actor campaignID findingID sourceName0 host0 approvalID =
     act_bind (workflowFinding env actor campaignID findingID ''novelty.lookup'' [RoleOperator, RoleReviewer, RoleAdmin]) (\<lambda>(campaign, scope, finding).
     act_bind (act_ensure (Campaign_State campaign = CampaignBranchChecked \<or> Campaign_State campaign = CampaignNoveltyReviewed)
       (denied env actor ''novelty.lookup'' ''campaign'' campaignID ''branch review must complete before external novelty lookups'')) (\<lambda>_.
     act_bind (getTarget (Campaign_TargetID campaign)) (\<lambda>target.
     (let sourceName = trimSpace sourceName0; destinationHost = trimSpace host0;
          correlation = ''lookup:'' @ findingID @ '':'' @ sourceName in
     act_bind (act_ensure (\<not> (sourceName = [] \<or> destinationHost = []))
       (denied env actor ''novelty.lookup'' ''finding'' findingID ''fixed source identity and destination required'')) (\<lambda>_.
     act_bind (authorizeAction env campaignID
       (lookupAction actor OperationNoveltyLookup (Scope_TargetRepository scope) (Target_Commit target) destinationHost approvalID) correlation) (\<lambda>decision.
     act_bind (act_ensure (Decision_Allowed decision) (denied env actor ''novelty.lookup'' ''finding'' findingID (Decision_Reason decision))) (\<lambda>_.
     act_bind (allowedWithDetails env actor ''novelty.lookup'' ''finding'' findingID correlation
       (fmap_of_list [(''campaign_id'', campaignID), (''source_name'', sourceName), (''destination_host'', destinationHost)])) (\<lambda>_.
     act_return correlation))))))))"

section \<open>Branch review\<close>

definition recordUntestedRevision :: "Env \<Rightarrow> Principal \<Rightarrow> string \<Rightarrow> string \<Rightarrow> string \<Rightarrow> string \<Rightarrow> (Store, RevisionCheck) act" where
  "recordUntestedRevision env actor campaignID findingID revision0 reason0 =
     act_bind (workflowFinding env actor campaignID findingID ''revision.untested'' [RoleReviewer, RoleAdmin]) (\<lambda>(campaign, scope, finding).
     (let revision = trimSpace revision0; reason = trimSpace reason0 in
     act_bind (act_ensure (Campaign_State campaign = CampaignPrimitiveAssessed \<or> Campaign_State campaign = CampaignBranchChecked)
       (denied env actor ''revision.untested'' ''campaign'' campaignID ''campaign is not awaiting branch review'')) (\<lambda>_.
     act_bind (act_ensure (Finding_Label finding = FindingPrimitiveConfirmed)
       (denied env actor ''revision.untested'' ''finding'' findingID ''primitive-confirmed finding required'')) (\<lambda>_.
     act_bind (act_ensure (containsString (Scope_AllowedRevisions scope) revision \<and> reason \<noteq> [] \<and> length reason \<le> 2048)
       (denied env actor ''revision.untested'' ''finding'' findingID ''authorized revision and bounded explicit reason required'')) (\<lambda>_.
     (let revisionCheck = \<lparr>RevCheck_SchemaVersion = 1, RevCheck_ID = deterministicID env ''revision'' [campaignID, findingID, revision, reason],
            RevCheck_CampaignID = campaignID, RevCheck_FindingID = findingID, RevCheck_Revision = revision, RevCheck_Status = ''untested'',
            RevCheck_Reason = reason, RevCheck_BuildID = [], RevCheck_RunID = [], RevCheck_EvidenceIDs = [],
            RevCheck_CheckedAt = env_now env\<rparr> in
     act_bind (saveRevisionCheck env revisionCheck) (\<lambda>_.
     act_bind (allowedWithDetails env actor ''revision.untested'' ''revision_check'' (RevCheck_ID revisionCheck) []
       (fmap_of_list [(''campaign_id'', campaignID), (''finding_id'', findingID), (''revision'', revision)])) (\<lambda>_.
     act_return revisionCheck))))))))"

text \<open>\<^verbatim>\<open>if updatedCampaign.Version != campaign.Version\<close>: a request that does not move the campaign writes no campaign.\<close>

definition storeMoved :: "Env \<Rightarrow> Campaign \<Rightarrow> Campaign \<Rightarrow> (Store, unit) act" where
  "storeMoved env campaign updated =
     (if Campaign_Version updated \<noteq> Campaign_Version campaign then updateCampaign env updated (Campaign_Version campaign) else act_return ())"

definition completeBranchReview :: "Env \<Rightarrow> Service \<Rightarrow> Principal \<Rightarrow> string \<Rightarrow> string \<Rightarrow> (Store, Finding) act" where
  "completeBranchReview env svc actor campaignID findingID =
     act_bind (workflowFinding env actor campaignID findingID ''branch.complete'' [RoleReviewer, RoleAdmin]) (\<lambda>(campaign, scope, finding).
     act_bind (act_ensure (Campaign_State campaign = CampaignPrimitiveAssessed \<or> Campaign_State campaign = CampaignBranchChecked)
       (denied env actor ''branch.complete'' ''campaign'' campaignID ''campaign is not awaiting branch review'')) (\<lambda>_.
     act_bind (listRevisionChecks campaignID workflowQueryLimit) (\<lambda>allChecks.
     (let (facts, gates) = branchFacts (Scope_AllowedRevisions scope) (filter (\<lambda>c. RevCheck_FindingID c = findingID) allChecks) in
     act_bind (act_ensure (BranchChecksRecorded facts)
       (denied env actor ''branch.complete'' ''finding'' findingID ''every supported revision needs evidence or an explicit untested reason'')) (\<lambda>_.
     act_bind (act_orElse (advance (env_now env) (svc_machine svc) campaign CampaignBranchChecked facts (env_now env))
       (\<lambda>e. denied env actor ''branch.complete'' ''campaign'' campaignID (errText e))) (\<lambda>updated.
     (let finding1 = finding\<lparr>Finding_BranchChecks := gates, Finding_AffectedRevisions := affectedRevisions gates,
            Finding_UpdatedAt := env_now env\<rparr> in
     act_bind (saveFinding env finding1) (\<lambda>_.
     act_bind (storeMoved env campaign updated) (\<lambda>_.
     act_bind (allowedWithDetails env actor ''branch.complete'' ''finding'' findingID []
       (fmap_of_list [(''campaign_id'', campaignID), (''checks'', showInt (int (length gates)))])) (\<lambda>_.
     act_return finding1))))))))))"

section \<open>Novelty review\<close>

definition reviewSourceEvidence :: "Env \<Rightarrow> Principal \<Rightarrow> string \<Rightarrow> SourceReviewRequest \<Rightarrow> (Store, SourceReview) act" where
  "reviewSourceEvidence env actor campaignID request =
     act_bind (workflowFinding env actor campaignID (SRReq_FindingID request) ''source.review'' [RoleReviewer, RoleAdmin]) (\<lambda>_.
     act_bind (getSourceEvidence (trimSpace (SRReq_SourceEvidenceID request))) (\<lambda>evidence.
     (let status = trimSpace (SRReq_Status request); summary = trimSpace (SRReq_Summary request);
          refuse = denied env actor ''source.review'' ''source_evidence'' (SourceEv_ID evidence) in
     act_bind (act_ensure (SourceEv_CampaignID evidence = campaignID \<and> SourceEv_FindingID evidence = SRReq_FindingID request \<and>
         containsString RequiredKinds (SourceEv_Kind evidence))
       (refuse ''lookup evidence does not belong to this required finding check'')) (\<lambda>_.
     act_bind (act_ensure (validReviewStatus status \<and> summary \<noteq> [] \<and> length summary \<le> 4096)
       (refuse ''valid status and bounded review summary required'')) (\<lambda>_.
     act_bind (act_ensure (\<not> ((status = ''match'' \<or> status = ''no_match'') \<and> (SourceEv_ArtifactID evidence = [] \<or> SourceEv_ResponseHash evidence = [])))
       (refuse ''match decisions require captured response bytes'')) (\<lambda>_.
     act_bind (newID env ''review'') (\<lambda>i.
     (let review = \<lparr>Review_SchemaVersion = 1, Review_ID = i, Review_CampaignID = campaignID, Review_FindingID = SRReq_FindingID request,
            Review_SourceEvidenceID = SourceEv_ID evidence, Review_Kind = SourceEv_Kind evidence, Review_Status = status,
            Review_Summary = summary, Review_ReviewedBy = Principal_ID actor, Review_ReviewedAt = env_now env\<rparr> in
     act_bind (saveSourceReview env review) (\<lambda>_.
     act_bind (allowedWithDetails env actor ''source.review'' ''source_review'' i []
       (fmap_of_list [(''campaign_id'', campaignID), (''finding_id'', SRReq_FindingID request), (''status'', status)])) (\<lambda>_.
     act_return review))))))))))"

definition completeNoveltyReview :: "Env \<Rightarrow> Service \<Rightarrow> Principal \<Rightarrow> string \<Rightarrow> string \<Rightarrow> (Store, Finding) act" where
  "completeNoveltyReview env svc actor campaignID findingID =
     act_bind (workflowFinding env actor campaignID findingID ''novelty.complete'' [RoleReviewer, RoleAdmin]) (\<lambda>(campaign, scope, finding).
     act_bind (act_ensure (Campaign_State campaign = CampaignBranchChecked \<or> Campaign_State campaign = CampaignNoveltyReviewed)
       (denied env actor ''novelty.complete'' ''campaign'' campaignID ''branch review must complete first'')) (\<lambda>_.
     act_bind (act_ensure (Finding_BranchChecks finding \<noteq> [])
       (denied env actor ''novelty.complete'' ''finding'' findingID ''durable branch checks required'')) (\<lambda>_.
     act_bind (listSourceEvidence campaignID workflowQueryLimit) (\<lambda>evidence.
     act_bind (listSourceReviews campaignID workflowQueryLimit) (\<lambda>reviews.
     (let decision = evaluate (filter (\<lambda>e. SourceEv_FindingID e = findingID) evidence) (filter (\<lambda>r. Review_FindingID r = findingID) reviews) in
     act_bind (act_ensure (Novelty_Complete decision)
       (denied env actor ''novelty.complete'' ''finding'' findingID ''all required source kinds need retained, reviewed lookup records'')) (\<lambda>_.
     act_bind (act_orElse (advance (env_now env) (svc_machine svc) campaign CampaignNoveltyReviewed (noveltyFacts decision) (env_now env))
       (\<lambda>e. denied env actor ''novelty.complete'' ''campaign'' campaignID (errText e))) (\<lambda>updated.
     (let finding1 = finding\<lparr>Finding_NoveltyChecks := Novelty_Checks decision, Finding_NoveltyStatus := Novelty_Status decision,
            Finding_UpdatedAt := env_now env\<rparr> in
     act_bind (saveFinding env finding1) (\<lambda>_.
     act_bind (storeMoved env campaign updated) (\<lambda>_.
     act_bind (allowedWithDetails env actor ''novelty.complete'' ''finding'' findingID []
       (fmap_of_list [(''campaign_id'', campaignID), (''novelty_status'', Novelty_Status decision)])) (\<lambda>_.
     act_return finding1))))))))))))"

section \<open>Candidate patches\<close>

definition zeroArtifact :: Artifact where
  "zeroArtifact =
     \<lparr>Artifact_SchemaVersion = 0, Artifact_ID = [], Artifact_ContentID = [], Artifact_CampaignID = [], Artifact_RunID = [],
      Artifact_ParentIDs = [], Artifact_Role = [], Artifact_MediaType = [], Artifact_Size = 0, Artifact_Sensitivity = [],
      Artifact_StoragePath = [], Artifact_Encryption = [], Artifact_EncryptionKeyID = [], Artifact_RetainUntil = zeroTime,
      Artifact_PurgedAt = None, Artifact_PurgeApprovalID = [], Artifact_PurgeReason = [], Artifact_BlobDeletedAt = None,
      Artifact_CreatedAt = zeroTime\<rparr>"

definition privateArtifact :: "Env \<Rightarrow> string \<Rightarrow> string list \<Rightarrow> string \<Rightarrow> string \<Rightarrow> Artifact" where
  "privateArtifact env campaignID parents role media =
     zeroArtifact\<lparr>Artifact_SchemaVersion := 1, Artifact_CampaignID := campaignID, Artifact_ParentIDs := parents, Artifact_Role := role,
       Artifact_MediaType := media, Artifact_Sensitivity := ''private_disclosure'', Artifact_CreatedAt := env_now env\<rparr>"

definition createCandidatePatch :: "Env \<Rightarrow> Service \<Rightarrow> Principal \<Rightarrow> string \<Rightarrow> CandidatePatchRequest \<Rightarrow> (Store, Artifact) act" where
  "createCandidatePatch env svc actor campaignID request =
     act_bind (workflowFinding env actor campaignID (PReq_FindingID request) ''patch.create'' [RoleOperator, RoleAdmin]) (\<lambda>(campaign, scope, finding).
     act_bind (act_ensure (Campaign_State campaign = CampaignNoveltyReviewed)
       (denied env actor ''patch.create'' ''campaign'' campaignID ''novelty review must complete before patch creation'')) (\<lambda>_.
     act_bind (act_ensure (containsOperation (Scope_AllowedOperations scope) OperationRegressionTest)
       (denied env actor ''patch.create'' ''campaign'' campaignID ''regression validation is outside authorization scope'')) (\<lambda>_.
     act_bind (getApproval (PReq_ApprovalID request)) (\<lambda>approval.
     act_bind (act_orElse (matchingApproval approval campaignID OperationRegressionTest (''patch:'' @ Finding_ID finding))
       (\<lambda>e. denied env actor ''patch.create'' ''approval'' (Approval_ID approval) (errText e))) (\<lambda>_.
     (let diff = replaceAll (PReq_Diff request) [CHR 0x0D, CHR 0x0A] [CHR 0x0A] in
     act_bind (act_orElse (validateUnifiedDiff diff) (\<lambda>e. denied env actor ''patch.create'' ''finding'' (Finding_ID finding) (errText e))) (\<lambda>_.
     act_bind (putArtifact env (svc_store svc)
       (privateArtifact env campaignID [Finding_ID finding, Approval_ID approval] ''candidate_patch'' ''text/x-diff; charset=utf-8'') diff) (\<lambda>artifact.
     act_bind (allowedWithDetails env actor ''patch.create'' ''artifact'' (Artifact_ID artifact) (Approval_CorrelationID approval)
       (fmap_of_list [(''campaign_id'', campaignID), (''finding_id'', Finding_ID finding)])) (\<lambda>_.
     act_return artifact)))))))))"

section \<open>Remediation\<close>

record RegressionResult =
  Reg_SchemaVersion :: int
  Reg_TargetRevision :: string
  Reg_ValidationKind :: string
  Reg_ExitCode :: int
  Reg_SignalAbsent :: bool

text \<open>
  The decoder: \<open>rj_Decode\<close> is the first \<^verbatim>\<open>Decode\<close> with the bytes it left, \<open>rj_AtEOF\<close> says that
  a second \<^verbatim>\<open>Decode\<close> finds the end of the input.
\<close>

record RegressionJSON =
  rj_Decode :: "string \<Rightarrow> (RegressionResult \<times> string) option"
  rj_AtEOF :: "string \<Rightarrow> bool"

text \<open>The loop over the artifacts of a run: the last regression result wins.\<close>

fun findRegressionResult :: "ExperimentRun \<Rightarrow> Artifact \<Rightarrow> string list \<Rightarrow> (Store, Artifact) act" where
  "findRegressionResult run found [] = act_return found"
| "findRegressionResult run found (i # is) =
     act_bind (getArtifact i) (\<lambda>artifact.
     if Artifact_CampaignID artifact \<noteq> Run_CampaignID run \<or> Artifact_RunID artifact \<noteq> Run_ID run
     then act_fail (Err ''regression artifact identity mismatch'')
     else findRegressionResult run (if Artifact_Role artifact = ''regression_result'' then artifact else found) is)"

definition validateRegressionResult :: "Env \<Rightarrow> Service \<Rightarrow> RegressionJSON \<Rightarrow> ExperimentRun \<Rightarrow> string \<Rightarrow> (Store, unit) act" where
  "validateRegressionResult env svc json run kind =
     act_bind (findRegressionResult run zeroArtifact (Run_ArtifactIDs run)) (\<lambda>resultArtifact.
     if Artifact_ID resultArtifact = [] then act_fail (Err ''structured regression result required'')
     else if Artifact_Size resultArtifact < 0 \<or> Artifact_Size resultArtifact > 2 ^ 20
     then act_fail (Err ''structured regression result exceeds limit'')
     else
       act_bind (openArtifact env (svc_store svc) (Artifact_ID resultArtifact)) (\<lambda>(_, content).
       (case rj_Decode json (take (2 ^ 20 + 1) content) of
          None \<Rightarrow> act_fail (Err ''invalid structured regression result'')
        | Some (result, rest) \<Rightarrow>
            if \<not> rj_AtEOF json rest then act_fail (Err ''trailing structured regression result data'')
            else if Reg_SchemaVersion result \<noteq> 1 \<or> Reg_TargetRevision result \<noteq> strGet (Run_Arguments run) ''revision'' \<or>
                    Reg_ValidationKind result \<noteq> kind \<or> Reg_ExitCode result \<noteq> 0 \<or> \<not> Reg_SignalAbsent result
            then act_fail (Err ''regression result did not demonstrate a clean expected outcome'')
            else act_return ())))"

definition fixRunsDistinct :: "string \<Rightarrow> string \<Rightarrow> ExperimentRun \<Rightarrow> ExperimentRun \<Rightarrow> ExperimentRun \<Rightarrow> bool" where
  "fixRunsDistinct campaignID buildID reproducer regressionRun negative \<longleftrightarrow>
     distinctStrings [Run_ID reproducer, Run_ID regressionRun, Run_ID negative] \<and>
     validFixRun reproducer campaignID buildID ''reproducer'' \<and> validFixRun regressionRun campaignID buildID ''regression'' \<and>
     validFixRun negative campaignID buildID ''negative_control'' \<and>
     Run_InputArtifactID reproducer \<noteq> [] \<and> Run_InputArtifactID regressionRun = [] \<and> Run_InputArtifactID negative \<noteq> [] \<and>
     Run_InputArtifactID reproducer \<noteq> Run_InputArtifactID negative"

definition remediationEvidence :: "Artifact \<Rightarrow> Build \<Rightarrow> ExperimentRun \<Rightarrow> ExperimentRun \<Rightarrow> ExperimentRun \<Rightarrow> string list" where
  "remediationEvidence patch fixBuild reproducer regressionRun negative =
     uniqueStrings ([Artifact_ID patch] @ Build_OutputArtifacts fixBuild @ Build_LogArtifacts fixBuild @ Run_ArtifactIDs reproducer @
       Run_ArtifactIDs regressionRun @ Run_ArtifactIDs negative)"

text \<open>The checks of \<^verbatim>\<open>ValidateRemediation\<close> on the patch, the approval, the fix build and the three runs.\<close>

definition fixRecords :: "Env \<Rightarrow> Service \<Rightarrow> RegressionJSON \<Rightarrow> Principal \<Rightarrow> string \<Rightarrow> Campaign \<Rightarrow> Finding \<Rightarrow> RemediationRequest \<Rightarrow>
    (Store, Artifact \<times> Approval \<times> Build \<times> ExperimentRun \<times> ExperimentRun \<times> ExperimentRun) act" where
  "fixRecords env svc json actor campaignID campaign finding request =
     act_bind (getArtifact (RReq_PatchArtifactID request)) (\<lambda>patch.
     act_bind (act_ensure (Artifact_CampaignID patch = campaignID \<and> Artifact_Role patch = ''candidate_patch'')
       (denied env actor ''remediation.validate'' ''artifact'' (Artifact_ID patch) ''campaign-owned candidate patch artifact required'')) (\<lambda>_.
     act_bind (getApproval (RReq_ApprovalID request)) (\<lambda>approval.
     act_bind (act_orElse (matchingApproval approval campaignID OperationRegressionTest (''patch:'' @ Finding_ID finding))
       (\<lambda>e. denied env actor ''remediation.validate'' ''approval'' (Approval_ID approval) (errText e))) (\<lambda>_.
     act_bind (getBuild (RReq_FixBuildID request)) (\<lambda>fixBuild.
     act_bind (act_ensure (Build_TargetID fixBuild = Campaign_TargetID campaign \<and> strGet (Build_Provenance fixBuild) ''patch_artifact_id'' = Artifact_ID patch)
       (denied env actor ''remediation.validate'' ''build'' (Build_ID fixBuild) ''fix build is not linked to the primary target and candidate patch'')) (\<lambda>_.
     act_bind (getRun (RReq_ReproducerRunID request)) (\<lambda>reproducer.
     act_bind (getRun (RReq_RegressionRunID request)) (\<lambda>regressionRun.
     act_bind (getRun (RReq_NegativeControlRunID request)) (\<lambda>negative.
     act_bind (act_ensure (fixRunsDistinct campaignID (Build_ID fixBuild) reproducer regressionRun negative)
       (denied env actor ''remediation.validate'' ''finding'' (Finding_ID finding) ''three distinct fix-build regression runs and a distinct negative-control input required'')) (\<lambda>_.
     act_bind (act_each (\<lambda>(run, kind). act_catch (validateRegressionResult env svc json run kind)
         (\<lambda>e. denied env actor ''remediation.validate'' ''run'' (Run_ID run) (errText e)))
       [(reproducer, ''reproducer''), (regressionRun, ''regression''), (negative, ''negative_control'')]) (\<lambda>_.
     act_return (patch, approval, fixBuild, reproducer, regressionRun, negative))))))))))))"

definition validateRemediation :: "Env \<Rightarrow> Service \<Rightarrow> RegressionJSON \<Rightarrow> Principal \<Rightarrow> string \<Rightarrow> RemediationRequest \<Rightarrow> (Store, RemediationValidation) act" where
  "validateRemediation env svc json actor campaignID request =
     act_bind (workflowFinding env actor campaignID (RReq_FindingID request) ''remediation.validate'' [RoleOperator, RoleReviewer, RoleAdmin]) (\<lambda>(campaign, scope, finding).
     act_bind (act_ensure (Campaign_State campaign = CampaignNoveltyReviewed \<or> Campaign_State campaign = CampaignRemediated)
       (denied env actor ''remediation.validate'' ''campaign'' campaignID ''novelty review must complete first'')) (\<lambda>_.
     act_bind (act_ensure (containsOperation (Scope_AllowedOperations scope) OperationRegressionTest)
       (denied env actor ''remediation.validate'' ''campaign'' campaignID ''regression validation is outside authorization scope'')) (\<lambda>_.
     act_bind (fixRecords env svc json actor campaignID campaign finding request) (\<lambda>(patch, approval, fixBuild, reproducer, regressionRun, negative).
     act_bind (getCrashGroup (Finding_CrashGroupID finding)) (\<lambda>crashGroup.
     act_bind (act_ensure (Run_InputArtifactID reproducer = Group_MinimizedArtifactID crashGroup \<or> Run_InputArtifactID reproducer = Group_CanonicalInputID crashGroup)
       (denied env actor ''remediation.validate'' ''run'' (Run_ID reproducer) ''reproducer does not use the canonical or minimized crashing input'')) (\<lambda>_.
     act_bind (listCrashes campaignID workflowQueryLimit) (\<lambda>observations.
     (let seen = list_ex (\<lambda>c. Crash_RunID c = Run_ID reproducer \<and> Crash_Signature c = Group_Signature crashGroup) observations;
          evidenceIDs = remediationEvidence patch fixBuild reproducer regressionRun negative in
     act_bind (act_each (\<lambda>i. act_bind (act_catch (getArtifact i)
           (\<lambda>e. denied env actor ''remediation.validate'' ''artifact'' i ''all remediation evidence must be retained in this campaign'')) (\<lambda>artifact.
         act_ensure (Artifact_CampaignID artifact = campaignID)
           (denied env actor ''remediation.validate'' ''artifact'' i ''all remediation evidence must be retained in this campaign''))) evidenceIDs) (\<lambda>_.
     act_bind (act_orElse (remediationValidate (env_now env)
         \<lparr>In_ID = deterministicID env ''remediation'' [campaignID, Finding_ID finding, Artifact_ID patch, Build_ID fixBuild, Run_ID reproducer,
            Run_ID regressionRun, Run_ID negative],
          In_CampaignID = campaignID, In_FindingID = Finding_ID finding, In_PatchArtifactID = Artifact_ID patch, In_Approval = approval,
          In_FixBuild = fixBuild, In_ReproducerRun = reproducer, In_RegressionRun = regressionRun, In_NegativeControlRun = negative,
          In_OriginalSignatureSeen = seen, In_EvidenceIDs = evidenceIDs, In_Now = env_now env\<rparr>)
       (\<lambda>e. denied env actor ''remediation.validate'' ''finding'' (Finding_ID finding) (errText e))) (\<lambda>(validation, facts).
     act_bind (act_orElse (advance (env_now env) (svc_machine svc) campaign CampaignRemediated facts (env_now env))
       (\<lambda>e. denied env actor ''remediation.validate'' ''campaign'' campaignID (errText e))) (\<lambda>updated.
     act_bind (saveRemediation env validation) (\<lambda>_.
     act_bind (saveFinding env (finding\<lparr>Finding_FixArtifactID := Artifact_ID patch, Finding_RegressionRunID := Run_ID regressionRun,
         Finding_UpdatedAt := env_now env\<rparr>)) (\<lambda>_.
     act_bind (storeMoved env campaign updated) (\<lambda>_.
     act_bind (allowedWithDetails env actor ''remediation.validate'' ''remediation_validation'' (Remed_ID validation) (Approval_CorrelationID approval)
       (fmap_of_list [(''campaign_id'', campaignID), (''finding_id'', Finding_ID finding)])) (\<lambda>_.
     act_return validation)))))))))))))))"

section \<open>Report and disclosure\<close>

definition createPrivateReport :: "Env \<Rightarrow> Service \<Rightarrow> Principal \<Rightarrow> string \<Rightarrow> ReportDraftRequest \<Rightarrow> (Store, Artifact) act" where
  "createPrivateReport env svc actor campaignID request =
     act_bind (workflowFinding env actor campaignID (DReq_FindingID request) ''report.create'' [RoleReviewer, RoleAdmin]) (\<lambda>(campaign, scope, finding).
     act_bind (act_ensure (Campaign_State campaign = CampaignRemediated \<or> Campaign_State campaign = CampaignReportReady)
       (denied env actor ''report.create'' ''campaign'' campaignID ''validated remediation required before reporting'')) (\<lambda>_.
     act_bind (act_ensure (containsOperation (Scope_AllowedOperations scope) OperationDraftReport)
       (denied env actor ''report.create'' ''campaign'' campaignID ''report drafting is outside authorization scope'')) (\<lambda>_.
     act_bind (getApproval (DReq_ApprovalID request)) (\<lambda>approval.
     act_bind (act_orElse (matchingApproval approval campaignID OperationDraftReport (''report:'' @ Finding_ID finding))
       (\<lambda>e. denied env actor ''report.create'' ''approval'' (Approval_ID approval) (errText e))) (\<lambda>_.
     if Finding_ReportArtifactID finding \<noteq> [] then getArtifact (Finding_ReportArtifactID finding)
     else
     act_bind (getCrashGroup (Finding_CrashGroupID finding)) (\<lambda>crashGroup.
     act_bind (getPrimitive (Finding_PrimitiveID finding)) (\<lambda>primitive.
     act_bind (getTarget (Campaign_TargetID campaign)) (\<lambda>target.
     (let facts = noFacts\<lparr>BranchChecksRecorded := Finding_BranchChecks finding \<noteq> [], NoveltyChecksRecorded := Finding_NoveltyChecks finding \<noteq> [],
            HumanReviewApprovalID := Approval_ID approval\<rparr> in
     act_bind (act_orElse (promoteFinding (env_now env) (svc_machine svc) finding FindingCandidateVulnerability facts (env_now env))
       (\<lambda>e. denied env actor ''report.create'' ''finding'' (Finding_ID finding) (errText e))) (\<lambda>promoted.
     act_bind (listArtifacts campaignID workflowQueryLimit) (\<lambda>artifacts.
     act_bind (act_lift (renderPrivateDraft
       \<lparr>Draft_Campaign = campaign, Draft_Target = target, Draft_Finding = promoted, Draft_Group = crashGroup, Draft_Primitive = primitive,
        Draft_Artifacts = relevantArtifacts artifacts finding crashGroup primitive, Draft_Reviewer = approval,
        Draft_NoveltyStatus = Finding_NoveltyStatus finding\<rparr>)) (\<lambda>markdown.
     act_bind (putArtifact env (svc_store svc)
       (privateArtifact env campaignID (uniqueStrings ([Finding_ID finding, Approval_ID approval] @ Finding_EvidenceIDs finding)) ''private_report''
          ''text/markdown; charset=utf-8'') markdown) (\<lambda>reportArtifact.
     act_bind (saveFinding env (promoted\<lparr>Finding_ReportArtifactID := Artifact_ID reportArtifact, Finding_HumanReviewApproval := Approval_ID approval,
         Finding_UpdatedAt := env_now env\<rparr>)) (\<lambda>_.
     act_bind (act_lift (advance (env_now env) (svc_machine svc) campaign CampaignReportReady facts (env_now env))) (\<lambda>updated.
     act_bind (storeMoved env campaign updated) (\<lambda>_.
     act_bind (allowedWithDetails env actor ''report.create'' ''artifact'' (Artifact_ID reportArtifact) (Approval_CorrelationID approval)
       (fmap_of_list [(''campaign_id'', campaignID), (''finding_id'', Finding_ID finding)])) (\<lambda>_.
     act_return reportArtifact)))))))))))))))))"

definition recordDisclosure :: "Env \<Rightarrow> Service \<Rightarrow> Principal \<Rightarrow> string \<Rightarrow> DisclosureRecordRequest \<Rightarrow> (Store, Finding) act" where
  "recordDisclosure env svc actor campaignID request =
     act_bind (workflowFinding env actor campaignID (LReq_FindingID request) ''disclosure.record'' [RoleReviewer, RoleAdmin]) (\<lambda>(campaign, scope, finding).
     (let reference = trimSpace (LReq_Reference request) in
     act_bind (act_ensure (Campaign_State campaign = CampaignReportReady \<and> Finding_ReportArtifactID finding \<noteq> [] \<and> reference \<noteq> [] \<and> length reference \<le> 2048)
       (denied env actor ''disclosure.record'' ''finding'' (Finding_ID finding) ''report-ready finding and bounded human disclosure reference required'')) (\<lambda>_.
     act_bind (getApproval (LReq_ApprovalID request)) (\<lambda>approval.
     act_bind (act_orElse (matchingApproval approval campaignID OperationDisclose (''disclosure:'' @ Finding_ID finding))
       (\<lambda>e. denied env actor ''disclosure.record'' ''approval'' (Approval_ID approval) (errText e))) (\<lambda>_.
     act_bind (getTarget (Campaign_TargetID campaign)) (\<lambda>target.
     act_bind (authorizeAction env campaignID
       (lookupAction actor OperationDisclose (Scope_TargetRepository scope) (Target_Commit target) [] (Approval_ID approval)) (Approval_CorrelationID approval)) (\<lambda>decision.
     act_bind (act_ensure (Decision_Allowed decision)
       (denied env actor ''disclosure.record'' ''finding'' (Finding_ID finding) (Decision_Reason decision))) (\<lambda>_.
     act_bind (act_orElse (advance (env_now env) (svc_machine svc) campaign CampaignDisclosed
         (noFacts\<lparr>DisclosureApprovalID := Approval_ID approval, HumanPerformedDisclosure := True\<rparr>) (env_now env))
       (\<lambda>e. denied env actor ''disclosure.record'' ''campaign'' campaignID (errText e))) (\<lambda>updated.
     (let finding1 = finding\<lparr>Finding_DisclosureApproval := Approval_ID approval, Finding_DisclosureStatus := ''disclosed'',
            Finding_DisclosureReference := reference, Finding_DisclosedAt := Some (env_now env), Finding_UpdatedAt := env_now env\<rparr> in
     act_bind (saveFinding env finding1) (\<lambda>_.
     act_bind (updateCampaign env updated (Campaign_Version campaign)) (\<lambda>_.
     act_bind (allowedWithDetails env actor ''disclosure.record'' ''finding'' (Finding_ID finding) (Approval_CorrelationID approval)
       (fmap_of_list [(''campaign_id'', campaignID), (''reference'', reference)])) (\<lambda>_.
     act_return finding1)))))))))))))"

end
