(* ===== verification/Go_Match.thy ===== *)
theory Go_Match
  imports Go_Path
begin

text \<open>
  Go's \<^verbatim>\<open>filepath.Match\<close> on a system with separator \<^verbatim>\<open>/\<close>, as the standard library implements it:
  the pattern is scanned in chunks between stars, a chunk is matched at one position, and a star
  tries the positions up to the next separator. \<open>None\<close> stands for \<^verbatim>\<open>ErrBadPattern\<close>.
\<close>

section \<open>Runes\<close>

definition byteVal :: "char \<Rightarrow> int" where
  "byteVal c = int (of_char c)"

definition contByte :: "char \<Rightarrow> bool" where
  "contByte c \<longleftrightarrow> 0x80 \<le> byteVal c \<and> byteVal c \<le> 0xBF"

definition runeError :: int where
  "runeError = 0xFFFD"

text \<open>
  \<^verbatim>\<open>utf8.DecodeRuneInString\<close>: the rune and the number of bytes; overlong forms, surrogates and
  truncated sequences are \<^verbatim>\<open>RuneError\<close> of width one.
\<close>

definition decodeRune :: "string \<Rightarrow> int \<times> nat" where
  "decodeRune s =
     (case s of
        [] \<Rightarrow> (runeError, 0)
      | b0 # r \<Rightarrow>
          (let c0 = byteVal b0 in
           if c0 < 0x80 then (c0, 1)
           else if 0xC2 \<le> c0 \<and> c0 \<le> 0xDF then
             (case r of b1 # _ \<Rightarrow> if contByte b1 then ((c0 - 0xC0) * 64 + (byteVal b1 - 0x80), 2) else (runeError, 1) | _ \<Rightarrow> (runeError, 1))
           else if 0xE0 \<le> c0 \<and> c0 \<le> 0xEF then
             (case r of b1 # b2 # _ \<Rightarrow>
                if contByte b1 \<and> contByte b2 \<and> (c0 = 0xE0 \<longrightarrow> 0xA0 \<le> byteVal b1) \<and> (c0 = 0xED \<longrightarrow> byteVal b1 \<le> 0x9F)
                then ((c0 - 0xE0) * 4096 + (byteVal b1 - 0x80) * 64 + (byteVal b2 - 0x80), 3) else (runeError, 1)
              | _ \<Rightarrow> (runeError, 1))
           else if 0xF0 \<le> c0 \<and> c0 \<le> 0xF4 then
             (case r of b1 # b2 # b3 # _ \<Rightarrow>
                if contByte b1 \<and> contByte b2 \<and> contByte b3 \<and> (c0 = 0xF0 \<longrightarrow> 0x90 \<le> byteVal b1) \<and> (c0 = 0xF4 \<longrightarrow> byteVal b1 \<le> 0x8F)
                then ((c0 - 0xF0) * 262144 + (byteVal b1 - 0x80) * 4096 + (byteVal b2 - 0x80) * 64 + (byteVal b3 - 0x80), 4) else (runeError, 1)
              | _ \<Rightarrow> (runeError, 1))
           else (runeError, 1)))"

lemma decodeRune_width: "s \<noteq> [] \<Longrightarrow> 0 < snd (decodeRune s)"
  by (cases s) (simp_all add: decodeRune_def Let_def split: list.splits)

section \<open>Chunks\<close>

text \<open>\<^verbatim>\<open>scanChunk\<close>: whether the chunk follows a star, the chunk, and the rest of the pattern.\<close>

fun scanBody :: "bool \<Rightarrow> string \<Rightarrow> string \<times> string" where
  "scanBody inrange [] = ([], [])"
| "scanBody inrange (c # cs) =
     (if c = CHR 0x5C then
        (case cs of
           [] \<Rightarrow> ([c], [])
         | d # ds \<Rightarrow> map_prod (\<lambda>chunk. c # d # chunk) id (scanBody inrange ds))
      else if c = CHR ''['' then map_prod ((#) c) id (scanBody True cs)
      else if c = CHR '']'' then map_prod ((#) c) id (scanBody False cs)
      else if c = CHR ''*'' \<and> \<not> inrange then ([], c # cs)
      else map_prod ((#) c) id (scanBody inrange cs))"

definition scanChunk :: "string \<Rightarrow> bool \<times> string \<times> string" where
  "scanChunk pattern =
     (let body = dropWhile (\<lambda>c. c = CHR ''*'') pattern;
          (chunk, rest) = scanBody False body
      in (hasPrefix pattern ''*'', chunk, rest))"

lemma scanBody_length: "length (snd (scanBody b s)) \<le> length s"
proof (induction b s rule: scanBody.induct)
  case (2 b c cs)
  show ?case
  proof (cases "c = CHR 0x5C")
    case True
    with 2 show ?thesis by (cases cs) (simp_all add: le_SucI)
  next
    case False
    with 2 show ?thesis by (cases "c = CHR ''[''"; cases "c = CHR '']''"; cases "c = CHR ''*'' \<and> \<not> b") (simp_all add: le_SucI)
  qed
qed simp

lemma scanBody_shorter:
  assumes "c \<noteq> CHR ''*''"
  shows "length (snd (scanBody False (c # cs))) < length (c # cs)"
proof (cases "c = CHR 0x5C")
  case True
  then show ?thesis by (cases cs) (simp_all add: less_Suc_eq_le scanBody_length le_SucI)
next
  case False
  with assms show ?thesis
    by (cases "c = CHR ''[''"; cases "c = CHR '']''") (simp_all add: less_Suc_eq_le scanBody_length)
qed

lemma dropWhile_head: "dropWhile (\<lambda>c. c = a) xs = c # cs \<Longrightarrow> c \<noteq> a"
  by (auto simp: dropWhile_eq_Cons_conv)

lemma scanChunk_shorter:
  assumes "pattern \<noteq> []" "scanChunk pattern = (star, chunk, rest)"
  shows "length rest < length pattern"
proof -
  let ?body = "dropWhile (\<lambda>c. c = CHR ''*'') pattern"
  from assms(2) have rest: "rest = snd (scanBody False ?body)"
    by (simp add: scanChunk_def case_prod_beta)
  show ?thesis
  proof (cases ?body)
    case Nil
    with rest assms(1) show ?thesis by simp
  next
    case (Cons c cs)
    have "length rest < length ?body"
      unfolding rest Cons by (rule scanBody_shorter) (rule dropWhile_head [OF Cons])
    then show ?thesis by (rule less_le_trans) (rule length_dropWhile_le)
  qed
qed

section \<open>Character classes\<close>

text \<open>\<^verbatim>\<open>getEsc\<close>: one possibly escaped rune of a class; the pattern must go on after it.\<close>

definition getEsc :: "string \<Rightarrow> (int \<times> string) option" where
  "getEsc chunk =
     (case chunk of
        [] \<Rightarrow> None
      | c # cs \<Rightarrow>
          if c = CHR ''-'' \<or> c = CHR '']'' then None
          else
            (let body = (if c = CHR 0x5C then cs else chunk) in
             if body = [] then None
             else
               (let (r, n) = decodeRune body; rest = drop n body in
                if r = runeError \<and> n = 1 then None
                else if rest = [] then None
                else Some (r, rest))))"

lemma getEsc_shorter:
  assumes "getEsc chunk = Some (r, rest)"
  shows "length rest < length chunk"
proof -
  define body where "body = (if hd chunk = CHR 0x5C then tl chunk else chunk)"
  from assms have "body \<noteq> []" and rest: "rest = drop (snd (decodeRune body)) body" and "length body \<le> length chunk"
    unfolding getEsc_def body_def Let_def case_prod_beta by (cases chunk; simp split: if_splits)+
  then have "length rest < length body" using decodeRune_width [of body] by (cases body) simp_all
  with \<open>length body \<le> length chunk\<close> show ?thesis by simp
qed

text \<open>The ranges of a class up to its bracket: whether \<open>r\<close> is in one, and the pattern after it.\<close>

function classRanges :: "int \<Rightarrow> bool \<Rightarrow> nat \<Rightarrow> string \<Rightarrow> (bool \<times> string) option" where
  "classRanges r hit n chunk =
     (if hasPrefix chunk '']'' \<and> 0 < n then Some (hit, tl chunk)
      else
        (case getEsc chunk of
           None \<Rightarrow> None
         | Some (lo, rest) \<Rightarrow>
             if hasPrefix rest ''-'' then
               (case getEsc (tl rest) of
                  None \<Rightarrow> None
                | Some (hi, rest') \<Rightarrow> classRanges r (hit \<or> (lo \<le> r \<and> r \<le> hi)) (Suc n) rest')
             else classRanges r (hit \<or> r = lo) (Suc n) rest))"
  by pat_completeness auto
termination
  by (relation "measure (\<lambda>(r, hit, n, chunk). length chunk)")
    (auto dest!: getEsc_shorter simp: hasPrefix_iff)

lemma classRanges_shorter: "classRanges r hit n chunk = Some (b, rest) \<Longrightarrow> length rest < length chunk"
proof (induction r hit n chunk rule: classRanges.induct)
  case (1 r hit n chunk)
  show ?case
  proof (cases "hasPrefix chunk '']'' \<and> 0 < n")
    case True
    with 1(3) show ?thesis by (auto simp: classRanges.simps [of r hit n chunk] hasPrefix_iff)
  next
    case False
    then obtain lo r1 where lo: "getEsc chunk = Some (lo, r1)"
      using 1(3) by (cases "getEsc chunk") (auto simp: classRanges.simps [of r hit n chunk])
    then have "length r1 < length chunk" by (rule getEsc_shorter)
    show ?thesis
    proof (cases "hasPrefix r1 ''-''")
      case True
      with 1(3) False lo obtain hi r2 where hi: "getEsc (tl r1) = Some (hi, r2)"
        by (cases "getEsc (tl r1)") (auto simp: classRanges.simps [of r hit n chunk])
      then have "length r2 < length chunk" using getEsc_shorter [OF hi] \<open>length r1 < length chunk\<close> by simp
      moreover have "length rest < length r2"
        using 1(1) [OF False lo refl True hi refl] 1(3) False lo True hi by (simp add: classRanges.simps [of r hit n chunk])
      ultimately show ?thesis by simp
    next
      case no_range: False
      have "length rest < length r1"
        using 1(2) [OF False lo refl no_range] 1(3) False lo no_range by (simp add: classRanges.simps [of r hit n chunk])
      with \<open>length r1 < length chunk\<close> show ?thesis by simp
    qed
  qed
qed

declare classRanges.simps [simp del]

section \<open>Matching\<close>

text \<open>
  \<^verbatim>\<open>matchChunk\<close>: \<open>Some None\<close> when the chunk does not match, \<open>Some (Some t)\<close> with what is left of
  the name when it does. After a mismatch the rest of the chunk is only checked for syntax.
\<close>

function chunkLoop :: "bool \<Rightarrow> string \<Rightarrow> string \<Rightarrow> string option option" where
  "chunkLoop failed0 s [] = Some (if failed0 then None else Some s)"
| "chunkLoop failed0 s (c # cs) =
     (let failed = (failed0 \<or> s = []) in
      if c = CHR ''['' then
        (let (r, n) = (if failed then (0, 0) else decodeRune s);
             negated = hasPrefix cs ''^'' in
         case classRanges r False 0 (if negated then tl cs else cs) of
           None \<Rightarrow> None
         | Some (hit, rest) \<Rightarrow> chunkLoop (failed \<or> hit = negated) (drop n s) rest)
      else if c = CHR ''?'' then
        (if failed then chunkLoop True s cs else chunkLoop (hd s = slash) (drop (snd (decodeRune s)) s) cs)
      else if c = CHR 0x5C then
        (case cs of
           [] \<Rightarrow> None
         | d # ds \<Rightarrow> if failed then chunkLoop True s ds else chunkLoop (d \<noteq> hd s) (tl s) ds)
      else if failed then chunkLoop True s cs
      else chunkLoop (c \<noteq> hd s) (tl s) cs)"
  by pat_completeness auto
termination
proof (relation "measure (\<lambda>(failed, s, chunk). length chunk)", goal_cases)
  case (2 failed0 s c cs)
  then show ?case
    using classRanges_shorter [of _ False 0 "if hasPrefix cs ''^'' then tl cs else cs"] by (auto split: if_splits) fastforce+
qed auto

definition matchChunk :: "string \<Rightarrow> string \<Rightarrow> string option option" where
  "matchChunk chunk s = chunkLoop False s chunk"

text \<open>The positions a star may skip to; \<open>final\<close> says that the pattern ends with this chunk.\<close>

fun starLoop :: "string \<Rightarrow> bool \<Rightarrow> string \<Rightarrow> string option option" where
  "starLoop chunk final [] = Some None"
| "starLoop chunk final (c # cs) =
     (if c = slash then Some None
      else
        (case matchChunk chunk cs of
           None \<Rightarrow> None
         | Some None \<Rightarrow> starLoop chunk final cs
         | Some (Some t) \<Rightarrow> if final \<and> t \<noteq> [] then starLoop chunk final cs else Some (Some t)))"

function restValid :: "string \<Rightarrow> bool" where
  "restValid pattern =
     (if pattern = [] then True
      else (case scanChunk pattern of (star, chunk, rest) \<Rightarrow> matchChunk chunk [] \<noteq> None \<and> restValid rest))"
  by pat_completeness auto
termination
  by (relation "measure length") (auto dest: scanChunk_shorter [OF _ sym])

function pathMatch :: "string \<Rightarrow> string \<Rightarrow> bool option" where
  "pathMatch pattern name =
     (if pattern = [] then Some (name = [])
      else
        (case scanChunk pattern of
           (star, chunk, rest) \<Rightarrow>
             if star \<and> chunk = [] then Some (slash \<notin> set name)
             else
               (case matchChunk chunk name of
                  None \<Rightarrow> None
                | Some first \<Rightarrow>
                    (case (case first of Some t \<Rightarrow> if t = [] \<or> rest \<noteq> [] then Some t else None | None \<Rightarrow> None) of
                       Some t \<Rightarrow> pathMatch rest t
                     | None \<Rightarrow>
                         (case (if star then starLoop chunk (rest = []) name else Some None) of
                            None \<Rightarrow> None
                          | Some (Some t) \<Rightarrow> pathMatch rest t
                          | Some None \<Rightarrow> if restValid rest then Some False else None)))))"
  by pat_completeness auto
termination
  by (relation "measure (\<lambda>(pattern, name). length pattern)") (auto dest: scanChunk_shorter [OF _ sym])

declare restValid.simps [simp del] pathMatch.simps [simp del]

section \<open>Literal patterns\<close>

definition literal :: "string \<Rightarrow> bool" where
  "literal p \<longleftrightarrow> set p \<inter> {CHR ''*'', CHR ''?'', CHR ''['', CHR '']'', CHR 0x5C} = {}"

lemma literal_Cons: "literal (c # p) \<longleftrightarrow> c \<notin> {CHR ''*'', CHR ''?'', CHR ''['', CHR '']'', CHR 0x5C} \<and> literal p"
  unfolding literal_def by auto

lemma scanBody_literal: "literal p \<Longrightarrow> r = [] \<or> hd r = CHR ''*'' \<Longrightarrow> scanBody False (p @ r) = (p, r)"
proof (induction p)
  case Nil
  then show ?case by (cases r) simp_all
next
  case (Cons c p)
  then have c: "c \<noteq> CHR 0x5C" "c \<noteq> CHR ''[''" "c \<noteq> CHR '']''" "c \<noteq> CHR ''*''" and "literal p"
    by (simp_all add: literal_Cons)
  then have "scanBody False (p @ r) = (p, r)" using Cons by blast
  with c show ?case by simp
qed

lemma scanChunk_literal:
  assumes "literal p" "p \<noteq> []" "r = [] \<or> hd r = CHR ''*''"
  shows "scanChunk (p @ r) = (False, p, r)"
proof -
  obtain c q where p: "p = c # q" using assms(2) by (cases p) simp_all
  with assms(1) have "c \<noteq> CHR ''*''" by (simp add: literal_Cons)
  with p have "dropWhile (\<lambda>c. c = CHR ''*'') (p @ r) = p @ r" "\<not> hasPrefix (p @ r) ''*''"
    by (simp_all add: hasPrefix_def)
  with scanBody_literal [OF assms(1,3)] show ?thesis by (simp add: scanChunk_def)
qed

lemma chunkLoop_failed: "literal p \<Longrightarrow> chunkLoop True s p = Some None"
  by (induction p) (simp_all add: literal_Cons)

lemma matchChunk_literal:
  "literal p \<Longrightarrow> matchChunk p s = Some (if hasPrefix s p then Some (drop (length p) s) else None)"
  unfolding matchChunk_def
proof (induction p arbitrary: s)
  case (Cons c p)
  then have c: "c \<noteq> CHR 0x5C" "c \<noteq> CHR ''[''" "c \<noteq> CHR ''?''" and "literal p" by (simp_all add: literal_Cons)
  then show ?case using Cons.IH [of "tl s"] chunkLoop_failed [of p]
    by (cases s; cases "c = hd s") (simp_all add: hasPrefix_def)
qed (simp add: hasPrefix_def)

text \<open>What a literal pattern, and a literal pattern with a final star, match.\<close>

lemma pathMatch_literal:
  assumes "literal p"
  shows "pathMatch p name = Some (name = p)"
proof (cases "p = []")
  case False
  then show ?thesis
    using scanChunk_literal [OF assms False, of "[]"] matchChunk_literal [OF assms]
    by (auto simp: pathMatch.simps [of p] pathMatch.simps [of "[]"] restValid.simps hasPrefix_iff)
qed (simp add: pathMatch.simps)

lemma pathMatch_prefix:
  assumes "literal p" "p \<noteq> []"
  shows "pathMatch (p @ ''*'') name = Some (\<exists>t. name = p @ t \<and> slash \<notin> set t)"
proof -
  have star: "scanChunk ''*'' = (True, [], [])" by (simp add: scanChunk_def hasPrefix_def)
  have rest: "restValid ''*''"
    using star by (simp add: restValid.simps [of "''*''"] restValid.simps [of "[]"] matchChunk_def)
  have "pathMatch ''*'' t = Some (slash \<notin> set t)" for t
    using star by (simp add: pathMatch.simps)
  then show ?thesis
    using scanChunk_literal [OF assms, of "''*''"] matchChunk_literal [OF assms(1), of name] rest
    by (cases "hasPrefix name p") (auto simp: pathMatch.simps [of "p @ ''*''"] hasPrefix_iff)
qed

end
