(* ===== verification/Runner.thy ===== *)
theory Runner
  imports Service Go_Match
begin

text \<open>
  \<^verbatim>\<open>internal/research/runner\<close>: the job queue (\<^verbatim>\<open>runner.go\<close>), the collection of worker output
  (\<^verbatim>\<open>collector.go\<close>) and the writable-footprint monitor (\<^verbatim>\<open>quota.go\<close>). The container backend is not
  modelled: what one execution produced is an \<open>Outcome\<close>, an argument of the steps. The broker is
  a machine of worker goroutines, submitters and cancellers that interleave between calls of the
  journal and sections under the mutex. Contexts cancelled by the caller and \<^verbatim>\<open>Close\<close> are not modelled.
\<close>

section \<open>Jobs\<close>

record Assurance =
  As_Backend :: string
  As_Isolation :: string
  As_Runtime :: string
  As_Rootless :: bool
  As_Seccomp :: string
  As_CgroupVersion :: int

record Execution =
  Exec_Status :: RunStatus
  Exec_Exit :: RunExit
  Exec_Usage :: ResourceUsage
  Exec_Stdout :: string
  Exec_Stderr :: string
  Exec_StdoutTruncated :: bool
  Exec_StderrTruncated :: bool
  Exec_BytesDropped :: int
  Exec_Apparatus :: ApparatusIdentity

definition terminalRun :: "RunStatus \<Rightarrow> bool" where
  "terminalRun st \<longleftrightarrow> st = RunCompleted \<or> st = RunFailed \<or> st = RunCancelled \<or> st = RunTimedOut"

definition noOutput :: CapturedOutput where
  "noOutput = \<lparr>Output_StdoutArtifactID = [], Output_StderrArtifactID = [], Output_StdoutTruncated = False,
     Output_StderrTruncated = False, Output_BytesDropped = 0\<rparr>"

definition noIdentity :: ApparatusIdentity where
  "noIdentity = \<lparr>Identity_ManifestID = [], Identity_ImageDigest = [], Identity_TargetRevision = [], Identity_Harness = [],
     Identity_Sanitizer = [], Identity_Runtime = []\<rparr>"

definition resultFromRun :: "ExperimentRun \<Rightarrow> RunResult" where
  "resultFromRun run =
     \<lparr>Result_SchemaVersion = 1, Result_RunID = Run_ID run, Result_Operation = Run_Operation run, Result_Status = Run_Status run,
      Result_Exit = Run_Exit run, Result_Output = noOutput, Result_ArtifactIDs = Run_ArtifactIDs run, Result_ResourceUsage = Run_Usage run,
      Result_Apparatus = noIdentity, Result_IsolationAssurance = Run_IsolationAssurance run, Result_AuditCorrelationID = Run_AuditCorrelationID run\<rparr>"

definition isDirectory :: "Env \<Rightarrow> string \<Rightarrow> bool" where
  "isDirectory env p = (case host_links (env_host env) p of None \<Rightarrow> False | Some real \<Rightarrow> env_isDir env real)"

definition invalidJob :: "string \<Rightarrow> 'a result" where
  "invalidJob m = Inl (Err (''research runner: invalid job: '' @ m))"

fun jobMountLoop :: "Env \<Rightarrow> string list \<Rightarrow> string list \<Rightarrow> JobMount list \<Rightarrow> unit result" where
  "jobMountLoop env names containers [] = Inr ()"
| "jobMountLoop env names containers (m # ms) =
     (if Mount_Name m = [] \<or> Mount_Name m \<in> set names \<or> Mount_ContainerPath m \<in> set containers
      then invalidJob ''duplicate or empty mount''
      else if \<not> isAbs (Mount_HostPath m) \<or> \<not> isAbs (Mount_ContainerPath m) \<or> Mount_ContainerPath m = ''/'' \<or>
              strContains (Mount_HostPath m) '','' \<or> strContains (Mount_ContainerPath m) '',''
      then invalidJob ''mounts require absolute non-root paths''
      else if \<not> isDirectory env (Mount_HostPath m) then invalidJob ''mount source must be an existing directory''
      else if Mount_Name m \<noteq> ''corpus'' \<and> \<not> Mount_ReadOnly m then invalidJob ''only corpus mounts may be writable''
      else jobMountLoop env (Mount_Name m # names) (Mount_ContainerPath m # containers) ms)"

fun jobRuleLoop :: "ArtifactRule list \<Rightarrow> unit result" where
  "jobRuleLoop [] = Inr ()"
| "jobRuleLoop (r # rs) =
     (if Rule_Role r = [] \<or> Rule_MediaType r = [] \<or> Rule_Glob r = [] \<or> Rule_MaxCount r \<le> 0 \<or> Rule_MaxBytes r \<le> 0
      then invalidJob ''complete positive artifact rule required''
      else if pathMatch (Rule_Glob r) ''fixture'' = None \<or> isAbs (Rule_Glob r) \<or> strContains (Rule_Glob r) ''..''
      then invalidJob ''invalid artifact glob''
      else jobRuleLoop rs)"

definition safeEnvironmentKey :: "string \<Rightarrow> bool" where
  "safeEnvironmentKey key \<longleftrightarrow> key = ''ASAN_OPTIONS'' \<or> key = ''UBSAN_OPTIONS'' \<or> key = ''MSAN_OPTIONS''"

definition validateJob :: "Env \<Rightarrow> WorkerJob \<Rightarrow> unit result" where
  "validateJob env job =
     (if Job_CampaignID job = [] \<or> Job_ScopeID job = [] \<or> operationText (Job_Operation job) = [] \<or> Job_AuditCorrelationID job = []
      then invalidJob ''campaign, scope, operation, and correlation required''
      else if \<not> isKnownOperation (Job_Operation job) then invalidJob ''unknown operation''
      else if \<not> digestPattern (Job_ImageDigest job) then invalidJob ''exact sha256 image digest required''
      else
        (case budgetValidate (Job_Budget job) of
           Inl e \<Rightarrow> invalidJob (errText e)
         | Inr _ \<Rightarrow>
             rbind (jobMountLoop env [] [] (Job_Mounts job)) (\<lambda>_.
             rbind (jobRuleLoop (Job_ArtifactRules job)) (\<lambda>_.
             if \<not> fmpred (\<lambda>key value. safeEnvironmentKey key \<and> CHR 0x00 \<notin> set value \<and> length value \<le> 4096) (Job_Environment job)
             then invalidJob ''invalid environment allowlist'' else Inr ()))))"

definition noExit :: RunExit where
  "noExit = \<lparr>Exit_Code = 0, Exit_Signal = [], Exit_Reason = []\<rparr>"

definition noUsage :: ResourceUsage where
  "noUsage = \<lparr>Usage_WallMillis = 0, Usage_CPUMillis = 0, Usage_MaxRSSBytes = 0, Usage_DiskWrittenBytes = 0, Usage_InodesCreated = 0\<rparr>"

definition queuedRun :: "time \<Rightarrow> WorkerJob \<Rightarrow> ExperimentRun" where
  "queuedRun now job =
     \<lparr>Run_SchemaVersion = 1, Run_ID = Job_RunID job, Run_CampaignID = Job_CampaignID job, Run_ScopeID = Job_ScopeID job,
      Run_TargetID = Job_TargetID job, Run_BuildID = Job_BuildID job, Run_InputArtifactID = Job_InputArtifactID job,
      Run_PatchArtifactID = Job_PatchArtifactID job, Run_Operation = Job_Operation job, Run_Arguments = Job_Arguments job,
      Run_Environment = fmempty, Run_Status = RunQueued, Run_WorkerID = [], Run_IsolationAssurance = [], Run_Exit = noExit,
      Run_Usage = noUsage, Run_ArtifactIDs = [], Run_AuditCorrelationID = Job_AuditCorrelationID job, Run_CreatedAt = now,
      Run_StartedAt = None, Run_CompletedAt = None\<rparr>"

text \<open>\<^verbatim>\<open>Submit\<close> up to the send on the queue: the job and its run are durable.\<close>

definition journalJob :: "Env \<Rightarrow> bool \<Rightarrow> WorkerJob \<Rightarrow> (Store, WorkerJob \<times> ExperimentRun) act" where
  "journalJob env started job =
     (if \<not> started then act_fail (Err ''research runner: broker not running'')
      else
        act_bind (act_lift (validateJob env job)) (\<lambda>_.
        act_bind (if Job_ID job = [] then newID env ''job'' else act_return (Job_ID job)) (\<lambda>i.
        act_bind (if Job_RunID job = [] then newID env ''run'' else act_return (Job_RunID job)) (\<lambda>runID.
        (let queued = job\<lparr>Job_ID := i, Job_RunID := runID, Job_SchemaVersion := 1, Job_Status := RunQueued,
               Job_CreatedAt := env_now env, Job_UpdatedAt := env_now env\<rparr>;
             run = queuedRun (env_now env) queued in
         act_bind (createJobAndRun queued run) (\<lambda>_. act_return (queued, run)))))))"

definition submitJob :: "Env \<Rightarrow> bool \<Rightarrow> WorkerJob \<Rightarrow> (Store, ExperimentRun) act" where
  "submitJob env started job = act_bind (journalJob env started job) (\<lambda>(_, run). act_return run)"

section \<open>Collecting output\<close>

text \<open>
  The staging directory as the walk visits it: relative paths in lexical order. A file does not
  change between its listing and its ingestion.
\<close>

datatype StagedEntry = StagedDir | StagedFile string | StagedLink | StagedOther

definition defaultCapturedOutputLimit :: int where
  "defaultCapturedOutputLimit = 2 ^ 20"

definition collectorLimit :: "int \<Rightarrow> int" where
  "collectorLimit n = (if n \<le> 0 then defaultCapturedOutputLimit else n)"

definition boundedBytes :: "string \<Rightarrow> int \<Rightarrow> string \<times> bool \<times> int" where
  "boundedBytes input limit =
     (if int (length input) \<le> limit then (input, False, 0) else (take (nat limit) input, True, int (length input) - limit))"

fun matchingRule :: "string \<Rightarrow> ArtifactRule list \<Rightarrow> nat option" where
  "matchingRule relative [] = None"
| "matchingRule relative (r # rs) =
     (if pathMatch (Rule_Glob r) relative = Some True \<and> Rule_Role r \<noteq> [] \<and> Rule_MediaType r \<noteq> [] then Some 0
      else map_option Suc (matchingRule relative rs))"

definition runArtifact :: "WorkerJob \<Rightarrow> string \<Rightarrow> string \<Rightarrow> time \<Rightarrow> Artifact" where
  "runArtifact job role media created =
     \<lparr>Artifact_SchemaVersion = 1, Artifact_ID = [], Artifact_ContentID = [], Artifact_CampaignID = Job_CampaignID job, Artifact_RunID = Job_RunID job,
      Artifact_ParentIDs = filter (\<lambda>i. i \<noteq> []) [Job_InputArtifactID job, Job_PatchArtifactID job], Artifact_Role = role,
      Artifact_MediaType = media, Artifact_Size = 0, Artifact_Sensitivity = ''research'', Artifact_StoragePath = [], Artifact_Encryption = [],
      Artifact_EncryptionKeyID = [], Artifact_RetainUntil = zeroTime, Artifact_PurgedAt = None, Artifact_PurgeApprovalID = [],
      Artifact_PurgeReason = [], Artifact_BlobDeletedAt = None, Artifact_CreatedAt = created\<rparr>"

text \<open>A captured stream becomes an artifact when it is not empty: the id, or nothing.\<close>

definition collectLog :: "Env \<Rightarrow> StoreConfig \<Rightarrow> WorkerJob \<Rightarrow> string \<Rightarrow> string \<Rightarrow> (Store, string) act" where
  "collectLog env cfg job role bytes =
     (if bytes = [] then act_return []
      else act_bind (putArtifact env cfg (runArtifact job role ''text/plain; charset=utf-8'' zeroTime) bytes) (\<lambda>a. act_return (Artifact_ID a)))"

fun collectFiles :: "Env \<Rightarrow> StoreConfig \<Rightarrow> WorkerJob \<Rightarrow> int list \<Rightarrow> int list \<Rightarrow> string list \<Rightarrow> (string \<times> StagedEntry) list \<Rightarrow> (Store, string list) act" where
  "collectFiles env cfg job counts sizes ids [] = act_return ids"
| "collectFiles env cfg job counts sizes ids ((relative, entry) # rest) =
     (case entry of
        StagedLink \<Rightarrow> act_fail (Err ''research runner: artifact collector rejects symlinks'')
      | StagedDir \<Rightarrow> collectFiles env cfg job counts sizes ids rest
      | StagedOther \<Rightarrow> act_fail (Err ''research runner: artifact collector rejects non-regular files'')
      | StagedFile content \<Rightarrow>
          (case matchingRule relative (Job_ArtifactRules job) of
             None \<Rightarrow> act_fail (Err (''research runner: worker emitted unallowlisted artifact '' @ quoted relative))
           | Some k \<Rightarrow>
               (let r = Job_ArtifactRules job ! k; n = counts ! k + 1; b = wrap64 (sizes ! k + int (length content)) in
                if Rule_MaxCount r \<le> 0 \<or> n > Rule_MaxCount r \<or> Rule_MaxBytes r \<le> 0 \<or> b > Rule_MaxBytes r
                then act_fail (Err (''research runner: artifact rule '' @ quoted (Rule_Role r) @ '' exceeded''))
                else
                  act_bind (putArtifact env cfg (runArtifact job (Rule_Role r) (Rule_MediaType r) (env_now env)) content) (\<lambda>a.
                  collectFiles env cfg job (counts[k := n]) (sizes[k := b]) (ids @ [Artifact_ID a]) rest))))"

definition collect :: "Env \<Rightarrow> StoreConfig \<Rightarrow> int \<Rightarrow> WorkerJob \<Rightarrow> (string \<times> StagedEntry) list \<Rightarrow> Execution \<Rightarrow> Assurance \<Rightarrow> (Store, RunResult) act" where
  "collect env cfg limit job staged ex assurance =
     (let (out, outCut, outDropped) = boundedBytes (Exec_Stdout ex) limit;
          (errs, errCut, errDropped) = boundedBytes (Exec_Stderr ex) limit;
          zeros = replicate (length (Job_ArtifactRules job)) 0 in
     act_bind (collectLog env cfg job ''stdout_log'' out) (\<lambda>outID.
     act_bind (collectLog env cfg job ''stderr_log'' errs) (\<lambda>errID.
     act_bind (collectFiles env cfg job zeros zeros (filter (\<lambda>i. i \<noteq> []) [outID, errID]) staged) (\<lambda>ids.
     act_return
       \<lparr>Result_SchemaVersion = 1, Result_RunID = Job_RunID job, Result_Operation = Job_Operation job, Result_Status = Exec_Status ex,
        Result_Exit = Exec_Exit ex,
        Result_Output = \<lparr>Output_StdoutArtifactID = outID, Output_StderrArtifactID = errID,
          Output_StdoutTruncated = Exec_StdoutTruncated ex \<or> outCut, Output_StderrTruncated = Exec_StderrTruncated ex \<or> errCut,
          Output_BytesDropped = wrap64 (Exec_BytesDropped ex + outDropped + errDropped)\<rparr>,
        Result_ArtifactIDs = ids, Result_ResourceUsage = Exec_Usage ex,
        Result_Apparatus = (Exec_Apparatus ex)\<lparr>Identity_ImageDigest := Job_ImageDigest job, Identity_Runtime := As_Runtime assurance\<rparr>,
        Result_IsolationAssurance = As_Isolation assurance, Result_AuditCorrelationID = Job_AuditCorrelationID job\<rparr>))))"

section \<open>The writable footprint\<close>

record writableTreeUsage =
  tree_bytes :: int
  tree_inodes :: int

fun measureWritableTree :: "writableTreeUsage \<Rightarrow> (string \<times> StagedEntry) list \<Rightarrow> writableTreeUsage result" where
  "measureWritableTree usage [] = Inr usage"
| "measureWritableTree usage ((path, entry) # rest) =
     (case entry of
        StagedLink \<Rightarrow> Inl (Err (''research runner: writable tree contains symlink '' @ quoted (baseName path)))
      | StagedDir \<Rightarrow> measureWritableTree (usage\<lparr>tree_inodes := wrap64 (tree_inodes usage + 1)\<rparr>) rest
      | StagedOther \<Rightarrow> Inl (Err (''research runner: writable tree contains non-regular entry '' @ quoted (baseName path)))
      | StagedFile content \<Rightarrow>
          (let n = int (length content) in
           if n < 0 \<or> tree_bytes usage > wrap64 (2 ^ 63 - 1 - n) then Inl (Err ''research runner: writable footprint overflow'')
           else measureWritableTree
             (usage\<lparr>tree_bytes := wrap64 (tree_bytes usage + n), tree_inodes := wrap64 (tree_inodes usage + 1)\<rparr>) rest))"

fun measureLoop :: "writableTreeUsage \<Rightarrow> (string \<times> StagedEntry) list list \<Rightarrow> writableTreeUsage result" where
  "measureLoop usage [] = Inr usage"
| "measureLoop usage (tree # trees) = rbind (measureWritableTree usage tree) (\<lambda>u. measureLoop u trees)"

definition measureWritableTrees :: "(string \<times> StagedEntry) list list \<Rightarrow> writableTreeUsage result" where
  "measureWritableTrees trees = measureLoop \<lparr>tree_bytes = 0, tree_inodes = 0\<rparr> trees"

definition overBudgetError :: "string \<Rightarrow> int \<Rightarrow> int \<Rightarrow> err" where
  "overBudgetError unit used most =
     Err (''research runner: writable resource budget exceeded: writable footprint '' @ showInt used @ '' '' @ unit @ '' exceeds '' @ showInt most)"

definition footprintCheck :: "ResourceBudget \<Rightarrow> writableTreeUsage \<Rightarrow> err option" where
  "footprintCheck budget usage =
     (if tree_bytes usage > MaxDiskBytes budget then Some (overBudgetError ''bytes'' (tree_bytes usage) (MaxDiskBytes budget))
      else if tree_inodes usage > MaxInodes budget then Some (overBudgetError ''inodes'' (tree_inodes usage) (MaxInodes budget))
      else None)"

record writableMonitorResult =
  mon_peakBytes :: int
  mon_peakInodes :: int
  mon_err :: "err option"

text \<open>The monitor's measurements, in the order it took them: it stops at the first that fails.\<close>

fun monitorLoop :: "ResourceBudget \<Rightarrow> writableTreeUsage \<Rightarrow> writableMonitorResult \<Rightarrow> (string \<times> StagedEntry) list list list \<Rightarrow> writableMonitorResult" where
  "monitorLoop budget baseline result [] = result"
| "monitorLoop budget baseline result (trees # later) =
     (case measureWritableTrees trees of
        Inl e \<Rightarrow> result\<lparr>mon_err := Some e\<rparr>
      | Inr current \<Rightarrow>
          (let result1 = result\<lparr>mon_peakBytes := max (mon_peakBytes result) (max (tree_bytes current - tree_bytes baseline) 0),
                 mon_peakInodes := max (mon_peakInodes result) (max (tree_inodes current - tree_inodes baseline) 0)\<rparr> in
           case footprintCheck budget current of
             Some e \<Rightarrow> result1\<lparr>mon_err := Some e\<rparr>
           | None \<Rightarrow> monitorLoop budget baseline result1 later))"

definition monitorWritableBudget :: "ResourceBudget \<Rightarrow> (string \<times> StagedEntry) list list list \<Rightarrow> writableMonitorResult result" where
  "monitorWritableBudget budget snapshots =
     rbind (measureWritableTrees (case snapshots of [] \<Rightarrow> [] | first # _ \<Rightarrow> first)) (\<lambda>baseline.
     case footprintCheck budget baseline of
       Some e \<Rightarrow> Inl e
     | None \<Rightarrow> Inr (monitorLoop budget baseline \<lparr>mon_peakBytes = 0, mon_peakInodes = 0, mon_err = None\<rparr> (tl snapshots)))"

section \<open>One execution\<close>

datatype CtxErr = DeadlineExceeded | Canceled

text \<open>
  What one execution produced: a failure to make the staging directory, the snapshots the monitor
  measured, the backend's result and error, and the staged files.
\<close>

record Outcome =
  out_stagingError :: "err option"
  out_snapshots :: "(string \<times> StagedEntry) list list list"
  out_execution :: Execution
  out_error :: "err option"
  out_staged :: "(string \<times> StagedEntry) list"

record RunnerConfig =
  rc_store :: StoreConfig
  rc_outputLimit :: int
  rc_assurance :: Assurance
  rc_campaignConcurrency :: int
  rc_onResult :: "(WorkerJob \<Rightarrow> RunResult \<Rightarrow> (Store, unit) act) option"

text \<open>\<^verbatim>\<open>NewBroker\<close>: limits that are not positive get their defaults.\<close>

definition newBroker :: "RunnerConfig \<Rightarrow> RunnerConfig" where
  "newBroker rc = rc\<lparr>rc_outputLimit := collectorLimit (rc_outputLimit rc),
     rc_campaignConcurrency := (if rc_campaignConcurrency rc \<le> 0 then 1 else rc_campaignConcurrency rc)\<rparr>"

definition beginRun :: "Env \<Rightarrow> RunnerConfig \<Rightarrow> WorkerJob \<Rightarrow> (Store, WorkerJob \<times> ExperimentRun) act" where
  "beginRun env rc job =
     act_bind (getRun (Job_RunID job)) (\<lambda>run.
     (let job1 = job\<lparr>Job_Status := RunRunning, Job_UpdatedAt := env_now env\<rparr>;
          run1 = run\<lparr>Run_Status := RunRunning, Run_WorkerID := As_Backend (rc_assurance rc), Run_IsolationAssurance := As_Isolation (rc_assurance rc),
            Run_StartedAt := Some (env_now env)\<rparr> in
      act_bind (saveJobAndRun job1 run1) (\<lambda>_. act_return (job1, run1))))"

definition finishFailed :: "Env \<Rightarrow> WorkerJob \<Rightarrow> ExperimentRun \<Rightarrow> err \<Rightarrow> ResourceUsage \<Rightarrow> (Store, RunResult) act" where
  "finishFailed env job run failure usage =
     (let job1 = job\<lparr>Job_Status := RunFailed, Job_UpdatedAt := env_now env\<rparr>;
          run1 = run\<lparr>Run_Status := RunFailed, Run_CompletedAt := Some (env_now env), Run_Exit := (Run_Exit run)\<lparr>Exit_Reason := errText failure\<rparr>,
            Run_Usage := usage\<rparr> in
      act_bind (act_ignore (saveJobAndRun job1 run1)) (\<lambda>_. act_return (resultFromRun run1)))"

definition finalResult :: "CtxErr option \<Rightarrow> err option \<Rightarrow> RunResult \<Rightarrow> RunResult" where
  "finalResult ctx failure result =
     (if ctx = Some DeadlineExceeded
      then result\<lparr>Result_Status := RunTimedOut, Result_Exit := (Result_Exit result)\<lparr>Exit_Reason := ''wall-clock budget exceeded''\<rparr>\<rparr>
      else if ctx = Some Canceled
      then result\<lparr>Result_Status := RunCancelled, Result_Exit := (Result_Exit result)\<lparr>Exit_Reason := ''cancelled''\<rparr>\<rparr>
      else if runStatusText (Result_Status result) = []
      then result\<lparr>Result_Status := (if failure \<noteq> None then RunFailed else RunCompleted)\<rparr>
      else result)"

text \<open>
  The rest of \<^verbatim>\<open>execute\<close> up to the durable terminal state. The last component says whether the run
  got as far as the callback. The code writes the backend's error text into \<^verbatim>\<open>execution.Exit\<close> after
  the collector has copied it, so the text reaches neither the result nor the run.
\<close>

definition finishRun :: "Env \<Rightarrow> RunnerConfig \<Rightarrow> Outcome \<Rightarrow> CtxErr option \<Rightarrow> WorkerJob \<Rightarrow> ExperimentRun \<Rightarrow>
    (Store, WorkerJob \<times> ExperimentRun \<times> RunResult \<times> bool) act" where
  "finishRun env rc out ctx job run =
     (let failed = (\<lambda>e usage. act_bind (finishFailed env job run e usage) (\<lambda>result. act_return (job, run, result, False))) in
      case out_stagingError out of
        Some e \<Rightarrow> failed e (Run_Usage run)
      | None \<Rightarrow>
          (case monitorWritableBudget (Job_Budget job) (out_snapshots out) of
             Inl e \<Rightarrow> failed e (Run_Usage run)
           | Inr mon \<Rightarrow>
               (let ex = out_execution out;
                    usage = (Exec_Usage ex)\<lparr>Usage_DiskWrittenBytes := max (Usage_DiskWrittenBytes (Exec_Usage ex)) (mon_peakBytes mon),
                      Usage_InodesCreated := max (Usage_InodesCreated (Exec_Usage ex)) (mon_peakInodes mon)\<rparr> in
                case mon_err mon of
                  Some e \<Rightarrow> failed e usage
                | None \<Rightarrow>
                    (\<lambda>s. case collect env (rc_store rc) (rc_outputLimit rc) job (out_staged out) (ex\<lparr>Exec_Usage := usage\<rparr>) (rc_assurance rc) s of
                       (Inl e, s') \<Rightarrow> failed e (Run_Usage run) s'
                     | (Inr collected, s') \<Rightarrow>
                         (let result = finalResult ctx (out_error out) collected;
                              run1 = run\<lparr>Run_Status := Result_Status result, Run_Exit := Result_Exit result, Run_Usage := Result_ResourceUsage result,
                                Run_ArtifactIDs := Result_ArtifactIDs result, Run_CompletedAt := Some (env_now env)\<rparr>;
                              job1 = job\<lparr>Job_Status := Result_Status result, Job_UpdatedAt := env_now env\<rparr> in
                          act_bind (act_ignore (saveJobAndRun job1 run1)) (\<lambda>_. act_return (job1, run1, result, True)) s')))))"

text \<open>The callback: its failure turns the run into a failed one.\<close>

definition runCallback :: "Env \<Rightarrow> RunnerConfig \<Rightarrow> WorkerJob \<Rightarrow> ExperimentRun \<Rightarrow> RunResult \<Rightarrow> (Store, RunResult) act" where
  "runCallback env rc job run result =
     (case rc_onResult rc of
        None \<Rightarrow> act_return result
      | Some onResult \<Rightarrow>
          (\<lambda>s. case onResult job result s of
             (Inr _, s') \<Rightarrow> (Inr result, s')
           | (Inl e, s') \<Rightarrow>
               (let result1 = result\<lparr>Result_Status := RunFailed,
                      Result_Exit := (Result_Exit result)\<lparr>Exit_Reason := ''post-run evidence ingestion: '' @ errText e\<rparr>\<rparr>;
                    run1 = run\<lparr>Run_Status := RunFailed, Run_Exit := Result_Exit result1, Run_CompletedAt := Some (env_now env)\<rparr>;
                    job1 = job\<lparr>Job_Status := RunFailed, Job_UpdatedAt := env_now env\<rparr> in
                act_bind (act_ignore (saveJobAndRun job1 run1)) (\<lambda>_. act_return result1) s')))"

section \<open>The broker\<close>

text \<open>
  Where a worker goroutine stands: waiting for work, having read a queued job, holding a slot of
  its campaign, with the run marked running, with its cancellation registered, with the terminal
  state saved, about to return its slot.
\<close>

datatype worker =
    WIdle
  | WLoaded WorkerJob
  | WHolding WorkerJob
  | WBegun WorkerJob ExperimentRun
  | WExecuting WorkerJob ExperimentRun
  | WFinished WorkerJob ExperimentRun RunResult bool
  | WReleasing string

text \<open>A call of \<^verbatim>\<open>Cancel\<close>: the job was read; or no cancellation was registered and the job is to be marked.\<close>

datatype canceller = CRead WorkerJob | CMarking WorkerJob

record Broker =
  br_store :: Store
  br_queue :: "string list"
  br_sending :: "string list"
  br_active :: "string \<Rightarrow> int"
  br_cancels :: "(string \<times> bool) list"
  br_workers :: "worker list"
  br_cancellers :: "canceller list"
  br_published :: "RunResult list"

definition queueCapacity :: nat where
  "queueCapacity = 1024"

definition setWorker :: "nat \<Rightarrow> worker \<Rightarrow> Broker \<Rightarrow> Broker" where
  "setWorker k w b = b\<lparr>br_workers := (br_workers b)[k := w]\<rparr>"

definition submitStep :: "Env \<Rightarrow> WorkerJob \<Rightarrow> Broker \<Rightarrow> Broker" where
  "submitStep env job b =
     (case journalJob env True job (br_store b) of
        (Inl _, s) \<Rightarrow> b\<lparr>br_store := s\<rparr>
      | (Inr (queued, _), s) \<Rightarrow> b\<lparr>br_store := s, br_sending := br_sending b @ [Job_ID queued]\<rparr>)"

definition sendStep :: "string \<Rightarrow> Broker \<Rightarrow> Broker option" where
  "sendStep i b =
     (if i \<in> set (br_sending b) \<and> length (br_queue b) < queueCapacity
      then Some (b\<lparr>br_sending := remove1 i (br_sending b), br_queue := br_queue b @ [i]\<rparr>) else None)"

text \<open>One step of worker \<open>k\<close>; \<open>None\<close> where it has to wait. A job that is no longer queued is skipped.\<close>

definition ctxAllowed :: "Broker \<Rightarrow> string \<Rightarrow> CtxErr option \<Rightarrow> bool" where
  "ctxAllowed b i ctx \<longleftrightarrow>
     (map_of (br_cancels b) i = Some True \<longrightarrow> ctx \<noteq> None) \<and> (ctx = Some Canceled \<longrightarrow> map_of (br_cancels b) i = Some True)"

definition takeStep :: "nat \<Rightarrow> Broker \<Rightarrow> Broker option" where
  "takeStep k b =
     (case br_queue b of
        [] \<Rightarrow> None
      | i # rest \<Rightarrow>
          (let b1 = b\<lparr>br_queue := rest\<rparr> in
           case fst (getWorkerJob i (br_store b)) of
             Inl _ \<Rightarrow> Some b1
           | Inr job \<Rightarrow> if Job_Status job \<noteq> RunQueued then Some b1 else Some (setWorker k (WLoaded job) b1)))"

definition workerStep :: "Env \<Rightarrow> RunnerConfig \<Rightarrow> Outcome \<Rightarrow> CtxErr option \<Rightarrow> nat \<Rightarrow> Broker \<Rightarrow> Broker option" where
  "workerStep env rc out ctx k b =
     (case br_workers b ! k of
        WIdle \<Rightarrow> takeStep k b
      | WLoaded job \<Rightarrow>
          if br_active b (Job_CampaignID job) < rc_campaignConcurrency rc
          then Some (setWorker k (WHolding job)
            (b\<lparr>br_active := (br_active b)(Job_CampaignID job := br_active b (Job_CampaignID job) + 1)\<rparr>))
          else None
      | WHolding job \<Rightarrow>
          (case beginRun env rc job (br_store b) of
             (Inl _, s) \<Rightarrow> Some (setWorker k (WReleasing (Job_CampaignID job)) (b\<lparr>br_store := s\<rparr>))
           | (Inr (job1, run1), s) \<Rightarrow> Some (setWorker k (WBegun job1 run1) (b\<lparr>br_store := s\<rparr>)))
      | WBegun job run \<Rightarrow> Some (setWorker k (WExecuting job run) (b\<lparr>br_cancels := AList.update (Job_ID job) False (br_cancels b)\<rparr>))
      | WExecuting job run \<Rightarrow>
          if \<not> ctxAllowed b (Job_ID job) ctx then None
          else
            (case finishRun env rc out ctx job run (br_store b) of
               (Inl _, s) \<Rightarrow> None
             | (Inr (job1, run1, result, callback), s) \<Rightarrow> Some (setWorker k (WFinished job1 run1 result callback) (b\<lparr>br_store := s\<rparr>)))
      | WFinished job run result callback \<Rightarrow>
          (case (if callback then runCallback env rc job run result else act_return result) (br_store b) of
             (Inl _, s) \<Rightarrow> None
           | (Inr final, s) \<Rightarrow>
               Some (setWorker k (WReleasing (Job_CampaignID job))
                 (b\<lparr>br_store := s, br_published := br_published b @ [final], br_cancels := AList.delete (Job_ID job) (br_cancels b)\<rparr>)))
      | WReleasing c \<Rightarrow> Some (setWorker k WIdle (b\<lparr>br_active := (br_active b)(c := br_active b c - 1)\<rparr>)))"

text \<open>\<^verbatim>\<open>Cancel\<close>, call by call: the job is read, then the registered cancellations, then the job is marked.\<close>

definition cancelRead :: "string \<Rightarrow> Broker \<Rightarrow> Broker" where
  "cancelRead i b =
     (case fst (getWorkerJob i (br_store b)) of
        Inl _ \<Rightarrow> b
      | Inr job \<Rightarrow> b\<lparr>br_cancellers := br_cancellers b @ [CRead job]\<rparr>)"

definition dropCanceller :: "nat \<Rightarrow> Broker \<Rightarrow> Broker" where
  "dropCanceller k b = b\<lparr>br_cancellers := take k (br_cancellers b) @ drop (Suc k) (br_cancellers b)\<rparr>"

definition cancelStep :: "Env \<Rightarrow> nat \<Rightarrow> Broker \<Rightarrow> Broker" where
  "cancelStep env k b =
     (case br_cancellers b ! k of
        CRead job \<Rightarrow>
          if map_of (br_cancels b) (Job_ID job) \<noteq> None
          then dropCanceller k (b\<lparr>br_cancels := AList.update (Job_ID job) True (br_cancels b)\<rparr>)
          else if terminalRun (Job_Status job) then dropCanceller k b
          else b\<lparr>br_cancellers := (br_cancellers b)[k := CMarking job]\<rparr>
      | CMarking job \<Rightarrow>
          (case fst (getRun (Job_RunID job) (br_store b)) of
             Inl _ \<Rightarrow> dropCanceller k b
           | Inr run \<Rightarrow>
               (let job1 = job\<lparr>Job_Status := RunCancelled, Job_UpdatedAt := env_now env\<rparr>;
                    run1 = run\<lparr>Run_Status := RunCancelled, Run_CompletedAt := Some (env_now env),
                      Run_Exit := (Run_Exit run)\<lparr>Exit_Reason := ''cancelled before execution''\<rparr>\<rparr> in
                case saveJobAndRun job1 run1 (br_store b) of
                  (Inl _, s) \<Rightarrow> dropCanceller k (b\<lparr>br_store := s\<rparr>)
                | (Inr _, s) \<Rightarrow> dropCanceller k (b\<lparr>br_store := s, br_published := br_published b @ [resultFromRun run1]\<rparr>))))"

text \<open>
  \<^verbatim>\<open>Start\<close> after the preflight: interrupted jobs are queued again, and every unfinished job is
  sent to the queue while the workers already run.
\<close>

definition requeue :: "Env \<Rightarrow> WorkerJob \<Rightarrow> (Store, unit) act" where
  "requeue env job =
     (if Job_Status job = RunRunning
      then
        act_bind (getRun (Job_RunID job)) (\<lambda>run.
        saveJobAndRun (job\<lparr>Job_Status := RunQueued, Job_UpdatedAt := env_now env\<rparr>)
          (run\<lparr>Run_Status := RunQueued, Run_WorkerID := [], Run_StartedAt := None\<rparr>))
      else act_return ())"

definition recoverJobs :: "Env \<Rightarrow> (Store, string list) act" where
  "recoverJobs env =
     act_bind (listWorkerJobsByStatus [RunQueued, RunRunning]) (\<lambda>jobs.
     act_bind (act_each (requeue env) jobs) (\<lambda>_. act_return (map Job_ID jobs)))"

definition startBroker :: "Env \<Rightarrow> int \<Rightarrow> Assurance result \<Rightarrow> Store \<Rightarrow> Broker result" where
  "startBroker env globalConcurrency preflight s =
     (case preflight of
        Inl e \<Rightarrow> Inl (Err (''research runner: backend preflight: '' @ errText e))
      | Inr assurance \<Rightarrow>
          if As_Isolation assurance = [] then Inl (Err ''research runner: backend returned no isolation assurance'')
          else
            (case recoverJobs env s of
               (Inl e, _) \<Rightarrow> Inl e
             | (Inr ids, s') \<Rightarrow>
                 Inr \<lparr>br_store = s', br_queue = [], br_sending = ids, br_active = (\<lambda>_. 0), br_cancels = [],
                   br_workers = replicate (nat (if globalConcurrency \<le> 0 then 1 else globalConcurrency)) WIdle,
                   br_cancellers = [], br_published = []\<rparr>))"

section \<open>What the broker relies on\<close>

text \<open>A back end reports how a run ended, never that it is still queued or running.\<close>

definition outcomeOK :: "Outcome \<Rightarrow> bool" where
  "outcomeOK out \<longleftrightarrow> Exec_Status (out_execution out) \<noteq> RunQueued \<and> Exec_Status (out_execution out) \<noteq> RunRunning"

end
