(* ===== verification/Go_Regexp.thy ===== *)
theory Go_Regexp
  imports Go_Match
begin

text \<open>
  Go's \<^verbatim>\<open>regexp\<close> on byte strings read as UTF-8: leftmost-first matching. \<open>ways\<close> lists the states after
  every match from one position in order of preference, so that its head is the match that Go
  reports. The source uses no star whose body matches the empty text.
\<close>

section \<open>Patterns\<close>

datatype regexp =
    RRune "int \<Rightarrow> bool"
  | REmpty
  | RSeq regexp regexp
  | RAlt regexp regexp
  | RStar bool regexp
  | RGroup nat regexp
  | RBeginText
  | REndText
  | RBeginLine
  | REndLine
  | RWordBoundary

text \<open>The rune before the position, the text after it, and the groups closed so far, the last first.\<close>

record Scan =
  sc_prev :: "int option"
  sc_rest :: string
  sc_groups :: "(nat \<times> string) list"

definition wordRune :: "int \<Rightarrow> bool" where
  "wordRune r \<longleftrightarrow> 48 \<le> r \<and> r \<le> 57 \<or> 65 \<le> r \<and> r \<le> 90 \<or> 97 \<le> r \<and> r \<le> 122 \<or> r = 95"

definition stepRune :: "Scan \<Rightarrow> Scan" where
  "stepRune st = (let (r, w) = decodeRune (sc_rest st) in st\<lparr>sc_prev := Some r, sc_rest := drop w (sc_rest st)\<rparr>)"

definition atWordBoundary :: "Scan \<Rightarrow> bool" where
  "atWordBoundary st \<longleftrightarrow>
     (case sc_prev st of None \<Rightarrow> False | Some r \<Rightarrow> wordRune r) \<noteq>
     (sc_rest st \<noteq> [] \<and> wordRune (fst (decodeRune (sc_rest st))))"

text \<open>Iterations of a body; each has to consume text, so the length of the rest bounds their number.\<close>

fun starWays :: "bool \<Rightarrow> (Scan \<Rightarrow> Scan list) \<Rightarrow> nat \<Rightarrow> Scan \<Rightarrow> Scan list" where
  "starWays greedy body 0 st = [st]"
| "starWays greedy body (Suc n) st =
     (let more = concat (map (starWays greedy body n) (filter (\<lambda>st'. length (sc_rest st') < length (sc_rest st)) (body st)))
      in if greedy then more @ [st] else st # more)"

primrec ways :: "regexp \<Rightarrow> Scan \<Rightarrow> Scan list" where
  "ways (RRune p) st = (if sc_rest st \<noteq> [] \<and> p (fst (decodeRune (sc_rest st))) then [stepRune st] else [])"
| "ways REmpty st = [st]"
| "ways (RSeq a b) st = concat (map (ways b) (ways a st))"
| "ways (RAlt a b) st = ways a st @ ways b st"
| "ways (RStar greedy a) st = starWays greedy (ways a) (length (sc_rest st)) st"
| "ways (RGroup n a) st =
     map (\<lambda>st'. st'\<lparr>sc_groups := (n, take (length (sc_rest st) - length (sc_rest st')) (sc_rest st)) # sc_groups st'\<rparr>) (ways a st)"
| "ways RBeginText st = (if sc_prev st = None then [st] else [])"
| "ways REndText st = (if sc_rest st = [] then [st] else [])"
| "ways RBeginLine st = (if sc_prev st = None \<or> sc_prev st = Some 10 then [st] else [])"
| "ways REndLine st = (if sc_rest st = [] \<or> fst (decodeRune (sc_rest st)) = 10 then [st] else [])"
| "ways RWordBoundary st = (if atWordBoundary st then [st] else [])"

section \<open>Finding\<close>

lemma stepRune_shorter: "sc_rest st \<noteq> [] \<Longrightarrow> length (sc_rest (stepRune st)) < length (sc_rest st)"
  using decodeRune_width [of "sc_rest st"] by (cases "sc_rest st") (auto simp: stepRune_def case_prod_beta)

text \<open>The leftmost match: where it starts and the state after it.\<close>

function findFrom :: "regexp \<Rightarrow> Scan \<Rightarrow> (Scan \<times> Scan) option" where
  "findFrom re st =
     (case ways re st of
        st' # _ \<Rightarrow> Some (st, st')
      | [] \<Rightarrow> if sc_rest st = [] then None else findFrom re (stepRune st))"
  by pat_completeness auto
termination
  by (relation "measure (\<lambda>(re, st). length (sc_rest st))") (auto intro: stepRune_shorter)

declare findFrom.simps [simp del]

definition scanStart :: "string \<Rightarrow> Scan" where
  "scanStart s = \<lparr>sc_prev = None, sc_rest = s, sc_groups = []\<rparr>"

definition matched :: "Scan \<Rightarrow> Scan \<Rightarrow> string" where
  "matched st st' = take (length (sc_rest st) - length (sc_rest st')) (sc_rest st)"

text \<open>\<^verbatim>\<open>FindStringSubmatch\<close>: the text of a group, empty where it took no part; group 0 is the whole match.\<close>

definition findSubmatch :: "regexp \<Rightarrow> string \<Rightarrow> (nat \<Rightarrow> string) option" where
  "findSubmatch re s =
     map_option (\<lambda>(st, st') n. if n = 0 then matched st st' else case map_of (sc_groups st') n of None \<Rightarrow> [] | Some t \<Rightarrow> t)
       (findFrom re (scanStart s))"

definition findString :: "regexp \<Rightarrow> string \<Rightarrow> string" where
  "findString re s = (case findFrom re (scanStart s) of None \<Rightarrow> [] | Some (st, st') \<Rightarrow> matched st st')"

text \<open>\<^verbatim>\<open>FindAll\<close>: each match starts where the last one ended. An empty match does not occur; it would end the search.\<close>

function findAllFrom :: "regexp \<Rightarrow> Scan \<Rightarrow> string list" where
  "findAllFrom re st =
     (case findFrom re st of
        None \<Rightarrow> []
      | Some (st1, st2) \<Rightarrow>
          if length (sc_rest st2) < length (sc_rest st) then matched st1 st2 # findAllFrom re (st2\<lparr>sc_groups := []\<rparr>) else [])"
  by pat_completeness auto
termination
  by (relation "measure (\<lambda>(re, st). length (sc_rest st))") auto

declare findAllFrom.simps [simp del]

definition findAll :: "regexp \<Rightarrow> string \<Rightarrow> string list" where
  "findAll re s = findAllFrom re (scanStart s)"

section \<open>Building patterns\<close>

definition rChar :: "char \<Rightarrow> regexp" where
  "rChar c = RRune (\<lambda>r. r = byteVal c)"

definition rOneOf :: "string \<Rightarrow> regexp" where
  "rOneOf cs = RRune (\<lambda>r. r \<in> set (map byteVal cs))"

definition rNoneOf :: "string \<Rightarrow> regexp" where
  "rNoneOf cs = RRune (\<lambda>r. r \<notin> set (map byteVal cs))"

fun rSeq :: "regexp list \<Rightarrow> regexp" where
  "rSeq [] = REmpty"
| "rSeq [a] = a"
| "rSeq (a # as) = RSeq a (rSeq as)"

definition rText :: "string \<Rightarrow> regexp" where
  "rText s = rSeq (map rChar s)"

text \<open>Letters under \<^verbatim>\<open>(?i)\<close>: of the letters the source uses only \<^verbatim>\<open>s\<close> has a further simple fold, the long s.\<close>

definition rFoldChar :: "char \<Rightarrow> regexp" where
  "rFoldChar c = RRune (\<lambda>r. r = byteVal c \<or> byteVal (CHR ''a'') \<le> byteVal c \<and> byteVal c \<le> byteVal (CHR ''z'') \<and> r = byteVal c - 32 \<or>
     c = CHR ''s'' \<and> r = 0x17F)"

definition rFoldText :: "string \<Rightarrow> regexp" where
  "rFoldText s = rSeq (map rFoldChar s)"

definition rPlus :: "bool \<Rightarrow> regexp \<Rightarrow> regexp" where
  "rPlus greedy a = RSeq a (RStar greedy a)"

definition rOpt :: "regexp \<Rightarrow> regexp" where
  "rOpt a = RAlt a REmpty"

definition rAnyRune :: regexp where
  "rAnyRune = RRune (\<lambda>r. r \<noteq> 10)"

definition rDigit :: regexp where
  "rDigit = RRune (\<lambda>r. 48 \<le> r \<and> r \<le> 57)"

definition rHex :: regexp where
  "rHex = RRune (\<lambda>r. 48 \<le> r \<and> r \<le> 57 \<or> 65 \<le> r \<and> r \<le> 70 \<or> 97 \<le> r \<and> r \<le> 102)"

definition rSpace :: regexp where
  "rSpace = RRune (\<lambda>r. r = 9 \<or> r = 10 \<or> r = 12 \<or> r = 13 \<or> r = 32)"

definition rNotSpace :: regexp where
  "rNotSpace = RRune (\<lambda>r. \<not> (r = 9 \<or> r = 10 \<or> r = 12 \<or> r = 13 \<or> r = 32))"

section \<open>What a match is\<close>

text \<open>Every way out of a position leaves a suffix of the text and keeps the groups that were closed before.\<close>

definition reaches :: "Scan \<Rightarrow> Scan \<Rightarrow> bool" where
  "reaches st st' \<longleftrightarrow> (\<exists>t. sc_rest st = t @ sc_rest st') \<and> (\<exists>gs. sc_groups st' = gs @ sc_groups st)"

lemma reaches_refl [simp]: "reaches st st"
  by (simp add: reaches_def)

lemma reaches_trans: "reaches a b \<Longrightarrow> reaches b c \<Longrightarrow> reaches a c"
  by (fastforce simp: reaches_def)

lemma reaches_step: "reaches st (stepRune st)"
  by (auto simp: reaches_def stepRune_def case_prod_beta intro: exI [of _ "take (snd (decodeRune (sc_rest st))) (sc_rest st)"])

lemma starWays_reaches:
  assumes "\<And>st st'. st' \<in> set (body st) \<Longrightarrow> reaches st st'"
  shows "st' \<in> set (starWays greedy body n st) \<Longrightarrow> reaches st st'"
proof (induction n arbitrary: st)
  case (Suc n)
  then show ?case using assms by (auto simp: Let_def split: if_splits intro: reaches_trans)
qed simp

lemma ways_reaches: "st' \<in> set (ways re st) \<Longrightarrow> reaches st st'"
proof (induction re arbitrary: st st')
  case (RRune p)
  then show ?case by (auto simp: reaches_step split: if_splits)
next
  case (RSeq a b)
  from RSeq.prems obtain x where x: "x \<in> set (ways a st)" "st' \<in> set (ways b x)" by auto
  show ?case by (rule reaches_trans [OF RSeq.IH(1) [OF x(1)] RSeq.IH(2) [OF x(2)]])
next
  case (RStar greedy a)
  then show ?case using starWays_reaches [of "ways a"] by simp
next
  case (RGroup n a)
  then show ?case by (fastforce simp: reaches_def)
qed (auto split: if_splits)

text \<open>The groups that a pattern can close.\<close>

primrec groupsOf :: "regexp \<Rightarrow> nat set" where
  "groupsOf (RRune p) = {}"
| "groupsOf REmpty = {}"
| "groupsOf (RSeq a b) = groupsOf a \<union> groupsOf b"
| "groupsOf (RAlt a b) = groupsOf a \<union> groupsOf b"
| "groupsOf (RStar greedy a) = groupsOf a"
| "groupsOf (RGroup n a) = insert n (groupsOf a)"
| "groupsOf RBeginText = {}"
| "groupsOf REndText = {}"
| "groupsOf RBeginLine = {}"
| "groupsOf REndLine = {}"
| "groupsOf RWordBoundary = {}"

definition closes :: "nat set \<Rightarrow> Scan \<Rightarrow> Scan \<Rightarrow> bool" where
  "closes N st st' \<longleftrightarrow> (\<exists>gs. sc_groups st' = gs @ sc_groups st \<and> fst ` set gs \<subseteq> N)"

lemma closes_refl [simp]: "closes N st st"
  by (simp add: closes_def)

lemma closes_trans: "closes N a b \<Longrightarrow> closes M b c \<Longrightarrow> closes (N \<union> M) a c"
proof -
  assume "closes N a b" "closes M b c"
  then obtain gs hs where "sc_groups b = gs @ sc_groups a" "fst ` set gs \<subseteq> N" "sc_groups c = hs @ sc_groups b" "fst ` set hs \<subseteq> M"
    by (auto simp: closes_def)
  then have "sc_groups c = (hs @ gs) @ sc_groups a" "fst ` set (hs @ gs) \<subseteq> N \<union> M" by auto
  then show ?thesis unfolding closes_def by blast
qed

lemma starWays_closes:
  assumes "\<And>st st'. st' \<in> set (body st) \<Longrightarrow> closes N st st'"
  shows "st' \<in> set (starWays greedy body n st) \<Longrightarrow> closes N st st'"
proof (induction n arbitrary: st)
  case (Suc n)
  have via: "closes N st st'" if "x \<in> set (body st)" "st' \<in> set (starWays greedy body n x)" for x
    using closes_trans [OF assms [OF that(1)] Suc.IH [OF that(2)]] by simp
  from Suc.prems via show ?case by (auto simp: Let_def split: if_splits)
qed simp

lemma ways_closes: "st' \<in> set (ways re st) \<Longrightarrow> closes (groupsOf re) st st'"
proof (induction re arbitrary: st st')
  case (RSeq a b)
  from RSeq.prems obtain x where x: "x \<in> set (ways a st)" "st' \<in> set (ways b x)" by auto
  show ?case using closes_trans [OF RSeq.IH(1) [OF x(1)] RSeq.IH(2) [OF x(2)]] by simp
next
  case (RAlt a b)
  then show ?case by (fastforce simp: closes_def)
next
  case (RStar greedy a)
  then show ?case using starWays_closes [of "ways a"] by simp
next
  case (RGroup n a)
  then show ?case by (fastforce simp: closes_def)
qed (auto simp: closes_def stepRune_def case_prod_beta split: if_splits)

lemma closes_other: "closes N st st' \<Longrightarrow> n \<notin> N \<Longrightarrow> map_of (sc_groups st') n = map_of (sc_groups st) n"
  by (fastforce simp: closes_def map_add_def split: option.splits dest!: map_of_SomeD)

lemma findFrom_reaches: "findFrom re st = Some (st1, st2) \<Longrightarrow> reaches st st1 \<and> reaches st1 st2"
proof (induction re st rule: findFrom.induct)
  case (1 re st)
  show ?case
  proof (cases "ways re st")
    case (Cons st' rest)
    with 1(2) ways_reaches [of st' re st] show ?thesis by (simp add: findFrom.simps [of re st])
  next
    case Nil
    with 1 reaches_step [of st] show ?thesis
      by (auto simp: findFrom.simps [of re st] split: if_splits intro: reaches_trans)
  qed
qed

lemma findFrom_way: "findFrom re st = Some (st1, st2) \<Longrightarrow> st2 \<in> set (ways re st1)"
proof (induction re st rule: findFrom.induct)
  case (1 re st)
  then show ?case
    by (cases "ways re st") (auto simp: findFrom.simps [of re st] split: if_splits)
qed

text \<open>What is found is a part of the text.\<close>

lemma matched_part: "reaches st st1 \<Longrightarrow> reaches st1 st2 \<Longrightarrow> \<exists>a b. sc_rest st = a @ matched st1 st2 @ b"
  by (fastforce simp: reaches_def matched_def)

lemma findString_part: "\<exists>a b. s = a @ findString re s @ b"
proof (cases "findFrom re (scanStart s)")
  case None
  then show ?thesis by (auto simp: findString_def)
next
  case (Some p)
  obtain st1 st2 where p: "p = (st1, st2)" by (metis prod.exhaust)
  with Some findFrom_reaches [of re "scanStart s" st1 st2] matched_part [of "scanStart s" st1 st2] show ?thesis
    by (simp add: findString_def scanStart_def)
qed

end
