(* ===== verification/Sanitizer_Log.thy ===== *)
theory Sanitizer_Log
  imports Triage Artifact_Crypto Go_Regexp
begin

text \<open>
  \<^verbatim>\<open>internal/research/triage/parser.go\<close>: the parser that turns a bounded, hostile worker log into a
  crash observation with an address-independent signature.
\<close>

section \<open>Patterns\<close>

definition MaxLogBytes :: int where
  "MaxLogBytes = 4 * 2 ^ 20"

definition MaxLogLines :: int where
  "MaxLogLines = 20000"

definition MaxFrames :: nat where
  "MaxFrames = 100"

definition bugName :: regexp where
  "bugName = RGroup 1 (rPlus True (RRune (\<lambda>r. wordRune r \<or> r = 45)))"

definition asanError :: regexp where
  "asanError = RSeq (rText ''ERROR: AddressSanitizer: '') bugName"

definition asanSummary :: regexp where
  "asanSummary = rSeq [rText ''SUMMARY: AddressSanitizer: '', bugName, RStar True rSpace, RGroup 2 (RStar True rAnyRune)]"

definition msanWarning :: regexp where
  "msanWarning = RSeq (rText ''WARNING: MemorySanitizer: '') bugName"

definition accessPattern :: regexp where
  "accessPattern = rSeq [RWordBoundary, RGroup 1 (RAlt (rText ''READ'') (rText ''WRITE'')), rText '' of size '',
     RGroup 2 (rPlus True rDigit), RWordBoundary]"

definition frameStart :: regexp where
  "frameStart = rSeq [RBeginText, RStar True rSpace, rChar (CHR ''#''), RGroup 1 (rPlus True rDigit), rPlus True rSpace,
     RGroup 2 (RSeq (rText ''0x'') (rPlus True rHex)), rPlus True rSpace]"

definition lineSuffix :: regexp where
  "lineSuffix = rOpt (RSeq (rChar (CHR '':'')) (rPlus True rDigit))"

definition stackPattern :: regexp where
  "stackPattern = rSeq [frameStart, rText ''in'', rPlus True rSpace, RGroup 3 (rPlus False rAnyRune),
     rOpt (rSeq [rPlus True rSpace, RGroup 4 (rPlus True (rNoneOf '' '')), rChar (CHR '':''), RGroup 5 (rPlus True rDigit), lineSuffix]),
     RStar True rSpace, REndText]"

definition stackNoIn :: regexp where
  "stackNoIn = rSeq [frameStart, rChar (CHR ''(''), RGroup 3 (rPlus True (rNoneOf ''+()'')),
     rOpt (RSeq (rChar (CHR ''+'')) (RStar True (rNoneOf ''()''))), rChar (CHR '')''), RStar True rSpace, REndText]"

definition ubsanPattern :: regexp where
  "ubsanPattern = rSeq [RBeginText, RGroup 1 (rPlus True (rNoneOf [CHR '':'', CHR 0x0A])), rChar (CHR '':''), RGroup 2 (rPlus True rDigit), lineSuffix,
     rText '': runtime error: '', RGroup 3 (rPlus True rAnyRune), REndText]"

definition assertionPattern :: regexp where
  "assertionPattern = RGroup 1 (RAlt (rSeq [rFoldText ''assertion '', RStar True rAnyRune, rFoldText '' failed''])
     (rSeq [rFoldText ''assert('', rPlus True (rNoneOf [CHR 0x0A]), rFoldText '') failed'']))"

section \<open>Text\<close>

definition normalizeSpace :: "string \<Rightarrow> string" where
  "normalizeSpace s = strJoin '' '' (Go_Strings.fields s)"

definition cutAtParen :: "string \<Rightarrow> string" where
  "cutAtParen s = (let n = length (takeWhile (\<lambda>c. c \<noteq> CHR ''('') s) in if 0 < n \<and> n < length s then take n s else s)"

definition normalizeFunction :: "string \<Rightarrow> string" where
  "normalizeFunction s = trimSpace (cutAtParen (normalizeSpace s))"

text \<open>\<^verbatim>\<open>strconv.ParseInt\<close> of digits with the error dropped: the largest number where the value is out of range.\<close>

definition parseDecimal :: "string \<Rightarrow> int" where
  "parseDecimal s = min (2 ^ 63 - 1) (foldl (\<lambda>n c. 10 * n + (byteVal c - 48)) 0 s)"

definition summaryFor :: "ObservationClass \<Rightarrow> string" where
  "summaryFor cls = (if cls = ObservationUnclassified then ''unclassified worker observation''
     else replaceAll (observationClassText cls) ''_'' '' '')"

section \<open>One line\<close>

definition whenMatch :: "regexp \<Rightarrow> string \<Rightarrow> ((nat \<Rightarrow> string) \<Rightarrow> CrashObservation \<Rightarrow> CrashObservation) \<Rightarrow> CrashObservation \<Rightarrow> CrashObservation" where
  "whenMatch re line f ob = (case findSubmatch re line of None \<Rightarrow> ob | Some g \<Rightarrow> f g ob)"

definition whenever :: "bool \<Rightarrow> (CrashObservation \<Rightarrow> CrashObservation) \<Rightarrow> CrashObservation \<Rightarrow> CrashObservation" where
  "whenever p f ob = (if p then f ob else ob)"

definition classify :: "ObservationClass \<Rightarrow> string \<Rightarrow> string \<Rightarrow> CrashObservation \<Rightarrow> CrashObservation" where
  "classify cls bug summary ob = ob\<lparr>Crash_Class := cls, Crash_BugType := bug, Crash_Summary := summary\<rparr>"

definition ubsanLine :: "(nat \<Rightarrow> string) \<Rightarrow> CrashObservation \<Rightarrow> CrashObservation" where
  "ubsanLine g ob =
     (if Crash_Class ob = ObservationUnclassified
      then (classify ObservationUBSan (normalizeSpace (g 3)) (''UndefinedBehaviorSanitizer: '' @ normalizeSpace (g 3)) ob)
        \<lparr>Crash_Sanitizer := ''undefined'',
         Crash_Frames := Crash_Frames ob @ [\<lparr>Frame_Index = 0, Frame_Function = [], Frame_File = g 1, Frame_Line = parseDecimal (g 2),
           Frame_Module = [], Frame_Address = []\<rparr>]\<rparr>
      else ob)"

definition signalLine :: "string \<Rightarrow> string \<Rightarrow> CrashObservation \<Rightarrow> CrashObservation" where
  "signalLine line lower ob =
     whenever (Crash_Class ob = ObservationUnclassified \<and>
         (strContains line ''AddressSanitizer:DEADLYSIGNAL'' \<or> strContains lower ''segmentation fault'' \<or> strContains lower ''libfuzzer: deadly signal''))
       (\<lambda>ob. (classify ObservationSignal ''signal'' ''process terminated by signal'' ob)\<lparr>Crash_Signal := ''SIGSEGV''\<rparr>) ob"

definition sanitizerLines :: "string \<Rightarrow> CrashObservation \<Rightarrow> CrashObservation" where
  "sanitizerLines line ob =
     whenMatch msanWarning line (\<lambda>g ob. (classify ObservationMSanMemory (g 1) (''MemorySanitizer: '' @ g 1) ob)\<lparr>Crash_Sanitizer := ''memory''\<rparr>)
     (whenMatch asanSummary line (\<lambda>g ob.
        (classify ObservationASanMemory (g 1) (trimSpace (''AddressSanitizer: '' @ g 1 @ '' '' @ g 2)) ob)\<lparr>Crash_Sanitizer := ''address''\<rparr>)
     (whenMatch asanError line (\<lambda>g ob. (classify ObservationASanMemory (g 1) (''AddressSanitizer: '' @ g 1) ob)\<lparr>Crash_Sanitizer := ''address''\<rparr>) ob))"

definition classifyLine :: "Host \<Rightarrow> string \<Rightarrow> CrashObservation \<Rightarrow> CrashObservation" where
  "classifyLine h line ob0 =
     (let lower = toLower (host_lower h) line;
          ob1 = sanitizerLines line ob0;
          ob2 = whenMatch accessPattern line (\<lambda>g ob. ob\<lparr>Crash_Access := toLower (host_lower h) (g 1), Crash_AccessSize := parseDecimal (g 2)\<rparr>) ob1;
          ob3 = whenMatch ubsanPattern line ubsanLine ob2;
          ob4 = whenever (strContains lower ''libfuzzer: timeout'' \<or> strContains lower ''timeout after'')
                  (classify ObservationTimeout ''timeout'' ''worker timeout'') ob3;
          ob5 = whenever (strContains lower ''libfuzzer: out-of-memory'' \<or> strContains lower ''out of memory'' \<or> strContains lower ''out-of-memory'')
                  (classify ObservationOOM ''out-of-memory'' ''worker out of memory'') ob4;
          ob6 = whenever (strContains line ''LeakSanitizer: detected memory leaks'')
                  (\<lambda>ob. (classify ObservationLeak ''memory-leak'' ''LeakSanitizer: memory leak'' ob)\<lparr>Crash_Sanitizer := ''leak''\<rparr>) ob5;
          ob7 = whenever (findString assertionPattern line \<noteq> [])
                  (classify ObservationAssertion ''assertion'' (normalizeSpace (findString assertionPattern line))) ob6
      in signalLine line lower ob7)"

definition parseFrame :: "Host \<Rightarrow> string \<Rightarrow> StackFrame option" where
  "parseFrame h line =
     (case findSubmatch stackPattern line of
        Some g \<Rightarrow> Some \<lparr>Frame_Index = parseDecimal (g 1), Frame_Function = normalizeFunction (g 3), Frame_File = g 4,
          Frame_Line = parseDecimal (g 5), Frame_Module = [], Frame_Address = toLower (host_lower h) (g 2)\<rparr>
      | None \<Rightarrow>
          (case findSubmatch stackNoIn line of
             Some g \<Rightarrow> Some \<lparr>Frame_Index = parseDecimal (g 1), Frame_Function = [], Frame_File = [], Frame_Line = 0,
               Frame_Module = baseName (g 3), Frame_Address = toLower (host_lower h) (g 2)\<rparr>
           | None \<Rightarrow> None))"

section \<open>The signature\<close>

definition ignoredFrame :: "Host \<Rightarrow> StackFrame \<Rightarrow> bool" where
  "ignoredFrame h f \<longleftrightarrow>
     (let value = toLower (host_lower h) (Frame_Function f @ '' '' @ Frame_Module f) in
      list_ex (strContains value) [''__asan'', ''__msan'', ''libfuzzer'', ''fuzzer::'', ''start_thread'', ''libc_start''])"

definition frameParts :: "StackFrame \<Rightarrow> string list" where
  "frameParts f = [normalizeFunction (Frame_Function f), baseName (Frame_File f), showInt (Frame_Line f), baseName (Frame_Module f)]"

definition signatureParts :: "Host \<Rightarrow> CrashObservation \<Rightarrow> string list" where
  "signatureParts h ob =
     [observationClassText (Crash_Class ob), toLower (host_lower h) (Crash_BugType ob), Crash_Access ob, showInt (Crash_AccessSize ob)] @
     concat (map frameParts (take 5 (filter (\<lambda>f. \<not> ignoredFrame h f) (Crash_Frames ob))))"

definition signature :: "Host \<Rightarrow> (string \<Rightarrow> string) \<Rightarrow> CrashObservation \<Rightarrow> string" where
  "signature h sha ob = ''sha256:'' @ hexEncode (sha (strJoin [CHR 0x00] (signatureParts h ob)))"

section \<open>The log\<close>

record ParseOptions =
  Opt_ID :: string
  Opt_CampaignID :: string
  Opt_RunID :: string
  Opt_BuildID :: string
  Opt_InputArtifactID :: string
  Opt_CreatedAt :: time

text \<open>
  \<^verbatim>\<open>bufio.Scanner\<close> with lines: the text between newlines, without a last empty line. A line that does
  not fit into the buffer of one megabyte ends the scan with an error.
\<close>

definition logLines :: "string \<Rightarrow> string list" where
  "logLines log = (let ls = splitChar (CHR 0x0A) log in if last ls = [] then butlast ls else ls)"

definition maxToken :: int where
  "maxToken = 2 ^ 20"

definition dropCR :: "string \<Rightarrow> string" where
  "dropCR s = (if s \<noteq> [] \<and> last s = CHR 0x0D then butlast s else s)"

definition addFrame :: "Host \<Rightarrow> string \<Rightarrow> CrashObservation \<Rightarrow> CrashObservation" where
  "addFrame h line ob =
     (if length (Crash_Frames ob) < MaxFrames
      then (case parseFrame h line of None \<Rightarrow> ob | Some f \<Rightarrow> ob\<lparr>Crash_Frames := Crash_Frames ob @ [f]\<rparr>)
      else ob)"

fun scanLog :: "Host \<Rightarrow> int \<Rightarrow> string list \<Rightarrow> CrashObservation \<Rightarrow> CrashObservation result" where
  "scanLog h n [] ob = Inr ob"
| "scanLog h n (l # ls) ob =
     (if int (length l) \<ge> maxToken then Inl (Err ''research triage: scan log: bufio.Scanner: token too long'')
      else if n + 1 > MaxLogLines then Inl ErrLogTooLarge
      else let line = trimSpace (dropCR l) in scanLog h (n + 1) ls (addFrame h line (classifyLine h line ob)))"

definition newObservation :: "ParseOptions \<Rightarrow> time \<Rightarrow> CrashObservation" where
  "newObservation opts created =
     \<lparr>Crash_SchemaVersion = 1, Crash_ID = Opt_ID opts, Crash_CampaignID = Opt_CampaignID opts, Crash_RunID = Opt_RunID opts,
      Crash_BuildID = Opt_BuildID opts, Crash_InputArtifactID = Opt_InputArtifactID opts, Crash_Class = ObservationUnclassified,
      Crash_Sanitizer = [], Crash_BugType = [], Crash_Access = [], Crash_AccessSize = 0, Crash_Signal = [], Crash_Summary = [],
      Crash_Frames = [], Crash_Signature = [], Crash_Deterministic = False, Crash_ReproCount = 0, Crash_SecurityRelevant = False,
      Crash_CreatedAt = created\<rparr>"

definition finishObservation :: "Host \<Rightarrow> (string \<Rightarrow> string) \<Rightarrow> CrashObservation \<Rightarrow> CrashObservation" where
  "finishObservation h sha ob =
     (let ob1 = (if Crash_Summary ob = [] then ob\<lparr>Crash_Summary := summaryFor (Crash_Class ob)\<rparr> else ob);
          ob2 = ob1\<lparr>Crash_SecurityRelevant := Crash_Class ob1 = ObservationASanMemory \<or> Crash_Class ob1 = ObservationMSanMemory\<rparr>
      in ob2\<lparr>Crash_Signature := signature h sha ob2\<rparr>)"

definition parseLog :: "Host \<Rightarrow> (string \<Rightarrow> string) \<Rightarrow> string \<Rightarrow> ParseOptions \<Rightarrow> CrashObservation result" where
  "parseLog h sha log opts =
     (if int (length log) > MaxLogBytes then Inl ErrLogTooLarge
      else if Opt_ID opts = [] \<or> Opt_CampaignID opts = [] \<or> Opt_RunID opts = [] \<or> Opt_BuildID opts = []
      then Inl (Err ''research triage: observation, campaign, run, and build ids required'')
      else
        rbind (scanLog h 0 (logLines log) (newObservation opts (if isZero (Opt_CreatedAt opts) then host_clock h else Opt_CreatedAt opts)))
          (\<lambda>ob. Inr (finishObservation h sha ob)))"

section \<open>What the patterns say about the text\<close>

lemma decodeRune_ascii:
  assumes "fst (decodeRune s) = byteVal c" "byteVal c < 128" "s \<noteq> []"
  shows "s = c # drop (snd (decodeRune s)) s"
proof (cases s)
  case (Cons b0 r)
  have "byteVal b0 < 128 \<Longrightarrow> b0 = c" using assms(1) Cons by (simp add: decodeRune_def byteVal_def of_char_eq_iff)
  moreover have "byteVal b0 < 128"
  proof (rule ccontr)
    assume big: "\<not> byteVal b0 < 128"
    have "128 \<le> fst (decodeRune s)"
      using big Cons by (auto simp: decodeRune_def Let_def runeError_def contByte_def split: list.splits if_splits)
    with assms(1,2) show False by simp
  qed
  ultimately show ?thesis using Cons by (simp add: decodeRune_def)
qed (use assms in simp)

lemma ways_rChar: "st' \<in> set (ways (rChar c) st) \<Longrightarrow> byteVal c < 128 \<Longrightarrow> sc_rest st = c # sc_rest st'"
  using decodeRune_ascii [of "sc_rest st" c] by (auto simp: rChar_def stepRune_def case_prod_beta split: if_splits)

lemma ways_rText: "st' \<in> set (ways (rText s) st) \<Longrightarrow> isASCII s \<Longrightarrow> sc_rest st = s @ sc_rest st'"
proof (induction s arbitrary: st)
  case Nil
  then show ?case by (simp add: rText_def)
next
  case (Cons c cs)
  have c: "byteVal c < 128" and cs: "isASCII cs" using Cons.prems(2) by (auto simp: isASCII_def byteVal_def)
  show ?case
  proof (cases cs)
    case Nil
    with Cons.prems(1) ways_rChar [OF _ c] show ?thesis by (simp add: rText_def)
  next
    case (Cons d ds)
    then have "ways (rText (c # cs)) st = concat (map (ways (rText cs)) (ways (rChar c) st))" by (simp add: rText_def)
    with Cons.prems(1) obtain st1 where "st1 \<in> set (ways (rChar c) st)" "st' \<in> set (ways (rText cs) st1)" by auto
    with ways_rChar [OF _ c] Cons.IH [OF _ cs] show ?thesis by simp
  qed
qed

text \<open>A sanitizer pattern finds its heading, followed by the name of the bug.\<close>

lemma bugName_text:
  assumes "st' \<in> set (ways bugName st)"
  shows "\<exists>t. map_of (sc_groups st') 1 = Some t \<and> sc_rest st = t @ sc_rest st'"
proof -
  from assms obtain st1 where st1: "st1 \<in> set (ways (rPlus True (RRune (\<lambda>r. wordRune r \<or> r = 45))) st)"
    "st' = st1\<lparr>sc_groups := (1, take (length (sc_rest st) - length (sc_rest st1)) (sc_rest st)) # sc_groups st1\<rparr>"
    by (auto simp: bugName_def)
  from ways_reaches [OF st1(1)] obtain t where "sc_rest st = t @ sc_rest st1" by (auto simp: reaches_def)
  with st1(2) show ?thesis by simp
qed

lemma heading_found:
  assumes "findSubmatch re line = Some g" "isASCII s" "re = RSeq (rText s) bugName \<or> re = RSeq (rText s) (RSeq bugName r) \<and> 1 \<notin> groupsOf r"
  shows "\<exists>a b. line = a @ s @ g 1 @ b"
proof -
  from assms(1) obtain st1 st2 where f: "findFrom re (scanStart line) = Some (st1, st2)"
    and g: "g 1 = (case map_of (sc_groups st2) 1 of None \<Rightarrow> [] | Some t \<Rightarrow> t)"
    by (auto simp: findSubmatch_def)
  from findFrom_reaches [OF f] obtain a where a: "line = a @ sc_rest st1" by (auto simp: reaches_def scanStart_def)
  obtain st st3 where st: "st \<in> set (ways (rText s) st1)" "st3 \<in> set (ways bugName st)" "map_of (sc_groups st2) 1 = map_of (sc_groups st3) 1"
    using assms(3) findFrom_way [OF f] closes_other [OF ways_closes] by fastforce
  from bugName_text [OF st(2)] obtain t where t: "map_of (sc_groups st3) 1 = Some t" "sc_rest st = t @ sc_rest st3" by blast
  have "g 1 = t" using g t(1) st(3) by simp
  with a ways_rText [OF st(1) assms(2)] t(2) show ?thesis by auto
qed

lemma part_of_heading: "\<exists>a b. line = a @ (h @ s) @ t @ b \<Longrightarrow> \<exists>a b. line = a @ s @ t @ b"
  by (metis append.assoc)

lemma asanError_found: "findSubmatch asanError line = Some g \<Longrightarrow> \<exists>a b. line = a @ ''AddressSanitizer: '' @ g 1 @ b"
  by (rule part_of_heading [where h = "''ERROR: ''"], rule heading_found [OF _ _ disjI1], assumption)
    (simp_all add: isASCII_def asanError_def)

lemma asanSummary_found: "findSubmatch asanSummary line = Some g \<Longrightarrow> \<exists>a b. line = a @ ''AddressSanitizer: '' @ g 1 @ b"
proof -
  have groups: "1 \<notin> groupsOf (RSeq (RStar True rSpace) (RGroup 2 (RStar True rAnyRune)))" by (simp add: rSpace_def rAnyRune_def)
  have eq: "asanSummary = RSeq (rText (''SUMMARY: '' @ ''AddressSanitizer: '')) (RSeq bugName (RSeq (RStar True rSpace) (RGroup 2 (RStar True rAnyRune))))"
    by (simp add: asanSummary_def)
  have ascii: "isASCII (''SUMMARY: '' @ ''AddressSanitizer: '')" by (simp add: isASCII_def)
  assume "findSubmatch asanSummary line = Some g"
  from part_of_heading [OF heading_found [OF this ascii disjI2 [OF conjI [OF eq groups]]]] show ?thesis .
qed

lemma msanWarning_found: "findSubmatch msanWarning line = Some g \<Longrightarrow> \<exists>a b. line = a @ ''MemorySanitizer: '' @ g 1 @ b"
  by (rule part_of_heading [where h = "''WARNING: ''"], rule heading_found [OF _ _ disjI1], assumption)
    (simp_all add: isASCII_def msanWarning_def)

section \<open>Stages of a line\<close>

text \<open>A stage of \<open>classifyLine\<close> leaves the frames alone, and a classified observation stays classified.\<close>

definition kept :: "CrashObservation \<Rightarrow> CrashObservation \<Rightarrow> bool" where
  "kept ob ob' \<longleftrightarrow> Crash_Frames ob' = Crash_Frames ob \<and> (Crash_Class ob \<noteq> ObservationUnclassified \<longrightarrow> Crash_Class ob' \<noteq> ObservationUnclassified)"

text \<open>The class and the name of a memory error are backed by one of the lines.\<close>

definition backed :: "string set \<Rightarrow> CrashObservation \<Rightarrow> bool" where
  "backed L ob \<longleftrightarrow>
     (Crash_Class ob = ObservationASanMemory \<longrightarrow> (\<exists>l \<in> L. \<exists>a b. l = a @ ''AddressSanitizer: '' @ Crash_BugType ob @ b)) \<and>
     (Crash_Class ob = ObservationMSanMemory \<longrightarrow> (\<exists>l \<in> L. \<exists>a b. l = a @ ''MemorySanitizer: '' @ Crash_BugType ob @ b))"

lemma kept_refl [simp]: "kept ob ob"
  by (simp add: kept_def)

lemma kept_trans: "kept a b \<Longrightarrow> kept b c \<Longrightarrow> kept a c"
  by (simp add: kept_def)

lemma kept_whenMatch: "(\<And>g ob. kept ob (f g ob)) \<Longrightarrow> kept ob (whenMatch re line f ob)"
  by (simp add: whenMatch_def split: option.splits)

lemma kept_whenever: "(\<And>ob. kept ob (f ob)) \<Longrightarrow> kept ob (whenever p f ob)"
  by (simp add: whenever_def)

lemma kept_classify: "cls \<noteq> ObservationUnclassified \<Longrightarrow> kept ob (classify cls bug summary ob)"
  by (simp add: kept_def classify_def)

lemma kept_sanitizerLines: "kept ob (sanitizerLines line ob)"
proof -
  have step: "kept ob (whenMatch re line (\<lambda>g ob. (classify cls (h g) (k g) ob)\<lparr>Crash_Sanitizer := sn\<rparr>) ob)"
    if "cls \<noteq> ObservationUnclassified" for re cls h k sn ob
    by (rule kept_whenMatch) (use that in \<open>simp add: kept_def classify_def\<close>)
  show ?thesis unfolding sanitizerLines_def by (rule kept_trans [OF kept_trans [OF step step] step]) simp_all
qed

lemma backed_classify: "cls \<noteq> ObservationASanMemory \<Longrightarrow> cls \<noteq> ObservationMSanMemory \<Longrightarrow> backed L (classify cls bug summary ob)"
  by (simp add: backed_def classify_def)

lemma backed_whenever: "backed L ob \<Longrightarrow> (\<And>ob. backed L (f ob)) \<Longrightarrow> backed L (whenever p f ob)"
  by (simp add: whenever_def)

lemma backed_mono: "backed L ob \<Longrightarrow> L \<subseteq> M \<Longrightarrow> backed M ob"
  unfolding backed_def by blast

lemma backed_same: "Crash_Class ob' = Crash_Class ob \<Longrightarrow> Crash_BugType ob' = Crash_BugType ob \<Longrightarrow> backed L ob' = backed L ob"
  by (simp add: backed_def)

lemma backed_sanitizerLines:
  assumes "backed L ob" "line \<in> L"
  shows "backed L (sanitizerLines line ob)"
proof -
  have asan: "backed L (whenMatch re line (\<lambda>g ob. (classify ObservationASanMemory (g 1) (k g) ob)\<lparr>Crash_Sanitizer := sn\<rparr>) ob')"
    if "backed L ob'" "\<And>g. findSubmatch re line = Some g \<Longrightarrow> \<exists>a b. line = a @ ''AddressSanitizer: '' @ g 1 @ b" for re k sn ob'
    using that assms(2) by (auto simp: whenMatch_def backed_def classify_def split: option.splits)
  have msan: "backed L (whenMatch re line (\<lambda>g ob. (classify ObservationMSanMemory (g 1) (k g) ob)\<lparr>Crash_Sanitizer := sn\<rparr>) ob')"
    if "backed L ob'" "\<And>g. findSubmatch re line = Some g \<Longrightarrow> \<exists>a b. line = a @ ''MemorySanitizer: '' @ g 1 @ b" for re k sn ob'
    using that assms(2) by (auto simp: whenMatch_def backed_def classify_def split: option.splits)
  show ?thesis unfolding sanitizerLines_def
    by (intro msan asan assms(1) asanError_found asanSummary_found msanWarning_found)
qed

lemma backed_classifyLine:
  assumes "backed L ob" "line \<in> L"
  shows "backed L (classifyLine h line ob)"
proof -
  have access: "backed L (whenMatch re line (\<lambda>g ob. ob\<lparr>Crash_Access := x g, Crash_AccessSize := y g\<rparr>) ob')" if "backed L ob'" for re x y ob'
    using that by (simp add: whenMatch_def backed_def split: option.splits)
  have ubsan: "backed L (whenMatch re line ubsanLine ob')" if "backed L ob'" for re ob'
    using that by (auto simp: whenMatch_def ubsanLine_def backed_def classify_def split: option.splits)
  have signal: "backed L (signalLine line lower ob')" if "backed L ob'" for lower ob'
    using that by (simp add: signalLine_def whenever_def backed_def classify_def)
  have leak: "backed L ((classify ObservationLeak bug summary ob')\<lparr>Crash_Sanitizer := sn\<rparr>)" for bug summary sn ob'
    by (simp add: backed_def classify_def)
  show ?thesis
    unfolding classifyLine_def Let_def
    by (intro signal backed_whenever backed_classify leak ubsan access backed_sanitizerLines assms) simp_all
qed

text \<open>A line adds at most one frame of its own, and only to an observation that it classifies.\<close>

definition framesOK :: "CrashObservation \<Rightarrow> bool" where
  "framesOK ob \<longleftrightarrow> length (Crash_Frames ob) \<le> MaxFrames + (if Crash_Class ob = ObservationUnclassified then 0 else 1)"

lemma framesOK_kept: "kept ob ob' \<Longrightarrow> framesOK ob \<Longrightarrow> framesOK ob'"
  by (auto simp: kept_def framesOK_def split: if_splits)

lemma framesOK_ubsan: "framesOK ob \<Longrightarrow> framesOK (whenMatch re line ubsanLine ob)"
  by (auto simp: framesOK_def whenMatch_def ubsanLine_def classify_def split: option.splits if_splits)

lemma framesOK_classifyLine: "framesOK ob \<Longrightarrow> framesOK (classifyLine h line ob)"
proof -
  assume "framesOK ob"
  then have 1: "framesOK (sanitizerLines line ob)" by (rule framesOK_kept [OF kept_sanitizerLines])
  have access: "kept ob (whenMatch re line (\<lambda>g ob. ob\<lparr>Crash_Access := x g, Crash_AccessSize := y g\<rparr>) ob)" for re x y ob
    by (rule kept_whenMatch) (simp add: kept_def)
  have leak: "kept ob ((classify ObservationLeak bug summary ob)\<lparr>Crash_Sanitizer := sn\<rparr>)" for bug summary sn ob
    by (simp add: kept_def classify_def)
  have signal: "kept ob (signalLine line lower ob)" for lower ob
    by (simp add: signalLine_def whenever_def kept_def classify_def)
  show ?thesis
    unfolding classifyLine_def Let_def
    by (intro framesOK_kept [OF signal] framesOK_kept [OF kept_whenever] framesOK_ubsan framesOK_kept [OF access] 1 kept_classify leak)
      simp_all
qed

lemma framesOK_addFrame: "framesOK ob \<Longrightarrow> framesOK (addFrame h line ob)"
  by (auto simp: framesOK_def addFrame_def split: option.splits)

lemma addFrame_same [simp]: "Crash_Class (addFrame h line ob) = Crash_Class ob" "Crash_BugType (addFrame h line ob) = Crash_BugType ob"
  by (simp_all add: addFrame_def split: option.splits)

lemma scanLog_Inr_iff:
  "(\<exists>ob'. scanLog h n ls ob = Inr ob') \<longleftrightarrow> (\<forall>l \<in> set ls. int (length l) < maxToken) \<and> (ls \<noteq> [] \<longrightarrow> n + int (length ls) \<le> MaxLogLines)"
proof (induction ls arbitrary: n ob)
  case (Cons l ls)
  show ?case
  proof (cases "int (length l) < maxToken \<and> n + 1 \<le> MaxLogLines")
    case True
    then show ?thesis using Cons.IH [of "n + 1"] by (cases ls) (auto simp: Let_def)
  next
    case False
    then show ?thesis by auto
  qed
qed simp

lemma scanLog_keeps:
  assumes "scanLog h n ls ob = Inr ob'" "framesOK ob" "backed L ob" "\<And>l. l \<in> set ls \<Longrightarrow> trimSpace (dropCR l) \<in> L"
  shows "framesOK ob' \<and> backed L ob'"
  using assms
proof (induction ls arbitrary: n ob)
  case (Cons l ls)
  let ?line = "trimSpace (dropCR l)"
  let ?ob = "addFrame h ?line (classifyLine h ?line ob)"
  have s: "scanLog h (n + 1) ls ?ob = Inr ob'" using Cons.prems(1) by (simp add: Let_def split: if_splits)
  show ?case
  proof (rule Cons.IH [OF s])
    show "framesOK ?ob" by (intro framesOK_addFrame framesOK_classifyLine Cons.prems(2))
    have "backed L (classifyLine h ?line ob)" using Cons.prems(3,4) by (intro backed_classifyLine) simp_all
    then show "backed L ?ob" by (simp add: backed_def)
  qed (use Cons.prems(4) in simp)
qed simp

section \<open>Properties\<close>

lemma parseLog_Inr:
  assumes "parseLog h sha log opts = Inr ob"
  obtains ob0 created where "scanLog h 0 (logLines log) (newObservation opts created) = Inr ob0" "ob = finishObservation h sha ob0"
  using assms by (auto simp: parseLog_def rbind_def split: if_splits sum.splits)

lemma finish_same: "Crash_Class (finishObservation h sha ob) = Crash_Class ob" "Crash_BugType (finishObservation h sha ob) = Crash_BugType ob"
  "Crash_Frames (finishObservation h sha ob) = Crash_Frames ob"
  by (simp_all add: finishObservation_def Let_def)

lemma parseLog_keeps:
  assumes "parseLog h sha log opts = Inr ob"
  shows "framesOK ob \<and> backed ((\<lambda>l. trimSpace (dropCR l)) ` set (logLines log)) ob"
proof -
  obtain ob0 created where s: "scanLog h 0 (logLines log) (newObservation opts created) = Inr ob0" and ob: "ob = finishObservation h sha ob0"
    by (rule parseLog_Inr [OF assms])
  have "framesOK ob0 \<and> backed ((\<lambda>l. trimSpace (dropCR l)) ` set (logLines log)) ob0"
    by (rule scanLog_keeps [OF s]) (simp_all add: framesOK_def backed_def newObservation_def)
  then show ?thesis by (simp add: ob framesOK_def backed_def finish_same)
qed

definition sampleOptions :: ParseOptions where
  "sampleOptions = \<lparr>Opt_ID = ''o1'', Opt_CampaignID = ''c1'', Opt_RunID = ''r1'', Opt_BuildID = ''b1'', Opt_InputArtifactID = ''a1'', Opt_CreatedAt = 7\<rparr>"

definition crashLog :: string where
  "crashLog = ''ERROR: AddressSanitizer: uaf''"

definition sampleParse :: "CrashObservation option" where
  "sampleParse = (case parseLog sampleHost (take 4) crashLog sampleOptions of Inl _ \<Rightarrow> None | Inr ob \<Rightarrow> Some ob)"

text \<open>
  C27. The parser invents no security evidence. An observation that counts as security relevant was
  classified by a line of the log that names AddressSanitizer or MemorySanitizer followed by exactly
  the bug type of the observation.
\<close>

theorem security_observation_is_in_the_log:
  assumes "parseLog h sha log opts = Inr ob" "Crash_SecurityRelevant ob"
  shows "\<exists>l \<in> set (logLines log). \<exists>a b.
    Crash_Class ob = ObservationASanMemory \<and> trimSpace (dropCR l) = a @ ''AddressSanitizer: '' @ Crash_BugType ob @ b \<or>
    Crash_Class ob = ObservationMSanMemory \<and> trimSpace (dropCR l) = a @ ''MemorySanitizer: '' @ Crash_BugType ob @ b"
proof -
  obtain ob0 created where ob: "ob = finishObservation h sha ob0" by (rule parseLog_Inr [OF assms(1)])
  with assms(2) have "Crash_Class ob = ObservationASanMemory \<or> Crash_Class ob = ObservationMSanMemory"
    by (auto simp: finishObservation_def Let_def split: if_splits)
  with parseLog_keeps [OF assms(1)] show ?thesis unfolding backed_def by blast
qed

theorem security_observation_is_in_the_log_witness:
  "map_option (\<lambda>ob. (Crash_SecurityRelevant ob, Crash_BugType ob)) sampleParse = Some (True, ''uaf'') \<and>
   (\<exists>l \<in> set (logLines crashLog). \<exists>a b. trimSpace (dropCR l) = a @ ''AddressSanitizer: '' @ ''uaf'' @ b \<or>
      trimSpace (dropCR l) = a @ ''MemorySanitizer: '' @ ''uaf'' @ b)"
proof -
  have s: "map_option (\<lambda>ob. (Crash_SecurityRelevant ob, Crash_BugType ob)) sampleParse = Some (True, ''uaf'')" by code_simp
  then obtain ob where ob: "parseLog sampleHost (take 4) crashLog sampleOptions = Inr ob" "Crash_SecurityRelevant ob"
    "Crash_BugType ob = ''uaf''"
    by (auto simp: sampleParse_def split: sum.splits)
  from security_observation_is_in_the_log [OF ob(1,2)] s show ?thesis unfolding ob(3) by blast
qed


text \<open>
  The signature does not depend on addresses, frame numbers, or which run and input produced the
  observation.
\<close>

definition rebased :: "(StackFrame \<Rightarrow> string) \<Rightarrow> (StackFrame \<Rightarrow> int) \<Rightarrow> StackFrame \<Rightarrow> StackFrame" where
  "rebased addr num f = f\<lparr>Frame_Address := addr f, Frame_Index := num f\<rparr>"

lemma rebased_frame [simp]: "frameParts (rebased addr num f) = frameParts f" "ignoredFrame h (rebased addr num f) = ignoredFrame h f"
  by (simp_all add: frameParts_def ignoredFrame_def rebased_def)

lemma signature_ignores_addresses:
  assumes "Crash_Class ob' = Crash_Class ob" "Crash_BugType ob' = Crash_BugType ob" "Crash_Access ob' = Crash_Access ob"
    "Crash_AccessSize ob' = Crash_AccessSize ob" "Crash_Frames ob' = map (rebased addr num) (Crash_Frames ob)"
  shows "signature h sha ob' = signature h sha ob"
proof -
  have "filter (\<lambda>f. \<not> ignoredFrame h f) (map (rebased addr num) fs) = map (rebased addr num) (filter (\<lambda>f. \<not> ignoredFrame h f) fs)" for fs
    by (simp add: filter_map comp_def)
  then have "concat (map frameParts (take 5 (filter (\<lambda>f. \<not> ignoredFrame h f) (Crash_Frames ob')))) =
      concat (map frameParts (take 5 (filter (\<lambda>f. \<not> ignoredFrame h f) (Crash_Frames ob))))"
    by (simp add: assms(5) take_map comp_def)
  with assms(1-4) show ?thesis by (simp add: signature_def signatureParts_def)
qed

text \<open>
  The greedy file group of \<^verbatim>\<open>stackPattern\<close> takes the line number along when a frame carries a column,
  as symbolized frames do: the file keeps the line and the column is recorded as the line.
\<close>

lemma column_is_taken_for_line:
  "map_option (\<lambda>f. (Frame_File f, Frame_Line f)) (parseFrame sampleHost ''#0 0x5 in f /a.c:16:38'') = Some (''/a.c:16'', 38)"
  by code_simp

end
