(* ===== verification/Ingestion.thy ===== *)
theory Ingestion
  imports Pipeline Workflow Runner Sanitizer_Log
begin

text \<open>
  \<^verbatim>\<open>internal/research/pipeline/coordinator.go\<close>: the coordinator turns the result of a run into builds,
  crash observations, crash groups, primitives, findings and revision checks, and moves the campaign
  with them. Its state is the store and the tree of worker inputs below the root of the store.
\<close>

section \<open>State and configuration\<close>

text \<open>The tree of worker inputs, by path. Directories are entries only where the code looks at them.\<close>

record Work =
  wk_store :: Store
  wk_files :: "(string \<times> StagedEntry) list"

text \<open>
  The structured result of a revision comparison, and its strict JSON decoder: the value and what
  follows it, and whether that is white space only.
\<close>

record ComparisonResult =
  Cmp_SchemaVersion :: int
  Cmp_TargetRevision :: string
  Cmp_ReproducerExitCode :: int
  Cmp_SignalAbsent :: bool

text \<open>
  \<open>pc_Strings\<close> decodes one JSON object and keeps its members that are strings; \<open>pc_foldEqual\<close> is
  \<^verbatim>\<open>strings.EqualFold\<close> on texts that are not both ASCII.
\<close>

record PipelineConfig =
  pc_root :: string
  pc_store :: StoreConfig
  pc_minimum :: int
  pc_Comparison :: "string \<Rightarrow> (ComparisonResult \<times> string) option"
  pc_AtEOF :: "string \<Rightarrow> bool"
  pc_Strings :: "string \<Rightarrow> strmap option"
  pc_foldEqual :: "string \<Rightarrow> string \<Rightarrow> bool"

text \<open>\<^verbatim>\<open>New\<close>: the minimum number of reproductions is positive, and the machine has the same.\<close>

definition newCoordinator :: "int option \<Rightarrow> PipelineConfig \<Rightarrow> PipelineConfig" where
  "newCoordinator configured pc = pc\<lparr>pc_minimum := (case configured of None \<Rightarrow> 3 | Some n \<Rightarrow> if n > 0 then n else 3)\<rparr>"

definition pc_machine :: "PipelineConfig \<Rightarrow> StateMachine" where
  "pc_machine pc = \<lparr>MinimumReproductions = pc_minimum pc\<rparr>"

definition onStore :: "(Store, 'a) act \<Rightarrow> (Work, 'a) act" where
  "onStore m w = (case m (wk_store w) of (r, s) \<Rightarrow> (r, w\<lparr>wk_store := s\<rparr>))"

section \<open>Worker inputs\<close>

definition pipelineError :: "string \<Rightarrow> err" where
  "pipelineError m = Err (''research pipeline: '' @ m)"

definition safeSegment :: "string \<Rightarrow> bool" where
  "safeSegment s \<longleftrightarrow> 1 \<le> length s \<and> length s \<le> 160 \<and> list_all safeNameChar s"

definition workRoot :: "string \<Rightarrow> string" where
  "workRoot storeRoot = pathJoin [storeRoot, ''worker-inputs'']"

definition buildDirectory :: "string \<Rightarrow> string \<Rightarrow> string \<Rightarrow> string result" where
  "buildDirectory storeRoot campaignID buildID =
     (if \<not> safeSegment campaignID \<or> \<not> safeSegment buildID then Inl (pipelineError ''unsafe campaign or build id'')
      else Inr (pathJoin [workRoot storeRoot, campaignID, ''builds'', buildID]))"

definition prepareCorpus :: "string \<Rightarrow> string \<Rightarrow> string \<Rightarrow> (Work, string) act" where
  "prepareCorpus storeRoot campaignID harness w =
     (if \<not> safeSegment campaignID \<or> \<not> safeSegment harness then (Inl (pipelineError ''unsafe campaign or harness id''), w)
      else
        (let path = pathJoin [workRoot storeRoot, campaignID, ''corpora'', harness] in
         case map_of (wk_files w) path of
           None \<Rightarrow> (Inr path, w\<lparr>wk_files := AList.update path StagedDir (wk_files w)\<rparr>)
         | Some StagedDir \<Rightarrow> (Inr path, w)
         | Some _ \<Rightarrow> (Inl (pipelineError ''corpus path is not a real directory''), w)))"

definition evidenceDirectory :: "string \<Rightarrow> string \<Rightarrow> string \<Rightarrow> Operation \<Rightarrow> string result" where
  "evidenceDirectory storeRoot campaignID artifactID operation =
     (if \<not> safeSegment campaignID \<or> \<not> safeSegment artifactID \<or> \<not> isKnownOperation operation
      then Inl (pipelineError ''unsafe evidence identity'')
      else Inr (pathJoin [workRoot storeRoot, campaignID, ''evidence'', operationText operation @ ''-'' @ artifactID]))"

definition verifyMaterialized :: "Env \<Rightarrow> string \<Rightarrow> Artifact \<Rightarrow> (Work, unit) act" where
  "verifyMaterialized env path artifact = act_gets (\<lambda>w.
     case map_of (wk_files w) path of
       Some (StagedFile content) \<Rightarrow>
         if int (length content) \<noteq> Artifact_Size artifact then Inl (pipelineError ''materialized build metadata mismatch'')
         else if ''sha256:'' @ hexEncode (env_sha env content) \<noteq> Artifact_ContentID artifact
         then Inl (pipelineError ''materialized build content hash mismatch'')
         else Inr ()
     | _ \<Rightarrow> Inl (pipelineError ''materialized build metadata mismatch''))"

definition verifyBytes :: "Env \<Rightarrow> string \<Rightarrow> string \<Rightarrow> (Work, unit) act" where
  "verifyBytes env path expected = act_gets (\<lambda>w.
     case map_of (wk_files w) path of
       Some (StagedFile content) \<Rightarrow>
         if length content \<noteq> length expected then Inl (pipelineError ''materialized evidence metadata mismatch'')
         else if env_sha env content \<noteq> env_sha env expected then Inl (pipelineError ''materialized evidence content hash mismatch'')
         else Inr ()
     | _ \<Rightarrow> Inl (pipelineError ''materialized evidence metadata mismatch''))"

definition putFile :: "string \<Rightarrow> string \<Rightarrow> (Work, unit) act" where
  "putFile path content w = (Inr (), w\<lparr>wk_files := AList.update path (StagedFile content) (wk_files w)\<rparr>)"

definition addressPattern :: regexp where
  "addressPattern = RSeq (rText ''0x'') (rPlus True rHex)"

text \<open>The distinct addresses of a log in order of appearance, one to a line.\<close>

fun distinctLines :: "string list \<Rightarrow> string list \<Rightarrow> string" where
  "distinctLines seen [] = []"
| "distinctLines seen (v # vs) = (if v \<in> set seen then distinctLines seen vs else v @ [CHR 0x0A] @ distinctLines (v # seen) vs)"

definition symbolizationLimit :: int where
  "symbolizationLimit = 4 * 2 ^ 20"

text \<open>Which file an operation gets, whether the role of the artifact is allowed, and the bytes if they are derived.\<close>

definition evidenceShape :: "Operation \<Rightarrow> Artifact \<Rightarrow> string \<Rightarrow> (string \<times> bool \<times> string option) result" where
  "evidenceShape operation artifact content =
     (let role = Artifact_Role artifact; crashing = role = ''crashing_input'' \<or> role = ''minimized_input'' in
      if operation = OperationSymbolize then
        (if role = ''stderr_log'' \<or> role = ''revision_comparison_log'' \<or> role = ''regression_log'' then
           (if int (length content) > symbolizationLimit then Inl (pipelineError ''symbolization input exceeds limit'')
            else
              (let transformed = distinctLines [] (findAll addressPattern content) in
               if transformed = [] then Inl (pipelineError ''symbolization log contains no addresses'')
               else Inr (''addresses.txt'', True, Some transformed)))
         else Inr (''addresses.txt'', False, None))
      else if operation = OperationBuild then Inr (''patch.diff'', role = ''candidate_patch'', None)
      else if operation = OperationRegressionTest
      then Inr (''reproducer'', crashing \<or> role = ''corpus_seed'' \<or> role = ''corpus_entry'', None)
      else if operation = OperationReproduce \<or> operation = OperationMinimize \<or> operation = OperationCompareBranch
      then Inr (''reproducer'', crashing, None)
      else Inl (pipelineError ''operation does not accept evidence materialization''))"

definition verifyEvidence :: "Env \<Rightarrow> string \<Rightarrow> Artifact \<Rightarrow> string option \<Rightarrow> (Work, unit) act" where
  "verifyEvidence env target artifact transformed =
     (case transformed of Some bytes \<Rightarrow> verifyBytes env target bytes | None \<Rightarrow> verifyMaterialized env target artifact)"

definition prepareEvidence :: "Env \<Rightarrow> PipelineConfig \<Rightarrow> string \<Rightarrow> string \<Rightarrow> Operation \<Rightarrow> (Work, string) act" where
  "prepareEvidence env pc campaignID artifactID operation =
     act_bind (act_lift (evidenceDirectory (pc_root pc) campaignID artifactID operation)) (\<lambda>directory.
     act_bind (onStore (openArtifact env (pc_store pc) artifactID)) (\<lambda>(artifact, content).
     if Artifact_CampaignID artifact \<noteq> campaignID then act_fail (pipelineError ''evidence artifact belongs to another campaign'')
     else
       act_bind (act_lift (evidenceShape operation artifact content)) (\<lambda>(leaf, allowed, transformed).
       if \<not> allowed then act_fail (pipelineError ''artifact role is invalid for operation'')
       else
         (let target = pathJoin [directory, leaf] in
          act_bind (\<lambda>w. if map_of (wk_files w) target \<noteq> None then (Inr (), w)
              else putFile target (case transformed of Some bytes \<Rightarrow> bytes | None \<Rightarrow> content) w) (\<lambda>_.
          act_bind (verifyEvidence env target artifact transformed) (\<lambda>_. act_return directory))))))"

fun harnessBinary :: "string list \<Rightarrow> (Store, Artifact) act" where
  "harnessBinary [] = act_return zeroArtifact"
| "harnessBinary (i # is) =
     act_bind (getArtifact i) (\<lambda>artifact. if Artifact_Role artifact = ''harness_binary'' then act_return artifact else harnessBinary is)"

definition verifiedBuildDirectory :: "Env \<Rightarrow> PipelineConfig \<Rightarrow> string \<Rightarrow> string \<Rightarrow> (Work, string) act" where
  "verifiedBuildDirectory env pc campaignID buildID =
     act_bind (onStore (getBuild buildID)) (\<lambda>build.
     if Build_CampaignID build \<noteq> campaignID \<or> Build_Status build \<noteq> runStatusText RunCompleted
     then act_fail (pipelineError ''build is not a completed campaign build'')
     else
       act_bind (onStore (harnessBinary (Build_OutputArtifacts build))) (\<lambda>binary.
       if Artifact_ID binary = [] then act_fail (pipelineError ''build has no harness artifact'')
       else
         act_bind (act_lift (buildDirectory (pc_root pc) campaignID buildID)) (\<lambda>path.
         act_bind (verifyMaterialized env (pathJoin [path, ''fuzz_target'']) binary) (\<lambda>_. act_return path))))"

definition materializeBuild :: "Env \<Rightarrow> PipelineConfig \<Rightarrow> string \<Rightarrow> string \<Rightarrow> Artifact \<Rightarrow> (Work, unit) act" where
  "materializeBuild env pc campaignID buildID artifact =
     act_bind (act_lift (buildDirectory (pc_root pc) campaignID buildID)) (\<lambda>path.
     (let target = pathJoin [path, ''fuzz_target''] in
      act_bind (act_gets (\<lambda>w. Inr (map_of (wk_files w) target \<noteq> None))) (\<lambda>present.
      if present then verifyMaterialized env target artifact
      else
        act_bind (onStore (openArtifact env (pc_store pc) (Artifact_ID artifact))) (\<lambda>(_, content). putFile target content))))"

section \<open>Builds\<close>

definition pipelineAudit :: "Env \<Rightarrow> string \<Rightarrow> string \<Rightarrow> string \<Rightarrow> WorkerJob \<Rightarrow> string \<Rightarrow> (string \<times> string) list \<Rightarrow> (Work, unit) act" where
  "pipelineAudit env action kind i job decision details =
     act_bind (onStore (appendAudit env (pipelineEvent action kind i (Job_AuditCorrelationID job) decision (fmap_of_list details)))) (\<lambda>_. act_return ())"

definition readBuildProvenance :: "Env \<Rightarrow> PipelineConfig \<Rightarrow> Artifact \<Rightarrow> Build \<Rightarrow> (Work, Build) act" where
  "readBuildProvenance env pc artifact build =
     act_bind (onStore (openArtifact env (pc_store pc) (Artifact_ID artifact))) (\<lambda>(_, content).
     case pc_Strings pc (take (2 ^ 20) content) of
       None \<Rightarrow> act_fail (pipelineError ''decode build provenance'')
     | Some values \<Rightarrow>
         act_return (build\<lparr>Build_Provenance := Build_Provenance build ++\<^sub>f fmdrop ''patch_artifact_id'' values,
           Build_Toolchain := (case fmlookup values ''compiler'' of None \<Rightarrow> Build_Toolchain build
             | Some text \<Rightarrow> fmupd ''compiler'' text (Build_Toolchain build))\<rparr>))"

fun buildArtifacts :: "Env \<Rightarrow> PipelineConfig \<Rightarrow> WorkerJob \<Rightarrow> RunResult \<Rightarrow> Artifact \<Rightarrow> Build \<Rightarrow> string list \<Rightarrow> (Work, Artifact \<times> Build) act" where
  "buildArtifacts env pc job result binary build [] = act_return (binary, build)"
| "buildArtifacts env pc job result binary build (i # is) =
     act_bind (onStore (getArtifact i)) (\<lambda>artifact.
     if Artifact_CampaignID artifact \<noteq> Job_CampaignID job \<or> Artifact_RunID artifact \<noteq> Result_RunID result
     then act_fail (pipelineError ''build artifact identity mismatch'')
     else
       (let build1 = build\<lparr>Build_OutputArtifacts := Build_OutputArtifacts build @ [Artifact_ID artifact]\<rparr> in
        if Artifact_Role artifact = ''harness_binary'' then buildArtifacts env pc job result artifact build1 is
        else if Artifact_Role artifact = ''build_provenance'' then
          act_bind (readBuildProvenance env pc artifact build1) (\<lambda>build2. buildArtifacts env pc job result binary build2 is)
        else if Artifact_Role artifact = ''stdout_log'' \<or> Artifact_Role artifact = ''stderr_log'' then
          buildArtifacts env pc job result binary (build\<lparr>Build_LogArtifacts := Build_LogArtifacts build @ [Artifact_ID artifact]\<rparr>) is
        else buildArtifacts env pc job result binary build is))"

definition newBuild :: "Env \<Rightarrow> WorkerJob \<Rightarrow> RunResult \<Rightarrow> Campaign \<Rightarrow> Build" where
  "newBuild env job result campaign =
     \<lparr>Build_SchemaVersion = 1, Build_ID = Result_RunID result, Build_CampaignID = Job_CampaignID job,
      Build_TargetID = (if Job_TargetID job = [] then Campaign_TargetID campaign else Job_TargetID job),
      Build_ManifestID = strGet (Job_Arguments job) ''manifest'', Build_ImageDigest = Job_ImageDigest job, Build_Toolchain = fmempty,
      Build_Sanitizer = strGet (Job_Arguments job) ''sanitizer'', Build_Architecture = ''unknown'', Build_OutputArtifacts = [],
      Build_LogArtifacts = [],
      Build_Provenance = fmap_of_list
        ((if Job_PatchArtifactID job = [] then [] else [(''patch_artifact_id'', Job_PatchArtifactID job)]) @
         [(''harness'', strGet (Job_Arguments job) ''harness''), (''target_revision'', strGet (Job_Arguments job) ''revision''),
          (''isolation_assurance'', Result_IsolationAssurance result)]),
      Build_Status = runStatusText (Result_Status result),
      Build_CreatedAt = (if isZero (Job_CreatedAt job) then env_now env else Job_CreatedAt job), Build_CompletedAt = Some (env_now env)\<rparr>"

definition checkPatch :: "WorkerJob \<Rightarrow> RunResult \<Rightarrow> Build \<Rightarrow> (Store, unit) act" where
  "checkPatch job result build =
     (let applied = strGet (Build_Provenance build) ''patch_sha256'' in
      if Job_PatchArtifactID job = [] then
        (if applied \<noteq> [] then act_fail (pipelineError ''unrequested patch appeared in build provenance'') else act_return ())
      else
        act_bind (getArtifact (Job_PatchArtifactID job)) (\<lambda>patch.
        if Artifact_CampaignID patch \<noteq> Job_CampaignID job \<or> Artifact_Role patch \<noteq> ''candidate_patch'' \<or>
           strGet (Build_Provenance build) ''patch_artifact_id'' \<noteq> Artifact_ID patch
        then act_fail (pipelineError ''patched build provenance does not match candidate patch evidence'')
        else if Result_Status result = RunCompleted \<and> applied \<noteq> Artifact_ContentID patch \<or> applied \<noteq> [] \<and> applied \<noteq> Artifact_ContentID patch
        then act_fail (pipelineError ''apparatus applied bytes other than the requested candidate patch'')
        else act_return ()))"

definition ingestBuild :: "Env \<Rightarrow> PipelineConfig \<Rightarrow> WorkerJob \<Rightarrow> RunResult \<Rightarrow> (Work, unit) act" where
  "ingestBuild env pc job result =
     act_bind (onStore (getCampaign (Job_CampaignID job))) (\<lambda>campaign.
     act_bind (buildArtifacts env pc job result zeroArtifact (newBuild env job result campaign) (Result_ArtifactIDs result)) (\<lambda>(binary, build).
     act_bind (onStore (checkPatch job result build)) (\<lambda>_.
     act_bind (if Result_Status result \<noteq> RunCompleted then act_return ()
       else if Artifact_ID binary = [] then act_fail (pipelineError ''completed build has no harness binary'')
       else materializeBuild env pc (Job_CampaignID job) (Result_RunID result) binary) (\<lambda>_.
     act_bind (onStore (saveBuild env build)) (\<lambda>_.
     act_bind (pipelineAudit env ''build.ingest'' ''build'' (Build_ID build) job ''deterministic''
       [(''campaign_id'', Job_CampaignID job), (''status'', Build_Status build)]) (\<lambda>_.
     if Result_Status result = RunCompleted
     then onStore (advanceCampaign env (pc_machine pc) (Job_CampaignID job) CampaignAcquired CampaignBuildReady
       (noFacts\<lparr>BuildID := Build_ID build, HarnessCount := 1, Instrumented := Build_Sanitizer build \<noteq> []\<rparr>) (Job_AuditCorrelationID job))
     else act_return ()))))))"

section \<open>Observations\<close>

text \<open>The first log and the first input among the artifacts of a run.\<close>

fun observedArtifacts :: "WorkerJob \<Rightarrow> RunResult \<Rightarrow> Artifact \<Rightarrow> Artifact \<Rightarrow> string list \<Rightarrow> (Store, Artifact \<times> Artifact) act" where
  "observedArtifacts job result log input [] = act_return (log, input)"
| "observedArtifacts job result log input (i # is) =
     act_bind (getArtifact i) (\<lambda>artifact.
     if Artifact_CampaignID artifact \<noteq> Job_CampaignID job \<or> Artifact_RunID artifact \<noteq> Result_RunID result
     then act_fail (pipelineError ''observation artifact identity mismatch'')
     else
       (let role = Artifact_Role artifact in
        if role = ''stderr_log'' \<or> role = ''revision_comparison_log'' \<or> role = ''regression_log''
        then observedArtifacts job result (if Artifact_ID log = [] then artifact else log) input is
        else if role = ''crashing_input'' \<or> role = ''minimized_input''
        then observedArtifacts job result log (if Artifact_ID input = [] then artifact else input) is
        else observedArtifacts job result log input is))"

definition observedInput :: "WorkerJob \<Rightarrow> Artifact \<Rightarrow> (Store, Artifact) act" where
  "observedInput job input =
     (if Artifact_ID input = [] \<and> Job_InputArtifactID job \<noteq> [] then
        act_bind (getArtifact (Job_InputArtifactID job)) (\<lambda>candidate.
        if Artifact_CampaignID candidate \<noteq> Job_CampaignID job then act_fail (pipelineError ''input artifact belongs to another campaign'')
        else act_return candidate)
      else act_return input)"

definition parseOptions :: "Env \<Rightarrow> string \<Rightarrow> WorkerJob \<Rightarrow> RunResult \<Rightarrow> Artifact \<Rightarrow> ParseOptions" where
  "parseOptions env i job result input =
     \<lparr>Opt_ID = i, Opt_CampaignID = Job_CampaignID job, Opt_RunID = Result_RunID result, Opt_BuildID = Job_BuildID job,
      Opt_InputArtifactID = Artifact_ID input, Opt_CreatedAt = env_now env\<rparr>"

text \<open>A stored log, read up to one byte over the limit of the parser, and parsed.\<close>

definition parseArtifact :: "Env \<Rightarrow> PipelineConfig \<Rightarrow> string \<Rightarrow> ParseOptions \<Rightarrow> (Store, CrashObservation) act" where
  "parseArtifact env pc logID opts =
     act_bind (openArtifact env (pc_store pc) logID) (\<lambda>(_, content).
     act_lift (parseLog (env_host env) (env_sha env) (take (nat (MaxLogBytes + 1)) content) opts))"

definition groupObservation :: "Env \<Rightarrow> WorkerJob \<Rightarrow> CrashObservation \<Rightarrow> (Store, CrashGroup) act" where
  "groupObservation env job ob =
     (if \<not> Crash_SecurityRelevant ob then act_return noGroup
      else
        act_bind (listCrashGroups (Job_CampaignID job) 10000) (\<lambda>groups.
        (let cg = (case find (\<lambda>g. Group_Signature g = Crash_Signature ob) groups of None \<Rightarrow> noGroup | Some g \<Rightarrow> g) in
         act_bind (act_lift (addToGroup (env_now env) cg ob (groupID env (Job_CampaignID job) (Crash_Signature ob)) (env_now env))) (\<lambda>grouped.
         act_bind (saveCrashGroup env grouped) (\<lambda>_. act_return grouped)))))"

fun reproductionAttempts :: "WorkerJob \<Rightarrow> CrashObservation list \<Rightarrow> string list \<Rightarrow> (Store, CrashObservation list) act" where
  "reproductionAttempts job attempts [] = act_return attempts"
| "reproductionAttempts job attempts (i # is) =
     act_bind (getCrash i) (\<lambda>ob.
     act_bind (getRun (Crash_RunID ob)) (\<lambda>run.
     reproductionAttempts job
       (if Run_Operation run = OperationReproduce \<and> Crash_InputArtifactID ob = Job_InputArtifactID job then attempts @ [ob] else attempts) is))"

definition advanceReproduction :: "Env \<Rightarrow> PipelineConfig \<Rightarrow> WorkerJob \<Rightarrow> CrashGroup \<Rightarrow> (Store, unit) act" where
  "advanceReproduction env pc job cg =
     (if Group_ID cg = [] \<or> Job_InputArtifactID job = [] then act_return ()
      else
        act_bind (reproductionAttempts job [] (Group_ObservationIDs cg)) (\<lambda>attempts.
        (let facts = reproductionFacts attempts (pc_minimum pc) in
         if \<not> CrashMachineParsed facts then act_return ()
         else advanceCampaign env (pc_machine pc) (Job_CampaignID job) CampaignCrashObserved CampaignReproduced facts (Job_AuditCorrelationID job))))"

definition noObservation :: CrashObservation where
  "noObservation =
     \<lparr>Crash_SchemaVersion = 0, Crash_ID = [], Crash_CampaignID = [], Crash_RunID = [], Crash_BuildID = [], Crash_InputArtifactID = [],
      Crash_Class = OtherObservation [], Crash_Sanitizer = [], Crash_BugType = [], Crash_Access = [], Crash_AccessSize = 0, Crash_Signal = [],
      Crash_Summary = [], Crash_Frames = [], Crash_Signature = [], Crash_Deterministic = False, Crash_ReproCount = 0,
      Crash_SecurityRelevant = False, Crash_CreatedAt = zeroTime\<rparr>"

fun originalObservation :: "string \<Rightarrow> string \<Rightarrow> string list \<Rightarrow> (Store, CrashObservation) act" where
  "originalObservation inputID sig [] = act_return noObservation"
| "originalObservation inputID sig (i # is) =
     act_bind (getCrash i) (\<lambda>candidate.
     if Crash_InputArtifactID candidate = inputID \<and> Crash_Signature candidate = sig then act_return candidate
     else originalObservation inputID sig is)"

definition advanceMinimization :: "Env \<Rightarrow> PipelineConfig \<Rightarrow> WorkerJob \<Rightarrow> CrashObservation \<Rightarrow> CrashGroup \<Rightarrow> (Store, unit) act" where
  "advanceMinimization env pc job minimizedObs cg =
     (if Group_ID cg = [] \<or> Job_InputArtifactID job = [] \<or> Crash_InputArtifactID minimizedObs = [] \<or>
         Crash_InputArtifactID minimizedObs = Job_InputArtifactID job
      then act_return ()
      else
        act_bind (getArtifact (Job_InputArtifactID job)) (\<lambda>original.
        act_bind (getArtifact (Crash_InputArtifactID minimizedObs)) (\<lambda>minimized.
        act_bind (originalObservation (Artifact_ID original) (Crash_Signature minimizedObs) (Group_ObservationIDs cg)) (\<lambda>originalObs.
        (let facts = minimizationFacts original minimized originalObs minimizedObs in
         if \<not> MinimizedSameSignature facts then act_return ()
         else
           act_bind (saveCrashGroup env (cg\<lparr>Group_MinimizedArtifactID := Artifact_ID minimized, Group_UpdatedAt := env_now env\<rparr>)) (\<lambda>_.
           advanceCampaign env (pc_machine pc) (Job_CampaignID job) CampaignReproduced CampaignMinimized facts (Job_AuditCorrelationID job)))))))"

definition advanceObserved :: "Env \<Rightarrow> PipelineConfig \<Rightarrow> WorkerJob \<Rightarrow> CrashObservation \<Rightarrow> CrashGroup \<Rightarrow> (Store, unit) act" where
  "advanceObserved env pc job ob cg =
     (if Job_Operation job = OperationFuzz \<and> Crash_SecurityRelevant ob \<and> Crash_InputArtifactID ob \<noteq> []
      then advanceCampaign env (pc_machine pc) (Job_CampaignID job) CampaignFuzzing CampaignCrashObserved
        (noFacts\<lparr>CrashInputArtifactID := Crash_InputArtifactID ob, CrashSignature := Crash_Signature ob, CrashMachineParsed := True\<rparr>)
        (Job_AuditCorrelationID job)
      else if Job_Operation job = OperationReproduce \<and> Crash_SecurityRelevant ob then advanceReproduction env pc job cg
      else if Job_Operation job = OperationMinimize \<and> Crash_SecurityRelevant ob then advanceMinimization env pc job ob cg
      else act_return ())"

definition ingestObservation :: "Env \<Rightarrow> PipelineConfig \<Rightarrow> WorkerJob \<Rightarrow> RunResult \<Rightarrow> (Store, unit) act" where
  "ingestObservation env pc job result =
     (if Job_BuildID job = [] then act_return ()
      else
        act_bind (if Job_Operation job = OperationFuzz
          then advanceCampaign env (pc_machine pc) (Job_CampaignID job) CampaignBuildReady CampaignFuzzing
            (noFacts\<lparr>FuzzRunID := Result_RunID result\<rparr>) (Job_AuditCorrelationID job)
          else act_return ()) (\<lambda>_.
        act_bind (observedArtifacts job result zeroArtifact zeroArtifact (Result_ArtifactIDs result)) (\<lambda>(log, input0).
        act_bind (observedInput job input0) (\<lambda>input.
        if Artifact_ID log = [] then act_return ()
        else
          act_bind (parseArtifact env pc (Artifact_ID log) (parseOptions env (''observation_'' @ Result_RunID result) job result input)) (\<lambda>ob.
          if Crash_Class ob = ObservationUnclassified then act_return ()
          else
            act_bind (saveCrash env ob) (\<lambda>_.
            act_bind (groupObservation env job ob) (\<lambda>cg.
            act_bind (appendAudit env (pipelineEvent ''observation.ingest'' ''crash_observation'' (Crash_ID ob) (Job_AuditCorrelationID job)
              ''machine_parsed'' (fmap_of_list [(''campaign_id'', Job_CampaignID job), (''class'', observationClassText (Crash_Class ob)),
                (''signature'', Crash_Signature ob)]))) (\<lambda>_.
            advanceObserved env pc job ob cg))))))))"

section \<open>Revision comparisons\<close>

definition equalFold :: "PipelineConfig \<Rightarrow> string \<Rightarrow> string \<Rightarrow> bool" where
  "equalFold pc a b = (if isASCII a \<and> isASCII b then map lowerChar a = map lowerChar b else pc_foldEqual pc a b)"

fun stableFrames :: "Host \<Rightarrow> nat \<Rightarrow> StackFrame list \<Rightarrow> string list" where
  "stableFrames h n [] = []"
| "stableFrames h n (f # fs) =
     (let value = toLower (host_lower h) (Frame_Function f @ '' '' @ Frame_Module f);
          function = cutAtParen (trimSpace (Frame_Function f));
          file = toLower (host_lower h) (baseName (trimSpace (Frame_File f))) in
      if n = 0 then []
      else if list_ex (strContains value) [''__asan'', ''__msan'', ''libfuzzer'', ''fuzzer::'', ''libc''] \<or> function = [] \<or> file = [] \<or> file = ''.''
      then stableFrames h n fs
      else (toLower (host_lower h) (trimSpace function) @ [CHR 0x00] @ file) # stableFrames h (n - 1) fs)"

definition stableFrameIdentities :: "Host \<Rightarrow> StackFrame list \<Rightarrow> string list" where
  "stableFrameIdentities h fs = stableFrames h 3 fs"

definition equivalentRootCause :: "Host \<Rightarrow> PipelineConfig \<Rightarrow> CrashObservation \<Rightarrow> CrashObservation \<Rightarrow> bool" where
  "equivalentRootCause h pc left right =
     (let l = stableFrameIdentities h (Crash_Frames left); r = stableFrameIdentities h (Crash_Frames right);
          limit = min (min (length l) (length r)) 3 in
      Crash_Class left = Crash_Class right \<and> equalFold pc (Crash_BugType left) (Crash_BugType right) \<and>
      equalFold pc (Crash_Access left) (Crash_Access right) \<and> Crash_AccessSize left = Crash_AccessSize right \<and>
      l \<noteq> [] \<and> r \<noteq> [] \<and> take limit l = take limit r)"

definition deterministicPipelineID :: "Env \<Rightarrow> string \<Rightarrow> string list \<Rightarrow> string" where
  "deterministicPipelineID env pfx values =
     pfx @ ''_'' @ hexEncode (take 16 (env_sha env (concat (map (\<lambda>v. v @ [CHR 0x00]) values))))"

fun comparisonArtifacts :: "WorkerJob \<Rightarrow> RunResult \<Rightarrow> Artifact \<Rightarrow> Artifact \<Rightarrow> string list \<Rightarrow> (Store, Artifact \<times> Artifact) act" where
  "comparisonArtifacts job result structured log [] = act_return (structured, log)"
| "comparisonArtifacts job result structured log (i # is) =
     act_bind (getArtifact i) (\<lambda>artifact.
     if Artifact_CampaignID artifact \<noteq> Job_CampaignID job \<or> Artifact_RunID artifact \<noteq> Result_RunID result
     then act_fail (pipelineError ''comparison artifact identity mismatch'')
     else comparisonArtifacts job result
       (if Artifact_Role artifact = ''revision_comparison'' then artifact else structured)
       (if Artifact_Role artifact = ''revision_comparison_log'' then artifact else log) is)"

definition decodeComparison :: "Env \<Rightarrow> PipelineConfig \<Rightarrow> Artifact \<Rightarrow> int \<Rightarrow> (Store, ComparisonResult) act" where
  "decodeComparison env pc artifact limit =
     (if Artifact_Size artifact < 0 \<or> Artifact_Size artifact > limit
      then act_fail (pipelineError (Artifact_Role artifact @ '' exceeds structured result limit''))
      else
        act_bind (openArtifact env (pc_store pc) (Artifact_ID artifact)) (\<lambda>(_, content).
        case pc_Comparison pc (take (nat (limit + 1)) content) of
          None \<Rightarrow> act_fail (pipelineError (''decode '' @ Artifact_Role artifact))
        | Some (parsed, rest) \<Rightarrow>
            if pc_AtEOF pc rest then act_return parsed else act_fail (pipelineError ''trailing structured result data'')))"

text \<open>The status of the revision and the reason, from the log of a comparison that did not run clean.\<close>

definition compareSignal :: "Env \<Rightarrow> PipelineConfig \<Rightarrow> WorkerJob \<Rightarrow> RunResult \<Rightarrow> Artifact \<Rightarrow> Artifact \<Rightarrow> CrashGroup \<Rightarrow> (Store, string \<times> string) act" where
  "compareSignal env pc job result input log cg =
     act_bind (parseArtifact env pc (Artifact_ID log) (parseOptions env (''comparison_observation_'' @ Result_RunID result) job result input)) (\<lambda>ob.
     (let same = Crash_SecurityRelevant ob \<and> Crash_Signature ob = Group_Signature cg in
      act_bind
        (if Crash_SecurityRelevant ob \<and> \<not> same \<and> Group_ObservationIDs cg \<noteq> []
         then act_bind (getCrash (hd (Group_ObservationIDs cg))) (\<lambda>original. act_return (equivalentRootCause (env_host env) pc original ob))
         else act_return same) (\<lambda>matches.
      act_return
        (if matches then (''affected'', ''original reproducer produced the same normalized security signature'')
         else if Crash_SecurityRelevant ob then (''untested'', ''comparison produced a different security signature'')
         else (''untested'', ''nonzero comparison had no matching machine-parsed security signal'')))))"

definition comparisonFinding :: "WorkerJob \<Rightarrow> Artifact \<Rightarrow> (Store, CrashGroup \<times> Finding) act" where
  "comparisonFinding job input =
     act_bind (listCrashGroups (Job_CampaignID job) 10000) (\<lambda>groups.
     case find (\<lambda>g. Group_CanonicalInputID g = Artifact_ID input \<or> Group_MinimizedArtifactID g = Artifact_ID input) groups of
       None \<Rightarrow> act_fail (pipelineError ''comparison input is not owned by a crash group'')
     | Some cg \<Rightarrow>
         if Group_ID cg = [] then act_fail (pipelineError ''comparison input is not owned by a crash group'')
         else
           act_bind (listFindings (Job_CampaignID job) 10000) (\<lambda>findings.
           case find (\<lambda>f. Finding_CrashGroupID f = Group_ID cg) findings of
             None \<Rightarrow> act_fail (pipelineError ''comparison crash group has no finding'')
           | Some finding \<Rightarrow>
               if Finding_ID finding = [] then act_fail (pipelineError ''comparison crash group has no finding'')
               else act_return (cg, finding)))"

text \<open>The check that a comparison amounts to; nothing is written yet.\<close>

definition revisionCheckOf :: "Env \<Rightarrow> PipelineConfig \<Rightarrow> WorkerJob \<Rightarrow> RunResult \<Rightarrow> (Store, RevisionCheck) act" where
  "revisionCheckOf env pc job result =
     (let revision = strGet (Job_Arguments job) ''revision'' in
     if Job_BuildID job = [] \<or> Job_InputArtifactID job = []
      then act_fail (pipelineError ''revision comparison requires build and reproducer evidence'')
      else
        act_bind (getBuild (Job_BuildID job)) (\<lambda>build.
        if Build_CampaignID build \<noteq> Job_CampaignID job \<or> Build_Status build \<noteq> runStatusText RunCompleted \<or>
           strGet (Build_Provenance build) ''target_revision'' \<noteq> revision \<or>
           Job_TargetID job \<noteq> [] \<and> Build_TargetID build \<noteq> Job_TargetID job
        then act_fail (pipelineError ''comparison build provenance does not match its campaign target'')
        else
          act_bind (getArtifact (Job_InputArtifactID job)) (\<lambda>input.
          if Artifact_CampaignID input \<noteq> Job_CampaignID job then act_fail (pipelineError ''comparison input belongs to another campaign'')
          else
            act_bind (comparisonArtifacts job result zeroArtifact zeroArtifact (Result_ArtifactIDs result)) (\<lambda>(structured, log).
            if Artifact_ID structured = [] \<or> Artifact_ID log = [] then act_fail (pipelineError ''revision comparison result and log required'')
            else
              act_bind (decodeComparison env pc structured (2 ^ 20)) (\<lambda>parsed.
              if Cmp_SchemaVersion parsed \<noteq> 1 \<or> Cmp_TargetRevision parsed = [] \<or> Cmp_TargetRevision parsed \<noteq> revision \<or>
                 Cmp_SignalAbsent parsed \<noteq> (Cmp_ReproducerExitCode parsed = 0) \<or> Cmp_ReproducerExitCode parsed \<noteq> Exit_Code (Result_Exit result)
              then act_fail (pipelineError ''invalid revision comparison contract'')
              else
                act_bind (comparisonFinding job input) (\<lambda>(cg, finding).
                act_bind (if Cmp_SignalAbsent parsed
                  then act_return (''unaffected'', ''original reproducer completed without a machine-visible signal'')
                  else compareSignal env pc job result input log cg) (\<lambda>(status, reason).
                act_return
                  \<lparr>RevCheck_SchemaVersion = 1,
                   RevCheck_ID = deterministicPipelineID env ''revision'' [Job_CampaignID job, Finding_ID finding, Cmp_TargetRevision parsed, Result_RunID result],
                   RevCheck_CampaignID = Job_CampaignID job, RevCheck_FindingID = Finding_ID finding, RevCheck_Revision = Cmp_TargetRevision parsed,
                   RevCheck_Status = status, RevCheck_Reason = reason, RevCheck_BuildID = Job_BuildID job, RevCheck_RunID = Result_RunID result,
                   RevCheck_EvidenceIDs = [Artifact_ID input, Artifact_ID structured, Artifact_ID log, Job_BuildID job],
                   RevCheck_CheckedAt = env_now env\<rparr>)))))))"

definition ingestRevisionCheck :: "Env \<Rightarrow> PipelineConfig \<Rightarrow> WorkerJob \<Rightarrow> RunResult \<Rightarrow> (Store, unit) act" where
  "ingestRevisionCheck env pc job result =
     act_bind (revisionCheckOf env pc job result) (\<lambda>check.
     act_bind (saveRevisionCheck env check) (\<lambda>_.
     act_bind (appendAudit env (pipelineEvent ''revision.check'' ''revision_check'' (RevCheck_ID check) (Job_AuditCorrelationID job)
       ''machine_parsed'' (fmap_of_list [(''campaign_id'', Job_CampaignID job), (''finding_id'', RevCheck_FindingID check),
         (''revision'', RevCheck_Revision check), (''status'', RevCheck_Status check)]))) (\<lambda>_. act_return ())))"

section \<open>Symbolization\<close>

definition sourceLinePattern :: regexp where
  "sourceLinePattern = rSeq [RAlt RBeginLine rSpace,
     RAlt (RSeq (rChar (CHR ''/'')) (rPlus True (RRune (\<lambda>r. \<not> (r = 9 \<or> r = 10 \<or> r = 12 \<or> r = 13 \<or> r = 32) \<and> r \<noteq> 58))))
       (rPlus True (RRune (\<lambda>r. wordRune r \<or> r = 46 \<or> r = 45))),
     rChar (CHR '':''), RRune (\<lambda>r. 49 \<le> r \<and> r \<le> 57), RStar True rDigit, lineSuffix, RAlt REndLine rSpace]"

fun symbolizedStack :: "WorkerJob \<Rightarrow> RunResult \<Rightarrow> Artifact \<Rightarrow> string list \<Rightarrow> (Store, Artifact) act" where
  "symbolizedStack job result found [] = act_return found"
| "symbolizedStack job result found (i # is) =
     act_bind (getArtifact i) (\<lambda>artifact.
     if Artifact_CampaignID artifact \<noteq> Job_CampaignID job \<or> Artifact_RunID artifact \<noteq> Result_RunID result
     then act_fail (pipelineError ''symbolization artifact identity mismatch'')
     else symbolizedStack job result (if Artifact_Role artifact = ''symbolized_stack'' then artifact else found) is)"

definition primitiveOperation :: "Host \<Rightarrow> CrashObservation \<Rightarrow> PrimitiveOperation" where
  "primitiveOperation h ob =
     (let bug = toLower (host_lower h) (Crash_BugType ob); access = toLower (host_lower h) (Crash_Access ob) in
      if strContains bug ''use-after-free'' then PrimitiveUseAfterFree
      else if strContains bug ''double-free'' \<or> strContains bug ''invalid-free'' then PrimitiveInvalidFree
      else if strContains bug ''buffer-overflow'' \<and> strContains access ''write'' then PrimitiveOOBWrite
      else if strContains bug ''buffer-overflow'' \<and> strContains access ''read'' then PrimitiveOOBRead
      else PrimitiveCrash)"

definition primitiveFromObservation :: "Host \<Rightarrow> string \<Rightarrow> CrashGroup \<Rightarrow> CrashObservation \<Rightarrow> string \<Rightarrow> time \<Rightarrow> PrimitiveAssessment" where
  "primitiveFromObservation h campaignID cg ob symbolizedID now =
     \<lparr>Prim_SchemaVersion = 1, Prim_ID = ''primitive_'' @ trimPrefix (Group_ID cg) ''group_'', Prim_CampaignID = campaignID,
      Prim_CrashGroupID = Group_ID cg, Prim_Operation = primitiveOperation h ob, Prim_OperationEvidence = [Crash_ID ob, symbolizedID],
      Prim_AttackerControl = noEvidence,
      Prim_AccessWidth = (if Crash_AccessSize ob > 0
        then \<lparr>EV_Value = showInt (Crash_AccessSize ob) @ '' byte(s)'', EV_Known = True, EV_EvidenceIDs = [Crash_ID ob, symbolizedID]\<rparr> else noEvidence),
      Prim_ValueControl = noEvidence, Prim_TargetRelation = noEvidence,
      Prim_Repeatability = (if length (Group_ObservationIDs cg) > 1
        then \<lparr>EV_Value = showInt (int (length (Group_ObservationIDs cg))) @ '' same-signature observations'', EV_Known = True,
          EV_EvidenceIDs = Group_ObservationIDs cg\<rparr> else noEvidence),
      Prim_Reachability = noEvidence, Prim_Mitigations = noEvidence, Prim_ExploitabilityGap = noEvidence,
      Prim_CreatedAt = now, Prim_ReviewedAt = None\<rparr>"

definition newFinding :: "CrashGroup \<Rightarrow> CrashObservation \<Rightarrow> PrimitiveAssessment \<Rightarrow> string \<Rightarrow> time \<Rightarrow> Finding" where
  "newFinding cg ob primitive symbolizedID now =
     \<lparr>Finding_SchemaVersion = 1, Finding_ID = ''finding_'' @ trimPrefix (Group_ID cg) ''group_'', Finding_CampaignID = Group_CampaignID cg,
      Finding_CrashGroupID = Group_ID cg, Finding_PrimitiveID = Prim_ID primitive, Finding_Title = Crash_Summary ob,
      Finding_Label = FindingHypothesis, Finding_CWE = cweForPrimitive (Prim_Operation primitive), Finding_RootCause = Group_RootCause cg,
      Finding_AffectedRevisions = [],
      Finding_EvidenceIDs = Group_ObservationIDs cg @ [Group_MinimizedArtifactID cg, symbolizedID, Prim_ID primitive],
      Finding_BranchChecks = [], Finding_NoveltyChecks = [], Finding_NoveltyStatus = [], Finding_FixArtifactID = [], Finding_RegressionRunID = [],
      Finding_ReportArtifactID = [], Finding_HumanReviewApproval = [], Finding_DisclosureApproval = [], Finding_DisclosureStatus = ''not_disclosed'',
      Finding_DisclosureReference = [], Finding_DisclosedAt = None, Finding_CreatedAt = now, Finding_UpdatedAt = now\<rparr>"

fun promoteSteps :: "time \<Rightarrow> StateMachine \<Rightarrow> Finding \<Rightarrow> (FindingLabel \<times> EvidenceFacts) list \<Rightarrow> Finding result" where
  "promoteSteps now m f [] = Inr f"
| "promoteSteps now m f ((label, facts) # steps) =
     (if Finding_Label f = label then promoteSteps now m f steps
      else rbind (promoteFinding now m f label facts now) (\<lambda>f'. promoteSteps now m f' steps))"

definition findingSteps :: "PipelineConfig \<Rightarrow> CrashObservation \<Rightarrow> PrimitiveAssessment \<Rightarrow> (FindingLabel \<times> EvidenceFacts) list" where
  "findingSteps pc ob primitive =
     [(FindingObservation, noFacts),
      (FindingCrashObserved, noFacts\<lparr>CrashInputArtifactID := Crash_InputArtifactID ob, CrashMachineParsed := True\<rparr>),
      (FindingReproducedMemoryIssue, noFacts\<lparr>ReproductionCount := pc_minimum pc\<rparr>),
      (FindingPrimitiveCandidate, noFacts\<lparr>PrimitiveAssessmentID := Prim_ID primitive\<rparr>),
      (FindingPrimitiveConfirmed, noFacts\<lparr>PrimitiveAssessmentID := Prim_ID primitive, PrimitiveEvidenceValid := True\<rparr>)]"

definition savePrimitiveFinding ::
    "Env \<Rightarrow> PipelineConfig \<Rightarrow> CrashGroup \<Rightarrow> CrashObservation \<Rightarrow> PrimitiveAssessment \<Rightarrow> string \<Rightarrow> string \<Rightarrow> (Store, unit) act" where
  "savePrimitiveFinding env pc cg ob primitive symbolizedID correlation =
     (\<lambda>s. case getFinding (''finding_'' @ trimPrefix (Group_ID cg) ''group_'') s of
        (Inr _, s') \<Rightarrow> (Inr (), s')
      | (Inl e, s') \<Rightarrow>
          if e \<noteq> ErrNotFound then (Inl e, s')
          else
            act_bind (act_lift (promoteSteps (env_now env) (pc_machine pc) (newFinding cg ob primitive symbolizedID (env_now env))
              (findingSteps pc ob primitive))) (\<lambda>finding.
            act_bind (saveFinding env (finding\<lparr>Finding_UpdatedAt := env_now env\<rparr>)) (\<lambda>_.
            act_bind (appendAudit env (pipelineEvent ''finding.promote'' ''finding'' (Finding_ID finding) correlation ''evidence_bounded''
              (fmap_of_list [(''campaign_id'', Finding_CampaignID finding), (''label'', findingText (Finding_Label finding))]))) (\<lambda>_.
            act_return ()))) s')"

text \<open>The observation that a symbolized log belongs to, and its group with the root cause recorded.\<close>

definition rootCause :: "Env \<Rightarrow> WorkerJob \<Rightarrow> Artifact \<Rightarrow> Artifact \<Rightarrow> (Store, CrashObservation \<times> CrashGroup) act" where
  "rootCause env job input symbolized =
     act_bind (listCrashes (Job_CampaignID job) 10000) (\<lambda>observations.
     case find (\<lambda>c. Crash_RunID c = Artifact_RunID input \<and> Crash_SecurityRelevant c \<and> Crash_Signature c \<noteq> []) observations of
       None \<Rightarrow> act_fail (pipelineError ''symbolization input is not linked to a security observation'')
     | Some ob \<Rightarrow>
         if Crash_ID ob = [] then act_fail (pipelineError ''symbolization input is not linked to a security observation'')
         else
           act_bind (getCrashGroup (groupID env (Job_CampaignID job) (Crash_Signature ob))) (\<lambda>found.
           (let cg = found\<lparr>Group_RootCause := Crash_Summary ob, Group_UpdatedAt := env_now env\<rparr> in
            act_bind (saveCrashGroup env cg) (\<lambda>_.
            act_bind (appendAudit env (pipelineEvent ''root_cause.ingest'' ''crash_group'' (Group_ID cg) (Job_AuditCorrelationID job) ''machine_parsed''
              (fmap_of_list [(''campaign_id'', Job_CampaignID job), (''symbolized_artifact_id'', Artifact_ID symbolized)]))) (\<lambda>_.
            act_return (ob, cg))))))"

definition ingestSymbolization :: "Env \<Rightarrow> PipelineConfig \<Rightarrow> WorkerJob \<Rightarrow> RunResult \<Rightarrow> (Store, unit) act" where
  "ingestSymbolization env pc job result =
     (if Job_InputArtifactID job = [] then act_fail (pipelineError ''symbolization requires an input log'')
      else
        act_bind (getArtifact (Job_InputArtifactID job)) (\<lambda>input.
        if Artifact_CampaignID input \<noteq> Job_CampaignID job then act_fail (pipelineError ''symbolization input belongs to another campaign'')
        else
          act_bind (symbolizedStack job result zeroArtifact (Result_ArtifactIDs result)) (\<lambda>symbolized.
          if Result_Status result \<noteq> RunCompleted \<or> Artifact_ID symbolized = [] then act_return ()
          else
            act_bind (openArtifact env (pc_store pc) (Artifact_ID symbolized)) (\<lambda>(_, content).
            if int (length content) > symbolizationLimit then act_fail (pipelineError ''symbolized stack exceeds limit'')
            else
              (let frameCount = int (length (findAll sourceLinePattern content)) in
               if frameCount = 0 then act_fail (pipelineError ''symbolized stack has no source locations'')
               else
                 act_bind (rootCause env job input symbolized) (\<lambda>(ob, cg).
                 act_bind (advanceCampaign env (pc_machine pc) (Job_CampaignID job) CampaignMinimized CampaignRootCaused
                   (noFacts\<lparr>SymbolizedFrameCount := frameCount, RootCause := Group_RootCause cg, CrashGroupID := Group_ID cg\<rparr>)
                   (Job_AuditCorrelationID job)) (\<lambda>_.
                 (let primitive = primitiveFromObservation (env_host env) (Job_CampaignID job) cg ob (Artifact_ID symbolized) (env_now env) in
                  act_bind (act_lift (validatePrimitive primitive)) (\<lambda>_.
                  act_bind (savePrimitive env primitive) (\<lambda>_.
                  act_bind (appendAudit env (pipelineEvent ''primitive.assess'' ''primitive_assessment'' (Prim_ID primitive) (Job_AuditCorrelationID job)
                    ''evidence_bounded'' (fmap_of_list [(''campaign_id'', Job_CampaignID job), (''crash_group_id'', Group_ID cg)]))) (\<lambda>_.
                  act_bind (savePrimitiveFinding env pc cg ob primitive (Artifact_ID symbolized) (Job_AuditCorrelationID job)) (\<lambda>_.
                  advanceCampaign env (pc_machine pc) (Job_CampaignID job) CampaignRootCaused CampaignPrimitiveAssessed
                    (noFacts\<lparr>PrimitiveAssessmentID := Prim_ID primitive, PrimitiveEvidenceValid := True\<rparr>) (Job_AuditCorrelationID job)))))))))))))"

section \<open>Ingestion\<close>

definition coordinatorIngest :: "Env \<Rightarrow> PipelineConfig \<Rightarrow> WorkerJob \<Rightarrow> RunResult \<Rightarrow> (Work, unit) act" where
  "coordinatorIngest env pc job result =
     (if Result_RunID result = [] \<or> Result_RunID result \<noteq> Job_RunID job \<or> Job_CampaignID job = []
      then act_fail (pipelineError ''mismatched result identity'')
      else if Job_Operation job = OperationBuild then ingestBuild env pc job result
      else if Job_Operation job = OperationCompareBranch then onStore (ingestRevisionCheck env pc job result)
      else if Job_Operation job = OperationFuzz \<or> Job_Operation job = OperationReproduce \<or> Job_Operation job = OperationMinimize \<or>
              Job_Operation job = OperationRegressionTest
      then onStore (ingestObservation env pc job result)
      else if Job_Operation job = OperationSymbolize then onStore (ingestSymbolization env pc job result)
      else act_return ())"

end
