(* ===== verification/Control_Plane.thy ===== *)
theory Control_Plane
  imports Workflow
begin

text \<open>
  The control plane as one machine: a request is one call of a handler of \<open>Service\<close> or
  \<open>Workflow\<close>, a step serves one request. The locales state what a relation between store states
  must keep under the writes of the store so that every handler keeps it, in tiers: the
  writes most handlers share, and those of purges, of approvals and of campaigns.
\<close>

section \<open>Reading actions\<close>

definition reader :: "('s, 'a) act \<Rightarrow> bool" where
  "reader m \<longleftrightarrow> (\<forall>s. snd (m s) = s)"

lemma reader_gets [simp, intro!]: "reader (act_gets g)"
  by (simp add: reader_def act_gets_def)

lemma readerD: "reader m \<Longrightarrow> m s = (r, s') \<Longrightarrow> s' = s"
  unfolding reader_def by (metis snd_conv)

named_theorems reads \<open>actions that only read\<close>

lemma reader_gets_ops [reads]:
  "reader (getScope i)" "reader (getCampaign i)" "reader (getArtifact i)" "reader (getTarget i)" "reader (getApparatus i)"
  "reader (getBuild i)" "reader (getRun i)" "reader (getCrashGroup i)" "reader (getPrimitive i)" "reader (getFinding i)"
  "reader (getApproval i)" "reader (getSourceEvidence i)" "reader (listRevisionChecks i n)" "reader (listSourceEvidence i n)"
  "reader (listSourceReviews i n)" "reader (listCrashes i n)" "reader (listArtifacts i n)"
  by (simp_all add: getScope_def getCampaign_def getArtifact_def getTarget_def getApparatus_def getBuild_def getRun_def
      getCrashGroup_def getPrimitive_def getFinding_def getApproval_def getSourceEvidence_def listRevisionChecks_def
      listSourceEvidence_def listSourceReviews_def listCrashes_def listArtifacts_def getRecord_def listRecords_def)

lemma reader_bind [intro]: "reader m \<Longrightarrow> (\<And>x. reader (f x)) \<Longrightarrow> reader (act_bind m f)"
  by (auto simp: reader_def act_bind_def split: prod.splits sum.splits) (metis snd_conv)+

lemma reader_trivial [reads]: "reader (act_return x)" "reader (act_fail e)" "reader (act_lift r)"
  by (simp_all add: reader_def act_return_def act_fail_def act_lift_def)

lemma reader_openArtifact [reads]: "reader (openArtifact env cfg i)"
  unfolding openArtifact_def by (intro reader_bind reads) (simp_all add: reads Let_def)

lemma reader_findRegressionResult [reads]: "reader (findRegressionResult run found is)"
  by (induction "is" arbitrary: found) (auto intro!: reader_bind simp: reads)

lemma reader_validateRegressionResult [reads]: "reader (validateRegressionResult env svc json run kind)"
  unfolding validateRegressionResult_def
  by (intro reader_bind reads) (auto intro!: reader_bind simp: reads split: option.splits prod.splits)

section \<open>The contract of the writes\<close>

locale control_writes = store_relation R for R :: "Store \<Rightarrow> Store \<Rightarrow> bool" +
  fixes env :: Env and svc :: Service
  assumes draw: "evolves R (newID env pfx)"
    and audit: "Audit_SchemaVersion e = 0 \<Longrightarrow> evolves R (appendAudit env e)"
    and target: "evolves R (saveTarget env t)"
    and apparatus: "evolves R (saveApparatus env m)"
    and finding: "evolves R (saveFinding env f)"
    and revision: "evolves R (saveRevisionCheck env c)"
    and review: "evolves R (saveSourceReview env v)"
    and remediation: "evolves R (saveRemediation env v')"
    and scope: "evolves R (createScope env sc)"
    and revocation: "evolves R (storeRevokeScope env i w)"
    and evidence: "evolves R (putArtifact env (svc_store svc) a bytes)"
    and broker: "svc_broker svc = Some submit \<Longrightarrow> evolves R (submit job)"
begin

lemma evolves_reader: "reader m \<Longrightarrow> evolves R m"
  by (simp add: evolves_def reader_def rel_refl)

lemmas writes = draw target apparatus finding revision review remediation scope revocation evidence

lemmas closure = evolves_bind evolves_ensure evolves_orElse evolves_ignore evolves_catch evolves_each evolves_if evolves_option
  evolves_sum evolves_prod evolves_return evolves_fail evolves_lift evolves_gets writes reads [THEN evolves_reader]

lemma denied_keeps: "evolves R (denied env actor action kind i why)"
  unfolding denied_def by (intro closure audit) (simp add: auditEvent_def)

lemma refuseJob_keeps: "evolves R (refuseJob env actor c why)"
  unfolding refuseJob_def by (rule denied_keeps)

lemma allowedWithDetails_keeps: "evolves R (allowedWithDetails env actor action kind i cor details)"
  unfolding allowedWithDetails_def by (intro closure audit) (simp add: auditEvent_def)

lemma allowed_keeps: "evolves R (allowed env actor action kind i cor)"
  unfolding allowed_def by (rule allowedWithDetails_keeps)

lemmas handler = closure denied_keeps refuseJob_keeps allowedWithDetails_keeps allowed_keeps

lemma serviceCreateScope_keeps: "evolves R (serviceCreateScope env svc actor sc)"
  unfolding serviceCreateScope_def Let_def by (intro handler)

lemma registerApparatus_keeps: "evolves R (registerApparatus env svc actor m)"
  unfolding registerApparatus_def Let_def by (intro handler)

lemma revokeScope_keeps: "evolves R (revokeScope env actor i why)"
  unfolding revokeScope_def by (intro handler)

lemma servicePromoteFinding_keeps: "evolves R (servicePromoteFinding env svc actor i label facts)"
  unfolding servicePromoteFinding_def by (intro handler)

text \<open>Code that looks at the error of a read.\<close>

lemma evolves_inspect:
  assumes "reader m" "\<And>e. evolves R (g e)" "\<And>x. evolves R (f x)"
  shows "evolves R (\<lambda>s. case m s of (Inl e, s') \<Rightarrow> g e s' | (Inr x, s') \<Rightarrow> f x s')"
  unfolding evolves_def
proof
  fix s
  obtain r where m: "m s = (r, s)" using assms(1) unfolding reader_def by (metis prod.collapse)
  show "R s (snd (case m s of (Inl e, s') \<Rightarrow> g e s' | (Inr x, s') \<Rightarrow> f x s'))"
    using assms(2,3) by (cases r) (simp_all add: m evolves_def)
qed

lemma evolves_pair: "evolves R (\<lambda>s. (r, s))"
  by (simp add: evolves_def rel_refl)

lemma evolves_if_at: "evolves R m \<Longrightarrow> evolves R n \<Longrightarrow> evolves R (\<lambda>s. if b then m s else n s)"
  by (cases b) simp_all

lemma authorizeAction_keeps: "evolves R (authorizeAction env c action cor)"
  unfolding authorizeAction_def Let_def
  by (intro handler evolves_inspect evolves_pair evolves_if_at reads)

lemma preauthorizeEnqueue_keeps: "evolves R (preauthorizeEnqueue env actor c op r budget ap cor)"
  unfolding preauthorizeEnqueue_def by (intro handler authorizeAction_keeps)

lemma enqueueTarget_keeps: "evolves R (enqueueTarget env svc actor c campaign sc job)"
  unfolding enqueueTarget_def Let_def by (intro handler)

lemma enqueueEvidence_keeps: "evolves R (enqueueEvidence env svc actor c job)"
  unfolding enqueueEvidence_def by (intro handler)

lemma enqueuePatch_keeps: "evolves R (enqueuePatch env svc actor c campaign t job)"
  unfolding enqueuePatch_def by (intro handler)

lemma enqueueBuild_keeps: "evolves R (enqueueBuild env actor c m t job)"
  unfolding enqueueBuild_def by (intro handler)

lemma authorizePath_keeps: "evolves R (authorizePath env actor c job ap rep r path)"
  unfolding authorizePath_def by (intro handler authorizeAction_keeps)

lemma authorizeMount_keeps: "evolves R (authorizeMount env svc actor c campaign job ap rep r mount)"
  unfolding authorizeMount_def Let_def by (intro handler authorizePath_keeps)

lemmas enqueue_parts = preauthorizeEnqueue_keeps enqueueTarget_keeps enqueueEvidence_keeps enqueuePatch_keeps enqueueBuild_keeps
  authorizePath_keeps authorizeMount_keeps

lemma enqueue_keeps: "evolves R (enqueue env svc actor c job ap)"
proof (cases "svc_broker svc")
  case None
  then show ?thesis by (simp add: enqueue_def)
next
  case (Some submit)
  then show ?thesis unfolding enqueue_def Let_def option.case by (simp only: option.case) (intro handler enqueue_parts broker)
qed

lemma acquireAuthorized_keeps: "evolves R (acquireAuthorized env svc actor action c sc request)"
proof -
  have "evolves R (case e of ErrSourceUnavailable m \<Rightarrow> act_fail e | _ \<Rightarrow> denied env actor action ''campaign'' c (errText e))" for e
    by (cases e) (simp_all add: denied_keeps)
  then show ?thesis unfolding acquireAuthorized_def by (intro handler authorizeAction_keeps)
qed

lemma reuseTarget_keeps: "evolves R (reuseTarget env t)"
  unfolding reuseTarget_def
proof (intro evolves_inspect evolves_if_at evolves_pair reads, goal_cases)
  case (1 e)
  then show ?case by (cases e) (simp_all add: evolves_bind target evolves_pair)
qed

lemma captureAndSave_keeps: "evolves R (captureAndSave env svc c sc request)"
  unfolding captureAndSave_def Let_def by (intro handler reuseTarget_keeps)

lemma acquireComparisonTarget_keeps: "evolves R (acquireComparisonTarget env svc actor c f request)"
  unfolding acquireComparisonTarget_def by (intro handler acquireAuthorized_keeps captureAndSave_keeps)

lemma workflowFinding_keeps: "evolves R (workflowFinding env actor c f action roles)"
  unfolding workflowFinding_def by (intro handler)

lemma authorizeNoveltyLookup_keeps: "evolves R (authorizeNoveltyLookup env actor c f name destination ap)"
  unfolding authorizeNoveltyLookup_def Let_def by (intro handler workflowFinding_keeps authorizeAction_keeps)

lemma recordUntestedRevision_keeps: "evolves R (recordUntestedRevision env actor c f r why)"
  unfolding recordUntestedRevision_def Let_def by (intro handler workflowFinding_keeps)

lemma reviewSourceEvidence_keeps: "evolves R (reviewSourceEvidence env actor c request)"
  unfolding reviewSourceEvidence_def Let_def by (intro handler workflowFinding_keeps)

lemma createCandidatePatch_keeps: "evolves R (createCandidatePatch env svc actor c request)"
  unfolding createCandidatePatch_def Let_def by (intro handler workflowFinding_keeps)

lemma fixRecords_keeps: "evolves R (fixRecords env svc json actor c campaign f request)"
  unfolding fixRecords_def by (intro handler)

lemma requestPurgeChecks_keeps: "evolves R (requestPurgeChecks env actor approval campaign sc)"
  unfolding requestPurgeChecks_def Let_def by (intro handler)

lemma freshApprovalID_keeps: "evolves R (freshApprovalID env actor i)"
  unfolding freshApprovalID_def
proof (intro evolves_if draw evolves_inspect denied_keeps reads, goal_cases)
  case (1 e)
  then show ?case by (cases e) (simp_all add: evolves_pair)
qed

lemma canReadCampaign_keeps: "evolves R (canReadCampaign actor c)"
  unfolding canReadCampaign_def by (intro handler)

end

locale purge_writes = control_writes +
  assumes purge: "evolves R (storePurgeArtifact env (svc_store svc) i ap why now)"
begin

lemma servicePurgeArtifact_keeps: "evolves R (servicePurgeArtifact env svc actor i ap why)"
  unfolding servicePurgeArtifact_def Let_def by (intro handler audit purge) (simp add: auditEvent_def)

end

locale approval_writes = control_writes +
  assumes approval: "evolves R (saveApproval env ap)"
begin

lemma requestApproval_keeps: "evolves R (requestApproval env actor ap)"
  unfolding requestApproval_def Let_def by (intro handler approval requestPurgeChecks_keeps freshApprovalID_keeps)

lemma decideApproval_keeps: "evolves R (decideApproval env actor i b why)"
  unfolding decideApproval_def Let_def by (intro handler approval)

end

locale campaign_writes = control_writes +
  assumes creation: "evolves R (storeCreateCampaign env c)"
    and update: "evolves R (updateCampaign env c v)"
begin

lemma storeMoved_keeps: "evolves R (storeMoved env c c')"
  unfolding storeMoved_def by (intro handler update)

lemma serviceCreateCampaign_keeps: "evolves R (serviceCreateCampaign env actor c)"
  unfolding serviceCreateCampaign_def Let_def by (intro handler creation)

lemma transition_keeps: "evolves R (transition env svc actor c st facts)"
  unfolding transition_def by (intro handler update)

lemma acquireTarget_keeps: "evolves R (acquireTarget env svc actor c request)"
  unfolding acquireTarget_def by (intro handler acquireAuthorized_keeps captureAndSave_keeps update)

lemma completeBranchReview_keeps: "evolves R (completeBranchReview env svc actor c f)"
  unfolding completeBranchReview_def Let_def by (intro handler workflowFinding_keeps storeMoved_keeps)

lemma completeNoveltyReview_keeps: "evolves R (completeNoveltyReview env svc actor c f)"
  unfolding completeNoveltyReview_def Let_def by (intro handler workflowFinding_keeps storeMoved_keeps)

lemma validateRemediation_keeps: "evolves R (validateRemediation env svc json actor c request)"
  unfolding validateRemediation_def Let_def by (intro handler workflowFinding_keeps fixRecords_keeps storeMoved_keeps)

lemma createPrivateReport_keeps: "evolves R (createPrivateReport env svc actor c request)"
  unfolding createPrivateReport_def Let_def by (intro handler workflowFinding_keeps storeMoved_keeps)

lemma recordDisclosure_keeps: "evolves R (recordDisclosure env svc actor c request)"
  unfolding recordDisclosure_def Let_def by (intro handler workflowFinding_keeps authorizeAction_keeps update)

end

section \<open>Requests\<close>

text \<open>One constructor per handler that an API adapter may call.\<close>

datatype apiCall =
    CreateScope AuthorizationScope
  | RegisterApparatus ApparatusManifest
  | RevokeScope string string
  | CreateCampaign Campaign
  | AcquireTarget string TargetRequest
  | AcquireComparisonTarget string string TargetRequest
  | Transition string CampaignState EvidenceFacts
  | PromoteFinding string FindingLabel EvidenceFacts
  | RequestApproval Approval
  | DecideApproval string bool string
  | PurgeArtifact string string string
  | AuthorizeAction string Action string
  | CanReadCampaign string
  | PreauthorizeEnqueue string Operation string ResourceBudget string string
  | Enqueue string WorkerJob string
  | AuthorizeNoveltyLookup string string string string string
  | RecordUntestedRevision string string string string
  | CompleteBranchReview string string
  | ReviewSourceEvidence string SourceReviewRequest
  | CompleteNoveltyReview string string
  | CreateCandidatePatch string CandidatePatchRequest
  | ValidateRemediation string RemediationRequest
  | CreatePrivateReport string ReportDraftRequest
  | RecordDisclosure string DisclosureRecordRequest

definition answered :: "(Store, 'a) act \<Rightarrow> (Store, unit) act" where
  "answered m = act_bind m (\<lambda>_. act_return ())"

fun serve :: "Env \<Rightarrow> Service \<Rightarrow> RegressionJSON \<Rightarrow> Principal \<Rightarrow> apiCall \<Rightarrow> (Store, unit) act" where
  "serve env svc json actor (CreateScope sc) = answered (serviceCreateScope env svc actor sc)"
| "serve env svc json actor (RegisterApparatus m) = answered (registerApparatus env svc actor m)"
| "serve env svc json actor (RevokeScope i why) = answered (revokeScope env actor i why)"
| "serve env svc json actor (CreateCampaign c) = answered (serviceCreateCampaign env actor c)"
| "serve env svc json actor (AcquireTarget c r) = answered (acquireTarget env svc actor c r)"
| "serve env svc json actor (AcquireComparisonTarget c f r) = answered (acquireComparisonTarget env svc actor c f r)"
| "serve env svc json actor (Transition c st facts) = answered (transition env svc actor c st facts)"
| "serve env svc json actor (PromoteFinding f label facts) = answered (servicePromoteFinding env svc actor f label facts)"
| "serve env svc json actor (RequestApproval ap) = answered (requestApproval env actor ap)"
| "serve env svc json actor (DecideApproval i b why) = answered (decideApproval env actor i b why)"
| "serve env svc json actor (PurgeArtifact i ap why) = answered (servicePurgeArtifact env svc actor i ap why)"
| "serve env svc json actor (AuthorizeAction c action cor) = answered (authorizeAction env c action cor)"
| "serve env svc json actor (CanReadCampaign c) = answered (canReadCampaign actor c)"
| "serve env svc json actor (PreauthorizeEnqueue c op r budget ap cor) = answered (preauthorizeEnqueue env actor c op r budget ap cor)"
| "serve env svc json actor (Enqueue c job ap) = answered (enqueue env svc actor c job ap)"
| "serve env svc json actor (AuthorizeNoveltyLookup c f name host ap) = answered (authorizeNoveltyLookup env actor c f name host ap)"
| "serve env svc json actor (RecordUntestedRevision c f r why) = answered (recordUntestedRevision env actor c f r why)"
| "serve env svc json actor (CompleteBranchReview c f) = answered (completeBranchReview env svc actor c f)"
| "serve env svc json actor (ReviewSourceEvidence c r) = answered (reviewSourceEvidence env actor c r)"
| "serve env svc json actor (CompleteNoveltyReview c f) = answered (completeNoveltyReview env svc actor c f)"
| "serve env svc json actor (CreateCandidatePatch c r) = answered (createCandidatePatch env svc actor c r)"
| "serve env svc json actor (ValidateRemediation c r) = answered (validateRemediation env svc json actor c r)"
| "serve env svc json actor (CreatePrivateReport c r) = answered (createPrivateReport env svc actor c r)"
| "serve env svc json actor (RecordDisclosure c r) = answered (recordDisclosure env svc actor c r)"

lemma answered_snd [simp]: "snd (answered m s) = snd (m s)"
  by (simp add: answered_def act_bind_def act_return_def split: prod.splits sum.splits)

fun movesCampaign :: "apiCall \<Rightarrow> bool" where
  "movesCampaign (CreateCampaign _) = True"
| "movesCampaign (AcquireTarget _ _) = True"
| "movesCampaign (Transition _ _ _) = True"
| "movesCampaign (CompleteBranchReview _ _) = True"
| "movesCampaign (CompleteNoveltyReview _ _) = True"
| "movesCampaign (ValidateRemediation _ _) = True"
| "movesCampaign (CreatePrivateReport _ _) = True"
| "movesCampaign (RecordDisclosure _ _) = True"
| "movesCampaign _ = False"

fun decides :: "apiCall \<Rightarrow> bool" where
  "decides (RequestApproval _) = True"
| "decides (DecideApproval _ _ _) = True"
| "decides _ = False"

fun purges :: "apiCall \<Rightarrow> bool" where
  "purges (PurgeArtifact _ _ _) = True"
| "purges _ = False"

context control_writes
begin

lemma answered_keeps: "evolves R m \<Longrightarrow> evolves R (answered m)"
  by (simp add: evolves_def)

lemmas quiet_handlers = serviceCreateScope_keeps registerApparatus_keeps revokeScope_keeps acquireComparisonTarget_keeps
  servicePromoteFinding_keeps authorizeAction_keeps canReadCampaign_keeps preauthorizeEnqueue_keeps enqueue_keeps
  authorizeNoveltyLookup_keeps recordUntestedRevision_keeps reviewSourceEvidence_keeps createCandidatePatch_keeps

lemma serve_quiet:
  "\<not> movesCampaign r \<Longrightarrow> \<not> decides r \<Longrightarrow> \<not> purges r \<Longrightarrow> evolves R (serve env svc json actor r)"
  by (cases r) (simp_all add: answered_keeps quiet_handlers)

end

context purge_writes
begin

lemma serve_purge: "purges r \<Longrightarrow> evolves R (serve env svc json actor r)"
  by (cases r) (simp_all add: answered_keeps servicePurgeArtifact_keeps)

end

context approval_writes
begin

lemma serve_decide: "decides r \<Longrightarrow> evolves R (serve env svc json actor r)"
  by (cases r) (simp_all add: answered_keeps requestApproval_keeps decideApproval_keeps)

end

context campaign_writes
begin

lemmas campaign_handlers = serviceCreateCampaign_keeps transition_keeps acquireTarget_keeps completeBranchReview_keeps
  completeNoveltyReview_keeps validateRemediation_keeps createPrivateReport_keeps recordDisclosure_keeps

lemma serve_campaign: "movesCampaign r \<Longrightarrow> evolves R (serve env svc json actor r)"
  by (cases r) (simp_all add: answered_keeps campaign_handlers)

end

text \<open>The combinations: every request, and every request of the other kinds.\<close>

locale all_writes = purge_writes + approval_writes + campaign_writes
begin

lemma serve_keeps: "evolves R (serve env svc json actor r)"
  using serve_quiet serve_purge serve_decide serve_campaign by blast

end

locale undecided_writes = purge_writes + campaign_writes
begin

lemma serve_undecided: "\<not> decides r \<Longrightarrow> evolves R (serve env svc json actor r)"
  using serve_quiet serve_purge serve_campaign by blast

end

locale unmoved_writes = purge_writes + approval_writes
begin

lemma serve_unmoved: "\<not> movesCampaign r \<Longrightarrow> evolves R (serve env svc json actor r)"
  using serve_quiet serve_purge serve_decide by blast

end

locale unpurged_writes = approval_writes + campaign_writes
begin

lemma serve_unpurged: "\<not> purges r \<Longrightarrow> evolves R (serve env svc json actor r)"
  using serve_quiet serve_decide serve_campaign by blast

end

end
