(* ===== verification/Control_Laws.thy ===== *)
theory Control_Laws
  imports Control_Plane Runner Custody_Laws
begin

text \<open>
  Laws of the whole control plane: every request keeps history and the invariant of the tables,
  decided approvals are final, a terminal campaign stays terminal, tombstones are backed by an
  independent approval, and campaigns move only as the state machine allows.
\<close>

section \<open>History and tables\<close>

text \<open>The service with the runner attached (\<^verbatim>\<open>AttachBroker\<close>) or without one.\<close>

definition withRunner :: "Env \<Rightarrow> bool option \<Rightarrow> Service \<Rightarrow> Service" where
  "withRunner env started svc = svc\<lparr>svc_broker := map_option (submitJob env) started\<rparr>"

lemma lawful_putRecord:
  "\<not> immutableKind kind \<Longrightarrow> dataKind v = kind \<Longrightarrow> dataID v = i \<Longrightarrow>
    evolves (lawful env) (putRecord env' kind i campaign created updated v)"
  by (rule lawfulI) blast+

lemma lawful_putImmutable:
  "dataKind v = kind \<Longrightarrow> dataID v = i \<Longrightarrow> evolves (lawful env) (putImmutableRecord env' kind i campaign created v)"
  by (rule lawfulI) blast+

lemma evolves_atomically:
  assumes "\<And>s. R s s" "evolves R m"
  shows "evolves R (atomically m)"
  unfolding evolves_def
proof
  fix s
  show "R s (snd (atomically m s))"
    using assms evolvesD [OF assms(2)] by (cases "m s"; cases "fst (m s)") (auto simp: atomically_def)
qed

lemma lawful_insertRecord:
  "dataKind v = kind \<Longrightarrow> dataID v = i \<Longrightarrow> evolves (lawful env) (insertRecord action kind i campaign created updated v)"
  by (rule lawfulI) blast+

lemma lawful_upsertRecord:
  "\<not> immutableKind kind \<Longrightarrow> dataKind v = kind \<Longrightarrow> dataID v = i \<Longrightarrow>
    evolves (lawful env) (upsertRecord action kind i campaign created updated v)"
  by (rule lawfulI) blast+

lemma lawful_createJobAndRun: "evolves (lawful env) (createJobAndRun job run)"
  unfolding createJobAndRun_def
  by (intro evolves_atomically lawful.rel_refl lawful.evolves_bind lawful_insertRecord) simp_all

lemma lawful_saveJobAndRun: "evolves (lawful env) (saveJobAndRun job run)"
  unfolding saveJobAndRun_def
  by (intro evolves_atomically lawful.rel_refl lawful.evolves_bind lawful_upsertRecord) (simp_all add: immutableKind_def)

lemma lawful_submitJob: "evolves (lawful env) (submitJob env' started job)"
  unfolding submitJob_def journalJob_def Let_def
  by (intro lawful.evolves_bind lawful.evolves_if lawful.evolves_prod lawful.evolves_fail lawful.evolves_lift lawful.evolves_return
      lawful_newID lawful_createJobAndRun)

lemma lawful_appendAudit: "Audit_SchemaVersion e = 0 \<Longrightarrow> evolves (lawful env) (appendAudit env e)"
  by (rule lawfulI) (auto intro!: invariant_appendAudit)

interpretation lawful_requests: all_writes "lawful env" env "withRunner env started svc" for env started svc
proof unfold_locales
  show "evolves (lawful env) (submit job)" if "svc_broker (withRunner env started svc) = Some submit" for submit job
    using that by (cases started) (auto simp: withRunner_def lawful_submitJob)
qed (auto simp: saveTarget_def saveApparatus_def saveFinding_def saveRevisionCheck_def saveSourceReview_def saveRemediation_def
    saveApproval_def immutableKind_def lawful_appendAudit intro!: lawful_putRecord lawful_putImmutable lawfulI)

section \<open>What a write leaves alone\<close>

definition sameRecords :: "recordKind set \<Rightarrow> Store \<Rightarrow> Store \<Rightarrow> bool" where
  "sameRecords K s s' \<longleftrightarrow> (\<forall>k i. k \<in> K \<longrightarrow> map_of (st_records s') (k, i) = map_of (st_records s) (k, i))"

definition sameCampaigns :: "Store \<Rightarrow> Store \<Rightarrow> bool" where
  "sameCampaigns s s' \<longleftrightarrow> st_campaigns s' = st_campaigns s"

text \<open>No new tombstone, and no tombstone with other fields.\<close>

definition samePurge :: "Artifact \<Rightarrow> Artifact \<Rightarrow> bool" where
  "samePurge a a' \<longleftrightarrow> Artifact_PurgedAt a = Artifact_PurgedAt a' \<and> Artifact_PurgeApprovalID a = Artifact_PurgeApprovalID a' \<and>
     Artifact_CampaignID a = Artifact_CampaignID a'"

definition samePurges :: "Store \<Rightarrow> Store \<Rightarrow> bool" where
  "samePurges s s' \<longleftrightarrow>
     (\<forall>i a'. map_of (st_artifacts s') i = Some a' \<longrightarrow> Artifact_PurgedAt a' \<noteq> None \<longrightarrow>
        (\<exists>a. map_of (st_artifacts s) i = Some a \<and> samePurge a a'))"

lemma sameRecords_simps [simp]:
  "sameRecords K s s"
  "sameRecords K s (s\<lparr>st_draws := n\<rparr>)" "sameRecords K s (s\<lparr>st_audit := l\<rparr>)" "sameRecords K s (s\<lparr>st_scopes := x\<rparr>)"
  "sameRecords K s (s\<lparr>st_campaigns := y\<rparr>)" "sameRecords K s (s\<lparr>st_artifacts := z\<rparr>)" "sameRecords K s (s\<lparr>st_blobs := w\<rparr>)"
  "k \<notin> K \<Longrightarrow> sameRecords K s (s\<lparr>st_records := AList.update (k, i) row (st_records s)\<rparr>)"
  "k \<notin> K \<Longrightarrow> sameRecords K s (s\<lparr>st_records := st_records s @ [((k, i), row)]\<rparr>)"
  by (auto simp: sameRecords_def update_conv' map_add_def split: option.splits)

lemma sameCampaigns_simps [simp]:
  "sameCampaigns s s"
  "sameCampaigns s (s\<lparr>st_draws := n\<rparr>)" "sameCampaigns s (s\<lparr>st_audit := l\<rparr>)" "sameCampaigns s (s\<lparr>st_scopes := x\<rparr>)"
  "sameCampaigns s (s\<lparr>st_records := y\<rparr>)" "sameCampaigns s (s\<lparr>st_artifacts := z\<rparr>)" "sameCampaigns s (s\<lparr>st_blobs := w\<rparr>)"
  by (simp_all add: sameCampaigns_def)

lemma samePurges_simps [simp]:
  "samePurges s s"
  "samePurges s (s\<lparr>st_draws := n\<rparr>)" "samePurges s (s\<lparr>st_audit := l\<rparr>)" "samePurges s (s\<lparr>st_scopes := x\<rparr>)"
  "samePurges s (s\<lparr>st_records := y\<rparr>)" "samePurges s (s\<lparr>st_campaigns := z\<rparr>)" "samePurges s (s\<lparr>st_blobs := w\<rparr>)"
  by (simp_all add: samePurges_def samePurge_def)

lemmas same_simps = sameRecords_simps sameCampaigns_simps samePurges_simps

interpretation records: store_relation "sameRecords K" for K
  by unfold_locales (simp_all add: sameRecords_def)

interpretation campaigns: store_relation sameCampaigns
  by unfold_locales (simp_all add: sameCampaigns_def)

interpretation purges: store_relation samePurges
proof unfold_locales
  show "samePurges s t \<Longrightarrow> samePurges t u \<Longrightarrow> samePurges s u" for s t u
    unfolding samePurges_def samePurge_def by metis
qed simp

text \<open>A write that changes nothing but what it is meant to change, for each of the three.\<close>

definition calm :: "recordKind set \<Rightarrow> Store \<Rightarrow> Store \<Rightarrow> bool" where
  "calm K s s' \<longleftrightarrow> sameRecords K s s' \<and> sameCampaigns s s' \<and> samePurges s s'"

interpretation calm: store_relation "calm K" for K
  by unfold_locales (auto simp: calm_def intro: records.rel_trans campaigns.rel_trans purges.rel_trans)

lemma calmD: "evolves (calm K) m \<Longrightarrow> evolves (sameRecords K) m" "evolves (calm K) m \<Longrightarrow> evolves sameCampaigns m"
  "evolves (calm K) m \<Longrightarrow> evolves samePurges m"
  by (simp_all add: evolves_def calm_def)

lemma calm_newID: "evolves (calm K) (newID env pfx)"
  by (rule evolves_direct) (simp add: newID_def calm_def)

lemma calm_appendAudit: "evolves (calm K) (appendAudit env e)"
proof -
  have "evolves (calm K) (\<lambda>s. case auditInsert dg now e' (st_audit s) of (r, rows) \<Rightarrow> (r, s\<lparr>st_audit := rows\<rparr>))" for dg now e'
    by (rule evolves_direct) (simp add: calm_def case_prod_beta)
  then show ?thesis unfolding appendAudit_def by (intro calm.evolves_bind calm.evolves_if calm_newID calm.evolves_return)
qed

lemma calm_upsert: "k \<notin> K \<Longrightarrow> evolves (calm K) (upsertRecord action k i c t u v)"
  by (rule evolves_direct) (auto simp: upsertRecord_def Let_def calm_def)

lemma calm_insert: "k \<notin> K \<Longrightarrow> evolves (calm K) (insertRecord action k i c t u v)"
  by (rule evolves_direct) (auto simp: insertRecord_def calm_def)

lemma calm_put: "k \<notin> K \<Longrightarrow> evolves (calm K) (putRecord env k i c t u v)"
  unfolding putRecord_def Let_def by (intro calm.evolves_if calm.evolves_fail calm_upsert)

lemma calm_putImmutable: "k \<notin> K \<Longrightarrow> evolves (calm K) (putImmutableRecord env k i c t v)"
  unfolding putImmutableRecord_def Let_def by (intro calm.evolves_if calm.evolves_fail calm_insert)

lemma calm_createScope: "evolves (calm K) (createScope env sc)"
proof -
  have "evolves (calm K) (\<lambda>s. if P s then (Inl e, s) else (Inr (), s\<lparr>st_scopes := f s\<rparr>))" for P e f
    by (rule evolves_direct) (simp add: calm_def)
  then show ?thesis unfolding createScope_def by (intro calm.evolves_bind calm.evolves_lift)
qed

lemma calm_storeRevokeScope: "evolves (calm K) (storeRevokeScope env i t)"
  by (rule evolves_direct) (auto simp: storeRevokeScope_def act_bind_def getScope_def act_gets_def calm_def split: sum.splits)

lemma calm_putArtifact: "evolves (calm K) (putArtifact env cfg a bytes)"
proof (rule putArtifact_keeps [OF calm.store_relation_axioms calm_newID])
  show "evolves (calm K) (ingest env cfg bytes)"
    by (rule evolves_direct) (simp add: ingest_def calm_def)
  show "evolves (calm K) (placeBlob env cfg path content m)" for path content m
  proof (rule evolves_direct)
    fix s
    show "calm K s (snd (placeBlob env cfg path content m s))"
      by (cases rule: placeBlob_cases [of env cfg path content m s]) (simp_all add: calm_def)
  qed
  show "evolves (calm K) (insertArtifact m)" if "freshRow m" for m
  proof (rule evolves_direct)
    fix s
    show "calm K s (snd (insertArtifact m s))"
      using that by (cases rule: insertArtifact_cases [of m s])
        (auto simp: calm_def samePurges_def samePurge_def map_of_snoc_fresh freshRow_def split: if_splits)
  qed
qed

lemma calm_jobs: "recordRun \<notin> K \<Longrightarrow> recordWorkerJob \<notin> K \<Longrightarrow> evolves (calm K) (createJobAndRun job run)"
  unfolding createJobAndRun_def by (intro evolves_atomically calm.rel_refl calm.evolves_bind calm_insert)

lemma calm_submitJob: "recordRun \<notin> K \<Longrightarrow> recordWorkerJob \<notin> K \<Longrightarrow> evolves (calm K) (submitJob env started job)"
  unfolding submitJob_def journalJob_def Let_def
  by (intro calm.evolves_bind calm.evolves_if calm.evolves_prod calm.evolves_fail calm.evolves_lift calm.evolves_return
      calm_newID calm_jobs)

text \<open>Every write but those of approvals, campaigns and purges is calm on the approvals.\<close>

interpretation calm_requests: control_writes "calm {recordApproval}" env "withRunner env started svc" for env started svc
proof unfold_locales
  show "evolves (calm {recordApproval}) (submit job)" if "svc_broker (withRunner env started svc) = Some submit" for submit job
    using that by (cases started) (auto simp: withRunner_def calm_submitJob)
qed (simp_all add: calm_newID calm_appendAudit calm_createScope calm_storeRevokeScope calm_putArtifact saveTarget_def
    saveApparatus_def saveFinding_def saveRevisionCheck_def saveSourceReview_def saveRemediation_def calm_put calm_putImmutable)

section \<open>The writes that are not calm\<close>

text \<open>A purge changes only rows and files of artifacts.\<close>

definition sameRest :: "Store \<Rightarrow> Store \<Rightarrow> bool" where
  "sameRest s s' \<longleftrightarrow> st_records s' = st_records s \<and> st_campaigns s' = st_campaigns s"

interpretation rest: store_relation sameRest
  by unfold_locales (simp_all add: sameRest_def)

lemma sameRest_simps [simp]: "sameRest s s" "sameRest s (s\<lparr>st_artifacts := z\<rparr>)" "sameRest s (s\<lparr>st_blobs := w\<rparr>)"
  by (simp_all add: sameRest_def)

lemma rest_markDeleted: "evolves sameRest (markDeleted cid t)"
  by (rule evolves_direct) (simp add: markDeleted_def)

lemma rest_removeBlob: "evolves sameRest (removeBlob env cfg path n cid)"
  by (rule evolves_direct) (simp add: removeBlob_def split: option.splits sum.splits)

lemma rest_tombstone: "evolves sameRest (tombstone env cfg a ap why now)"
proof (rule evolves_direct)
  fix s
  show "sameRest s (snd (tombstone env cfg a ap why now s))"
    by (cases rule: tombstone_cases [of env cfg a ap why now s]) simp_all
qed

lemma rest_purge: "evolves sameRest (storePurgeArtifact env cfg i ap why now)"
  unfolding storePurgeArtifact_def purgeFound_def settlePurge_def finishArtifactBlobPurge_def
  by (intro rest.evolves_bind rest.evolves_if rest.evolves_fail rest.evolves_return rest.evolves_gets rest.evolves_lift
      rest_tombstone rest_removeBlob rest_markDeleted) (simp_all add: getArtifact_def)

lemma samePurges_map:
  assumes "\<And>i a. samePurge a (f i a)"
  shows "samePurges s (s\<lparr>st_artifacts := map (\<lambda>(i, a). (i, f i a)) (st_artifacts s)\<rparr>)"
  unfolding samePurges_def using assms by (simp add: map_of_mapped) blast

lemma samePurge_deleted: "samePurge a (deletedAs cid t a)"
  by (simp add: samePurge_def deletedAs_def)

lemma markDeleted_purges: "evolves samePurges (markDeleted cid t)"
proof (rule evolves_direct)
  fix s
  show "samePurges s (snd (markDeleted cid t s))"
  proof (cases rule: markDeleted_cases [of cid t s])
    case marked
    then show ?thesis by (simp only: snd_conv) (rule samePurges_map, rule samePurge_deleted)
  qed simp
qed

lemma settle_purges: "evolves samePurges (settlePurge env cfg ap why now a)"
proof -
  have "evolves samePurges (removeBlob env cfg path n cid)" for path n cid
    by (rule evolves_direct) (simp add: removeBlob_def split: option.splits sum.splits)
  then show ?thesis unfolding settlePurge_def finishArtifactBlobPurge_def
    by (intro purges.evolves_bind purges.evolves_if purges.evolves_fail purges.evolves_return purges.evolves_gets
        purges.evolves_lift markDeleted_purges) (simp_all add: getArtifact_def)
qed

text \<open>The only new tombstone of a purge is that of its artifact, with its approval and its time.\<close>

definition onlyPurged :: "string \<Rightarrow> string \<Rightarrow> time \<Rightarrow> Store \<Rightarrow> Store \<Rightarrow> bool" where
  "onlyPurged i ap now s s' \<longleftrightarrow>
     (\<forall>j a'. map_of (st_artifacts s') j = Some a' \<longrightarrow> Artifact_PurgedAt a' \<noteq> None \<longrightarrow>
        (\<exists>a. map_of (st_artifacts s) j = Some a \<and>
           (samePurge a a' \<or> j = i \<and> Artifact_PurgedAt a' = Some now \<and> Artifact_PurgeApprovalID a' = ap \<and>
              Artifact_CampaignID a = Artifact_CampaignID a')))"

lemma onlyPurged_then: "onlyPurged i ap now s t \<Longrightarrow> samePurges t u \<Longrightarrow> onlyPurged i ap now s u"
  unfolding onlyPurged_def samePurges_def samePurge_def by metis

lemma settled_onlyPurged:
  assumes "onlyPurged i ap now s (snd (m s))"
  shows "onlyPurged i ap now s (snd (act_bind m (settlePurge env cfg ap why now) s))"
proof (cases "m s")
  case (Pair r u)
  show ?thesis
  proof (cases r)
    case (Inl e)
    with assms Pair show ?thesis by (simp add: act_bind_def)
  next
    case (Inr b)
    have "samePurges u (snd (settlePurge env cfg ap why now b u))"
      using settle_purges by (simp add: evolves_def)
    from onlyPurged_then [OF _ this] assms Pair Inr show ?thesis by (simp add: act_bind_def)
  qed
qed

lemma purgeFound_onlyPurged:
  assumes "map_of (st_artifacts s) i = Some a" "Artifact_ID a = i"
  shows "onlyPurged i ap now s (snd (purgeFound env cfg ap why now a s))"
proof -
  have self: "onlyPurged i ap now s s" by (auto simp: onlyPurged_def samePurge_def)
  have "onlyPurged i ap now s (snd (tombstone env cfg a ap why now s))"
  proof (cases rule: tombstone_cases [of env cfg a ap why now s])
    case (written path content v)
    show ?thesis unfolding written(4) using assms
      by (auto simp: onlyPurged_def samePurge_def update_conv' tombstoned_def)
  qed (simp add: self)
  then have "onlyPurged i ap now s (snd ((if Artifact_PurgedAt a = None then tombstone env cfg a ap why now else act_return a) s))"
    using self by (simp add: act_return_def)
  from settled_onlyPurged [where m = "if Artifact_PurgedAt a = None then tombstone env cfg a ap why now else act_return a", OF this]
  show ?thesis
    unfolding purgeFound_def act_fail_def using self by simp
qed

lemma purge_onlyPurged:
  assumes "storeOK env s"
  shows "onlyPurged i ap (if isZero now then env_now env' else now) s (snd (storePurgeArtifact env' cfg i ap why now s))"
proof (cases "map_of (st_artifacts s) i")
  case None
  then show ?thesis
    by (auto simp: storePurgeArtifact_def act_bind_def getArtifact_def act_gets_def lookup_def onlyPurged_def samePurge_def)
next
  case (Some a)
  have "Artifact_ID a = i" using storeOK_artifact [OF assms Some] by (simp add: artifactOK_def)
  from purgeFound_onlyPurged [OF Some this] Some show ?thesis
    by (simp add: storePurgeArtifact_def act_bind_def getArtifact_def act_gets_def lookup_def)
qed

lemma evolves_conjD1: "evolves (\<lambda>s s'. R s s' \<and> Q s s') m \<Longrightarrow> evolves R m"
  by (simp add: evolves_def)

lemma evolves_conjD2: "evolves (\<lambda>s s'. R s s' \<and> Q s s') m \<Longrightarrow> evolves Q m"
  by (simp add: evolves_def)

lemma creation_calm: "evolves (\<lambda>s s'. sameRecords K s s' \<and> samePurges s s') (storeCreateCampaign env c)"
proof (rule evolves_direct)
  fix s
  show "sameRecords K s (snd (storeCreateCampaign env c s)) \<and> samePurges s (snd (storeCreateCampaign env c s))"
    by (cases rule: storeCreateCampaign_cases [of env c s]) simp_all
qed

lemma update_calm: "evolves (\<lambda>s s'. sameRecords K s s' \<and> samePurges s s') (updateCampaign env c v)"
proof (rule evolves_direct)
  fix s
  show "sameRecords K s (snd (updateCampaign env c v s)) \<and> samePurges s (snd (updateCampaign env c v s))"
    by (cases rule: updateCampaign_cases [of env c v s]) simp_all
qed

lemmas campaign_calm = creation_calm [THEN evolves_conjD1] creation_calm [THEN evolves_conjD2]
  update_calm [THEN evolves_conjD1] update_calm [THEN evolves_conjD2]

text \<open>So each of the three relations is kept by the requests of the other kinds.\<close>

lemmas calm_axioms = calm_requests.draw calm_requests.audit calm_requests.target calm_requests.apparatus calm_requests.finding
  calm_requests.revision calm_requests.review calm_requests.remediation calm_requests.scope calm_requests.revocation
  calm_requests.evidence calm_requests.broker

lemmas calm_axioms_records = calm_axioms [THEN calmD(1)]
lemmas calm_axioms_campaigns = calm_axioms [THEN calmD(2)]
lemmas calm_axioms_purges = calm_axioms [THEN calmD(3)]

interpretation approvals_kept: undecided_writes "sameRecords {recordApproval}" env "withRunner env started svc" for env started svc
proof unfold_locales
  show "evolves (sameRecords {recordApproval}) (storePurgeArtifact env (svc_store (withRunner env started svc)) i ap why now)" for i ap why now
    using rest_purge unfolding evolves_def sameRest_def sameRecords_def by metis
qed (auto intro!: calm_axioms_records campaign_calm)

interpretation campaigns_kept: unmoved_writes sameCampaigns env "withRunner env started svc" for env started svc
proof unfold_locales
  show "evolves sameCampaigns (storePurgeArtifact env (svc_store (withRunner env started svc)) i ap why now)" for i ap why now
    using rest_purge unfolding evolves_def sameRest_def sameCampaigns_def by metis
  show "evolves sameCampaigns (saveApproval env a)" for a
    unfolding saveApproval_def by (rule calmD(2) [OF calm_put [of _ "{}"]]) simp
qed (auto intro!: calm_axioms_campaigns)

interpretation purges_kept: unpurged_writes samePurges env "withRunner env started svc" for env started svc
proof unfold_locales
  show "evolves samePurges (saveApproval env a)" for a
    unfolding saveApproval_def by (rule calmD(3) [OF calm_put [of _ "{}"]]) simp
qed (auto intro!: calm_axioms_purges campaign_calm)

end
