(* ===== verification/Lifecycle.thy ===== *)
theory Lifecycle
  imports Control_Laws Pipeline
begin

text \<open>
  The campaigns of the store under the requests of the control plane refine the state machine of
  \<open>Campaign_Machine\<close>: a request creates a draft or takes a gate. The argument is that of the code: a
  handler reads a campaign, computes the next one with \<^verbatim>\<open>Advance\<close> and stores it under the version
  it has read, and versions only grow.
\<close>

section \<open>The abstract machine\<close>

definition absCampaigns :: "Store \<Rightarrow> string \<Rightarrow> CampaignState option" where
  "absCampaigns s i = map_option CRow_State (map_of (st_campaigns s) i)"

inductive lifecycle :: "StateMachine \<Rightarrow> (string \<Rightarrow> CampaignState option) \<Rightarrow> (string \<Rightarrow> CampaignState option) \<Rightarrow> bool"
  for m :: StateMachine where
  create: "a i = None \<Longrightarrow> lifecycle m a (a(i \<mapsto> CampaignDraft))"
| move: "a i = Some st \<Longrightarrow> gate m facts st st' \<Longrightarrow> lifecycle m a (a(i \<mapsto> st'))"

lemma lifecycle_terminal:
  "lifecycle m a b \<Longrightarrow> a i = Some st \<Longrightarrow> terminalCampaignState st \<Longrightarrow> b i = Some st"
  by (induction rule: lifecycle.induct) (auto dest: gate_terminal)

lemma lifecycles_terminal:
  "(lifecycle m)\<^sup>*\<^sup>* a b \<Longrightarrow> a i = Some st \<Longrightarrow> terminalCampaignState st \<Longrightarrow> b i = Some st"
  by (induction rule: rtranclp_induct) (auto dest: lifecycle_terminal)

lemma lifecycles_defined: "(lifecycle m)\<^sup>*\<^sup>* a b \<Longrightarrow> b i = None \<Longrightarrow> a i = None"
  by (induction rule: rtranclp_induct) (auto elim!: lifecycle.cases split: if_splits)

section \<open>Moves since a state\<close>

text \<open>
  A handler works on a campaign that was stored in an earlier state \<open>s0\<close>. Since then the tables
  have kept their history; from there on the campaigns may only follow the machine.
\<close>

definition movesSince :: "Env \<Rightarrow> StateMachine \<Rightarrow> Store \<Rightarrow> Store \<Rightarrow> Store \<Rightarrow> bool" where
  "movesSince env m s0 s s' \<longleftrightarrow>
     (storeOK env s \<and> historyKept s0 s \<longrightarrow>
        storeOK env s' \<and> historyKept s0 s' \<and> (lifecycle m)\<^sup>*\<^sup>* (absCampaigns s) (absCampaigns s'))"

definition stored :: "Env \<Rightarrow> Store \<Rightarrow> Campaign \<Rightarrow> bool" where
  "stored env s c \<longleftrightarrow> storeOK env s \<and> (\<exists>row. map_of (st_campaigns s) (Campaign_ID c) = Some row \<and> CRow_Data row = c)"

interpretation moves: store_relation "movesSince env m s0" for env m s0
  by unfold_locales (auto simp: movesSince_def)

lemma movesSince_quiet:
  assumes "evolves (lawful env) n" "evolves sameCampaigns n"
  shows "evolves (movesSince env m s0) n"
  unfolding evolves_def
proof
  fix s
  have "lawful env s (snd (n s))" "sameCampaigns s (snd (n s))" using assms by (simp_all add: evolves_def)
  moreover from this(2) have "absCampaigns (snd (n s)) = absCampaigns s" by (simp add: absCampaigns_def sameCampaigns_def fun_eq_iff)
  ultimately show "movesSince env m s0 s (snd (n s))"
    by (auto simp: movesSince_def lawful_def intro: history.rel_trans)
qed

interpretation moves: unmoved_writes "movesSince env m s0" env "withRunner env started svc" for env m s0 started svc
  by unfold_locales (auto intro!: movesSince_quiet lawful_requests.draw lawful_requests.audit lawful_requests.target
      lawful_requests.apparatus lawful_requests.finding lawful_requests.revision lawful_requests.review
      lawful_requests.remediation lawful_requests.scope lawful_requests.revocation lawful_requests.evidence
      lawful_requests.broker lawful_requests.purge lawful_requests.approval campaigns_kept.draw campaigns_kept.audit
      campaigns_kept.target campaigns_kept.apparatus campaigns_kept.finding campaigns_kept.revision campaigns_kept.review
      campaigns_kept.remediation campaigns_kept.scope campaigns_kept.revocation campaigns_kept.evidence
      campaigns_kept.broker campaigns_kept.purge campaigns_kept.approval)

lemma wrap64_next_neq: "wrap64 (v + 1) \<noteq> v"
proof
  let ?w = "v + 2 ^ 63"
  assume "wrap64 (v + 1) = v"
  then have w: "(?w + 1) mod 2 ^ 64 = ?w" by (simp add: wrap64_def algebra_simps)
  then have "(?w + 1) mod 2 ^ 64 = ?w mod 2 ^ 64" by (metis mod_mod_trivial)
  then have "(2 ^ 64 :: int) dvd ?w + 1 - ?w" by (simp only: mod_eq_dvd_iff)
  then show False by simp
qed

lemma storeOK_campaignRow:
  "storeOK env s \<Longrightarrow> map_of (st_campaigns s) i = Some row \<Longrightarrow> campaignRowOK (st_scopes s) i row"
  by (simp add: storeOK_def tableOK_def)

lemma stored_row:
  assumes "stored env s0 c" "historyKept s0 s" "map_of (st_campaigns s) (Campaign_ID c) = Some row"
    "CRow_Version row = Campaign_Version c"
  shows "CRow_State row = Campaign_State c"
proof -
  from assms(1) obtain row0 where row0: "map_of (st_campaigns s0) (Campaign_ID c) = Some row0" "CRow_Data row0 = c"
    and ok: "campaignRowOK (st_scopes s0) (Campaign_ID c) row0"
    by (auto simp: stored_def storeOK_def tableOK_def)
  from assms(2,3) row0(1) have "campaignLater (Campaign_ID c) row0 row"
    unfolding historyKept_def tableKept_def by (metis option.inject)
  with ok row0(2) assms(4) have "row = row0" by (auto simp: campaignLater_def campaignRowOK_def)
  with ok row0(2) show ?thesis by (simp add: campaignRowOK_def)
qed

lemma update_moves:
  assumes "stored env s0 c" "advance clock m c st facts now = Inr c'"
  shows "evolves (movesSince env m s0) (updateCampaign env c' (Campaign_Version c))"
proof (rule evolves_direct)
  fix s
  show "movesSince env m s0 s (snd (updateCampaign env c' (Campaign_Version c) s))"
  proof (cases rule: updateCampaign_cases [of env c' "Campaign_Version c" s])
    case (refused e)
    then show ?thesis by (simp add: moves.rel_refl)
  next
    case (written row)
    let ?s = "snd (updateCampaign env c' (Campaign_Version c) s)"
    have "evolves (lawful env) (updateCampaign env c' (Campaign_Version c))" by (rule lawful_requests.update)
    then have lawful: "lawful env s ?s" by (simp add: evolves_def)
    have v: "Campaign_Version c' \<noteq> Campaign_Version c"
      unfolding written(3) by (rule wrap64_next_neq)
    with assms(2) have g: "gate m facts (Campaign_State c) (Campaign_State c')" and i: "Campaign_ID c' = Campaign_ID c"
      by (auto simp: advance_refines_gate moved_def)
    have abs: "absCampaigns ?s = (absCampaigns s)(Campaign_ID c \<mapsto> Campaign_State c')"
      unfolding written(5) by (auto simp: absCampaigns_def updatedRow_def i update_conv' fun_eq_iff)
    have "lifecycle m (absCampaigns s) (absCampaigns ?s)" if "historyKept s0 s"
    proof -
      have "absCampaigns s (Campaign_ID c) = Some (Campaign_State c)"
        using stored_row [OF assms(1) that] written(1,2) by (simp add: absCampaigns_def i)
      from lifecycle.move [where a = "absCampaigns s", OF this g] show ?thesis unfolding abs .
    qed
    with lawful show ?thesis by (auto simp: movesSince_def lawful_def intro: history.rel_trans)
  qed
qed

lemma storeMoved_moves:
  assumes "stored env s0 c" "advance clock m c st facts now = Inr c'"
  shows "evolves (movesSince env m s0) (storeMoved env c c')"
  unfolding storeMoved_def using update_moves [OF assms] by simp

lemma creation_moves:
  assumes "Campaign_State c = CampaignDraft"
  shows "evolves (movesSince env m s0) (storeCreateCampaign env c)"
proof (rule evolves_direct)
  fix s
  show "movesSince env m s0 s (snd (storeCreateCampaign env c s))"
  proof (cases rule: storeCreateCampaign_cases [of env c s])
    case (refused e)
    then show ?thesis by (simp add: moves.rel_refl)
  next
    case (written c')
    let ?s = "snd (storeCreateCampaign env c s)"
    have "evolves (lawful env) (storeCreateCampaign env c)" by (rule lawful_requests.creation)
    then have lawful: "lawful env s ?s" by (simp add: evolves_def)
    have c': "Campaign_ID c' = Campaign_ID c" "Campaign_State c' = CampaignDraft"
      using assms by (simp_all add: written(1) fillCampaign_def)
    have "absCampaigns ?s = (absCampaigns s)(Campaign_ID c \<mapsto> CampaignDraft)"
      unfolding written(6) using written(4) c'
      by (auto simp: absCampaigns_def campaignRow_def map_add_def fun_eq_iff split: option.splits)
    moreover have "absCampaigns s (Campaign_ID c) = None" using written(4) by (simp add: absCampaigns_def)
    ultimately have "lifecycle m (absCampaigns s) (absCampaigns ?s)" by (metis lifecycle.create)
    with lawful show ?thesis by (auto simp: movesSince_def lawful_def intro: history.rel_trans)
  qed
qed

section \<open>The handlers\<close>

text \<open>Rules that keep what a read or a check has established.\<close>

lemma evolves_bind_known:
  assumes "store_relation R" "evolves R n" "\<And>x s s'. n s = (Inr x, s') \<Longrightarrow> evolves R (f x)"
  shows "evolves R (act_bind n f)"
proof (rule evolves_direct)
  fix s
  show "R s (snd (act_bind n f s))"
    using assms(2,3) by (intro store_relation.bind_at [OF assms(1)]) (auto simp: evolves_def)
qed

definition movesNow :: "Env \<Rightarrow> StateMachine \<Rightarrow> Store \<Rightarrow> Store \<Rightarrow> bool" where
  "movesNow env m s s' \<longleftrightarrow> movesSince env m s s s'"

interpretation now: store_relation "movesNow env m" for env m
  by unfold_locales (auto simp: movesNow_def movesSince_def history.rel_refl intro: history.rel_trans rtranclp_trans)

lemma movesNowI: "(\<And>s0. evolves (movesSince env m s0) n) \<Longrightarrow> evolves (movesNow env m) n"
  by (simp add: evolves_def movesNow_def)

lemma denied_moves: "evolves (movesNow env m) (denied env actor action kind i why)"
  by (rule movesNowI) (rule moves.denied_keeps)

lemma read_moves: "reader n \<Longrightarrow> evolves (movesNow env m) n"
  by (rule movesNowI) (rule moves.evolves_reader)

lemma stored_read:
  assumes "storeOK env s" "getCampaign i s = (Inr c, s')"
  shows "stored env s c" "s' = s"
proof -
  from assms(2) obtain row where row: "map_of (st_campaigns s) i = Some row" "CRow_Data row = c" "s' = s"
    by (cases "map_of (st_campaigns s) i") (simp_all add: getCampaign_def act_gets_def lookup_def)
  have "Campaign_ID c = i" using storeOK_campaignRow [OF assms(1) row(1)] row(2) by (simp add: campaignRowOK_def)
  with assms(1) row(1,2) show "stored env s c" unfolding stored_def by blast
  show "s' = s" by (rule row(3))
qed

lemma getCampaign_moves:
  assumes "\<And>s c. stored env s c \<Longrightarrow> evolves (movesSince env m s) (f c)"
  shows "evolves (movesNow env m) (act_bind (getCampaign i) f)"
proof (rule evolves_direct)
  fix s
  show "movesNow env m s (snd (act_bind (getCampaign i) f s))"
  proof (cases "storeOK env s")
    case True
    show ?thesis
    proof (rule now.bind_at)
      show "movesNow env m s (snd (getCampaign i s))"
        using readerD [OF reader_gets_ops(2)] by (metis now.rel_refl prod.collapse)
      fix c s1
      assume "getCampaign i s = (Inr c, s1)"
      from stored_read [OF True this] assms show "movesNow env m s1 (snd (f c s1))"
        by (simp add: evolves_def movesNow_def)
    qed
  qed (simp add: movesNow_def movesSince_def)
qed

lemma workflowFinding_moves:
  assumes "\<And>s c sc fi. stored env s c \<Longrightarrow> evolves (movesSince env m s) (f (c, sc, fi))"
  shows "evolves (movesNow env m) (act_bind (workflowFinding env actor c fi action roles) f)"
  unfolding workflowFinding_def act_bind_assoc act_return_bind
  by (intro now.evolves_bind now.evolves_ensure denied_moves getCampaign_moves, intro moves.handler assms)

lemma advance_lift:
  "(\<And>c'. advance clock m c st facts now = Inr c' \<Longrightarrow> evolves (movesSince env m s0) (f c')) \<Longrightarrow>
    evolves (movesSince env m s0) (act_bind (act_lift (advance clock m c st facts now)) f)"
  by (rule evolves_bind_known [OF moves.store_relation_axioms]) (auto simp: act_lift_def)

lemma refuses_denied [simp, intro!]: "refuses (denied env actor action kind i why)"
  by (simp add: denied_def refuses_def act_bind_def act_fail_def split: prod.splits sum.splits)

lemma advance_orElse:
  assumes "\<And>e. evolves (movesSince env m s0) (h e)" "\<And>e. refuses (h e)"
    "\<And>c'. advance clock m c st facts now = Inr c' \<Longrightarrow> evolves (movesSince env m s0) (f c')"
  shows "evolves (movesSince env m s0) (act_bind (act_orElse (advance clock m c st facts now) h) f)"
  using assms by (intro evolves_bind_known [OF moves.store_relation_axioms] moves.evolves_orElse) (auto simp: act_orElse_Inr_iff)

lemmas move_steps = update_moves storeMoved_moves creation_moves
lemmas known = advance_lift advance_orElse

lemma serviceCreateCampaign_moves: "evolves (movesNow env m) (serviceCreateCampaign env actor c)"
  unfolding serviceCreateCampaign_def Let_def
  by (rule movesNowI, intro moves.handler creation_moves) simp

lemma transition_moves: "evolves (movesNow env (svc_machine svc)) (transition env svc actor c st facts)"
  unfolding transition_def
  by (intro now.evolves_bind now.evolves_ensure denied_moves getCampaign_moves, intro known moves.handler refuses_denied update_moves)

lemma acquireTarget_moves:
  "evolves (movesNow env (svc_machine (withRunner env started svc))) (acquireTarget env (withRunner env started svc) actor c request)"
  unfolding acquireTarget_def
  by (intro now.evolves_bind now.evolves_ensure denied_moves getCampaign_moves,
      intro known moves.handler refuses_denied update_moves moves.acquireAuthorized_keeps moves.captureAndSave_keeps)

lemma completeBranchReview_moves:
  "evolves (movesNow env (svc_machine svc)) (completeBranchReview env svc actor c f)"
  unfolding completeBranchReview_def Let_def
  by (rule workflowFinding_moves, unfold case_prod_conv) (intro known moves.handler refuses_denied storeMoved_moves)

lemma completeNoveltyReview_moves:
  "evolves (movesNow env (svc_machine svc)) (completeNoveltyReview env svc actor c f)"
  unfolding completeNoveltyReview_def Let_def
  by (rule workflowFinding_moves, unfold case_prod_conv) (intro known moves.handler refuses_denied storeMoved_moves)

lemma validateRemediation_moves:
  "evolves (movesNow env (svc_machine (withRunner env started svc)))
     (validateRemediation env (withRunner env started svc) json actor c request)"
  unfolding validateRemediation_def Let_def
  by (rule workflowFinding_moves, unfold case_prod_conv)
    (intro known moves.handler refuses_denied storeMoved_moves moves.fixRecords_keeps)

lemma createPrivateReport_moves:
  "evolves (movesNow env (svc_machine (withRunner env started svc)))
     (createPrivateReport env (withRunner env started svc) actor c request)"
  unfolding createPrivateReport_def Let_def
  by (rule workflowFinding_moves, unfold case_prod_conv) (intro known moves.handler refuses_denied storeMoved_moves)

lemma recordDisclosure_moves:
  "evolves (movesNow env (svc_machine svc)) (recordDisclosure env svc actor c request)"
  unfolding recordDisclosure_def Let_def
  by (rule workflowFinding_moves, unfold case_prod_conv)
    (intro known moves.handler refuses_denied update_moves moves.authorizeAction_keeps)

lemma machine_withRunner [simp]: "svc_machine (withRunner env started svc) = svc_machine svc"
  by (simp add: withRunner_def)

lemmas machine_moves = transition_moves completeBranchReview_moves completeNoveltyReview_moves recordDisclosure_moves
lemmas campaign_moves = serviceCreateCampaign_moves acquireTarget_moves validateRemediation_moves createPrivateReport_moves

lemma serve_moves: "evolves (movesNow env (svc_machine svc)) (serve env (withRunner env started svc) json actor r)"
proof (cases "movesCampaign r")
  case False
  then show ?thesis by (intro movesNowI moves.serve_unmoved)
next
  case True
  then show ?thesis
    using campaign_moves machine_moves [where svc = "withRunner env started svc"]
    by (cases r) (simp_all add: evolves_def)
qed

section \<open>Workers\<close>

text \<open>Every call of a worker but \<^verbatim>\<open>advanceCampaign\<close> is calm on everything a request may decide.\<close>

fun advances :: "workerCall \<Rightarrow> bool" where
  "advances (AdvanceCampaign _ _ _ _ _) = True"
| "advances _ = False"

lemma pipelineEvent_schema [simp]: "Audit_SchemaVersion (pipelineEvent action kind i cor decision details) = 0"
  by (simp add: pipelineEvent_def auditEvent_def)

lemma calm_saveJobAndRun: "recordRun \<notin> K \<Longrightarrow> recordWorkerJob \<notin> K \<Longrightarrow> evolves (calm K) (saveJobAndRun job run)"
  unfolding saveJobAndRun_def by (intro evolves_atomically calm.rel_refl calm.evolves_bind calm_upsert)

lemma workerWrite_calm: "\<not> advances w \<Longrightarrow> evolves (calm {recordApproval}) (workerWrite env cfg m w)"
  by (cases w) (auto simp: saveBuild_def saveRun_def saveCrash_def saveCrashGroup_def savePrimitive_def saveFinding_def
      saveRevisionCheck_def saveSourceEvidence_def intro!: calm_put calm_putImmutable calm_saveJobAndRun calm_appendAudit
      calm_putArtifact calm.evolves_ignore calm.evolves_bind)

lemma workerWrite_lawful: "\<not> advances w \<Longrightarrow> evolves (lawful env) (workerWrite env cfg m w)"
  by (cases w) (auto simp: saveBuild_def saveRun_def saveCrash_def saveCrashGroup_def savePrimitive_def saveFinding_def
      saveRevisionCheck_def saveSourceEvidence_def immutableKind_def intro!: lawful_putRecord lawful_putImmutable
      lawful_saveJobAndRun lawful_appendAudit lawful.evolves_ignore lawful.evolves_bind)

lemma evolves_switch:
  assumes "store_relation R" "evolves R n" "\<And>e. evolves R (h e)" "\<And>x. evolves R (g x)"
  shows "evolves R (\<lambda>s. case n s of (Inl e, s') \<Rightarrow> h e s' | (Inr x, s') \<Rightarrow> g x s')"
proof (rule evolves_direct)
  fix s
  obtain r s' where n: "n s = (r, s')" by (metis prod.exhaust)
  with assms(2) have "R s s'" by (rule evolvesD)
  then show "R s (snd (case n s of (Inl e, s') \<Rightarrow> h e s' | (Inr x, s') \<Rightarrow> g x s'))"
    using assms(1,3,4) by (cases r) (auto simp: n evolves_def intro: store_relation.rel_trans)
qed

lemma conflict_case:
  assumes "store_relation R" "evolves R n"
  shows "evolves R (case e of ErrVersionConflict _ \<Rightarrow> n | _ \<Rightarrow> (\<lambda>s. (Inl e, s)))"
  using assms by (cases e) (simp_all add: evolves_def store_relation.rel_refl)

lemma conflict_at: "(case e of ErrVersionConflict _ \<Rightarrow> n s | _ \<Rightarrow> (Inl e, s)) = (case e of ErrVersionConflict _ \<Rightarrow> n | _ \<Rightarrow> (\<lambda>s. (Inl e, s))) s"
  by (cases e) simp_all

context campaign_writes
begin

lemma advanceCampaign_keeps: "evolves R (advanceCampaign env m c from to facts cor)"
  unfolding advanceCampaign_def conflict_at
  by (intro closure evolves_switch [OF store_relation_axioms] update conflict_case [OF store_relation_axioms] audit) simp

end

lemma advanceCampaign_moves: "evolves (movesNow env m) (advanceCampaign env m c from to facts cor)"
  unfolding advanceCampaign_def conflict_at
  by (intro getCampaign_moves moves.evolves_if moves.evolves_return advance_lift evolves_switch [OF moves.store_relation_axioms],
      erule (1) update_moves)
    (intro moves.closure conflict_case [OF moves.store_relation_axioms] moves.audit, simp)+

lemma workerWrite_moves: "evolves (movesNow env m) (workerWrite env cfg m w)"
proof (cases "advances w")
  case True
  then show ?thesis by (cases w) (simp_all add: advanceCampaign_moves)
next
  case False
  then show ?thesis
    by (intro movesNowI movesSince_quiet workerWrite_lawful calmD(2) [OF workerWrite_calm])
qed

section \<open>Reachable stores\<close>

text \<open>
  A step serves one request or makes one call of a worker. Between requests the clock, the host, the random source and the
  configuration may change; the digest of the audit log and the state machine may not. An identifier
  that the store draws for an approval is not one that an approval already has (sixteen random bytes).
\<close>

definition drawsFresh :: "Env \<Rightarrow> apiCall \<Rightarrow> Store \<Rightarrow> bool" where
  "drawsFresh env r s =
     (case r of RequestApproval ap \<Rightarrow>
        Approval_ID ap \<noteq> [] \<or> map_of (st_records s) (recordApproval, ''approval'' @ ''_'' @ env_random env (st_draws s)) = None
      | _ \<Rightarrow> True)"

inductive planeStep :: "digest \<Rightarrow> StateMachine \<Rightarrow> Store \<Rightarrow> Store \<Rightarrow> bool" for dg m where
  served: "env_digest env = dg \<Longrightarrow> svc_machine svc = m \<Longrightarrow> drawsFresh env r s \<Longrightarrow>
    planeStep dg m s (snd (serve env (withRunner env started svc) json actor r s))"
| worked: "env_digest env = dg \<Longrightarrow> planeStep dg m s (snd (workerWrite env cfg m w s))"

abbreviation planeRun :: "digest \<Rightarrow> StateMachine \<Rightarrow> Store \<Rightarrow> Store \<Rightarrow> bool" where
  "planeRun dg m \<equiv> (planeStep dg m)\<^sup>*\<^sup>*"

lemma storeOK_digest: "env_digest env = env_digest env' \<Longrightarrow> storeOK env s = storeOK env' s"
  by (simp add: storeOK_def)

lemma planeStep_moves:
  assumes "planeStep (env_digest env) m s s'" "storeOK env s"
  shows "storeOK env s' \<and> historyKept s s' \<and> (lifecycle m)\<^sup>*\<^sup>* (absCampaigns s) (absCampaigns s')"
proof -
  from assms(1) obtain env' where "env_digest env' = env_digest env" "movesNow env' m s s'"
  proof cases
    case (served env' svc r started json actor)
    have "movesNow env' m s s'" using serve_moves [of env' svc started json actor r] served by (simp add: evolves_def)
    with served(2) that show thesis by blast
  next
    case (worked env' cfg w)
    have "movesNow env' m s s'" using workerWrite_moves worked by (simp add: evolves_def)
    with worked(2) that show thesis by blast
  qed
  with assms(2) storeOK_digest [of env env'] show ?thesis
    by (simp add: movesNow_def movesSince_def history.rel_refl)
qed

lemma planeRun_moves:
  assumes "planeRun (env_digest env) m s s'" "storeOK env s"
  shows "storeOK env s' \<and> historyKept s s' \<and> (lifecycle m)\<^sup>*\<^sup>* (absCampaigns s) (absCampaigns s')"
  using assms
proof (induction rule: rtranclp_induct)
  case base
  then show ?case by (simp add: history.rel_refl)
next
  case (step s1 s2)
  then show ?case using planeStep_moves [OF step(2)] by (auto intro: history.rel_trans rtranclp_trans)
qed

lemmas reachable_OK = planeRun_moves [OF _ storeOK_empty, THEN conjunct1]

text \<open>The states of one campaign along a run of the abstract machine.\<close>

definition gateStep :: "StateMachine \<Rightarrow> CampaignState \<Rightarrow> CampaignState \<Rightarrow> bool" where
  "gateStep m st st' \<longleftrightarrow> (\<exists>facts. gate m facts st st')"

lemma lifecycle_path:
  assumes "(lifecycle m)\<^sup>*\<^sup>* a b" "b i = Some st"
  shows "(gateStep m)\<^sup>*\<^sup>* (case a i of None \<Rightarrow> CampaignDraft | Some st0 \<Rightarrow> st0) st"
  using assms
proof (induction arbitrary: st rule: rtranclp_induct)
  case base
  then show ?case by simp
next
  case (step b c)
  from step(2) show ?case
  proof cases
    case (create j)
    with step show ?thesis by (cases "i = j") (auto dest: lifecycles_defined split: option.splits)
  next
    case (move j st1 facts st2)
    with step show ?thesis by (cases "i = j") (auto simp: gateStep_def intro: rtranclp.rtrancl_into_rtrancl)
  qed
qed

lemma auditTrail_verifies: "auditTrail dg rows \<Longrightarrow> verifyAuditChain dg rows = Inr ()"
  using auditTrail_valid numbered_facts(2,3) by (fastforce simp: verifyAuditChain_iff)

section \<open>Properties\<close>

definition sampleService :: Service where
  "sampleService = \<lparr>svc_machine = sampleMachine, svc_broker = None, svc_sourceBroker = None, svc_apparatusAdmission = None,
     svc_workspaceRoots = [''/work''], svc_internalRoot = ''/data'', svc_store = plainConfig,
     svc_documents = \<lparr>doc_Compact = Some, doc_SPDX = (\<lambda>_. None), doc_SLSA = (\<lambda>_. None)\<rparr>,
     svc_acquisition = \<lparr>acq_CaptureDirectory = (\<lambda>root c t. Inr (root @ ''/'' @ c)),
       acq_CaptureGitCheckout = (\<lambda>dir rev dest limits. Inr (rev, rev, dest)),
       acq_VerifiedCapture = (\<lambda>dir commit tree dest limits. Inr dest)\<rparr>\<rparr>"

definition noRegressions :: RegressionJSON where
  "noRegressions = \<lparr>rj_Decode = (\<lambda>_. None), rj_AtEOF = (\<lambda>_. True)\<rparr>"

definition cancelled :: Store where
  "cancelled = snd (serve sampleEnv (withRunner sampleEnv (Some True) sampleService) noRegressions samplePrincipal
     (Transition ''c1'' CampaignCancelled noFacts) sampleStore)"

text \<open>
  C16. The control plane implements the campaign machine. Whatever request is served on a store that
  satisfies the invariant of its tables, the campaigns of the store before and after are related by
  steps of the abstract machine, in which a campaign is created as a draft and moves only through a
  gate with the evidence that the gate asks for.
\<close>

theorem requests_refine_campaign_machine:
  assumes "storeOK env s"
  shows "(lifecycle (svc_machine svc))\<^sup>*\<^sup>* (absCampaigns s)
    (absCampaigns (snd (serve env (withRunner env started svc) json actor r s)))"
  using serve_moves assms by (auto simp: evolves_def movesNow_def movesSince_def history.rel_refl)

theorem requests_refine_campaign_machine_witness:
  "storeOK sampleEnv sampleStore \<and> (lifecycle sampleMachine)\<^sup>*\<^sup>* (absCampaigns sampleStore) (absCampaigns cancelled) \<and>
   absCampaigns sampleStore ''c1'' = Some CampaignDraft \<and> absCampaigns cancelled ''c1'' = Some CampaignCancelled"
proof (intro conjI sampleStore_OK)
  show "(lifecycle sampleMachine)\<^sup>*\<^sup>* (absCampaigns sampleStore) (absCampaigns cancelled)"
    using requests_refine_campaign_machine [OF sampleStore_OK, of sampleService "Some True" noRegressions samplePrincipal
      "Transition ''c1'' CampaignCancelled noFacts"] by (simp add: cancelled_def sampleService_def)
  show "absCampaigns sampleStore ''c1'' = Some CampaignDraft" by code_simp
  show "absCampaigns cancelled ''c1'' = Some CampaignCancelled" by code_simp
qed

definition sampleServe :: "Principal \<Rightarrow> apiCall \<Rightarrow> Store \<Rightarrow> Store" where
  "sampleServe actor r s = snd (serve sampleEnv (withRunner sampleEnv (Some True) sampleService) noRegressions actor r s)"

definition scopedStore :: Store where
  "scopedStore = sampleServe samplePrincipal (CreateCampaign sampleCampaign)
     (sampleServe samplePrincipal (CreateScope sampleScope) emptyStore)"

definition stoppedStore :: Store where
  "stoppedStore = sampleServe samplePrincipal (Transition ''c1'' CampaignCancelled noFacts) scopedStore"

lemma sampleServe_reached:
  assumes "planeRun (env_digest sampleEnv) sampleMachine s0 s" "drawsFresh sampleEnv r s"
  shows "planeRun (env_digest sampleEnv) sampleMachine s0 (sampleServe actor r s)"
proof -
  have "planeStep (env_digest sampleEnv) sampleMachine s (sampleServe actor r s)"
    unfolding sampleServe_def by (rule served) (simp_all add: sampleService_def assms(2))
  with assms(1) show ?thesis by (rule rtranclp.rtrancl_into_rtrancl)
qed

lemma scopedStore_reached: "planeRun (env_digest sampleEnv) sampleMachine emptyStore scopedStore"
  unfolding scopedStore_def by (intro sampleServe_reached rtranclp.rtrancl_refl) (simp_all add: drawsFresh_def)

lemma stoppedStore_reached: "planeRun (env_digest sampleEnv) sampleMachine scopedStore stoppedStore"
  unfolding stoppedStore_def by (intro sampleServe_reached rtranclp.rtrancl_refl) (simp add: drawsFresh_def)

text \<open>
  C17. Requests keep the records of the campaign. From an empty store, whatever requests are served,
  the tables satisfy their invariant, nothing that was recorded before is lost or rewritten (audit
  events, immutable records, creation times, tombstones, revocations), and the audit log verifies.
\<close>

theorem requests_keep_history:
  assumes "planeRun (env_digest env) m emptyStore s" "planeRun (env_digest env) m s s'"
    and "int (length (st_audit s')) \<le> 2 ^ 63 - 1"
  shows "storeOK env s' \<and> historyKept s s' \<and> verifyAuditChain (env_digest env) (st_audit s') = Inr ()"
proof -
  from planeRun_moves [OF assms(2) reachable_OK [OF assms(1)]] have s': "storeOK env s'" "historyKept s s'" by auto
  with assms(3) have "auditTrail (env_digest env) (st_audit s')" by (simp add: storeOK_def)
  with s' show ?thesis by (simp add: auditTrail_verifies)
qed

theorem requests_keep_history_witness:
  "length (st_audit stoppedStore) = 3 \<and> historyKept scopedStore stoppedStore \<and>
   verifyAuditChain sampleDigest (st_audit stoppedStore) = Inr ()"
proof -
  have n: "length (st_audit stoppedStore) = 3" by code_simp
  with requests_keep_history [OF scopedStore_reached stoppedStore_reached] show ?thesis
    by (simp add: sampleEnv_def)
qed

text \<open>
  C26. Stored records are well typed. In every store that requests and workers can reach, a read by
  kind and id finds no record or decodes one of exactly that kind whose own id is the one asked for,
  and a campaign id on a record names a campaign; no read fails for a record of another kind.
\<close>

theorem stored_records_are_typed:
  assumes "planeRun dg m emptyStore s" "map_of (st_records s) (kind, i) = Some row"
  shows "fst (getRecord kind as i s) = Inr (as (Row_Data row)) \<and> dataKind (Row_Data row) = kind \<and> dataID (Row_Data row) = i \<and>
    (\<forall>c. Row_CampaignID row = Some c \<longrightarrow> absCampaigns s c \<noteq> None)"
proof -
  obtain env :: Env where env: "env_digest env = dg" by (metis Env.select_convs(2))
  with assms(1) have "storeOK env s" using reachable_OK by blast
  then have "recordRowOK (st_campaigns s) (kind, i) row" using assms(2) by (simp add: storeOK_def tableOK_def)
  with assms(2) show ?thesis
    by (simp add: recordRowOK_def getRecord_def act_gets_def lookup_def absCampaigns_def)
qed

definition approvalStore :: Store where
  "approvalStore = sampleServe samplePrincipal (RequestApproval \<lparr>Approval_SchemaVersion = 1, Approval_ID = ''p1'', Approval_ScopeID = ''s1'',
     Approval_CampaignID = ''c1'', Approval_CorrelationID = ''k1'', Approval_Operation = OperationFuzz, Approval_Status = [],
     Approval_RequestedBy = [], Approval_DecidedBy = [], Approval_Reason = ''why'', Approval_CreatedAt = zeroTime, Approval_DecidedAt = None\<rparr>) scopedStore"

theorem stored_records_are_typed_witness:
  "map_option Approval_ID (case fst (getApproval ''p1'' approvalStore) of Inl e \<Rightarrow> None | Inr a \<Rightarrow> Some a) = Some ''p1'' \<and>
   (\<exists>row. map_of (st_records approvalStore) (recordApproval, ''p1'') = Some row \<and> dataID (Row_Data row) = ''p1'')"
proof -
  have r: "planeRun (env_digest sampleEnv) sampleMachine emptyStore approvalStore"
    unfolding approvalStore_def by (rule sampleServe_reached [OF scopedStore_reached]) (simp add: drawsFresh_def)
  have "map_option (\<lambda>row. dataID (Row_Data row)) (map_of (st_records approvalStore) (recordApproval, ''p1'')) = Some ''p1''" by code_simp
  then obtain row where row: "map_of (st_records approvalStore) (recordApproval, ''p1'') = Some row" "dataID (Row_Data row) = ''p1''" by auto
  have "dataKind (Row_Data row) = recordApproval" using stored_records_are_typed [OF r row(1)] by blast
  then have "Approval_ID (asApproval (Row_Data row)) = ''p1''" using row(2) by (cases "Row_Data row") simp_all
  with stored_records_are_typed [OF r row(1), of asApproval] row show ?thesis by (simp add: getApproval_def)
qed

text \<open>
  C18. Every campaign has passed its gates. In every store that requests can reach, the state of a
  campaign is reached from the draft through gates only, and once the state is terminal no request
  changes it again.
\<close>

theorem reachable_campaign_passed_its_gates:
  assumes "planeRun dg m emptyStore s" "planeRun dg m s s'" "absCampaigns s i = Some st"
  shows "(gateStep m)\<^sup>*\<^sup>* CampaignDraft st \<and> (terminalCampaignState st \<longrightarrow> absCampaigns s' i = Some st)"
proof -
  obtain env :: Env where env: "env_digest env = dg" by (metis Env.select_convs(2))
  from planeRun_moves [OF _ storeOK_empty, of env m s] assms(1) env
  have s: "storeOK env s" "(lifecycle m)\<^sup>*\<^sup>* (absCampaigns emptyStore) (absCampaigns s)" by auto
  from planeRun_moves [OF _ s(1), of m s'] assms(2) env
  have "(lifecycle m)\<^sup>*\<^sup>* (absCampaigns s) (absCampaigns s')" by auto
  with lifecycles_terminal assms(3) have "terminalCampaignState st \<longrightarrow> absCampaigns s' i = Some st" by blast
  moreover have "(gateStep m)\<^sup>*\<^sup>* CampaignDraft st"
    using lifecycle_path [OF s(2) assms(3)] by (simp add: absCampaigns_def emptyStore_def)
  ultimately show ?thesis by blast
qed

theorem reachable_campaign_passed_its_gates_witness:
  "absCampaigns stoppedStore ''c1'' = Some CampaignCancelled \<and> (gateStep sampleMachine)\<^sup>*\<^sup>* CampaignDraft CampaignCancelled \<and>
   terminalCampaignState CampaignCancelled"
proof -
  have c: "absCampaigns stoppedStore ''c1'' = Some CampaignCancelled" by code_simp
  from reachable_campaign_passed_its_gates [OF rtranclp_trans [OF scopedStore_reached stoppedStore_reached] rtranclp.rtrancl_refl c] c
  show ?thesis by (simp add: terminalCampaignState_def)
qed

end
