(* ===== verification/Approvals.thy ===== *)
theory Approvals
  imports Lifecycle
begin

text \<open>
  Approvals and what rests on them. An approval is a small machine of its own: requested, then
  decided once, by somebody else when evidence is to be purged. A tombstone is only ever written on
  the authority of such a decision.
\<close>

section \<open>The machine of one approval\<close>

definition pendingApproval :: "Approval \<Rightarrow> bool" where
  "pendingApproval ap \<longleftrightarrow> Approval_Status ap = ''pending'' \<and> Approval_DecidedBy ap = [] \<and> Approval_DecidedAt ap = None"

inductive approvalStep :: "Approval option \<Rightarrow> Approval option \<Rightarrow> bool" where
  request: "pendingApproval ap \<Longrightarrow> approvalStep None (Some ap)"
| decide: "Approval_Status ap = ''pending'' \<Longrightarrow> who \<noteq> [] \<Longrightarrow> status \<in> {''approved'', ''denied''} \<Longrightarrow>
    (Approval_Operation ap = OperationPurgeArtifact \<longrightarrow> who \<noteq> Approval_RequestedBy ap) \<Longrightarrow>
    approvalStep (Some ap)
      (Some (ap\<lparr>Approval_Status := status, Approval_DecidedBy := who, Approval_DecidedAt := Some t, Approval_Reason := why\<rparr>))"

inductive_cases approvalStep_some: "approvalStep (Some ap) o'"

definition approvalSound :: "Approval \<Rightarrow> bool" where
  "approvalSound ap \<longleftrightarrow> pendingApproval ap \<or>
     Approval_Status ap \<in> {''approved'', ''denied''} \<and> Approval_DecidedBy ap \<noteq> [] \<and> Approval_DecidedAt ap \<noteq> None \<and>
     (Approval_Operation ap = OperationPurgeArtifact \<longrightarrow> Approval_DecidedBy ap \<noteq> Approval_RequestedBy ap)"

lemma approvalStep_sound: "approvalStep o1 o2 \<Longrightarrow> o2 = Some ap \<Longrightarrow> approvalSound ap"
  by (induction rule: approvalStep.induct) (auto simp: approvalSound_def)

lemma approval_sound: "approvalStep\<^sup>*\<^sup>* None o2 \<Longrightarrow> o2 = Some ap \<Longrightarrow> approvalSound ap"
  by (erule rtranclp.cases) (auto dest: approvalStep_sound)

lemma approval_final:
  assumes "approvalStep\<^sup>*\<^sup>* (Some ap) o2" "Approval_Status ap \<noteq> ''pending''"
  shows "o2 = Some ap"
  using assms(1)
proof (cases rule: converse_rtranclpE)
  case (step o1)
  then show ?thesis using assms(2) by (auto elim: approvalStep_some)
qed simp

section \<open>Approvals of the store\<close>

definition approvalAt :: "Store \<Rightarrow> string \<Rightarrow> Approval option" where
  "approvalAt s i = map_option (\<lambda>row. asApproval (Row_Data row)) (map_of (st_records s) (recordApproval, i))"

definition approvalsMove :: "Store \<Rightarrow> Store \<Rightarrow> bool" where
  "approvalsMove s s' \<longleftrightarrow> (\<forall>i. approvalStep\<^sup>*\<^sup>* (approvalAt s i) (approvalAt s' i))"

interpretation approvals: store_relation approvalsMove
  by unfold_locales (auto simp: approvalsMove_def intro: rtranclp_trans)

lemma evolves_at: "evolves R n \<Longrightarrow> R s (snd (n s))"
  by (simp add: evolves_def)

lemma sameRecords_move: "sameRecords {recordApproval} s s' \<Longrightarrow> approvalsMove s s'"
  by (simp add: sameRecords_def approvalsMove_def approvalAt_def)

lemma evolves_sameRecords: "evolves (sameRecords {recordApproval}) n \<Longrightarrow> evolves approvalsMove n"
  unfolding evolves_def using sameRecords_move by blast

interpretation approvals: control_writes approvalsMove env "withRunner env started svc" for env started svc
  by unfold_locales (auto intro!: evolves_sameRecords calm_axioms_records)

lemma saveApproval_at: "approvalStep (approvalAt s (Approval_ID ap)) (Some ap) \<Longrightarrow> approvalsMove s (snd (saveApproval env ap s))"
  by (auto simp: approvalsMove_def approvalAt_def saveApproval_def putRecord_def act_fail_def upsertRecord_def Let_def recordRow_def
      update_conv' split: option.splits)

section \<open>The two handlers\<close>

text \<open>A handler that has only read so far is still in the state it read.\<close>

lemma at_read:
  assumes "store_relation R" "reader n" "\<And>x. n s = (Inr x, s) \<Longrightarrow> R s (snd (f x s))"
  shows "R s (snd (act_bind n f s))"
proof (rule store_relation.bind_at [OF assms(1)])
  show "R s (snd (n s))" using assms(1,2) by (simp add: reader_def store_relation.rel_refl)
  show "R s1 (snd (f x s1))" if "n s = (Inr x, s1)" for x s1
    using that readerD [OF assms(2) that] assms(3) by simp
qed

lemma at_ensure:
  assumes "evolves R d" "refuses d" "b \<Longrightarrow> R s (snd (f () s))"
  shows "R s (snd (act_bind (act_ensure b d) f s))"
proof (cases b)
  case True
  then show ?thesis using assms(3) by (simp add: act_ensure_def act_return_bind)
next
  case False
  obtain e s' where d: "d s = (Inl e, s')"
    using assms(2) unfolding refuses_def by (metis isl_def prod.collapse)
  have "R s (snd (d s))" using assms(1) by (simp add: evolves_def)
  with False d show ?thesis by (simp add: act_ensure_def act_bind_def)
qed

lemma at_then: "store_relation R \<Longrightarrow> R s (snd (n s)) \<Longrightarrow> (\<And>x. evolves R (f x)) \<Longrightarrow> R s (snd (act_bind n f s))"
  by (rule store_relation.bind_at) (simp_all add: evolves_def)

lemma storeOK_approval:
  assumes "storeOK env s" "getApproval i s = (Inr ap, s')"
  shows "Approval_ID ap = i" "approvalAt s i = Some ap"
proof -
  from assms(2) obtain row where row: "map_of (st_records s) (recordApproval, i) = Some row" "asApproval (Row_Data row) = ap"
    by (cases "map_of (st_records s) (recordApproval, i)")
      (simp_all add: getApproval_def getRecord_def act_gets_def lookup_def split: if_splits)
  have "recordRowOK (st_campaigns s) (recordApproval, i) row" using assms(1) row(1) by (simp add: storeOK_def tableOK_def)
  with row(2) show "Approval_ID ap = i" by (cases "Row_Data row") (auto simp: recordRowOK_def)
  from row show "approvalAt s i = Some ap" by (simp add: approvalAt_def)
qed

lemmas approval_at = at_ensure [of approvalsMove] reader_gets_ops [THEN at_read [of approvalsMove, OF approvals.store_relation_axioms]]
lemmas approval_then = at_then [of approvalsMove, OF approvals.store_relation_axioms]

lemma decideApproval_moves:
  assumes "storeOK env s"
  shows "approvalsMove s (snd (decideApproval env actor i b why s))"
  unfolding decideApproval_def Let_def
proof (intro approval_at approvals.denied_keeps refuses_denied, goal_cases)
  case (1 ap sc)
  let ?ap = "ap\<lparr>Approval_Status := if b then ''approved'' else ''denied'', Approval_DecidedBy := Principal_ID actor,
    Approval_DecidedAt := Some (env_now env), Approval_Reason := trimSpace why\<rparr>"
  note ap = storeOK_approval [OF assms 1(2)]
  have "approvalStep (Some ap) (Some ?ap)"
    using 1 by (intro approvalStep.decide) (auto simp: scopeMember_def split: if_splits)
  with ap have "approvalsMove s (snd (saveApproval env ?ap s))" by (intro saveApproval_at) simp
  then show ?case
    by (intro approval_then approvals.evolves_bind approvals.allowedWithDetails_keeps approvals.evolves_return)
qed

lemma requestPurgeChecks_Inr: "requestPurgeChecks env actor ap c sc s = (Inr u, s') \<Longrightarrow> s' = s"
  unfolding requestPurgeChecks_def Let_def
  by (cases "artifactIDFromPurgeCorrelation (Approval_CorrelationID ap)")
    (auto simp: act_simps getArtifact_def refusesD [OF refuses_denied])

lemma freshApprovalID_Inr:
  assumes "freshApprovalID env actor i s = (Inr j, s')" "drawsFresh env (RequestApproval ap) s" "Approval_ID ap = i"
  shows "approvalAt s' j = None" "approvalsMove s s'"
proof -
  have "approvalAt s' j = None \<and> approvalsMove s s'"
  proof (cases "i = []")
    case True
    with assms show ?thesis
      by (auto simp: freshApprovalID_def newID_def drawsFresh_def approvalAt_def approvalsMove_def)
  next
    case False
    show ?thesis
    proof (cases "map_of (st_records s) (recordApproval, i)")
      case None
      with False assms(1) show ?thesis
        by (simp add: freshApprovalID_def getApproval_def getRecord_def act_gets_def lookup_def approvalAt_def approvals.rel_refl)
    next
      case (Some row)
      with False assms(1) show ?thesis
        by (simp add: freshApprovalID_def getApproval_def getRecord_def act_gets_def lookup_def refusesD [OF refuses_denied] split: if_splits)
    qed
  qed
  then show "approvalAt s' j = None" "approvalsMove s s'" by blast+
qed

lemma fresh_tail:
  assumes "drawsFresh env (RequestApproval ap) s"
    and d: "\<And>i. evolves approvalsMove (d i)" "\<And>i. refuses (d i)"
    and pend: "\<And>i. pendingApproval (pend i)" "\<And>i. Approval_ID (pend i) = i" and g: "\<And>i. evolves approvalsMove (g i)"
  shows "approvalsMove s (snd (act_bind (freshApprovalID env actor (Approval_ID ap)) (\<lambda>i.
    act_bind (act_ensure b (d i)) (\<lambda>_. act_bind (saveApproval env (pend i)) (\<lambda>_. g i))) s))"
proof (rule approvals.bind_at)
  show "approvalsMove s (snd (freshApprovalID env actor (Approval_ID ap) s))"
    using approvals.freshApprovalID_keeps by (simp add: evolves_def)
  fix i s1
  assume "freshApprovalID env actor (Approval_ID ap) s = (Inr i, s1)"
  from freshApprovalID_Inr(1) [OF this assms(1)] have "approvalAt s1 i = None" by simp
  then have "approvalsMove s1 (snd (saveApproval env (pend i) s1))"
    using pend by (intro saveApproval_at) (simp add: approvalStep.request)
  with g d show "approvalsMove s1 (snd (act_bind (act_ensure b (d i)) (\<lambda>_. act_bind (saveApproval env (pend i)) (\<lambda>_. g i)) s1))"
    by (intro approval_at approval_then)
qed

lemma requestApproval_moves:
  assumes "drawsFresh env (RequestApproval ap) s"
  shows "approvalsMove s (snd (requestApproval env actor ap s))"
  unfolding requestApproval_def Let_def
proof (intro approval_at approvals.denied_keeps refuses_denied, goal_cases)
  case (1 c sc)
  let ?purge = "if Approval_Operation ap = OperationPurgeArtifact then requestPurgeChecks env actor ap c sc else act_return ()"
  have "evolves approvalsMove ?purge" by (intro approvals.evolves_if approvals.requestPurgeChecks_keeps approvals.evolves_return)
  then have purge: "approvalsMove s (snd (?purge s))" by (simp add: evolves_def)
  have quiet: "?purge s = (Inr u, s0) \<Longrightarrow> s0 = s" for u s0
    by (auto simp: act_return_def dest: requestPurgeChecks_Inr split: if_splits)
  show ?case
    by (rule approvals.bind_at, rule purge, drule quiet, hypsubst, rule fresh_tail [OF assms])
      (simp_all add: approvals.denied_keeps pendingApproval_def approvals.allowed_keeps approvals.evolves_bind)
qed

lemma workerWrite_approvals: "evolves (sameRecords {recordApproval}) (workerWrite env cfg m w)"
proof (cases "advances w")
  case True
  then show ?thesis by (cases w) (simp_all add: approvals_kept.advanceCampaign_keeps)
qed (rule calmD(1) [OF workerWrite_calm])

lemma workerWrite_purges: "evolves samePurges (workerWrite env cfg m w)"
proof (cases "advances w")
  case True
  then show ?thesis by (cases w) (simp_all add: purges_kept.advanceCampaign_keeps)
qed (rule calmD(3) [OF workerWrite_calm])

lemma planeStep_approvals:
  assumes "planeStep (env_digest env) m s s'" "storeOK env s"
  shows "approvalsMove s s'"
  using assms(1)
proof cases
  case (served env' svc r started json actor)
  from assms(2) served(2) have ok: "storeOK env' s" using storeOK_digest by metis
  show ?thesis
  proof (cases "decides r")
    case True
    then show ?thesis
      using requestApproval_moves [of env'] decideApproval_moves [OF ok] served(1,4) by (cases r) simp_all
  next
    case False
    then have "evolves approvalsMove (serve env' (withRunner env' started svc) json actor r)"
      by (intro evolves_sameRecords approvals_kept.serve_undecided)
    then show ?thesis by (simp add: evolves_def served(1))
  qed
next
  case (worked env' cfg w)
  show ?thesis unfolding worked(1) by (rule evolves_at, rule evolves_sameRecords, rule workerWrite_approvals)
qed

lemma planeRun_approvals:
  assumes "planeRun (env_digest env) m s s'" "storeOK env s"
  shows "approvalsMove s s'"
  using assms
proof (induction rule: rtranclp_induct)
  case base
  show ?case by (rule approvals.rel_refl)
next
  case (step s1 s2)
  then show ?case using planeStep_approvals [OF step(2)] planeRun_moves [OF step(1)] by (blast intro: approvals.rel_trans)
qed

section \<open>Tombstones\<close>

definition purgeAuthority :: "Approval \<Rightarrow> string \<Rightarrow> string \<Rightarrow> time \<Rightarrow> bool" where
  "purgeAuthority ap i campaign t \<longleftrightarrow>
     Approval_Status ap = ''approved'' \<and> Approval_Operation ap = OperationPurgeArtifact \<and>
     Approval_CorrelationID ap = artifactPurgeCorrelation i \<and> Approval_CampaignID ap = campaign \<and>
     Approval_DecidedBy ap \<noteq> [] \<and> Approval_DecidedBy ap \<noteq> Approval_RequestedBy ap \<and>
     (\<exists>d. Approval_DecidedAt ap = Some d \<and> d \<le> t \<and> t - d \<le> artifactPurgeApprovalLifetime)"

definition terminalCampaign :: "Store \<Rightarrow> string \<Rightarrow> bool" where
  "terminalCampaign s c \<longleftrightarrow> (\<exists>st. absCampaigns s c = Some st \<and> terminalCampaignState st)"

definition authorized :: "Store \<Rightarrow> string \<Rightarrow> string \<Rightarrow> string \<Rightarrow> time \<Rightarrow> bool" where
  "authorized s i campaign apID t \<longleftrightarrow>
     (\<exists>ap. approvalAt s apID = Some ap \<and> purgeAuthority ap i campaign t) \<and> terminalCampaign s campaign"

definition tombstonesBacked :: "Store \<Rightarrow> bool" where
  "tombstonesBacked s \<longleftrightarrow>
     (\<forall>i a t. map_of (st_artifacts s) i = Some a \<longrightarrow> Artifact_PurgedAt a = Some t \<longrightarrow>
        authorized s i (Artifact_CampaignID a) (Artifact_PurgeApprovalID a) t)"

lemma authorized_kept:
  assumes "authorized s i c apID t" "approvalsMove s s'" "(lifecycle m)\<^sup>*\<^sup>* (absCampaigns s) (absCampaigns s')"
  shows "authorized s' i c apID t"
proof -
  from assms(1) obtain ap st where ap: "approvalAt s apID = Some ap" "purgeAuthority ap i c t"
    and st: "absCampaigns s c = Some st" "terminalCampaignState st" by (auto simp: authorized_def terminalCampaign_def)
  from ap(2) have "Approval_Status ap \<noteq> ''pending''" by (simp add: purgeAuthority_def)
  with approval_final assms(2) ap(1) have "approvalAt s' apID = Some ap" unfolding approvalsMove_def by metis
  moreover have "absCampaigns s' c = Some st" by (rule lifecycles_terminal [OF assms(3) st])
  ultimately show ?thesis using ap(2) st(2) by (auto simp: authorized_def terminalCampaign_def)
qed

lemma backed_samePurges:
  assumes "tombstonesBacked s" "samePurges s s'" "\<And>i c apID t. authorized s i c apID t \<Longrightarrow> authorized s' i c apID t"
  shows "tombstonesBacked s'"
  unfolding tombstonesBacked_def
proof (intro allI impI)
  fix i a' t
  assume a': "map_of (st_artifacts s') i = Some a'" "Artifact_PurgedAt a' = Some t"
  with assms(2) obtain a where "map_of (st_artifacts s) i = Some a" "samePurge a a'"
    unfolding samePurges_def by (metis option.distinct(1))
  with assms(1,3) a'(2) show "authorized s' i (Artifact_CampaignID a') (Artifact_PurgeApprovalID a') t"
    unfolding tombstonesBacked_def samePurge_def by metis
qed

lemma backed_onlyPurged:
  assumes "tombstonesBacked s" "onlyPurged i apID now s s'" "\<And>i c apID t. authorized s i c apID t \<Longrightarrow> authorized s' i c apID t"
    and "\<And>a. map_of (st_artifacts s) i = Some a \<Longrightarrow> authorized s i (Artifact_CampaignID a) apID now"
  shows "tombstonesBacked s'"
  unfolding tombstonesBacked_def
proof (intro allI impI)
  fix j a' t
  assume a': "map_of (st_artifacts s') j = Some a'" "Artifact_PurgedAt a' = Some t"
  with assms(2) obtain a where a: "map_of (st_artifacts s) j = Some a" and
    "samePurge a a' \<or> j = i \<and> Artifact_PurgedAt a' = Some now \<and> Artifact_PurgeApprovalID a' = apID \<and> Artifact_CampaignID a = Artifact_CampaignID a'"
    unfolding onlyPurged_def by (metis option.distinct(1))
  then show "authorized s' j (Artifact_CampaignID a') (Artifact_PurgeApprovalID a') t"
    using assms(1,3,4) a' unfolding tombstonesBacked_def samePurge_def by (metis option.inject)
qed

lemma authorized_same:
  "sameRecords {recordApproval} s s' \<Longrightarrow> sameCampaigns s s' \<Longrightarrow> authorized s' i c apID t = authorized s i c apID t"
  by (simp add: authorized_def approvalAt_def terminalCampaign_def absCampaigns_def sameRecords_def sameCampaigns_def)

text \<open>Actions that leave only backed tombstones, as long as the purge of \<open>i\<close> is authorized.\<close>

definition heldFor :: "Store \<Rightarrow> string \<Rightarrow> string \<Rightarrow> bool" where
  "heldFor s i c \<longleftrightarrow> (\<exists>a. map_of (st_artifacts s) i = Some a \<and> Artifact_CampaignID a = c)"

definition purging :: "Env \<Rightarrow> (Store \<Rightarrow> bool) \<Rightarrow> Store \<Rightarrow> Store \<Rightarrow> bool" where
  "purging env P s s' \<longleftrightarrow> (storeOK env s \<and> tombstonesBacked s \<and> P s \<longrightarrow> storeOK env s' \<and> tombstonesBacked s' \<and> P s')"

abbreviation licensed :: "string \<Rightarrow> string \<Rightarrow> string \<Rightarrow> time \<Rightarrow> Store \<Rightarrow> bool" where
  "licensed i c apID now s \<equiv> heldFor s i c \<and> authorized s i c apID now"

interpretation purging: store_relation "purging env P" for env P
  by unfold_locales (auto simp: purging_def)

lemma artifactLater_campaign: "artifactLater i a a' \<Longrightarrow> Artifact_CampaignID a' = Artifact_CampaignID a"
  unfolding artifactLater_def by (elim conjE, drule arg_cong [where f = Artifact_CampaignID]) simp

lemma heldFor_kept: "heldFor s i c \<Longrightarrow> historyKept s s' \<Longrightarrow> heldFor s' i c"
proof -
  assume "heldFor s i c" "historyKept s s'"
  then obtain a a' where "Artifact_CampaignID a = c" "map_of (st_artifacts s') i = Some a'" "artifactLater i a a'"
    unfolding heldFor_def historyKept_def tableKept_def by blast
  then show ?thesis unfolding heldFor_def using artifactLater_campaign by metis
qed

lemma calm_licensed:
  assumes "evolves (calm {recordApproval}) n" "evolves (lawful env) n"
  shows "evolves (purging env (licensed i c apID now)) n"
  unfolding evolves_def
proof
  fix s
  have calm: "calm {recordApproval} s (snd (n s))" and lawful: "lawful env s (snd (n s))" using assms by (simp_all add: evolves_def)
  then show "purging env (licensed i c apID now) s (snd (n s))"
    using authorized_same [of s "snd (n s)"] heldFor_kept [of s i c "snd (n s)"] backed_samePurges [of s "snd (n s)"]
    by (auto simp: purging_def calm_def lawful_def)
qed

lemma purge_licensed:
  "evolves (purging env (licensed i c apID (env_now env))) (storePurgeArtifact env cfg i apID why (env_now env))"
  unfolding evolves_def
proof
  fix s
  let ?s = "snd (storePurgeArtifact env cfg i apID why (env_now env) s)"
  have rest: "sameRest s ?s" using rest_purge by (simp add: evolves_def)
  then have same: "authorized ?s j d ap t = authorized s j d ap t" for j d ap t
    by (intro authorized_same) (simp_all add: sameRest_def sameRecords_def sameCampaigns_def)
  have lawful: "lawful env s ?s" using lawful_storePurgeArtifact by (simp add: evolves_def)
  show "purging env (licensed i c apID (env_now env)) s ?s"
    unfolding purging_def
  proof
    assume s: "storeOK env s \<and> tombstonesBacked s \<and> licensed i c apID (env_now env) s"
    then have "onlyPurged i apID (env_now env) s ?s" using purge_onlyPurged [of env s i apID "env_now env" env cfg why] by simp
    moreover have "map_of (st_artifacts s) i = Some a \<Longrightarrow> authorized s i (Artifact_CampaignID a) apID (env_now env)" for a
      using s unfolding heldFor_def by (elim conjE exE) simp
    ultimately have "tombstonesBacked ?s" using s by (elim conjE) (rule backed_onlyPurged [of s], simp_all add: same)
    with s same lawful heldFor_kept show "storeOK env ?s \<and> tombstonesBacked ?s \<and> licensed i c apID (env_now env) ?s"
      by (auto simp: lawful_def)
  qed
qed

interpretation licensed: control_writes "purging env (licensed i c apID now)" env "withRunner env started svc"
  for env i c apID now started svc
  by unfold_locales (auto intro!: calm_licensed calm_axioms lawful_requests.draw lawful_requests.audit lawful_requests.target
      lawful_requests.apparatus lawful_requests.finding lawful_requests.revision lawful_requests.review
      lawful_requests.remediation lawful_requests.scope lawful_requests.revocation lawful_requests.evidence
      lawful_requests.broker)

lemma calm_purging:
  assumes "evolves (calm {recordApproval}) n" "evolves (lawful env) n"
  shows "evolves (purging env (\<lambda>_. True)) n"
  unfolding evolves_def
proof
  fix s
  have "calm {recordApproval} s (snd (n s))" "lawful env s (snd (n s))" using assms by (simp_all add: evolves_def)
  then show "purging env (\<lambda>_. True) s (snd (n s))"
    using authorized_same [of s "snd (n s)"] backed_samePurges [of s "snd (n s)"] by (simp add: purging_def calm_def lawful_def)
qed

lemma stored_state: "stored env s c \<Longrightarrow> absCampaigns s (Campaign_ID c) = Some (Campaign_State c)"
  unfolding stored_def by (elim conjE exE, drule (1) storeOK_campaignRow) (simp add: absCampaigns_def campaignRowOK_def)

lemma stored_id: "storeOK env s \<Longrightarrow> getCampaign i s = (Inr c, s') \<Longrightarrow> Campaign_ID c = i"
  using storeOK_campaignRow [of env s i]
  by (cases "map_of (st_campaigns s) i") (auto simp: getCampaign_def act_gets_def lookup_def campaignRowOK_def)

lemma denied_purging: "evolves (purging env (\<lambda>_. True)) (denied env actor action kind i why)"
  by (rule calm_purging [OF calm_requests.denied_keeps lawful_requests.denied_keeps])

lemma at_catch:
  assumes "store_relation R" "reader n" "\<And>e. evolves R (h e)" "\<And>e. refuses (h e)" "\<And>x. n s = (Inr x, s) \<Longrightarrow> R s (snd (f x s))"
  shows "R s (snd (act_bind (act_catch n h) f s))"
proof (rule store_relation.bind_at [OF assms(1)])
  have n: "n s = (fst (n s), s)" using assms(2) unfolding reader_def by (metis prod.collapse)
  show "R s (snd (act_catch n h s))"
    using assms(1,3) n by (cases "fst (n s)") (auto simp: act_catch_def evolves_def store_relation.rel_refl split: prod.splits)
  show "R s1 (snd (f x s1))" if "act_catch n h s = (Inr x, s1)" for x s1
    using that assms(4,5) readerD [OF assms(2)] by (metis act_catch_Inr_iff)
qed

lemmas purge_at = at_ensure [of "purging env (\<lambda>_. True)" for env]
  reader_gets_ops [THEN at_read [of "purging env (\<lambda>_. True)" for env, OF purging.store_relation_axioms]]
  reader_gets_ops [THEN at_catch [of "purging env (\<lambda>_. True)" for env, OF purging.store_relation_axioms]]

lemma licensed_tail:
  assumes "evolves (purging env (licensed i c apID now)) n" "licensed i c apID now s"
  shows "purging env (\<lambda>_. True) s (snd (n s))"
  using assms by (auto simp: evolves_def purging_def)

lemma purgeApproved_authority:
  "purgeApproved now c i ap \<Longrightarrow> purgeAuthority ap i (Campaign_ID c) now"
  by (auto simp: purgeApproved_def purgeAuthority_def timeBefore_def timeSub_def artifactPurgeApprovalLifetime_def
      nhour_def nminute_def nsecond_def split: option.splits)

lemma servicePurgeArtifact_backed:
  assumes "storeOK env s"
  shows "purging env (\<lambda>_. True) s (snd (servicePurgeArtifact env (withRunner env started svc) actor i apID why s))"
  unfolding servicePurgeArtifact_def Let_def
proof (intro purge_at denied_purging refuses_denied, goal_cases)
  case (1 a c sc ap)
  have a: "map_of (st_artifacts s) i = Some a"
    using 1(2) by (cases "map_of (st_artifacts s) i") (simp_all add: getArtifact_def act_gets_def lookup_def)
  have c: "stored env s c" using stored_read [OF assms 1(3)] by simp
  have i: "Campaign_ID c = Artifact_CampaignID a" by (rule stored_id [OF assms 1(3)])
  note ap = storeOK_approval [OF assms 1(8)]
  have "absCampaigns s (Campaign_ID c) = Some (Campaign_State c)" by (rule stored_state [OF c])
  then have "licensed i (Artifact_CampaignID a) (Approval_ID ap) (env_now env) s"
    using a ap i 1(4) purgeApproved_authority [OF 1(9)]
    unfolding heldFor_def authorized_def terminalCampaign_def by auto
  then show ?case
    by (rule licensed_tail [rotated], intro licensed.handler purge_licensed licensed.audit) (simp add: auditEvent_def)
qed

lemma planeStep_backed:
  assumes "planeStep (env_digest env) m s s'" "storeOK env s" "tombstonesBacked s"
  shows "tombstonesBacked s'"
proof -
  have kept: "authorized s i c apID t \<Longrightarrow> authorized s' i c apID t" for i c apID t
    using authorized_kept planeStep_approvals [OF assms(1,2)] planeStep_moves [OF assms(1,2)] by blast
  from assms(1) show ?thesis
  proof cases
    case (served env' svc r started json actor)
    show ?thesis
    proof (cases "purges r")
      case True
      have ok: "storeOK env' s" using assms(2) served(2) storeOK_digest by metis
      from True obtain i apID why where "r = PurgeArtifact i apID why" by (cases r) auto
      with servicePurgeArtifact_backed [OF ok, of started svc actor i apID why] ok assms(3) show ?thesis
        by (simp add: served(1) purging_def)
    next
      case False
      then have "samePurges s s'"
        unfolding served(1) by (intro evolves_at [of samePurges] purges_kept.serve_unpurged)
      from backed_samePurges [OF assms(3) this kept] show ?thesis .
    qed
  next
    case (worked env' cfg w)
    have "samePurges s s'" unfolding worked(1) by (rule evolves_at [of samePurges], rule workerWrite_purges)
    from backed_samePurges [OF assms(3) this kept] show ?thesis .
  qed
qed

lemma planeRun_backed:
  fixes env :: Env
  assumes "planeRun (env_digest env) m emptyStore s"
  shows "tombstonesBacked s"
  using assms
proof (induction rule: rtranclp_induct)
  case base
  show ?case by (simp add: tombstonesBacked_def emptyStore_def)
next
  case (step s1 s2)
  then show ?case using planeStep_backed [OF step(2) reachable_OK [OF step(1)]] by blast
qed

section \<open>Properties\<close>

lemma bind_ensured: "b \<Longrightarrow> act_bind (act_ensure b d) f = f ()"
  by (simp add: act_ensure_def act_return_bind)

lemma after_catch:
  assumes "store_relation R" "\<And>e. evolves R (h e)" "\<And>x. evolves R (f x)"
  shows "R (snd (n s)) (snd (act_bind (act_catch n h) f s))"
proof -
  obtain r s1 where n: "n s = (r, s1)" by (metis prod.exhaust)
  have "R s1 (snd (act_bind (h e) f s1))" for e
    by (rule store_relation.bind_at [OF assms(1)]) (use assms in \<open>simp_all add: evolves_def\<close>)
  then show ?thesis using assms(3) by (cases r) (auto simp: n act_bind_def act_catch_def evolves_def)
qed

text \<open>When its conditions hold, the handler reaches the purge of the store, and what that writes stays.\<close>

lemma servicePurgeArtifact_runs:
  assumes "hasRole actor RoleAdmin" "getArtifact i s = (Inr a, s)" "getCampaign (Artifact_CampaignID a) s = (Inr c, s)"
    and "terminalCampaignState (Campaign_State c)" "getScope (Campaign_ScopeID c) s = (Inr sc, s)" "purgeScope sc"
    and "\<not> (isZero (Artifact_RetainUntil a) \<or> timeBefore (env_now env) (Artifact_RetainUntil a))"
    and "getApproval apID s = (Inr ap, s)" "purgeApproved (env_now env) c i ap" "trimSpace why \<noteq> []" "length (trimSpace why) \<le> 1024"
    and "allowedWithDetails env actor ''artifact.purge.authorize'' ''artifact'' i (artifactPurgeCorrelation i)
      (fmap_of_list [(''campaign_id'', Campaign_ID c), (''content_id'', Artifact_ContentID a), (''approval_id'', Approval_ID ap),
        (''retain_until'', timestamp (Artifact_RetainUntil a)), (''reason'', trimSpace why)]) s = (Inr u, s1)"
  shows "historyKept (snd (storePurgeArtifact env (svc_store svc) i (Approval_ID ap) (trimSpace why) (env_now env) s1))
    (snd (servicePurgeArtifact env svc actor i apID why s))"
proof -
  have why: "\<not> (trimSpace why = [] \<or> 1024 < length (trimSpace why))" using assms(10,11) by auto
  note checks = assms(1,4,6,7,9) why
  show ?thesis
    unfolding servicePurgeArtifact_def Let_def
    by (simp only: bind_ensured [OF checks(1)] bind_ensured [OF checks(2)] bind_ensured [OF checks(3)] bind_ensured [OF checks(4)]
        bind_ensured [OF checks(5)] bind_ensured [OF checks(6)] act_bind_def [of _ _ s]
        act_catch_def [of _ _ s] assms(2,3,5,8,12) prod.case sum.case)
      (rule after_catch [OF history.store_relation_axioms]; auto simp: allowedWithDetails_def)
qed

definition quickEnv :: "time \<Rightarrow> Env" where
  "quickEnv now = sampleEnv\<lparr>env_host := sampleHost\<lparr>host_clock := now\<rparr>, env_digest := (\<lambda>e. showInt (Audit_Sequence e))\<rparr>"

definition quickServe :: "time \<Rightarrow> Principal \<Rightarrow> apiCall \<Rightarrow> Store \<Rightarrow> Store" where
  "quickServe now actor r s = snd (serve (quickEnv now) (withRunner (quickEnv now) None sampleService) noRegressions actor r s)"

definition purgeRequest :: Approval where
  "purgeRequest = \<lparr>Approval_SchemaVersion = 1, Approval_ID = ''p1'', Approval_ScopeID = ''s1'', Approval_CampaignID = ''c1'',
     Approval_CorrelationID = artifactPurgeCorrelation ''a1'', Approval_Operation = OperationPurgeArtifact, Approval_Status = [],
     Approval_RequestedBy = [], Approval_DecidedBy = [], Approval_Reason = ''retention ended'', Approval_CreatedAt = zeroTime,
     Approval_DecidedAt = None\<rparr>"

definition reviewer :: Principal where
  "reviewer = \<lparr>Principal_ID = ''bob'', Principal_Name = ''Bob'', Principal_Roles = [RoleReviewer, RoleAdmin]\<rparr>"

definition heldStore :: Store where
  "heldStore = snd (workerWrite (quickEnv 100) (plainConfig\<lparr>cfg_retention := 50\<rparr>) sampleMachine (KeepArtifact sampleArtifact ''e'')
     (quickServe 100 samplePrincipal (CreateCampaign sampleCampaign)
       (quickServe 100 samplePrincipal (CreateScope (sampleScope\<lparr>Scope_ApprovalOperations := [OperationPurgeArtifact]\<rparr>)) emptyStore)))"

definition decidedStore :: Store where
  "decidedStore = quickServe 500 reviewer (DecideApproval ''p1'' True ''ok'')
     (quickServe 500 samplePrincipal (RequestApproval purgeRequest)
       (quickServe 100 samplePrincipal (Transition ''c1'' CampaignCancelled noFacts) heldStore))"

definition purgedStore :: Store where
  "purgedStore = quickServe 500 reviewer (PurgeArtifact ''a1'' ''p1'' ''x'') decidedStore"

lemma quickServe_reached:
  assumes "planeRun (env_digest (quickEnv 100)) sampleMachine s0 s" "drawsFresh (quickEnv now) r s"
  shows "planeRun (env_digest (quickEnv 100)) sampleMachine s0 (quickServe now actor r s)"
proof -
  have "planeStep (env_digest (quickEnv 100)) sampleMachine s (quickServe now actor r s)"
    unfolding quickServe_def by (rule served) (simp_all add: quickEnv_def sampleService_def assms(2) [unfolded quickEnv_def])
  with assms(1) show ?thesis by (rule rtranclp.rtrancl_into_rtrancl)
qed

lemma quickWork_reached:
  assumes "planeRun (env_digest (quickEnv 100)) sampleMachine s0 s"
  shows "planeRun (env_digest (quickEnv 100)) sampleMachine s0 (snd (workerWrite (quickEnv 100) cfg sampleMachine w s))"
  using assms by (rule rtranclp.rtrancl_into_rtrancl) (rule worked, rule refl)

lemma decidedStore_reached: "planeRun (env_digest (quickEnv 100)) sampleMachine emptyStore decidedStore"
  unfolding decidedStore_def heldStore_def
  by (intro quickServe_reached quickWork_reached rtranclp.rtrancl_refl) (simp_all add: drawsFresh_def purgeRequest_def)

lemma purgedStore_reached: "planeRun (env_digest (quickEnv 100)) sampleMachine decidedStore purgedStore"
  unfolding purgedStore_def by (intro quickServe_reached rtranclp.rtrancl_refl) (simp add: drawsFresh_def)


definition decidedApproval :: Approval where
  "decidedApproval = purgeRequest\<lparr>Approval_Status := ''approved'', Approval_RequestedBy := ''ana'', Approval_DecidedBy := ''bob'',
     Approval_Reason := ''ok'', Approval_CreatedAt := 500, Approval_DecidedAt := Some 500\<rparr>"


text \<open>
  C20. No tombstone without an independent decision. Whenever a reachable store reports an artifact as
  purged, an approval for the purge of exactly this artifact is on record, granted by somebody other
  than its requester at most 24 hours before the purge, and the campaign of the artifact is terminal.
\<close>

theorem tombstones_rest_on_independent_approval:
  fixes env :: Env
  assumes "planeRun (env_digest env) m emptyStore s"
    and "map_of (st_artifacts s) i = Some a" "Artifact_PurgedAt a = Some t"
  shows "\<exists>ap d st. approvalAt s (Artifact_PurgeApprovalID a) = Some ap \<and> Approval_Status ap = ''approved'' \<and>
    Approval_Operation ap = OperationPurgeArtifact \<and> Approval_CorrelationID ap = artifactPurgeCorrelation i \<and>
    Approval_CampaignID ap = Artifact_CampaignID a \<and> Approval_DecidedBy ap \<noteq> Approval_RequestedBy ap \<and>
    Approval_DecidedAt ap = Some d \<and> d \<le> t \<and> t - d \<le> 24 * nhour \<and>
    absCampaigns s (Artifact_CampaignID a) = Some st \<and> terminalCampaignState st"
  using planeRun_backed [OF assms(1)] assms(2,3)
  unfolding tombstonesBacked_def authorized_def purgeAuthority_def terminalCampaign_def artifactPurgeApprovalLifetime_def by blast

text \<open>The last step of the sample, in pieces that evaluate.\<close>

definition purgeReady :: "Store \<Rightarrow> bool" where
  "purgeReady s =
     (case (fst (getArtifact ''a1'' s), fst (getCampaign ''c1'' s), fst (getScope ''s1'' s), fst (getApproval ''p1'' s)) of
        (Inr a, Inr c, Inr sc, Inr ap) \<Rightarrow>
          Artifact_CampaignID a = ''c1'' \<and> Artifact_RetainUntil a = 150 \<and> Artifact_ContentID a = contentID sampleSha ''e'' \<and>
          Campaign_ID c = ''c1'' \<and> Campaign_ScopeID c = ''s1'' \<and> terminalCampaignState (Campaign_State c) \<and> purgeScope sc \<and>
          Approval_ID ap = ''p1'' \<and> purgeApproved 500 c ''a1'' ap
      | _ \<Rightarrow> False)"

definition authorizePurge :: "Store \<Rightarrow> unit result \<times> Store" where
  "authorizePurge = allowedWithDetails (quickEnv 500) reviewer ''artifact.purge.authorize'' ''artifact'' ''a1'' (artifactPurgeCorrelation ''a1'')
     (fmap_of_list [(''campaign_id'', ''c1''), (''content_id'', contentID sampleSha ''e''), (''approval_id'', ''p1''),
       (''retain_until'', timestamp 150), (''reason'', ''x'')])"

definition purgeWorks :: "Store \<Rightarrow> bool" where
  "purgeWorks s =
     (case authorizePurge s of
        (Inl e, s1) \<Rightarrow> False
      | (Inr _, s1) \<Rightarrow> map_option Artifact_PurgedAt (map_of (st_artifacts
            (snd (storePurgeArtifact (quickEnv 500) plainConfig ''a1'' ''p1'' ''x'' 500 s1))) ''a1'') = Some (Some 500))"

lemma decided_ready: "purgeReady decidedStore" "purgeWorks decidedStore"
  by code_simp+

lemma reader_result: "reader n \<Longrightarrow> fst (n s) = Inr x \<Longrightarrow> n s = (Inr x, s)"
  by (metis prod.collapse readerD)

lemma purged_sample: "\<exists>a. map_of (st_artifacts purgedStore) ''a1'' = Some a \<and> Artifact_PurgedAt a = Some 500"
proof -
  from decided_ready(1) obtain a c sc ap where
    r: "fst (getArtifact ''a1'' decidedStore) = Inr a" "fst (getCampaign ''c1'' decidedStore) = Inr c"
      "fst (getScope ''s1'' decidedStore) = Inr sc" "fst (getApproval ''p1'' decidedStore) = Inr ap" and
    q: "Artifact_CampaignID a = ''c1''" "Artifact_RetainUntil a = 150" "Artifact_ContentID a = contentID sampleSha ''e''"
      "Campaign_ID c = ''c1''" "Campaign_ScopeID c = ''s1''" "terminalCampaignState (Campaign_State c)" "purgeScope sc"
      "Approval_ID ap = ''p1''" "purgeApproved 500 c ''a1'' ap"
    unfolding purgeReady_def by (auto split: prod.splits sum.splits)
  have reads: "getArtifact ''a1'' decidedStore = (Inr a, decidedStore)" "getCampaign ''c1'' decidedStore = (Inr c, decidedStore)"
    "getScope ''s1'' decidedStore = (Inr sc, decidedStore)" "getApproval ''p1'' decidedStore = (Inr ap, decidedStore)"
    by (rule reader_result, rule reader_gets_ops, rule r)+
  from decided_ready(2) obtain u s1 where auth: "authorizePurge decidedStore = (Inr u, s1)" and
    p: "map_option Artifact_PurgedAt (map_of (st_artifacts
      (snd (storePurgeArtifact (quickEnv 500) plainConfig ''a1'' ''p1'' ''x'' 500 s1))) ''a1'') = Some (Some 500)"
    unfolding purgeWorks_def by (auto split: prod.splits sum.splits)
  have x: "trimSpace ''x'' = ''x''" and admin: "hasRole reviewer RoleAdmin" and now: "env_now (quickEnv 500) = 500" by code_simp+
  have "historyKept (snd (storePurgeArtifact (quickEnv 500) plainConfig ''a1'' ''p1'' ''x'' 500 s1)) purgedStore"
    using servicePurgeArtifact_runs [OF admin reads(1) _ q(6) _ q(7), where env = "quickEnv 500" and apID = "''p1''" and ap = ap
      and svc = "withRunner (quickEnv 500) None sampleService" and why = "''x''"] auth q
    by (simp add: reads x now purgedStore_def quickServe_def withRunner_def sampleService_def authorizePurge_def timeBefore_def isZero_def zeroTime_def)
  then show ?thesis using p unfolding historyKept_def tableKept_def artifactLater_def by fastforce
qed

theorem tombstones_rest_on_independent_approval_witness:
  "\<exists>a ap. map_of (st_artifacts purgedStore) ''a1'' = Some a \<and> Artifact_PurgedAt a = Some 500 \<and>
     approvalAt purgedStore (Artifact_PurgeApprovalID a) = Some ap \<and> Approval_DecidedBy ap \<noteq> Approval_RequestedBy ap"
proof -
  obtain a where a: "map_of (st_artifacts purgedStore) ''a1'' = Some a" "Artifact_PurgedAt a = Some 500" using purged_sample by blast
  from tombstones_rest_on_independent_approval [OF rtranclp_trans [OF decidedStore_reached purgedStore_reached] a] a
  show ?thesis by blast
qed

end
