(* ===== verification/Runner_Laws.thy ===== *)
theory Runner_Laws
  imports Runner Control_Laws
begin

text \<open>
  Laws of the job broker under every interleaving of submitters, workers and cancellers: slots of a
  campaign, jobs in flight, recovery after a restart, and that the broker drains.
\<close>

section \<open>Workers\<close>

fun idsOf :: "worker \<Rightarrow> string list" where
  "idsOf WIdle = []"
| "idsOf (WLoaded job) = [Job_ID job]"
| "idsOf (WHolding job) = [Job_ID job]"
| "idsOf (WBegun job run) = [Job_ID job]"
| "idsOf (WExecuting job run) = [Job_ID job]"
| "idsOf (WFinished job run result callback) = [Job_ID job]"
| "idsOf (WReleasing c) = []"

fun slotOf :: "worker \<Rightarrow> string option" where
  "slotOf WIdle = None"
| "slotOf (WLoaded job) = None"
| "slotOf (WHolding job) = Some (Job_CampaignID job)"
| "slotOf (WBegun job run) = Some (Job_CampaignID job)"
| "slotOf (WExecuting job run) = Some (Job_CampaignID job)"
| "slotOf (WFinished job run result callback) = Some (Job_CampaignID job)"
| "slotOf (WReleasing c) = Some c"

text \<open>How many steps a worker may still make before it is idle.\<close>

fun stepsLeft :: "worker \<Rightarrow> nat" where
  "stepsLeft WIdle = 0"
| "stepsLeft (WLoaded job) = 6"
| "stepsLeft (WHolding job) = 5"
| "stepsLeft (WBegun job run) = 4"
| "stepsLeft (WExecuting job run) = 3"
| "stepsLeft (WFinished job run result callback) = 2"
| "stepsLeft (WReleasing c) = 1"

lemma worker_split:
  assumes "k < length ws"
  obtains pre post where "ws = pre @ ws ! k # post" "\<And>w. ws[k := w] = pre @ w # post"
  using id_take_nth_drop [OF assms] upd_conv_take_nth_drop [OF assms] that by metis

lemma setWorker_simps [simp]:
  "br_store (setWorker k w b) = br_store b" "br_queue (setWorker k w b) = br_queue b" "br_sending (setWorker k w b) = br_sending b"
  "br_active (setWorker k w b) = br_active b" "br_cancels (setWorker k w b) = br_cancels b"
  "br_workers (setWorker k w b) = (br_workers b)[k := w]" "br_cancellers (setWorker k w b) = br_cancellers b"
  "br_published (setWorker k w b) = br_published b"
  by (simp_all add: setWorker_def)

section \<open>What the steps do\<close>

text \<open>The identity and the campaign of a job survive the steps of its worker.\<close>

lemma beginRun_Inr:
  assumes "beginRun env rc job s = (Inr (job1, run1), s')"
  obtains run where "getRun (Job_RunID job) s = (Inr run, s)" "job1 = job\<lparr>Job_Status := RunRunning, Job_UpdatedAt := env_now env\<rparr>"
    "run1 = run\<lparr>Run_Status := RunRunning, Run_WorkerID := As_Backend (rc_assurance rc), Run_IsolationAssurance := As_Isolation (rc_assurance rc),
        Run_StartedAt := Some (env_now env)\<rparr>"
    "saveJobAndRun job1 run1 s = (Inr (), s')"
  using assms that by (auto simp: beginRun_def Let_def act_simps getRun_def getRecord_def)

text \<open>The two ways in which a run ends.\<close>

definition failedJob :: "Env \<Rightarrow> WorkerJob \<Rightarrow> WorkerJob" where
  "failedJob env job = job\<lparr>Job_Status := RunFailed, Job_UpdatedAt := env_now env\<rparr>"

definition failedRun :: "Env \<Rightarrow> ExperimentRun \<Rightarrow> err \<Rightarrow> ResourceUsage \<Rightarrow> ExperimentRun" where
  "failedRun env run e usage = run\<lparr>Run_Status := RunFailed, Run_CompletedAt := Some (env_now env),
     Run_Exit := (Run_Exit run)\<lparr>Exit_Reason := errText e\<rparr>, Run_Usage := usage\<rparr>"

definition endedJob :: "Env \<Rightarrow> WorkerJob \<Rightarrow> RunResult \<Rightarrow> WorkerJob" where
  "endedJob env job result = job\<lparr>Job_Status := Result_Status result, Job_UpdatedAt := env_now env\<rparr>"

definition endedRun :: "Env \<Rightarrow> ExperimentRun \<Rightarrow> RunResult \<Rightarrow> ExperimentRun" where
  "endedRun env run result = run\<lparr>Run_Status := Result_Status result, Run_Exit := Result_Exit result, Run_Usage := Result_ResourceUsage result,
     Run_ArtifactIDs := Result_ArtifactIDs result, Run_CompletedAt := Some (env_now env)\<rparr>"

lemma finishRun_cases:
  obtains (failed) e usage s1 where
      "s1 = s \<or> (\<exists>ex. s1 = snd (collect env (rc_store rc) (rc_outputLimit rc) job (out_staged out) ex (rc_assurance rc) s))"
      "finishRun env rc out ctx job run s =
         (Inr (job, run, resultFromRun (failedRun env run e usage), False), snd (saveJobAndRun (failedJob env job) (failedRun env run e usage) s1))"
  | (ended) ex collected s1 result where
      "Exec_Status ex = Exec_Status (out_execution out)"
      "collect env (rc_store rc) (rc_outputLimit rc) job (out_staged out) ex (rc_assurance rc) s = (Inr collected, s1)"
      "result = finalResult ctx (out_error out) collected"
      "finishRun env rc out ctx job run s =
         (Inr (endedJob env job result, endedRun env run result, result, True),
          snd (saveJobAndRun (endedJob env job result) (endedRun env run result) s1))"
proof -
  have failing: "act_bind (finishFailed env job run e usage) (\<lambda>result. act_return (job, run, result, False)) s1 =
      (Inr (job, run, resultFromRun (failedRun env run e usage), False), snd (saveJobAndRun (failedJob env job) (failedRun env run e usage) s1))"
    for e usage s1
    by (simp add: finishFailed_def Let_def act_bind_def act_ignore_def act_return_def failedJob_def failedRun_def)
  show ?thesis
  proof (cases "out_stagingError out")
    case (Some e)
    with failing failed [of s] show ?thesis by (simp add: finishRun_def Let_def)
  next
    case None
    show ?thesis
    proof (cases "monitorWritableBudget (Job_Budget job) (out_snapshots out)")
      case (Inl e)
      with None failing failed [of s] show ?thesis by (simp add: finishRun_def Let_def)
    next
      case (Inr mon)
      let ?ex = "out_execution out"
      let ?usage = "(Exec_Usage ?ex)\<lparr>Usage_DiskWrittenBytes := max (Usage_DiskWrittenBytes (Exec_Usage ?ex)) (mon_peakBytes mon),
        Usage_InodesCreated := max (Usage_InodesCreated (Exec_Usage ?ex)) (mon_peakInodes mon)\<rparr>"
      show ?thesis
      proof (cases "mon_err mon")
        case (Some e)
        with None Inr failing failed [of s] show ?thesis by (simp add: finishRun_def Let_def)
      next
        case quiet: None
        obtain r s1 where c: "collect env (rc_store rc) (rc_outputLimit rc) job (out_staged out) (?ex\<lparr>Exec_Usage := ?usage\<rparr>) (rc_assurance rc) s = (r, s1)"
          by (metis prod.exhaust)
        show ?thesis
        proof (cases r)
          case (Inl e)
          have "s1 = snd (collect env (rc_store rc) (rc_outputLimit rc) job (out_staged out) (?ex\<lparr>Exec_Usage := ?usage\<rparr>) (rc_assurance rc) s)"
            by (simp add: c)
          then have "s1 = s \<or> (\<exists>ex. s1 = snd (collect env (rc_store rc) (rc_outputLimit rc) job (out_staged out) ex (rc_assurance rc) s))"
            by blast
          from failed [OF this] show ?thesis using None Inr quiet Inl c failing by (simp add: finishRun_def Let_def)
        next
          case (Inr collected)
          with None \<open>_ = Inr mon\<close> quiet c show ?thesis
            by (intro ended [of "?ex\<lparr>Exec_Usage := ?usage\<rparr>"])
              (simp_all add: finishRun_def Let_def act_bind_def act_ignore_def act_return_def endedJob_def endedRun_def)
        qed
      qed
    qed
  qed
qed

lemma finishRun_never_fails: "\<exists>job1 run1 result callback s1. finishRun env rc out ctx job run s = (Inr (job1, run1, result, callback), s1)"
  by (cases rule: finishRun_cases [of s env rc job out ctx run]) blast+

lemma runCallback_never_fails: "\<exists>result' s1. runCallback env rc job run result s = (Inr result', s1)"
  by (auto simp: runCallback_def act_return_def act_bind_def act_ignore_def Let_def split: option.splits prod.splits sum.splits)

text \<open>The shape of every step of a worker.\<close>

lemma workerStep_cases:
  assumes "workerStep env rc out ctx k b = Some b'"
  obtains (skip) i rest where "br_workers b ! k = WIdle" "br_queue b = i # rest" "b' = b\<lparr>br_queue := rest\<rparr>"
      "\<And>job. fst (getWorkerJob i (br_store b)) = Inr job \<Longrightarrow> Job_Status job \<noteq> RunQueued"
  | (load) i rest job where "br_workers b ! k = WIdle" "br_queue b = i # rest" "fst (getWorkerJob i (br_store b)) = Inr job"
      "Job_Status job = RunQueued" "b' = setWorker k (WLoaded job) (b\<lparr>br_queue := rest\<rparr>)"
  | (acquire) job where "br_workers b ! k = WLoaded job" "br_active b (Job_CampaignID job) < rc_campaignConcurrency rc"
      "b' = setWorker k (WHolding job) (b\<lparr>br_active := (br_active b)(Job_CampaignID job := br_active b (Job_CampaignID job) + 1)\<rparr>)"
  | (abandon) job e s where "br_workers b ! k = WHolding job" "beginRun env rc job (br_store b) = (Inl e, s)"
      "b' = setWorker k (WReleasing (Job_CampaignID job)) (b\<lparr>br_store := s\<rparr>)"
  | (start) job job1 run1 s where "br_workers b ! k = WHolding job" "beginRun env rc job (br_store b) = (Inr (job1, run1), s)"
      "b' = setWorker k (WBegun job1 run1) (b\<lparr>br_store := s\<rparr>)"
  | (register) job run where "br_workers b ! k = WBegun job run"
      "b' = setWorker k (WExecuting job run) (b\<lparr>br_cancels := AList.update (Job_ID job) False (br_cancels b)\<rparr>)"
  | (finish) job run job1 run1 result callback s where "br_workers b ! k = WExecuting job run" "ctxAllowed b (Job_ID job) ctx"
      "finishRun env rc out ctx job run (br_store b) = (Inr (job1, run1, result, callback), s)"
      "b' = setWorker k (WFinished job1 run1 result callback) (b\<lparr>br_store := s\<rparr>)"
  | (publish) job run result callback final s where "br_workers b ! k = WFinished job run result callback"
      "(if callback then runCallback env rc job run result else act_return result) (br_store b) = (Inr final, s)"
      "b' = setWorker k (WReleasing (Job_CampaignID job))
         (b\<lparr>br_store := s, br_published := br_published b @ [final], br_cancels := AList.delete (Job_ID job) (br_cancels b)\<rparr>)"
  | (release) c where "br_workers b ! k = WReleasing c" "b' = setWorker k WIdle (b\<lparr>br_active := (br_active b)(c := br_active b c - 1)\<rparr>)"
proof (cases "br_workers b ! k")
  case WIdle
  with assms show ?thesis
    by (auto simp: workerStep_def takeStep_def Let_def split: list.splits sum.splits if_splits intro: skip load)
next
  case (WLoaded job)
  with assms acquire show ?thesis by (auto simp: workerStep_def split: if_splits)
next
  case (WHolding job)
  with assms abandon start show ?thesis by (auto simp: workerStep_def split: prod.splits sum.splits)
next
  case (WBegun job run)
  with assms register show ?thesis by (auto simp: workerStep_def)
next
  case (WExecuting job run)
  with assms finish show ?thesis by (auto simp: workerStep_def split: prod.splits sum.splits if_splits)
next
  case (WFinished job run result callback)
  obtain r s where r: "(if callback then runCallback env rc job run result else act_return result) (br_store b) = (r, s)" by (metis prod.exhaust)
  with WFinished assms publish show ?thesis by (cases r) (simp_all add: workerStep_def)
next
  case (WReleasing c)
  with assms release show ?thesis by (auto simp: workerStep_def)
qed

section \<open>Slots\<close>

definition holders :: "Broker \<Rightarrow> string \<Rightarrow> nat" where
  "holders b c = length (filter (\<lambda>w. slotOf w = Some c) (br_workers b))"

definition slotsOK :: "RunnerConfig \<Rightarrow> Broker \<Rightarrow> bool" where
  "slotsOK rc b \<longleftrightarrow> (\<forall>c. br_active b c = int (holders b c) \<and> int (holders b c) \<le> max 0 (rc_campaignConcurrency rc))"

lemma holders_set:
  assumes "k < length (br_workers b)"
  shows "int (length (filter (\<lambda>w. slotOf w = Some c) ((br_workers b)[k := w]))) =
    int (holders b c) - (if slotOf (br_workers b ! k) = Some c then 1 else 0) + (if slotOf w = Some c then 1 else 0)"
proof -
  obtain pre post where ws: "br_workers b = pre @ br_workers b ! k # post" "\<And>w. (br_workers b)[k := w] = pre @ w # post"
    using worker_split [OF assms] by blast
  have "holders b c = length (filter (\<lambda>w. slotOf w = Some c) (pre @ br_workers b ! k # post))"
    unfolding holders_def using ws(1) by simp
  then show ?thesis by (simp add: ws(2))
qed

lemma slots_kept:
  assumes "slotsOK rc b" "k < length (br_workers b)" "br_workers b1 = br_workers b" "br_active b1 = br_active b"
    and "slotOf w = slotOf (br_workers b ! k)"
  shows "slotsOK rc (setWorker k w b1)"
proof -
  have "holders (setWorker k w b1) c = holders b c" for c
    using holders_set [OF assms(2), of c w] by (simp add: holders_def assms(3,5))
  with assms(1,4) show ?thesis by (simp add: slotsOK_def)
qed

lemma slots_changed:
  assumes "slotsOK rc b" "k < length (br_workers b)" "br_workers b' = (br_workers b)[k := w]"
    and "br_active b' = (br_active b)(c := br_active b c + d)" "br_active b c + d \<le> max 0 (rc_campaignConcurrency rc)"
    and "\<And>c'. (if slotOf w = Some c' then 1 else 0) - (if slotOf (br_workers b ! k) = Some c' then 1 else 0) = (if c' = c then d else 0)"
  shows "slotsOK rc b'"
  unfolding slotsOK_def
proof
  fix c'
  have "int (holders b' c') = int (holders b c') + (if c' = c then d else 0)"
    using holders_set [OF assms(2), of c' w] assms(6) [of c'] by (simp add: holders_def assms(3))
  with assms(1,4,5) show "br_active b' c' = int (holders b' c') \<and> int (holders b' c') \<le> max 0 (rc_campaignConcurrency rc)"
    by (simp add: slotsOK_def)
qed

lemma workerStep_slots:
  assumes "slotsOK rc b" "k < length (br_workers b)" "workerStep env rc out ctx k b = Some b'"
  shows "slotsOK rc b'"
  using assms(3)
proof (cases rule: workerStep_cases)
  case (skip i rest)
  with assms(1) show ?thesis by (simp add: slotsOK_def holders_def)
next
  case (acquire job)
  then show ?thesis by (intro slots_changed [OF assms(1,2), of _ "WHolding job" "Job_CampaignID job" 1]) auto
next
  case (start job job1 run1 s)
  then have "Job_CampaignID job1 = Job_CampaignID job" by (auto elim: beginRun_Inr)
  with start show ?thesis by (simp add: slots_kept [OF assms(1,2)])
next
  case (finish job run job1 run1 result callback s)
  then have "Job_CampaignID job1 = Job_CampaignID job"
    by (cases rule: finishRun_cases [of "br_store b" env rc job out ctx run]) (auto simp: endedJob_def)
  with finish show ?thesis by (simp add: slots_kept [OF assms(1,2)])
next
  case (release c)
  have "br_active b c \<le> max 0 (rc_campaignConcurrency rc)" using assms(1) by (simp add: slotsOK_def)
  with release show ?thesis by (intro slots_changed [OF assms(1,2), of _ WIdle c "-1"]) auto
qed (simp_all add: slots_kept [OF assms(1,2)])

lemma quiet_slots: "br_active b' = br_active b \<Longrightarrow> br_workers b' = br_workers b \<Longrightarrow> slotsOK rc b' = slotsOK rc b"
  by (simp add: slotsOK_def holders_def)

lemma submit_quiet [simp]: "br_active (submitStep env job b) = br_active b" "br_workers (submitStep env job b) = br_workers b"
  by (simp_all add: submitStep_def split: prod.splits sum.splits)

lemma cancelStep_quiet [simp]: "br_active (cancelStep env k b) = br_active b" "br_workers (cancelStep env k b) = br_workers b"
  "br_queue (cancelStep env k b) = br_queue b" "br_sending (cancelStep env k b) = br_sending b"
  by (simp_all add: cancelStep_def dropCanceller_def Let_def split: canceller.splits prod.splits sum.splits)

lemma cancelRead_quiet [simp]: "br_active (cancelRead i b) = br_active b" "br_workers (cancelRead i b) = br_workers b"
  "br_queue (cancelRead i b) = br_queue b" "br_sending (cancelRead i b) = br_sending b" "br_store (cancelRead i b) = br_store b"
  by (simp_all add: cancelRead_def split: sum.splits)

lemma sendStep_quiet: "sendStep i b = Some b' \<Longrightarrow> br_active b' = br_active b \<and> br_workers b' = br_workers b"
  by (auto simp: sendStep_def split: if_splits)

section \<open>Draining\<close>

text \<open>Steps that bring in no new work: a pending submission reaches the queue, a worker moves on.\<close>

inductive drainStep :: "RunnerConfig \<Rightarrow> Broker \<Rightarrow> Broker \<Rightarrow> bool" for rc :: RunnerConfig where
  send: "sendStep i b = Some b' \<Longrightarrow> drainStep rc b b'"
| work: "k < length (br_workers b) \<Longrightarrow> outcomeOK out \<Longrightarrow> workerStep env rc out ctx k b = Some b' \<Longrightarrow> drainStep rc b b'"

definition workLeft :: "Broker \<Rightarrow> nat" where
  "workLeft b = 8 * length (br_sending b) + 7 * length (br_queue b) + sum_list (map stepsLeft (br_workers b))"

lemma stepsLeft_set:
  assumes "k < length ws"
  shows "sum_list (map stepsLeft (ws[k := w])) + stepsLeft (ws ! k) = sum_list (map stepsLeft ws) + stepsLeft w"
proof -
  obtain pre post where ws: "ws = pre @ ws ! k # post" "\<And>w. ws[k := w] = pre @ w # post"
    using worker_split [OF assms] by blast
  have "sum_list (map stepsLeft ws) = sum_list (map stepsLeft (pre @ ws ! k # post))" using ws(1) by simp
  then show ?thesis by (simp add: ws(2))
qed

lemma workLeft_set:
  assumes "k < length (br_workers b)" "br_workers b1 = br_workers b" "br_sending b1 = br_sending b"
    "7 * length (br_queue b1) + stepsLeft w < 7 * length (br_queue b) + stepsLeft (br_workers b ! k)"
  shows "workLeft (setWorker k w b1) < workLeft b"
  using stepsLeft_set [OF assms(1), of w] assms(2-4) by (simp add: workLeft_def)

lemma workerStep_decreases:
  assumes "k < length (br_workers b)" "workerStep env rc out ctx k b = Some b'"
  shows "workLeft b' < workLeft b"
  using assms(2)
proof (cases rule: workerStep_cases)
  case (skip i rest)
  then show ?thesis by (simp add: workLeft_def)
qed (simp_all add: workLeft_set [OF assms(1)])

lemma sendStep_decreases: "sendStep i b = Some b' \<Longrightarrow> workLeft b' < workLeft b"
proof -
  assume "sendStep i b = Some b'"
  then have i: "i \<in> set (br_sending b)" and b': "b' = b\<lparr>br_sending := remove1 i (br_sending b), br_queue := br_queue b @ [i]\<rparr>"
    by (auto simp: sendStep_def split: if_splits)
  from i have "length (br_sending b) = Suc (length (remove1 i (br_sending b)))"
    using length_pos_if_in_set [OF i] by (simp add: length_remove1)
  then show ?thesis by (simp add: workLeft_def b')
qed

lemma drainStep_decreases: "drainStep rc b b' \<Longrightarrow> workLeft b' < workLeft b"
  by (induction rule: drainStep.induct) (auto dest: sendStep_decreases workerStep_decreases)

definition drained :: "Broker \<Rightarrow> bool" where
  "drained b \<longleftrightarrow> br_sending b = [] \<and> br_queue b = [] \<and> (\<forall>w \<in> set (br_workers b). w = WIdle)"

text \<open>With slots and workers to give, a broker that is not drained can always move.\<close>

lemma ctx_exists: "\<exists>ctx. ctxAllowed b i ctx"
proof (cases "map_of (br_cancels b) i = Some True")
  case True
  then have "ctxAllowed b i (Some Canceled)" by (simp add: ctxAllowed_def)
  then show ?thesis ..
next
  case False
  then have "ctxAllowed b i None" by (simp add: ctxAllowed_def)
  then show ?thesis ..
qed

lemma idle_moves: "br_workers b ! k = WIdle \<Longrightarrow> br_queue b \<noteq> [] \<Longrightarrow> \<exists>b'. workerStep env rc out ctx k b = Some b'"
  by (cases "br_queue b") (auto simp: workerStep_def takeStep_def Let_def split: sum.splits)

lemma busy_moves:
  assumes "br_workers b ! k \<noteq> WIdle" "\<And>job. br_workers b ! k = WLoaded job \<Longrightarrow> br_active b (Job_CampaignID job) < rc_campaignConcurrency rc"
  shows "\<exists>ctx b'. workerStep env rc out ctx k b = Some b'"
proof (cases "br_workers b ! k")
  case (WExecuting job run)
  obtain ctx where "ctxAllowed b (Job_ID job) ctx" using ctx_exists by blast
  with WExecuting finishRun_never_fails [of env rc out ctx job run "br_store b"] show ?thesis
    by (auto simp: workerStep_def intro!: exI [of _ ctx])
next
  case (WFinished job run result callback)
  then show ?thesis
    using runCallback_never_fails [of env rc job run result "br_store b"] by (auto simp: workerStep_def act_return_def)
next
  case (WHolding job)
  then show ?thesis by (cases "beginRun env rc job (br_store b)"; cases "fst (beginRun env rc job (br_store b))") (auto simp: workerStep_def)
qed (use assms in \<open>auto simp: workerStep_def\<close>)

lemma waiting_idle:
  assumes "slotsOK rc b" "1 \<le> rc_campaignConcurrency rc"
    and "\<And>k. k < length (br_workers b) \<Longrightarrow> br_workers b ! k \<noteq> WIdle \<Longrightarrow>
      \<exists>job. br_workers b ! k = WLoaded job \<and> rc_campaignConcurrency rc \<le> br_active b (Job_CampaignID job)"
  shows "\<forall>w \<in> set (br_workers b). w = WIdle"
proof (rule ccontr)
  assume "\<not> (\<forall>w \<in> set (br_workers b). w = WIdle)"
  then obtain k where "k < length (br_workers b)" "br_workers b ! k \<noteq> WIdle" by (metis in_set_conv_nth)
  with assms(3) obtain job :: WorkerJob where full: "rc_campaignConcurrency rc \<le> br_active b (Job_CampaignID job)" by blast
  have "slotOf w = None" if "w \<in> set (br_workers b)" for w
  proof -
    from that obtain j where "j < length (br_workers b)" "w = br_workers b ! j" by (metis in_set_conv_nth)
    with assms(3) [of j] show ?thesis by (cases "w = WIdle") (auto elim!: exE)
  qed
  then have "holders b (Job_CampaignID job) = 0" by (auto simp: holders_def filter_empty_conv)
  then have "br_active b (Job_CampaignID job) = 0" using assms(1) by (simp add: slotsOK_def)
  with full assms(2) show False by simp
qed

definition cleanOutcome :: Outcome where
  "cleanOutcome = \<lparr>out_stagingError = None, out_snapshots = [],
     out_execution = \<lparr>Exec_Status = RunCompleted, Exec_Exit = noExit, Exec_Usage = noUsage, Exec_Stdout = [], Exec_Stderr = [],
       Exec_StdoutTruncated = False, Exec_StderrTruncated = False, Exec_BytesDropped = 0, Exec_Apparatus = noIdentity\<rparr>,
     out_error = None, out_staged = []\<rparr>"

lemma cleanOutcome_OK: "outcomeOK cleanOutcome"
  by (simp add: outcomeOK_def cleanOutcome_def)

lemma drain_progress:
  assumes "slotsOK rc b" "1 \<le> rc_campaignConcurrency rc" "br_workers b \<noteq> []" "\<not> drained b"
  shows "\<exists>b'. drainStep rc b b'"
proof (rule ccontr)
  assume stuck: "\<nexists>b'. drainStep rc b b'"
  have idle: "\<forall>w \<in> set (br_workers b). w = WIdle"
  proof (rule waiting_idle [OF assms(1,2)])
    fix k
    assume k: "k < length (br_workers b)" "br_workers b ! k \<noteq> WIdle"
    show "\<exists>job. br_workers b ! k = WLoaded job \<and> rc_campaignConcurrency rc \<le> br_active b (Job_CampaignID job)"
      using busy_moves [OF k(2), of rc _ cleanOutcome] stuck drainStep.work [OF k(1) cleanOutcome_OK] by (meson not_less)
  qed
  with assms(3) have k0: "0 < length (br_workers b)" "br_workers b ! 0 = WIdle" by auto
  show False
  proof (cases "br_queue b = []")
    case False
    with idle_moves [OF k0(2)] drainStep.work [OF k0(1) cleanOutcome_OK] stuck show False by blast
  next
    case True
    with assms(4) idle obtain i rest where "br_sending b = i # rest" by (cases "br_sending b") (auto simp: drained_def)
    with True have "sendStep i b \<noteq> None" by (simp add: sendStep_def queueCapacity_def)
    with stuck drainStep.send show False by blast
  qed
qed

section \<open>The journal\<close>

definition jobAt :: "Store \<Rightarrow> string \<Rightarrow> WorkerJob option" where
  "jobAt s i =
     (case map_of (st_records s) (recordWorkerJob, i) of
        Some row \<Rightarrow> if dataKind (Row_Data row) = recordWorkerJob then Some (asWorkerJob (Row_Data row)) else None
      | None \<Rightarrow> None)"

definition runAt :: "Store \<Rightarrow> string \<Rightarrow> ExperimentRun option" where
  "runAt s i =
     (case map_of (st_records s) (recordRun, i) of
        Some row \<Rightarrow> if dataKind (Row_Data row) = recordRun then Some (asRun (Row_Data row)) else None
      | None \<Rightarrow> None)"

text \<open>
  Jobs and runs are filed once, under their own ids; a job has its run, and their campaigns exist.
\<close>

definition typedJobs :: "Store \<Rightarrow> bool" where
  "typedJobs s \<longleftrightarrow> distinct (map fst (st_records s)) \<and>
     (\<forall>i row. map_of (st_records s) (recordWorkerJob, i) = Some row \<longrightarrow> dataKind (Row_Data row) = recordWorkerJob)"

definition journalOK :: "Store \<Rightarrow> bool" where
  "journalOK s \<longleftrightarrow> typedJobs s \<and>
     (\<forall>i job. jobAt s i = Some job \<longrightarrow> Job_ID job = i \<and> runAt s (Job_RunID job) \<noteq> None \<and> campaignKnown s (Job_CampaignID job)) \<and>
     (\<forall>i run. runAt s i = Some run \<longrightarrow> Run_ID run = i \<and> campaignKnown s (Run_CampaignID run))"

text \<open>What every component but the broker does to the journal: nothing. Campaigns are never removed.\<close>

definition journalKept :: "Store \<Rightarrow> Store \<Rightarrow> bool" where
  "journalKept s s' \<longleftrightarrow> jobAt s' = jobAt s \<and> runAt s' = runAt s \<and> (\<forall>c. campaignKnown s c \<longrightarrow> campaignKnown s' c) \<and>
     (typedJobs s \<longrightarrow> typedJobs s')"

interpretation journal: store_relation journalKept
  by unfold_locales (auto simp: journalKept_def)

definition sameTable :: "Store \<Rightarrow> Store \<Rightarrow> bool" where
  "sameTable s s' \<longleftrightarrow> st_records s' = st_records s \<and> st_campaigns s' = st_campaigns s"

interpretation table: store_relation sameTable
  by unfold_locales (auto simp: sameTable_def)

lemma table_journal: "evolves sameTable n \<Longrightarrow> evolves journalKept n"
  by (simp add: evolves_def sameTable_def journalKept_def jobAt_def runAt_def campaignKnown_def typedJobs_def fun_eq_iff)

lemma table_newID: "evolves sameTable (newID env p)"
  by (rule evolves_direct) (simp add: newID_def sameTable_def)

lemma table_putArtifact: "evolves sameTable (putArtifact env cfg a bytes)"
proof (rule putArtifact_keeps [OF table.store_relation_axioms table_newID])
  show "evolves sameTable (ingest env cfg bytes)"
    by (rule evolves_direct) (simp add: ingest_def sameTable_def)
  show "evolves sameTable (placeBlob env cfg path content m)" for path content m
  proof (rule evolves_direct)
    fix s
    show "sameTable s (snd (placeBlob env cfg path content m s))"
      by (cases rule: placeBlob_cases [of env cfg path content m s]) (simp_all add: sameTable_def)
  qed
  show "evolves sameTable (insertArtifact m)" for m
  proof (rule evolves_direct)
    fix s
    show "sameTable s (snd (insertArtifact m s))"
      by (cases rule: insertArtifact_cases [of m s]) (auto simp: sameTable_def)
  qed
qed

lemmas journal_putArtifact = table_journal [OF table_putArtifact]

lemma journal_collectFiles: "evolves journalKept (collectFiles env cfg job counts sizes ids staged)"
proof (induction staged arbitrary: counts sizes ids)
  case (Cons e rest)
  obtain path entry where "e = (path, entry)" by (metis prod.exhaust)
  with Cons show ?case
    by (cases entry) (auto simp: Let_def split: option.splits intro!: journal.evolves_bind journal_putArtifact)
qed simp

lemma journal_collect: "evolves journalKept (collect env cfg limit job staged ex assurance)"
  unfolding collect_def collectLog_def Let_def
  by (intro journal.evolves_prod journal.evolves_bind journal.evolves_if journal_collectFiles journal_putArtifact journal.evolves_return)

text \<open>Writing a job with its run.\<close>

lemma saveJobAndRun_cases:
  obtains (refused) e where "saveJobAndRun job run s = (Inl e, s)"
      "\<not> (campaignKnown s (Job_CampaignID job) \<and> campaignKnown s (Run_CampaignID run))"
  | (written) s' where "saveJobAndRun job run s = (Inr (), s')" "campaignKnown s (Job_CampaignID job)" "campaignKnown s (Run_CampaignID run)"
      "jobAt s' = (jobAt s)(Job_ID job \<mapsto> job)" "runAt s' = (runAt s)(Run_ID run \<mapsto> run)" "campaignKnown s' = campaignKnown s"
      "typedJobs s \<Longrightarrow> typedJobs s'"
proof (cases "campaignKnown s (Job_CampaignID job) \<and> campaignKnown s (Run_CampaignID run)")
  case True
  have kept: "campaignKnown (s\<lparr>st_records := rs\<rparr>) = campaignKnown s" for rs by (simp add: campaignKnown_def fun_eq_iff)
  have row: "Row_Data (case r of None \<Rightarrow> recordRow c t u v | Some old \<Rightarrow> old\<lparr>Row_CampaignID := x, Row_UpdatedAt := u, Row_Data := v\<rparr>) = v"
    for r c t u x v by (simp_all add: recordRow_def split: option.splits)
  show ?thesis
    by (rule written [of "snd (saveJobAndRun job run s)"])
      (use True in \<open>auto simp: saveJobAndRun_def atomically_def act_bind_def upsertRecord_def Let_def kept row jobAt_def runAt_def
        typedJobs_def distinct_update fun_eq_iff update_conv' split: if_splits\<close>)
next
  case False
  then have "\<exists>e. saveJobAndRun job run s = (Inl e, s)"
    by (auto simp: saveJobAndRun_def atomically_def act_bind_def upsertRecord_def Let_def campaignKnown_def)
  with False refused show ?thesis by blast
qed

lemma createJobAndRun_cases:
  obtains (refused) e where "createJobAndRun job run s = (Inl e, s)"
  | (written) s' where "createJobAndRun job run s = (Inr (), s')" "campaignKnown s (Job_CampaignID job)" "campaignKnown s (Run_CampaignID run)"
      "jobAt s (Job_ID job) = None" "runAt s (Run_ID run) = None"
      "jobAt s' = (jobAt s)(Job_ID job \<mapsto> job)" "runAt s' = (runAt s)(Run_ID run \<mapsto> run)" "campaignKnown s' = campaignKnown s"
      "typedJobs s \<Longrightarrow> typedJobs s'"
proof (cases "map_of (st_records s) (recordRun, Run_ID run) = None \<and> map_of (st_records s) (recordWorkerJob, Job_ID job) = None \<and>
    campaignKnown s (Job_CampaignID job) \<and> campaignKnown s (Run_CampaignID run)")
  case True
  have kept: "campaignKnown (s\<lparr>st_records := rs\<rparr>) = campaignKnown s" for rs by (simp add: campaignKnown_def fun_eq_iff)
  have "(recordRun, Run_ID run) \<notin> fst ` set (st_records s)" "(recordWorkerJob, Job_ID job) \<notin> fst ` set (st_records s)"
    using True by (simp_all add: map_of_eq_None_iff)
  note fresh = this [unfolded image_iff]
  show ?thesis
    by (rule written [of "snd (createJobAndRun job run s)"])
      (use True fresh in \<open>auto simp: createJobAndRun_def atomically_def act_bind_def insertRecord_def Let_def kept jobAt_def runAt_def
        typedJobs_def fun_eq_iff map_add_def recordRow_def split: option.splits if_splits\<close>)
next
  case False
  then have "\<exists>e. createJobAndRun job run s = (Inl e, s)"
    by (auto simp: createJobAndRun_def atomically_def act_bind_def insertRecord_def Let_def campaignKnown_def map_add_def split: option.splits)
  with refused show ?thesis by blast
qed

section \<open>Jobs in flight\<close>

definition openJob :: "WorkerJob \<Rightarrow> bool" where
  "openJob job \<longleftrightarrow> Job_Status job = RunQueued \<or> Job_Status job = RunRunning"

fun openIDs :: "worker \<Rightarrow> string list" where
  "openIDs (WFinished job run result callback) = []"
| "openIDs w = idsOf w"

definition refOK :: "Store \<Rightarrow> WorkerJob \<Rightarrow> bool" where
  "refOK s job \<longleftrightarrow> runAt s (Job_RunID job) \<noteq> None \<and> campaignKnown s (Job_CampaignID job)"

definition pairOK :: "Store \<Rightarrow> WorkerJob \<Rightarrow> ExperimentRun \<Rightarrow> bool" where
  "pairOK s job run \<longleftrightarrow> refOK s job \<and> Run_ID run = Job_RunID job \<and> campaignKnown s (Run_CampaignID run)"

fun refsOK :: "Store \<Rightarrow> worker \<Rightarrow> bool" where
  "refsOK s (WLoaded job) = refOK s job"
| "refsOK s (WHolding job) = refOK s job"
| "refsOK s (WBegun job run) = pairOK s job run"
| "refsOK s (WExecuting job run) = pairOK s job run"
| "refsOK s (WFinished job run result callback) = pairOK s job run"
| "refsOK s w = True"

fun cancelOK :: "Store \<Rightarrow> canceller \<Rightarrow> bool" where
  "cancelOK s (CRead job) = (jobAt s (Job_ID job) \<noteq> None \<and> refOK s job)"
| "cancelOK s (CMarking job) = (jobAt s (Job_ID job) \<noteq> None \<and> refOK s job)"

definition waiting :: "Broker \<Rightarrow> string list" where
  "waiting b = br_sending b @ br_queue b"

definition busyIDs :: "Broker \<Rightarrow> string list" where
  "busyIDs b = waiting b @ concat (map idsOf (br_workers b))"

definition openInFlight :: "Broker \<Rightarrow> string set" where
  "openInFlight b = set (waiting b) \<union> (\<Union>w \<in> set (br_workers b). set (openIDs w))"

text \<open>
  No job is twice in the hands of the broker, a waiting job is not running, and every open job of the
  journal is in the hands of the broker.
\<close>

definition flightOK :: "Broker \<Rightarrow> bool" where
  "flightOK b \<longleftrightarrow>
     journalOK (br_store b) \<and> distinct (busyIDs b) \<and> (\<forall>i \<in> set (busyIDs b). jobAt (br_store b) i \<noteq> None) \<and>
     (\<forall>w \<in> set (br_workers b). refsOK (br_store b) w) \<and> (\<forall>c \<in> set (br_cancellers b). cancelOK (br_store b) c) \<and>
     (\<forall>i \<in> set (waiting b). \<forall>job. jobAt (br_store b) i = Some job \<longrightarrow> Job_Status job \<noteq> RunRunning) \<and>
     (\<forall>i job. jobAt (br_store b) i = Some job \<longrightarrow> openJob job \<longrightarrow> i \<in> openInFlight b)"

lemma refsOK_mono:
  assumes "\<And>i. runAt s i \<noteq> None \<Longrightarrow> runAt s' i \<noteq> None" "\<And>c. campaignKnown s c \<Longrightarrow> campaignKnown s' c"
  shows "refOK s job \<Longrightarrow> refOK s' job" "pairOK s job run \<Longrightarrow> pairOK s' job run" "refsOK s w \<Longrightarrow> refsOK s' w"
  using assms by (auto simp: refOK_def pairOK_def) (cases w; auto simp: refOK_def pairOK_def)

lemma flightD:
  assumes "flightOK b"
  shows "journalOK (br_store b)" "distinct (busyIDs b)" "\<And>i. i \<in> set (busyIDs b) \<Longrightarrow> jobAt (br_store b) i \<noteq> None"
    "\<And>w. w \<in> set (br_workers b) \<Longrightarrow> refsOK (br_store b) w" "\<And>c. c \<in> set (br_cancellers b) \<Longrightarrow> cancelOK (br_store b) c"
    "\<And>i job. i \<in> set (waiting b) \<Longrightarrow> jobAt (br_store b) i = Some job \<Longrightarrow> Job_Status job \<noteq> RunRunning"
    "\<And>i job. jobAt (br_store b) i = Some job \<Longrightarrow> openJob job \<Longrightarrow> i \<in> openInFlight b"
  using assms by (simp_all add: flightOK_def)

lemma journalD:
  assumes "journalOK s"
  shows "\<And>i job. jobAt s i = Some job \<Longrightarrow> Job_ID job = i" "\<And>i job. jobAt s i = Some job \<Longrightarrow> refOK s job"
    "\<And>i run. runAt s i = Some run \<Longrightarrow> Run_ID run = i" "\<And>i run. runAt s i = Some run \<Longrightarrow> campaignKnown s (Run_CampaignID run)"
    "typedJobs s"
  using assms by (simp_all add: journalOK_def refOK_def)

lemma journalI:
  assumes "typedJobs s" "\<And>i job. jobAt s i = Some job \<Longrightarrow> Job_ID job = i \<and> refOK s job"
    "\<And>i run. runAt s i = Some run \<Longrightarrow> Run_ID run = i \<and> campaignKnown s (Run_CampaignID run)"
  shows "journalOK s"
  using assms by (simp add: journalOK_def refOK_def)

text \<open>A change of the store alone.\<close>

lemma flight_stored:
  assumes "flightOK b" "journalOK s'" "\<And>i. jobAt (br_store b) i \<noteq> None \<Longrightarrow> jobAt s' i \<noteq> None"
    "\<And>i. runAt (br_store b) i \<noteq> None \<Longrightarrow> runAt s' i \<noteq> None" "\<And>c. campaignKnown (br_store b) c \<Longrightarrow> campaignKnown s' c"
    "\<And>i job. jobAt s' i = Some job \<Longrightarrow> jobAt (br_store b) i = Some job \<or> \<not> openJob job \<or> i \<in> openInFlight b - set (waiting b)"
  shows "flightOK (b\<lparr>br_store := s'\<rparr>)"
proof -
  note b = flightD [OF assms(1)]
  let ?b = "b\<lparr>br_store := s'\<rparr>"
  have same: "busyIDs ?b = busyIDs b" "waiting ?b = waiting b" "openInFlight ?b = openInFlight b"
    by (simp_all add: busyIDs_def waiting_def openInFlight_def)
  have "cancelOK s' x" if "x \<in> set (br_cancellers b)" for x
    using b(5) [OF that] assms(3) refsOK_mono(1) [OF assms(4,5)] by (cases x) auto
  moreover have "refsOK s' w" if "w \<in> set (br_workers b)" for w
    using b(4) [OF that] assms(4,5) by (rule refsOK_mono(3) [rotated 2])
  moreover have "Job_Status job \<noteq> RunRunning" if "i \<in> set (waiting b)" "jobAt s' i = Some job" for i job
    using assms(6) [OF that(2)] b(6) [OF that(1)] that(1) by (auto simp: openJob_def)
  moreover have "i \<in> openInFlight b" if "jobAt s' i = Some job" "openJob job" for i job
    using assms(6) [OF that(1)] that(2) b(7) by blast
  ultimately show ?thesis unfolding flightOK_def same using b(2) b(3) assms(2,3) by simp
qed

lemma flight_kept:
  assumes "flightOK b" "journalKept (br_store b) s'"
  shows "flightOK (b\<lparr>br_store := s'\<rparr>)"
proof -
  from assms(2) have j: "jobAt s' = jobAt (br_store b)" "runAt s' = runAt (br_store b)"
    and c: "\<And>c. campaignKnown (br_store b) c \<Longrightarrow> campaignKnown s' c" and ty: "typedJobs (br_store b) \<Longrightarrow> typedJobs s'"
    by (simp_all add: journalKept_def)
  have "journalOK s'"
    using journalD [OF flightD(1) [OF assms(1)]] c ty by (intro journalI) (simp_all add: j refOK_def)
  with assms(1) j c show ?thesis by (intro flight_stored) simp_all
qed

lemma saved_journal:
  assumes "journalOK s" "saveJobAndRun job run s = (Inr (), s')" "Run_ID run = Job_RunID job"
  shows "journalOK s'"
proof (cases rule: saveJobAndRun_cases [of job run s])
  case (written s1)
  with assms(2) have s1: "s1 = s'" by simp
  show ?thesis
  proof (rule journalI)
    show "typedJobs s'" using written(7) journalD(5) [OF assms(1)] by (simp add: s1)
  next
    fix i job'
    assume "jobAt s' i = Some job'"
    then show "Job_ID job' = i \<and> refOK s' job'"
      using journalD(1,2) [OF assms(1)] written(2-6) assms(3) unfolding s1 by (cases "i = Job_ID job") (auto simp: refOK_def)
  next
    fix i run'
    assume "runAt s' i = Some run'"
    then show "Run_ID run' = i \<and> campaignKnown s' (Run_CampaignID run')"
      using journalD(3,4) [OF assms(1)] written(3,5,6) unfolding s1 by (cases "i = Run_ID run") auto
  qed
qed (use assms(2) in simp)

lemma flight_saved:
  assumes "flightOK b" "jobAt (br_store b) (Job_ID job) \<noteq> None" "Run_ID run = Job_RunID job" "\<not> openJob job"
  shows "flightOK (b\<lparr>br_store := snd (saveJobAndRun job run (br_store b))\<rparr>)"
proof (cases rule: saveJobAndRun_cases [of job run "br_store b"])
  case (refused e)
  with assms(1) show ?thesis by simp
next
  case (written s')
  have "journalOK s'" by (rule saved_journal [OF flightD(1) [OF assms(1)] written(1) assms(3)])
  with assms(1,4) written show ?thesis by (auto intro!: flight_stored split: if_splits)
qed

lemma flight_fields [simp]:
  "flightOK (b\<lparr>br_active := x\<rparr>) = flightOK b" "flightOK (b\<lparr>br_cancels := y\<rparr>) = flightOK b"
  "flightOK (b\<lparr>br_published := z\<rparr>) = flightOK b"
  by (simp_all add: flightOK_def busyIDs_def waiting_def openInFlight_def)

lemma openIDs_sub: "set (openIDs w) \<subseteq> set (idsOf w)"
  by (cases w) auto

lemma flight_restructured:
  assumes "flightOK b" "br_store b' = br_store b" "br_cancellers b' = br_cancellers b" "distinct (busyIDs b')"
    "set (busyIDs b') \<subseteq> set (busyIDs b)" "set (waiting b') \<subseteq> set (waiting b)" "\<And>w. w \<in> set (br_workers b') \<Longrightarrow> refsOK (br_store b) w"
    "\<And>i job. jobAt (br_store b) i = Some job \<Longrightarrow> openJob job \<Longrightarrow> i \<in> openInFlight b \<Longrightarrow> i \<in> openInFlight b'"
  shows "flightOK b'"
  using flightD [OF assms(1)] assms(4-8) unfolding flightOK_def assms(2,3) by blast

text \<open>A step of one worker that changes nothing else.\<close>

lemma flight_worker:
  assumes "flightOK b" "k < length (br_workers b)" "idsOf w = idsOf (br_workers b ! k) \<or> idsOf w = []" "refsOK (br_store b) w"
    and "\<And>i job. i \<in> set (openIDs (br_workers b ! k)) \<Longrightarrow> jobAt (br_store b) i = Some job \<Longrightarrow> openJob job \<Longrightarrow> i \<in> set (openIDs w)"
  shows "flightOK (setWorker k w b)"
proof -
  note b = flightD [OF assms(1)]
  let ?b = "setWorker k w b"
  obtain pre post where ws: "br_workers b = pre @ br_workers b ! k # post" "br_workers ?b = pre @ w # post"
    using worker_split [OF assms(2)] by (metis setWorker_simps(6))
  have busy: "busyIDs b = waiting b @ concat (map idsOf pre) @ idsOf (br_workers b ! k) @ concat (map idsOf post)"
    unfolding busyIDs_def using arg_cong [OF ws(1), of "\<lambda>x. concat (map idsOf x)"] by simp
  have busy': "busyIDs ?b = waiting b @ concat (map idsOf pre) @ idsOf w @ concat (map idsOf post)"
    unfolding busyIDs_def ws(2) by (simp add: waiting_def)
  have "set (busyIDs ?b) \<subseteq> set (busyIDs b) \<and> distinct (busyIDs ?b)"
    using assms(3)
  proof
    assume "idsOf w = idsOf (br_workers b ! k)"
    with busy busy' have "busyIDs ?b = busyIDs b" by simp
    with b(2) show ?thesis by simp
  next
    assume "idsOf w = []"
    with b(2) show ?thesis unfolding busy busy' by auto
  qed
  moreover have "refsOK (br_store b) v" if "v \<in> set (br_workers ?b)" for v
  proof -
    from that have "v = w \<or> v \<in> set (pre @ br_workers b ! k # post)" unfolding ws(2) by auto
    then show ?thesis using assms(4) b(4) unfolding ws(1) [symmetric] by blast
  qed
  moreover have "i \<in> openInFlight ?b" if i: "jobAt (br_store b) i = Some job" "openJob job" for i job
  proof -
    have flight: "i \<in> set (waiting b) \<union> (\<Union>v \<in> set pre \<union> {br_workers b ! k} \<union> set post. set (openIDs v))"
      using b(7) [OF i] arg_cong [OF ws(1), of set] by (simp add: openInFlight_def Un_assoc)
    have "openInFlight ?b = set (waiting b) \<union> (\<Union>v \<in> set pre \<union> {w} \<union> set post. set (openIDs v))"
      unfolding openInFlight_def ws(2) by (auto simp: waiting_def)
    with flight assms(5) [OF _ i] show ?thesis by auto
  qed
  ultimately show ?thesis by (intro flight_restructured [OF assms(1)]) (simp_all add: waiting_def)
qed

text \<open>The queue loses its first id, to an idle worker or for good.\<close>

lemma flight_load:
  assumes "flightOK b" "k < length (br_workers b)" "br_workers b ! k = WIdle" "br_queue b = i # rest" "jobAt (br_store b) i = Some job"
  shows "flightOK (setWorker k (WLoaded job) (b\<lparr>br_queue := rest\<rparr>))"
proof -
  note b = flightD [OF assms(1)]
  let ?b = "setWorker k (WLoaded job) (b\<lparr>br_queue := rest\<rparr>)"
  obtain pre post where ws: "br_workers b = pre @ WIdle # post" "br_workers ?b = pre @ WLoaded job # post"
    using worker_split [OF assms(2)] assms(3) by (metis setWorker_simps(6) select_convs(6) surjective update_convs(2))
  have id: "Job_ID job = i" and ref: "refOK (br_store b) job" using journalD(1,2) [OF b(1) assms(5)] by auto
  have wait: "waiting b = br_sending b @ i # rest" "waiting ?b = br_sending b @ rest" by (simp_all add: waiting_def assms(4))
  have "distinct (busyIDs ?b)" "set (busyIDs ?b) = set (busyIDs b)" "openInFlight ?b = openInFlight b"
    using b(2) unfolding busyIDs_def openInFlight_def wait ws by (auto simp: id)
  moreover have "refsOK (br_store b) v" if "v \<in> set (br_workers ?b)" for v
    using that ref b(4) unfolding ws by auto
  ultimately show ?thesis by (intro flight_restructured [OF assms(1)]) (auto simp: wait)
qed

lemma flight_skip:
  assumes "flightOK b" "br_queue b = i # rest" "\<And>job. jobAt (br_store b) i = Some job \<Longrightarrow> Job_Status job \<noteq> RunQueued"
  shows "flightOK (b\<lparr>br_queue := rest\<rparr>)"
proof -
  note b = flightD [OF assms(1)]
  let ?b = "b\<lparr>br_queue := rest\<rparr>"
  have wait: "waiting b = br_sending b @ i # rest" "waiting ?b = br_sending b @ rest" by (simp_all add: waiting_def assms(2))
  have "\<not> openJob job" if "jobAt (br_store b) i = Some job" for job
    using b(6) [OF _ that] assms(3) [OF that] by (simp add: openJob_def wait)
  then have "j \<in> openInFlight ?b" if "jobAt (br_store b) j = Some job" "openJob job" for j job
    using b(7) [OF that] that by (auto simp: openInFlight_def wait)
  moreover have "distinct (busyIDs ?b)" "set (busyIDs ?b) \<subseteq> set (busyIDs b)" using b(2) by (auto simp: busyIDs_def wait)
  ultimately show ?thesis using b(4) by (intro flight_restructured [OF assms(1)]) (auto simp: wait)
qed

lemma flight_send:
  assumes "flightOK b" "sendStep i b = Some b'"
  shows "flightOK b'"
proof -
  note b = flightD [OF assms(1)]
  from assms(2) have i: "i \<in> set (br_sending b)" and b': "b' = b\<lparr>br_sending := remove1 i (br_sending b), br_queue := br_queue b @ [i]\<rparr>"
    by (auto simp: sendStep_def split: if_splits)
  have "distinct (br_sending b)" using b(2) by (simp add: busyIDs_def waiting_def)
  then have "set (waiting b') = set (waiting b)" "distinct (busyIDs b')" "set (busyIDs b') = set (busyIDs b)"
    using b(2) i by (auto simp: waiting_def busyIDs_def b' set_remove1_eq)
  then show ?thesis using b(4) by (intro flight_restructured [OF assms(1)]) (auto simp: b' openInFlight_def)
qed

section \<open>Every step keeps the jobs in flight\<close>

text \<open>
  What the broker relies on: the callback leaves jobs and runs to the broker.
\<close>

definition callbackOK :: "RunnerConfig \<Rightarrow> bool" where
  "callbackOK rc \<longleftrightarrow> (\<forall>f job result. rc_onResult rc = Some f \<longrightarrow> evolves journalKept (f job result))"

lemma getRun_at: "getRun i s = (case runAt s i of Some run \<Rightarrow> Inr run | None \<Rightarrow> fst (getRun i s), s)"
  by (cases "map_of (st_records s) (recordRun, i)") (simp_all add: getRun_def getRecord_def act_gets_def lookup_def runAt_def)

lemma getRun_iff: "getRun i s = (Inr run, s') \<longleftrightarrow> s' = s \<and> runAt s i = Some run"
  by (cases "map_of (st_records s) (recordRun, i)") (auto simp: getRun_def getRecord_def act_gets_def lookup_def runAt_def split: if_splits)

lemma getWorkerJob_iff: "fst (getWorkerJob i s) = Inr job \<longleftrightarrow> jobAt s i = Some job"
  by (cases "map_of (st_records s) (recordWorkerJob, i)") (auto simp: getWorkerJob_def getRecord_def act_gets_def lookup_def jobAt_def split: if_splits)

lemma draw_id:
  obtains j s' where "(if i = [] then newID env p else act_return i) s = (Inr j, s')" "journalKept s s'"
proof -
  have "evolves journalKept (if i = [] then newID env p else act_return i)"
    by (intro journal.evolves_if table_journal table_newID journal.evolves_return)
  moreover obtain j s' where "(if i = [] then newID env p else act_return i) s = (Inr j, s')"
    by (cases "i = []") (simp_all add: newID_def act_return_def)
  ultimately show ?thesis using that by (metis evolvesD)
qed

lemma journalJob_cases:
  obtains (refused) e s' where "journalJob env started job s = (Inl e, s')" "journalKept s s'"
  | (queued) q run s0 s' where "journalJob env started job s = (Inr (q, run), s')" "journalKept s s0" "createJobAndRun q run s0 = (Inr (), s')"
      "Job_Status q = RunQueued" "Run_ID run = Job_RunID q"
proof (cases "started \<and> validateJob env job = Inr ()")
  case False
  then have "\<exists>e. journalJob env started job s = (Inl e, s)"
    by (cases "validateJob env job") (auto simp: journalJob_def act_fail_def act_bind_def act_lift_def)
  with refused journal.rel_refl show ?thesis by blast
next
  case True
  obtain i s1 where i: "(if Job_ID job = [] then newID env ''job'' else act_return (Job_ID job)) s = (Inr i, s1)" "journalKept s s1"
    by (rule draw_id)
  obtain rid s2 where rid: "(if Job_RunID job = [] then newID env ''run'' else act_return (Job_RunID job)) s1 = (Inr rid, s2)" "journalKept s1 s2"
    by (rule draw_id)
  define q where "q = job\<lparr>Job_ID := i, Job_RunID := rid, Job_SchemaVersion := 1, Job_Status := RunQueued,
    Job_CreatedAt := env_now env, Job_UpdatedAt := env_now env\<rparr>"
  define run where "run = queuedRun (env_now env) q"
  have j: "journalJob env started job s = act_bind (createJobAndRun q run) (\<lambda>_. act_return (q, run)) s2"
    unfolding journalJob_def act_bind_def act_lift_def q_def run_def using True by (simp add: i(1) rid(1) Let_def act_bind_def)
  have kept: "journalKept s s2" using i(2) rid(2) by (rule journal.rel_trans)
  show ?thesis
  proof (cases rule: createJobAndRun_cases [of q run s2])
    case (refused e)
    then show ?thesis using that(1) j kept by (simp add: act_bind_def)
  next
    case (written s')
    have "journalJob env started job s = (Inr (q, run), s')" using j written(1) by (simp add: act_bind_def act_return_def)
    moreover have "Job_Status q = RunQueued" "Run_ID run = Job_RunID q" by (simp_all add: q_def run_def queuedRun_def)
    ultimately show ?thesis using that(2) kept written(1) by blast
  qed
qed

lemma flight_submit:
  assumes "flightOK b"
  shows "flightOK (submitStep env job b)"
proof (cases rule: journalJob_cases [of env True job "br_store b"])
  case (refused e s')
  then show ?thesis using flight_kept [OF assms refused(2)] by (simp add: submitStep_def)
next
  case (queued q run s0 s')
  let ?b = "b\<lparr>br_store := s0\<rparr>"
  have f: "flightOK ?b" by (rule flight_kept [OF assms queued(2)])
  note b = flightD [OF f, simplified]
  show ?thesis
  proof (cases rule: createJobAndRun_cases [of q run s0])
    case (written s1)
    with queued(3) have s1: "s1 = s'" by simp
    let ?c = "b\<lparr>br_store := s', br_sending := br_sending b @ [Job_ID q]\<rparr>"
    have ids: "Job_ID q \<notin> set (busyIDs ?b)" using b(3) [of "Job_ID q"] written(4) by auto
    then have busy: "distinct (busyIDs ?c)" "set (busyIDs ?c) = insert (Job_ID q) (set (busyIDs ?b))"
      and wait: "set (waiting ?c) = insert (Job_ID q) (set (waiting ?b))" "openInFlight ?c = insert (Job_ID q) (openInFlight ?b)"
      using b(2) by (auto simp: busyIDs_def waiting_def openInFlight_def)
    have "journalOK s'"
    proof (rule journalI)
      show "typedJobs s'" using written(9) journalD(5) [OF b(1)] by (simp add: s1)
      show "jobAt s' i = Some job' \<Longrightarrow> Job_ID job' = i \<and> refOK s' job'" for i job'
        using journalD(1,2) [OF b(1)] written(2,6-8) queued(5) unfolding s1 by (auto simp: refOK_def split: if_splits)
      show "runAt s' i = Some run' \<Longrightarrow> Run_ID run' = i \<and> campaignKnown s' (Run_CampaignID run')" for i run'
        using journalD(3,4) [OF b(1)] written(3,7,8) unfolding s1 by (auto split: if_splits)
    qed
    moreover have "refsOK s' w" if "w \<in> set (br_workers b)" for w
      by (rule refsOK_mono(3) [OF _ _ b(4) [OF that]]) (simp_all add: written(7,8) flip: s1)
    moreover have "cancelOK s' c" if "c \<in> set (br_cancellers b)" for c
      using b(5) [OF that] written(6-8) unfolding s1 by (cases c) (auto simp: refOK_def)
    moreover have job: "jobAt s' = (jobAt s0)(Job_ID q \<mapsto> q)" using written(6) s1 by simp
    moreover have "jobAt s' i \<noteq> None" if "i \<in> set (busyIDs ?c)" for i
      using that b(3) unfolding busy job by auto
    moreover have "Job_Status job' \<noteq> RunRunning" if "i \<in> set (waiting ?c)" "jobAt s' i = Some job'" for i job'
      using that b(6) [of i job'] queued(4) unfolding wait job by (auto split: if_splits)
    moreover have "i \<in> openInFlight ?c" if "jobAt s' i = Some job'" "openJob job'" for i job'
      using that b(7) [of i job'] unfolding wait job by (auto split: if_splits)
    ultimately have "flightOK ?c" using busy(1) unfolding flightOK_def by simp
    then show ?thesis by (simp add: submitStep_def queued(1))
  qed (use queued(3) in simp)
qed

text \<open>The id in the hands of a worker.\<close>

lemma flight_held:
  assumes "flightOK b" "k < length (br_workers b)" "i \<in> set (idsOf (br_workers b ! k))"
  shows "jobAt (br_store b) i \<noteq> None" "i \<notin> set (waiting b)"
proof -
  note b = flightD [OF assms(1)]
  have "i \<in> set (concat (map idsOf (br_workers b)))" using assms(2,3) nth_mem by fastforce
  then show "jobAt (br_store b) i \<noteq> None" "i \<notin> set (waiting b)"
    using b(2) b(3) [of i] unfolding busyIDs_def by auto
qed

lemma flight_start:
  assumes "flightOK b" "k < length (br_workers b)" "br_workers b ! k = WHolding job"
  obtains job1 run1 s where "beginRun env rc job (br_store b) = (Inr (job1, run1), s)"
    "flightOK (setWorker k (WBegun job1 run1) (b\<lparr>br_store := s\<rparr>))"
proof -
  note b = flightD [OF assms(1)]
  have "refsOK (br_store b) (WHolding job)" using b(4) assms(2,3) nth_mem by metis
  then obtain run where run: "runAt (br_store b) (Job_RunID job) = Some run" and known: "campaignKnown (br_store b) (Job_CampaignID job)"
    by (auto simp: refOK_def)
  define job1 where "job1 = job\<lparr>Job_Status := RunRunning, Job_UpdatedAt := env_now env\<rparr>"
  define run1 where "run1 = run\<lparr>Run_Status := RunRunning, Run_WorkerID := As_Backend (rc_assurance rc),
    Run_IsolationAssurance := As_Isolation (rc_assurance rc), Run_StartedAt := Some (env_now env)\<rparr>"
  have ids: "Job_ID job1 = Job_ID job" "Job_RunID job1 = Job_RunID job" "Job_CampaignID job1 = Job_CampaignID job"
    "Run_ID run1 = Job_RunID job" "Run_CampaignID run1 = Run_CampaignID run"
    using journalD(3) [OF b(1) run] by (simp_all add: job1_def run1_def)
  have known1: "campaignKnown (br_store b) (Run_CampaignID run)" by (rule journalD(4) [OF b(1) run])
  have held: "jobAt (br_store b) (Job_ID job) \<noteq> None" "Job_ID job \<notin> set (waiting b)"
    using flight_held [OF assms(1,2)] assms(3) by simp_all
  have flying: "Job_ID job \<in> openInFlight b"
    using nth_mem [OF assms(2)] unfolding assms(3) openInFlight_def by fastforce
  show ?thesis
  proof (cases rule: saveJobAndRun_cases [of job1 run1 "br_store b"])
    case (refused e)
    with known known1 show ?thesis by (simp add: ids)
  next
    case (written s)
    have begun: "beginRun env rc job (br_store b) = (Inr (job1, run1), s)"
      using run written(1) by (simp add: beginRun_def act_bind_def act_return_def getRun_at Let_def job1_def run1_def)
    have "journalOK s" by (rule saved_journal [OF b(1) written(1)]) (simp add: ids)
    then have stored: "flightOK (b\<lparr>br_store := s\<rparr>)"
      using flying held by (intro flight_stored [OF assms(1)]) (simp_all add: written ids split: if_splits)
    have "pairOK s job1 run1" using known known1 by (simp add: pairOK_def refOK_def ids written)
    then have "flightOK (setWorker k (WBegun job1 run1) (b\<lparr>br_store := s\<rparr>))"
      using assms(2,3) by (intro flight_worker [OF stored]) (simp_all add: ids)
    with begun that show ?thesis by blast
  qed
qed

text \<open>A run ends: the terminal state is saved, so the job is no longer open.\<close>

lemma collect_status:
  "collect env cfg limit job staged ex assurance s = (Inr result, s') \<Longrightarrow> Result_Status result = Exec_Status ex"
  by (auto simp: collect_def Let_def act_bind_def act_return_def split: prod.splits sum.splits)

lemma finalResult_closed:
  assumes "Result_Status collected \<noteq> RunQueued" "Result_Status collected \<noteq> RunRunning"
  shows "Result_Status (finalResult ctx failure collected) \<noteq> RunQueued" "Result_Status (finalResult ctx failure collected) \<noteq> RunRunning"
  using assms by (simp_all add: finalResult_def)

lemma flight_ended:
  assumes "flightOK b" "k < length (br_workers b)" "br_workers b ! k = WExecuting job run" "journalKept (br_store b) s1"
    "saved = snd (saveJobAndRun job1 run1 s1)" "\<not> openJob job1" "Job_ID job1 = Job_ID job" "Job_RunID job1 = Job_RunID job"
    "Job_CampaignID job1 = Job_CampaignID job" "Run_ID run1 = Run_ID run" "Run_CampaignID run1 = Run_CampaignID run"
    "job2 = job \<and> run2 = run \<or> job2 = job1 \<and> run2 = run1"
  shows "flightOK (setWorker k (WFinished job2 run2 result callback) (b\<lparr>br_store := saved\<rparr>))"
proof -
  let ?b = "b\<lparr>br_store := s1\<rparr>"
  have f: "flightOK ?b" by (rule flight_kept [OF assms(1,4)])
  have "refsOK s1 (WExecuting job run)" using flightD(4) [OF f] assms(2,3) nth_mem by (metis select_convs(1) surjective update_convs(1) select_convs(6))
  then have pair: "pairOK s1 job run" by simp
  have held: "jobAt s1 (Job_ID job) \<noteq> None" using flight_held(1) [OF f, of k "Job_ID job"] assms(2,3) by simp
  have saved: "flightOK (b\<lparr>br_store := saved\<rparr>)"
    using flight_saved [OF f, of job1 run1] held pair assms(6-8,10) by (simp add: assms(5) pairOK_def)
  show ?thesis
  proof (cases rule: saveJobAndRun_cases [of job1 run1 s1])
    case (refused e)
    with pair assms(9,11) show ?thesis by (simp add: pairOK_def refOK_def)
  next
    case (written s')
    with assms(5) have s': "saved = s'" by simp
    have closed: "\<not> openJob j" if "jobAt saved (Job_ID job) = Some j" for j
      using that assms(6,7) by (simp add: s' written(4))
    have "pairOK saved job2 run2" using pair assms(8-12) by (auto simp: s' pairOK_def refOK_def written(5,6))
    then show ?thesis
      using assms(2,3,7,12) closed by (intro flight_worker [OF saved]) auto
  qed
qed

lemma flight_finish:
  assumes "flightOK b" "k < length (br_workers b)" "br_workers b ! k = WExecuting job run" "outcomeOK out"
    "finishRun env rc out ctx job run (br_store b) = (Inr (job1, run1, result, callback), s)"
  shows "flightOK (setWorker k (WFinished job1 run1 result callback) (b\<lparr>br_store := s\<rparr>))"
proof (cases rule: finishRun_cases [of "br_store b" env rc job out ctx run])
  case (failed e usage s1)
  have kept: "journalKept (br_store b) s1"
    using failed(1) journal.rel_refl by (auto intro: journal_collect [unfolded evolves_def, rule_format])
  have "job1 = job \<and> run1 = run" "s = snd (saveJobAndRun (failedJob env job) (failedRun env run e usage) s1)"
    using trans [OF failed(2) [symmetric] assms(5)] by auto
  with kept show ?thesis
    by (intro flight_ended [OF assms(1-3), of s1 _ "failedJob env job" "failedRun env run e usage"])
      (simp_all add: failedJob_def failedRun_def openJob_def)
next
  case (ended ex collected s1 result')
  have kept: "journalKept (br_store b) s1" by (rule evolvesD [OF journal_collect ended(2)])
  have "Result_Status collected = Exec_Status (out_execution out)" using collect_status [OF ended(2)] ended(1) by simp
  then have "\<not> openJob (endedJob env job result')"
    using finalResult_closed [of collected ctx "out_error out"] assms(4) by (simp add: openJob_def endedJob_def outcomeOK_def ended(3))
  moreover have "job1 = endedJob env job result' \<and> run1 = endedRun env run result'"
    "s = snd (saveJobAndRun (endedJob env job result') (endedRun env run result') s1)"
    using trans [OF ended(4) [symmetric] assms(5)] by auto
  ultimately show ?thesis using kept
    by (intro flight_ended [OF assms(1-3), of s1 _ "endedJob env job result'" "endedRun env run result'"])
      (simp_all add: endedJob_def endedRun_def)
qed

lemma flight_publish:
  assumes "flightOK b" "k < length (br_workers b)" "br_workers b ! k = WFinished job run result callback" "callbackOK rc"
    "(if callback then runCallback env rc job run result else act_return result) (br_store b) = (Inr final, s)"
  shows "flightOK (setWorker k (WReleasing c) (b\<lparr>br_store := s\<rparr>))"
proof -
  have pair: "pairOK (br_store b) job run" using flightD(4) [OF assms(1)] assms(2,3) nth_mem by (metis refsOK.simps(5))
  have held: "jobAt (br_store b) (Job_ID job) \<noteq> None" using flight_held(1) [OF assms(1,2)] assms(3) by simp
  have "flightOK (b\<lparr>br_store := s\<rparr>)"
  proof (cases "\<exists>onResult. callback \<and> rc_onResult rc = Some onResult")
    case False
    with assms(5) have "s = br_store b" by (auto simp: runCallback_def act_return_def split: if_splits option.splits)
    with assms(1) show ?thesis by simp
  next
    case True
    then obtain onResult where on: "callback" "rc_onResult rc = Some onResult" by blast
    obtain r s1 where r: "onResult job result (br_store b) = (r, s1)" by (metis prod.exhaust)
    have "evolves journalKept (onResult job result)" using assms(4) on(2) by (simp add: callbackOK_def)
    from evolvesD [OF this r] have kept: "journalKept (br_store b) s1" .
    have f: "flightOK (b\<lparr>br_store := s1\<rparr>)" by (rule flight_kept [OF assms(1) kept])
    from kept held have held1: "jobAt s1 (Job_ID job) \<noteq> None" by (simp add: journalKept_def)
    show ?thesis
    proof (cases r)
      case (Inr x)
      with assms(5) on r f show ?thesis by (simp add: runCallback_def)
    next
      case (Inl e)
      obtain job1 run1 where s: "s = snd (saveJobAndRun job1 run1 s1)" and j: "Job_ID job1 = Job_ID job" "Job_RunID job1 = Job_RunID job"
        "Job_Status job1 = RunFailed" "Run_ID run1 = Run_ID run"
        using assms(5) on r Inl
        by (auto simp: runCallback_def Let_def act_bind_def act_ignore_def act_return_def intro: that)
      show ?thesis using flight_saved [OF f, of job1 run1] held1 pair by (simp add: s j openJob_def pairOK_def)
    qed
  qed
  then show ?thesis using assms(2,3) by (intro flight_worker) simp_all
qed

section \<open>Cancelling\<close>

lemma flight_cancellers:
  "flightOK b \<Longrightarrow> (\<And>c. c \<in> set cs \<Longrightarrow> cancelOK (br_store b) c) \<Longrightarrow> flightOK (b\<lparr>br_cancellers := cs\<rparr>)"
  by (simp add: flightOK_def busyIDs_def waiting_def openInFlight_def)

lemma flight_dropCanceller: "flightOK b \<Longrightarrow> flightOK (dropCanceller k b)"
  unfolding dropCanceller_def by (rule flight_cancellers) (auto dest: in_set_takeD in_set_dropD flightD(5))

lemma flight_cancelRead:
  assumes "flightOK b"
  shows "flightOK (cancelRead i b)"
proof (cases "fst (getWorkerJob i (br_store b))")
  case (Inl e)
  with assms show ?thesis by (simp add: cancelRead_def)
next
  case (Inr job)
  then have at: "jobAt (br_store b) i = Some job" by (simp add: getWorkerJob_iff)
  have "Job_ID job = i" by (rule journalD(1) [OF flightD(1) [OF assms] at])
  with at journalD(2) [OF flightD(1) [OF assms] at] have "cancelOK (br_store b) (CRead job)" by simp
  with Inr flightD(5) [OF assms] show ?thesis by (auto simp: cancelRead_def intro!: flight_cancellers [OF assms])
qed

lemma flight_cancelStep:
  assumes "flightOK b" "k < length (br_cancellers b)"
  shows "flightOK (cancelStep env k b)"
proof (cases "br_cancellers b ! k")
  case (CRead job)
  have at: "cancelOK (br_store b) (CMarking job)" using flightD(5) [OF assms(1) nth_mem [OF assms(2)]] CRead by simp
  have "flightOK (b\<lparr>br_cancellers := (br_cancellers b)[k := CMarking job]\<rparr>)"
  proof (rule flight_cancellers [OF assms(1)])
    fix c
    assume "c \<in> set ((br_cancellers b)[k := CMarking job])"
    then have "c = CMarking job \<or> c \<in> set (br_cancellers b)" using set_update_subset_insert by fastforce
    then show "cancelOK (br_store b) c" using at flightD(5) [OF assms(1)] by auto
  qed
  with CRead assms(1) show ?thesis by (auto simp: cancelStep_def intro: flight_dropCanceller)
next
  case (CMarking job)
  have at: "jobAt (br_store b) (Job_ID job) \<noteq> None" using flightD(5) [OF assms(1) nth_mem [OF assms(2)]] CMarking by simp
  show ?thesis
  proof (cases "runAt (br_store b) (Job_RunID job)")
    case None
    then have "\<exists>e. fst (getRun (Job_RunID job) (br_store b)) = Inl e"
      using getRun_iff [of "Job_RunID job" "br_store b"] by (metis old.sum.exhaust option.distinct(1) prod.collapse getRun_at snd_conv)
    with CMarking assms(1) show ?thesis by (auto simp: cancelStep_def intro: flight_dropCanceller)
  next
    case (Some run)
    define job1 where "job1 = job\<lparr>Job_Status := RunCancelled, Job_UpdatedAt := env_now env\<rparr>"
    define run1 where "run1 = run\<lparr>Run_Status := RunCancelled, Run_CompletedAt := Some (env_now env),
      Run_Exit := (Run_Exit run)\<lparr>Exit_Reason := ''cancelled before execution''\<rparr>\<rparr>"
    have "Run_ID run = Job_RunID job" by (rule journalD(3) [OF flightD(1) [OF assms(1)] Some])
    then have "flightOK (b\<lparr>br_store := snd (saveJobAndRun job1 run1 (br_store b))\<rparr>)"
      using at by (intro flight_saved [OF assms(1)]) (simp_all add: job1_def run1_def openJob_def)
    then have "flightOK (dropCanceller k (b\<lparr>br_store := snd (saveJobAndRun job1 run1 (br_store b))\<rparr>))"
      "flightOK (dropCanceller k (b\<lparr>br_store := snd (saveJobAndRun job1 run1 (br_store b)), br_published := br_published b @ [resultFromRun run1]\<rparr>))"
      by (auto intro!: flight_dropCanceller)
    with CMarking Some show ?thesis
      by (cases "saveJobAndRun job1 run1 (br_store b)"; cases "fst (saveJobAndRun job1 run1 (br_store b))")
        (simp_all add: cancelStep_def getRun_at Let_def job1_def [symmetric] run1_def [symmetric])
  qed
qed

end
