(* ===== verification/Runner_Theorems.thy ===== *)
theory Runner_Theorems
  imports Runner_Laws
begin

text \<open>
  The job broker over its whole life: submissions, workers and cancellations in any interleaving,
  writes of other components, and a crash with a restart at any moment.
\<close>

section \<open>Interleavings\<close>

inductive brokerStep :: "RunnerConfig \<Rightarrow> Broker \<Rightarrow> Broker \<Rightarrow> bool" for rc :: RunnerConfig where
  submit: "brokerStep rc b (submitStep env job b)"
| send: "sendStep i b = Some b' \<Longrightarrow> brokerStep rc b b'"
| work: "k < length (br_workers b) \<Longrightarrow> outcomeOK out \<Longrightarrow> workerStep env rc out ctx k b = Some b' \<Longrightarrow> brokerStep rc b b'"
| cancel: "brokerStep rc b (cancelRead i b)"
| cancelling: "k < length (br_cancellers b) \<Longrightarrow> brokerStep rc b (cancelStep env k b)"
| elsewhere: "journalKept (br_store b) s \<Longrightarrow> brokerStep rc b (b\<lparr>br_store := s\<rparr>)"

text \<open>
  A life of the broker: started on a store without records, taken on by steps, and started again on
  whatever the store held when the process died.
\<close>

inductive brokerReach :: "RunnerConfig \<Rightarrow> Broker \<Rightarrow> bool" for rc :: RunnerConfig where
  boot: "st_records s = [] \<Longrightarrow> startBroker env n (Inr (rc_assurance rc)) s = Inr b \<Longrightarrow> brokerReach rc b"
| step: "brokerReach rc b \<Longrightarrow> brokerStep rc b b' \<Longrightarrow> brokerReach rc b'"
| restart: "brokerReach rc b \<Longrightarrow> startBroker env n (Inr (rc_assurance rc)) (br_store b) = Inr b' \<Longrightarrow> brokerReach rc b'"

lemma drain_is_brokerStep: "drainStep rc b b' \<Longrightarrow> brokerStep rc b b'"
  by (induction rule: drainStep.induct) (auto intro: brokerStep.intros)

lemma drain_reach: "(drainStep rc)\<^sup>*\<^sup>* b b' \<Longrightarrow> brokerReach rc b \<Longrightarrow> brokerReach rc b'"
  by (induction rule: rtranclp_induct) (auto intro: brokerReach.step drain_is_brokerStep)

section \<open>Slots\<close>

lemma brokerStep_slots: "brokerStep rc b b' \<Longrightarrow> slotsOK rc b \<Longrightarrow> slotsOK rc b'"
proof (induction rule: brokerStep.induct)
  case (send i b b')
  then show ?case using sendStep_quiet quiet_slots by blast
next
  case (work k b out env ctx b')
  then show ?case using workerStep_slots by blast
next
  case (submit b env job)
  then show ?case using quiet_slots [OF submit_quiet] by blast
next
  case (cancel b i)
  then show ?case using quiet_slots [OF cancelRead_quiet(1,2)] by blast
next
  case (cancelling k b env)
  then show ?case using quiet_slots [OF cancelStep_quiet(1,2)] by blast
next
  case (elsewhere b s)
  then show ?case by (simp add: slotsOK_def holders_def)
qed


lemma startBroker_fields:
  assumes "startBroker env n preflight s = Inr b"
  obtains ids s' where "recoverJobs env s = (Inr ids, s')" "br_store b = s'" "br_sending b = ids" "br_queue b = []" "br_cancellers b = []"
    "br_active b = (\<lambda>_. 0)" "br_workers b \<noteq> []" "\<And>w. w \<in> set (br_workers b) \<Longrightarrow> w = WIdle"
  using assms by (auto simp: startBroker_def intro!: that split: sum.splits if_splits prod.splits)

lemma startBroker_slots: "startBroker env n preflight s = Inr b \<Longrightarrow> slotsOK rc b"
proof (erule startBroker_fields)
  assume idle: "\<And>w. w \<in> set (br_workers b) \<Longrightarrow> w = WIdle" and "br_active b = (\<lambda>_. 0)"
  moreover have "holders b c = 0" for c using idle by (fastforce simp: holders_def filter_empty_conv)
  ultimately show ?thesis by (simp add: slotsOK_def)
qed

lemma reach_slots: "brokerReach rc b \<Longrightarrow> slotsOK rc b"
  by (induction rule: brokerReach.induct) (auto intro: startBroker_slots brokerStep_slots)

lemma brokerStep_workers: "brokerStep rc b b' \<Longrightarrow> length (br_workers b') = length (br_workers b)"
proof (induction rule: brokerStep.induct)
  case (work k b out env ctx b')
  from work(3) show ?case by (cases rule: workerStep_cases) simp_all
qed (auto dest: sendStep_quiet)

lemma reach_workers: "brokerReach rc b \<Longrightarrow> br_workers b \<noteq> []"
  by (induction rule: brokerReach.induct) (auto dest: brokerStep_workers elim: startBroker_fields)

section \<open>Jobs in flight\<close>

lemma flight_same:
  "br_store b' = br_store b \<Longrightarrow> br_sending b' = br_sending b \<Longrightarrow> br_queue b' = br_queue b \<Longrightarrow> br_workers b' = br_workers b \<Longrightarrow>
    br_cancellers b' = br_cancellers b \<Longrightarrow> flightOK b \<longleftrightarrow> flightOK b'"
  by (simp add: flightOK_def busyIDs_def waiting_def openInFlight_def)

lemma brokerStep_flight:
  assumes "brokerStep rc b b'" "callbackOK rc" "flightOK b"
  shows "flightOK b'"
  using assms
proof (induction rule: brokerStep.induct)
  case (work k b out env ctx b')
  note f = work(5)
  from work(3) show ?case
  proof (cases rule: workerStep_cases)
    case (skip i rest)
    then show ?thesis using flight_skip [OF f] getWorkerJob_iff by blast
  next
    case (load i rest job)
    then show ?thesis using flight_load [OF f work(1)] getWorkerJob_iff by blast
  next
    case (acquire job)
    have "refsOK (br_store b) (WLoaded job)" using flightD(4) [OF f] acquire(1) work(1) nth_mem by metis
    with acquire work(1) f show ?thesis by (auto intro!: flight_worker)
  next
    case (abandon job e s)
    moreover obtain x where "beginRun env rc job (br_store b) = x" "\<exists>y. fst x = Inr y"
      by (rule flight_start [OF f work(1) abandon(1), of env rc]) fastforce
    ultimately show ?thesis by simp
  next
    case (start job job1 run1 s)
    show ?thesis by (rule flight_start [OF f work(1) start(1), of env rc]) (use start in simp)
  next
    case (register job run)
    have "refsOK (br_store b) (WBegun job run)" using flightD(4) [OF f] register(1) work(1) nth_mem by metis
    with register work(1) f show ?thesis by (auto intro!: flight_worker)
  next
    case (finish job run job1 run1 result callback s)
    then show ?thesis using flight_finish [OF f work(1) finish(1) work(2)] by blast
  next
    case (publish job run result callback final s)
    from flight_publish [OF f work(1) publish(1) work(4) publish(2), of "Job_CampaignID job"]
    show ?thesis unfolding publish(3) by (rule flight_same [THEN iffD1, rotated 5]) simp_all
  next
    case (release c)
    with work(1) f show ?thesis by (auto intro!: flight_worker)
  qed
qed (simp_all add: flight_submit flight_send flight_cancelRead flight_cancelStep flight_kept)

section \<open>Recovery\<close>

lemma typedJobs_row:
  assumes "typedJobs s" "(k, row) \<in> set (st_records s)" "fst k = recordWorkerJob"
  shows "jobAt s (snd k) = Some (asWorkerJob (Row_Data row))"
proof -
  have "map_of (st_records s) (recordWorkerJob, snd k) = Some row"
    using assms by (metis map_of_is_SomeI prod.collapse typedJobs_def)
  with assms(1) show ?thesis by (simp add: typedJobs_def jobAt_def)
qed

lemma listed_jobs:
  assumes "journalOK s" "statuses \<noteq> []"
  obtains jobs where "listWorkerJobsByStatus statuses s = (Inr jobs, s)" "distinct (map Job_ID jobs)"
    "\<And>job. job \<in> set jobs \<longleftrightarrow> jobAt s (Job_ID job) = Some job \<and> runStatusText (Job_Status job) \<in> set (map runStatusText statuses)"
proof -
  note j = journalD [OF assms(1)]
  let ?keep = "\<lambda>(k, row). fst k = recordWorkerJob \<and> runStatusText (Job_Status (asWorkerJob (Row_Data row))) \<in> set (map runStatusText statuses)"
  define rows where "rows = sort_key (createdText (Row_CreatedAt \<circ> snd)) (sort_key (snd \<circ> fst) (filter ?keep (st_records s)))"
  let ?job = "asWorkerJob \<circ> Row_Data \<circ> snd"
  have rows: "set rows = set (filter ?keep (st_records s))" by (simp add: rows_def)
  have d: "distinct (map fst (st_records s))" using j(5) by (simp add: typedJobs_def)
  then have dr: "distinct rows" by (simp add: rows_def distinct_map)
  have id: "Job_ID (?job r) = snd (fst r)" if "r \<in> set rows" for r
    using that j(1) typedJobs_row [OF j(5), of "fst r" "snd r"] unfolding rows by auto
  have inj: "inj_on (\<lambda>r. Job_ID (?job r)) (set rows)"
  proof (rule inj_onI)
    fix r1 r2
    assume r: "r1 \<in> set rows" "r2 \<in> set rows" "Job_ID (?job r1) = Job_ID (?job r2)"
    then have "fst r1 = fst r2" using id [OF r(1)] id [OF r(2)] unfolding rows by (auto intro: prod_eqI)
    moreover have "r1 \<in> set (st_records s)" "r2 \<in> set (st_records s)" using r(1,2) unfolding rows by auto
    ultimately show "r1 = r2" using d by (metis eq_key_imp_eq_value prod.collapse)
  qed
  show ?thesis
  proof (rule that [of "map ?job rows"])
    show "listWorkerJobsByStatus statuses s = (Inr (map ?job rows), s)"
      using assms(2) by (simp add: listWorkerJobsByStatus_def act_gets_def rows_def)
    show "distinct (map Job_ID (map ?job rows))" using dr inj by (simp add: distinct_map comp_def)
    show "job \<in> set (map ?job rows) \<longleftrightarrow>
        jobAt s (Job_ID job) = Some job \<and> runStatusText (Job_Status job) \<in> set (map runStatusText statuses)" for job
    proof
      assume "job \<in> set (map ?job rows)"
      then obtain r where r: "r \<in> set rows" "job = ?job r" by auto
      with id [OF r(1)] typedJobs_row [OF j(5), of "fst r" "snd r"]
      show "jobAt s (Job_ID job) = Some job \<and> runStatusText (Job_Status job) \<in> set (map runStatusText statuses)"
        unfolding rows by auto
    next
      assume at: "jobAt s (Job_ID job) = Some job \<and> runStatusText (Job_Status job) \<in> set (map runStatusText statuses)"
      then obtain row where "map_of (st_records s) (recordWorkerJob, Job_ID job) = Some row" "asWorkerJob (Row_Data row) = job"
        by (auto simp: jobAt_def split: option.splits if_splits)
      with at have "((recordWorkerJob, Job_ID job), row) \<in> set rows" unfolding rows by (auto dest: map_of_SomeD)
      with \<open>asWorkerJob (Row_Data row) = job\<close> show "job \<in> set (map ?job rows)" by force
    qed
  qed
qed

text \<open>One interrupted job goes back to the queue.\<close>

lemma requeue_one:
  assumes "journalOK s" "jobAt s (Job_ID job) = Some job"
  obtains s' job' where "requeue env job s = (Inr (), s')" "journalOK s'" "jobAt s' = (jobAt s)(Job_ID job \<mapsto> job')" "Job_Status job' \<noteq> RunRunning"
    "Job_Status job \<noteq> RunRunning \<Longrightarrow> job' = job"
proof (cases "Job_Status job = RunRunning")
  case False
  with assms that [of s job] show ?thesis by (simp add: requeue_def act_return_def fun_upd_idem)
next
  case True
  note j = journalD [OF assms(1)]
  from j(2) [OF assms(2)] obtain run where run: "runAt s (Job_RunID job) = Some run" and known: "campaignKnown s (Job_CampaignID job)"
    by (auto simp: refOK_def)
  let ?job = "job\<lparr>Job_Status := RunQueued, Job_UpdatedAt := env_now env\<rparr>"
  let ?run = "run\<lparr>Run_Status := RunQueued, Run_WorkerID := [], Run_StartedAt := None\<rparr>"
  show ?thesis
  proof (cases rule: saveJobAndRun_cases [of ?job ?run s])
    case (refused e)
    with known j(4) [OF run] show ?thesis by simp
  next
    case (written s')
    show ?thesis
    proof (rule that [of s' ?job])
      show "journalOK s'" by (rule saved_journal [OF assms(1) written(1)]) (simp add: j(3) [OF run])
      show "requeue env job s = (Inr (), s')"
        using True run written(1) by (simp add: requeue_def act_bind_def getRun_at)
    qed (simp_all add: written(4) True)
  qed
qed

lemma requeue_all:
  assumes "journalOK s" "\<And>job. job \<in> set jobs \<Longrightarrow> jobAt s (Job_ID job) = Some job" "distinct (map Job_ID jobs)"
  obtains s' where "act_each (requeue env) jobs s = (Inr (), s')" "journalOK s'"
    "\<And>i. jobAt s' i = None \<longleftrightarrow> jobAt s i = None" "\<And>i. i \<notin> Job_ID ` set jobs \<Longrightarrow> jobAt s' i = jobAt s i"
    "\<And>i job. i \<in> Job_ID ` set jobs \<Longrightarrow> jobAt s' i = Some job \<Longrightarrow> Job_Status job \<noteq> RunRunning"
  using assms
proof (induction jobs arbitrary: s thesis)
  case Nil
  show ?case by (rule Nil.prems(1) [of s]) (use Nil.prems(2) in \<open>simp_all add: act_return_def\<close>)
next
  case (Cons job jobs)
  obtain s1 job1 where one: "requeue env job s = (Inr (), s1)" "journalOK s1" "jobAt s1 = (jobAt s)(Job_ID job \<mapsto> job1)"
    "Job_Status job1 \<noteq> RunRunning"
    using requeue_one [OF Cons.prems(2), of job env] Cons.prems(3) by (metis list.set_intros(1))
  have rest: "jobAt s1 (Job_ID j) = Some j" if "j \<in> set jobs" for j
  proof -
    have "Job_ID j \<noteq> Job_ID job" using that Cons.prems(4) by (auto simp: image_iff)
    with Cons.prems(3) [of j] that show ?thesis by (simp add: one(3))
  qed
  have d: "distinct (map Job_ID jobs)" using Cons.prems(4) by simp
  obtain s' where s': "act_each (requeue env) jobs s1 = (Inr (), s')" "journalOK s'"
    "\<And>i. jobAt s' i = None \<longleftrightarrow> jobAt s1 i = None" "\<And>i. i \<notin> Job_ID ` set jobs \<Longrightarrow> jobAt s' i = jobAt s1 i"
    "\<And>i j. i \<in> Job_ID ` set jobs \<Longrightarrow> jobAt s' i = Some j \<Longrightarrow> Job_Status j \<noteq> RunRunning"
    using Cons.IH [OF _ one(2) rest] d by blast
  show ?case
  proof (rule Cons.prems(1))
    show "act_each (requeue env) (job # jobs) s = (Inr (), s')" using one(1) s'(1) by (simp add: act_bind_def)
    show "journalOK s'" by (rule s'(2))
    have "jobAt s (Job_ID job) \<noteq> None" using Cons.prems(3) by simp
    then show "jobAt s' i = None \<longleftrightarrow> jobAt s i = None" for i by (simp add: s'(3) one(3))
    show "jobAt s' i = jobAt s i" if "i \<notin> Job_ID ` set (job # jobs)" for i using that s'(4) [of i] by (simp add: one(3))
    show "Job_Status j \<noteq> RunRunning" if "i \<in> Job_ID ` set (job # jobs)" "jobAt s' i = Some j" for i j
    proof (cases "i \<in> Job_ID ` set jobs")
      case True
      with that(2) s'(5) show ?thesis by blast
    next
      case False
      with that have "i = Job_ID job" by auto
      with s'(4) [OF False] that(2) one(3,4) show ?thesis by simp
    qed
  qed
qed

text \<open>A start on a sound journal succeeds, and every open job is on its way to the queue.\<close>

lemma recoverJobs_OK:
  assumes "journalOK s"
  obtains ids s' where "recoverJobs env s = (Inr ids, s')" "journalOK s'" "distinct ids" "\<And>i. jobAt s' i = None \<longleftrightarrow> jobAt s i = None"
    "\<And>i. i \<in> set ids \<Longrightarrow> jobAt s i \<noteq> None" "\<And>i job. jobAt s i = Some job \<Longrightarrow> openJob job \<Longrightarrow> i \<in> set ids"
    "\<And>i. i \<notin> set ids \<Longrightarrow> jobAt s' i = jobAt s i"
    "\<And>i job. i \<in> set ids \<Longrightarrow> jobAt s' i = Some job \<Longrightarrow> Job_Status job \<noteq> RunRunning"
proof -
  obtain jobs where jobs: "listWorkerJobsByStatus [RunQueued, RunRunning] s = (Inr jobs, s)" "distinct (map Job_ID jobs)"
    "\<And>job. job \<in> set jobs \<longleftrightarrow> jobAt s (Job_ID job) = Some job \<and> runStatusText (Job_Status job) \<in> set (map runStatusText [RunQueued, RunRunning])"
    using listed_jobs [OF assms, of "[RunQueued, RunRunning]"] by blast
  obtain s' where s': "act_each (requeue env) jobs s = (Inr (), s')" "journalOK s'"
    "\<And>i. jobAt s' i = None \<longleftrightarrow> jobAt s i = None" "\<And>i. i \<notin> Job_ID ` set jobs \<Longrightarrow> jobAt s' i = jobAt s i"
    "\<And>i job. i \<in> Job_ID ` set jobs \<Longrightarrow> jobAt s' i = Some job \<Longrightarrow> Job_Status job \<noteq> RunRunning"
    using requeue_all [OF assms _ jobs(2), of env] jobs(3) by blast
  show ?thesis
  proof (rule that [of "map Job_ID jobs" s'])
    show "recoverJobs env s = (Inr (map Job_ID jobs), s')"
      using jobs(1) s'(1) by (simp add: recoverJobs_def act_bind_def act_return_def)
    show "i \<in> set (map Job_ID jobs)" if "jobAt s i = Some job" "openJob job" for i job
    proof -
      have "Job_ID job = i" by (rule journalD(1) [OF assms that(1)])
      with that jobs(3) [of job] have "job \<in> set jobs" by (auto simp: openJob_def)
      with \<open>Job_ID job = i\<close> show ?thesis by auto
    qed
    show "jobAt s i \<noteq> None" if "i \<in> set (map Job_ID jobs)" for i using that jobs(3) by auto
  qed (use jobs(2) s' in simp_all)
qed

lemma startBroker_OK:
  assumes "journalOK s" "As_Isolation assurance \<noteq> []"
  shows "\<exists>b. startBroker env n (Inr assurance) s = Inr b"
  using assms(2) by (auto simp: startBroker_def intro: recoverJobs_OK [OF assms(1), of env])

lemma startBroker_flight:
  assumes "startBroker env n preflight s = Inr b" "journalOK s"
  shows "flightOK b"
proof (rule startBroker_fields [OF assms(1)])
  fix ids s'
  assume b: "recoverJobs env s = (Inr ids, s')" "br_store b = s'" "br_sending b = ids" "br_queue b = []" "br_cancellers b = []"
    and idle: "\<And>w. w \<in> set (br_workers b) \<Longrightarrow> w = WIdle"
  obtain ids' s'' where r: "recoverJobs env s = (Inr ids', s'')" "journalOK s''" "distinct ids'" "\<And>i. jobAt s'' i = None \<longleftrightarrow> jobAt s i = None"
    "\<And>i. i \<in> set ids' \<Longrightarrow> jobAt s i \<noteq> None" "\<And>i job. jobAt s i = Some job \<Longrightarrow> openJob job \<Longrightarrow> i \<in> set ids'"
    "\<And>i. i \<notin> set ids' \<Longrightarrow> jobAt s'' i = jobAt s i"
    "\<And>i job. i \<in> set ids' \<Longrightarrow> jobAt s'' i = Some job \<Longrightarrow> Job_Status job \<noteq> RunRunning"
    using recoverJobs_OK [OF assms(2), of env] by blast
  from b(1) r(1) have same: "ids' = ids" "s'' = s'" by simp_all
  note r = r [unfolded same]
  have none: "concat (map idsOf (br_workers b)) = []" using idle by fastforce
  have wait: "waiting b = ids" "busyIDs b = ids" "openInFlight b = set ids"
    using idle by (auto simp: waiting_def busyIDs_def openInFlight_def b none dest: idle)
  have "i \<in> set ids" if "jobAt s' i = Some job" "openJob job" for i job
    using that r(6,7) by metis
  moreover have "refsOK s' w" if "w \<in> set (br_workers b)" for w using idle [OF that] by simp
  ultimately show ?thesis unfolding flightOK_def wait b(2,5) using r(2,3,4,5,8) by simp
qed

lemma journalOK_none: "st_records s = [] \<Longrightarrow> journalOK s"
  by (simp add: journalOK_def typedJobs_def jobAt_def runAt_def)

lemma reach_flight: "brokerReach rc b \<Longrightarrow> callbackOK rc \<Longrightarrow> flightOK b"
  by (induction rule: brokerReach.induct) (auto intro: startBroker_flight journalOK_none brokerStep_flight flightD(1))

section \<open>Properties\<close>

lemma newBroker_simps [simp]: "callbackOK (newBroker rc) = callbackOK rc" "rc_assurance (newBroker rc) = rc_assurance rc"
  "1 \<le> rc_campaignConcurrency (newBroker rc)" "max 0 (rc_campaignConcurrency (newBroker rc)) = max 1 (rc_campaignConcurrency rc)"
  by (simp_all add: callbackOK_def newBroker_def)

text \<open>A broker that runs one job with two workers.\<close>

definition sampleRunner :: RunnerConfig where
  "sampleRunner = \<lparr>rc_store = plainConfig, rc_outputLimit = 0,
     rc_assurance = \<lparr>As_Backend = ''docker'', As_Isolation = ''container'', As_Runtime = ''runc'', As_Rootless = True, As_Seccomp = ''default'',
       As_CgroupVersion = 2\<rparr>, rc_campaignConcurrency = 0, rc_onResult = None\<rparr>"

definition sampleJob :: WorkerJob where
  "sampleJob = \<lparr>Job_SchemaVersion = 1, Job_ID = ''j1'', Job_RunID = ''r1'', Job_CampaignID = ''c1'', Job_ScopeID = ''s1'', Job_TargetID = ''t1'',
     Job_BuildID = [], Job_InputArtifactID = [], Job_PatchArtifactID = [], Job_Operation = OperationFuzz, Job_Arguments = fmempty,
     Job_Environment = fmempty, Job_ImageDigest = ''sha256:'' @ replicate 64 (CHR ''a''), Job_Runtime = [], Job_Mounts = [],
     Job_ArtifactRules = [], Job_Budget = sampleBudget, Job_AuditCorrelationID = ''k1'', Job_Status = RunQueued, Job_CreatedAt = 0, Job_UpdatedAt = 0\<rparr>"

definition tryWork :: "nat \<Rightarrow> Broker \<Rightarrow> Broker" where
  "tryWork k b = (case workerStep sampleEnv (newBroker sampleRunner) cleanOutcome None k b of None \<Rightarrow> b | Some b' \<Rightarrow> b')"

definition trySend :: "string \<Rightarrow> Broker \<Rightarrow> Broker" where
  "trySend i b = (case sendStep i b of None \<Rightarrow> b | Some b' \<Rightarrow> b')"

definition startedBroker :: Broker where
  "startedBroker = projr (startBroker sampleEnv 2 (Inr (rc_assurance sampleRunner)) sampleStore)"

definition queuedBroker :: Broker where
  "queuedBroker = trySend ''j1'' (submitStep sampleEnv sampleJob startedBroker)"

definition runningBroker :: Broker where
  "runningBroker = tryWork 0 (tryWork 0 (tryWork 0 queuedBroker))"

text \<open>A cancellation that found the job queued and no run registered, and marks it after the run has completed.\<close>

definition completedBroker :: Broker where
  "completedBroker = tryWork 0 (tryWork 0 (tryWork 0 (tryWork 0 (tryWork 0 (tryWork 0 (cancelStep sampleEnv 0 (cancelRead ''j1'' queuedBroker)))))))"

abbreviation statusOf :: "Broker \<Rightarrow> string \<Rightarrow> RunStatus option" where
  "statusOf b i \<equiv> map_option Job_Status (jobAt (br_store b) i)"

lemma tryWork_reach:
  assumes "brokerReach (newBroker sampleRunner) b"
  shows "brokerReach (newBroker sampleRunner) (tryWork 0 b)"
proof -
  have "0 < length (br_workers b)" using reach_workers [OF assms] by blast
  with assms show ?thesis unfolding tryWork_def
    by (cases "workerStep sampleEnv (newBroker sampleRunner) cleanOutcome None 0 b")
      (auto intro: brokerReach.step brokerStep.work cleanOutcome_OK)
qed

lemma trySend_reach: "brokerReach rc b \<Longrightarrow> brokerReach rc (trySend i b)"
  unfolding trySend_def by (cases "sendStep i b") (auto intro: brokerReach.step brokerStep.send)

lemma sampleStore_bare: "st_records sampleStore = []"
  by code_simp

lemma started_reach: "brokerReach (newBroker sampleRunner) startedBroker"
proof (rule brokerReach.boot [OF sampleStore_bare])
  have "\<exists>b. startBroker sampleEnv 2 (Inr (rc_assurance sampleRunner)) sampleStore = Inr b"
    by (rule startBroker_OK [OF journalOK_none [OF sampleStore_bare]]) (simp add: sampleRunner_def)
  then show "startBroker sampleEnv 2 (Inr (rc_assurance (newBroker sampleRunner))) sampleStore = Inr startedBroker"
    by (auto simp: startedBroker_def)
qed

lemma queued_reach: "brokerReach (newBroker sampleRunner) queuedBroker"
  unfolding queuedBroker_def by (intro trySend_reach brokerReach.step [OF started_reach brokerStep.submit])

lemma running_reach: "brokerReach (newBroker sampleRunner) runningBroker"
  unfolding runningBroker_def by (intro tryWork_reach queued_reach)

lemma canceller_waits: "length (br_cancellers (cancelRead ''j1'' queuedBroker)) = 1"
  by code_simp

lemma completed_reach: "brokerReach (newBroker sampleRunner) completedBroker"
proof -
  have "brokerReach (newBroker sampleRunner) (cancelRead ''j1'' queuedBroker)"
    by (rule brokerReach.step [OF queued_reach brokerStep.cancel])
  then have "brokerReach (newBroker sampleRunner) (cancelStep sampleEnv 0 (cancelRead ''j1'' queuedBroker))"
    by (rule brokerReach.step) (rule brokerStep.cancelling, simp add: canceller_waits)
  then show ?thesis unfolding completedBroker_def by (intro tryWork_reach)
qed

lemma sample_callback: "callbackOK sampleRunner"
  by (simp add: callbackOK_def sampleRunner_def)

text \<open>
  C21. At no moment does a campaign have more runs under way than its limit. In every state a broker
  can reach, over any interleaving and any number of crashes, the counter of active runs of a
  campaign equals the number of workers that hold a slot of it and is at most the configured limit,
  or one where the limit is not positive.
\<close>

theorem campaign_runs_are_bounded:
  assumes "brokerReach (newBroker rc) b"
  shows "br_active b c = int (holders b c) \<and> int (holders b c) \<le> max 1 (rc_campaignConcurrency rc)"
  using reach_slots [OF assms] by (simp add: slotsOK_def)

theorem campaign_runs_are_bounded_witness:
  "map slotOf (br_workers runningBroker) = [Some ''c1'', None] \<and>
   br_active runningBroker ''c1'' = int (holders runningBroker ''c1'') \<and> int (holders runningBroker ''c1'') \<le> 1"
proof -
  have "map slotOf (br_workers runningBroker) = [Some ''c1'', None]" by code_simp
  with campaign_runs_are_bounded [OF running_reach, of "''c1''"] show ?thesis by (simp add: sampleRunner_def)
qed



lemma workLeft_bound: "workLeft b \<le> 8 * length (br_sending b) + 7 * length (br_queue b) + 6 * length (br_workers b)"
proof -
  have "stepsLeft w \<le> 6" for w by (cases w) simp_all
  then have "sum_list (map stepsLeft ws) \<le> 6 * length ws" for ws by (induction ws) (simp_all add: add_mono)
  then show ?thesis by (simp add: workLeft_def)
qed

lemma drain_count: "(drainStep rc ^^ n) b b' \<Longrightarrow> n + workLeft b' \<le> workLeft b"
proof (induction n arbitrary: b')
  case (Suc n)
  then obtain c where "(drainStep rc ^^ n) b c" "drainStep rc c b'" by auto
  with Suc.IH [of c] drainStep_decreases [of rc c b'] show ?case by simp
qed simp

text \<open>
  C23. Draining ends. Without new submissions the broker makes at most eight steps for each job still
  to be sent, seven for each job in the queue and six for each worker, whatever the back end and the
  callback do and however the workers interleave; in particular no infinite run exists.
\<close>

theorem draining_terminates:
  assumes "(drainStep rc ^^ n) b b'"
  shows "n \<le> 8 * length (br_sending b) + 7 * length (br_queue b) + 6 * length (br_workers b) \<and> wfP (\<lambda>c' c. drainStep rc c c')"
proof
  show "n \<le> 8 * length (br_sending b) + 7 * length (br_queue b) + 6 * length (br_workers b)"
    using drain_count [OF assms] workLeft_bound [of b] by simp
  show "wfP (\<lambda>c' c. drainStep rc c c')"
    by (rule wfp_if_convertible_to_nat [of _ workLeft]) (rule drainStep_decreases)
qed

lemma queued_can_move: "\<exists>b'. drainStep (newBroker sampleRunner) queuedBroker b'"
proof -
  have "length (br_queue queuedBroker) = 1" by code_simp
  then have "\<not> drained queuedBroker" by (auto simp: drained_def)
  with queued_reach show ?thesis by (intro drain_progress reach_slots reach_workers) simp_all
qed

theorem draining_terminates_witness:
  "\<exists>b'. (drainStep (newBroker sampleRunner) ^^ 1) queuedBroker b' \<and>
     1 \<le> 8 * length (br_sending queuedBroker) + 7 * length (br_queue queuedBroker) + 6 * length (br_workers queuedBroker) \<and>
     wfP (\<lambda>c' c. drainStep (newBroker sampleRunner) c c')"
proof -
  obtain b' where "(drainStep (newBroker sampleRunner) ^^ 1) queuedBroker b'" using queued_can_move by auto
  with draining_terminates [OF this] show ?thesis by blast
qed

lemma drains:
  assumes "brokerReach (newBroker rc) b"
  shows "\<exists>b'. (drainStep (newBroker rc))\<^sup>*\<^sup>* b b' \<and> drained b'"
  using assms
proof (induction "workLeft b" arbitrary: b rule: less_induct)
  case less
  show ?case
  proof (cases "drained b")
    case False
    with less.prems obtain c where c: "drainStep (newBroker rc) b c"
      using drain_progress [OF reach_slots [OF less.prems]] reach_workers by auto
    have "brokerReach (newBroker rc) c" by (rule brokerReach.step [OF less.prems drain_is_brokerStep [OF c]])
    from less.hyps [OF drainStep_decreases [OF c] this] c show ?thesis by (meson converse_rtranclp_into_rtranclp)
  qed blast
qed



text \<open>
  C25. A late cancellation rewrites history. A cancellation that has decided that no run is registered
  marks the job and its run as cancelled whatever has happened since; a run that completed in between,
  with its evidence kept, is recorded as cancelled before execution.
\<close>

theorem late_cancel_overwrites:
  assumes "brokerReach (newBroker rc) b" "callbackOK rc" "k < length (br_cancellers b)" "br_cancellers b ! k = CMarking job"
  shows "\<exists>run run1. runAt (br_store b) (Job_RunID job) = Some run \<and> statusOf (cancelStep env k b) (Job_ID job) = Some RunCancelled \<and>
    runAt (br_store (cancelStep env k b)) (Job_RunID job) = Some run1 \<and> Run_Status run1 = RunCancelled \<and>
    Exit_Reason (Run_Exit run1) = ''cancelled before execution'' \<and> Run_ArtifactIDs run1 = Run_ArtifactIDs run"
proof -
  have f: "flightOK b" using reach_flight [OF assms(1)] assms(2) by simp
  have "cancelOK (br_store b) (CMarking job)" using flightD(5) [OF f nth_mem [OF assms(3)]] assms(4) by simp
  then obtain run where run: "runAt (br_store b) (Job_RunID job) = Some run" and known: "campaignKnown (br_store b) (Job_CampaignID job)"
    by (auto simp: refOK_def)
  note j = journalD(3,4) [OF flightD(1) [OF f] run]
  let ?job = "job\<lparr>Job_Status := RunCancelled, Job_UpdatedAt := env_now env\<rparr>"
  let ?run = "run\<lparr>Run_Status := RunCancelled, Run_CompletedAt := Some (env_now env),
    Run_Exit := (Run_Exit run)\<lparr>Exit_Reason := ''cancelled before execution''\<rparr>\<rparr>"
  show ?thesis
  proof (cases rule: saveJobAndRun_cases [of ?job ?run "br_store b"])
    case (refused e)
    with known j show ?thesis by simp
  next
    case (written s)
    have "br_store (cancelStep env k b) = s"
      using assms(4) run written(1) by (simp add: cancelStep_def getRun_at Let_def dropCanceller_def)
    then show ?thesis using run j by (simp add: written(4,5))
  qed
qed

theorem late_cancel_overwrites_witness:
  "map_option Run_Status (runAt (br_store completedBroker) ''r1'') = Some RunCompleted \<and>
   statusOf (cancelStep sampleEnv 0 completedBroker) ''j1'' = Some RunCancelled"
proof -
  have over: "map_option Run_Status (runAt (br_store completedBroker) ''r1'') = Some RunCompleted" by code_simp
  have "map (\<lambda>c. case c of CMarking job \<Rightarrow> Job_ID job | CRead job \<Rightarrow> []) (br_cancellers completedBroker) = [''j1'']" by code_simp
  then obtain job where c: "br_cancellers completedBroker = [CMarking job]" and i: "Job_ID job = ''j1''"
    by (auto split: canceller.splits)
  with late_cancel_overwrites [OF completed_reach sample_callback, of 0 job sampleEnv] over show ?thesis by auto
qed

end
