(* ===== verification/Ingestion_Laws.thy ===== *)
theory Ingestion_Laws
  imports Ingestion Approvals Runner_Theorems
begin

text \<open>
  What the coordinator does to the store: every ingestion is a sequence of worker calls of the control
  plane, and it leaves the journal of jobs and runs to the broker. With it the laws of the broker hold
  for the callback that the server really installs.
\<close>

section \<open>The writes of the coordinator\<close>

definition through :: "(Store \<Rightarrow> Store \<Rightarrow> bool) \<Rightarrow> Work \<Rightarrow> Work \<Rightarrow> bool" where
  "through R w w' \<longleftrightarrow> R (wk_store w) (wk_store w')"

lemma evolves_onStore: "evolves R n \<Longrightarrow> evolves (through R) (onStore n)"
  by (simp add: evolves_def through_def onStore_def case_prod_beta)

locale ingestion_writes = store_relation R for R :: "Store \<Rightarrow> Store \<Rightarrow> bool" +
  fixes env :: Env and m :: StateMachine
  assumes w_build: "evolves R (saveBuild env b)"
    and w_crash: "evolves R (saveCrash env c)"
    and w_group: "evolves R (saveCrashGroup env g)"
    and w_primitive: "evolves R (savePrimitive env p)"
    and w_finding: "evolves R (saveFinding env f)"
    and w_check: "evolves R (saveRevisionCheck env k)"
    and w_event: "evolves R (appendAudit env (pipelineEvent action kind i cor decision details))"
    and w_advance: "evolves R (advanceCampaign env m campaign from to facts cor)"

sublocale ingestion_writes \<subseteq> work: store_relation "through R"
  by unfold_locales (auto simp: through_def intro: rel_refl rel_trans)

context ingestion_writes
begin

lemma reads [intro!]:
  "evolves R (getCampaign i)" "evolves R (getArtifact i)" "evolves R (getBuild i)" "evolves R (getCrash i)" "evolves R (getRun i)"
  "evolves R (getCrashGroup i)" "evolves R (getFinding i)" "evolves R (listCrashGroups c n)" "evolves R (listFindings c n)" "evolves R (listCrashes c n)"
  by (simp_all add: getCampaign_def getArtifact_def getBuild_def getCrash_def getRun_def getCrashGroup_def getFinding_def getRecord_def
      listCrashGroups_def listFindings_def listCrashes_def listRecords_def)

lemma opens [intro!]: "evolves R (openArtifact env' cfg i)"
  unfolding openArtifact_def Let_def by (intro evolves_bind evolves_if evolves_fail evolves_gets reads)

lemma parses [intro!]: "evolves R (parseArtifact env' pc i opts)"
  unfolding parseArtifact_def by (intro evolves_bind evolves_prod evolves_lift opens)

lemmas writes = w_build w_crash w_group w_primitive w_finding w_check w_event w_advance

lemmas rules = evolves_bind evolves_if evolves_prod evolves_option evolves_fail evolves_return evolves_lift reads opens parses writes

lemma revisionCheck: "evolves R (ingestRevisionCheck env pc job result)"
proof -
  have artifacts: "evolves R (comparisonArtifacts job result st lg is)" for st lg "is"
    by (induction "is" arbitrary: st lg) (auto simp: rules)
  show ?thesis
    unfolding ingestRevisionCheck_def revisionCheckOf_def decodeComparison_def compareSignal_def comparisonFinding_def Let_def
    by (intro rules artifacts)
qed

lemma observation:
  assumes "m = pc_machine pc"
  shows "evolves R (ingestObservation env pc job result)"
proof -
  have artifacts: "evolves R (observedArtifacts job result lg inp is)" for lg inp "is"
    by (induction "is" arbitrary: lg inp) (auto simp: Let_def rules)
  have attempts: "evolves R (reproductionAttempts job obs is)" for obs "is"
    by (induction "is" arbitrary: obs) (auto simp: rules)
  have original: "evolves R (originalObservation i sig is)" for i sig "is"
    by (induction "is") (auto simp: rules)
  show ?thesis
    unfolding ingestObservation_def observedInput_def groupObservation_def advanceObserved_def advanceReproduction_def advanceMinimization_def
      Let_def assms [symmetric]
    by (intro rules artifacts attempts original)
qed

lemma symbolization:
  assumes "m = pc_machine pc"
  shows "evolves R (ingestSymbolization env pc job result)"
proof -
  have stack: "evolves R (symbolizedStack job result found is)" for found "is"
    by (induction "is" arbitrary: found) (auto simp: rules)
  have finding: "evolves R (savePrimitiveFinding env pc cg ob primitive i cor)" for cg ob primitive i cor
  proof -
    have guarded: "evolves R n \<Longrightarrow> evolves R (\<lambda>s'. if b then (Inl e, s') else n s')" for b e and n :: "(Store, unit) act"
      by (simp add: evolves_def rel_refl)
    have quiet: "evolves R (\<lambda>s'. (Inr (), s'))" by (simp add: evolves_def rel_refl)
    show ?thesis
      unfolding savePrimitiveFinding_def by (intro evolves_switch [OF store_relation_axioms] guarded quiet rules)
  qed
  show ?thesis
    unfolding ingestSymbolization_def rootCause_def Let_def assms [symmetric]
    by (intro rules stack finding)
qed

lemma build:
  assumes "m = pc_machine pc"
  shows "evolves (through R) (ingestBuild env pc job result)"
proof -
  note on = evolves_onStore
  have provenance: "evolves (through R) (readBuildProvenance env pc a b)" for a b
    unfolding readBuildProvenance_def by (intro work.evolves_bind work.evolves_prod work.evolves_option work.evolves_fail work.evolves_return on opens)
  have artifacts: "evolves (through R) (buildArtifacts env pc job result bin b is)" for bin b "is"
    by (induction "is" arbitrary: bin b) (auto simp: Let_def intro!: work.evolves_bind work.evolves_if work.evolves_fail work.evolves_return on reads provenance)
  have patch: "evolves R (checkPatch job result b)" for b
    unfolding checkPatch_def Let_def by (intro rules)
  have stored: "evolves (through R) (putFile p c)" for p c by (simp add: putFile_def evolves_def through_def rel_refl)
  have verify: "evolves (through R) (verifyMaterialized env p a)" for p a unfolding verifyMaterialized_def by (rule work.evolves_gets)
  have view: "evolves (through R) (materializeBuild env pc c i a)" for c i a
    unfolding materializeBuild_def Let_def
    by (intro work.evolves_bind work.evolves_if work.evolves_prod work.evolves_lift work.evolves_gets on opens stored verify)
  show ?thesis
    unfolding ingestBuild_def pipelineAudit_def assms [symmetric]
    by (intro work.evolves_bind work.evolves_if work.evolves_prod work.evolves_fail work.evolves_return on reads writes artifacts patch view)
qed

lemma coordinatorIngest:
  assumes "m = pc_machine pc"
  shows "evolves (through R) (coordinatorIngest env pc job result)"
  unfolding coordinatorIngest_def
  by (intro work.evolves_if work.evolves_fail work.evolves_return evolves_onStore build [OF assms] revisionCheck observation [OF assms] symbolization [OF assms])

end

section \<open>Ingestion as worker calls\<close>

interpretation plane: store_relation "planeRun dg m" for dg m
  by unfold_locales auto

lemma worked_evolves: "env_digest env = dg \<Longrightarrow> evolves (planeRun dg m) (workerWrite env cfg m w)"
  unfolding evolves_def by (auto intro: planeStep.worked)

interpretation plane_ingestion: ingestion_writes "planeRun (env_digest env) m" env m for env m
proof unfold_locales
  note call = worked_evolves [of env "env_digest env" m undefined, OF refl]
  show "evolves (planeRun (env_digest env) m) (saveBuild env b)" for b using call [of "KeepBuild b"] by simp
  show "evolves (planeRun (env_digest env) m) (saveCrash env c)" for c using call [of "KeepCrash c"] by simp
  show "evolves (planeRun (env_digest env) m) (saveCrashGroup env g)" for g using call [of "KeepCrashGroup g"] by simp
  show "evolves (planeRun (env_digest env) m) (savePrimitive env p)" for p using call [of "KeepPrimitive p"] by simp
  show "evolves (planeRun (env_digest env) m) (saveFinding env f)" for f using call [of "KeepFinding f"] by simp
  show "evolves (planeRun (env_digest env) m) (saveRevisionCheck env k)" for k using call [of "KeepRevisionCheck k"] by simp
  show "evolves (planeRun (env_digest env) m) (appendAudit env (pipelineEvent action kind i cor decision details))" for action kind i cor decision details
    using call [of "KeepEvent action kind i cor decision details"] by (simp add: evolves_def act_ignore_def)
  show "evolves (planeRun (env_digest env) m) (advanceCampaign env m campaign st st' facts cor)" for campaign st st' facts cor
    using call [of "AdvanceCampaign campaign st st' facts cor"] by simp
qed

section \<open>Ingestion and the journal\<close>

lemma journal_put:
  assumes "kind \<noteq> recordRun" "kind \<noteq> recordWorkerJob"
  shows "evolves journalKept (putRecord env kind i c t u v)"
proof (rule evolves_direct)
  fix s
  show "journalKept s (snd (putRecord env kind i c t u v s))"
  proof (cases rule: putRecord_cases [of env kind i c t u v s])
    case (written row)
    with assms show ?thesis
      by (auto simp: journalKept_def jobAt_def runAt_def campaignKnown_def typedJobs_def distinct_update update_conv' fun_eq_iff)
  qed (simp add: journal.rel_refl)
qed

lemma journal_putImmutable:
  assumes "kind \<noteq> recordRun" "kind \<noteq> recordWorkerJob"
  shows "evolves journalKept (putImmutableRecord env kind i c t v)"
proof (rule evolves_direct)
  fix s
  show "journalKept s (snd (putImmutableRecord env kind i c t v s))"
  proof (cases rule: putImmutableRecord_cases [of env kind i c t v s])
    case (written row)
    have "(kind, i) \<notin> fst ` set (st_records s)" using written(5) by (simp add: map_of_eq_None_iff)
    with written(1) assms show ?thesis
      by (auto simp: journalKept_def jobAt_def runAt_def campaignKnown_def typedJobs_def map_add_def fun_eq_iff split: option.splits)
  qed (simp add: journal.rel_refl)
qed

lemma journal_event: "evolves journalKept (appendAudit env e)"
proof -
  have "evolves sameTable (\<lambda>s. case auditInsert dg now e' (st_audit s) of (r, rows) \<Rightarrow> (r, s\<lparr>st_audit := rows\<rparr>))" for dg now e'
    by (rule evolves_direct) (simp add: sameTable_def case_prod_beta)
  then have "evolves sameTable (appendAudit env e)"
    unfolding appendAudit_def by (intro table.evolves_bind table.evolves_if table_newID table.evolves_return)
  then show ?thesis by (rule table_journal)
qed

lemma journal_update: "evolves journalKept (updateCampaign env c v)"
proof (rule evolves_direct)
  fix s
  show "journalKept s (snd (updateCampaign env c v s))"
    by (auto simp: updateCampaign_def Let_def journalKept_def jobAt_def runAt_def campaignKnown_def typedJobs_def update_conv' split: option.splits)
qed

lemma journal_advance: "evolves journalKept (advanceCampaign env m c st st' facts cor)"
proof -
  have read: "evolves journalKept (getCampaign i)" for i by (simp add: getCampaign_def journal.evolves_gets)
  show ?thesis
    unfolding advanceCampaign_def conflict_at
    by (intro journal.evolves_bind journal.evolves_if journal.evolves_return journal.evolves_fail journal.evolves_lift read
        evolves_switch [OF journal.store_relation_axioms] journal_update conflict_case [OF journal.store_relation_axioms] journal_event)
qed

interpretation journal_ingestion: ingestion_writes journalKept env m for env m
  by unfold_locales (auto simp: saveBuild_def saveCrash_def saveCrashGroup_def savePrimitive_def saveFinding_def saveRevisionCheck_def
      intro!: journal_put journal_putImmutable journal_event journal_advance)

text \<open>The callback that the server installs, on a given tree of worker inputs.\<close>

definition ingestCallback :: "Env \<Rightarrow> PipelineConfig \<Rightarrow> (string \<times> StagedEntry) list \<Rightarrow> WorkerJob \<Rightarrow> RunResult \<Rightarrow> (Store, unit) act" where
  "ingestCallback env pc files job result s =
     (case coordinatorIngest env pc job result \<lparr>wk_store = s, wk_files = files\<rparr> of (r, w) \<Rightarrow> (r, wk_store w))"

lemma ingestCallback_OK: "callbackOK (rc\<lparr>rc_onResult := Some (ingestCallback env pc files)\<rparr>)"
proof -
  have "journalKept s (wk_store (snd (coordinatorIngest env pc job result \<lparr>wk_store = s, wk_files = files\<rparr>)))" for job result s
    using spec [OF journal_ingestion.coordinatorIngest [of "pc_machine pc" pc env job result, OF refl, unfolded evolves_def], of "\<lparr>wk_store = s, wk_files = files\<rparr>"]
    by (simp add: through_def)
  then show ?thesis by (simp add: callbackOK_def evolves_def ingestCallback_def case_prod_beta)
qed

text \<open>
  C29. The coordinator is one more worker. Whatever a run produced, ingesting its result takes the
  store through worker calls of the control plane only, so that the invariants of the control plane
  hold with it; it never touches a job or a run of the journal, so that the broker with the coordinator
  as its callback keeps every job and drains.
\<close>

theorem ingestion_is_worker_calls:
  "planeRun (env_digest env) (pc_machine pc) (wk_store w) (wk_store (snd (coordinatorIngest env pc job result w))) \<and>
   jobAt (wk_store (snd (coordinatorIngest env pc job result w))) = jobAt (wk_store w) \<and>
   runAt (wk_store (snd (coordinatorIngest env pc job result w))) = runAt (wk_store w) \<and>
   callbackOK (rc\<lparr>rc_onResult := Some (ingestCallback env pc files)\<rparr>)"
proof (intro conjI ingestCallback_OK)
  show "planeRun (env_digest env) (pc_machine pc) (wk_store w) (wk_store (snd (coordinatorIngest env pc job result w)))"
    using plane_ingestion.coordinatorIngest [of "pc_machine pc" pc env job result] by (simp add: evolves_def through_def)
  have "journalKept (wk_store w) (wk_store (snd (coordinatorIngest env pc job result w)))"
    using journal_ingestion.coordinatorIngest [of "pc_machine pc" pc env job result] by (simp add: evolves_def through_def)
  then show "jobAt (wk_store (snd (coordinatorIngest env pc job result w))) = jobAt (wk_store w)"
    "runAt (wk_store (snd (coordinatorIngest env pc job result w))) = runAt (wk_store w)"
    by (simp_all add: journalKept_def)
qed

section \<open>Ingesting a comparison again\<close>

text \<open>Reading alike: an operation that reads the same in two stores and changes neither.\<close>

definition alike :: "Store \<Rightarrow> Store \<Rightarrow> (Store, 'a) act \<Rightarrow> bool" where
  "alike s s' n \<longleftrightarrow> (\<exists>r. n s = (r, s) \<and> n s' = (r, s'))"

lemma alike_return [intro!]: "alike s s' (act_return x)" and alike_fail [intro!]: "alike s s' (act_fail e)"
  and alike_lift [intro!]: "alike s s' (act_lift r)"
  by (simp_all add: alike_def act_return_def act_fail_def act_lift_def)

lemma alike_gets: "g s' = g s \<Longrightarrow> alike s s' (act_gets g)"
  by (simp add: alike_def act_gets_def)

lemma alike_if [intro!]: "alike s s' n \<Longrightarrow> alike s s' n' \<Longrightarrow> alike s s' (if b then n else n')"
  by simp

lemma alike_prod [intro!]: "(\<And>x y. alike s s' (f x y)) \<Longrightarrow> alike s s' (case p of (x, y) \<Rightarrow> f x y)"
  by (cases p) simp

lemma alike_option [intro!]: "alike s s' n \<Longrightarrow> (\<And>x. alike s s' (f x)) \<Longrightarrow> alike s s' (case v of None \<Rightarrow> n | Some x \<Rightarrow> f x)"
  by (cases v) simp_all

lemma alike_bind [intro!]:
  assumes "alike s s' n" "\<And>x. alike s s' (f x)"
  shows "alike s s' (act_bind n f)"
proof -
  from assms(1) obtain r where r: "n s = (r, s)" "n s' = (r, s')" by (auto simp: alike_def)
  show ?thesis
  proof (cases r)
    case (Inl e)
    with r show ?thesis by (simp add: alike_def act_bind_def)
  next
    case (Inr x)
    with r assms(2) [of x] show ?thesis by (auto simp: alike_def act_bind_def)
  qed
qed

text \<open>After an ingested comparison the store differs by the revision check, the audit log and the drawn identifiers.\<close>

definition checked :: "Store \<Rightarrow> Store \<Rightarrow> bool" where
  "checked s s' \<longleftrightarrow> (\<exists>rs. st_records s' = st_records s @ rs \<and> (\<forall>(k, row) \<in> set rs. fst k = recordRevisionCheck)) \<and>
     st_artifacts s' = st_artifacts s \<and> st_blobs s' = st_blobs s"

lemma alike_record:
  assumes "checked s s'" "kind \<noteq> recordRevisionCheck"
  shows "alike s s' (getRecord kind as i)" "alike s s' (listRecords kind as c n)"
proof -
  from assms obtain rs where r: "st_records s' = st_records s @ rs" and k: "\<forall>(k, row) \<in> set rs. fst k = recordRevisionCheck"
    by (auto simp: checked_def)
  have "map_of rs (kind, i) = None" using k assms(2) by (auto simp: map_of_eq_None_iff)
  then have "map_of (st_records s') (kind, i) = map_of (st_records s) (kind, i)"
    by (simp add: r map_add_def split: option.splits)
  then show "alike s s' (getRecord kind as i)" unfolding getRecord_def by (intro alike_gets) (simp add: lookup_def)
  show "alike s s' (listRecords kind as c n)" unfolding listRecords_def
  proof (rule alike_gets)
    have "filter (\<lambda>(k, row). fst k = kind \<and> Row_CampaignID row = Some c) rs = []"
      using k assms(2) by (auto simp: filter_empty_conv)
    then have "filter (\<lambda>(k, row). fst k = kind \<and> Row_CampaignID row = Some c) (st_records s') =
        filter (\<lambda>(k, row). fst k = kind \<and> Row_CampaignID row = Some c) (st_records s)" by (simp add: r)
    then show "Inr (map (as \<circ> Row_Data \<circ> snd) (takeI (listLimit 10000 1000 n) (newestFirst (Row_CreatedAt \<circ> snd) (snd \<circ> fst)
          (filter (\<lambda>(k, row). fst k = kind \<and> Row_CampaignID row = Some c) (st_records s'))))) =
        Inr (map (as \<circ> Row_Data \<circ> snd) (takeI (listLimit 10000 1000 n) (newestFirst (Row_CreatedAt \<circ> snd) (snd \<circ> fst)
          (filter (\<lambda>(k, row). fst k = kind \<and> Row_CampaignID row = Some c) (st_records s)))))" by simp
  qed
qed

lemma alike_artifact: "checked s s' \<Longrightarrow> alike s s' (getArtifact i)"
  unfolding getArtifact_def by (rule alike_gets) (simp add: checked_def)

lemma alike_open: "checked s s' \<Longrightarrow> alike s s' (openArtifact env cfg i)"
  unfolding openArtifact_def Let_def by (intro alike_bind alike_if alike_fail alike_artifact alike_gets) (simp_all add: checked_def)

lemma alike_check:
  assumes "checked s s'"
  shows "alike s s' (revisionCheckOf env pc job result)"
proof -
  note kinds = alike_record [OF assms]
  have reads: "alike s s' (getBuild i)" "alike s s' (getCrash i)" "alike s s' (listCrashGroups c n)" "alike s s' (listFindings c n)" for i c n
    by (simp_all add: getBuild_def getCrash_def listCrashGroups_def listFindings_def kinds)
  have artifacts: "alike s s' (comparisonArtifacts job result st lg is)" for st lg "is"
    by (induction "is" arbitrary: st lg) (auto intro!: alike_bind alike_artifact assms)
  show ?thesis
    unfolding revisionCheckOf_def decodeComparison_def compareSignal_def comparisonFinding_def parseArtifact_def Let_def
    by (intro alike_bind alike_if alike_prod alike_option alike_return alike_fail alike_lift reads artifacts alike_artifact alike_open assms)
qed

lemma event_tables: "appendAudit env e s = (r, s') \<Longrightarrow> st_records s' = st_records s \<and> st_artifacts s' = st_artifacts s \<and> st_blobs s' = st_blobs s"
  by (auto simp: appendAudit_def act_bind_def act_return_def newID_def split: if_splits prod.splits)

text \<open>
  A comparison cannot be ingested twice. When the coordinator has ingested the result of a revision
  comparison, ingesting the same result again fails: the revision check has an identifier derived from
  the run and is immutable. The coordinator is documented as safe to call again for the same run.
\<close>

theorem repeated_comparison_is_refused:
  assumes "ingestRevisionCheck env pc job result s = (Inr (), s')"
  shows "\<exists>e. ingestRevisionCheck env pc job result s' = (Inl e, s')"
proof -
  have "checked s s" by (auto simp: checked_def)
  then have quiet: "alike s s (revisionCheckOf env pc job result)" by (rule alike_check)
  from assms obtain check s0 where first: "revisionCheckOf env pc job result s = (Inr check, s0)"
    and rest: "act_bind (saveRevisionCheck env check) (\<lambda>_.
       act_bind (appendAudit env (pipelineEvent ''revision.check'' ''revision_check'' (RevCheck_ID check) (Job_AuditCorrelationID job)
         ''machine_parsed'' (fmap_of_list [(''campaign_id'', Job_CampaignID job), (''finding_id'', RevCheck_FindingID check),
           (''revision'', RevCheck_Revision check), (''status'', RevCheck_Status check)]))) (\<lambda>_. act_return ())) s0 = (Inr (), s')"
    unfolding ingestRevisionCheck_def act_bind_Inr_iff [of "revisionCheckOf env pc job result"] by blast
  from rest obtain v s1 event a where next1: "saveRevisionCheck env check s0 = (Inr v, s1)"
    and audited: "appendAudit env event s1 = (Inr a, s')"
    unfolding act_bind_Inr_iff by (auto simp: act_return_def)
  from first quiet have s0: "s0 = s" by (auto simp: alike_def)
  note check = first [unfolded s0] and saved = next1 [unfolded s0]
  from saved obtain row where row: "s1 = s\<lparr>st_records := st_records s @ [((recordRevisionCheck, RevCheck_ID check), row)]\<rparr>"
    "map_of (st_records s) (recordRevisionCheck, RevCheck_ID check) = None"
    unfolding saveRevisionCheck_def
    by (cases rule: putImmutableRecord_cases [of env recordRevisionCheck "RevCheck_ID check" "RevCheck_CampaignID check"
          "RevCheck_CheckedAt check" "DataRevisionCheck check" s]) auto
  from audited event_tables have s': "st_records s' = st_records s @ [((recordRevisionCheck, RevCheck_ID check), row)]"
    "st_artifacts s' = st_artifacts s" "st_blobs s' = st_blobs s" by (auto simp: row(1))
  then have "checked s s'" by (simp add: checked_def)
  from alike_check [OF this, of env pc job result] check have again: "revisionCheckOf env pc job result s' = (Inr check, s')"
    by (auto simp: alike_def)
  have "map_of (st_records s') (recordRevisionCheck, RevCheck_ID check) \<noteq> None" by (simp add: s'(1) row(2) map_add_def)
  then obtain e where "saveRevisionCheck env check s' = (Inl e, s')"
    unfolding saveRevisionCheck_def
    by (cases rule: putImmutableRecord_cases [of env recordRevisionCheck "RevCheck_ID check" "RevCheck_CampaignID check"
          "RevCheck_CheckedAt check" "DataRevisionCheck check" s']) auto
  with again show ?thesis by (simp add: ingestRevisionCheck_def act_bind_def)
qed

text \<open>A finished comparison: the reproducer no longer crashes the revision \<^verbatim>\<open>v2\<close>.\<close>

definition comparedGroup :: CrashGroup where
  "comparedGroup = \<lparr>Group_SchemaVersion = 1, Group_ID = ''group_1'', Group_CampaignID = ''c1'', Group_Signature = ''sig'',
     Group_ObservationIDs = [], Group_CanonicalInputID = ''a1'', Group_MinimizedArtifactID = [], Group_RootCause = [],
     Group_CreatedAt = unixEpoch, Group_UpdatedAt = unixEpoch\<rparr>"

definition comparedFinding :: Finding where
  "comparedFinding = newFinding comparedGroup (sampleObservation ''o1'')
     (primitiveFromObservation sampleHost ''c1'' comparedGroup (sampleObservation ''o1'') ''a3'' unixEpoch) ''a3'' unixEpoch"

definition comparisonEvidence :: "string \<Rightarrow> string \<Rightarrow> string \<Rightarrow> Artifact" where
  "comparisonEvidence i role content = sampleArtifact\<lparr>Artifact_ID := i, Artifact_RunID := ''r1'', Artifact_Role := role,
     Artifact_ContentID := contentID sampleSha content, Artifact_Size := int (length content),
     Artifact_StoragePath := blobRelative (hexEncode (sampleSha content))\<rparr>"

definition comparedBuild :: Build where
  "comparedBuild = sampleBuild\<lparr>Build_Provenance := fmap_of_list [(''target_revision'', ''v2'')]\<rparr>"

definition comparedStore :: Store where
  "comparedStore = sampleStore\<lparr>
     st_artifacts := [(''a1'', comparisonEvidence ''a1'' ''crash_input'' ''evidence''),
       (''a2'', comparisonEvidence ''a2'' ''revision_comparison'' ''clean''), (''a3'', comparisonEvidence ''a3'' ''revision_comparison_log'' ''log'')],
     st_blobs := map (\<lambda>c. (blobRelative (hexEncode (sampleSha c)), c)) [''clean'', ''log'', ''evidence''],
     st_records := [((recordBuild, ''b2''), recordRow ''c1'' unixEpoch unixEpoch (DataBuild comparedBuild)),
       ((recordCrashGroup, ''group_1''), recordRow ''c1'' unixEpoch unixEpoch (DataCrashGroup comparedGroup)),
       ((recordFinding, ''finding_1''), recordRow ''c1'' unixEpoch unixEpoch (DataFinding comparedFinding))]\<rparr>"

definition comparisonConfig :: PipelineConfig where
  "comparisonConfig = \<lparr>pc_root = ''/'', pc_store = plainConfig, pc_minimum = 3,
     pc_Comparison = (\<lambda>content. if content = ''clean''
       then Some (\<lparr>Cmp_SchemaVersion = 1, Cmp_TargetRevision = ''v2'', Cmp_ReproducerExitCode = 0, Cmp_SignalAbsent = True\<rparr>, []) else None),
     pc_AtEOF = (\<lambda>rest. rest = []), pc_Strings = (\<lambda>_. None), pc_foldEqual = (\<lambda>x y. x = y)\<rparr>"

definition comparisonJob :: WorkerJob where
  "comparisonJob = sampleJob\<lparr>Job_BuildID := ''b2'', Job_InputArtifactID := ''a1'', Job_Operation := OperationCompareBranch,
     Job_Arguments := fmap_of_list [(''revision'', ''v2'')]\<rparr>"

definition comparisonRun :: RunResult where
  "comparisonRun = \<lparr>Result_SchemaVersion = 1, Result_RunID = ''r1'', Result_Operation = OperationCompareBranch, Result_Status = RunCompleted,
     Result_Exit = \<lparr>Exit_Code = 0, Exit_Signal = [], Exit_Reason = []\<rparr>,
     Result_Output = \<lparr>Output_StdoutArtifactID = [], Output_StderrArtifactID = [], Output_StdoutTruncated = False,
       Output_StderrTruncated = False, Output_BytesDropped = 0\<rparr>,
     Result_ArtifactIDs = [''a2'', ''a3''],
     Result_ResourceUsage = \<lparr>Usage_WallMillis = 0, Usage_CPUMillis = 0, Usage_MaxRSSBytes = 0, Usage_DiskWrittenBytes = 0, Usage_InodesCreated = 0\<rparr>,
     Result_Apparatus = \<lparr>Identity_ManifestID = [], Identity_ImageDigest = [], Identity_TargetRevision = ''v2'', Identity_Harness = [],
       Identity_Sanitizer = [], Identity_Runtime = []\<rparr>,
     Result_IsolationAssurance = [], Result_AuditCorrelationID = ''k1''\<rparr>"

lemma compared_evidence:
  "getArtifact ''a1'' comparedStore = (Inr (comparisonEvidence ''a1'' ''crash_input'' ''evidence''), comparedStore)"
  "getArtifact ''a2'' comparedStore = (Inr (comparisonEvidence ''a2'' ''revision_comparison'' ''clean''), comparedStore)"
  "getArtifact ''a3'' comparedStore = (Inr (comparisonEvidence ''a3'' ''revision_comparison_log'' ''log''), comparedStore)"
  by (simp_all add: getArtifact_def act_gets_def lookup_def comparedStore_def)

lemma evidence_fields [simp]: "Artifact_ID (comparisonEvidence i r c) = i" "Artifact_CampaignID (comparisonEvidence i r c) = ''c1''"
  "Artifact_RunID (comparisonEvidence i r c) = ''r1''" "Artifact_Role (comparisonEvidence i r c) = r"
  "Artifact_Size (comparisonEvidence i r c) = int (length c)" "Artifact_PurgedAt (comparisonEvidence i r c) = None"
  "Artifact_ContentID (comparisonEvidence i r c) = contentID sampleSha c"
  "Artifact_StoragePath (comparisonEvidence i r c) = blobRelative (trimPrefix (contentID sampleSha c) ''sha256:'')"
  by (simp_all add: comparisonEvidence_def sampleArtifact_def contentID_def trimPrefix_def hasPrefix_def)

lemma compared_open: "openArtifact sampleEnv plainConfig ''a2'' comparedStore =
    (Inr ((comparisonEvidence ''a2'' ''revision_comparison'' ''clean'')\<lparr>Artifact_Encryption := [], Artifact_EncryptionKeyID := []\<rparr>, ''clean''), comparedStore)"
proof -
  have valid: "validContentID (contentID sampleSha c)" for c by (rule validContentID_contentID) (simp add: sampleSha_def min_def)
  have path: "trimPrefix (contentID sampleSha c) ''sha256:'' = hexEncode (sampleSha c)" for c
    by (simp add: contentID_def trimPrefix_def hasPrefix_def)
  have sha: "env_sha sampleEnv = sampleSha" by (simp add: sampleEnv_def)
  have blob: "map_of (st_blobs comparedStore) (blobRelative (hexEncode (sampleSha ''clean''))) = Some ''clean''"
    by (simp add: comparedStore_def)
  have "hasPrefix ''clean'' artifactMagic = False" by code_simp
  then have "verifyArtifactFile (env_aead sampleEnv) sampleSha [] ''clean'' 5 (contentID sampleSha ''clean'') = Inr ([], [])"
    by (simp add: verifyArtifactFile_def)
  then show ?thesis
    by (simp add: openArtifact_def act_bind_def compared_evidence valid clean_blobRelative [OF valid, unfolded path] act_gets_def Let_def
        path blob sha plainConfig_def)
qed

lemma compared_build: "getBuild ''b2'' comparedStore = (Inr comparedBuild, comparedStore)"
  by (simp add: getBuild_def getRecord_def act_gets_def lookup_def comparedStore_def recordRow_def)

lemma compared_lists: "listCrashGroups ''c1'' 10000 comparedStore = (Inr [comparedGroup], comparedStore)"
  "listFindings ''c1'' 10000 comparedStore = (Inr [comparedFinding], comparedStore)"
  by (simp_all add: listCrashGroups_def listFindings_def listRecords_def act_gets_def comparedStore_def recordRow_def newestFirst_def listLimit_def nullIfEmpty_def)

lemma compared_finding: "comparisonFinding comparisonJob (comparisonEvidence ''a1'' ''crash_input'' ''evidence'') comparedStore =
    (Inr (comparedGroup, comparedFinding), comparedStore)"
  by (simp add: comparisonFinding_def act_bind_def act_return_def compared_lists comparisonJob_def sampleJob_def comparedGroup_def
      comparedFinding_def newFinding_def trimPrefix_def hasPrefix_def)

lemma compared_once: "\<exists>s. ingestRevisionCheck sampleEnv comparisonConfig comparisonJob comparisonRun comparedStore = (Inr (), s)"
proof -
  let ?input = "comparisonEvidence ''a1'' ''crash_input'' ''evidence''"
  have job: "Job_BuildID comparisonJob = ''b2''" "Job_InputArtifactID comparisonJob = ''a1''" "Job_CampaignID comparisonJob = ''c1''"
    "strGet (Job_Arguments comparisonJob) ''revision'' = ''v2''" "Job_TargetID comparisonJob = ''t1''"
    by (simp_all add: comparisonJob_def sampleJob_def strGet_def)
  have build: "Build_CampaignID comparedBuild = ''c1''" "Build_Status comparedBuild = ''completed''" "Build_TargetID comparedBuild = ''t1''"
    "strGet (Build_Provenance comparedBuild) ''target_revision'' = ''v2''"
    by (simp_all add: comparedBuild_def sampleBuild_def strGet_def)
  have exit: "Exit_Code (Result_Exit comparisonRun) = 0" by (simp add: comparisonRun_def)
  have artifacts: "comparisonArtifacts comparisonJob comparisonRun zeroArtifact zeroArtifact (Result_ArtifactIDs comparisonRun) comparedStore =
      (Inr (comparisonEvidence ''a2'' ''revision_comparison'' ''clean'', comparisonEvidence ''a3'' ''revision_comparison_log'' ''log''), comparedStore)"
    by (simp add: comparisonRun_def act_bind_def act_return_def compared_evidence job)
  have decoded: "decodeComparison sampleEnv comparisonConfig (comparisonEvidence ''a2'' ''revision_comparison'' ''clean'') 1048576 comparedStore =
      (Inr \<lparr>Cmp_SchemaVersion = 1, Cmp_TargetRevision = ''v2'', Cmp_ReproducerExitCode = 0, Cmp_SignalAbsent = True\<rparr>, comparedStore)"
    by (simp add: decodeComparison_def comparisonConfig_def act_bind_def act_return_def compared_open)
  have "\<exists>check. revisionCheckOf sampleEnv comparisonConfig comparisonJob comparisonRun comparedStore = (Inr check, comparedStore) \<and>
      RevCheck_CampaignID check = ''c1'' \<and> RevCheck_ID check \<noteq> []"
    by (simp add: revisionCheckOf_def Let_def act_bind_def act_return_def job build compared_build compared_evidence artifacts decoded compared_finding
        deterministicPipelineID_def exit)
  then obtain check where check: "revisionCheckOf sampleEnv comparisonConfig comparisonJob comparisonRun comparedStore = (Inr check, comparedStore)"
    "RevCheck_CampaignID check = ''c1''" "RevCheck_ID check \<noteq> []" by blast
  have "campaignKnown sampleStore ''c1''" by code_simp
  then have known: "campaignKnown comparedStore ''c1''" by (simp add: comparedStore_def campaignKnown_def)
  have "\<exists>s. saveRevisionCheck sampleEnv check comparedStore = (Inr (), s)"
    by (simp add: saveRevisionCheck_def putImmutableRecord_def insertRecord_def check(2,3) known Let_def) (simp add: comparedStore_def)
  then obtain s where saved: "saveRevisionCheck sampleEnv check comparedStore = (Inr (), s)" by blast
  have "st_audit sampleStore = []" by code_simp
  then have "st_audit s = []" using saved
    by (auto simp: saveRevisionCheck_def putImmutableRecord_def insertRecord_def check(3) Let_def comparedStore_def split: if_splits)
  then have "\<exists>a s'. appendAudit sampleEnv (pipelineEvent ''revision.check'' ''revision_check'' (RevCheck_ID check) cor ''machine_parsed'' details) s
      = (Inr a, s')" for cor details
    by (simp add: appendAudit_def act_bind_def act_return_def newID_def auditInsert_def pipelineEvent_def auditEvent_def check(3) Let_def)
  then obtain a s' where "appendAudit sampleEnv (pipelineEvent ''revision.check'' ''revision_check'' (RevCheck_ID check)
      (Job_AuditCorrelationID comparisonJob) ''machine_parsed'' (fmap_of_list [(''campaign_id'', Job_CampaignID comparisonJob),
        (''finding_id'', RevCheck_FindingID check), (''revision'', RevCheck_Revision check), (''status'', RevCheck_Status check)])) s = (Inr a, s')" by blast
  with check(1) saved show ?thesis unfolding ingestRevisionCheck_def by (simp add: act_bind_def act_return_def)
qed

end
