(* ===== verification/Source_Tree.thy ===== *)
theory Source_Tree
  imports Artifact_Crypto Campaign_Machine Go_Path
begin

text \<open>
  The capture of an authorized source tree (\<^verbatim>\<open>acquisition/snapshot.go\<close>): the identity of a tree, the
  copy that workers get, and the check of paths that come from archives. A directory is a tree whose
  entries are in the order of \<^verbatim>\<open>os.ReadDir\<close>; a file carries its content and whether one of its
  execute bits is set. Reading a tree does not fail and the tree stands still while it is read.
\<close>

section \<open>Trees and limits\<close>

datatype Node = NDir "(string \<times> Node) list" | NFile string bool | NLink | NSpecial

record Limits =
  Lim_MaxFiles :: int
  Lim_MaxBytes :: int

record Snapshot =
  Snap_SourceSHA256 :: string
  Snap_Files :: int
  Snap_Bytes :: int

definition acquisitionError :: "string \<Rightarrow> err" where
  "acquisitionError m = Err (''research acquisition: '' @ m)"

definition prepareLimits :: "Limits \<Rightarrow> Limits" where
  "prepareLimits lim =
     \<lparr>Lim_MaxFiles = (if Lim_MaxFiles lim \<le> 0 then 10000 else Lim_MaxFiles lim),
      Lim_MaxBytes = (if Lim_MaxBytes lim \<le> 0 then 512 * 2 ^ 20 else Lim_MaxBytes lim)\<rparr>"

text \<open>Control entries are skipped at the top and refused below it.\<close>

definition controlName :: "string \<Rightarrow> bool" where
  "controlName name \<longleftrightarrow> name = ''.git'' \<or> name = ''.agent-smith''"

definition controlEntry :: "string \<Rightarrow> string \<Rightarrow> bool result" where
  "controlEntry relative name =
     (if relative = ''.'' \<or> \<not> controlName name then Inr False
      else if relative = name then Inr True
      else Inl (acquisitionError (''nested control entry '' @ quoted relative)))"

definition relJoin :: "string \<Rightarrow> string \<Rightarrow> string" where
  "relJoin dir name = (if dir = ''.'' then name else dir @ ''/'' @ name)"

section \<open>The identity of a tree\<close>

fun bigEndian :: "nat \<Rightarrow> nat \<Rightarrow> string" where
  "bigEndian 0 n = []"
| "bigEndian (Suc k) n = bigEndian k (n div 256) @ [char_of (n mod 256)]"

text \<open>What \<^verbatim>\<open>writeIdentity\<close> and the copy of the content write to the hash for one file.\<close>

definition writeIdentity :: "string \<Rightarrow> string \<Rightarrow> bool \<Rightarrow> string result" where
  "writeIdentity relative content exec =
     (if int (length relative) > 2 ^ 20 then Inl (acquisitionError ''source path is too long'')
      else Inr (bigEndian 8 (length relative) @ bigEndian 8 (length content) @ [if exec then CHR 0x01 else CHR 0x00] @ relative))"

record HashState =
  hs_entries :: int
  hs_files :: int
  hs_bytes :: int
  hs_input :: string

definition hashFile :: "Limits \<Rightarrow> string \<Rightarrow> string \<Rightarrow> bool \<Rightarrow> HashState \<Rightarrow> HashState result" where
  "hashFile lim relative content exec st =
     (if int (length content) > Lim_MaxBytes lim - hs_bytes st
      then Inl (acquisitionError ''source tree exceeds configured limits'')
      else rbind (writeIdentity relative content exec) (\<lambda>header.
        Inr (st\<lparr>hs_files := hs_files st + 1, hs_bytes := hs_bytes st + int (length content), hs_input := hs_input st @ header @ content\<rparr>)))"

definition countEntry :: "Limits \<Rightarrow> HashState \<Rightarrow> HashState result" where
  "countEntry lim st =
     (if hs_entries st + 1 > Lim_MaxFiles lim then Inl (acquisitionError ''source tree exceeds configured limits'')
      else Inr (st\<lparr>hs_entries := hs_entries st + 1\<rparr>))"

definition nonRegular :: "string \<Rightarrow> err" where
  "nonRegular relative = acquisitionError (''non-regular source entry '' @ quoted relative)"

text \<open>The walk below a directory, with \<open>dir\<close> its path relative to the root.\<close>

fun hashNode :: "Limits \<Rightarrow> string \<Rightarrow> string \<Rightarrow> Node \<Rightarrow> HashState \<Rightarrow> HashState result"
and hashNodes :: "Limits \<Rightarrow> string \<Rightarrow> (string \<times> Node) list \<Rightarrow> HashState \<Rightarrow> HashState result" where
  "hashNode lim relative name (NDir es) st =
     rbind (controlEntry relative name) (\<lambda>skip.
     if skip then Inr st else rbind (countEntry lim st) (hashNodes lim relative es))"
| "hashNode lim relative name (NFile content exec) st =
     rbind (controlEntry relative name) (\<lambda>skip.
     if skip then Inr st else rbind (countEntry lim st) (hashFile lim relative content exec))"
| "hashNode lim relative name NLink st =
     rbind (controlEntry relative name) (\<lambda>skip.
     if skip then Inr st else rbind (countEntry lim st) (\<lambda>_. Inl (nonRegular relative)))"
| "hashNode lim relative name NSpecial st =
     rbind (controlEntry relative name) (\<lambda>skip.
     if skip then Inr st else rbind (countEntry lim st) (\<lambda>_. Inl (nonRegular relative)))"
| "hashNodes lim dir [] st = Inr st"
| "hashNodes lim dir ((name, node) # es) st =
     rbind (hashNode lim (relJoin dir name) name node st) (hashNodes lim dir es)"

definition noHash :: HashState where
  "noHash = \<lparr>hs_entries = 0, hs_files = 0, hs_bytes = 0, hs_input = []\<rparr>"

definition hashTree :: "(string \<Rightarrow> string) \<Rightarrow> Limits \<Rightarrow> Node \<Rightarrow> Snapshot result" where
  "hashTree sha limits root =
     (case root of
        NDir es \<Rightarrow>
          rbind (hashNodes (prepareLimits limits) ''.'' es noHash) (\<lambda>st.
          Inr \<lparr>Snap_SourceSHA256 = ''sha256:'' @ hexEncode (sha (hs_input st)), Snap_Files = hs_files st, Snap_Bytes = hs_bytes st\<rparr>)
      | _ \<Rightarrow> Inl (acquisitionError ''source root is not a directory''))"

section \<open>Capture\<close>

text \<open>The copy keeps directories and regular files; the mode of a copy is 0400 or, for an executable, 0500.\<close>

fun copyNode :: "string \<Rightarrow> string \<Rightarrow> Node \<Rightarrow> (string \<times> Node) list result"
and copyNodes :: "string \<Rightarrow> (string \<times> Node) list \<Rightarrow> (string \<times> Node) list result" where
  "copyNode relative name (NDir es) =
     rbind (controlEntry relative name) (\<lambda>skip.
     if skip then Inr [] else rbind (copyNodes relative es) (\<lambda>es'. Inr [(name, NDir es')]))"
| "copyNode relative name (NFile content exec) =
     rbind (controlEntry relative name) (\<lambda>skip. if skip then Inr [] else Inr [(name, NFile content exec)])"
| "copyNode relative name NLink =
     rbind (controlEntry relative name) (\<lambda>skip. if skip then Inr [] else Inl (nonRegular relative))"
| "copyNode relative name NSpecial =
     rbind (controlEntry relative name) (\<lambda>skip. if skip then Inr [] else Inl (nonRegular relative))"
| "copyNodes dir [] = Inr []"
| "copyNodes dir ((name, node) # es) =
     rbind (copyNode (relJoin dir name) name node) (\<lambda>new. rbind (copyNodes dir es) (\<lambda>rest. Inr (new @ rest)))"

text \<open>
  \<^verbatim>\<open>Capture\<close>: \<open>existing\<close> is what the destination holds before, \<open>source\<close> what the prepared source root
  holds; the result has what the destination holds after it.
\<close>

definition capture :: "(string \<Rightarrow> string) \<Rightarrow> string \<Rightarrow> Node option \<Rightarrow> Node result \<Rightarrow> string \<Rightarrow> Limits \<Rightarrow> (Snapshot \<times> Node) result" where
  "capture sha destination existing source expected limits =
     (if \<not> isAbs destination \<or> trimSpace expected = []
      then Inl (acquisitionError ''absolute destination and expected hash required'')
      else case existing of
        Some NLink \<Rightarrow> Inl (acquisitionError ''capture destination is a symlink'')
      | Some held \<Rightarrow>
          rbind (hashTree sha limits held) (\<lambda>snap.
          if Snap_SourceSHA256 snap \<noteq> expected then Inl (acquisitionError ''existing capture hash mismatch'')
          else Inr (snap, held))
      | None \<Rightarrow>
          rbind source (\<lambda>root.
          case root of
            NDir es \<Rightarrow>
              rbind (copyNodes ''.'' es) (\<lambda>copied.
              rbind (hashTree sha (prepareLimits limits) (NDir copied)) (\<lambda>captured.
              if Snap_SourceSHA256 captured \<noteq> expected then Inl (acquisitionError ''source changed while being captured'')
              else Inr (captured, NDir copied)))
          | _ \<Rightarrow> Inl (acquisitionError ''source root is not a directory'')))"

text \<open>\<^verbatim>\<open>VerifiedCapture\<close> on what the capture directory holds.\<close>

definition verifiedCapture :: "(string \<Rightarrow> string) \<Rightarrow> string result \<Rightarrow> Node \<Rightarrow> string \<Rightarrow> Limits \<Rightarrow> string result" where
  "verifiedCapture sha directory held expected limits =
     rbind directory (\<lambda>path.
     rbind (hashTree sha limits held) (\<lambda>snap.
     if Snap_SourceSHA256 snap \<noteq> expected then Inl (acquisitionError ''captured source hash mismatch'') else Inr path))"

section \<open>Paths of a source\<close>

definition reservedSourceComponent :: "(string \<Rightarrow> string) \<Rightarrow> string \<Rightarrow> bool" where
  "reservedSourceComponent lower component =
     (let low = toLower lower component; base = takeWhile (\<lambda>c. c \<noteq> CHR ''.'') low in
      low = ''.git'' \<or> low = ''.agent-smith'' \<or> base \<in> {''con'', ''prn'', ''aux'', ''nul''} \<or>
      length base = 4 \<and> (hasPrefix base ''com'' \<or> hasPrefix base ''lpt'') \<and> CHR ''1'' \<le> base ! 3 \<and> base ! 3 \<le> CHR ''9'')"

definition unsafeComponent :: "(string \<Rightarrow> string) \<Rightarrow> string \<Rightarrow> bool" where
  "unsafeComponent lower c \<longleftrightarrow>
     length c > 255 \<or> CHR '':'' \<in> set c \<or> hasSuffix c ''.'' \<or> hasSuffix c '' '' \<or> reservedSourceComponent lower c"

definition controlByte :: "char \<Rightarrow> bool" where
  "controlByte c \<longleftrightarrow> (of_char c :: nat) < 0x20 \<or> c = CHR 0x7F"

definition validateSourcePath :: "(string \<Rightarrow> string) \<Rightarrow> string \<Rightarrow> string result" where
  "validateSourcePath lower value =
     (if value = [] \<or> CHR 0x5C \<in> set value \<or> int (length value) > 4096 then Inl (acquisitionError ''unsafe source path'')
      else if list_ex controlByte value then Inl (acquisitionError ''unsafe source path'')
      else if clean value \<noteq> value \<or> isAbs value \<or> clean value = ''.'' \<or> clean value = ''..'' \<or> hasPrefix (clean value) ''../''
      then Inl (acquisitionError ''unsafe source path'')
      else if list_ex (unsafeComponent lower) (splitChar slash (clean value))
      then Inl (acquisitionError ''unsafe or reserved source path'')
      else Inr (clean value))"

section \<open>What the identity covers\<close>

lemma bigEndian_length [simp]: "length (bigEndian k n) = k"
  by (induction k arbitrary: n) simp_all

lemma bigEndian_inj: "n < 256 ^ k \<Longrightarrow> m < 256 ^ k \<Longrightarrow> bigEndian k n = bigEndian k m \<Longrightarrow> n = m"
proof (induction k arbitrary: n m)
  case (Suc k)
  from Suc.prems(3) have "bigEndian k (n div 256) = bigEndian k (m div 256)" "char_of (n mod 256) = (char_of (m mod 256) :: char)" by simp_all
  moreover have "n div 256 < 256 ^ k" "m div 256 < 256 ^ k" using Suc.prems(1,2) by (simp_all add: less_mult_imp_div_less mult.commute)
  ultimately have "n div 256 = m div 256" using Suc.IH by blast
  moreover have "n mod 256 = m mod 256"
    using \<open>char_of (n mod 256) = (char_of (m mod 256) :: char)\<close> by (simp add: char_of_eq_iff take_bit_eq_mod)
  ultimately show ?case by (metis div_mult_mod_eq)
qed simp

text \<open>The regular files of a tree in the order of the walk: path, content and executability.\<close>

type_synonym SourceFile = "string \<times> string \<times> bool"

fun filesNode :: "string \<Rightarrow> string \<Rightarrow> Node \<Rightarrow> SourceFile list"
and filesNodes :: "string \<Rightarrow> (string \<times> Node) list \<Rightarrow> SourceFile list" where
  "filesNode relative name (NDir es) = (if controlName name \<and> relative = name then [] else filesNodes relative es)"
| "filesNode relative name (NFile content exec) =
     (if controlName name \<and> relative = name then [] else [(relative, content, exec)])"
| "filesNode relative name NLink = []"
| "filesNode relative name NSpecial = []"
| "filesNodes dir [] = []"
| "filesNodes dir ((name, node) # es) = filesNode (relJoin dir name) name node @ filesNodes dir es"

definition sourceFiles :: "Node \<Rightarrow> SourceFile list" where
  "sourceFiles root = (case root of NDir es \<Rightarrow> filesNodes ''.'' es | _ \<Rightarrow> [])"

definition fileCode :: "SourceFile \<Rightarrow> string" where
  "fileCode f = (case f of (relative, content, exec) \<Rightarrow>
     bigEndian 8 (length relative) @ bigEndian 8 (length content) @ [if exec then CHR 0x01 else CHR 0x00] @ relative @ content)"

definition encodable :: "SourceFile \<Rightarrow> bool" where
  "encodable f \<longleftrightarrow> length (fst f) < 256 ^ 8 \<and> length (fst (snd f)) < 256 ^ 8"

lemma fileCode_prefix_free:
  assumes "encodable f" "encodable g" "fileCode f @ r = fileCode g @ s"
  shows "f = g \<and> r = s"
proof -
  obtain rel c x where f: "f = (rel, c, x)" by (cases f)
  obtain rel' c' x' where g: "g = (rel', c', x')" by (cases g)
  from assms(3) have "bigEndian 8 (length rel) = bigEndian 8 (length rel')" "bigEndian 8 (length c) = bigEndian 8 (length c')"
    "x = x'" and rest: "rel @ c @ r = rel' @ c' @ s"
    by (auto simp: f g fileCode_def split: if_splits)
  with assms(1,2) have "length rel = length rel'" "length c = length c'"
    using bigEndian_inj unfolding f g encodable_def fst_conv snd_conv by blast+
  with rest \<open>x = x'\<close> show ?thesis by (simp add: f g)
qed

lemma fileCodes_inj:
  "list_all encodable fs \<Longrightarrow> list_all encodable gs \<Longrightarrow> concat (map fileCode fs) = concat (map fileCode gs) \<Longrightarrow> fs = gs"
proof (induction fs arbitrary: gs)
  case Nil
  then show ?case by (cases gs) (auto simp: fileCode_def split: prod.splits)
next
  case (Cons f fs)
  show ?case
  proof (cases gs)
    case Nil
    with Cons.prems(3) show ?thesis by (auto simp: fileCode_def split: prod.splits)
  next
    case (Cons g gs')
    with Cons.prems have "f = g \<and> concat (map fileCode fs) = concat (map fileCode gs')"
      by (intro fileCode_prefix_free) simp_all
    with Cons.IH [of gs'] Cons.prems Cons show ?thesis by simp
  qed
qed

text \<open>What a finished walk has done: it wrote the codes of the files and kept within the limits.\<close>

definition walked :: "Limits \<Rightarrow> SourceFile list \<Rightarrow> HashState \<Rightarrow> HashState \<Rightarrow> bool" where
  "walked lim fs st st' \<longleftrightarrow>
     hs_input st' = hs_input st @ concat (map fileCode fs) \<and> hs_files st' = hs_files st + int (length fs) \<and>
     hs_bytes st' = hs_bytes st + int (sum_list (map (length \<circ> fst \<circ> snd) fs)) \<and>
     (hs_bytes st \<le> Lim_MaxBytes lim \<longrightarrow> hs_bytes st' \<le> Lim_MaxBytes lim) \<and>
     hs_entries st + int (length fs) \<le> hs_entries st' \<and> (hs_entries st \<le> Lim_MaxFiles lim \<longrightarrow> hs_entries st' \<le> Lim_MaxFiles lim) \<and>
     list_all (\<lambda>f. int (length (fst f)) \<le> 2 ^ 20) fs"

lemma walked_nil [simp]: "walked lim [] st st"
  by (simp add: walked_def)

lemma walked_append: "walked lim fs st st' \<Longrightarrow> walked lim gs st' st'' \<Longrightarrow> walked lim (fs @ gs) st st''"
  by (auto simp: walked_def)

lemma walked_count: "countEntry lim st = Inr st' \<Longrightarrow> walked lim [] st st'"
  by (auto simp: countEntry_def walked_def split: if_splits)

lemma walked_file:
  "countEntry lim st = Inr st1 \<Longrightarrow> hashFile lim relative content exec st1 = Inr st' \<Longrightarrow> walked lim [(relative, content, exec)] st st'"
  by (auto simp: countEntry_def hashFile_def writeIdentity_def walked_def fileCode_def split: if_splits)

lemma controlEntry_Inr:
  "controlEntry relative name = Inr skip \<Longrightarrow> skip \<longleftrightarrow> relative \<noteq> ''.'' \<and> controlName name \<and> relative = name"
  by (auto simp: controlEntry_def split: if_splits)

lemma control_not_dot: "controlName name \<Longrightarrow> name \<noteq> ''.''"
  by (auto simp: controlName_def)

lemma hash_walk:
  "hashNode lim relative name node st = Inr st' \<Longrightarrow> walked lim (filesNode relative name node) st st'"
  "hashNodes lim dir es st = Inr st' \<Longrightarrow> walked lim (filesNodes dir es) st st'"
proof (induction lim relative name node st and lim dir es st arbitrary: st' and st' rule: hashNode_hashNodes.induct)
  case (1 lim relative name es st)
  then obtain skip where skip: "controlEntry relative name = Inr skip" by auto
  show ?case
  proof (cases skip)
    case True
    with 1 skip controlEntry_Inr [OF skip] show ?thesis by auto
  next
    case False
    with 1 skip obtain st1 where "countEntry lim st = Inr st1" "hashNodes lim relative es st1 = Inr st'" by auto
    with 1 skip False have "walked lim ([] @ filesNodes relative es) st st'" by (intro walked_append walked_count) auto
    with False controlEntry_Inr [OF skip] show ?thesis by (auto dest: control_not_dot)
  qed
next
  case (2 lim relative name content exec st)
  then obtain skip where skip: "controlEntry relative name = Inr skip" by auto
  with 2 controlEntry_Inr [OF skip] show ?case by (auto intro: walked_file dest: control_not_dot split: if_splits)
next
  case (6 lim dir name node es st)
  then show ?case by (auto intro: walked_append)
qed (auto split: if_splits)

lemma hashTree_Inr:
  assumes "hashTree sha limits t = Inr snap"
  obtains st where "walked (prepareLimits limits) (sourceFiles t) noHash st"
    "snap = \<lparr>Snap_SourceSHA256 = ''sha256:'' @ hexEncode (sha (hs_input st)), Snap_Files = hs_files st, Snap_Bytes = hs_bytes st\<rparr>"
    "\<exists>es. t = NDir es"
proof -
  from assms obtain es st where t: "t = NDir es" and st: "hashNodes (prepareLimits limits) ''.'' es noHash = Inr st"
    and snap: "snap = \<lparr>Snap_SourceSHA256 = ''sha256:'' @ hexEncode (sha (hs_input st)), Snap_Files = hs_files st, Snap_Bytes = hs_bytes st\<rparr>"
    by (auto simp: hashTree_def split: Node.splits)
  from hash_walk(2) [OF st] t snap that show ?thesis by (auto simp: sourceFiles_def)
qed

lemma prepared_positive [simp]: "0 < Lim_MaxFiles (prepareLimits limits)" "0 < Lim_MaxBytes (prepareLimits limits)"
  by (simp_all add: prepareLimits_def)

lemma walked_within:
  assumes "walked (prepareLimits limits) fs noHash st"
  shows "hs_entries st \<le> Lim_MaxFiles (prepareLimits limits)" "hs_bytes st \<le> Lim_MaxBytes (prepareLimits limits)"
    "int (length fs) \<le> hs_entries st" "hs_bytes st = int (sum_list (map (length \<circ> fst \<circ> snd) fs))"
    "hs_files st = int (length fs)" "hs_input st = concat (map fileCode fs)"
  using assms prepared_positive [of limits] unfolding walked_def noHash_def by (simp_all add: less_imp_le del: prepared_positive)

lemma walked_encodable:
  assumes "walked (prepareLimits limits) fs noHash st" "is_int64 (Lim_MaxBytes limits)"
  shows "list_all encodable fs"
proof -
  have "int (length c) < 2 ^ 63" if "(r, c, x) \<in> set fs" for r c x
  proof -
    have "length c \<le> sum_list (map (length \<circ> fst \<circ> snd) fs)"
      using that by (intro member_le_sum_list) (force, simp)
    moreover have "int (sum_list (map (length \<circ> fst \<circ> snd) fs)) \<le> Lim_MaxBytes (prepareLimits limits)"
      using walked_within [OF assms(1)] by simp
    moreover have "Lim_MaxBytes (prepareLimits limits) < 2 ^ 63" using assms(2) by (simp add: prepareLimits_def is_int64_def)
    ultimately show ?thesis by linarith
  qed
  with assms(1) show ?thesis by (fastforce simp: walked_def list_all_iff encodable_def)
qed

section \<open>Properties\<close>


definition sampleTree :: Node where
  "sampleTree = NDir [(''.git'', NDir [(''HEAD'', NFile ''ref'' False)]), (''a.c'', NFile ''int x;'' False), (''bin'', NDir [(''run'', NFile ''#!'' True)])]"

definition sampleLimits :: Limits where
  "sampleLimits = \<lparr>Lim_MaxFiles = 10, Lim_MaxBytes = 100\<rparr>"

definition plainTree :: Node where
  "plainTree = NDir [(''a.c'', NFile ''int x;'' False), (''bin'', NDir [(''run'', NFile ''#!'' True)])]"


lemma filesNodes_append: "filesNodes dir (es @ fs) = filesNodes dir es @ filesNodes dir fs"
  by (induction es) auto

lemma copy_files:
  "copyNode relative name node = Inr new \<Longrightarrow> relative = relJoin dir name \<Longrightarrow> filesNodes dir new = filesNode relative name node"
  "copyNodes dir es = Inr es' \<Longrightarrow> filesNodes dir es' = filesNodes dir es"
proof (induction relative name node and dir es arbitrary: new dir and es' rule: copyNode_copyNodes.induct)
  case (1 relative name es)
  then obtain skip where skip: "controlEntry relative name = Inr skip" by auto
  from 1 skip controlEntry_Inr [OF skip] show ?case by (auto dest: control_not_dot split: if_splits)
next
  case (2 relative name content exec)
  then obtain skip where skip: "controlEntry relative name = Inr skip" by auto
  from 2 skip controlEntry_Inr [OF skip] show ?case by (auto dest: control_not_dot split: if_splits)
next
  case (6 dir name node es)
  then obtain new rest where "copyNode (relJoin dir name) name node = Inr new" "copyNodes dir es = Inr rest" "es' = new @ rest" by auto
  with 6 show ?case by (auto simp: filesNodes_append)
qed (auto split: if_splits)

lemma prepareLimits_twice [simp]: "prepareLimits (prepareLimits limits) = prepareLimits limits"
  by (simp add: prepareLimits_def)

lemma hashTree_prepared [simp]: "hashTree sha (prepareLimits limits) t = hashTree sha limits t"
  by (cases t) (simp_all add: hashTree_def)


definition sampleCapture :: "(Snapshot \<times> Node) result" where
  "sampleCapture = capture sampleSha ''/captures/c1'' None (Inr sampleTree)
     (case hashTree sampleSha sampleLimits plainTree of Inr s \<Rightarrow> Snap_SourceSHA256 s | Inl _ \<Rightarrow> []) sampleLimits"


section \<open>Paths\<close>

lemma splitChar_append: "splitChar c (a @ c # b) = splitChar c a @ splitChar c b"
proof (induction a)
  case (Cons x a)
  then show ?case using splitChar_nonempty [of c a] by (cases "splitChar c a") auto
qed simp

lemma cleanStep_relative:
  assumes "\<exists>ps k. st = ps @ replicate k ''..'' \<and> (\<forall>c \<in> set ps. properComp c)" "slash \<notin> set e"
  shows "\<exists>ps k. cleanStep False st e = ps @ replicate k ''..'' \<and> (\<forall>c \<in> set ps. properComp c)"
proof -
  from assms(1) obtain ps k where st: "st = ps @ replicate k ''..''" "\<forall>c \<in> set ps. properComp c" by blast
  consider "e = [] \<or> e = ''.''" | "e = ''..''" "ps = []" | p ps' where "e = ''..''" "ps = p # ps'" | "properComp e"
    using assms(2) by (cases ps) (auto simp: properComp_def)
  then show ?thesis
  proof cases
    case 1
    with st show ?thesis by auto
  next
    case 2
    then have "cleanStep False st e = [] @ replicate (Suc k) ''..''" using st by (cases k) simp_all
    then show ?thesis by fastforce
  next
    case 3
    then have "cleanStep False st e = ps' @ replicate k ''..''" using st by (simp add: properComp_def)
    with st 3 show ?thesis by auto
  next
    case 4
    then have "cleanStep False st e = (e # ps) @ replicate k ''..''" using st by (auto simp: properComp_def)
    with st 4 show ?thesis by (metis set_ConsD)
  qed
qed

lemma foldl_relative:
  "\<exists>ps k. st = ps @ replicate k ''..'' \<and> (\<forall>c \<in> set ps. properComp c) \<Longrightarrow> \<forall>e \<in> set es. slash \<notin> set e \<Longrightarrow>
    \<exists>ps k. foldl (cleanStep False) st es = ps @ replicate k ''..'' \<and> (\<forall>c \<in> set ps. properComp c)"
proof (induction es arbitrary: st)
  case (Cons e es)
  then have "\<exists>ps k. cleanStep False st e = ps @ replicate k ''..'' \<and> (\<forall>c \<in> set ps. properComp c)" by (intro cleanStep_relative) simp_all
  from Cons.IH [OF this] Cons.prems show ?case by (simp del: cleanStep.simps)
qed simp

lemma clean_relative:
  assumes "clean p = p" "\<not> isAbs p" "p \<noteq> ''.''" "p \<noteq> ''..''" "\<not> hasPrefix p ''../''"
  shows "splitChar slash p \<noteq> [] \<and> (\<forall>c \<in> set (splitChar slash p). properComp c)"
proof -
  have "\<exists>ps k. foldl (cleanStep False) [] (splitChar slash p) = ps @ replicate k ''..'' \<and> (\<forall>c \<in> set ps. properComp c)"
    using splitChar_no_sep by (intro foldl_relative) auto
  then obtain ps k where cs: "pathComps p = replicate k ''..'' @ rev ps" "\<forall>c \<in> set ps. properComp c"
    using assms(2) by (auto simp: pathComps_def)
  have p: "p = strJoin [slash] (pathComps p)" "pathComps p \<noteq> []" using assms by (auto simp: clean_def Let_def split: if_splits)
  have "k = 0" using strJoin_climbs [of "k - 1" "rev ps"] assms(4,5) p(1) cs(1) by (cases k) auto
  with cs have proper: "\<forall>c \<in> set (pathComps p). properComp c" by simp
  then have "splitChar slash p = pathComps p" using p splitChar_strJoin [of "pathComps p"] by (auto simp: properComp_def)
  with proper p(2) show ?thesis by simp
qed

lemma pathComps_rooted: "\<forall>c \<in> set cs. properComp c \<Longrightarrow> pathComps (slash # strJoin [slash] cs) = cs"
  by (cases "cs = []") (auto simp: pathComps_def isAbs_def hasPrefix_def splitChar_strJoin properComp_def foldl_cleanStep_pushes)

lemma pathJoin_under:
  assumes "isAbs root" "p \<noteq> []" "\<forall>c \<in> set (splitChar slash p). properComp c"
  shows "pathComps (pathJoin [root, p]) = pathComps root @ splitChar slash p"
proof -
  have root: "root \<noteq> []" "isAbs (root @ slash # p)" using assms(1) by (auto simp: isAbs_Cons)
  have "pathComps (root @ slash # p) = rev (foldl (cleanStep True) (foldl (cleanStep True) [] (splitChar slash root)) (splitChar slash p))"
    using root by (simp add: pathComps_def splitChar_append)
  also have "\<dots> = pathComps root @ splitChar slash p"
    using assms by (simp add: foldl_cleanStep_pushes pathComps_def)
  finally have comps: "pathComps (root @ slash # p) = pathComps root @ splitChar slash p" .
  have "pathJoin [root, p] = slash # strJoin [slash] (pathComps (root @ slash # p))"
    using root assms(2) by (simp add: pathJoin_def clean_def Let_def)
  moreover have "\<forall>c \<in> set (pathComps root @ splitChar slash p). properComp c" using pathComps_proper [OF assms(1)] assms(3) by auto
  ultimately show ?thesis using pathComps_rooted comps by simp
qed

text \<open>
  A validated source path cannot leave its tree: the path is taken as it is, each of its components is a
  proper name that is not reserved, and joined to any absolute root it stays below that root.
\<close>

theorem source_path_stays_below_root:
  assumes "validateSourcePath lower value = Inr p"
  shows "p = value \<and> (\<forall>c \<in> set (splitChar slash p). properComp c \<and> \<not> reservedSourceComponent lower c \<and> length c \<le> 255) \<and>
    (\<forall>root. isAbs root \<longrightarrow> relInside root (pathJoin [root, p]) \<and> pathComps (pathJoin [root, p]) = pathComps root @ splitChar slash p)"
proof -
  have ok: "p = value" "p \<noteq> []" "clean p = p" "\<not> isAbs p" "p \<noteq> ''.''" "p \<noteq> ''..''" "\<not> hasPrefix p ''../''"
    "\<not> list_ex (unsafeComponent lower) (splitChar slash p)"
    using assms by (auto simp: validateSourcePath_def split: if_splits)
  note proper = clean_relative [OF ok(3-7)]
  have "relInside root (pathJoin [root, p]) \<and> pathComps (pathJoin [root, p]) = pathComps root @ splitChar slash p" if "isAbs root" for root
    using pathJoin_under [OF that ok(2)] proper relInside_iff [OF that isAbs_pathJoin [OF that]] by simp
  with ok proper show ?thesis by (auto simp: list_ex_iff unsafeComponent_def)
qed

end
