(* ===== verification/Go_Float.thy ===== *)
theory Go_Float
  imports Go_Strings
begin

text \<open>
  Go's \<^verbatim>\<open>float64\<close> where the sources divide and print positive numbers: a positive finite double in the
  normal range is a 53-bit mantissa and a binary exponent, and every operation rounds its exact result
  to the nearest such number, ties to even.
\<close>

function bitLength :: "int \<Rightarrow> int" where
  "bitLength n = (if n \<le> 0 then 0 else 1 + bitLength (n div 2))"
  by pat_completeness auto
termination by (relation "measure nat") auto

declare bitLength.simps [simp del]

definition roundHalfEven :: "int \<Rightarrow> int \<Rightarrow> int" where
  "roundHalfEven num den =
     (let q = num div den; r = num mod den in
      if 2 * r < den then q else if 2 * r > den then q + 1 else q + q mod 2)"

type_synonym double = "int \<times> int"

definition scaled :: "int \<Rightarrow> int \<Rightarrow> int \<Rightarrow> int \<times> int" where
  "scaled num den e = (if e \<ge> 0 then (num, den * 2 ^ nat e) else (num * 2 ^ nat (- e), den))"

text \<open>The double nearest to a positive fraction.\<close>

definition toDouble :: "int \<Rightarrow> int \<Rightarrow> double" where
  "toDouble num den =
     (let e0 = bitLength num - bitLength den - 53;
          e = (case scaled num den e0 of (n, d) \<Rightarrow> if n div d \<ge> 2 ^ 53 then e0 + 1 else e0)
      in case scaled num den e of (n, d) \<Rightarrow> (roundHalfEven n d, e))"

definition doubleFraction :: "double \<Rightarrow> int \<times> int" where
  "doubleFraction x = (case x of (m, e) \<Rightarrow> if e \<ge> 0 then (m * 2 ^ nat e, 1) else (m, 2 ^ nat (- e)))"

definition divDouble :: "double \<Rightarrow> double \<Rightarrow> double" where
  "divDouble x y = (case (doubleFraction x, doubleFraction y) of ((a, b), (c, d)) \<Rightarrow> toDouble (a * d) (b * c))"

definition lessDouble :: "double \<Rightarrow> double \<Rightarrow> bool" where
  "lessDouble x y \<longleftrightarrow> (case (doubleFraction x, doubleFraction y) of ((a, b), (c, d)) \<Rightarrow> a * d < c * b)"

definition padDigits :: "nat \<Rightarrow> string \<Rightarrow> string" where
  "padDigits n s = replicate (n - length s) (CHR ''0'') @ s"

text \<open>\<^verbatim>\<open>strconv.FormatFloat(x, 'f', digits, 64)\<close>.\<close>

definition formatFixed :: "nat \<Rightarrow> double \<Rightarrow> string" where
  "formatFixed digits x =
     (case doubleFraction x of (a, b) \<Rightarrow>
        let r = roundHalfEven (a * 10 ^ digits) b
        in showInt (r div 10 ^ digits) @ ''.'' @ padDigits digits (showInt (r mod 10 ^ digits)))"

lemma double_examples:
  "formatFixed 6 (divDouble (toDouble 600 1) (toDouble 300 1)) = ''2.000000''"
  "formatFixed 6 (divDouble (toDouble 1 1) (toDouble 3 1)) = ''0.333333''"
  "formatFixed 6 (divDouble (toDouble 2 1) (toDouble 3 1)) = ''0.666667''"
  "lessDouble (divDouble (toDouble 1 1) (toDouble 1001 1)) (toDouble 1 1000)"
  "\<not> lessDouble (divDouble (toDouble 1 1) (toDouble 1000 1)) (toDouble 1 1000)"
  by code_simp+

end
