(* ===== verification/Container_Backend.thy ===== *)
theory Container_Backend
  imports Runner Go_Float
begin

text \<open>
  The container back end of the runner (\<^verbatim>\<open>runner/docker.go\<close>): the preflight of the daemon, the argument
  vector of a contained run and the bounded capture of its output. The command executor, which runs the
  container client, is a parameter: a function from the argument vector to what the process wrote and
  how it ended.
\<close>

section \<open>The executor and the options\<close>

datatype ProcError = ExitError int string | StartError string

fun procErrorText :: "ProcError \<Rightarrow> string" where
  "procErrorText (ExitError _ m) = m"
| "procErrorText (StartError m) = m"

record ProcOutcome =
  Proc_Stdout :: "string list"
  Proc_Stderr :: "string list"
  Proc_Error :: "ProcError option"

type_synonym Executor = "string list \<Rightarrow> ProcOutcome"

text \<open>The JSON decoders of the preflight: a list of texts, and the keys of an object.\<close>

record DockerDecoders =
  dd_strings :: "string \<Rightarrow> string list option"
  dd_keys :: "string \<Rightarrow> string list option"

record DockerBackend =
  db_runtime :: string
  db_requireRootless :: bool
  db_outputLimit :: int
  db_assurance :: Assurance

definition noAssurance :: Assurance where
  "noAssurance = \<lparr>As_Backend = [], As_Isolation = [], As_Runtime = [], As_Rootless = False, As_Seccomp = [], As_CgroupVersion = 0\<rparr>"

definition newDockerBackend :: "string \<Rightarrow> bool \<Rightarrow> int \<Rightarrow> DockerBackend" where
  "newDockerBackend runtime requireRootless limit =
     \<lparr>db_runtime = runtime, db_requireRootless = requireRootless,
      db_outputLimit = (if limit \<le> 0 then defaultCapturedOutputLimit else limit), db_assurance = noAssurance\<rparr>"

definition boundedMessage :: "string \<Rightarrow> string" where
  "boundedMessage value = takeI 1024 (trimSpace value)"

section \<open>Preflight\<close>

definition trimQuotes :: "string \<Rightarrow> string" where
  "trimQuotes s = rev (dropWhile (\<lambda>c. c = CHR 0x22) (rev (dropWhile (\<lambda>c. c = CHR 0x22) s)))"

definition digitValue :: "char \<Rightarrow> int" where
  "digitValue c = int (of_char c) - 48"

definition decimalDigit :: "char \<Rightarrow> bool" where
  "decimalDigit c \<longleftrightarrow> CHR ''0'' \<le> c \<and> c \<le> CHR ''9''"

text \<open>\<^verbatim>\<open>strconv.Atoi\<close>; an error is \<open>None\<close>.\<close>

definition atoi :: "string \<Rightarrow> int option" where
  "atoi s =
     (let negative = hasPrefix s ''-''; digits = (if negative \<or> hasPrefix s ''+'' then tl s else s);
          n = foldl (\<lambda>v c. 10 * v + digitValue c) 0 digits; v = (if negative then - n else n) in
      if digits = [] \<or> \<not> list_all decimalDigit digits \<or> \<not> is_int64 v then None else Some v)"

definition infoQuery :: "string \<Rightarrow> string list" where
  "infoQuery format = [''info'', ''--format'', format]"

definition dockerIsolation :: "bool \<Rightarrow> string \<Rightarrow> string" where
  "dockerIsolation rootless runtime =
     (let isolation = (if rootless then ''rootless_docker'' else ''docker'') in
      if runtime = [] then isolation else if runtime = ''runsc'' then ''gvisor'' else isolation @ ''+'' @ runtime)"

definition securityPosture :: "Host \<Rightarrow> DockerDecoders \<Rightarrow> DockerBackend \<Rightarrow> ProcOutcome \<Rightarrow> bool result" where
  "securityPosture h dec d info =
     (case Proc_Error info of
        Some e \<Rightarrow> Inl (Err (''docker info: '' @ procErrorText e @ '': '' @ boundedMessage (concat (Proc_Stderr info))))
      | None \<Rightarrow>
          (case dd_strings dec (trimSpace (concat (Proc_Stdout info))) of
             None \<Rightarrow> Inl (Err ''decode Docker security options'')
           | Some options \<Rightarrow>
               let rootless = list_ex (\<lambda>o'. strContains (toLower (host_lower h) o') ''rootless'') options;
                   seccomp = list_ex (\<lambda>o'. strContains (toLower (host_lower h) o') ''seccomp'') options in
               if db_requireRootless d \<and> \<not> rootless then Inl (Err ''rootless Docker is required but not reported by the daemon'')
               else if \<not> seccomp then Inl (Err ''Docker built-in seccomp is required but not reported by the daemon'')
               else Inr rootless))"

definition cgroupError :: err where
  "cgroupError = Err ''Docker cgroup driver/version could not be verified''"

definition cgroupPosture :: "bool \<Rightarrow> ProcOutcome \<Rightarrow> int result" where
  "cgroupPosture rootless info =
     (case Proc_Error info of
        Some e \<Rightarrow> Inl (Err (''docker cgroup preflight: '' @ procErrorText e @ '': '' @ boundedMessage (concat (Proc_Stderr info))))
      | None \<Rightarrow>
          (case Go_Strings.fields (concat (Proc_Stdout info)) of
             driver # version # _ \<Rightarrow>
               (case atoi (trimQuotes version) of
                  None \<Rightarrow> Inl cgroupError
                | Some v \<Rightarrow>
                    if trimQuotes driver = [] \<or> v \<le> 0 then Inl cgroupError
                    else if rootless \<and> v \<noteq> 2 then Inl (Err ''rootless Docker requires cgroup v2 for enforceable worker limits'')
                    else Inr v)
           | _ \<Rightarrow> Inl cgroupError))"

definition runtimePosture :: "DockerDecoders \<Rightarrow> DockerBackend \<Rightarrow> ProcOutcome \<Rightarrow> unit result" where
  "runtimePosture dec d info =
     (case Proc_Error info of
        Some e \<Rightarrow> Inl (Err (''docker runtime preflight: '' @ procErrorText e))
      | None \<Rightarrow>
          (case dd_keys dec (trimSpace (concat (Proc_Stdout info))) of
             None \<Rightarrow> Inl (Err ''decode Docker runtimes'')
           | Some runtimes \<Rightarrow>
               if db_runtime d \<notin> set runtimes then Inl (Err (''configured Docker runtime '' @ db_runtime d @ '' is unavailable''))
               else Inr ()))"

definition preflight :: "Host \<Rightarrow> DockerDecoders \<Rightarrow> Executor \<Rightarrow> DockerBackend \<Rightarrow> DockerBackend result" where
  "preflight h dec exec d =
     rbind (securityPosture h dec d (exec (infoQuery ''{{json .SecurityOptions}}''))) (\<lambda>rootless.
     rbind (cgroupPosture rootless (exec (infoQuery ''{{json .CgroupDriver}} {{json .CgroupVersion}}''))) (\<lambda>version.
     rbind (if db_runtime d \<noteq> [] then runtimePosture dec d (exec (infoQuery ''{{json .Runtimes}}'')) else Inr ()) (\<lambda>_.
     Inr (d\<lparr>db_assurance := \<lparr>As_Backend = ''docker'', As_Isolation = dockerIsolation rootless (db_runtime d),
       As_Runtime = (if db_runtime d = [] then ''runc'' else db_runtime d), As_Rootless = rootless, As_Seccomp = ''builtin'',
       As_CgroupVersion = version\<rparr>\<rparr>))))"

section \<open>The argument vector\<close>

definition dockerMount :: "string \<Rightarrow> string \<Rightarrow> bool \<Rightarrow> string" where
  "dockerMount source destination readOnly =
     ''type=bind,src='' @ source @ '',dst='' @ destination @ (if readOnly then '',readonly'' else [])"

definition safeArgument :: "string \<Rightarrow> bool" where
  "safeArgument value \<longleftrightarrow> value \<noteq> [] \<and> length value \<le> 64 \<and>
     list_all (\<lambda>c. CHR ''a'' \<le> c \<and> c \<le> CHR ''z'' \<or> CHR ''0'' \<le> c \<and> c \<le> CHR ''9'' \<or> c = CHR ''-'' \<or> c = CHR ''_'') value"

text \<open>\<^verbatim>\<open>safeID\<close> maps runes; every rune outside the alphabet, of any length, becomes one dash.\<close>

function safeID :: "string \<Rightarrow> string" where
  "safeID s = (if s = [] then [] else
     (if safeNameChar (hd s) then hd s else CHR ''-'') # safeID (drop (max 1 (snd (decodeRune s))) s))"
  by pat_completeness auto
termination by (relation "measure length") auto

declare safeID.simps [simp del]

definition cpuRate :: "ResourceBudget \<Rightarrow> double" where
  "cpuRate b = divDouble (toDouble (MaxCPUSeconds b) 1) (toDouble (MaxWallSeconds b) 1)"

definition workerTmpfs :: "string \<Rightarrow> string" where
  "workerTmpfs user =
     ''/tmp:rw,noexec,nosuid,nodev,size=67108864,mode=0700'' @
     (if user \<noteq> ''0:0'' then (case splitChar (CHR '':'') user of
        uid # gid # _ \<Rightarrow> '',uid='' @ uid @ '',gid='' @ gid | _ \<Rightarrow> []) else [])"

definition fixedOptions :: "WorkerJob \<Rightarrow> string \<Rightarrow> string \<Rightarrow> string list" where
  "fixedOptions job user staging =
     (let b = Job_Budget job in
      [''run'', ''--rm'', ''--name'', ''agent-smith-'' @ safeID (Job_RunID job),
       ''--network'', ''none'', ''--read-only'', ''--cap-drop'', ''ALL'',
       ''--security-opt'', ''no-new-privileges'', ''--pids-limit'', showInt (MaxPIDs b),
       ''--memory'', showInt (MaxMemoryBytes b), ''--memory-swap'', showInt (MaxMemoryBytes b),
       ''--cpus'', formatFixed 6 (cpuRate b),
       ''--ulimit'', ''core=0:0'', ''--ulimit'', ''nofile=1024:1024'',
       ''--ulimit'', ''fsize='' @ showInt (MaxDiskBytes b) @ '':'' @ showInt (MaxDiskBytes b),
       ''--user'', user, ''--workdir'', ''/work'', ''--tmpfs'', workerTmpfs user,
       ''--mount'', dockerMount staging ''/out'' False,
       ''--env'', ''HOME=/tmp'', ''--env'', ''PATH=/usr/local/bin:/usr/bin:/bin'', ''--env'', ''AGENT_SMITH_RESEARCH=1'',
       ''--label'', ''agent-smith.research.run='' @ Job_RunID job])"

fun environmentWords :: "(string \<times> string) list \<Rightarrow> string list result" where
  "environmentWords [] = Inr []"
| "environmentWords ((key, value) # kvs) =
     (if \<not> safeEnvironmentKey key \<or> CHR 0x00 \<in> set value then Inl (Err (''invalid apparatus environment '' @ key))
      else rbind (environmentWords kvs) (\<lambda>ws. Inr (''--env'' # (key @ ''='' @ value) # ws)))"

fun argumentWords :: "(string \<times> string) list \<Rightarrow> string list result" where
  "argumentWords [] = Inr []"
| "argumentWords ((key, value) # kvs) =
     (if \<not> safeArgument key \<or> CHR 0x00 \<in> set value \<or> length value > 4096 then Inl (Err (''invalid apparatus argument '' @ key))
      else rbind (argumentWords kvs) (\<lambda>ws. Inr ((''--'' @ key) # value # ws)))"

definition mountWords :: "JobMount list \<Rightarrow> string list" where
  "mountWords ms = concat (map (\<lambda>m. [''--mount'', dockerMount (Mount_HostPath m) (Mount_ContainerPath m) (Mount_ReadOnly m)]) ms)"

text \<open>The vector for the container client, with \<open>user\<close> the identity of the worker.\<close>

definition dockerArgs :: "DockerBackend \<Rightarrow> string \<Rightarrow> WorkerJob \<Rightarrow> string \<Rightarrow> string list result" where
  "dockerArgs d user job staging =
     rbind (environmentWords (sorted_list_of_fmap (Job_Environment job))) (\<lambda>environment.
     rbind (argumentWords (sorted_list_of_fmap (Job_Arguments job))) (\<lambda>arguments.
     Inr (fixedOptions job user staging @ (if db_runtime d \<noteq> [] then [''--runtime'', db_runtime d] else []) @
       mountWords (Job_Mounts job) @ environment @ [Job_ImageDigest job, ''/apparatus/dispatch'', operationText (Job_Operation job)] @ arguments)))"

section \<open>Execution\<close>

record limitWriter =
  lw_data :: string
  lw_limit :: int
  lw_dropped :: int
  lw_truncated :: bool

definition limitWrite :: "string \<Rightarrow> limitWriter \<Rightarrow> limitWriter" where
  "limitWrite input w =
     (let remaining = lw_limit w - int (length (lw_data w));
          w1 = (if remaining > 0 then w\<lparr>lw_data := lw_data w @ take (nat (min (int (length input)) remaining)) input\<rparr> else w) in
      if int (length input) > remaining
      then w1\<lparr>lw_dropped := lw_dropped w1 + (int (length input) - max remaining 0), lw_truncated := True\<rparr> else w1)"

definition newLimitWriter :: "int \<Rightarrow> limitWriter" where
  "newLimitWriter limit = \<lparr>lw_data = [], lw_limit = limit, lw_dropped = 0, lw_truncated = False\<rparr>"

definition captureOutput :: "int \<Rightarrow> string list \<Rightarrow> limitWriter" where
  "captureOutput limit chunks = foldl (\<lambda>w input. limitWrite input w) (newLimitWriter limit) chunks"

definition executionOf :: "DockerBackend \<Rightarrow> WorkerJob \<Rightarrow> int \<Rightarrow> ProcOutcome \<Rightarrow> Execution" where
  "executionOf d job millis out =
     (let stdout = captureOutput (db_outputLimit d) (Proc_Stdout out); stderr = captureOutput (db_outputLimit d) (Proc_Stderr out) in
      \<lparr>Exec_Status = (if Proc_Error out = None then RunCompleted else RunFailed),
       Exec_Exit = (case Proc_Error out of
          None \<Rightarrow> noExit
        | Some (ExitError code m) \<Rightarrow> \<lparr>Exit_Code = code, Exit_Signal = [], Exit_Reason = m\<rparr>
        | Some (StartError m) \<Rightarrow> \<lparr>Exit_Code = - 1, Exit_Signal = [], Exit_Reason = m\<rparr>),
       Exec_Usage = noUsage\<lparr>Usage_WallMillis := millis\<rparr>,
       Exec_Stdout = lw_data stdout, Exec_Stderr = lw_data stderr,
       Exec_StdoutTruncated = lw_truncated stdout, Exec_StderrTruncated = lw_truncated stderr,
       Exec_BytesDropped = lw_dropped stdout + lw_dropped stderr,
       Exec_Apparatus = \<lparr>Identity_ManifestID = strGet (Job_Arguments job) ''manifest'', Identity_ImageDigest = Job_ImageDigest job,
         Identity_TargetRevision = strGet (Job_Arguments job) ''revision'', Identity_Harness = strGet (Job_Arguments job) ''harness'',
         Identity_Sanitizer = strGet (Job_Arguments job) ''sanitizer'', Identity_Runtime = As_Runtime (db_assurance d)\<rparr>\<rparr>)"

text \<open>
  \<^verbatim>\<open>Execute\<close>: the execution with the process error, or the error before anything ran. \<open>hostUser\<close> is the
  identity of the serving process, \<open>millis\<close> the measured time; the removal of a container whose context
  ended has no result.
\<close>

definition dockerExecute :: "Executor \<Rightarrow> string \<Rightarrow> int \<Rightarrow> DockerBackend \<Rightarrow> WorkerJob \<Rightarrow> string \<Rightarrow> (Execution \<times> ProcError option) result" where
  "dockerExecute exec hostUser millis d job staging =
     (if As_Isolation (db_assurance d) = [] then Inl (Err ''docker backend used before successful preflight'')
      else case budgetValidate (Job_Budget job) of
        Inl e \<Rightarrow> Inl (Err (''docker backend: '' @ errText e))
      | Inr _ \<Rightarrow>
          if \<not> digestPattern (Job_ImageDigest job) then Inl (Err ''docker backend requires exact image digest'')
          else
            (let inspected = exec [''image'', ''inspect'', ''--format'', ''{{.Id}}'', Job_ImageDigest job] in
             case Proc_Error inspected of
               Some e \<Rightarrow> Inl (Err (''inspect apparatus image: '' @ procErrorText e @ '': '' @ boundedMessage (concat (Proc_Stderr inspected))))
             | None \<Rightarrow>
                 if trimSpace (concat (Proc_Stdout inspected)) \<noteq> Job_ImageDigest job
                 then Inl (Err ''resolved apparatus image does not match required digest'')
                 else if lessDouble (cpuRate (Job_Budget job)) (toDouble 1 1000)
                 then Inl (Err ''docker backend: CPU budget is too small for the wall-clock envelope'')
                 else
                   rbind (dockerArgs d (if As_Rootless (db_assurance d) then ''0:0'' else hostUser) job staging) (\<lambda>args.
                   let out = exec args in Inr (executionOf d job millis out, Proc_Error out))))"

section \<open>How the client reads the vector\<close>

text \<open>
  The container client reads options up to the first word that is not one; \<^verbatim>\<open>--rm\<close> and \<^verbatim>\<open>--read-only\<close>
  stand alone, every other option of the vector takes the next word, whatever it is.
\<close>

definition bareFlag :: "string \<Rightarrow> bool" where
  "bareFlag w \<longleftrightarrow> w = ''--rm'' \<or> w = ''--read-only''"

type_synonym Option = "string \<times> string"

fun readOptions :: "string list \<Rightarrow> (Option list \<times> string list) option" where
  "readOptions [] = None"
| "readOptions (w # ws) =
     (if \<not> hasPrefix w ''--'' then Some ([], w # ws)
      else if bareFlag w then map_option (\<lambda>(os, rest). ((w, []) # os, rest)) (readOptions ws)
      else (case ws of [] \<Rightarrow> None | v # rest \<Rightarrow> map_option (\<lambda>(os, rest'). ((w, v) # os, rest')) (readOptions rest)))"

definition readRun :: "string list \<Rightarrow> (Option list \<times> string \<times> string list) option" where
  "readRun args = (case args of
     verb # ws \<Rightarrow> if verb = ''run'' then (case readOptions ws of Some (os, img # cmd) \<Rightarrow> Some (os, img, cmd) | _ \<Rightarrow> None) else None
   | [] \<Rightarrow> None)"

definition valuesOf :: "string \<Rightarrow> Option list \<Rightarrow> string list" where
  "valuesOf flag opts = map snd (filter (\<lambda>o'. fst o' = flag) opts)"

lemma valuesOf_simps [simp]: "valuesOf flag [] = []" "valuesOf flag (p # ps) = (if fst p = flag then snd p # valuesOf flag ps else valuesOf flag ps)"
  "valuesOf flag (ps @ qs) = valuesOf flag ps @ valuesOf flag qs"
  by (simp_all add: valuesOf_def)

definition optionWords :: "Option list \<Rightarrow> string list" where
  "optionWords opts = concat (map (\<lambda>(flag, v). if bareFlag flag then [flag] else [flag, v]) opts)"

definition wellFormed :: "Option \<Rightarrow> bool" where
  "wellFormed p \<longleftrightarrow> hasPrefix (fst p) ''--'' \<and> (bareFlag (fst p) \<longrightarrow> snd p = [])"

lemma readOptions_words:
  "list_all wellFormed opts \<Longrightarrow> \<not> hasPrefix img ''--'' \<Longrightarrow> readOptions (optionWords opts @ img # cmd) = Some (opts, img # cmd)"
  by (induction opts) (auto simp: optionWords_def wellFormed_def)

lemma readRun_words:
  "list_all wellFormed opts \<Longrightarrow> \<not> hasPrefix img ''--'' \<Longrightarrow> readRun (''run'' # optionWords opts @ img # cmd) = Some (opts, img, cmd)"
  by (simp add: readRun_def readOptions_words)

text \<open>The options of a run.\<close>

definition fixedRunOptions :: "WorkerJob \<Rightarrow> string \<Rightarrow> string \<Rightarrow> Option list" where
  "fixedRunOptions job user staging =
     (let b = Job_Budget job in
      [(''--rm'', []), (''--name'', ''agent-smith-'' @ safeID (Job_RunID job)), (''--network'', ''none''), (''--read-only'', []), (''--cap-drop'', ''ALL''),
       (''--security-opt'', ''no-new-privileges''), (''--pids-limit'', showInt (MaxPIDs b)), (''--memory'', showInt (MaxMemoryBytes b)),
       (''--memory-swap'', showInt (MaxMemoryBytes b)), (''--cpus'', formatFixed 6 (cpuRate b)), (''--ulimit'', ''core=0:0''),
       (''--ulimit'', ''nofile=1024:1024''), (''--ulimit'', ''fsize='' @ showInt (MaxDiskBytes b) @ '':'' @ showInt (MaxDiskBytes b)),
       (''--user'', user), (''--workdir'', ''/work''), (''--tmpfs'', workerTmpfs user), (''--mount'', dockerMount staging ''/out'' False),
       (''--env'', ''HOME=/tmp''), (''--env'', ''PATH=/usr/local/bin:/usr/bin:/bin''), (''--env'', ''AGENT_SMITH_RESEARCH=1''),
       (''--label'', ''agent-smith.research.run='' @ Job_RunID job)])"

definition mountOptions :: "JobMount list \<Rightarrow> Option list" where
  "mountOptions ms = map (\<lambda>m. (''--mount'', dockerMount (Mount_HostPath m) (Mount_ContainerPath m) (Mount_ReadOnly m))) ms"

lemma fixed_words: "fixedOptions job user staging = ''run'' # optionWords (fixedRunOptions job user staging)"
  by (simp add: fixedOptions_def fixedRunOptions_def Let_def optionWords_def bareFlag_def)

lemma mount_words: "mountWords ms = optionWords (mountOptions ms)"
  by (induction ms) (simp_all add: mountWords_def mountOptions_def optionWords_def bareFlag_def)

lemma environment_words:
  "environmentWords kvs = Inr ws \<Longrightarrow> ws = optionWords (map (\<lambda>(k, v). (''--env'', k @ ''='' @ v)) kvs) \<and> (\<forall>(k, v) \<in> set kvs. safeEnvironmentKey k)"
  by (induction kvs arbitrary: ws rule: environmentWords.induct) (auto simp: optionWords_def bareFlag_def split: if_splits)

lemma optionWords_append [simp]: "optionWords (os @ ps) = optionWords os @ optionWords ps"
  by (simp add: optionWords_def)

text \<open>What the validation of a job says of its mounts.\<close>

definition soundMount :: "JobMount \<Rightarrow> bool" where
  "soundMount m \<longleftrightarrow> isAbs (Mount_HostPath m) \<and> isAbs (Mount_ContainerPath m) \<and> Mount_ContainerPath m \<noteq> ''/'' \<and>
     CHR '','' \<notin> set (Mount_HostPath m) \<and> CHR '','' \<notin> set (Mount_ContainerPath m) \<and> (Mount_ReadOnly m \<or> Mount_Name m = ''corpus'')"

lemma strContains_char: "\<not> strContains s [c] \<Longrightarrow> c \<notin> set s"
  by (metis strContains_iff append_Cons append_Nil split_list)

lemma mounts_sound: "jobMountLoop env names containers ms = Inr () \<Longrightarrow> list_all soundMount ms"
  by (induction env names containers ms rule: jobMountLoop.induct) (auto simp: soundMount_def invalidJob_def dest: strContains_char split: if_splits)

lemma splitChar_once: "c \<notin> set w \<Longrightarrow> splitChar c (w @ c # s) = w # splitChar c s"
  by (induction w) auto

lemma splitChar_none: "c \<notin> set w \<Longrightarrow> splitChar c w = [w]"
  by (induction w) auto

lemma mount_fields:
  assumes "CHR '','' \<notin> set source" "CHR '','' \<notin> set destination"
  shows "splitChar (CHR '','') (dockerMount source destination readOnly) =
    [''type=bind'', ''src='' @ source, ''dst='' @ destination] @ (if readOnly then [''readonly''] else [])"
  using assms by (cases readOnly) (simp_all add: dockerMount_def splitChar_once splitChar_none)

lemma digest_is_no_option: "digestPattern s \<Longrightarrow> \<not> hasPrefix s ''--''"
  by (auto simp: digestPattern_def hasPrefix_iff)

section \<open>Properties\<close>


text \<open>A rootful daemon, a job with a corpus and an option of the sanitizer.\<close>

definition containedJob :: WorkerJob where
  "containedJob =
     \<lparr>Job_SchemaVersion = 1, Job_ID = ''j1'', Job_RunID = ''r1'', Job_CampaignID = ''c1'', Job_ScopeID = ''s1'', Job_TargetID = ''t1'',
      Job_BuildID = [], Job_InputArtifactID = [], Job_PatchArtifactID = [], Job_Operation = OperationFuzz,
      Job_Arguments = fmap_of_list [(''harness'', ''--privileged'')],
      Job_Environment = fmap_of_list [(''ASAN_OPTIONS'', ''x'')], Job_ImageDigest = ''sha256:'' @ replicate 64 (CHR ''a''), Job_Runtime = [],
      Job_Mounts = [\<lparr>Mount_Name = ''corpus'', Mount_HostPath = ''/c'', Mount_ContainerPath = ''/corpus'', Mount_ReadOnly = False\<rparr>],
      Job_ArtifactRules = [], Job_Budget = sampleBudget, Job_AuditCorrelationID = ''k1'', Job_Status = RunQueued,
      Job_CreatedAt = 0, Job_UpdatedAt = 0\<rparr>"

definition openEnv :: Env where
  "openEnv = \<lparr>env_host = \<lparr>host_cwd = Some ''/'', host_links = (\<lambda>p. Some p), host_lower = (\<lambda>s. s), host_clock = 100\<rparr>,
     env_digest = (\<lambda>_. []), env_sha = (\<lambda>s. s), env_aead = sampleAead, env_random = (\<lambda>_. []), env_nonce = (\<lambda>_. []), env_isDir = (\<lambda>p. True)\<rparr>"

definition plainBackend :: DockerBackend where
  "plainBackend = newDockerBackend [] False 0"


lemma limitWrite_keeps: "lw_limit (limitWrite input w) = lw_limit w"
  by (simp add: limitWrite_def Let_def)

text \<open>A writer that has seen \<open>s\<close>.\<close>

definition hasSeen :: "int \<Rightarrow> string \<Rightarrow> limitWriter \<Rightarrow> bool" where
  "hasSeen limit s w \<longleftrightarrow> lw_limit w = limit \<and> lw_data w = take (nat limit) s \<and> lw_dropped w = max 0 (int (length s) - limit) \<and>
     (lw_truncated w \<longleftrightarrow> limit < int (length s))"

lemma limitWrite_seen: "0 \<le> limit \<Longrightarrow> hasSeen limit s w \<Longrightarrow> hasSeen limit (s @ input) (limitWrite input w)"
  by (auto simp: hasSeen_def limitWrite_def Let_def min_def max_def nat_diff_distrib)

lemma captureOutput_seen: "0 \<le> limit \<Longrightarrow> hasSeen limit s w \<Longrightarrow> hasSeen limit (s @ concat chunks) (foldl (\<lambda>w input. limitWrite input w) w chunks)"
proof (induction chunks arbitrary: s w)
  case (Cons c chunks)
  from Cons.IH [OF Cons.prems(1) limitWrite_seen [OF Cons.prems]] show ?case by simp
qed simp

text \<open>
  Captured output is a bounded prefix, however it was written: a back end keeps exactly the first bytes up to
  its limit, which is positive, counts exactly the rest as dropped and says so, for every way the
  process splits its output into writes.
\<close>

theorem captured_output_is_prefix:
  fixes d :: DockerBackend
  assumes "d = newDockerBackend runtime rootless configured"
  shows "0 < db_outputLimit d \<and>
    lw_data (captureOutput (db_outputLimit d) chunks) = take (nat (db_outputLimit d)) (concat chunks) \<and>
    lw_dropped (captureOutput (db_outputLimit d) chunks) = max 0 (int (length (concat chunks)) - db_outputLimit d) \<and>
    (lw_truncated (captureOutput (db_outputLimit d) chunks) \<longleftrightarrow> db_outputLimit d < int (length (concat chunks)))"
proof -
  have pos: "0 < db_outputLimit d" using assms by (simp add: newDockerBackend_def defaultCapturedOutputLimit_def)
  then have "hasSeen (db_outputLimit d) [] (newLimitWriter (db_outputLimit d))" by (simp add: hasSeen_def newLimitWriter_def)
  from captureOutput_seen [OF _ this, of chunks] pos show ?thesis by (simp add: captureOutput_def hasSeen_def)
qed

text \<open>
  No job runs on a daemon whose posture was not verified: an execution gets past its first check only on a
  back end whose preflight succeeded, and then the daemon reported seccomp, reported rootless mode if
  it is required, runs rootless only with cgroup v2, and knows the configured runtime.
\<close>

theorem preflight_verifies_posture:
  assumes "preflight h dec exec d = Inr d'"
  shows "As_Isolation (db_assurance d') \<noteq> [] \<and> As_Seccomp (db_assurance d') = ''builtin'' \<and>
    (db_requireRootless d \<longrightarrow> As_Rootless (db_assurance d')) \<and>
    (As_Rootless (db_assurance d') \<longrightarrow> As_CgroupVersion (db_assurance d') = 2) \<and> 0 < As_CgroupVersion (db_assurance d') \<and>
    (\<exists>options. dd_strings dec (trimSpace (concat (Proc_Stdout (exec (infoQuery ''{{json .SecurityOptions}}''))))) = Some options \<and>
       (\<exists>line \<in> set options. strContains (toLower (host_lower h) line) ''seccomp'') \<and>
       (As_Rootless (db_assurance d') \<longleftrightarrow> (\<exists>line \<in> set options. strContains (toLower (host_lower h) line) ''rootless''))) \<and>
    (db_runtime d \<noteq> [] \<longrightarrow> (\<exists>runtimes. dd_keys dec (trimSpace (concat (Proc_Stdout (exec (infoQuery ''{{json .Runtimes}}''))))) = Some runtimes \<and>
       db_runtime d \<in> set runtimes)) \<and>
    isl (dockerExecute exec user millis (newDockerBackend runtime rootless limit) job staging)"
proof -
  from assms obtain rl v u where rl: "securityPosture h dec d (exec (infoQuery ''{{json .SecurityOptions}}'')) = Inr rl"
    and v: "cgroupPosture rl (exec (infoQuery ''{{json .CgroupDriver}} {{json .CgroupVersion}}'')) = Inr v"
    and rt: "(if db_runtime d \<noteq> [] then runtimePosture dec d (exec (infoQuery ''{{json .Runtimes}}'')) else Inr ()) = Inr u"
    and d'0: "d\<lparr>db_assurance := \<lparr>As_Backend = ''docker'', As_Isolation = dockerIsolation rl (db_runtime d),
       As_Runtime = (if db_runtime d = [] then ''runc'' else db_runtime d), As_Rootless = rl, As_Seccomp = ''builtin'', As_CgroupVersion = v\<rparr>\<rparr> = d'"
    unfolding preflight_def rbind_Inr_iff sum.inject by (elim exE conjE) (rule that)
  note d' = d'0 [symmetric]
  have "dockerIsolation rl (db_runtime d) \<noteq> []" by (simp add: dockerIsolation_def Let_def)
  moreover have "0 < v \<and> (rl \<longrightarrow> v = 2)" using v by (auto simp: cgroupPosture_def split: option.splits list.splits if_splits)
  moreover from rl obtain options where "dd_strings dec (trimSpace (concat (Proc_Stdout (exec (infoQuery ''{{json .SecurityOptions}}''))))) = Some options"
    "(db_requireRootless d \<longrightarrow> rl)" "\<exists>line \<in> set options. strContains (toLower (host_lower h) line) ''seccomp''"
    "rl \<longleftrightarrow> (\<exists>line \<in> set options. strContains (toLower (host_lower h) line) ''rootless'')"
    by (auto simp: securityPosture_def Let_def list_ex_iff split: option.splits if_splits)
  moreover have "\<exists>runtimes. dd_keys dec (trimSpace (concat (Proc_Stdout (exec (infoQuery ''{{json .Runtimes}}''))))) = Some runtimes \<and>
      db_runtime d \<in> set runtimes" if "db_runtime d \<noteq> []"
    using rt that by (auto simp: runtimePosture_def split: option.splits if_splits)
  moreover have "isl (dockerExecute exec user millis (newDockerBackend runtime rootless limit) job staging)"
    by (simp add: dockerExecute_def newDockerBackend_def noAssurance_def)
  ultimately show ?thesis by (auto simp: d')
qed

definition rootlessDaemon :: Executor where
  "rootlessDaemon args = \<lparr>Proc_Stdout = [if args = infoQuery ''{{json .SecurityOptions}}'' then ''x'' else ''systemd 2''], Proc_Stderr = [], Proc_Error = None\<rparr>"

definition sampleDecoders :: DockerDecoders where
  "sampleDecoders = \<lparr>dd_strings = (\<lambda>_. Some [''name=seccomp'', ''name=rootless'']), dd_keys = (\<lambda>_. Some [''runsc''])\<rparr>"

end
