(* ===== verification/Integrity.thy ===== *)
theory Integrity
  imports Custody_Theorems Apparatus
begin

text \<open>
  The offline verification of a custody store (\<^verbatim>\<open>store/integrity.go\<close>). What the database engine says of its
  own file (\<^verbatim>\<open>PRAGMA integrity_check\<close>, \<^verbatim>\<open>foreign_key_check\<close> and \<^verbatim>\<open>json_valid\<close>) is a parameter; the audit chain,
  the blobs of active artifacts and the tree of blobs are checked on the model of the store. Blobs are
  regular private files; file modes and empty directories are not part of the model.
\<close>

section \<open>The report\<close>

record DatabaseReport =
  dr_integrity :: "string list"
  dr_foreignViolation :: bool
  dr_invalidJSON :: "string \<Rightarrow> int"

record IntegrityReport =
  Int_SchemaVersion :: int
  Int_VerifiedAt :: time
  Int_Database :: string
  Int_ForeignKeys :: string
  Int_AuditEvents :: int
  Int_ActiveArtifacts :: int
  Int_ActiveBlobs :: int
  Int_PlaintextBytes :: int
  Int_OrphanBlobs :: int

definition integrityError :: "string \<Rightarrow> err" where
  "integrityError m = Err (''research store: '' @ m)"

definition boundedIntegrityMessage :: "string \<Rightarrow> string" where
  "boundedIntegrityMessage value = takeI 512 (trimSpace value)"

fun verifySQLiteIntegrity :: "bool \<Rightarrow> string list \<Rightarrow> unit result" where
  "verifySQLiteIntegrity seen [] =
     (if seen then Inr () else Inl (integrityError ''database integrity check returned no result''))"
| "verifySQLiteIntegrity seen (r # rs) =
     (if r \<noteq> ''ok'' then Inl (integrityError (''database integrity check failed: '' @ boundedIntegrityMessage r))
      else verifySQLiteIntegrity True rs)"

definition verifyForeignKeys :: "DatabaseReport \<Rightarrow> unit result" where
  "verifyForeignKeys db =
     (if dr_foreignViolation db then Inl (integrityError ''foreign-key check found a violation'') else Inr ())"

definition jsonTables :: "string list" where
  "jsonTables = [''authorization scopes'', ''campaigns'', ''research records'', ''artifacts'', ''audit details'']"

fun verifyStoredJSON :: "DatabaseReport \<Rightarrow> string list \<Rightarrow> unit result" where
  "verifyStoredJSON db [] = Inr ()"
| "verifyStoredJSON db (label # ls) =
     (if dr_invalidJSON db label \<noteq> 0
      then Inl (integrityError (label @ '' contain '' @ showInt (dr_invalidJSON db label) @ '' invalid JSON records''))
      else verifyStoredJSON db ls)"

section \<open>Blobs\<close>

definition isHex :: "string \<Rightarrow> bool" where
  "isHex value \<longleftrightarrow> value \<noteq> [] \<and> list_all lowerHexChar value"

definition lowerHexName :: "(string \<Rightarrow> string) \<Rightarrow> string \<Rightarrow> bool" where
  "lowerHexName lower name \<longleftrightarrow> toLower lower name = name \<and> isHex name"

text \<open>One entry of the walk below \<^verbatim>\<open>blobs\<close>, by its path relative to that directory.\<close>

definition checkBlobEntry :: "(string \<Rightarrow> string) \<Rightarrow> string \<Rightarrow> unit result" where
  "checkBlobEntry lower relative =
     (case splitChar slash relative of
        [name] \<Rightarrow> Inl (integrityError (''invalid artifact blob depth '' @ quoted relative))
      | [dir, name] \<Rightarrow>
          if length dir \<noteq> 2 \<or> \<not> lowerHexName lower dir then Inl (integrityError (''invalid artifact shard directory '' @ quoted dir))
          else if length name \<noteq> 64 \<or> \<not> hasPrefix name dir \<or> \<not> lowerHexName lower name
          then Inl (integrityError (''invalid artifact blob path '' @ quoted name))
          else Inr ()
      | dir # sub # _ \<Rightarrow>
          if length dir \<noteq> 2 \<or> \<not> lowerHexName lower dir then Inl (integrityError (''invalid artifact shard directory '' @ quoted dir))
          else Inl (integrityError (''invalid artifact shard directory '' @ quoted sub))
      | [] \<Rightarrow> Inr ())"

fun countOrphans :: "(string \<Rightarrow> string) \<Rightarrow> string list \<Rightarrow> int \<Rightarrow> string list \<Rightarrow> int \<times> err option" where
  "countOrphans lower referenced n [] = (n, None)"
| "countOrphans lower referenced n (path # ps) =
     (case checkBlobEntry lower (trimPrefix path ''blobs/'') of
        Inl e \<Rightarrow> (n, Some e)
      | Inr _ \<Rightarrow> countOrphans lower referenced (if path \<in> set referenced then n else n + 1) ps)"

definition verifyArtifactBlobTree :: "Env \<Rightarrow> string list \<Rightarrow> Store \<Rightarrow> int \<times> err option" where
  "verifyArtifactBlobTree env referenced s =
     countOrphans (host_lower (env_host env)) referenced 0
       (sort (filter (\<lambda>p. hasPrefix p ''blobs/'') (map fst (st_blobs s))))"

text \<open>The loop over the blobs of active artifacts; the paths it has seen are the referenced ones.\<close>

fun verifyBlobs :: "Env \<Rightarrow> StoreConfig \<Rightarrow> Store \<Rightarrow> (string \<times> string \<times> int) list \<Rightarrow> IntegrityReport \<Rightarrow> string list \<Rightarrow>
    IntegrityReport \<times> string list result" where
  "verifyBlobs env cfg s [] report referenced = (report, Inr referenced)"
| "verifyBlobs env cfg s ((cid, storagePath, bsize) # bs) report referenced =
     (case fst (resolveStoredBlob cid storagePath bsize s) of
        Inl e \<Rightarrow> (report, Inl (wrapErr (''research store: resolve active artifact '' @ cid @ '': '') e))
      | Inr (path, content) \<Rightarrow>
          (case verifyBlob env cfg content bsize cid of
             Inl e \<Rightarrow> (report, Inl (wrapErr (''research store: verify active artifact '' @ cid @ '': '') e))
           | Inr _ \<Rightarrow>
               (let report' = report\<lparr>Int_ActiveBlobs := Int_ActiveBlobs report + 1\<rparr> in
                if bsize > 0 \<and> Int_PlaintextBytes report' > 2 ^ 63 - 1 - bsize
                then (report', Inl (integrityError ''artifact byte count overflow''))
                else verifyBlobs env cfg s bs (report'\<lparr>Int_PlaintextBytes := Int_PlaintextBytes report' + bsize\<rparr>) (path # referenced))))"

section \<open>The verification\<close>

definition newReport :: "Env \<Rightarrow> IntegrityReport" where
  "newReport env = \<lparr>Int_SchemaVersion = 1, Int_VerifiedAt = env_now env, Int_Database = [], Int_ForeignKeys = [], Int_AuditEvents = 0,
     Int_ActiveArtifacts = 0, Int_ActiveBlobs = 0, Int_PlaintextBytes = 0, Int_OrphanBlobs = 0\<rparr>"

definition verifyCustody :: "Env \<Rightarrow> StoreConfig \<Rightarrow> Store \<Rightarrow> IntegrityReport \<Rightarrow> IntegrityReport \<times> err option" where
  "verifyCustody env cfg s report =
     (case verifyBlobs env cfg s (listArtifactBlobs s)
         (report\<lparr>Int_ActiveArtifacts := int (length (filter (\<lambda>(i, a). Artifact_PurgedAt a = None) (st_artifacts s)))\<rparr>) [] of
        (r, Inl e) \<Rightarrow> (r, Some e)
      | (r, Inr referenced) \<Rightarrow>
          (case verifyArtifactBlobTree env referenced s of
             (_, Some e) \<Rightarrow> (r, Some e)
           | (orphans, None) \<Rightarrow>
               (r\<lparr>Int_OrphanBlobs := orphans\<rparr>,
                if orphans \<noteq> 0 then Some (integrityError (''found '' @ showInt orphans @ '' unreferenced artifact blobs'')) else None)))"

definition verifyIntegrity :: "Env \<Rightarrow> StoreConfig \<Rightarrow> DatabaseReport \<Rightarrow> Store \<Rightarrow> IntegrityReport \<times> err option" where
  "verifyIntegrity env cfg db s =
     (case verifySQLiteIntegrity False (dr_integrity db) of
        Inl e \<Rightarrow> (newReport env, Some e)
      | Inr _ \<Rightarrow>
          (let r1 = (newReport env)\<lparr>Int_Database := ''ok''\<rparr> in
           case verifyForeignKeys db of
             Inl e \<Rightarrow> (r1, Some e)
           | Inr _ \<Rightarrow>
               (let r2 = r1\<lparr>Int_ForeignKeys := ''ok''\<rparr> in
                case verifyStoredJSON db jsonTables of
                  Inl e \<Rightarrow> (r2, Some e)
                | Inr _ \<Rightarrow>
                    (case fst (storeVerifyAuditChain env s) of
                       Inl e \<Rightarrow> (r2, Some e)
                     | Inr _ \<Rightarrow> verifyCustody env cfg s (r2\<lparr>Int_AuditEvents := int (length (st_audit s))\<rparr>)))))"

section \<open>What a clean report means\<close>

lemma countOrphans_clean:
  "countOrphans lower referenced n ps = (m, None) \<Longrightarrow> m = n + int (length (filter (\<lambda>p. p \<notin> set referenced) ps))"
proof (induction ps arbitrary: n)
  case (Cons p ps)
  then show ?case by (cases "p \<in> set referenced") (fastforce split: sum.splits)+
qed simp

lemma resolveStoredBlob_iff:
  "fst (resolveStoredBlob cid p n s) = Inr (path, content) \<longleftrightarrow>
     validatedArtifactBlobPath cid p n = Inr path \<and> map_of (st_blobs s) path = Some content"
  by (auto simp: resolveStoredBlob_def act_bind_def act_lift_def act_gets_def split: sum.splits option.splits)

definition blobPath :: "string \<times> string \<times> int \<Rightarrow> string" where
  "blobPath b = blobRelative (trimPrefix (fst b) ''sha256:'')"

definition blobVerified :: "Env \<Rightarrow> StoreConfig \<Rightarrow> Store \<Rightarrow> string \<times> string \<times> int \<Rightarrow> bool" where
  "blobVerified env cfg s = (\<lambda>(cid, p, n).
     validatedArtifactBlobPath cid p n = Inr (blobPath (cid, p, n)) \<and>
     (\<exists>content. map_of (st_blobs s) (blobPath (cid, p, n)) = Some content \<and> ok (verifyBlob env cfg content n cid)))"

lemma verifyBlobs_clean:
  assumes "verifyBlobs env cfg s bs r referenced = (r', Inr referenced')"
  shows "list_all (blobVerified env cfg s) bs \<and> set referenced' = set referenced \<union> blobPath ` set bs \<and>
    Int_ActiveBlobs r' = Int_ActiveBlobs r + int (length bs) \<and>
    Int_PlaintextBytes r' = Int_PlaintextBytes r + sum_list (map (snd \<circ> snd) bs) \<and>
    Int_AuditEvents r' = Int_AuditEvents r \<and> Int_ActiveArtifacts r' = Int_ActiveArtifacts r \<and>
    Int_Database r' = Int_Database r \<and> Int_ForeignKeys r' = Int_ForeignKeys r"
  using assms
proof (induction bs arbitrary: r referenced)
  case (Cons b bs)
  obtain cid p n where b: "b = (cid, p, n)" by (cases b)
  from Cons.prems b obtain path content where res: "fst (resolveStoredBlob cid p n s) = Inr (path, content)"
    by (auto split: sum.splits)
  from Cons.prems b res obtain v where v: "verifyBlob env cfg content n cid = Inr v"
    by (auto split: sum.splits)
  let ?r = "r\<lparr>Int_ActiveBlobs := Int_ActiveBlobs r + 1, Int_PlaintextBytes := Int_PlaintextBytes r + n\<rparr>"
  from Cons.prems b res v have "verifyBlobs env cfg s bs ?r (path # referenced) = (r', Inr referenced')"
    by (auto simp: Let_def split: if_splits)
  note IH = Cons.IH [OF this]
  from res have path: "validatedArtifactBlobPath cid p n = Inr path" "map_of (st_blobs s) path = Some content"
    by (simp_all add: resolveStoredBlob_iff)
  then have "path = blobPath b" by (simp add: validatedArtifactBlobPath_iff blobPath_def b)
  with path v have "blobVerified env cfg s b" by (auto simp: blobVerified_def b)
  with IH \<open>path = blobPath b\<close> b show ?case by auto
qed simp

lemma verifyCustody_clean:
  assumes "verifyCustody env cfg s r = (r', None)"
  shows "list_all (blobVerified env cfg s) (listArtifactBlobs s) \<and>
    (\<forall>path \<in> fst ` set (st_blobs s). hasPrefix path ''blobs/'' \<longrightarrow> path \<in> blobPath ` set (listArtifactBlobs s)) \<and>
    Int_ActiveBlobs r' = Int_ActiveBlobs r + int (length (listArtifactBlobs s)) \<and>
    Int_PlaintextBytes r' = Int_PlaintextBytes r + sum_list (map (snd \<circ> snd) (listArtifactBlobs s)) \<and>
    Int_AuditEvents r' = Int_AuditEvents r \<and> Int_OrphanBlobs r' = 0 \<and>
    Int_ActiveArtifacts r' = int (length (filter (\<lambda>(i, a). Artifact_PurgedAt a = None) (st_artifacts s)))"
proof -
  let ?r = "r\<lparr>Int_ActiveArtifacts := int (length (filter (\<lambda>(i, a). Artifact_PurgedAt a = None) (st_artifacts s)))\<rparr>"
  obtain r1 x where vb: "verifyBlobs env cfg s (listArtifactBlobs s) ?r [] = (r1, x)" by fastforce
  with assms obtain referenced where x: "x = Inr referenced"
    by (cases x) (auto simp: verifyCustody_def split_def)
  obtain n oe where tree: "verifyArtifactBlobTree env referenced s = (n, oe)" by fastforce
  with assms vb x have n: "oe = None" "n = 0" "r' = r1\<lparr>Int_OrphanBlobs := 0\<rparr>"
    by (auto simp: verifyCustody_def split: option.splits if_splits)
  with tree have "filter (\<lambda>p. p \<notin> set referenced) (sort (filter (\<lambda>p. hasPrefix p ''blobs/'') (map fst (st_blobs s)))) = []"
    by (auto simp: verifyArtifactBlobTree_def dest!: countOrphans_clean)
  then have "\<forall>path \<in> fst ` set (st_blobs s). hasPrefix path ''blobs/'' \<longrightarrow> path \<in> set referenced"
    by (auto simp: filter_empty_conv)
  with verifyBlobs_clean [OF vb [unfolded x]] n(3) show ?thesis by simp
qed

lemma verifyIntegrity_clean:
  assumes "verifyIntegrity env cfg db s = (r, None)"
  shows "fst (storeVerifyAuditChain env s) = Inr () \<and>
    verifyCustody env cfg s ((newReport env)\<lparr>Int_Database := ''ok'', Int_ForeignKeys := ''ok'',
      Int_AuditEvents := int (length (st_audit s))\<rparr>) = (r, None)"
  using assms by (auto simp: verifyIntegrity_def Let_def split: sum.splits)

lemma listed_active:
  "b \<in> set (listArtifactBlobs s) \<longleftrightarrow> (\<exists>i a. (i, a) \<in> set (st_artifacts s) \<and> Artifact_PurgedAt a = None \<and> blobOf a = b)"
  by (force simp: listArtifactBlobs_def)

lemma verified_row_opens:
  assumes "map_of (st_artifacts s) i = Some a" "Artifact_PurgedAt a = None" "blobVerified env cfg s (blobOf a)"
  shows "\<exists>m p. openArtifact env cfg i s = (Inr (m, p), s) \<and> contentID (env_sha env) p = Artifact_ContentID a \<and>
    int (length p) = Artifact_Size a"
proof -
  from assms(3) obtain content scheme keyID where
    "validContentID (Artifact_ContentID a)"
    "clean (Artifact_StoragePath a) = blobRelative (trimPrefix (Artifact_ContentID a) ''sha256:'')"
    "map_of (st_blobs s) (blobRelative (trimPrefix (Artifact_ContentID a) ''sha256:'')) = Some content"
    "verifyBlob env cfg content (Artifact_Size a) (Artifact_ContentID a) = Inr (scheme, keyID)"
    by (auto simp: blobVerified_def blobOf_def blobPath_def validatedArtifactBlobPath_iff ok_iff)
  from openArtifact_verified [OF assms(1,2) this] show ?thesis by blast
qed

lemma clean_no_orphans:
  assumes "verifyIntegrity env cfg db s = (report, None)"
  shows "\<forall>path \<in> fst ` set (st_blobs s). hasPrefix path ''blobs/'' \<longrightarrow>
    (\<exists>i a. (i, a) \<in> set (st_artifacts s) \<and> Artifact_PurgedAt a = None \<and>
      path = blobRelative (trimPrefix (Artifact_ContentID a) ''sha256:''))"
proof (intro ballI impI)
  fix path assume "path \<in> fst ` set (st_blobs s)" "hasPrefix path ''blobs/''"
  with verifyCustody_clean [OF verifyIntegrity_clean [OF assms, THEN conjunct2]]
  obtain b where b: "b \<in> set (listArtifactBlobs s)" "path = blobPath b" by blast
  from b(1) obtain i a where "(i, a) \<in> set (st_artifacts s)" "Artifact_PurgedAt a = None" "blobOf a = b"
    unfolding listed_active by blast
  moreover from this(3) b(2) have "path = blobRelative (trimPrefix (Artifact_ContentID a) ''sha256:'')"
    by (auto simp: blobPath_def blobOf_def)
  ultimately show "\<exists>i a. (i, a) \<in> set (st_artifacts s) \<and> Artifact_PurgedAt a = None \<and>
      path = blobRelative (trimPrefix (Artifact_ContentID a) ''sha256:'')" by blast
qed

text \<open>
  C30. A clean integrity report means what it says, for any store, however it came about: the
  audit chain verifies, every unpurged artifact opens and delivers bytes with its content id and
  size, every file below the blob directory belongs to an unpurged artifact, and the counts are
  those of the store.
\<close>

theorem clean_report_is_sound:
  assumes "verifyIntegrity env cfg db s = (report, None)"
  shows "verifyAuditChain (env_digest env) (st_audit s) = Inr () \<and>
    (\<forall>i a. map_of (st_artifacts s) i = Some a \<and> Artifact_PurgedAt a = None \<longrightarrow>
      (\<exists>m p. openArtifact env cfg i s = (Inr (m, p), s) \<and> contentID (env_sha env) p = Artifact_ContentID a \<and>
        int (length p) = Artifact_Size a)) \<and>
    (\<forall>path \<in> fst ` set (st_blobs s). hasPrefix path ''blobs/'' \<longrightarrow>
      (\<exists>i a. (i, a) \<in> set (st_artifacts s) \<and> Artifact_PurgedAt a = None \<and>
        path = blobRelative (trimPrefix (Artifact_ContentID a) ''sha256:''))) \<and>
    Int_AuditEvents report = int (length (st_audit s)) \<and>
    Int_ActiveArtifacts report = int (length (filter (\<lambda>(i, a). Artifact_PurgedAt a = None) (st_artifacts s))) \<and>
    Int_ActiveBlobs report = int (length (listArtifactBlobs s)) \<and>
    Int_PlaintextBytes report = sum_list (map (snd \<circ> snd) (listArtifactBlobs s)) \<and> Int_OrphanBlobs report = 0"
proof -
  from verifyIntegrity_clean [OF assms] have chain: "fst (storeVerifyAuditChain env s) = Inr ()"
    and custody: "verifyCustody env cfg s ((newReport env)\<lparr>Int_Database := ''ok'', Int_ForeignKeys := ''ok'',
      Int_AuditEvents := int (length (st_audit s))\<rparr>) = (report, None)" by simp_all
  note clean = verifyCustody_clean [OF custody]
  have "\<exists>m p. openArtifact env cfg i s = (Inr (m, p), s) \<and> contentID (env_sha env) p = Artifact_ContentID a \<and>
      int (length p) = Artifact_Size a"
    if row: "map_of (st_artifacts s) i = Some a \<and> Artifact_PurgedAt a = None" for i a
  proof (rule verified_row_opens)
    have "(i, a) \<in> set (st_artifacts s)" using row by (simp add: map_of_SomeD)
    with row have "blobOf a \<in> set (listArtifactBlobs s)" unfolding listed_active by blast
    with clean show "blobVerified env cfg s (blobOf a)" by (simp add: list_all_iff)
  qed (use row in simp_all)
  moreover note clean_no_orphans [OF assms]
  ultimately show ?thesis
    using clean chain by (simp add: storeVerifyAuditChain_def act_gets_def newReport_def)
qed

definition soundDatabase :: DatabaseReport where
  "soundDatabase = \<lparr>dr_integrity = [''ok''], dr_foreignViolation = False, dr_invalidJSON = (\<lambda>_. 0)\<rparr>"

theorem clean_report_is_sound_witness:
  "\<exists>report. verifyIntegrity sampleEnv plainConfig soundDatabase sampleHeld = (report, None) \<and>
     Int_ActiveArtifacts report = 1 \<and> (\<exists>m p. openArtifact sampleEnv plainConfig ''a1'' sampleHeld = (Inr (m, p), sampleHeld))"
proof -
  have "snd (verifyIntegrity sampleEnv plainConfig soundDatabase sampleHeld) = None" by code_simp
  then obtain report where r: "verifyIntegrity sampleEnv plainConfig soundDatabase sampleHeld = (report, None)"
    by (metis prod.collapse)
  note sound = clean_report_is_sound [OF r]
  have "Artifact_PurgedAt heldArtifact = None" by code_simp
  with sound sampleHeld_row have "\<exists>m p. openArtifact sampleEnv plainConfig ''a1'' sampleHeld = (Inr (m, p), sampleHeld)" by blast
  moreover have "length (filter (\<lambda>(i, a). Artifact_PurgedAt a = None) (st_artifacts sampleHeld)) = 1" by code_simp
  ultimately show ?thesis using r sound by simp
qed

section \<open>A refused upload\<close>

lemma blobRelative_below:
  "validContentID cid \<Longrightarrow> hasPrefix (blobRelative (trimPrefix cid ''sha256:'')) ''blobs/''"
  by (simp add: blobRelative_comps blobComps_def hasPrefix_def)

text \<open>What an upload that reports an error has done to the store.\<close>

lemma storeBlob_refused:
  assumes "storeBlob env cfg path content m s = (Inl e, s')"
  shows "s' = s \<or> map_of (st_blobs s) path = None \<and> s' = s\<lparr>st_blobs := st_blobs s @ [(path, content)]\<rparr>"
proof (cases rule: placeBlob_cases [of env cfg path content m s])
  case (refused e')
  with assms show ?thesis by (simp add: storeBlob_def act_bind_def)
next
  case installed
  with assms show ?thesis
    by (cases rule: insertArtifact_cases [of "m\<lparr>Artifact_StoragePath := path\<rparr>" "s\<lparr>st_blobs := st_blobs s @ [(path, content)]\<rparr>"])
      (simp_all add: storeBlob_def act_bind_def act_return_def)
next
  case (kept existing scheme keyID)
  with assms show ?thesis
    by (cases rule: insertArtifact_cases [of "m\<lparr>Artifact_Encryption := scheme, Artifact_EncryptionKeyID := keyID, Artifact_StoragePath := path\<rparr>" s])
      (simp_all add: storeBlob_def act_bind_def act_return_def)
qed

lemma putArtifact_refused:
  assumes "putArtifact env cfg metadata source s = (Inl e, s')" "cryptoOK env" "configOK env cfg"
  shows "st_artifacts s' = st_artifacts s \<and>
    (st_blobs s' = st_blobs s \<or>
     (\<exists>content path. path = blobRelative (trimPrefix (contentID (env_sha env) source) ''sha256:'') \<and>
        map_of (st_blobs s) path = None \<and> st_blobs s' = st_blobs s @ [(path, content)]))"
proof -
  let ?body = "\<lambda>i. act_bind (ingest env cfg source) (\<lambda>(content, written, cid).
    storeBlob env cfg (blobRelative (trimPrefix cid ''sha256:'')) content (putMetadata env cfg i metadata cid written))"
  have body: "?thesis" if run: "?body i s1 = (Inl e, s')" and s1: "s1 = s\<lparr>st_draws := st_draws s1\<rparr>" for i s1
  proof -
    obtain x s2 where ing: "ingest env cfg source s1 = (x, s2)" by fastforce
    have same: "st_artifacts s1 = st_artifacts s" "st_blobs s1 = st_blobs s" by (subst s1, simp)+
    show ?thesis
    proof (cases x)
      case (Inl e')
      with ing run have "s' = s2" by (simp add: act_bind_def)
      with ing same show ?thesis by (auto simp: ingest_def split: if_splits)
    next
      case (Inr q)
      obtain content written cid where q: "q = (content, written, cid)" by (cases q)
      from ingest_Inr [OF assms(2,3) ing [unfolded Inr q]]
      have s2: "s2 = s1\<lparr>st_draws := st_draws s2\<rparr>" and cid: "cid = contentID (env_sha env) source" by simp_all
      have same2: "st_artifacts s2 = st_artifacts s" "st_blobs s2 = st_blobs s" by (subst s2, simp add: same)+
      from run ing Inr q have "storeBlob env cfg (blobRelative (trimPrefix cid ''sha256:'')) content
          (putMetadata env cfg i metadata cid written) s2 = (Inl e, s')" by (simp add: act_bind_def)
      from storeBlob_refused [OF this] same2 cid show ?thesis by auto
    qed
  qed
  show ?thesis
  proof (cases "Artifact_CampaignID metadata = [] \<or> Artifact_Role metadata = [] \<or> Artifact_MediaType metadata = []")
    case True
    with assms(1) show ?thesis
      by (auto simp: putArtifact_steps act_bind_def newID_def act_return_def act_fail_def split: if_splits)
  next
    case False
    then have "\<exists>i s1. ?body i s1 = (Inl e, s') \<and> s1 = s\<lparr>st_draws := st_draws s1\<rparr>"
    proof (cases "Artifact_ID metadata = []")
      case True
      let ?i = "''artifact'' @ ''_'' @ env_random env (st_draws s)" and ?s1 = "s\<lparr>st_draws := st_draws s + 1\<rparr>"
      from True False assms(1) have "?body ?i ?s1 = (Inl e, s')"
        by (simp add: putArtifact_steps act_bind_def [of "newID _ _"] newID_def)
      then show ?thesis by (intro exI [of _ ?i] exI [of _ ?s1]) simp
    next
      case named: False
      with False assms(1) have "?body (Artifact_ID metadata) s = (Inl e, s')"
        by (simp add: putArtifact_steps act_bind_def [of "act_return _"] act_return_def)
      then show ?thesis by (intro exI [of _ "Artifact_ID metadata"] exI [of _ s]) simp
    qed
    with body show ?thesis by blast
  qed
qed


definition strayArtifact :: Artifact where
  "strayArtifact = sampleArtifact\<lparr>Artifact_ID := ''a2'', Artifact_CampaignID := ''unknown''\<rparr>"


end
