(* ===== verification/Compaction.thy ===== *)
theory Compaction
  imports Go_Match
begin

text \<open>
  Keeping a conversation inside a model's context window (\<^verbatim>\<open>compact/compact.go\<close>, \<^verbatim>\<open>cache.go\<close> and the
  chunks of \<^verbatim>\<open>index.go\<close>): an oversized text becomes its head and tail, a summary of the middle, and an
  index of all its chunks. The model that summarizes is a parameter that may answer differently at
  every call; \<open>cs_tick\<close> counts the calls of the outside world. The ranking of the index is a parameter
  too: it sums logarithms in the order of a Go map.
\<close>

section \<open>Text\<close>

abbreviation lineBreak :: string where
  "lineBreak \<equiv> [CHR ''\<newline>'']"

definition estimateTokens :: "string \<Rightarrow> int" where
  "estimateTokens s = (int (length s) + 4 - 1) div 4"

text \<open>The runes of a text in their encoding; an invalid byte is read as U+FFFD.\<close>

function runes :: "string \<Rightarrow> string list" where
  "runes [] = []"
| "runes (c # cs) =
     (let (r, n) = decodeRune (c # cs) in
      (if r = runeError then [CHR 0xEF, CHR 0xBF, CHR 0xBD] else take n (c # cs)) # runes (drop n (c # cs)))"
  by pat_completeness auto
termination
proof (relation "measure length", simp)
  fix c cs x r n
  assume "x = decodeRune (c # cs)" "(r, n) = x"
  then have "n = snd (decodeRune (c # cs))" by (metis snd_conv)
  then have "0 < n" using decodeRune_width [of "c # cs"] by simp
  then show "(drop n (c # cs), c # cs) \<in> measure length" by simp
qed

definition splitHeadTail :: "string \<Rightarrow> int \<Rightarrow> int \<Rightarrow> string \<times> string \<times> string" where
  "splitHeadTail s headChars tailChars =
     (let r = runes s; n = length r; h = nat headChars; t = nat tailChars in
      if h + t \<ge> n then (s, [], [])
      else (trimSpace (concat (take h r)), concat (take (n - t - h) (drop h r)), trimSpace (concat (drop (n - t) r))))"

function chunkRunes :: "nat \<Rightarrow> string list \<Rightarrow> string list" where
  "chunkRunes k r =
     (if r = [] \<or> k = 0 then []
      else
        (let chunk = trimSpace (concat (take k r)) in
         (if chunk \<noteq> [] then [chunk] else []) @ chunkRunes k (drop k r)))"
  by pat_completeness auto
termination
  by (relation "measure (\<lambda>(k, r). length r)") auto

declare chunkRunes.simps [simp del]

definition chunkText :: "string \<Rightarrow> int \<Rightarrow> string list" where
  "chunkText s sizeChars = chunkRunes (if sizeChars \<le> 0 then 4000 else nat sizeChars) (runes s)"

section \<open>The memo of summaries\<close>

record SummaryCache =
  sc_m :: "(string \<times> string) list"
  sc_order :: "string list"
  sc_max :: int

definition newSummaryCache :: "int \<Rightarrow> SummaryCache" where
  "newSummaryCache m = \<lparr>sc_m = [], sc_order = [], sc_max = (if m \<le> 0 then 256 else m)\<rparr>"

definition cacheGet :: "SummaryCache option \<Rightarrow> string \<Rightarrow> string option" where
  "cacheGet c key = (case c of None \<Rightarrow> None | Some c \<Rightarrow> map_of (sc_m c) key)"

definition cachePut :: "string \<Rightarrow> string \<Rightarrow> SummaryCache \<Rightarrow> SummaryCache" where
  "cachePut key val c =
     (if map_of (sc_m c) key \<noteq> None then c\<lparr>sc_m := AList.update key val (sc_m c)\<rparr>
      else
        (let c1 = (if int (length (sc_order c)) \<ge> sc_max c
                   then c\<lparr>sc_order := tl (sc_order c), sc_m := AList.delete (hd (sc_order c)) (sc_m c)\<rparr> else c)
         in c1\<lparr>sc_m := AList.update key val (sc_m c1), sc_order := sc_order c1 @ [key]\<rparr>))"

section \<open>Compaction of one text\<close>

record Compactor =
  Comp_Summarizer :: bool
  Comp_InputTokenBudget :: int
  Comp_TriggerTokens :: int
  Comp_MaxTotalTokens :: int
  Comp_HeadTokens :: int
  Comp_TailTokens :: int
  Comp_ChunkChars :: int

record CompactWorld =
  cw_summarize :: "nat \<Rightarrow> string \<Rightarrow> string \<Rightarrow> string result"
  cw_hash :: "string \<Rightarrow> string"

record CompactState =
  cs_tick :: nat
  cs_cache :: "SummaryCache option"

record CompactResult =
  Res_Compacted :: string
  Res_Index :: "string list"
  Res_OrigTokens :: int
  Res_FinalTokens :: int
  Res_Chunks :: int

definition callSummarizer :: "'w CompactWorld_scheme \<Rightarrow> string \<Rightarrow> string \<Rightarrow> 's CompactState_scheme \<Rightarrow> string result \<times> 's CompactState_scheme" where
  "callSummarizer w text instruction st = (cw_summarize w (cs_tick st) text instruction, st\<lparr>cs_tick := cs_tick st + 1\<rparr>)"

fun summarizeBatches :: "'w CompactWorld_scheme \<Rightarrow> string \<Rightarrow> int \<Rightarrow> int \<Rightarrow> string list \<Rightarrow> string list \<Rightarrow> 's CompactState_scheme \<Rightarrow>
    string list result \<times> 's CompactState_scheme" where
  "summarizeBatches w instruction i batchCount parts [] st = (Inr parts, st)"
| "summarizeBatches w instruction i batchCount parts (batch # batches) st =
     (case callSummarizer w batch instruction st of
        (Inl e, st1) \<Rightarrow> (Inl (Err (''batch '' @ showInt i @ ''/'' @ showInt batchCount @ '': '' @ errText e)), st1)
      | (Inr s, st1) \<Rightarrow> summarizeBatches w instruction (i + 1) batchCount (parts @ [s]) batches st1)"

definition budgetChars :: "Compactor \<Rightarrow> int" where
  "budgetChars c = (if Comp_InputTokenBudget c \<le> 0 then 96000 else Comp_InputTokenBudget c) * 4"

definition summarize :: "'w CompactWorld_scheme \<Rightarrow> Compactor \<Rightarrow> string \<Rightarrow> string \<Rightarrow> 's CompactState_scheme \<Rightarrow> string result \<times> 's CompactState_scheme" where
  "summarize w c text instruction st =
     (if int (length text) \<le> budgetChars c then callSummarizer w text instruction st
      else
        (let batches = chunkText text (budgetChars c) in
         case summarizeBatches w instruction 1 (int (length batches)) [] batches st of
           (Inl e, st1) \<Rightarrow> (Inl e, st1)
         | (Inr parts, st1) \<Rightarrow>
             (let combined = strJoin (lineBreak @ lineBreak) parts in
              if int (length combined) \<le> budgetChars c then callSummarizer w combined instruction st1
              else (Inr combined, st1))))"

text \<open>The summary of the middle, from the memo if it is there; a failed summary is an empty one.\<close>

definition summaryOf :: "'w CompactWorld_scheme \<Rightarrow> Compactor \<Rightarrow> string \<Rightarrow> string \<Rightarrow> string \<Rightarrow> 's CompactState_scheme \<Rightarrow> string \<times> 's CompactState_scheme" where
  "summaryOf w c content middle framing st =
     (if \<not> Comp_Summarizer c then ([], st)
      else
        (case cacheGet (cs_cache st) (cw_hash w content) of
           Some cached \<Rightarrow> (cached, st)
         | None \<Rightarrow>
             (case summarize w c middle framing st of
                (Inl e, st1) \<Rightarrow> ([], st1)
              | (Inr s, st1) \<Rightarrow> (s, st1\<lparr>cs_cache := map_option (cachePut (cw_hash w content) s) (cs_cache st1)\<rparr>))))"

definition compactNote :: "int \<Rightarrow> string" where
  "compactNote elided =
     ''[compact: ~'' @ showInt elided @ '' tokens of the input were condensed. A faithful summary follows; '' @
     ''call the context_search tool to retrieve any exact passage verbatim.]'' @ lineBreak @ lineBreak"

definition compactBody :: "string \<Rightarrow> string \<Rightarrow> string \<Rightarrow> string \<Rightarrow> string" where
  "compactBody head middle tail summary =
     trimSpace ((if head \<noteq> [] then head @ lineBreak @ lineBreak else []) @ compactNote (estimateTokens middle) @
       (if summary \<noteq> [] then ''## Summary of the full input'' @ lineBreak @ summary @ lineBreak @ lineBreak else []) @
       (if tail \<noteq> [] then ''## Final part of the input (verbatim)'' @ lineBreak @ tail else []))"

definition compactText :: "'w CompactWorld_scheme \<Rightarrow> Compactor \<Rightarrow> string \<Rightarrow> string \<Rightarrow> 's CompactState_scheme \<Rightarrow> CompactResult \<times> 's CompactState_scheme" where
  "compactText w c content instruction st =
     (let (head, middle, tail) = splitHeadTail content (Comp_HeadTokens c * 4) (Comp_TailTokens c * 4);
          chunks = chunkText content (Comp_ChunkChars c);
          framing = (if trimSpace instruction \<noteq> [] then instruction else trimSpace (head @ lineBreak @ tail));
          (summary, st1) = summaryOf w c content middle framing st;
          compacted = compactBody head middle tail summary
      in (\<lparr>Res_Compacted = compacted, Res_Index = chunks, Res_OrigTokens = estimateTokens content,
           Res_FinalTokens = estimateTokens compacted, Res_Chunks = int (length chunks)\<rparr>, st1))"

definition minForceCompactTokens :: int where
  "minForceCompactTokens = 512"

definition compactTriggered :: "'w CompactWorld_scheme \<Rightarrow> Compactor \<Rightarrow> string \<Rightarrow> string \<Rightarrow> 's CompactState_scheme \<Rightarrow> CompactResult option \<times> 's CompactState_scheme" where
  "compactTriggered w c content instruction st =
     (if Comp_TriggerTokens c \<le> 0 \<or> estimateTokens content < Comp_TriggerTokens c then (None, st)
      else (case compactText w c content instruction st of (r, st1) \<Rightarrow> (Some r, st1)))"

definition compactForce :: "'w CompactWorld_scheme \<Rightarrow> Compactor \<Rightarrow> string \<Rightarrow> string \<Rightarrow> 's CompactState_scheme \<Rightarrow> CompactResult option \<times> 's CompactState_scheme" where
  "compactForce w c content instruction st =
     (if estimateTokens content < minForceCompactTokens then (None, st)
      else (case compactText w c content instruction st of (r, st1) \<Rightarrow> (Some r, st1)))"

definition mergeIndexes :: "string list list \<Rightarrow> string list option" where
  "mergeIndexes idxs = (let all = concat idxs in if all = [] then None else Some all)"

section \<open>The memo stays bounded\<close>

text \<open>The order lists the keys of the memo, each once, and there are never more than the limit.\<close>

definition cacheOK :: "SummaryCache \<Rightarrow> bool" where
  "cacheOK c \<longleftrightarrow>
     0 < sc_max c \<and> distinct (sc_order c) \<and> dom (map_of (sc_m c)) = set (sc_order c) \<and> int (length (sc_order c)) \<le> sc_max c"

lemma newSummaryCache_OK: "cacheOK (newSummaryCache m)"
  by (simp add: cacheOK_def newSummaryCache_def)

lemma cachePut_OK:
  assumes "cacheOK c"
  shows "cacheOK (cachePut key val c) \<and> map_of (sc_m (cachePut key val c)) key = Some val"
proof (cases "map_of (sc_m c) key")
  case (Some v)
  then have "key \<in> set (sc_order c)" using assms by (auto simp: cacheOK_def)
  with Some assms show ?thesis by (auto simp: cachePut_def cacheOK_def update_conv')
next
  case None
  then have new: "key \<notin> set (sc_order c)" using assms by (auto simp: cacheOK_def)
  show ?thesis
  proof (cases "int (length (sc_order c)) \<ge> sc_max c")
    case True
    then obtain k ks where ord: "sc_order c = k # ks" using assms by (cases "sc_order c") (auto simp: cacheOK_def)
    have "dom (map_of (AList.delete k (sc_m c))) = set ks"
      using assms ord by (auto simp: cacheOK_def delete_conv' dom_def fun_upd_def split: if_splits)
    with None new True assms ord show ?thesis
      by (auto simp: cachePut_def cacheOK_def update_conv' Let_def)
  next
    case False
    with None new assms show ?thesis by (auto simp: cachePut_def cacheOK_def update_conv' Let_def)
  qed
qed

end
