(* ===== verification/Agent_Loop.thy ===== *)
theory Agent_Loop
  imports Compaction
begin

text \<open>
  The reasoning loop of the chat agent (\<^verbatim>\<open>agent/agent.go\<close>, \<^verbatim>\<open>session.go\<close>, \<^verbatim>\<open>stream.go\<close>) with the messages
  of \<^verbatim>\<open>llm/llm.go\<close> and the tool registry of \<^verbatim>\<open>tools/tool.go\<close>. The model behind the provider, the tools,
  retrieval, the verifier, the recall of past conversations and the sink of a stream are parameters;
  each may answer differently at every call. What the provider was asked and what the sink was given
  is kept in the state. Contexts are not cancelled, and the fixed directives of the system prompt are
  fields of the agent.
\<close>

section \<open>Messages and requests\<close>

datatype ChatRole = RoleSystem | RoleUser | RoleAssistant | RoleTool | OtherChatRole string

record ToolCall =
  Call_ID :: string
  Call_Name :: string
  Call_Arguments :: string

record Message =
  Msg_Role :: ChatRole
  Msg_Content :: string
  Msg_Images :: "(string \<times> string) list"
  Msg_ToolCalls :: "ToolCall list"
  Msg_ToolCallID :: string
  Msg_Name :: string

definition textMessage :: "ChatRole \<Rightarrow> string \<Rightarrow> Message" where
  "textMessage r content = \<lparr>Msg_Role = r, Msg_Content = content, Msg_Images = [], Msg_ToolCalls = [], Msg_ToolCallID = [], Msg_Name = []\<rparr>"

record ToolDefinition =
  Def_Name :: string
  Def_Description :: string
  Def_Parameters :: string

record ChatRequest =
  Req_Model :: string
  Req_Messages :: "Message list"
  Req_Tools :: "ToolDefinition list"
  Req_MaxTokens :: "int option"
  Req_Stream :: bool

section \<open>Tools\<close>

record Tool =
  Tool_Description :: string
  Tool_Schema :: string
  Tool_Execute :: "nat \<Rightarrow> string \<Rightarrow> string result"

type_synonym Registry = "(string \<times> Tool) list"

definition register :: "string \<Rightarrow> Tool \<Rightarrow> Registry \<Rightarrow> Registry result" where
  "register name t reg =
     (if map_of reg name \<noteq> None then Inl (Err (''tools: '' @ CHR 0x22 # name @ [CHR 0x22] @ '' already registered''))
      else Inr (AList.update name t reg))"

definition registryGet :: "Registry \<Rightarrow> string \<Rightarrow> Tool result" where
  "registryGet reg name =
     (case map_of reg name of
        None \<Rightarrow> Inl (Err (''tools: not found: '' @ CHR 0x22 # name @ [CHR 0x22]))
      | Some t \<Rightarrow> Inr t)"

definition toolNames :: "Registry \<Rightarrow> string list" where
  "toolNames reg = sort (map fst reg)"

definition definitions :: "Registry \<Rightarrow> ToolDefinition list" where
  "definitions reg =
     map (\<lambda>n. case map_of reg n of
            None \<Rightarrow> \<lparr>Def_Name = n, Def_Description = [], Def_Parameters = []\<rparr>
          | Some t \<Rightarrow> \<lparr>Def_Name = n, Def_Description = Tool_Description t, Def_Parameters = Tool_Schema t\<rparr>) (toolNames reg)"

definition registryWith :: "Registry option \<Rightarrow> string \<Rightarrow> Tool \<Rightarrow> Registry" where
  "registryWith reg name t = AList.update name t (case reg of None \<Rightarrow> [] | Some r \<Rightarrow> r)"

section \<open>The agent and its surroundings\<close>

record Agent =
  Agent_Tools :: "Registry option"
  Agent_SystemPrompt :: string
  Agent_Directives :: "string list"
  Agent_WorkspaceDirective :: string
  Agent_WorkspaceListing :: string
  Agent_AgenticDirective :: string
  Agent_MaxIters :: int
  Agent_RAG :: bool
  Agent_Model :: string
  Agent_Agentic :: bool
  Agent_Verifier :: bool
  Agent_MaxTokens :: int
  Agent_Compactor :: "Compactor option"
  Agent_ConvoMemory :: bool
  Agent_ProfileID :: string

datatype StreamEventKind = TextDelta | ToolCallStart | ToolCallArgDelta | ToolCallEnd | ToolResult | Done | Error

record StreamEvent =
  Ev_Kind :: StreamEventKind
  Ev_Iteration :: int
  Ev_Delta :: string
  Ev_ToolCallID :: string
  Ev_ToolCallName :: string
  Ev_ToolCallArgs :: string
  Ev_ToolResult :: string
  Ev_ToolError :: bool
  Ev_FinalContent :: string
  Ev_Error :: string

record StreamChunk =
  Chunk_Delta :: string
  Chunk_ToolCallDelta :: "ToolCall option"
  Chunk_Done :: bool
  Chunk_Err :: "err option"

record AgentWorld = CompactWorld +
  aw_chat :: "nat \<Rightarrow> ChatRequest \<Rightarrow> Message result"
  aw_stream :: "nat \<Rightarrow> ChatRequest \<Rightarrow> StreamChunk list result"
  aw_sink :: "nat \<Rightarrow> StreamEvent \<Rightarrow> err option"
  aw_augment :: "nat \<Rightarrow> string \<Rightarrow> string"
  aw_groundingHint :: "nat \<Rightarrow> string"
  aw_verify :: "nat \<Rightarrow> string \<Rightarrow> string result"
  aw_recall :: "nat \<Rightarrow> string \<Rightarrow> string"
  aw_decodeQuery :: "string \<Rightarrow> (string \<times> int) result"
  aw_search :: "string list \<Rightarrow> string \<Rightarrow> int \<Rightarrow> (int \<times> string) list"

record AgentState = CompactState +
  as_messages :: "Message list"
  as_requests :: "ChatRequest list"
  as_events :: "StreamEvent list"
  as_convo :: string
  as_memory :: "(string \<times> string) list"

definition tickState :: "AgentState \<Rightarrow> AgentState" where
  "tickState st = st\<lparr>cs_tick := cs_tick st + 1\<rparr>"

definition appendMessage :: "Message \<Rightarrow> AgentState \<Rightarrow> AgentState" where
  "appendMessage m st = st\<lparr>as_messages := as_messages st @ [m]\<rparr>"

section \<open>The retrieval tool over compacted input\<close>

definition searchText :: "(int \<times> string) list \<Rightarrow> string" where
  "searchText hits =
     trimSpace (showInt (int (length hits)) @ '' passage(s) from the original input, most relevant first:'' @ lineBreak @
       concat (map (\<lambda>(n, t). lineBreak @ ''[chunk '' @ showInt n @ '']'' @ lineBreak @ t @ lineBreak) hits))"

definition contextSearch :: "AgentWorld \<Rightarrow> string list \<Rightarrow> string \<Rightarrow> string result" where
  "contextSearch w chunks args =
     (case aw_decodeQuery w args of
        Inl e \<Rightarrow> Inl (Err (''context_search: bad arguments: '' @ errText e))
      | Inr (query, k) \<Rightarrow>
          if trimSpace query = [] then Inl (Err ''context_search: query is required'')
          else if chunks = [] then Inr ''No indexed input is available for this turn.''
          else
            (let hits = aw_search w chunks query k in
             if hits = [] then Inr ''No matching passages found in the original input.'' else Inr (searchText hits)))"

definition contextSearchTool :: "AgentWorld \<Rightarrow> string list \<Rightarrow> Tool" where
  "contextSearchTool w chunks =
     \<lparr>Tool_Description = ''Retrieve verbatim passages from the user's large input that was summarized to fit the context window. '' @
        ''Use it whenever you need exact wording, names, numbers, code, or details the summary may have omitted.'',
      Tool_Schema = ''{\"type\":\"object\",\"properties\":{\"query\":{\"type\":\"string\",\"description\":\"What to look for in the original input\"},'' @
        ''\"k\":{\"type\":\"integer\",\"description\":\"Maximum passages to return (default 3)\"}},\"required\":[\"query\"]}'',
      Tool_Execute = (\<lambda>_. contextSearch w chunks)\<rparr>"

section \<open>Compaction of the session\<close>

definition compactableMsg :: "Message \<Rightarrow> bool" where
  "compactableMsg m =
     (case Msg_Role m of
        RoleUser \<Rightarrow> True | RoleTool \<Rightarrow> True | RoleAssistant \<Rightarrow> Msg_ToolCalls m = [] | _ \<Rightarrow> False)"

definition totalMessageTokens :: "Message list \<Rightarrow> int" where
  "totalMessageTokens msgs = sum_list (map (estimateTokens \<circ> Msg_Content) msgs)"

fun compactEach :: "AgentWorld \<Rightarrow> Compactor \<Rightarrow> Message list \<Rightarrow> string list list \<Rightarrow> AgentState \<Rightarrow>
    Message list \<times> string list list \<times> AgentState" where
  "compactEach w c [] indexes st = ([], indexes, st)"
| "compactEach w c (m # ms) indexes st =
     (let (m', indexes', st1) =
            (if Msg_Content m = [] \<or> \<not> compactableMsg m then (m, indexes, st)
             else case compactTriggered w c (Msg_Content m) [] st of
                    (None, st1) \<Rightarrow> (m, indexes, st1)
                  | (Some r, st1) \<Rightarrow> (m\<lparr>Msg_Content := Res_Compacted r\<rparr>, indexes @ [Res_Index r], st1));
          (ms', indexes'', st2) = compactEach w c ms indexes' st1
      in (m' # ms', indexes'', st2))"

text \<open>The largest message that was not tried yet; \<open>None\<close> is the index -1.\<close>

fun pickLargest :: "nat \<Rightarrow> nat option \<times> int \<Rightarrow> bool list \<Rightarrow> Message list \<Rightarrow> nat option \<times> int" where
  "pickLargest i best (t # ts) (m # ms) =
     pickLargest (i + 1)
       (if \<not> t \<and> compactableMsg m \<and> estimateTokens (Msg_Content m) > snd best
        then (Some i, estimateTokens (Msg_Content m)) else best) ts ms"
| "pickLargest i best _ _ = best"

lemma pickLargest_untried:
  "fst (pickLargest i best ts ms) = Some k \<Longrightarrow>
     fst best = Some k \<or> i \<le> k \<and> k - i < length ts \<and> k - i < length ms \<and> \<not> ts ! (k - i) \<and> compactableMsg (ms ! (k - i))"
proof (induction i best ts ms rule: pickLargest.induct)
  case (1 i best t ts m ms)
  from 1(1) [OF 1(2) [unfolded pickLargest.simps]] show ?case
    by (auto simp: nth_Cons' split: if_splits)
qed simp_all

lemma mark_tried: "k < length ts \<Longrightarrow> \<not> ts ! k \<Longrightarrow> length (filter Not (ts[k := True])) < length (filter Not ts)"
proof (induction ts arbitrary: k)
  case (Cons t ts)
  then show ?case by (cases k) auto
qed simp

function budgetPass :: "AgentWorld \<Rightarrow> Compactor \<Rightarrow> bool list \<Rightarrow> Message list \<Rightarrow> string list list \<Rightarrow> AgentState \<Rightarrow>
    Message list \<times> string list list \<times> AgentState" where
  "budgetPass w c tried msgs indexes st =
     (if totalMessageTokens msgs \<le> Comp_MaxTotalTokens c then (msgs, indexes, st)
      else case fst (pickLargest 0 (None, 0) tried msgs) of
        None \<Rightarrow> (msgs, indexes, st)
      | Some k \<Rightarrow>
          (case compactForce w c (Msg_Content (msgs ! k)) [] st of
             (None, st1) \<Rightarrow> budgetPass w c (tried[k := True]) msgs indexes st1
           | (Some r, st1) \<Rightarrow>
               budgetPass w c (tried[k := True]) (msgs[k := (msgs ! k)\<lparr>Msg_Content := Res_Compacted r\<rparr>]) (indexes @ [Res_Index r]) st1))"
  by pat_completeness auto
termination
  by (relation "measure (\<lambda>(w, c, tried, msgs, indexes, st). length (filter Not tried))")
    (auto intro!: mark_tried dest!: pickLargest_untried)

declare budgetPass.simps [simp del]

definition compactSession :: "AgentWorld \<Rightarrow> Agent \<Rightarrow> string list list \<Rightarrow> AgentState \<Rightarrow> Registry option \<times> string list list \<times> AgentState" where
  "compactSession w a prior st =
     (case Agent_Compactor a of
        None \<Rightarrow> (Agent_Tools a, prior, st)
      | Some c \<Rightarrow>
          (let (ms1, idx1, st1) = compactEach w c (as_messages st) prior st;
               (ms2, idx2, st2) =
                 (if Comp_MaxTotalTokens c > 0 then budgetPass w c (replicate (length ms1) False) ms1 idx1 st1 else (ms1, idx1, st1));
               st3 = st2\<lparr>as_messages := ms2\<rparr>
           in (case mergeIndexes idx2 of
                 None \<Rightarrow> (Agent_Tools a, idx2, st3)
               | Some chunks \<Rightarrow> (Some (registryWith (Agent_Tools a) ''context_search'' (contextSearchTool w chunks)), idx2, st3))))"

section \<open>Composition of a request\<close>

definition joinSections :: "string list \<Rightarrow> string" where
  "joinSections sections =
     strJoin (lineBreak @ lineBreak) (filter (\<lambda>s. s \<noteq> [])
       (map (\<lambda>s. rev (dropWhile (\<lambda>c. c \<in> {CHR '' '', CHR 0x09, CHR 0x0D, CHR 0x0A}) (rev s))) sections))"

definition latestUserMessage :: "Message list \<Rightarrow> string" where
  "latestUserMessage msgs = (case find (\<lambda>m. Msg_Role m = RoleUser) (rev msgs) of None \<Rightarrow> [] | Some m \<Rightarrow> Msg_Content m)"

definition composeFrom :: "AgentWorld \<Rightarrow> Agent \<Rightarrow> Message list \<Rightarrow> AgentState \<Rightarrow> Message list \<times> AgentState" where
  "composeFrom w a msgs st =
     (let q = latestUserMessage msgs;
          agenticSection = (if Agent_Agentic a
                            then Agent_AgenticDirective a @ (if Agent_RAG a then aw_groundingHint w (cs_tick st) else []) else []);
          aug = (if \<not> Agent_Agentic a \<and> Agent_RAG a \<and> q \<noteq> [] then aw_augment w (cs_tick st) q else []);
          system = joinSections (Agent_SystemPrompt a # Agent_Directives a @
            [Agent_WorkspaceDirective a, Agent_WorkspaceListing a, agenticSection, aug, as_convo st])
      in (if system = [] then msgs else textMessage RoleSystem system # msgs, tickState st))"

definition requestOf :: "Agent \<Rightarrow> Registry option \<Rightarrow> bool \<Rightarrow> Message list \<Rightarrow> ChatRequest" where
  "requestOf a reg stream msgs =
     \<lparr>Req_Model = Agent_Model a, Req_Messages = msgs, Req_Tools = (case reg of None \<Rightarrow> [] | Some r \<Rightarrow> definitions r),
      Req_MaxTokens = (if \<not> stream \<and> Agent_MaxTokens a > 0 then Some (Agent_MaxTokens a) else None), Req_Stream = stream\<rparr>"

definition sendRequest :: "ChatRequest \<Rightarrow> AgentState \<Rightarrow> AgentState" where
  "sendRequest req st = tickState (st\<lparr>as_requests := as_requests st @ [req]\<rparr>)"

section \<open>Tools, notes and memory\<close>

definition isRetrievalTool :: "string \<Rightarrow> bool" where
  "isRetrievalTool name \<longleftrightarrow> name = ''rag_search'' \<or> name = ''graph_expand''"

definition dispatch :: "Registry option \<Rightarrow> nat \<Rightarrow> ToolCall \<Rightarrow> string result" where
  "dispatch reg tick call =
     (case reg of
        None \<Rightarrow> Inl (Err ''agent: no tool registry configured'')
      | Some r \<Rightarrow> rbind (registryGet r (Call_Name call)) (\<lambda>t. Tool_Execute t tick (Call_Arguments call)))"

definition formatToolResult :: "string result \<Rightarrow> string" where
  "formatToolResult r = (case r of Inl e \<Rightarrow> ''error: '' @ errText e | Inr s \<Rightarrow> s)"

definition toolMessage :: "ToolCall \<Rightarrow> string result \<Rightarrow> Message" where
  "toolMessage call r =
     \<lparr>Msg_Role = RoleTool, Msg_Content = formatToolResult r, Msg_Images = [], Msg_ToolCalls = [],
      Msg_ToolCallID = Call_ID call, Msg_Name = Call_Name call\<rparr>"

definition verifyNote :: "AgentWorld \<Rightarrow> Agent \<Rightarrow> string \<Rightarrow> AgentState \<Rightarrow> string \<times> AgentState" where
  "verifyNote w a content st =
     (if \<not> Agent_Verifier a \<or> content = [] then ([], st)
      else (case aw_verify w (cs_tick st) content of Inl e \<Rightarrow> [] | Inr note \<Rightarrow> note, tickState st))"

fun multiVerify :: "(nat \<Rightarrow> string \<Rightarrow> string result) list \<Rightarrow> nat \<Rightarrow> string \<Rightarrow> string" where
  "multiVerify [] n text = []"
| "multiVerify (v # vs) n text =
     (case v n text of Inl e \<Rightarrow> [] | Inr note \<Rightarrow> note) @ multiVerify vs n text"

definition recallConvo :: "AgentWorld \<Rightarrow> Agent \<Rightarrow> string \<Rightarrow> AgentState \<Rightarrow> AgentState" where
  "recallConvo w a query st =
     (if \<not> Agent_ConvoMemory a \<or> Agent_ProfileID a = [] then st
      else tickState (st\<lparr>as_convo := aw_recall w (cs_tick st) query\<rparr>))"

definition convoMinRememberChars :: int where
  "convoMinRememberChars = 40"

definition remember :: "string \<Rightarrow> string \<Rightarrow> AgentState \<Rightarrow> AgentState" where
  "remember who text st =
     (if int (length (trimSpace text)) \<ge> convoMinRememberChars then st\<lparr>as_memory := as_memory st @ [(who, text)]\<rparr> else st)"

definition rememberTurn :: "Agent \<Rightarrow> string \<Rightarrow> string \<Rightarrow> AgentState \<Rightarrow> AgentState" where
  "rememberTurn a userMsg answer st =
     (if \<not> Agent_ConvoMemory a \<or> Agent_ProfileID a = [] then st
      else remember ''assistant'' answer (remember ''user'' userMsg st))"

section \<open>The loop\<close>

definition ErrMaxIterations :: err where
  "ErrMaxIterations = Err ''agent: max iterations reached''"

definition newAgent :: "Agent \<Rightarrow> Agent" where
  "newAgent a = a\<lparr>Agent_MaxIters := (if Agent_MaxIters a \<le> 0 then 10 else Agent_MaxIters a)\<rparr>"

fun runTools :: "Registry option \<Rightarrow> ToolCall list \<Rightarrow> bool \<Rightarrow> AgentState \<Rightarrow> bool \<times> AgentState" where
  "runTools reg [] used st = (used, st)"
| "runTools reg (call # calls) used st =
     runTools reg calls (used \<or> isRetrievalTool (Call_Name call))
       (appendMessage (toolMessage call (dispatch reg (cs_tick st) call)) (tickState st))"

text \<open>One grounded pass over the conversation without the answer that was not grounded.\<close>

definition classicFallback :: "AgentWorld \<Rightarrow> Agent \<Rightarrow> AgentState \<Rightarrow> string option \<times> AgentState" where
  "classicFallback w a st =
     (if as_messages st = [] then (None, st)
      else
        (let (msgs, st1) = composeFrom w (a\<lparr>Agent_Agentic := False\<rparr>) (butlast (as_messages st)) st;
             req = requestOf a None False msgs
         in (case aw_chat w (cs_tick st1) req of
               Inl e \<Rightarrow> None
             | Inr m \<Rightarrow> if trimSpace (Msg_Content m) = [] then None else Some (Msg_Content m),
             sendRequest req st1)))"

definition finishTurn :: "AgentWorld \<Rightarrow> Agent \<Rightarrow> string \<Rightarrow> string \<Rightarrow> AgentState \<Rightarrow> string result \<times> AgentState" where
  "finishTurn w a userInput answer st =
     (let (note, st1) = verifyNote w a answer (rememberTurn a userInput answer st) in (Inr (answer @ note), st1))"

definition answerTurn :: "AgentWorld \<Rightarrow> Agent \<Rightarrow> string \<Rightarrow> bool \<Rightarrow> string \<Rightarrow> AgentState \<Rightarrow> string result \<times> AgentState" where
  "answerTurn w a userInput used answer st =
     (if Agent_Agentic a \<and> Agent_RAG a \<and> \<not> used
      then (case classicFallback w a st of
              (Some grounded, st1) \<Rightarrow> finishTurn w a userInput grounded st1
            | (None, st1) \<Rightarrow> finishTurn w a userInput answer st1)
      else finishTurn w a userInput answer st)"

fun agentLoop :: "AgentWorld \<Rightarrow> Agent \<Rightarrow> string \<Rightarrow> nat \<Rightarrow> string list list \<Rightarrow> bool \<Rightarrow> AgentState \<Rightarrow> string result \<times> AgentState" where
  "agentLoop w a userInput 0 idxs used st = (Inl ErrMaxIterations, st)"
| "agentLoop w a userInput (Suc left) idxs used st =
     (let (reg, idxs', st1) = compactSession w a idxs st;
          (msgs, st2) = composeFrom w a (as_messages st1) st1;
          req = requestOf a reg False msgs;
          st3 = sendRequest req st2
      in case aw_chat w (cs_tick st2) req of
           Inl e \<Rightarrow> (Inl (Err (''agent: provider chat: '' @ errText e)), st3)
         | Inr m \<Rightarrow>
             (let st4 = appendMessage m st3 in
              if Msg_ToolCalls m = [] then answerTurn w a userInput used (Msg_Content m) st4
              else (let (used', st5) = runTools reg (Msg_ToolCalls m) used st4
                    in agentLoop w a userInput left idxs' used' st5)))"

definition agentRun :: "AgentWorld \<Rightarrow> Agent \<Rightarrow> string \<Rightarrow> AgentState \<Rightarrow> string result \<times> AgentState" where
  "agentRun w a userInput st =
     agentLoop w a userInput (nat (Agent_MaxIters a)) [] False
       (recallConvo w a userInput (appendMessage (textMessage RoleUser userInput) st))"

section \<open>Streaming\<close>

definition blankEvent :: "StreamEventKind \<Rightarrow> int \<Rightarrow> StreamEvent" where
  "blankEvent k i =
     \<lparr>Ev_Kind = k, Ev_Iteration = i, Ev_Delta = [], Ev_ToolCallID = [], Ev_ToolCallName = [], Ev_ToolCallArgs = [],
      Ev_ToolResult = [], Ev_ToolError = False, Ev_FinalContent = [], Ev_Error = []\<rparr>"

definition callEvent :: "StreamEventKind \<Rightarrow> int \<Rightarrow> ToolCall \<Rightarrow> string \<Rightarrow> StreamEvent" where
  "callEvent k i call args =
     (blankEvent k i)\<lparr>Ev_ToolCallID := Call_ID call, Ev_ToolCallName := Call_Name call, Ev_ToolCallArgs := args\<rparr>"

definition emit :: "AgentWorld \<Rightarrow> StreamEvent \<Rightarrow> (AgentState, unit) act" where
  "emit w e st =
     (case aw_sink w (length (as_events st)) e of Some x \<Rightarrow> Inl x | None \<Rightarrow> Inr (), st\<lparr>as_events := as_events st @ [e]\<rparr>)"

definition emitWhen :: "AgentWorld \<Rightarrow> bool \<Rightarrow> StreamEvent \<Rightarrow> (AgentState, unit) act" where
  "emitWhen w b e = (if b then emit w e else act_return ())"

text \<open>The calls of a round in the order in which their keys were first seen, with the flag \<^verbatim>\<open>emitted\<close>.\<close>

type_synonym CallStates = "(string \<times> ToolCall \<times> bool) list"

definition callKey :: "ToolCall \<Rightarrow> CallStates \<Rightarrow> string" where
  "callKey d calls = (if Call_ID d = [] then ''anon-'' @ showInt (int (length calls)) else Call_ID d)"

definition mergeCall :: "ToolCall \<Rightarrow> ToolCall \<Rightarrow> ToolCall" where
  "mergeCall old d =
     \<lparr>Call_ID = (if Call_ID d \<noteq> [] then Call_ID d else Call_ID old),
      Call_Name = (if Call_Name d \<noteq> [] then Call_Name d else Call_Name old), Call_Arguments = Call_Arguments d\<rparr>"

definition noCall :: ToolCall where
  "noCall = \<lparr>Call_ID = [], Call_Name = [], Call_Arguments = []\<rparr>"

definition consumeCall :: "AgentWorld \<Rightarrow> int \<Rightarrow> ToolCall \<Rightarrow> CallStates \<Rightarrow> (AgentState, CallStates) act" where
  "consumeCall w iter d calls =
     (let key = callKey d calls;
          (old, emitted) = (case map_of calls key of None \<Rightarrow> (noCall, False) | Some p \<Rightarrow> p);
          call = mergeCall old d;
          emitted' = (emitted \<or> Call_Name call \<noteq> [])
      in act_bind (emitWhen w (\<not> emitted \<and> Call_Name call \<noteq> []) (callEvent ToolCallStart iter call [])) (\<lambda>_.
         act_bind (emitWhen w (Call_Arguments call \<noteq> [] \<and> emitted') (callEvent ToolCallArgDelta iter call (Call_Arguments call))) (\<lambda>_.
         act_return (AList.update key (call, emitted') calls))))"

definition finalizeRound :: "AgentWorld \<Rightarrow> int \<Rightarrow> string \<Rightarrow> CallStates \<Rightarrow> (AgentState, Message) act" where
  "finalizeRound w iter content calls =
     act_bind (act_each (\<lambda>(k, call, e). emit w (callEvent ToolCallEnd iter call (Call_Arguments call))) calls) (\<lambda>_.
     act_return ((textMessage RoleAssistant content)\<lparr>Msg_ToolCalls := map (fst \<circ> snd) calls\<rparr>))"

fun consumeRound :: "AgentWorld \<Rightarrow> int \<Rightarrow> string \<Rightarrow> CallStates \<Rightarrow> StreamChunk list \<Rightarrow> (AgentState, Message) act" where
  "consumeRound w iter content calls [] = finalizeRound w iter content calls"
| "consumeRound w iter content calls (ch # chs) =
     (case Chunk_Err ch of
        Some e \<Rightarrow> act_bind (act_ignore (emit w ((blankEvent Error iter)\<lparr>Ev_Error := errText e\<rparr>))) (\<lambda>_. act_fail e)
      | None \<Rightarrow>
          act_bind (emitWhen w (Chunk_Delta ch \<noteq> []) ((blankEvent TextDelta iter)\<lparr>Ev_Delta := Chunk_Delta ch\<rparr>)) (\<lambda>_.
          act_bind (case Chunk_ToolCallDelta ch of None \<Rightarrow> act_return calls | Some d \<Rightarrow> consumeCall w iter d calls) (\<lambda>calls'.
          if Chunk_Done ch then finalizeRound w iter (content @ Chunk_Delta ch) calls'
          else consumeRound w iter (content @ Chunk_Delta ch) calls' chs)))"

fun streamTools :: "AgentWorld \<Rightarrow> int \<Rightarrow> Registry option \<Rightarrow> ToolCall list \<Rightarrow> (AgentState, unit) act" where
  "streamTools w iter reg [] = act_return ()"
| "streamTools w iter reg (call # calls) =
     (\<lambda>st. let r = dispatch reg (cs_tick st) call;
               ev = (callEvent ToolResult iter call [])\<lparr>Ev_ToolError := isl r, Ev_ToolResult := (case r of Inl e \<Rightarrow> errText e | Inr s \<Rightarrow> s)\<rparr>
           in act_bind (emit w ev) (\<lambda>_. streamTools w iter reg calls) (appendMessage (toolMessage call r) (tickState st)))"

definition streamAnswer :: "AgentWorld \<Rightarrow> Agent \<Rightarrow> string \<Rightarrow> int \<Rightarrow> string \<Rightarrow> (AgentState, string) act" where
  "streamAnswer w a userInput iter answer st =
     (let (note, st1) = verifyNote w a answer st in
      act_bind (emitWhen w (note \<noteq> []) ((blankEvent TextDelta iter)\<lparr>Ev_Delta := note\<rparr>)) (\<lambda>_.
      act_bind (emit w ((blankEvent Done iter)\<lparr>Ev_FinalContent := answer @ note\<rparr>)) (\<lambda>_ st2.
        (Inr (answer @ note), rememberTurn a userInput answer st2))) st1)"

fun streamLoop :: "AgentWorld \<Rightarrow> Agent \<Rightarrow> string \<Rightarrow> int \<Rightarrow> nat \<Rightarrow> string list list \<Rightarrow> (AgentState, string) act" where
  "streamLoop w a userInput iter 0 idxs st =
     act_bind (act_ignore (emit w ((blankEvent Error 0)\<lparr>Ev_Error := errText ErrMaxIterations\<rparr>))) (\<lambda>_. act_fail ErrMaxIterations) st"
| "streamLoop w a userInput iter (Suc left) idxs st =
     (let (reg, idxs', st1) = compactSession w a idxs st;
          (msgs, st2) = composeFrom w a (as_messages st1) st1;
          req = requestOf a reg True msgs;
          st3 = sendRequest req st2
      in case aw_stream w (cs_tick st2) req of
           Inl e \<Rightarrow> act_bind (act_ignore (emit w ((blankEvent Error iter)\<lparr>Ev_Error := errText e\<rparr>)))
                      (\<lambda>_. act_fail (Err (''agent: provider chat stream: '' @ errText e))) st3
         | Inr chunks \<Rightarrow>
             (case consumeRound w iter [] [] chunks st3 of
                (Inl e, st4) \<Rightarrow> (Inl e, st4)
              | (Inr m, st4) \<Rightarrow>
                  (let st5 = appendMessage m st4 in
                   if Msg_ToolCalls m = [] then streamAnswer w a userInput iter (Msg_Content m) st5
                   else (case streamTools w iter reg (Msg_ToolCalls m) st5 of
                           (Inl e, st6) \<Rightarrow> (Inl e, st6)
                         | (Inr _, st6) \<Rightarrow> streamLoop w a userInput (iter + 1) left idxs' st6))))"

definition agentRunStream :: "AgentWorld \<Rightarrow> Agent \<Rightarrow> Message \<Rightarrow> (AgentState, string) act" where
  "agentRunStream w a user st =
     (let user' = (if Msg_Role user = OtherChatRole [] then user\<lparr>Msg_Role := RoleUser\<rparr> else user) in
      streamLoop w a (Msg_Content user') 1 (nat (Agent_MaxIters a)) []
        (recallConvo w a (Msg_Content user') (appendMessage user' st)))"

end
