(* ===== verification/Agent_Laws.thy ===== *)
theory Agent_Laws
  imports Agent_Loop
begin

text \<open>
  Laws of the agent's loop: compaction touches nothing but the text of messages it may touch, and
  what it takes out stays in the index; whatever the model, the tools and the limits do, every call of
  a tool is answered in order in every request and in the session; and a stream shows exactly the
  answer that is returned.
\<close>

section \<open>What compaction leaves alone\<close>

definition quiet :: "'s CompactState_scheme \<Rightarrow> 's CompactState_scheme \<Rightarrow> bool" where
  "quiet st st' \<longleftrightarrow> (\<exists>t c. st' = st\<lparr>cs_tick := t, cs_cache := c\<rparr>)"

lemma quietI [intro]: "quiet st (st\<lparr>cs_tick := t, cs_cache := c\<rparr>)"
  by (auto simp: quiet_def)

lemma quiet_refl [simp, intro]: "quiet st st"
  unfolding quiet_def by (rule exI [of _ "cs_tick st"], rule exI [of _ "cs_cache st"]) simp

lemma quiet_trans:
  assumes "quiet s t" "quiet t u"
  shows "quiet s u"
proof -
  from assms obtain a b c d where "u = (s\<lparr>cs_tick := a, cs_cache := b\<rparr>)\<lparr>cs_tick := c, cs_cache := d\<rparr>" by (auto simp: quiet_def)
  then have "u = s\<lparr>cs_tick := c, cs_cache := d\<rparr>" by simp
  then show ?thesis by (simp only: quietI)
qed

lemma quiet_tick [simp, intro]: "quiet st (st\<lparr>cs_tick := t\<rparr>)"
  unfolding quiet_def by (rule exI [of _ t], rule exI [of _ "cs_cache st"]) simp

lemma quiet_cache [simp, intro]: "quiet st (st\<lparr>cs_cache := c\<rparr>)"
  unfolding quiet_def by (rule exI [of _ "cs_tick st"], rule exI [of _ c]) simp

lemma quiet_fields:
  "quiet st st' \<Longrightarrow> as_messages st' = as_messages st \<and> as_requests st' = as_requests st \<and> as_events st' = as_events st \<and>
     as_convo st' = as_convo st \<and> as_memory st' = as_memory st"
  by (auto simp: quiet_def)

lemma quiet_messages:
  assumes "quiet st st'"
  shows "quiet (st\<lparr>as_messages := ms\<rparr>) (st'\<lparr>as_messages := ms\<rparr>)"
proof -
  from assms obtain t c where "st' = st\<lparr>cs_tick := t, cs_cache := c\<rparr>" by (auto simp: quiet_def)
  then have "st'\<lparr>as_messages := ms\<rparr> = (st\<lparr>as_messages := ms\<rparr>)\<lparr>cs_tick := t, cs_cache := c\<rparr>" by simp
  then show ?thesis by (simp only: quietI)
qed

lemma quiet_callSummarizer: "quiet st (snd (callSummarizer w text i st))"
  by (simp add: callSummarizer_def)

lemma quiet_summarizeBatches: "quiet st (snd (summarizeBatches w instr i n parts bs st))"
proof (induction w instr i n parts bs st rule: summarizeBatches.induct)
  case (2 w instr i n parts b bs st)
  have q: "quiet st (snd (callSummarizer w b instr st))" by (rule quiet_callSummarizer)
  show ?case
  proof (cases "callSummarizer w b instr st")
    case (Pair r st1)
    with 2 q show ?thesis by (cases r) (auto intro: quiet_trans)
  qed
qed simp

lemma quiet_summarize: "quiet st (snd (summarize w c text instr st))"
proof (cases "int (length text) \<le> budgetChars c")
  case False
  let ?b = "chunkText text (budgetChars c)"
  obtain r st1 where s: "summarizeBatches w instr 1 (int (length ?b)) [] ?b st = (r, st1)" by fastforce
  have "quiet st st1" using quiet_summarizeBatches [of st w instr 1 "int (length ?b)" "[]" ?b] s by simp
  then show ?thesis
    using False s quiet_trans [OF _ quiet_callSummarizer] by (cases r) (auto simp: summarize_def Let_def)
qed (simp add: summarize_def quiet_callSummarizer)

lemma quiet_summaryOf: "quiet st (snd (summaryOf w c content middle framing st))"
proof (cases "Comp_Summarizer c \<and> cacheGet (cs_cache st) (cw_hash w content) = None")
  case True
  obtain r st1 where s: "summarize w c middle framing st = (r, st1)" by fastforce
  have "quiet st st1" using quiet_summarize [of st w c middle framing] s by simp
  then show ?thesis using True s quiet_trans by (cases r) (auto simp: summaryOf_def)
qed (auto simp: summaryOf_def split: option.splits)

lemma compactText_result:
  assumes "compactText w c content instr st = (r, st')"
  shows "quiet st st' \<and> Res_Index r = chunkText content (Comp_ChunkChars c)"
  using assms quiet_summaryOf [of st w c content] by (auto simp: compactText_def Let_def split: prod.splits) (metis snd_conv)+

text \<open>A text that a compaction produced.\<close>

definition compacted :: "AgentWorld \<Rightarrow> Compactor \<Rightarrow> string \<Rightarrow> bool" where
  "compacted w c text \<longleftrightarrow> (\<exists>content (st :: AgentState). text = Res_Compacted (fst (compactText w c content [] st)))"

lemma compactTriggered_cases:
  fixes st :: AgentState
  obtains (kept) "compactTriggered w c content [] st = (None, st)"
  | (rewritten) r st' where "compactTriggered w c content [] st = (Some r, st')" "quiet st st'"
      "Res_Index r = chunkText content (Comp_ChunkChars c)" "compacted w c (Res_Compacted r)"
proof (cases "Comp_TriggerTokens c \<le> 0 \<or> estimateTokens content < Comp_TriggerTokens c")
  case False
  obtain r st' where ct: "compactText w c content [] st = (r, st')" by fastforce
  then have "compacted w c (Res_Compacted r)" unfolding compacted_def by (metis fst_conv)
  with False ct compactText_result [OF ct] rewritten show ?thesis by (simp add: compactTriggered_def)
qed (use kept in \<open>simp add: compactTriggered_def\<close>)

lemma compactForce_cases:
  fixes st :: AgentState
  obtains (small) "compactForce w c content [] st = (None, st)" "estimateTokens content < minForceCompactTokens"
  | (rewritten) r st' where "compactForce w c content [] st = (Some r, st')" "quiet st st'"
      "Res_Index r = chunkText content (Comp_ChunkChars c)" "compacted w c (Res_Compacted r)"
proof (cases "estimateTokens content < minForceCompactTokens")
  case False
  obtain r st' where ct: "compactText w c content [] st = (r, st')" by fastforce
  then have "compacted w c (Res_Compacted r)" unfolding compacted_def by (metis fst_conv)
  with False ct compactText_result [OF ct] rewritten show ?thesis by (simp add: compactForce_def)
qed (use small in \<open>simp add: compactForce_def\<close>)

section \<open>Compaction of the session\<close>

definition rewriting :: "Compactor \<Rightarrow> string list list \<Rightarrow> Message \<Rightarrow> Message \<Rightarrow> bool" where
  "rewriting c idx m m' \<longleftrightarrow>
     m' = m \<or>
     compactableMsg m \<and> m' = m\<lparr>Msg_Content := Msg_Content m'\<rparr> \<and> chunkText (Msg_Content m) (Comp_ChunkChars c) \<in> set idx"

lemma rewriting_refl [simp, intro]: "rewriting c idx m m"
  by (simp add: rewriting_def)

lemma rewriting_mono: "rewriting c idx m m' \<Longrightarrow> set idx \<subseteq> set idx' \<Longrightarrow> rewriting c idx' m m'"
  by (auto simp: rewriting_def)

lemma rewriting_trans:
  assumes "rewriting c idx m m1" "rewriting c idx m1 m2"
  shows "rewriting c idx m m2"
proof (cases "m1 = m")
  case False
  with assms(1) have m1: "compactableMsg m" "m1 = m\<lparr>Msg_Content := Msg_Content m1\<rparr>" "chunkText (Msg_Content m) (Comp_ChunkChars c) \<in> set idx"
    by (simp_all add: rewriting_def)
  from assms(2) have "m2 = m1 \<or> m2 = m1\<lparr>Msg_Content := Msg_Content m2\<rparr>" by (auto simp: rewriting_def)
  moreover have "m1\<lparr>Msg_Content := Msg_Content m2\<rparr> = m\<lparr>Msg_Content := Msg_Content m2\<rparr>" by (subst m1(2)) simp
  ultimately have "m2 = m\<lparr>Msg_Content := Msg_Content m2\<rparr>" using m1(2) by metis
  with m1 show ?thesis by (simp add: rewriting_def)
qed (use assms in simp)

lemma rewriting_set: "compactableMsg m \<Longrightarrow> rewriting c (idx @ [chunkText (Msg_Content m) (Comp_ChunkChars c)]) m (m\<lparr>Msg_Content := t\<rparr>)"
  by (simp add: rewriting_def)

lemma rewriting_list_mono: "list_all2 (rewriting c idx) ms ms' \<Longrightarrow> set idx \<subseteq> set idx' \<Longrightarrow> list_all2 (rewriting c idx') ms ms'"
  by (erule list_all2_mono) (erule rewriting_mono)

lemma rewriting_list_trans:
  "list_all2 (rewriting c idx) ms ms1 \<Longrightarrow> list_all2 (rewriting c idx) ms1 ms2 \<Longrightarrow> list_all2 (rewriting c idx) ms ms2"
  by (rule list_all2_trans [of "rewriting c idx" "rewriting c idx"]) (auto intro: rewriting_trans)

lemma compactEach_rewriting:
  assumes "compactEach w c ms idx st = (ms', idx', st')"
  shows "list_all2 (rewriting c idx') ms ms' \<and> set idx \<subseteq> set idx' \<and> quiet st st'"
  using assms
proof (induction ms arbitrary: idx st ms' idx' st')
  case (Cons m ms)
  obtain m1 idx1 st1 where step: "(if Msg_Content m = [] \<or> \<not> compactableMsg m then (m, idx, st)
             else case compactTriggered w c (Msg_Content m) [] st of
                    (None, st1) \<Rightarrow> (m, idx, st1)
                  | (Some r, st1) \<Rightarrow> (m\<lparr>Msg_Content := Res_Compacted r\<rparr>, idx @ [Res_Index r], st1)) = (m1, idx1, st1)"
    (is "?step = _") by (cases ?step) auto
  have one: "rewriting c idx1 m m1 \<and> set idx \<subseteq> set idx1 \<and> quiet st st1"
    using step rewriting_set
    by (cases rule: compactTriggered_cases [of w c "Msg_Content m" st]) (auto split: if_splits)
  obtain ms2 idx2 st2 where rest: "compactEach w c ms idx1 st1 = (ms2, idx2, st2)" by (cases "compactEach w c ms idx1 st1") auto
  from Cons.prems step rest have "ms' = m1 # ms2" "idx' = idx2" "st' = st2" by auto
  with one Cons.IH [OF rest] show ?case by (auto intro: rewriting_mono quiet_trans)
qed simp

definition settled :: "AgentWorld \<Rightarrow> Compactor \<Rightarrow> Message \<Rightarrow> bool" where
  "settled w c m \<longleftrightarrow> compactableMsg m \<longrightarrow> estimateTokens (Msg_Content m) < minForceCompactTokens \<or> compacted w c (Msg_Content m)"

lemma pickLargest_none:
  "fst (pickLargest i best ts ms) = None \<Longrightarrow> length ts = length ms \<Longrightarrow>
     fst best = None \<and> (\<forall>j < length ms. ts ! j \<or> \<not> compactableMsg (ms ! j) \<or> estimateTokens (Msg_Content (ms ! j)) \<le> snd best)"
proof (induction i best ts ms rule: pickLargest.induct)
  case (1 i best t ts m ms)
  let ?best = "if \<not> t \<and> compactableMsg m \<and> estimateTokens (Msg_Content m) > snd best
        then (Some i, estimateTokens (Msg_Content m)) else best"
  from 1 have IH: "fst ?best = None"
    "\<forall>j < length ms. ts ! j \<or> \<not> compactableMsg (ms ! j) \<or> estimateTokens (Msg_Content (ms ! j)) \<le> snd ?best" by auto
  then have "\<not> (\<not> t \<and> compactableMsg m \<and> estimateTokens (Msg_Content m) > snd best)" by (auto split: if_splits)
  with IH show ?case by (auto simp: nth_Cons' All_less_Suc2)
qed simp_all

lemma budgetPass_rewriting:
  assumes "budgetPass w c tried ms idx st = (ms', idx', st')" "length tried = length ms"
    and "\<And>j. j < length ms \<Longrightarrow> tried ! j \<Longrightarrow> settled w c (ms ! j)"
  shows "list_all2 (rewriting c idx') ms ms' \<and> set idx \<subseteq> set idx' \<and> quiet st st' \<and>
    (totalMessageTokens ms' \<le> Comp_MaxTotalTokens c \<or> list_all (settled w c) ms')"
  using assms
proof (induction w c tried ms idx st rule: budgetPass.induct)
  case (1 w c tried ms idx st)
  show ?case
  proof (cases "totalMessageTokens ms \<le> Comp_MaxTotalTokens c")
    case True
    with 1(3) show ?thesis by (simp add: budgetPass.simps [of w c tried] list_all2_refl)
  next
    case over: False
    show ?thesis
    proof (cases "fst (pickLargest 0 (None, 0) tried ms)")
      case None
      with over 1(3) have eq: "ms' = ms" "idx' = idx" "st' = st" by (simp_all add: budgetPass.simps [of w c tried])
      have "settled w c (ms ! j)" if "j < length ms" for j
        using pickLargest_none [OF None] 1(4) 1(5) [OF that] that
        by (fastforce simp: settled_def minForceCompactTokens_def)
      with eq show ?thesis by (simp add: list_all2_refl list_all_length)
    next
      case (Some k)
      from pickLargest_untried [OF Some] 1(4) have k: "k < length ms" "compactableMsg (ms ! k)" by auto
      show ?thesis
      proof (cases rule: compactForce_cases [of w c "Msg_Content (ms ! k)" st])
        case small
        have "settled w c (ms ! j)" if "j < length ms" "tried[k := True] ! j" for j
        proof (cases "j = k")
          case True
          with small(2) show ?thesis by (simp add: settled_def)
        next
          case False
          with that 1(5) show ?thesis by simp
        qed
        moreover have "budgetPass w c (tried[k := True]) ms idx st = (ms', idx', st')"
          using 1(3) over Some small by (simp add: budgetPass.simps [of w c tried])
        moreover have "length (tried[k := True]) = length ms" using 1(4) by simp
        ultimately show ?thesis by (intro 1(1) [OF over Some small(1) [symmetric] refl])
      next
        case (rewritten r st1)
        let ?m = "(ms ! k)\<lparr>Msg_Content := Res_Compacted r\<rparr>"
        have "budgetPass w c (tried[k := True]) (ms[k := ?m]) (idx @ [Res_Index r]) st1 = (ms', idx', st')"
          using 1(3) over Some rewritten(1) by (simp add: budgetPass.simps [of w c tried])
        moreover have "settled w c (ms[k := ?m] ! j)" if "j < length (ms[k := ?m])" "tried[k := True] ! j" for j
          using that 1(5) rewritten(4) k by (cases "j = k") (simp_all add: settled_def)
        moreover have "length (tried[k := True]) = length (ms[k := ?m])" using 1(4) by simp
        ultimately have IH: "list_all2 (rewriting c idx') (ms[k := ?m]) ms' \<and> set (idx @ [Res_Index r]) \<subseteq> set idx' \<and> quiet st1 st' \<and>
          (totalMessageTokens ms' \<le> Comp_MaxTotalTokens c \<or> list_all (settled w c) ms')"
          by (intro 1(2) [OF over Some rewritten(1) [symmetric] refl])
        have "rewriting c (idx @ [Res_Index r]) (ms ! k) ?m" using rewriting_set [OF k(2)] rewritten(3) by simp
        then have "rewriting c idx' (ms ! k) ?m" using IH by (blast intro: rewriting_mono)
        then have "list_all2 (rewriting c idx') ms (ms[k := ?m])"
          using k(1) by (intro list_all2_all_nthI) (auto simp: nth_list_update)
        with IH rewritten(2) show ?thesis by (auto intro: rewriting_list_trans quiet_trans)
      qed
    qed
  qed
qed

text \<open>The windows of a text whose trimmed contents are its chunks.\<close>

lemma chunkRunes_windows:
  "0 < k \<Longrightarrow> \<exists>ws. concat ws = concat r \<and> chunkRunes k r = filter (\<lambda>s. s \<noteq> []) (map trimSpace ws)"
proof (induction k r rule: chunkRunes.induct)
  case (1 k r)
  show ?case
  proof (cases "r = []")
    case True
    then show ?thesis by (intro exI [of _ "[]"]) (simp add: chunkRunes.simps)
  next
    case False
    with 1 obtain ws where ws: "concat ws = concat (drop k r)" "chunkRunes k (drop k r) = filter (\<lambda>s. s \<noteq> []) (map trimSpace ws)" by blast
    have "concat (concat (take k r) # ws) = concat r" using ws(1) by (simp flip: concat_append)
    moreover have "chunkRunes k r = filter (\<lambda>s. s \<noteq> []) (map trimSpace (concat (take k r) # ws))"
      using False 1(2) ws(2) by (simp add: chunkRunes.simps [of k r] Let_def)
    ultimately show ?thesis by blast
  qed
qed

lemma chunkText_windows: "\<exists>ws. concat ws = concat (runes s) \<and> chunkText s n = filter (\<lambda>s. s \<noteq> []) (map trimSpace ws)"
  unfolding chunkText_def by (rule chunkRunes_windows) simp

definition recoverable :: "string list list \<Rightarrow> string \<Rightarrow> bool" where
  "recoverable idx text \<longleftrightarrow>
     (\<exists>ws. concat ws = concat (runes text) \<and> set (filter (\<lambda>s. s \<noteq> []) (map trimSpace ws)) \<subseteq> set (concat idx))"

lemma rewriting_recoverable: "rewriting c idx m m' \<Longrightarrow> m' \<noteq> m \<Longrightarrow> recoverable idx (Msg_Content m)"
proof -
  assume "rewriting c idx m m'" "m' \<noteq> m"
  then have "chunkText (Msg_Content m) (Comp_ChunkChars c) \<in> set idx" by (simp add: rewriting_def)
  moreover obtain ws where "concat ws = concat (runes (Msg_Content m))"
    "chunkText (Msg_Content m) (Comp_ChunkChars c) = filter (\<lambda>s. s \<noteq> []) (map trimSpace ws)" using chunkText_windows by blast
  ultimately show ?thesis unfolding recoverable_def by (intro exI [of _ ws]) auto
qed

lemma compactSession_rewriting:
  assumes "compactSession w a prior st = (reg, idx, st')" "Agent_Compactor a = Some c"
  shows "list_all2 (rewriting c idx) (as_messages st) (as_messages st') \<and> set prior \<subseteq> set idx \<and>
    quiet (st\<lparr>as_messages := as_messages st'\<rparr>) st' \<and>
    (0 < Comp_MaxTotalTokens c \<longrightarrow>
      totalMessageTokens (as_messages st') \<le> Comp_MaxTotalTokens c \<or> list_all (settled w c) (as_messages st')) \<and>
    (concat idx \<noteq> [] \<longrightarrow> reg = Some (registryWith (Agent_Tools a) ''context_search'' (contextSearchTool w (concat idx))))"
proof -
  obtain ms1 idx1 st1 where each: "compactEach w c (as_messages st) prior st = (ms1, idx1, st1)"
    by (cases "compactEach w c (as_messages st) prior st") auto
  note one = compactEach_rewriting [OF each]
  obtain ms2 idx2 st2 where pass: "(if Comp_MaxTotalTokens c > 0 then budgetPass w c (replicate (length ms1) False) ms1 idx1 st1
      else (ms1, idx1, st1)) = (ms2, idx2, st2)" (is "?pass = _") by (cases ?pass) auto
  have two: "list_all2 (rewriting c idx2) ms1 ms2 \<and> set idx1 \<subseteq> set idx2 \<and> quiet st1 st2 \<and>
      (0 < Comp_MaxTotalTokens c \<longrightarrow> totalMessageTokens ms2 \<le> Comp_MaxTotalTokens c \<or> list_all (settled w c) ms2)"
  proof (cases "Comp_MaxTotalTokens c > 0")
    case True
    with pass have "budgetPass w c (replicate (length ms1) False) ms1 idx1 st1 = (ms2, idx2, st2)" by simp
    from budgetPass_rewriting [OF this] show ?thesis by simp
  qed (use pass in \<open>simp add: list_all2_refl\<close>)
  have out: "st' = st2\<lparr>as_messages := ms2\<rparr>" "idx = idx2"
    "concat idx2 \<noteq> [] \<Longrightarrow> reg = Some (registryWith (Agent_Tools a) ''context_search'' (contextSearchTool w (concat idx2)))"
    using assms each pass by (auto simp: compactSession_def Let_def mergeIndexes_def split: if_splits)
  have "list_all2 (rewriting c idx2) (as_messages st) ms2"
    using one two by (auto intro: rewriting_list_mono rewriting_list_trans)
  moreover have "quiet st st2" using one two quiet_trans by blast
  then have "quiet (st\<lparr>as_messages := ms2\<rparr>) (st2\<lparr>as_messages := ms2\<rparr>)" by (rule quiet_messages)
  ultimately show ?thesis using one two out by auto
qed

text \<open>
  C37. Compaction rewrites nothing but the text of user, tool and plain assistant messages; roles, calls,
  ids and images stay, and so does their order. A text it took out can be put together again from
  the chunks the retrieval tool is given, up to the white space at their ends. The pass over the whole
  prompt ends, and then the prompt is within its budget or every message that may be compacted is
  below the floor or was compacted already.
\<close>

theorem compaction_rewrites_text_only:
  assumes "compactSession w a prior st = (reg, idx, st')" "Agent_Compactor a = Some c"
  shows "list_all2 (\<lambda>m m'. m' = m \<or> compactableMsg m \<and> m' = m\<lparr>Msg_Content := Msg_Content m'\<rparr> \<and> recoverable idx (Msg_Content m))
      (as_messages st) (as_messages st') \<and>
    (concat idx \<noteq> [] \<longrightarrow> reg = Some (registryWith (Agent_Tools a) ''context_search'' (contextSearchTool w (concat idx)))) \<and>
    (0 < Comp_MaxTotalTokens c \<longrightarrow>
      totalMessageTokens (as_messages st') \<le> Comp_MaxTotalTokens c \<or> list_all (settled w c) (as_messages st'))"
proof -
  note r = compactSession_rewriting [OF assms]
  have "list_all2 (\<lambda>m m'. m' = m \<or> compactableMsg m \<and> m' = m\<lparr>Msg_Content := Msg_Content m'\<rparr> \<and> recoverable idx (Msg_Content m))
      (as_messages st) (as_messages st')"
    by (rule list_all2_mono [OF conjunct1 [OF r]]) (use rewriting_recoverable in \<open>auto simp: rewriting_def\<close>)
  with r show ?thesis by blast
qed

section \<open>Every call is answered\<close>

definition answers :: "ToolCall \<Rightarrow> Message \<Rightarrow> bool" where
  "answers call m \<longleftrightarrow> Msg_Role m = RoleTool \<and> Msg_ToolCallID m = Call_ID call \<and> Msg_Name m = Call_Name call \<and> Msg_ToolCalls m = []"

text \<open>
  A transcript in which tool messages stand right after the assistant message that asked for them, one for
  each of its calls and in their order, and nowhere else.
\<close>

function paired :: "Message list \<Rightarrow> bool" where
  "paired [] = True"
| "paired (m # ms) =
     (Msg_Role m \<noteq> RoleTool \<and> (Msg_ToolCalls m \<noteq> [] \<longrightarrow> Msg_Role m = RoleAssistant) \<and>
      list_all2 answers (Msg_ToolCalls m) (take (length (Msg_ToolCalls m)) ms) \<and> paired (drop (length (Msg_ToolCalls m)) ms))"
  by pat_completeness auto
termination
  by (relation "measure length") auto

definition shape :: "Message \<Rightarrow> Message \<Rightarrow> bool" where
  "shape m m' \<longleftrightarrow> m' = m\<lparr>Msg_Content := Msg_Content m'\<rparr>"

lemma shape_refl [simp]: "shape m m"
  by (simp add: shape_def)

lemma shape_fields:
  "shape m m' \<Longrightarrow> Msg_Role m' = Msg_Role m \<and> Msg_ToolCalls m' = Msg_ToolCalls m \<and> Msg_ToolCallID m' = Msg_ToolCallID m \<and> Msg_Name m' = Msg_Name m"
proof -
  assume "shape m m'"
  then have "m' = m\<lparr>Msg_Content := Msg_Content m'\<rparr>" by (simp add: shape_def)
  moreover define t where "t = Msg_Content m'"
  ultimately have "m' = m\<lparr>Msg_Content := t\<rparr>" by simp
  then show ?thesis by simp
qed

lemma shape_trans: "shape a b \<Longrightarrow> shape b c \<Longrightarrow> shape a c"
  unfolding shape_def by (metis Message.update_convs(2) Message.surjective)

lemma rewriting_shape: "rewriting c idx m m' \<Longrightarrow> shape m m'"
  by (auto simp: rewriting_def shape_def)

lemma paired_answered:
  assumes "paired xs" "Msg_Role m \<noteq> RoleTool" "Msg_ToolCalls m \<noteq> [] \<longrightarrow> Msg_Role m = RoleAssistant" "list_all2 answers (Msg_ToolCalls m) rs"
  shows "paired (xs @ m # rs)"
  using assms(1)
proof (induction xs rule: paired.induct)
  case 1
  have "length (Msg_ToolCalls m) = length rs" using assms(4) by (rule list_all2_lengthD)
  with assms show ?case by simp
next
  case (2 x xs)
  then have n: "length (Msg_ToolCalls x) \<le> length xs" by (auto dest: list_all2_lengthD)
  with 2 show ?case by simp
qed

lemma paired_shape: "paired xs \<Longrightarrow> list_all2 shape xs ys \<Longrightarrow> paired ys"
proof (induction xs arbitrary: ys rule: paired.induct)
  case (2 m ms)
  then obtain m' ms' where ys: "ys = m' # ms'" "shape m m'" "list_all2 shape ms ms'" by (auto simp: list_all2_Cons1)
  let ?n = "length (Msg_ToolCalls m)"
  have "list_all2 shape (take ?n ms) (take ?n ms')" "list_all2 shape (drop ?n ms) (drop ?n ms')"
    using ys(3) by (simp_all add: list_all2_takeI list_all2_dropI)
  moreover have "list_all2 answers (Msg_ToolCalls m) (take ?n ms)" using 2 by simp
  ultimately have "list_all2 answers (Msg_ToolCalls m) (take ?n ms')" "paired (drop ?n ms')"
    using 2 by (auto intro!: list_all2_trans [of answers shape answers _ _ "take ?n ms'"] simp: answers_def dest: shape_fields)
  with 2 shape_fields [OF ys(2)] ys(1) show ?case by simp
qed simp

definition requestOK :: "ChatRequest \<Rightarrow> bool" where
  "requestOK req \<longleftrightarrow> paired (dropWhile (\<lambda>m. Msg_Role m = RoleSystem) (take 1 (Req_Messages req)) @ drop 1 (Req_Messages req))"

definition agentOK :: "AgentState \<Rightarrow> bool" where
  "agentOK st \<longleftrightarrow> paired (as_messages st) \<and> list_all requestOK (as_requests st)"

definition extends :: "Message list \<Rightarrow> Message list \<Rightarrow> bool" where
  "extends xs ys \<longleftrightarrow> list_all2 shape xs (take (length xs) ys)"

lemma extends_append: "list_all2 shape xs ys \<Longrightarrow> extends xs (ys @ zs)"
  unfolding extends_def using list_all2_lengthD by fastforce

lemma extends_refl [simp]: "extends xs xs" "extends xs (xs @ ys)"
  by (simp_all add: extends_def list_all2_refl)

lemma extends_trans:
  assumes "extends xs ys" "extends ys zs"
  shows "extends xs zs"
proof -
  have n: "length xs \<le> length ys" using assms(1) by (auto simp: extends_def dest: list_all2_lengthD)
  from assms(2) have "list_all2 shape (take (length xs) ys) (take (length xs) (take (length ys) zs))"
    unfolding extends_def by (rule list_all2_takeI)
  with n have "list_all2 shape (take (length xs) ys) (take (length xs) zs)" by (simp add: min_absorb1)
  with assms(1) show ?thesis unfolding extends_def by (rule list_all2_trans [rotated]) (rule shape_trans)
qed

lemma compactSession_OK:
  assumes "compactSession w a prior st = (reg, idx, st1)" "agentOK st"
  shows "agentOK st1 \<and> as_requests st1 = as_requests st \<and> as_events st1 = as_events st \<and> extends (as_messages st) (as_messages st1)"
proof (cases "Agent_Compactor a")
  case None
  with assms show ?thesis by (simp add: compactSession_def)
next
  case (Some c)
  note r = compactSession_rewriting [OF assms(1) Some]
  then have sh: "list_all2 shape (as_messages st) (as_messages st1)" by (auto intro: list_all2_mono rewriting_shape)
  with assms(2) have "paired (as_messages st1)" by (auto simp: agentOK_def intro: paired_shape)
  moreover have "quiet (st\<lparr>as_messages := as_messages st1\<rparr>) st1" using r by blast
  then have "as_requests st1 = as_requests st" "as_events st1 = as_events st" by (auto dest: quiet_fields)
  ultimately show ?thesis using assms(2) extends_append [OF sh, of "[]"] by (simp add: agentOK_def)
qed

lemma composeFrom_OK:
  assumes "composeFrom w a ms st = (msgs, st1)" "paired ms"
  shows "requestOK (requestOf a' reg stream msgs) \<and> st1 = tickState st"
proof -
  have st1: "st1 = tickState st" using assms(1) by (auto simp: composeFrom_def Let_def)
  from assms(1) have "msgs = ms \<or> (\<exists>sys. msgs = textMessage RoleSystem sys # ms)" by (auto simp: composeFrom_def Let_def split: if_splits)
  then show ?thesis
  proof
    assume "msgs = ms"
    with assms(2) st1 show ?thesis by (cases ms) (auto simp: requestOK_def requestOf_def)
  next
    assume "\<exists>sys. msgs = textMessage RoleSystem sys # ms"
    with assms(2) st1 show ?thesis by (auto simp: requestOK_def requestOf_def textMessage_def)
  qed
qed

section \<open>The loop\<close>

definition grows :: "nat \<Rightarrow> AgentState \<Rightarrow> AgentState \<Rightarrow> bool" where
  "grows n st st' \<longleftrightarrow>
     agentOK st' \<and> length (as_requests st') \<le> length (as_requests st) + n \<and> extends (as_messages st) (as_messages st')"

lemma growsI:
  "agentOK st \<Longrightarrow> as_messages st' = as_messages st \<Longrightarrow> as_requests st' = as_requests st \<Longrightarrow> grows 0 st st'"
  by (simp add: grows_def agentOK_def)

lemma grows_refl: "agentOK st \<Longrightarrow> grows n st st"
  by (simp add: grows_def)

lemma grows_trans: "grows n s t \<Longrightarrow> grows m t u \<Longrightarrow> grows (n + m) s u"
  unfolding grows_def using extends_trans by fastforce

lemma grows_le: "grows n s t \<Longrightarrow> n \<le> m \<Longrightarrow> grows m s t"
  by (auto simp: grows_def)

lemma tickState_simps [simp]:
  "as_messages (tickState st) = as_messages st" "as_requests (tickState st) = as_requests st" "as_events (tickState st) = as_events st"
  by (simp_all add: tickState_def)

lemma sendRequest_simps [simp]:
  "as_messages (sendRequest req st) = as_messages st" "as_requests (sendRequest req st) = as_requests st @ [req]"
  "as_events (sendRequest req st) = as_events st"
  by (simp_all add: sendRequest_def)

lemma appendMessage_simps [simp]:
  "as_messages (appendMessage m st) = as_messages st @ [m]" "as_requests (appendMessage m st) = as_requests st"
  "as_events (appendMessage m st) = as_events st"
  by (simp_all add: appendMessage_def)

lemma rememberTurn_simps [simp]:
  "as_messages (rememberTurn a u t st) = as_messages st" "as_requests (rememberTurn a u t st) = as_requests st"
  "as_events (rememberTurn a u t st) = as_events st"
  by (simp_all add: rememberTurn_def remember_def)

lemma recallConvo_simps [simp]:
  "as_messages (recallConvo w a q st) = as_messages st" "as_requests (recallConvo w a q st) = as_requests st"
  "as_events (recallConvo w a q st) = as_events st"
  by (simp_all add: recallConvo_def)

lemma verifyNote_state:
  "verifyNote w a content st = (note, st') \<Longrightarrow>
     as_messages st' = as_messages st \<and> as_requests st' = as_requests st \<and> as_events st' = as_events st"
  by (auto simp: verifyNote_def split: if_splits)

text \<open>The first half of an iteration: what is sent is paired, and the session keeps its shape.\<close>

lemma round_start:
  assumes "agentOK st" "compactSession w a idxs st = (reg, idxs', st1)" "composeFrom w a (as_messages st1) st1 = (msgs, st2)"
  shows "grows 1 st (sendRequest (requestOf a reg stream msgs) st2) \<and>
    agentOK (sendRequest (requestOf a reg stream msgs) st2) \<and> as_events (sendRequest (requestOf a reg stream msgs) st2) = as_events st"
proof -
  note c = compactSession_OK [OF assms(2,1)]
  then have "paired (as_messages st1)" by (simp add: agentOK_def)
  from composeFrom_OK [OF assms(3) this, of a reg stream] c assms(1) show ?thesis by (simp add: grows_def agentOK_def)
qed

lemma answered_calls:
  assumes "agentOK st" "Msg_Role m = RoleAssistant" "list_all2 answers (Msg_ToolCalls m) rs"
    and "as_messages st' = as_messages st @ m # rs" "as_requests st' = as_requests st"
  shows "grows 0 st st'"
  using assms paired_answered [of "as_messages st" m rs] by (simp add: grows_def agentOK_def)

lemma toolMessage_answers: "answers call (toolMessage call r)"
  by (simp add: answers_def toolMessage_def)

lemma runTools_answers:
  "runTools reg calls used st = (used', st') \<Longrightarrow>
     \<exists>rs. list_all2 answers calls rs \<and> as_messages st' = as_messages st @ rs \<and> as_requests st' = as_requests st"
proof (induction calls arbitrary: used st)
  case (Cons call calls)
  let ?m = "toolMessage call (dispatch reg (cs_tick st) call)"
  from Cons.prems have "runTools reg calls (used \<or> isRetrievalTool (Call_Name call)) (appendMessage ?m (tickState st)) = (used', st')" by simp
  from Cons.IH [OF this] obtain rs where
    "list_all2 answers calls rs" "as_messages st' = as_messages st @ ?m # rs" "as_requests st' = as_requests st" by auto
  then show ?case using toolMessage_answers by (intro exI [of _ "?m # rs"]) simp
qed simp

lemma finishTurn_state:
  "finishTurn w a u answer st = (res, st') \<Longrightarrow> as_messages st' = as_messages st \<and> as_requests st' = as_requests st"
  by (auto simp: finishTurn_def dest!: verifyNote_state split: prod.splits)

lemma answerTurn_grows:
  assumes "answerTurn w a u used answer st = (res, st')" "agentOK st" "paired (butlast (as_messages st))"
  shows "grows 1 st st'"
proof (cases "Agent_Agentic a \<and> Agent_RAG a \<and> \<not> used")
  case True
  obtain g st1 where f: "classicFallback w a st = (g, st1)" by fastforce
  have "grows 1 st st1"
  proof (cases "as_messages st = []")
    case True
    with f assms(2) show ?thesis by (simp add: classicFallback_def grows_refl)
  next
    case False
    obtain msgs st2 where c: "composeFrom w (a\<lparr>Agent_Agentic := False\<rparr>) (butlast (as_messages st)) st = (msgs, st2)" by fastforce
    with False f have "st1 = sendRequest (requestOf a None False msgs) st2" by (auto simp: classicFallback_def Let_def)
    with composeFrom_OK [OF c assms(3), of a None False] assms(2) show ?thesis by (simp add: grows_def agentOK_def)
  qed
  moreover have "as_messages st' = as_messages st1 \<and> as_requests st' = as_requests st1"
    using assms(1) True f finishTurn_state by (cases g) (auto simp: answerTurn_def)
  moreover have "agentOK st1" using \<open>grows 1 st st1\<close> by (simp add: grows_def)
  ultimately show ?thesis using grows_trans [of 1 st st1 0 st'] growsI [of st1 st'] by simp
next
  case False
  with assms(1) have "finishTurn w a u answer st = (res, st')" by (auto simp: answerTurn_def)
  with finishTurn_state have "as_messages st' = as_messages st" "as_requests st' = as_requests st" by blast+
  with assms(2) have "grows 0 st st'" by (intro growsI)
  then show ?thesis by (rule grows_le) simp
qed

definition assistantOnly :: "AgentWorld \<Rightarrow> bool" where
  "assistantOnly w \<longleftrightarrow> (\<forall>n req m. aw_chat w n req = Inr m \<longrightarrow> Msg_Role m = RoleAssistant)"

lemma agentLoop_grows:
  assumes "agentLoop w a u left idxs used st = (res, st')" "agentOK st" "assistantOnly w"
  shows "grows (left + 1) st st'"
  using assms(1,2)
proof (induction left arbitrary: idxs used st)
  case 0
  then show ?case by (simp add: grows_refl)
next
  case (Suc left)
  obtain reg idxs' st1 where c: "compactSession w a idxs st = (reg, idxs', st1)" by (cases "compactSession w a idxs st") auto
  obtain msgs st2 where m: "composeFrom w a (as_messages st1) st1 = (msgs, st2)" by fastforce
  let ?req = "requestOf a reg False msgs"
  let ?st3 = "sendRequest ?req st2"
  note start = round_start [OF Suc.prems(2) c m, of False]
  show ?case
  proof (cases "aw_chat w (cs_tick st2) ?req")
    case (Inl e)
    with Suc.prems(1) c m have "st' = ?st3" by (auto simp: Let_def)
    with start show ?thesis by (auto intro: grows_le)
  next
    case (Inr r)
    with assms(3) have role: "Msg_Role r = RoleAssistant" by (auto simp: assistantOnly_def)
    let ?st4 = "appendMessage r ?st3"
    show ?thesis
    proof (cases "Msg_ToolCalls r = []")
      case True
      with role start have s4: "grows 0 ?st3 ?st4" by (intro answered_calls [of _ r "[]"]) simp_all
      moreover have "answerTurn w a u used (Msg_Content r) ?st4 = (res, st')"
        using Suc.prems(1) c m Inr True by (simp add: Let_def)
      with s4 start have "grows 1 ?st4 st'" by (intro answerTurn_grows) (simp_all add: grows_def agentOK_def)
      ultimately have "grows (1 + (0 + 1)) st st'" using start grows_trans by blast
      then show ?thesis by (rule grows_le) simp
    next
      case False
      obtain used' st5 where t: "runTools reg (Msg_ToolCalls r) used ?st4 = (used', st5)" by fastforce
      from runTools_answers [OF t] obtain rs where
        "list_all2 answers (Msg_ToolCalls r) rs" "as_messages st5 = as_messages ?st3 @ r # rs" "as_requests st5 = as_requests ?st3" by auto
      with role start have s5: "grows 0 ?st3 st5" by (intro answered_calls [of _ r rs]) simp_all
      moreover have "agentLoop w a u left idxs' used' st5 = (res, st')"
        using Suc.prems(1) c m Inr False t by (simp add: Let_def)
      with s5 Suc.IH have "grows (left + 1) st5 st'" by (simp add: grows_def)
      ultimately have "grows (1 + (0 + (left + 1))) st st'" using start grows_trans by blast
      then show ?thesis by simp
    qed
  qed
qed

text \<open>
  C35. Whatever the model and the tools do, and however the run ends, every request the provider is
  sent is a system prompt followed by a transcript in which each call of a tool is answered at once, in
  order and under its id; so is the session the run leaves behind, which holds every message it had
  before with at most its text compacted. A run makes at most one request more than its iterations.
\<close>

theorem every_tool_call_is_answered:
  assumes "agentRun w a input st = (res, st')" "assistantOnly w" "paired (as_messages st)" "as_requests st = []"
  shows "paired (as_messages st') \<and> list_all requestOK (as_requests st') \<and>
    int (length (as_requests st')) \<le> max 0 (Agent_MaxIters a) + 1 \<and>
    extends (as_messages st @ [textMessage RoleUser input]) (as_messages st')"
proof -
  let ?st = "recallConvo w a input (appendMessage (textMessage RoleUser input) st)"
  have "paired (as_messages st @ [textMessage RoleUser input])"
    using paired_answered [OF assms(3), of "textMessage RoleUser input" "[]"] by (simp add: textMessage_def)
  with assms(4) have "agentOK ?st" by (simp add: agentOK_def)
  with agentLoop_grows [OF assms(1) [unfolded agentRun_def]] assms(2,4)
  have "grows (nat (Agent_MaxIters a) + 1) ?st st'" by blast
  with assms(4) show ?thesis by (auto simp: grows_def agentOK_def)
qed

section \<open>Streaming\<close>

definition deltas :: "StreamEvent list \<Rightarrow> string" where
  "deltas es = concat (map Ev_Delta (filter (\<lambda>e. Ev_Kind e = TextDelta) es))"

lemma deltas_simps [simp]:
  "deltas [] = []" "deltas (es @ fs) = deltas es @ deltas fs"
  "deltas (e # es) = (if Ev_Kind e = TextDelta then Ev_Delta e else []) @ deltas es"
  by (simp_all add: deltas_def)

text \<open>Steps that leave the conversation alone and send no text; events carry the iteration.\<close>

definition hushed :: "int \<Rightarrow> AgentState \<Rightarrow> AgentState \<Rightarrow> bool" where
  "hushed i st st' \<longleftrightarrow> as_messages st' = as_messages st \<and> as_requests st' = as_requests st \<and>
     (\<exists>es. as_events st' = as_events st @ es \<and> list_all (\<lambda>e. Ev_Iteration e = i) es \<and> deltas es = [])"

interpretation hushed: store_relation "hushed i" for i
proof unfold_locales
  show "hushed i s s" for s by (simp add: hushed_def)
  show "hushed i s u" if "hushed i s t" "hushed i t u" for s t u
    using that by (auto simp: hushed_def)
qed

lemma hushed_emit: "Ev_Iteration e = i \<Longrightarrow> Ev_Kind e \<noteq> TextDelta \<Longrightarrow> evolves (hushed i) (emit w e)"
  by (auto simp: evolves_def hushed_def emit_def)

lemma callEvent_simps [simp]:
  "Ev_Iteration (callEvent k i call args) = i" "Ev_Kind (callEvent k i call args) = k"
  "Ev_Iteration (blankEvent k i) = i" "Ev_Kind (blankEvent k i) = k" "Ev_Delta (blankEvent k i) = []"
  by (simp_all add: callEvent_def blankEvent_def)

lemma hushed_emitWhen: "Ev_Iteration e = i \<Longrightarrow> Ev_Kind e \<noteq> TextDelta \<Longrightarrow> evolves (hushed i) (emitWhen w b e)"
  by (simp add: emitWhen_def hushed_emit hushed.evolves_return)

lemma hushed_consumeCall: "evolves (hushed i) (consumeCall w i d calls)"
  unfolding consumeCall_def Let_def
  by (intro hushed.evolves_prod hushed.evolves_bind hushed.evolves_return hushed_emitWhen) simp_all

lemma hushed_finalizeRound: "evolves (hushed i) (finalizeRound w i content calls)"
  unfolding finalizeRound_def
  by (intro hushed.evolves_bind hushed.evolves_each hushed.evolves_return hushed.evolves_prod hushed_emit) simp_all

lemma finalizeRound_message:
  "finalizeRound w i content calls st = (Inr m, st') \<Longrightarrow> Msg_Role m = RoleAssistant \<and> Msg_Content m = content"
  by (auto simp: finalizeRound_def act_bind_def act_return_def textMessage_def split: prod.splits sum.splits)

definition says :: "int \<Rightarrow> string \<Rightarrow> AgentState \<Rightarrow> AgentState \<Rightarrow> bool" where
  "says i text st st' \<longleftrightarrow> as_messages st' = as_messages st \<and> as_requests st' = as_requests st \<and>
     (\<exists>es. as_events st' = as_events st @ es \<and> list_all (\<lambda>e. Ev_Iteration e = i) es \<and> deltas es = text)"

lemma says_trans: "says i s a b \<Longrightarrow> says i t b c \<Longrightarrow> says i (s @ t) a c"
  by (auto simp: says_def)

lemma hushed_says: "hushed i st st' \<longleftrightarrow> says i [] st st'"
  by (simp add: hushed_def says_def)

lemma says_delta:
  "emitWhen w (d \<noteq> []) ((blankEvent TextDelta i)\<lparr>Ev_Delta := d\<rparr>) st = (r, st') \<Longrightarrow> says i d st st'"
  by (auto simp: emitWhen_def emit_def act_return_def says_def blankEvent_def split: if_splits)

lemma finalizeRound_says:
  assumes "finalizeRound w i content calls st = (Inr m, st')"
  shows "Msg_Role m = RoleAssistant \<and> Msg_Content m = content \<and> says i [] st st'"
  using finalizeRound_message [OF assms] evolvesD [OF hushed_finalizeRound assms] by (simp add: hushed_says)

text \<open>A round that was read to its end: the message says what was shown.\<close>

lemma consumeRound_says:
  assumes "consumeRound w i content calls chs st = (Inr m, st')"
  shows "\<exists>text. Msg_Role m = RoleAssistant \<and> Msg_Content m = content @ text \<and> says i text st st'"
  using assms
proof (induction chs arbitrary: content calls st)
  case Nil
  then show ?case using finalizeRound_says by fastforce
next
  case (Cons ch chs)
  from Cons.prems have noerr: "Chunk_Err ch = None"
    by (cases "Chunk_Err ch") (auto simp: act_bind_def act_fail_def act_ignore_def)
  obtain u st1 where d: "emitWhen w (Chunk_Delta ch \<noteq> []) ((blankEvent TextDelta i)\<lparr>Ev_Delta := Chunk_Delta ch\<rparr>) st = (Inr u, st1)"
    using Cons.prems noerr by (auto simp: act_bind_def split: prod.splits sum.splits)
  let ?call = "case Chunk_ToolCallDelta ch of None \<Rightarrow> act_return calls | Some d \<Rightarrow> consumeCall w i d calls"
  obtain calls' st2 where c: "?call st1 = (Inr calls', st2)"
    and rest: "(if Chunk_Done ch then finalizeRound w i (content @ Chunk_Delta ch) calls'
      else consumeRound w i (content @ Chunk_Delta ch) calls' chs) st2 = (Inr m, st')"
    using Cons.prems noerr d by (auto simp: act_bind_def split: prod.splits sum.splits)
  have "evolves (hushed i) ?call" by (intro hushed.evolves_option hushed.evolves_return hushed_consumeCall)
  from evolvesD [OF this c] have "says i [] st1 st2" by (simp add: hushed_says)
  with says_trans [OF says_delta [OF d]] have shown: "says i (Chunk_Delta ch) st st2" by fastforce
  have "\<exists>text. Msg_Role m = RoleAssistant \<and> Msg_Content m = (content @ Chunk_Delta ch) @ text \<and> says i text st2 st'"
  proof (cases "Chunk_Done ch")
    case True
    with rest finalizeRound_says show ?thesis by fastforce
  next
    case False
    with rest have "consumeRound w i (content @ Chunk_Delta ch) calls' chs st2 = (Inr m, st')" by simp
    from Cons.IH [OF this] show ?thesis by simp
  qed
  with says_trans [OF shown] show ?case by fastforce
qed

lemma streamTools_events:
  assumes "streamTools w i reg calls st = (Inr u, st')"
  shows "\<exists>es. as_events st' = as_events st @ es \<and> list_all (\<lambda>e. Ev_Iteration e = i) es"
  using assms
proof (induction calls arbitrary: st)
  case Nil
  then show ?case by (auto simp: act_return_def)
next
  case (Cons call calls)
  then obtain e st1 where "streamTools w i reg calls st1 = (Inr u, st')" "as_events st1 = as_events st @ [e]" "Ev_Iteration e = i"
    by (auto simp: act_bind_def emit_def Let_def split: prod.splits sum.splits option.splits)
  with Cons.IH [of st1] show ?case by fastforce
qed

lemma streamAnswer_says:
  assumes "streamAnswer w a u i answer st = (Inr final, st')"
  shows "\<exists>advice st1. final = answer @ advice \<and> says i advice st st1 \<and>
    as_events st' = as_events st1 @ [(blankEvent Done i)\<lparr>Ev_FinalContent := final\<rparr>]"
proof -
  obtain advice st1 where v: "verifyNote w a answer st = (advice, st1)" by fastforce
  let ?e = "(blankEvent Done i)\<lparr>Ev_FinalContent := answer @ advice\<rparr>"
  from assms v obtain y st2 where d: "emitWhen w (advice \<noteq> []) ((blankEvent TextDelta i)\<lparr>Ev_Delta := advice\<rparr>) st1 = (Inr y, st2)"
    and rest: "act_bind (emit w ?e) (\<lambda>_ st2. (Inr (answer @ advice), rememberTurn a u answer st2)) st2 = (Inr final, st')"
    by (auto simp: streamAnswer_def act_bind_def split: prod.splits sum.splits)
  from rest have "final = answer @ advice" "as_events st' = as_events st2 @ [?e]"
    by (auto simp: act_bind_def emit_def split: prod.splits sum.splits option.splits)
  moreover have "says i advice st st2" using says_delta [OF d] verifyNote_state [OF v] by (simp add: says_def)
  ultimately show ?thesis by blast
qed

definition earlier :: "int \<Rightarrow> StreamEvent list \<Rightarrow> bool" where
  "earlier i es \<longleftrightarrow> list_all (\<lambda>e. Ev_Iteration e < i) es"

definition roundDeltas :: "int \<Rightarrow> StreamEvent list \<Rightarrow> string" where
  "roundDeltas i es = deltas (filter (\<lambda>e. Ev_Iteration e = i) es)"

lemma earlier_silent: "earlier i es \<Longrightarrow> roundDeltas i es = []"
proof -
  assume "earlier i es"
  then have "filter (\<lambda>e. Ev_Iteration e = i) es = []" by (auto simp: earlier_def list_all_iff filter_empty_conv)
  then show ?thesis by (simp add: roundDeltas_def)
qed

lemma round_filter: "list_all (\<lambda>e. Ev_Iteration e = i) es \<Longrightarrow> filter (\<lambda>e. Ev_Iteration e = i) es = es"
  by (simp add: list_all_iff)

lemma compactSession_events: "compactSession w a prior st = (reg, idx, st1) \<Longrightarrow> as_events st1 = as_events st"
proof (cases "Agent_Compactor a")
  case (Some c)
  assume "compactSession w a prior st = (reg, idx, st1)"
  with Some compactSession_rewriting have "quiet (st\<lparr>as_messages := as_messages st1\<rparr>) st1" by blast
  then show ?thesis by (auto dest: quiet_fields)
qed (simp add: compactSession_def)

lemma composeFrom_events: "composeFrom w a ms st = (msgs, st1) \<Longrightarrow> as_events st1 = as_events st"
  by (auto simp: composeFrom_def Let_def)

lemma streamLoop_shows:
  assumes "streamLoop w a u i left idxs st = (Inr final, st')" "earlier i (as_events st)"
  shows "\<exists>j. roundDeltas j (as_events st') = final \<and> last (as_events st') = (blankEvent Done j)\<lparr>Ev_FinalContent := final\<rparr>"
  using assms
proof (induction left arbitrary: i idxs st)
  case 0
  then show ?case by (auto simp: act_bind_def act_fail_def act_ignore_def)
next
  case (Suc left)
  obtain reg idxs' st1 where c: "compactSession w a idxs st = (reg, idxs', st1)" by (cases "compactSession w a idxs st") auto
  obtain msgs st2 where m: "composeFrom w a (as_messages st1) st1 = (msgs, st2)" by fastforce
  let ?st3 = "sendRequest (requestOf a reg True msgs) st2"
  have ev3: "as_events ?st3 = as_events st" using compactSession_events [OF c] composeFrom_events [OF m] by simp
  obtain chunks where s: "aw_stream w (cs_tick st2) (requestOf a reg True msgs) = Inr chunks"
    using Suc.prems(1) c m
    by (cases "aw_stream w (cs_tick st2) (requestOf a reg True msgs)") (auto simp: Let_def act_bind_def act_fail_def act_ignore_def)
  obtain r st4 where rd: "consumeRound w i [] [] chunks ?st3 = (Inr r, st4)"
    using Suc.prems(1) c m s by (auto simp: Let_def split: prod.splits sum.splits)
  from consumeRound_says [OF rd] have said: "says i (Msg_Content r) ?st3 st4" by auto
  then obtain es where es: "as_events st4 = as_events st @ es" "list_all (\<lambda>e. Ev_Iteration e = i) es" "deltas es = Msg_Content r"
    using ev3 by (auto simp: says_def)
  show ?case
  proof (cases "Msg_ToolCalls r = []")
    case True
    with Suc.prems(1) c m s rd have "streamAnswer w a u i (Msg_Content r) (appendMessage r st4) = (Inr final, st')"
      by (simp add: Let_def)
    from streamAnswer_says [OF this] obtain advice st5 where
      g: "final = Msg_Content r @ advice" "says i advice (appendMessage r st4) st5"
        "as_events st' = as_events st5 @ [(blankEvent Done i)\<lparr>Ev_FinalContent := final\<rparr>]" by blast
    from g(2) obtain fs where "as_events st5 = as_events st4 @ fs" "list_all (\<lambda>e. Ev_Iteration e = i) fs" "deltas fs = advice"
      unfolding says_def appendMessage_simps by blast
    with g have f: "final = Msg_Content r @ advice" "as_events st5 = as_events st4 @ fs" "list_all (\<lambda>e. Ev_Iteration e = i) fs"
      "deltas fs = advice" "as_events st' = as_events st5 @ [(blankEvent Done i)\<lparr>Ev_FinalContent := final\<rparr>]" by simp_all
    have "roundDeltas i (as_events st') = final"
      using earlier_silent [OF Suc.prems(2)] es f round_filter [OF es(2)] round_filter [OF f(3)]
      by (simp add: roundDeltas_def)
    with f(5) show ?thesis by auto
  next
    case False
    with Suc.prems(1) c m s rd obtain x st6 where t: "streamTools w i reg (Msg_ToolCalls r) (appendMessage r st4) = (Inr x, st6)"
      and more: "streamLoop w a u (i + 1) left idxs' st6 = (Inr final, st')"
      by (auto simp: Let_def split: prod.splits sum.splits)
    from streamTools_events [OF t] es Suc.prems(2) have "earlier (i + 1) (as_events st6)"
      by (fastforce simp: earlier_def list_all_iff)
    with Suc.IH [OF more] show ?thesis .
  qed
qed

definition talk :: "AgentState \<Rightarrow> AgentState \<Rightarrow> bool" where
  "talk st st' \<longleftrightarrow> as_messages st' = as_messages st \<and> as_requests st' = as_requests st"

interpretation talk: store_relation talk
  by unfold_locales (auto simp: talk_def)

lemma talk_emit: "evolves talk (emit w e)"
  by (simp add: evolves_def talk_def emit_def)

lemma talk_emitWhen: "evolves talk (emitWhen w b e)"
  by (simp add: emitWhen_def talk_emit talk.evolves_return)

lemma talk_hushed: "evolves (hushed i) m \<Longrightarrow> evolves talk m"
  by (auto simp: evolves_def hushed_def talk_def)

lemma talk_consumeRound: "evolves talk (consumeRound w i content calls chs)"
proof (induction chs arbitrary: content calls)
  case Nil
  show ?case by (simp add: talk_hushed [OF hushed_finalizeRound])
next
  case (Cons ch chs)
  show ?case unfolding consumeRound.simps
    by (intro talk.evolves_option talk.evolves_bind talk.evolves_ignore talk.evolves_fail talk.evolves_return talk.evolves_if
        talk_emit talk_emitWhen talk_hushed [OF hushed_consumeCall] talk_hushed [OF hushed_finalizeRound] Cons)
qed

lemma streamTools_answers:
  "streamTools w i reg calls st = (r, st') \<Longrightarrow>
     as_requests st' = as_requests st \<and> (ok r \<longrightarrow> (\<exists>rs. list_all2 answers calls rs \<and> as_messages st' = as_messages st @ rs))"
proof (induction calls arbitrary: st)
  case Nil
  then show ?case by (simp add: act_return_def)
next
  case (Cons call calls)
  let ?m = "toolMessage call (dispatch reg (cs_tick st) call)"
  from Cons.prems obtain e where run: "act_bind (emit w e) (\<lambda>_. streamTools w i reg calls) (appendMessage ?m (tickState st)) = (r, st')"
    by (auto simp: Let_def)
  obtain x st1 where em: "emit w e (appendMessage ?m (tickState st)) = (x, st1)" by fastforce
  from evolvesD [OF talk_emit em] have st1: "as_messages st1 = as_messages st @ [?m]" "as_requests st1 = as_requests st"
    by (simp_all add: talk_def)
  show ?case
  proof (cases x)
    case (Inl e)
    with run em st1 show ?thesis by (auto simp: act_bind_def)
  next
    case (Inr y)
    with run em have "streamTools w i reg calls st1 = (r, st')" by (simp add: act_bind_def)
    note IH = Cons.IH [OF this]
    have "\<exists>rs. list_all2 answers (call # calls) rs \<and> as_messages st' = as_messages st @ rs" if r: "ok r"
    proof -
      from IH r obtain rs where "list_all2 answers calls rs" "as_messages st' = as_messages st1 @ rs" by blast
      with st1(1) toolMessage_answers show ?thesis by (intro exI [of _ "?m # rs"]) simp
    qed
    with IH st1(2) show ?thesis by simp
  qed
qed

lemma streamLoop_requests:
  assumes "streamLoop w a u i left idxs st = (res, st')" "agentOK st"
  shows "list_all requestOK (as_requests st') \<and> (ok res \<longrightarrow> paired (as_messages st'))"
  using assms
proof (induction left arbitrary: i idxs st)
  case 0
  then show ?case by (auto simp: act_bind_def act_fail_def act_ignore_def emit_def agentOK_def)
next
  case (Suc left)
  obtain reg idxs' st1 where c: "compactSession w a idxs st = (reg, idxs', st1)" by (cases "compactSession w a idxs st") auto
  obtain msgs st2 where m: "composeFrom w a (as_messages st1) st1 = (msgs, st2)" by fastforce
  let ?st3 = "sendRequest (requestOf a reg True msgs) st2"
  have start: "agentOK ?st3" using round_start [OF Suc.prems(2) c m, of True] by simp
  show ?case
  proof (cases "aw_stream w (cs_tick st2) (requestOf a reg True msgs)")
    case (Inl e)
    with Suc.prems(1) c m start show ?thesis
      by (auto simp: Let_def act_bind_def act_fail_def act_ignore_def emit_def agentOK_def)
  next
    case (Inr chunks)
    obtain r st4 where rd: "consumeRound w i [] [] chunks ?st3 = (r, st4)" by fastforce
    from evolvesD [OF talk_consumeRound rd] have st4: "as_messages st4 = as_messages ?st3" "as_requests st4 = as_requests ?st3"
      by (simp_all add: talk_def)
    show ?thesis
    proof (cases r)
      case (Inl e)
      with Suc.prems(1) c m Inr rd start st4 show ?thesis by (auto simp: Let_def agentOK_def)
    next
      case msg: (Inr m')
      then have role: "Msg_Role m' = RoleAssistant" using consumeRound_says rd by blast
      show ?thesis
      proof (cases "Msg_ToolCalls m' = []")
        case True
        let ?st5 = "appendMessage m' st4"
        have "agentOK ?st5" using answered_calls [of ?st3 m' "[]" ?st5] start st4 role True by (simp add: grows_def)
        moreover have "streamAnswer w a u i (Msg_Content m') ?st5 = (res, st')" using Suc.prems(1) c m Inr rd msg True by (simp add: Let_def)
        then have "talk ?st5 st'" 
          using verifyNote_state evolvesD [OF talk_emitWhen] evolvesD [OF talk_emit]
          by (fastforce simp: streamAnswer_def act_bind_def talk_def split: prod.splits sum.splits)
        ultimately show ?thesis by (simp add: talk_def agentOK_def)
      next
        case False
        obtain x st6 where t: "streamTools w i reg (Msg_ToolCalls m') (appendMessage m' st4) = (x, st6)" by fastforce
        note ans = streamTools_answers [OF t]
        show ?thesis
        proof (cases x)
          case (Inl e)
          with Suc.prems(1) c m Inr rd msg False t ans start st4 show ?thesis by (auto simp: Let_def agentOK_def)
        next
          case all: (Inr y)
          with ans obtain rs where "list_all2 answers (Msg_ToolCalls m') rs" "as_messages st6 = as_messages ?st3 @ m' # rs"
            "as_requests st6 = as_requests ?st3" using st4 by auto
          then have "agentOK st6" using answered_calls [of ?st3 m' rs st6] start role by (simp add: grows_def)
          moreover have "streamLoop w a u (i + 1) left idxs' st6 = (res, st')"
            using Suc.prems(1) c m Inr rd msg False t all by (simp add: Let_def)
          ultimately show ?thesis using Suc.IH by blast
        qed
      qed
    qed
  qed
qed


section \<open>Compaction that lengthens\<close>

lemma trimSeqs_stops:
  assumes "\<forall>p \<in> set seqs. c \<notin> set p"
  shows "\<exists>y'. trimSeqs seqs (y @ c # x) = y' @ c # x"
proof (induction y rule: length_induct)
  case (1 y)
  show ?case
  proof (cases "stripSeq seqs (y @ c # x)")
    case None
    then show ?thesis by (auto simp: trimSeqs_idem)
  next
    case (Some r)
    then obtain p where p: "p \<in> set seqs" "p \<noteq> []" "hasPrefix (y @ c # x) p" "r = drop (length p) (y @ c # x)"
      by (auto simp: stripSeq_def dest!: find_SomeD)
    from p(3) obtain z where z: "y @ c # x = p @ z" by (auto simp: hasPrefix_iff)
    have "length p \<le> length y"
    proof (rule ccontr)
      assume "\<not> length p \<le> length y"
      then have "(p @ z) ! length y = p ! length y" "p ! length y \<in> set p" by (simp_all add: nth_append)
      moreover have "(y @ c # x) ! length y = c" by simp
      ultimately show False using z assms p(1) by metis
    qed
    with p(4) have r: "r = drop (length p) y @ c # x" by simp
    moreover have "length (drop (length p) y) < length y" using p(2) \<open>length p \<le> length y\<close> by (cases p) simp_all
    ultimately obtain y' where "trimSeqs seqs r = y' @ c # x" using 1 by blast
    with Some show ?thesis by (auto simp: trimSeqs.simps [of seqs "y @ c # x"])
  qed
qed

definition inkChar :: "char \<Rightarrow> bool" where
  "inkChar c \<longleftrightarrow> 33 \<le> (of_char c :: nat) \<and> (of_char c :: nat) \<le> 126"

lemma inkChar_no_space: "inkChar c \<Longrightarrow> \<forall>p \<in> set spaceRunes. c \<notin> set p"
  by (auto simp: spaceRunes_def inkChar_def)

text \<open>Trimming keeps everything from the first ink to the last.\<close>

lemma trimSpace_keeps:
  assumes "inkChar a" "inkChar b"
  shows "\<exists>z. trimSpace (a # x @ b # y) = a # x @ b # z"
proof -
  obtain y' where "trimSeqs spaceRunes ([] @ a # x @ b # y) = y' @ a # x @ b # y"
    using trimSeqs_stops [OF inkChar_no_space [OF assms(1)], of "[]"] by metis
  moreover from this have "length (y' @ a # x @ b # y) \<le> length (a # x @ b # y)" using trimSeqs_length [of spaceRunes "a # x @ b # y"] by simp
  ultimately have left: "trimLeftSpace (a # x @ b # y) = a # x @ b # y" by (simp add: trimLeftSpace_def)
  have "\<forall>p \<in> set (map rev spaceRunes). b \<notin> set p" using inkChar_no_space [OF assms(2)] by simp
  from trimSeqs_stops [OF this, of "rev y" "rev (a # x)"] obtain z where
    "trimSeqs (map rev spaceRunes) (rev (a # x @ b # y)) = z @ b # rev (a # x)" by auto
  then have "trimRightSpace (a # x @ b # y) = a # x @ b # rev z" by (simp add: trimRightSpace_def)
  with left show ?thesis by (auto simp: trimSpace_def)
qed

lemma compactNote_closes: "\<exists>x y. compactNote n = x @ CHR '']'' # y \<and> 100 \<le> length x"
proof -
  let ?t = "'' tokens of the input were condensed. A faithful summary follows; '' @
     ''call the context_search tool to retrieve any exact passage verbatim.''"
  have "compactNote n = (''[compact: ~'' @ showInt n @ ?t) @ CHR '']'' # lineBreak @ lineBreak" by (simp add: compactNote_def)
  moreover have "100 \<le> length (''[compact: ~'' @ showInt n @ ?t)" by simp
  ultimately show ?thesis by blast
qed

text \<open>
  C38. Forced compaction of a text that the head and the tail cover keeps the text whole and adds its note: a
  message of at least 512 tokens that is shorter than head and tail together gets longer, and the pass that is
  meant to fit the prompt into its budget counts it as done.
\<close>

theorem forced_compaction_can_lengthen:
  assumes "int (length (runes content)) \<le> max 0 (Comp_HeadTokens c * 4) + max 0 (Comp_TailTokens c * 4)"
    and "minForceCompactTokens \<le> estimateTokens content" "inkChar (hd content)"
  shows "\<exists>r st'. compactForce w c content instruction st = (Some r, st') \<and>
    Res_OrigTokens r < Res_FinalTokens r \<and> hasPrefix (Res_Compacted r) content"
proof -
  obtain r st' where ct: "compactText w c content instruction st = (r, st')" by fastforce
  obtain a t where content: "content = a # t" "inkChar a"
    using assms(2,3) by (cases content) (simp_all add: estimateTokens_def minForceCompactTokens_def)
  have split: "splitHeadTail content (Comp_HeadTokens c * 4) (Comp_TailTokens c * 4) = (content, [], [])"
  proof -
    have "length (runes content) \<le> nat (Comp_HeadTokens c * 4) + nat (Comp_TailTokens c * 4)" using assms(1) by arith
    then show ?thesis by (simp add: splitHeadTail_def Let_def)
  qed
  obtain x y where n: "compactNote (estimateTokens []) = x @ CHR '']'' # y" "100 \<le> length x" using compactNote_closes by blast
  from ct split obtain summary where
    body: "Res_Compacted r = compactBody content [] [] summary" "Res_OrigTokens r = estimateTokens content"
      "Res_FinalTokens r = estimateTokens (Res_Compacted r)"
    by (auto simp: compactText_def Let_def split: prod.splits)
  obtain z where "Res_Compacted r = trimSpace (a # (t @ lineBreak @ lineBreak @ x) @ CHR '']'' # z)"
    unfolding body(1) compactBody_def n(1) by (simp add: content(1))
  moreover have "inkChar (CHR '']'')" by (simp add: inkChar_def)
  with trimSpace_keeps [OF content(2), of "CHR '']''" "t @ lineBreak @ lineBreak @ x" z]
  obtain z' where "trimSpace (a # (t @ lineBreak @ lineBreak @ x) @ CHR '']'' # z) = a # (t @ lineBreak @ lineBreak @ x) @ CHR '']'' # z'" by blast
  ultimately have whole: "Res_Compacted r = content @ lineBreak @ lineBreak @ x @ CHR '']'' # z'" using content(1) by simp
  then have "int (length (Res_Compacted r)) \<ge> int (length content) + 100" using n(2) by simp
  then have "Res_OrigTokens r < Res_FinalTokens r" unfolding body(2,3) estimateTokens_def by presburger
  moreover have "hasPrefix (Res_Compacted r) content" unfolding whole by (rule hasPrefix_append)
  moreover have "compactForce w c content instruction st = (Some r, st')" using assms(2) ct by (simp add: compactForce_def)
  ultimately show ?thesis by blast
qed

lemma runes_length: "length (runes s) \<le> length s"
proof (induction s rule: runes.induct)
  case (2 c cs)
  obtain r n where d: "decodeRune (c # cs) = (r, n)" by fastforce
  with 2 have "length (runes (drop n (c # cs))) \<le> length (drop n (c # cs))" by simp
  moreover have "0 < n" using decodeRune_width [of "c # cs"] d by simp
  ultimately show ?case using d by simp
qed simp

section \<open>Sample runs\<close>

definition serverCompactor :: Compactor where
  "serverCompactor =
     \<lparr>Comp_Summarizer = False, Comp_InputTokenBudget = 0, Comp_TriggerTokens = 2048, Comp_MaxTotalTokens = 2048,
      Comp_HeadTokens = 800, Comp_TailTokens = 800, Comp_ChunkChars = 3000\<rparr>"

definition sampleCall :: ToolCall where
  "sampleCall = \<lparr>Call_ID = ''c1'', Call_Name = ''clock'', Call_Arguments = ''{}''\<rparr>"

definition sampleReply :: "nat \<Rightarrow> Message" where
  "sampleReply n =
     (if n < 2 then (textMessage RoleAssistant [])\<lparr>Msg_ToolCalls := [sampleCall]\<rparr> else textMessage RoleAssistant ''noon'')"

definition sampleChunks :: "nat \<Rightarrow> StreamChunk list" where
  "sampleChunks n =
     (if n < 2 then [\<lparr>Chunk_Delta = [], Chunk_ToolCallDelta = Some sampleCall, Chunk_Done = True, Chunk_Err = None\<rparr>]
      else [\<lparr>Chunk_Delta = ''no'', Chunk_ToolCallDelta = None, Chunk_Done = False, Chunk_Err = None\<rparr>,
            \<lparr>Chunk_Delta = ''on'', Chunk_ToolCallDelta = None, Chunk_Done = True, Chunk_Err = None\<rparr>])"

definition sampleWorld :: AgentWorld where
  "sampleWorld =
     \<lparr>cw_summarize = (\<lambda>_ _ _. Inl (Err ''none'')), cw_hash = id, aw_chat = (\<lambda>n _. Inr (sampleReply n)),
      aw_stream = (\<lambda>n _. Inr (sampleChunks n)), aw_sink = (\<lambda>_ _. None), aw_augment = (\<lambda>_ _. []), aw_groundingHint = (\<lambda>_. []),
      aw_verify = (\<lambda>_ _. Inr []), aw_recall = (\<lambda>_ _. []), aw_decodeQuery = (\<lambda>_. Inl (Err ''none'')), aw_search = (\<lambda>_ _ _. [])\<rparr>"

definition smallCompactor :: Compactor where
  "smallCompactor = serverCompactor\<lparr>Comp_TriggerTokens := 3, Comp_MaxTotalTokens := 0, Comp_HeadTokens := 1, Comp_TailTokens := 1\<rparr>"

definition sampleAgent :: Agent where
  "sampleAgent =
     \<lparr>Agent_Tools = Some [(''clock'', \<lparr>Tool_Description = [], Tool_Schema = [], Tool_Execute = (\<lambda>_ _. Inr ''12:00'')\<rparr>)],
      Agent_SystemPrompt = ''Be brief.'', Agent_Directives = [], Agent_WorkspaceDirective = [], Agent_WorkspaceListing = [],
      Agent_AgenticDirective = [], Agent_MaxIters = 3, Agent_RAG = False, Agent_Model = [], Agent_Agentic = False,
      Agent_Verifier = False, Agent_MaxTokens = 0, Agent_Compactor = None, Agent_ConvoMemory = False, Agent_ProfileID = []\<rparr>"

definition sampleState :: AgentState where
  "sampleState = \<lparr>cs_tick = 0, cs_cache = None, as_messages = [], as_requests = [], as_events = [], as_convo = [], as_memory = []\<rparr>"

theorem forced_compaction_can_lengthen_witness:
  "\<exists>r st'. compactForce sampleWorld serverCompactor (replicate 2048 (CHR ''x'')) [] sampleState = (Some r, st') \<and>
    Res_OrigTokens r < Res_FinalTokens r"
proof -
  let ?content = "replicate 2048 (CHR ''x'')"
  have "int (length (runes ?content)) \<le> max 0 (Comp_HeadTokens serverCompactor * 4) + max 0 (Comp_TailTokens serverCompactor * 4)"
    using runes_length [of ?content] by (simp add: serverCompactor_def)
  moreover have "minForceCompactTokens \<le> estimateTokens ?content" by (simp add: minForceCompactTokens_def estimateTokens_def)
  moreover have "inkChar (hd ?content)" by (simp add: inkChar_def)
  ultimately show ?thesis using forced_compaction_can_lengthen by blast
qed

theorem compaction_rewrites_text_only_witness:
  "\<exists>reg idx st'. compactSession sampleWorld (sampleAgent\<lparr>Agent_Compactor := Some smallCompactor\<rparr>) []
      (sampleState\<lparr>as_messages := [textMessage RoleUser ''where is the fault?'']\<rparr>) = (reg, idx, st') \<and>
     map Msg_Role (as_messages st') = [RoleUser] \<and> recoverable idx ''where is the fault?''"
proof -
  let ?a = "sampleAgent\<lparr>Agent_Compactor := Some smallCompactor\<rparr>"
  let ?st = "sampleState\<lparr>as_messages := [textMessage RoleUser ''where is the fault?'']\<rparr>"
  have diff: "map Msg_Content (as_messages (snd (snd (compactSession sampleWorld ?a [] ?st)))) \<noteq> [''where is the fault?'']" by code_simp
  obtain reg idx st' where c: "compactSession sampleWorld ?a [] ?st = (reg, idx, st')" by (cases "compactSession sampleWorld ?a [] ?st") auto
  from compaction_rewrites_text_only [OF c, of smallCompactor] obtain m' where
    m: "as_messages st' = [m']" "m' = textMessage RoleUser ''where is the fault?'' \<or>
      m' = (textMessage RoleUser ''where is the fault?'')\<lparr>Msg_Content := Msg_Content m'\<rparr> \<and> recoverable idx ''where is the fault?''"
    by (auto simp: list_all2_Cons1 textMessage_def)
  with diff c have "m' \<noteq> textMessage RoleUser ''where is the fault?''" by (auto simp: textMessage_def)
  with m have "recoverable idx ''where is the fault?''" "m' = (textMessage RoleUser ''where is the fault?'')\<lparr>Msg_Content := Msg_Content m'\<rparr>" by blast+
  moreover from this(2) have "Msg_Role m' = RoleUser" using shape_fields [of "textMessage RoleUser ''where is the fault?''" m']
    by (simp add: shape_def textMessage_def)
  ultimately show ?thesis using c m(1) by simp
qed

theorem every_tool_call_is_answered_witness:
  "\<exists>st'. agentRun sampleWorld sampleAgent ''what time is it?'' sampleState = (Inr ''noon'', st') \<and>
     length (as_messages st') = 4 \<and> paired (as_messages st')"
proof -
  let ?run = "agentRun sampleWorld sampleAgent ''what time is it?'' sampleState"
  have run: "fst ?run = Inr ''noon''" "length (as_messages (snd ?run)) = 4" by code_simp+
  have eq: "?run = (Inr ''noon'', snd ?run)" using run(1) by (metis prod.collapse)
  have "assistantOnly sampleWorld" by (simp add: assistantOnly_def sampleWorld_def sampleReply_def textMessage_def)
  from every_tool_call_is_answered [OF eq this] run(2) eq show ?thesis by (auto simp: sampleState_def)
qed


end
