(* ===== verification/Refinement.thy ===== *)
theory Refinement
  imports Go_Strings
begin

text \<open>
  The bounded refinement of research answers (\<^verbatim>\<open>refine/verdict.go\<close>, \<^verbatim>\<open>refine/judge.go\<close>,
  \<^verbatim>\<open>refine/loop.go\<close>): an answer is generated and judged until a judge calls it usable, the failures
  repeat themselves or the rounds are used up. The model that generates, the model that judges and
  the time a round takes are parameters that may answer differently in every round. \<^verbatim>\<open>OnRound\<close>
  observes the rounds of the ledger as they are appended and has no part in the outcome.
\<close>

section \<open>Verdicts\<close>

record Verdict =
  Verdict_Usable :: bool
  Verdict_Reasons :: string
  Verdict_Fixes :: "string list"
  Verdict_FailureModes :: "string list"

definition upperChar :: "char \<Rightarrow> char" where
  "upperChar c = (let n = of_char c :: nat in if 97 \<le> n \<and> n \<le> 122 then char_of (n - 32) else c)"

definition toUpper :: "(string \<Rightarrow> string) \<Rightarrow> string \<Rightarrow> string" where
  "toUpper upper s = (if isASCII s then map upperChar s else upper s)"

text \<open>Folding with \<^verbatim>\<open>NONE\<close>, whose letters have no case variants outside ASCII.\<close>

definition isNone :: "string \<Rightarrow> bool" where
  "isNone s \<longleftrightarrow> map lowerChar s = ''none''"

definition splitTags :: "string \<Rightarrow> string list" where
  "splitTags s =
     (let t = trimSpace s in
      if t = [] \<or> isNone t then []
      else filter (\<lambda>p. p \<noteq> [] \<and> \<not> isNone p) (map trimSpace (splitChar (CHR '';'') t)))"

definition labelled :: "(string \<Rightarrow> string) \<Rightarrow> string \<Rightarrow> string \<Rightarrow> bool" where
  "labelled upper label line \<longleftrightarrow> hasPrefix (toUpper upper line) label"

definition verdictValue :: "(string \<Rightarrow> string) \<Rightarrow> string \<Rightarrow> string" where
  "verdictValue upper line = toUpper upper (trimSpace (drop (length ''VERDICT:'') line))"

text \<open>One line of the reply; the flag is \<^verbatim>\<open>sawVerdict\<close>.\<close>

definition readLine :: "(string \<Rightarrow> string) \<Rightarrow> string \<Rightarrow> bool \<times> Verdict \<Rightarrow> bool \<times> Verdict" where
  "readLine upper raw st =
     (let line = trimSpace raw; (seen, v) = st in
      if labelled upper ''VERDICT:'' line
      then (True,
            if strContains (verdictValue upper line) ''NOT_USABLE'' \<or> strContains (verdictValue upper line) ''NOT USABLE''
            then v\<lparr>Verdict_Usable := False\<rparr>
            else if strContains (verdictValue upper line) ''USABLE'' then v\<lparr>Verdict_Usable := True\<rparr> else v)
      else if labelled upper ''REASONS:'' line then (seen, v\<lparr>Verdict_Reasons := trimSpace (drop (length ''REASONS:'') line)\<rparr>)
      else if labelled upper ''FIXES:'' line then (seen, v\<lparr>Verdict_Fixes := splitTags (drop (length ''FIXES:'') line)\<rparr>)
      else if labelled upper ''FAILURE_MODES:'' line
      then (seen, v\<lparr>Verdict_FailureModes := splitTags (drop (length ''FAILURE_MODES:'') line)\<rparr>)
      else (seen, v))"

definition noVerdict :: Verdict where
  "noVerdict = \<lparr>Verdict_Usable = False, Verdict_Reasons = [], Verdict_Fixes = [], Verdict_FailureModes = []\<rparr>"

definition parseVerdict :: "(string \<Rightarrow> string) \<Rightarrow> string \<Rightarrow> Verdict" where
  "parseVerdict upper raw =
     (let (seen, v) = fold (readLine upper) (splitChar (CHR ''\<newline>'') raw) (False, noVerdict) in
      if seen then v
      else v\<lparr>Verdict_Usable := False,
             Verdict_Reasons := (if Verdict_Reasons v = [] then ''judge output unparsable'' else Verdict_Reasons v),
             Verdict_FailureModes := Verdict_FailureModes v @ [''unparsable-verdict'']\<rparr>)"

text \<open>The judge: \<open>reply\<close> is what the model answers to the rubric, the task and the answer.\<close>

definition openAIJudge :: "(string \<Rightarrow> string) \<Rightarrow> (nat \<Rightarrow> string \<Rightarrow> string result) \<Rightarrow> nat \<Rightarrow> string \<Rightarrow> string \<Rightarrow> Verdict result" where
  "openAIJudge upper reply i task answer =
     rbind (reply i (''TASK:'' @ [CHR ''\<newline>''] @ task @ [CHR ''\<newline>'', CHR ''\<newline>''] @ ''ANSWER:'' @ [CHR ''\<newline>''] @ answer))
       (\<lambda>content. Inr (parseVerdict upper content))"

section \<open>The loop\<close>

definition DefaultMaxIters :: int where "DefaultMaxIters = 3"
definition DefaultMaxNoProgress :: int where "DefaultMaxNoProgress = 2"

record LoopConfig =
  Loop_MaxIters :: int
  Loop_MaxNoProgress :: int

definition withDefaults :: "LoopConfig \<Rightarrow> LoopConfig" where
  "withDefaults c =
     c\<lparr>Loop_MaxIters := (if Loop_MaxIters c \<le> 0 then DefaultMaxIters else Loop_MaxIters c),
       Loop_MaxNoProgress := (if Loop_MaxNoProgress c \<le> 0 then DefaultMaxNoProgress else Loop_MaxNoProgress c)\<rparr>"

record Round =
  Round_Iter :: nat
  Round_Answer :: string
  Round_Verdict :: Verdict
  Round_DurationMs :: int

datatype StopReason = StopUsable | StopMaxIters | StopNoProgress

record RefineResult =
  Ref_Usable :: bool
  Ref_FinalAnswer :: string
  Ref_Reason :: StopReason
  Ref_Rounds :: "Round list"

fun firstModes :: "string list \<Rightarrow> string list \<Rightarrow> string list" where
  "firstModes seen [] = []"
| "firstModes seen (t # ts) = (if t = [] \<or> t \<in> set seen then firstModes seen ts else t # firstModes (t # seen) ts)"

definition modeSignature :: "(string \<Rightarrow> string) \<Rightarrow> string list \<Rightarrow> string" where
  "modeSignature lower modes = strJoin ''|'' (sort (firstModes [] (map (\<lambda>m. toLower lower (trimSpace m)) modes)))"

definition briefOpening :: string where
  "briefOpening =
     ''Revise the SAME analysis to be more grounded, honestly scoped, and correctly labelled. '' @
     ''Do NOT invent findings, add confidence, or claim a vulnerability the evidence does not support; '' @
     ''an honest negative is an acceptable answer. ''"

definition buildBrief :: "Verdict \<Rightarrow> string" where
  "buildBrief v =
     trimSpace (briefOpening @
       (if Verdict_Reasons v \<noteq> [] then ''Reviewer concerns: '' @ Verdict_Reasons v @ ''. '' else []) @
       (if Verdict_Fixes v \<noteq> [] then ''Address: '' @ strJoin ''; '' (take 2 (Verdict_Fixes v)) @ ''.'' else []))"

record LoopState =
  ls_result :: RefineResult
  ls_brief :: string
  ls_prevSignature :: string
  ls_noProgress :: int
  ls_bestSet :: bool
  ls_bestModes :: nat

definition loopStart :: LoopState where
  "loopStart =
     \<lparr>ls_result = \<lparr>Ref_Usable = False, Ref_FinalAnswer = [], Ref_Reason = StopMaxIters, Ref_Rounds = []\<rparr>,
      ls_brief = [], ls_prevSignature = [], ls_noProgress = 0, ls_bestSet = False, ls_bestModes = 0\<rparr>"

record RefineWorld =
  rw_gen :: "nat \<Rightarrow> string \<Rightarrow> string \<Rightarrow> string result"
  rw_judge :: "nat \<Rightarrow> string \<Rightarrow> string \<Rightarrow> Verdict result"
  rw_elapsed :: "nat \<Rightarrow> int"
  rw_lower :: "string \<Rightarrow> string"

definition failedRound :: "string \<Rightarrow> string \<Rightarrow> Verdict" where
  "failedRound reasons tag = \<lparr>Verdict_Usable = False, Verdict_Reasons = reasons, Verdict_Fixes = [], Verdict_FailureModes = [tag]\<rparr>"

definition addRound :: "Round \<Rightarrow> RefineResult \<Rightarrow> RefineResult" where
  "addRound r res = res\<lparr>Ref_Rounds := Ref_Rounds res @ [r]\<rparr>"

text \<open>What follows a round that was judged: the attempt with the fewest failure modes is kept.\<close>

definition keepBest :: "string \<Rightarrow> Verdict \<Rightarrow> LoopState \<Rightarrow> LoopState" where
  "keepBest answer v st =
     (if \<not> ls_bestSet st \<or> length (Verdict_FailureModes v) < ls_bestModes st
      then st\<lparr>ls_result := (ls_result st)\<lparr>Ref_FinalAnswer := answer\<rparr>, ls_bestModes := length (Verdict_FailureModes v), ls_bestSet := True\<rparr>
      else st)"

definition judgeRound :: "RefineWorld \<Rightarrow> LoopConfig \<Rightarrow> nat \<Rightarrow> string \<Rightarrow> Verdict \<Rightarrow> LoopState \<Rightarrow> RefineResult + LoopState" where
  "judgeRound w cfg i answer v st =
     (let st1 = st\<lparr>ls_result := addRound \<lparr>Round_Iter = i, Round_Answer = answer, Round_Verdict = v, Round_DurationMs = rw_elapsed w i\<rparr> (ls_result st)\<rparr> in
      if Verdict_Usable v
      then Inl ((ls_result st1)\<lparr>Ref_Usable := True, Ref_FinalAnswer := answer, Ref_Reason := StopUsable\<rparr>)
      else
        (let st2 = keepBest answer v st1;
             sig = modeSignature (rw_lower w) (Verdict_FailureModes v);
             same = (sig \<noteq> [] \<and> sig = ls_prevSignature st2);
             n = (if same then ls_noProgress st2 + 1 else 0)
         in if same \<and> n \<ge> Loop_MaxNoProgress cfg then Inl ((ls_result st2)\<lparr>Ref_Reason := StopNoProgress\<rparr>)
            else Inr (st2\<lparr>ls_noProgress := n, ls_prevSignature := sig, ls_brief := buildBrief v\<rparr>)))"

definition judgement :: "RefineWorld \<Rightarrow> nat \<Rightarrow> string \<Rightarrow> string \<Rightarrow> Verdict" where
  "judgement w i task answer =
     (case rw_judge w i task answer of
        Inl e \<Rightarrow> failedRound (''judge unavailable: '' @ errText e) ''judge-error''
      | Inr v \<Rightarrow> v)"

fun refineFrom :: "RefineWorld \<Rightarrow> LoopConfig \<Rightarrow> string \<Rightarrow> nat \<Rightarrow> nat \<Rightarrow> LoopState \<Rightarrow> RefineResult \<times> err option" where
  "refineFrom w cfg task i 0 st = (ls_result st, None)"
| "refineFrom w cfg task i (Suc left) st =
     (case rw_gen w i task (ls_brief st) of
        Inl e \<Rightarrow>
          if \<not> ls_bestSet st then (ls_result st, Some e)
          else refineFrom w cfg task (i + 1) left (st\<lparr>ls_result := addRound
                 \<lparr>Round_Iter = i, Round_Answer = [],
                  Round_Verdict = failedRound (''generation error: '' @ errText e) ''generation-error'',
                  Round_DurationMs = rw_elapsed w i\<rparr> (ls_result st)\<rparr>)
      | Inr answer \<Rightarrow>
          (case judgeRound w cfg i answer (judgement w i task answer) st of
             Inl res \<Rightarrow> (res, None)
           | Inr st' \<Rightarrow> refineFrom w cfg task (i + 1) left st'))"

definition refineRun :: "RefineWorld \<Rightarrow> LoopConfig \<Rightarrow> string \<Rightarrow> RefineResult \<times> err option" where
  "refineRun w cfg task =
     refineFrom w (withDefaults cfg) task 1 (nat (Loop_MaxIters (withDefaults cfg))) loopStart"

section \<open>What a reply has to say\<close>

definition decisive :: "(string \<Rightarrow> string) \<Rightarrow> string \<Rightarrow> bool" where
  "decisive upper raw \<longleftrightarrow>
     labelled upper ''VERDICT:'' (trimSpace raw) \<and> strContains (verdictValue upper (trimSpace raw)) ''USABLE''"

definition rejects :: "(string \<Rightarrow> string) \<Rightarrow> string \<Rightarrow> bool" where
  "rejects upper raw \<longleftrightarrow>
     strContains (verdictValue upper (trimSpace raw)) ''NOT_USABLE'' \<or> strContains (verdictValue upper (trimSpace raw)) ''NOT USABLE''"

lemma rejects_says_usable: "rejects upper raw \<Longrightarrow> strContains (verdictValue upper (trimSpace raw)) ''USABLE''"
  unfolding rejects_def strContains_iff by (metis append.assoc append_Cons append_Nil)

lemma readLines_usable:
  "Verdict_Usable (snd (fold (readLine upper) ls (seen, v))) =
     (if filter (decisive upper) ls = [] then Verdict_Usable v else \<not> rejects upper (last (filter (decisive upper) ls)))"
proof (induction ls arbitrary: seen v)
  case (Cons l ls)
  obtain seen' v' where st: "readLine upper l (seen, v) = (seen', v')" by fastforce
  then have "Verdict_Usable v' = (if decisive upper l then \<not> rejects upper l else Verdict_Usable v)"
    using rejects_says_usable [of upper l]
    by (auto simp: readLine_def Let_def decisive_def rejects_def split: if_splits)
  with Cons [of seen' v'] st show ?case by simp
qed simp

lemma readLines_seen:
  "fst (fold (readLine upper) ls (seen, v)) \<longleftrightarrow> seen \<or> (\<exists>l \<in> set ls. labelled upper ''VERDICT:'' (trimSpace l))"
proof (induction ls arbitrary: seen v)
  case (Cons l ls)
  obtain seen' v' where st: "readLine upper l (seen, v) = (seen', v')" by fastforce
  then have "seen' \<longleftrightarrow> seen \<or> labelled upper ''VERDICT:'' (trimSpace l)"
    by (auto simp: readLine_def Let_def split: if_splits)
  with Cons [of seen' v'] st show ?case by auto
qed simp

lemma parseVerdict_usable_iff:
  "Verdict_Usable (parseVerdict upper raw) \<longleftrightarrow>
     filter (decisive upper) (splitChar (CHR ''\<newline>'') raw) \<noteq> [] \<and>
     \<not> rejects upper (last (filter (decisive upper) (splitChar (CHR ''\<newline>'') raw)))"
proof -
  let ?ls = "splitChar (CHR ''\<newline>'') raw"
  obtain seen v where st: "fold (readLine upper) ?ls (False, noVerdict) = (seen, v)" by fastforce
  have "Verdict_Usable v \<longleftrightarrow> filter (decisive upper) ?ls \<noteq> [] \<and> \<not> rejects upper (last (filter (decisive upper) ?ls))"
    using readLines_usable [of upper ?ls False noVerdict] st by (simp add: noVerdict_def)
  moreover have "\<not> seen \<Longrightarrow> filter (decisive upper) ?ls = []"
    using readLines_seen [of upper ?ls False noVerdict] st by (auto simp: decisive_def filter_empty_conv)
  ultimately show ?thesis using st by (auto simp: parseVerdict_def)
qed

text \<open>
  C40. A reply passes exactly if the last of its verdict lines that mentions USABLE says neither
  NOT_USABLE nor NOT USABLE. So a reply without a verdict line never passes; but the reader does not
  fail closed, since UNUSABLE and NOT-USABLE mention USABLE and are taken for a pass.
\<close>

theorem verdict_passes_iff:
  "(Verdict_Usable (parseVerdict upper raw) \<longleftrightarrow>
     (\<exists>l. l = last (filter (decisive upper) (splitChar (CHR ''\<newline>'') raw)) \<and>
       l \<in> set (splitChar (CHR ''\<newline>'') raw) \<and> decisive upper l \<and> \<not> rejects upper l)) \<and>
   Verdict_Usable (parseVerdict upper ''VERDICT: UNUSABLE'') \<and> Verdict_Usable (parseVerdict upper ''VERDICT: NOT-USABLE'')"
proof (intro conjI)
  let ?ls = "splitChar (CHR ''\<newline>'') raw"
  have "filter (decisive upper) ?ls \<noteq> [] \<Longrightarrow> last (filter (decisive upper) ?ls) \<in> set (filter (decisive upper) ?ls)" by (rule last_in_set)
  moreover have "decisive upper l \<Longrightarrow> l \<in> set ?ls \<Longrightarrow> filter (decisive upper) ?ls \<noteq> []" for l by (auto simp: filter_empty_conv)
  ultimately show "Verdict_Usable (parseVerdict upper raw) \<longleftrightarrow>
     (\<exists>l. l = last (filter (decisive upper) ?ls) \<and> l \<in> set ?ls \<and> decisive upper l \<and> \<not> rejects upper l)"
    unfolding parseVerdict_usable_iff by auto
  show "Verdict_Usable (parseVerdict upper ''VERDICT: UNUSABLE'')" "Verdict_Usable (parseVerdict upper ''VERDICT: NOT-USABLE'')"
    by code_simp+
qed

section \<open>What the loop returns\<close>

definition modesOf :: "Round \<Rightarrow> string list" where
  "modesOf r = Verdict_FailureModes (Round_Verdict r)"

definition unanswered :: "Round \<Rightarrow> bool" where
  "unanswered r \<longleftrightarrow> modesOf r = [''generation-error'']"

definition judged :: "RefineWorld \<Rightarrow> string \<Rightarrow> Round \<Rightarrow> bool" where
  "judged w task r \<longleftrightarrow>
     (\<exists>brief. rw_gen w (Round_Iter r) task brief = Inr (Round_Answer r)) \<and>
     Round_Verdict r = judgement w (Round_Iter r) task (Round_Answer r)"

text \<open>An answer that no judged round of the ledger beats; a round without an answer has only the tag of its failure.\<close>

definition leastFabricated :: "RefineWorld \<Rightarrow> string \<Rightarrow> Round list \<Rightarrow> string \<Rightarrow> bool" where
  "leastFabricated w task rounds answer \<longleftrightarrow>
     (\<exists>r \<in> set rounds. judged w task r \<and> Round_Answer r = answer \<and>
       (\<forall>r' \<in> set rounds. \<not> unanswered r' \<longrightarrow> length (modesOf r) \<le> length (modesOf r')))"

definition repeats :: "RefineWorld \<Rightarrow> Round list \<Rightarrow> string \<Rightarrow> int" where
  "repeats w rounds sig = int (length (filter (\<lambda>r. modeSignature (rw_lower w) (modesOf r) = sig) rounds))"

definition bestOK :: "RefineWorld \<Rightarrow> string \<Rightarrow> LoopState \<Rightarrow> bool" where
  "bestOK w task st \<longleftrightarrow>
     (ls_bestSet st \<longleftrightarrow> Ref_Rounds (ls_result st) \<noteq> []) \<and>
     (ls_bestSet st \<longrightarrow>
       (\<exists>r \<in> set (Ref_Rounds (ls_result st)). judged w task r \<and> Round_Answer r = Ref_FinalAnswer (ls_result st) \<and>
          length (modesOf r) = ls_bestModes st)) \<and>
     (\<forall>r \<in> set (Ref_Rounds (ls_result st)). \<not> unanswered r \<longrightarrow> ls_bestModes st \<le> length (modesOf r))"

definition stallOK :: "RefineWorld \<Rightarrow> LoopState \<Rightarrow> bool" where
  "stallOK w st \<longleftrightarrow>
     0 \<le> ls_noProgress st \<and> (ls_prevSignature st = [] \<longrightarrow> ls_noProgress st = 0) \<and>
     (ls_prevSignature st \<noteq> [] \<longrightarrow> ls_noProgress st + 1 \<le> repeats w (Ref_Rounds (ls_result st)) (ls_prevSignature st))"

definition ledgerOK :: "nat \<Rightarrow> RefineResult \<Rightarrow> bool" where
  "ledgerOK i res \<longleftrightarrow>
     map Round_Iter (Ref_Rounds res) = [1..<i] \<and> \<not> Ref_Usable res \<and> Ref_Reason res = StopMaxIters \<and>
     (\<forall>r \<in> set (Ref_Rounds res). \<not> Verdict_Usable (Round_Verdict r))"

definition loopOK :: "RefineWorld \<Rightarrow> string \<Rightarrow> nat \<Rightarrow> LoopState \<Rightarrow> bool" where
  "loopOK w task i st \<longleftrightarrow> 1 \<le> i \<and> ledgerOK i (ls_result st) \<and> bestOK w task st \<and> stallOK w st"

lemma loopOK_start: "loopOK w task 1 loopStart"
  by (simp add: loopOK_def ledgerOK_def bestOK_def stallOK_def loopStart_def)

lemma bestOK_least: "bestOK w task st \<Longrightarrow> ls_bestSet st \<Longrightarrow> leastFabricated w task (Ref_Rounds (ls_result st)) (Ref_FinalAnswer (ls_result st))"
  unfolding bestOK_def leastFabricated_def by metis

lemma repeats_snoc:
  "repeats w (rs @ [r]) sig = repeats w rs sig + (if modeSignature (rw_lower w) (modesOf r) = sig then 1 else 0)"
  by (simp add: repeats_def)

text \<open>What every outcome of the loop satisfies.\<close>

definition refineOutcomeOK :: "RefineWorld \<Rightarrow> LoopConfig \<Rightarrow> string \<Rightarrow> nat \<Rightarrow> RefineResult \<Rightarrow> bool" where
  "refineOutcomeOK w cfg task limit res \<longleftrightarrow>
     length (Ref_Rounds res) \<le> limit \<and> map Round_Iter (Ref_Rounds res) = [1..<length (Ref_Rounds res) + 1] \<and>
     (Ref_Usable res \<longleftrightarrow> Ref_Reason res = StopUsable) \<and>
     (Ref_Usable res \<longleftrightarrow> (\<exists>r \<in> set (Ref_Rounds res). Verdict_Usable (Round_Verdict r))) \<and>
     (if Ref_Usable res
      then Ref_Rounds res \<noteq> [] \<and> judged w task (last (Ref_Rounds res)) \<and> Ref_FinalAnswer res = Round_Answer (last (Ref_Rounds res))
      else leastFabricated w task (Ref_Rounds res) (Ref_FinalAnswer res)) \<and>
     (Ref_Reason res = StopMaxIters \<longrightarrow> length (Ref_Rounds res) = limit) \<and>
     (Ref_Reason res = StopNoProgress \<longrightarrow> (\<exists>sig. sig \<noteq> [] \<and> Loop_MaxNoProgress cfg + 1 \<le> repeats w (Ref_Rounds res) sig))"

lemma iters_length: "map Round_Iter rs = [1..<i] \<Longrightarrow> 1 \<le> i \<Longrightarrow> length rs + 1 = i"
  by (metis length_map length_upt le_add_diff_inverse2)

lemma ledgerOK_snoc:
  "ledgerOK i res \<Longrightarrow> 1 \<le> i \<Longrightarrow> Round_Iter r = i \<Longrightarrow> \<not> Verdict_Usable (Round_Verdict r) \<Longrightarrow> ledgerOK (i + 1) (addRound r res)"
  by (auto simp: ledgerOK_def addRound_def)

lemma addRound_simps [simp]:
  "Ref_Rounds (addRound r res) = Ref_Rounds res @ [r]" "Ref_FinalAnswer (addRound r res) = Ref_FinalAnswer res"
  "Ref_Usable (addRound r res) = Ref_Usable res" "Ref_Reason (addRound r res) = Ref_Reason res"
  by (simp_all add: addRound_def)

lemma keepBest_simps [simp]:
  "ls_noProgress (keepBest a v st) = ls_noProgress st" "ls_prevSignature (keepBest a v st) = ls_prevSignature st"
  "ls_brief (keepBest a v st) = ls_brief st" "ls_bestSet (keepBest a v st)"
  "Ref_Rounds (ls_result (keepBest a v st)) = Ref_Rounds (ls_result st)"
  "Ref_Usable (ls_result (keepBest a v st)) = Ref_Usable (ls_result st)" "Ref_Reason (ls_result (keepBest a v st)) = Ref_Reason (ls_result st)"
  by (auto simp: keepBest_def)

text \<open>A judged round keeps the best attempt so far.\<close>

lemma bestOK_keepBest:
  assumes "bestOK w task st" "judged w task r"
  shows "bestOK w task (keepBest (Round_Answer r) (Round_Verdict r) (st\<lparr>ls_result := addRound r (ls_result st)\<rparr>))"
proof (cases "\<not> ls_bestSet st \<or> length (modesOf r) < ls_bestModes st")
  case True
  have "length (modesOf r) \<le> length (modesOf r')" if "r' \<in> set (Ref_Rounds (ls_result st))" "\<not> unanswered r'" for r'
  proof -
    from that(1) assms(1) have "ls_bestSet st" by (auto simp: bestOK_def)
    moreover from that assms(1) have "ls_bestModes st \<le> length (modesOf r')" by (auto simp: bestOK_def)
    ultimately show ?thesis using True by simp
  qed
  with True assms(2) show ?thesis by (auto simp: bestOK_def keepBest_def modesOf_def [of r, symmetric])
next
  case False
  with assms(1) show ?thesis by (auto simp: bestOK_def keepBest_def modesOf_def [of r, symmetric])
qed

lemma judgeRound_loop:
  assumes "loopOK w task i st" "rw_gen w i task (ls_brief st) = Inr answer"
    and "judgeRound w cfg i answer (judgement w i task answer) st = Inr st'"
  shows "loopOK w task (i + 1) st'"
proof -
  let ?v = "judgement w i task answer"
  let ?r = "\<lparr>Round_Iter = i, Round_Answer = answer, Round_Verdict = ?v, Round_DurationMs = rw_elapsed w i\<rparr>"
  let ?st = "keepBest answer ?v (st\<lparr>ls_result := addRound ?r (ls_result st)\<rparr>)"
  let ?sig = "modeSignature (rw_lower w) (Verdict_FailureModes ?v)"
  let ?n = "if ?sig \<noteq> [] \<and> ?sig = ls_prevSignature st then ls_noProgress st + 1 else 0"
  from assms(3) have v: "\<not> Verdict_Usable ?v" by (auto simp: judgeRound_def Let_def)
  with assms(3) have st': "st' = ?st\<lparr>ls_noProgress := ?n, ls_prevSignature := ?sig, ls_brief := buildBrief ?v\<rparr>"
    by (auto simp: judgeRound_def Let_def split: if_splits)
  have "judged w task ?r" using assms(2) by (auto simp: judged_def)
  with bestOK_keepBest [of w task st ?r] assms(1) have "bestOK w task st'"
    by (simp add: st' loopOK_def bestOK_def)
  moreover have "stallOK w st'"
    using assms(1) by (auto simp: st' loopOK_def stallOK_def repeats_snoc modesOf_def)
      (auto simp: repeats_def)
  moreover have "ledgerOK (i + 1) (ls_result st')"
    using assms(1) v ledgerOK_snoc [of i "ls_result st" ?r] by (simp add: st' loopOK_def ledgerOK_def)
  ultimately show ?thesis by (simp add: loopOK_def)
qed

lemma judgeRound_stop:
  assumes "loopOK w task i st" "rw_gen w i task (ls_brief st) = Inr answer" "i \<le> limit"
    and "judgeRound w cfg i answer (judgement w i task answer) st = Inl res"
  shows "refineOutcomeOK w cfg task limit res"
proof -
  let ?v = "judgement w i task answer"
  let ?r = "\<lparr>Round_Iter = i, Round_Answer = answer, Round_Verdict = ?v, Round_DurationMs = rw_elapsed w i\<rparr>"
  let ?st = "keepBest answer ?v (st\<lparr>ls_result := addRound ?r (ls_result st)\<rparr>)"
  let ?sig = "modeSignature (rw_lower w) (Verdict_FailureModes ?v)"
  have r: "judged w task ?r" using assms(2) by (auto simp: judged_def)
  have len: "length (Ref_Rounds (ls_result st)) + 1 = i"
    using assms(1) iters_length by (auto simp: loopOK_def ledgerOK_def)
  have led: "ledgerOK i (ls_result st)" "1 \<le> i" using assms(1) by (simp_all add: loopOK_def)
  show ?thesis
  proof (cases "Verdict_Usable ?v")
    case True
    with assms(4) have "res = (addRound ?r (ls_result st))\<lparr>Ref_Usable := True, Ref_FinalAnswer := answer, Ref_Reason := StopUsable\<rparr>"
      by (simp add: judgeRound_def Let_def)
    with led len r True assms(3) show ?thesis by (auto simp: refineOutcomeOK_def ledgerOK_def)
  next
    case False
    with assms(4) have same: "?sig \<noteq> []" "?sig = ls_prevSignature st" "Loop_MaxNoProgress cfg \<le> ls_noProgress st + 1"
      and res: "res = (ls_result ?st)\<lparr>Ref_Reason := StopNoProgress\<rparr>"
      by (auto simp: judgeRound_def Let_def split: if_splits)
    have "bestOK w task ?st" using bestOK_keepBest [of w task st ?r] r assms(1) by (simp add: loopOK_def)
    then have "leastFabricated w task (Ref_Rounds res) (Ref_FinalAnswer res)"
      using bestOK_least [of w task ?st] res by simp
    moreover have "Loop_MaxNoProgress cfg + 1 \<le> repeats w (Ref_Rounds res) ?sig"
      using assms(1) same by (simp add: res loopOK_def stallOK_def repeats_snoc modesOf_def)
    ultimately show ?thesis using led len False same(1) assms(3) by (auto simp: res refineOutcomeOK_def ledgerOK_def)
  qed
qed

lemma failed_generation_loop:
  assumes "loopOK w task i st" "ls_bestSet st"
  shows "loopOK w task (i + 1) (st\<lparr>ls_result := addRound
           \<lparr>Round_Iter = i, Round_Answer = [], Round_Verdict = failedRound t ''generation-error'', Round_DurationMs = d\<rparr> (ls_result st)\<rparr>)"
proof -
  let ?r = "\<lparr>Round_Iter = i, Round_Answer = [], Round_Verdict = failedRound t ''generation-error'', Round_DurationMs = d\<rparr>"
  have r: "unanswered ?r" "\<not> Verdict_Usable (Round_Verdict ?r)" by (simp_all add: unanswered_def modesOf_def failedRound_def)
  have "bestOK w task (st\<lparr>ls_result := addRound ?r (ls_result st)\<rparr>)"
    using assms r(1) by (auto simp: loopOK_def bestOK_def)
  moreover have "stallOK w (st\<lparr>ls_result := addRound ?r (ls_result st)\<rparr>)"
    using assms(1) by (auto simp: loopOK_def stallOK_def repeats_snoc)
  ultimately show ?thesis using assms(1) ledgerOK_snoc [of i "ls_result st" ?r] r(2) by (simp add: loopOK_def)
qed

lemma refineFrom_outcome:
  assumes "loopOK w task i st" "i + left = limit + 1" "0 < limit" "refineFrom w cfg task i left st = (res, err)"
  shows "case err of None \<Rightarrow> refineOutcomeOK w cfg task limit res | Some e \<Rightarrow> Ref_Rounds res = [] \<and> \<not> Ref_Usable res"
  using assms
proof (induction left arbitrary: i st)
  case 0
  then have "map Round_Iter (Ref_Rounds res) = [1..<limit + 1]" "err = None" "res = ls_result st"
    by (simp_all add: loopOK_def ledgerOK_def)
  moreover from this have "length (Ref_Rounds res) = limit" using iters_length [of _ "limit + 1"] by simp
  moreover have best: "bestOK w task st" and led: "ledgerOK i (ls_result st)" using 0(1) by (simp_all add: loopOK_def)
  moreover have "ls_bestSet st" using best calculation(3,4) 0(3) by (auto simp: bestOK_def)
  with bestOK_least [OF best] have "leastFabricated w task (Ref_Rounds res) (Ref_FinalAnswer res)" using calculation(3) by simp
  ultimately show ?case by (simp add: refineOutcomeOK_def ledgerOK_def)
next
  case (Suc left)
  show ?case
  proof (cases "rw_gen w i task (ls_brief st)")
    case (Inl e)
    show ?thesis
    proof (cases "ls_bestSet st")
      case True
      from Suc.IH [OF failed_generation_loop [OF Suc.prems(1) True]] Suc.prems Inl True show ?thesis by simp
    next
      case False
      with Suc.prems Inl show ?thesis by (auto simp: loopOK_def bestOK_def ledgerOK_def)
    qed
  next
    case (Inr answer)
    show ?thesis
    proof (cases "judgeRound w cfg i answer (judgement w i task answer) st")
      case stop: (Inl r)
      with judgeRound_stop [OF Suc.prems(1) Inr _ stop] Suc.prems Inr show ?thesis by simp
    next
      case go: (Inr st')
      from Suc.IH [OF judgeRound_loop [OF Suc.prems(1) Inr go]] Suc.prems Inr go show ?thesis by simp
    qed
  qed
qed

text \<open>
  C39. The refinement loop makes at most its number of rounds, numbers them from one, and reports an
  answer as usable exactly if a round was judged usable, which is the last one and its answer the
  one returned. Otherwise it returns the answer of a judged round that no judged round beats in the number
  of failure modes, after all rounds or after the same failure modes came back often enough. It
  reports an error only if the first generation failed.
\<close>

theorem refinement_outcome:
  assumes "refineRun w cfg task = (res, err)"
  shows "(err = None \<longrightarrow> refineOutcomeOK w (withDefaults cfg) task (nat (Loop_MaxIters (withDefaults cfg))) res) \<and>
    (err \<noteq> None \<longrightarrow> Ref_Rounds res = [] \<and> \<not> Ref_Usable res)"
proof -
  have "0 < Loop_MaxIters (withDefaults cfg)" by (simp add: withDefaults_def DefaultMaxIters_def)
  with refineFrom_outcome [OF loopOK_start _ _ assms [unfolded refineRun_def], of "nat (Loop_MaxIters (withDefaults cfg))"]
  show ?thesis by (cases err) simp_all
qed

definition sampleAnswer :: "nat \<Rightarrow> string" where
  "sampleAnswer i = (if i = 1 then ''first'' else if i = 2 then ''second'' else ''third'')"

definition sampleVerdict :: "nat \<Rightarrow> Verdict" where
  "sampleVerdict i = noVerdict\<lparr>Verdict_FailureModes :=
     (if i = 1 then [''fabricated-cve'', ''unscoped''] else if i = 2 then [''unscoped''] else [''Unscoped '', ''fabricated-cve''])\<rparr>"

definition sampleRefine :: RefineWorld where
  "sampleRefine =
     \<lparr>rw_gen = (\<lambda>i _ _. Inr (sampleAnswer i)), rw_judge = (\<lambda>i _ _. Inr (sampleVerdict i)), rw_elapsed = (\<lambda>_. 5), rw_lower = id\<rparr>"

theorem refinement_outcome_witness:
  "\<exists>res. refineRun sampleRefine \<lparr>Loop_MaxIters = 0, Loop_MaxNoProgress = 0\<rparr> ''task'' = (res, None) \<and>
     length (Ref_Rounds res) = 3 \<and> \<not> Ref_Usable res \<and> Ref_FinalAnswer res = ''second''"
proof -
  let ?cfg = "\<lparr>Loop_MaxIters = 0, Loop_MaxNoProgress = 0\<rparr>"
  let ?run = "refineRun sampleRefine ?cfg ''task''"
  have run: "snd ?run = None" "Ref_Reason (fst ?run) = StopMaxIters" "Ref_FinalAnswer (fst ?run) = ''second''"
    by code_simp+
  have "refineRun sampleRefine ?cfg ''task'' = (fst ?run, None)" by (metis prod.collapse run(1))
  moreover from refinement_outcome [OF this] have "refineOutcomeOK sampleRefine (withDefaults ?cfg) ''task'' 3 (fst ?run)"
    by (simp add: withDefaults_def DefaultMaxIters_def)
  ultimately show ?thesis using run(2,3) by (auto simp: refineOutcomeOK_def)
qed

end
